(* ===== verification/Rush_Prelude.thy ===== *)
theory Rush_Prelude
  imports Main "HOL-Library.Word" "HOL-Library.AList" "HOL-Library.Multiset"
begin

text \<open>
  Shared vocabulary of the development: the machine integer types of the sources, the panics the
  sources can raise as values, results that are either a panic or a value, arrays indexed by a
  machine integer, and the generic facts on results, words and association lists that the
  component theories use.

  Machine integers are words of the width the source declares and wrap around, which is what the
  optimised build does; a pointer is the 64-bit address it holds. A \<open>panic!\<close>, a failed
  \<open>assert!\<close>, an \<open>unwrap\<close> of \<open>None\<close> and an index out of range are values of
  \<open>panic\<close>; a function that can panic returns \<open>'a res\<close>, where \<open>Inl\<close> is the panic
  and \<open>Inr\<close> the value, and the first panic ends the run.
\<close>

unbundle bit_operations_syntax

section \<open>Types\<close>

type_synonym u8 = "8 word"
type_synonym u16 = "16 word"
type_synonym u32 = "32 word"
type_synonym i32 = "32 word"
type_synonym u64 = "64 word"
type_synonym usize = "64 word"
type_synonym ptr = "64 word"

abbreviation (input) null_ptr :: ptr where
  "null_ptr \<equiv> 0"

text \<open>
  The ways a run of the program can be cut short. \<open>Diverges\<close> is no panic: it stands for a
  loop that did not end within the steps it was given.
\<close>

datatype panic =
    LinkUnderflow
  | FreelistOverflow
  | AllocationOverflow
  | IndexOutOfBounds
  | UnwrapNone
  | UnwrapErr string
  | DivisionByZero
  | AssertFailed string
  | LinkParseError string
  | AlreadyBorrowed
  | NotImplemented string
  | Panic string
  | Diverges

type_synonym 'a res = "panic + 'a"

section \<open>Results\<close>

definition bind_res :: "'a res \<Rightarrow> ('a \<Rightarrow> 'b res) \<Rightarrow> 'b res" where
  "bind_res m f = (case m of Inl e \<Rightarrow> Inl e | Inr x \<Rightarrow> f x)"

definition assert_res :: "bool \<Rightarrow> panic \<Rightarrow> unit res" where
  "assert_res b e = (if b then Inr () else Inl e)"

definition unwrap :: "'a option \<Rightarrow> 'a res" where
  "unwrap x = (case x of None \<Rightarrow> Inl UnwrapNone | Some v \<Rightarrow> Inr v)"

text \<open>\<open>for x in xs { s = f(x, s) }\<close>, left at the first panic.\<close>

fun fold_res :: "('a \<Rightarrow> 's \<Rightarrow> 's res) \<Rightarrow> 'a list \<Rightarrow> 's \<Rightarrow> 's res" where
  "fold_res f [] s = Inr s"
| "fold_res f (x # xs) s = bind_res (f x s) (fold_res f xs)"

text \<open>\<open>for _ in 0..n { s = f(s) }\<close>.\<close>

primrec repeat_res :: "nat \<Rightarrow> ('s \<Rightarrow> 's res) \<Rightarrow> 's \<Rightarrow> 's res" where
  "repeat_res 0 f s = Inr s"
| "repeat_res (Suc n) f s = bind_res (f s) (repeat_res n f)"

lemma repeat_res_pos: "0 < n \<Longrightarrow> repeat_res n f s = bind_res (f s) (repeat_res (n - 1) f)"
  by (cases n) simp_all

named_theorems res_simps \<open>rewriting of results to their successful or panicking form\<close>

lemma bind_res_simps [simp]:
  "bind_res (Inl e) f = Inl e"
  "bind_res (Inr x) f = f x"
  by (simp_all add: bind_res_def)

lemma bind_res_eq_Inr [res_simps]:
  "bind_res m f = Inr y \<longleftrightarrow> (\<exists>x. m = Inr x \<and> f x = Inr y)"
  by (cases m) auto

lemma bind_res_eq_Inl [res_simps]:
  "bind_res m f = Inl e \<longleftrightarrow> m = Inl e \<or> (\<exists>x. m = Inr x \<and> f x = Inl e)"
  by (cases m) auto

lemma bind_res_assoc: "bind_res (bind_res m f) g = bind_res m (\<lambda>x. bind_res (f x) g)"
  by (cases m) auto

lemma bind_res_cong [fundef_cong]:
  "m = m' \<Longrightarrow> (\<And>x. m' = Inr x \<Longrightarrow> f x = f' x) \<Longrightarrow> bind_res m f = bind_res m' f'"
  by (cases m') auto

lemma assert_res_simps [simp]:
  "assert_res True e = Inr ()"
  "assert_res False e = Inl e"
  by (simp_all add: assert_res_def)

lemma assert_res_eq_Inr [res_simps]: "assert_res b e = Inr u \<longleftrightarrow> b"
  by (simp add: assert_res_def)

lemma assert_res_eq_Inl [res_simps]: "assert_res b e = Inl e' \<longleftrightarrow> \<not> b \<and> e' = e"
  by (auto simp: assert_res_def)

lemma unwrap_simps [simp]:
  "unwrap None = Inl UnwrapNone"
  "unwrap (Some v) = Inr v"
  by (simp_all add: unwrap_def)

lemma unwrap_eq_Inr [res_simps]: "unwrap x = Inr v \<longleftrightarrow> x = Some v"
  by (cases x) auto

lemma unwrap_eq_Inl [res_simps]: "unwrap x = Inl e \<longleftrightarrow> x = None \<and> e = UnwrapNone"
  by (cases x) auto

lemma fold_res_append:
  "fold_res f (xs @ ys) s = bind_res (fold_res f xs s) (fold_res f ys)"
proof (induction xs arbitrary: s)
  case Nil
  then show ?case by simp
next
  case (Cons x xs)
  then show ?case by (cases "f x s") auto
qed

text \<open>An invariant of the body is an invariant of the loop.\<close>

lemma fold_res_invariant:
  assumes "\<And>x s s'. x \<in> set xs \<Longrightarrow> P s \<Longrightarrow> f x s = Inr s' \<Longrightarrow> P s'"
    and "P s" and "fold_res f xs s = Inr s'"
  shows "P s'"
  using assms
proof (induction xs arbitrary: s)
  case Nil
  then show ?case by simp
next
  case (Cons x xs)
  then obtain t where "f x s = Inr t" and t: "fold_res f xs t = Inr s'"
    by (auto simp: res_simps)
  with Cons.prems have "P t" by auto
  then show ?case using Cons.IH [OF _ _ t] Cons.prems(1) by auto
qed

lemma repeat_res_invariant:
  assumes "\<And>s s'. P s \<Longrightarrow> f s = Inr s' \<Longrightarrow> P s'" and "P s" and "repeat_res n f s = Inr s'"
  shows "P s'"
  using assms(2,3)
proof (induction n arbitrary: s)
  case 0
  then show ?case by simp
next
  case (Suc n)
  then show ?case using assms(1) by (auto simp: res_simps)
qed

text \<open>A body that cannot panic under its invariant gives a loop that cannot panic.\<close>

lemma fold_res_total:
  assumes "\<And>x s. x \<in> set xs \<Longrightarrow> P s \<Longrightarrow> \<exists>s'. f x s = Inr s' \<and> P s'" and "P s"
  shows "\<exists>s'. fold_res f xs s = Inr s' \<and> P s'"
  using assms
proof (induction xs arbitrary: s)
  case Nil
  then show ?case by simp
next
  case (Cons x xs)
  then obtain t where "f x s = Inr t" and "P t" by (meson list.set_intros(1))
  then show ?case using Cons.IH [of t] Cons.prems(1) by auto
qed

section \<open>Words\<close>

named_theorems word_nat \<open>words read as natural numbers\<close>

lemma unat_add_no_wrap:
  fixes a b :: "'a::len word"
  assumes "unat a + unat b < 2 ^ LENGTH('a)"
  shows "unat (a + b) = unat a + unat b"
  using assms by (simp add: unat_word_ariths)

lemma unat_sub_no_wrap:
  fixes a b :: "'a::len word"
  assumes "unat b \<le> unat a"
  shows "unat (a - b) = unat a - unat b"
  using assms by (simp add: unat_sub word_le_nat_alt)

lemma unat_bound_16: "unat (w :: u16) < 65536"
  using unsigned_less [of w, where ?'a = nat] by simp

lemma unat_bound_8: "unat (w :: u8) < 256"
  using unsigned_less [of w, where ?'a = nat] by simp

lemma unat_bound_32: "unat (w :: u32) < 4294967296"
  using unsigned_less [of w, where ?'a = nat] by simp

lemma unat_bound_64: "unat (w :: u64) < 18446744073709551616"
  using unsigned_less [of w, where ?'a = nat] by simp

lemma word_eq_unat_iff: "(a :: 'a::len word) = b \<longleftrightarrow> unat a = unat b"
  by (simp add: word_unat_eq_iff)

lemma word_eq_of_natI: "unat w = n \<Longrightarrow> w = of_nat n"
  by auto

lemma unat_ucast_16_64 [simp]: "unat (ucast (w :: u16) :: u64) = unat w"
  using unat_bound_16 [of w] by (simp add: unsigned_ucast_eq take_bit_nat_eq_self)

lemma unat_ucast_8_64 [simp]: "unat (ucast (w :: u8) :: u64) = unat w"
  using unat_bound_8 [of w] by (simp add: unsigned_ucast_eq take_bit_nat_eq_self)

lemma ffff_mask: "0xffff = (mask 16 :: 'a::len word)"
  by (simp add: mask_numeral)

lemma ffff_ffff_mask: "0xffffffff = (mask 32 :: 'a::len word)"
  by (simp add: mask_numeral)

section \<open>Association lists, the model of hash maps\<close>

text \<open>
  A \<open>HashMap\<close> is an association list; only its keys and what \<^const>\<open>map_of\<close> finds
  matter, and the order in which the program walks it is a separate parameter where it is used.
\<close>

type_synonym ('k, 'v) hashmap = "('k \<times> 'v) list"

abbreviation keys_of :: "('k, 'v) hashmap \<Rightarrow> 'k list" where
  "keys_of m \<equiv> map fst m"

lemma keys_of_update_set: "set (keys_of (AList.update k v m)) = insert k (set (keys_of m))"
  using dom_map_of_conv_image_fst [of "AList.update k v m"] dom_map_of_conv_image_fst [of m]
  by (simp add: update_conv' dom_fun_upd)

lemma map_of_upd [simp]: "map_of (AList.update k v m) = (map_of m)(k \<mapsto> v)"
  by (simp add: update_conv')

lemma map_of_del [simp]: "map_of (AList.delete k m) = (map_of m)(k := None)"
  by (simp add: delete_conv')

lemma map_of_eq_None_keys: "map_of m k = None \<longleftrightarrow> k \<notin> set (keys_of m)"
  by (simp add: map_of_eq_None_iff)

end
