(* ===== verification/Rush_Regex.thy ===== *)
theory Rush_Regex
  imports Rush_Prelude
begin

text \<open>
  The part of the \<open>regex\<close> crate's search semantics that the sources rely on. The crate
  documents leftmost-first matching: the match that starts leftmost wins, and among those the one a
  backtracking search with greedy repetition would find first. The matcher below is that search,
  with the rest of the pattern as a continuation. Patterns are the syntax trees of the literals in
  \<open>lib.rs\<close>, \<open>config.rs\<close> and \<open>memory.rs\<close>. Strings are ASCII, on which the
  Unicode classes \<open>\w\<close> and \<open>\d\<close> are the letters, digits and underscore below.
\<close>

section \<open>Patterns\<close>

datatype cclass = Exactly char | DigitClass | WordClass

definition is_digit :: "char \<Rightarrow> bool" where
  "is_digit c = (48 \<le> (of_char c :: nat) \<and> of_char c \<le> (57 :: nat))"

definition is_word_char :: "char \<Rightarrow> bool" where
  "is_word_char c =
     (is_digit c \<or> (65 \<le> (of_char c :: nat) \<and> of_char c \<le> (90 :: nat)) \<or>
      (97 \<le> (of_char c :: nat) \<and> of_char c \<le> (122 :: nat)) \<or> c = CHR ''_'')"

fun in_class :: "cclass \<Rightarrow> char \<Rightarrow> bool" where
  "in_class (Exactly d) c = (c = d)"
| "in_class DigitClass c = is_digit c"
| "in_class WordClass c = is_word_char c"

datatype rx =
    REmpty
  | RClass cclass
  | RSeq rx rx
  | ROpt rx
  | RStar rx
  | RGroup nat rx
  | RStart
  | REnd

abbreviation RPlus :: "rx \<Rightarrow> rx" where
  "RPlus r \<equiv> RSeq r (RStar r)"

abbreviation RLit :: "char \<Rightarrow> rx" where
  "RLit c \<equiv> RClass (Exactly c)"

fun rseq :: "rx list \<Rightarrow> rx" where
  "rseq [] = REmpty"
| "rseq [r] = r"
| "rseq (r # rs) = RSeq r (rseq rs)"

type_synonym caps = "nat \<rightharpoonup> string"

section \<open>Matching\<close>

definition or_else :: "'a option \<Rightarrow> 'a option \<Rightarrow> 'a option" where
  "or_else a b = (case a of None \<Rightarrow> b | Some x \<Rightarrow> Some x)"

text \<open>
  \<open>rx_match n r s c k\<close> matches \<open>r\<close> at the front of \<open>s\<close>, a suffix of a string of
  length \<open>n\<close>, and calls \<open>k\<close> on what is left. A repetition asks for progress, so that it
  ends.
\<close>

function rx_match :: "nat \<Rightarrow> rx \<Rightarrow> string \<Rightarrow> caps \<Rightarrow> (string \<Rightarrow> caps \<Rightarrow> 'r option) \<Rightarrow> 'r option" where
  "rx_match n REmpty s c k = k s c"
| "rx_match n (RClass cl) s c k =
     (case s of [] \<Rightarrow> None | x # xs \<Rightarrow> if in_class cl x then k xs c else None)"
| "rx_match n (RSeq r1 r2) s c k = rx_match n r1 s c (\<lambda>s' c'. rx_match n r2 s' c' k)"
| "rx_match n (ROpt r) s c k = or_else (rx_match n r s c k) (k s c)"
| "rx_match n (RStar r) s c k =
     or_else (rx_match n r s c
               (\<lambda>s' c'. if length s' < length s then rx_match n (RStar r) s' c' k else None))
       (k s c)"
| "rx_match n (RGroup i r) s c k =
     rx_match n r s c (\<lambda>s' c'. k s' (c'(i \<mapsto> take (length s - length s') s)))"
| "rx_match n RStart s c k = (if length s = n then k s c else None)"
| "rx_match n REnd s c k = (if s = [] then k s c else None)"
  by pat_completeness auto
termination
  by (relation "measures [\<lambda>(n, r, s, c, k). size r, \<lambda>(n, r, s, c, k). length s]") auto

text \<open>The leftmost match: text before it, text after it, its captures.\<close>

fun rx_find :: "nat \<Rightarrow> rx \<Rightarrow> string \<Rightarrow> (string \<times> string \<times> caps) option" where
  "rx_find n r s =
     or_else (map_option (\<lambda>(s', c). ([], s', c)) (rx_match n r s Map.empty (\<lambda>s' c. Some (s', c))))
       (case s of [] \<Rightarrow> None
        | x # xs \<Rightarrow> map_option (\<lambda>(pre, s', c). (x # pre, s', c)) (rx_find n r xs))"

definition captures :: "rx \<Rightarrow> string \<Rightarrow> caps option" where
  "captures r s = map_option (\<lambda>(pre, s', c). c) (rx_find (length s) r s)"

text \<open>
  \<open>replace_all\<close> with the replacement computed from the captures. After an empty match the
  search moves on by one character.
\<close>

lemma rx_find_length:
  "rx_find n r s = Some (pre, s', c) \<Longrightarrow> length pre \<le> length s"
proof (induction s arbitrary: pre s' c)
  case Nil
  then show ?case by (auto simp: or_else_def split: option.splits)
next
  case (Cons x xs)
  then show ?case
    by (subst (asm) rx_find.simps) (fastforce simp: or_else_def split: option.splits)
qed

fun replace_all :: "nat \<Rightarrow> nat \<Rightarrow> rx \<Rightarrow> (caps \<Rightarrow> string) \<Rightarrow> string \<Rightarrow> string" where
  "replace_all 0 n r f s = s"
| "replace_all (Suc fuel) n r f s =
     (case rx_find n r s of
        None \<Rightarrow> s
      | Some (pre, s', c) \<Rightarrow>
          if length pre + length s' < length s then pre @ f c @ replace_all fuel n r f s'
          else pre @ f c @
            (case s' of [] \<Rightarrow> [] | x # xs \<Rightarrow> x # replace_all fuel n r f xs))"

section \<open>Greedy runs of a class\<close>

lemma or_else_simps [simp]:
  "or_else None b = b"
  "or_else (Some x) b = Some x"
  by (simp_all add: or_else_def)

declare rx_match.simps(5) [simp del] rx_find.simps [simp del]

text \<open>
  A repetition of a class followed by something that is not in the class takes the whole run, if
  the rest of the pattern matches after it.
\<close>

lemma rx_star_stop:
  assumes "s = [] \<or> \<not> in_class cl (hd s)"
  shows "rx_match n (RStar (RClass cl)) s c k = k s c"
  using assms by (subst rx_match.simps(5)) (auto split: list.splits)

lemma rx_star_step:
  assumes "in_class cl x" and "rx_match n (RStar (RClass cl)) s c k = Some v"
  shows "rx_match n (RStar (RClass cl)) (x # s) c k = Some v"
  using assms by (simp add: rx_match.simps(5) [of n _ "x # s"])

lemma rx_star_run:
  assumes "list_all (in_class cl) w" and "s = [] \<or> \<not> in_class cl (hd s)"
    and "k s c = Some v"
  shows "rx_match n (RStar (RClass cl)) (w @ s) c k = Some v"
  using assms(1)
  by (induction w) (simp_all add: rx_star_stop [OF assms(2)] assms(3) rx_star_step)

lemma rx_plus_run:
  assumes "list_all (in_class cl) w" and "w \<noteq> []" and "s = [] \<or> \<not> in_class cl (hd s)"
    and "k s c = Some v"
  shows "rx_match n (RPlus (RClass cl)) (w @ s) c k = Some v"
proof -
  from assms(2) obtain x xs where w: "w = x # xs" by (cases w) auto
  with assms(1) have "in_class cl x" and xs: "list_all (in_class cl) xs" by auto
  then show ?thesis using rx_star_run [OF xs assms(3), of k c v n] assms(4) by (simp add: w)
qed

section \<open>What a match says about the text\<close>

lemma rx_class_inv:
  "rx_match n (RClass cl) s c k = Some v \<Longrightarrow> \<exists>x s'. s = x # s' \<and> in_class cl x \<and> k s' c = Some v"
  by (auto split: list.splits if_splits)

lemma rx_star_inv:
  "rx_match n (RStar (RClass cl)) s c k = Some v \<Longrightarrow>
   \<exists>w s'. s = w @ s' \<and> list_all (in_class cl) w \<and> k s' c = Some v"
proof (induction s)
  case Nil
  then show ?case by (simp add: rx_match.simps(5))
next
  case (Cons x xs)
  show ?case
  proof (cases "in_class cl x \<and> rx_match n (RStar (RClass cl)) xs c k = Some v")
    case True
    then obtain w s' where "xs = w @ s'" "list_all (in_class cl) w" "k s' c = Some v"
      using Cons.IH by auto
    then show ?thesis using True by (intro exI [of _ "x # w"] exI [of _ s']) simp
  next
    case False
    then have "k (x # xs) c = Some v"
      using Cons.prems by (auto simp: rx_match.simps(5) [of n _ "x # xs"] or_else_def
          split: if_splits option.splits)
    then show ?thesis by (intro exI [of _ "[]"] exI [of _ "x # xs"]) simp
  qed
qed

lemma rx_group_plus_inv:
  assumes "rx_match n (RGroup i (RPlus (RClass cl))) s c k = Some v"
  shows "\<exists>w s'. s = w @ s' \<and> w \<noteq> [] \<and> list_all (in_class cl) w \<and> k s' (c(i \<mapsto> w)) = Some v"
proof -
  let ?k = "\<lambda>s' c'. k s' (c'(i \<mapsto> take (length s - length s') s))"
  have "rx_match n (RClass cl) s c (\<lambda>s' c'. rx_match n (RStar (RClass cl)) s' c' ?k) = Some v"
    using assms by (simp only: rx_match.simps(3,6))
  from rx_class_inv [OF this] obtain x s1
    where x: "s = x # s1" "in_class cl x" "rx_match n (RStar (RClass cl)) s1 c ?k = Some v"
    by (elim exE conjE)
  obtain w s' where w: "s1 = w @ s'" "list_all (in_class cl) w" "?k s' c = Some v"
    using rx_star_inv [OF x(3)] by auto
  then show ?thesis using x(1,2) by (intro exI [of _ "x # w"] exI [of _ s']) simp
qed

lemma rx_find_inv:
  "rx_find n r s = Some (pre, s', c) \<Longrightarrow>
   \<exists>s0. s = pre @ s0 \<and> rx_match n r s0 Map.empty (\<lambda>s' c. Some (s', c)) = Some (s', c)"
proof (induction s arbitrary: pre)
  case Nil
  then show ?case by (auto simp: rx_find.simps or_else_def split: option.splits)
next
  case (Cons x xs)
  note step = rx_find.simps [of n r "x # xs", unfolded list.case]
  show ?case
  proof (cases "rx_match n r (x # xs) Map.empty (\<lambda>s' c. Some (s', c))")
    case None
    then obtain pre' where "rx_find n r xs = Some (pre', s', c)" "pre = x # pre'"
      using Cons.prems unfolding step by auto
    then show ?thesis using Cons.IH by simp
  next
    case (Some m)
    then show ?thesis using Cons.prems unfolding step by (cases m) auto
  qed
qed

end
