(* ===== verification/Rush_Lib.thy ===== *)
theory Rush_Lib
  imports Rush_Regex
begin

text \<open>
  \<open>src/lib.rs\<close>: filling and copying byte slices, alignment, byte order, decimal numbers with
  thousands separators, random bytes. A byte slice is the list of its bytes; a function that writes
  through a \<open>&mut [u8]\<close> returns the new contents.
\<close>

section \<open>Byte slices\<close>

definition fill :: "u8 list \<Rightarrow> usize \<Rightarrow> u8 \<Rightarrow> u8 list" where
  "fill dst len val =
     (let n = min (unat len) (length dst) in replicate n val @ drop n dst)"

definition copy :: "u8 list \<Rightarrow> u8 list \<Rightarrow> usize \<Rightarrow> u8 list" where
  "copy dst src len =
     (let n = min (unat len) (min (length src) (length dst)) in take n src @ drop n dst)"

lemma length_fill [simp]: "length (fill dst len val) = length dst"
  by (simp add: fill_def Let_def)

lemma length_copy [simp]: "length (copy dst src len) = length dst"
  by (simp add: copy_def Let_def)

lemma fill_nth:
  "i < length dst \<Longrightarrow> fill dst len val ! i = (if i < unat len then val else dst ! i)"
  by (auto simp: fill_def Let_def nth_append min_def)

lemma copy_nth:
  assumes "i < length dst"
  shows "copy dst src len ! i = (if i < unat len \<and> i < length src then src ! i else dst ! i)"
  using assms by (auto simp: copy_def Let_def nth_append min_def)

lemma copy_exact:
  assumes "unat len = length src" and "length src \<le> length dst"
  shows "copy dst src len = src @ drop (length src) dst"
  using assms by (simp add: copy_def)

section \<open>Alignment\<close>

definition align :: "usize \<Rightarrow> usize \<Rightarrow> usize res" where
  "align val sz =
     (if sz = 0 then Inl DivisionByZero
      else if val mod sz = 0 then Inr val
      else Inr (val + sz - (val mod sz)))"

lemma unat_mod_word: "unat (a mod b) = unat a mod unat (b :: 'a::len word)"
  by (simp add: unat_mod)

text \<open>The result is the least multiple of \<open>size\<close> that is not below \<open>value\<close>.\<close>

lemma align_correct:
  assumes "sz \<noteq> 0" and "unat val + unat sz < 2 ^ 64"
  shows "\<exists>r. align val sz = Inr r \<and> unat sz dvd unat r \<and> unat val \<le> unat r
    \<and> unat r < unat val + unat sz"
proof (cases "val mod sz = 0")
  case True
  then have "unat sz dvd unat val"
    by (metis mod_eq_0_iff_dvd unat_0 unat_mod_word)
  moreover from assms(1) have "0 < unat sz"
    by (simp add: unat_gt_0)
  ultimately show ?thesis using assms True by (simp add: align_def)
next
  case False
  let ?m = "unat val mod unat sz"
  from assms(1) have sz: "0 < unat sz" by (simp add: unat_gt_0)
  then have m: "?m < unat sz" by simp
  have m0: "?m \<noteq> 0" using False by (simp add: word_eq_unat_iff unat_mod_word)
  have "unat (val + sz) = unat val + unat sz"
    using assms(2) by (simp add: unat_add_no_wrap)
  then have u: "unat (val + sz - val mod sz) = unat val + unat sz - ?m"
    using m by (simp add: unat_sub_no_wrap unat_mod_word)
  have "unat val + unat sz - ?m = (unat val div unat sz + 1) * unat sz"
    using m by (simp add: algebra_simps minus_mod_eq_mult_div [symmetric])
  then have "unat sz dvd unat val + unat sz - ?m" by simp
  then show ?thesis
    using assms(1) False u m m0 by (auto simp: align_def)
qed

section \<open>Byte order\<close>

datatype target_endian = LittleEndian | BigEndian

text \<open>\<open>u16::swap_bytes\<close> and \<open>u32::swap_bytes\<close> of the standard library.\<close>

definition swap_bytes16 :: "u16 \<Rightarrow> u16" where
  "swap_bytes16 w = push_bit 8 w OR drop_bit 8 w"

definition swap_bytes32 :: "u32 \<Rightarrow> u32" where
  "swap_bytes32 w =
     push_bit 24 (take_bit 8 w) OR push_bit 16 (take_bit 8 (drop_bit 8 w)) OR
     push_bit 8 (take_bit 8 (drop_bit 16 w)) OR drop_bit 24 w"

fun htonl :: "target_endian \<Rightarrow> u32 \<Rightarrow> u32" where
  "htonl LittleEndian l = swap_bytes32 l"
| "htonl BigEndian l = l"

fun ntohl :: "target_endian \<Rightarrow> u32 \<Rightarrow> u32" where
  "ntohl LittleEndian l = swap_bytes32 l"
| "ntohl BigEndian l = l"

fun htons :: "target_endian \<Rightarrow> u16 \<Rightarrow> u16" where
  "htons LittleEndian s = swap_bytes16 s"
| "htons BigEndian s = s"

fun ntohs :: "target_endian \<Rightarrow> u16 \<Rightarrow> u16" where
  "ntohs LittleEndian s = swap_bytes16 s"
| "ntohs BigEndian s = s"

lemma swap_bytes16_swap [simp]: "swap_bytes16 (swap_bytes16 w) = w"
  by (rule bit_word_eqI) (auto simp: swap_bytes16_def bit_simps)

lemma bit_swap_bytes32:
  "n < 8 \<Longrightarrow> bit (swap_bytes32 w) n = bit w (n + 24)"
  "8 \<le> n \<Longrightarrow> n < 16 \<Longrightarrow> bit (swap_bytes32 w) n = bit w (n + 8)"
  "16 \<le> n \<Longrightarrow> n < 24 \<Longrightarrow> bit (swap_bytes32 w) n = bit w (n - 8)"
  "24 \<le> n \<Longrightarrow> n < 32 \<Longrightarrow> bit (swap_bytes32 w) n = bit w (n - 24)"
  by (auto simp: swap_bytes32_def bit_simps add.commute dest: bit_imp_le_length)

lemma swap_bytes32_swap [simp]: "swap_bytes32 (swap_bytes32 w) = w"
proof (rule bit_word_eqI)
  fix n :: nat
  assume "n < LENGTH(32)"
  then consider "n < 8" | "8 \<le> n" "n < 16" | "16 \<le> n" "n < 24" | "24 \<le> n" "n < 32"
    by fastforce
  then show "bit (swap_bytes32 (swap_bytes32 w)) n = bit w n"
    by cases (simp_all add: bit_swap_bytes32)
qed

lemma ntohs_htons [simp]: "ntohs e (htons e s) = s"
  by (cases e) simp_all

lemma ntohl_htonl [simp]: "ntohl e (htonl e l) = l"
  by (cases e) simp_all

section \<open>Decimal numbers with thousands separators\<close>

text \<open>\<open>format!("{}", n)\<close>.\<close>

definition digit_char :: "nat \<Rightarrow> char" where
  "digit_char d = char_of (48 + d)"

fun dec_string :: "nat \<Rightarrow> string" where
  "dec_string n =
     (if n < 10 then [digit_char n] else dec_string (n div 10) @ [digit_char (n mod 10)])"

declare dec_string.simps [simp del]

text \<open>\<open>^(\d\d?\d?)(\d{3}*)$\<close> and \<open>(\d{3})\<close>.\<close>

definition CVLEFTNUM :: rx where
  "CVLEFTNUM =
     rseq [RStart,
       RGroup 1 (rseq [RClass DigitClass, ROpt (RClass DigitClass), ROpt (RClass DigitClass)]),
       RGroup 2 (RStar (rseq [RClass DigitClass, RClass DigitClass, RClass DigitClass])),
       REnd]"

definition CVTHOUSANDS :: rx where
  "CVTHOUSANDS = RGroup 1 (rseq [RClass DigitClass, RClass DigitClass, RClass DigitClass])"

definition comma_value :: "u64 \<Rightarrow> string" where
  "comma_value n =
     (let s = dec_string (unat n) in
      case captures CVLEFTNUM s of
        Some cap \<Rightarrow>
          (let left = the (cap 1); num = the (cap 2);
               r = rev num
           in left @ rev (replace_all (length r) (length r) CVTHOUSANDS
                            (\<lambda>c. the (c 1) @ '','') r))
      | None \<Rightarrow> s)"

section \<open>Random bytes\<close>

text \<open>
  \<open>getrandom(2)\<close> is the environment's: given the number of bytes asked for, the count it
  returns and the bytes it wrote.
\<close>

definition random_bytes :: "(nat \<Rightarrow> int \<times> u8 list) \<Rightarrow> u8 list \<Rightarrow> usize \<Rightarrow> u8 list res" where
  "random_bytes getrandom dst n =
     (let n = min (unat n) (length dst) in
      if fst (getrandom n) \<noteq> int n then Inl (Panic ''getrandom(2) failed'')
      else Inr (take n (snd (getrandom n)) @ drop n dst))"

end
