(* ===== verification/Rush_Lib_Correct.thy ===== *)
theory Rush_Lib_Correct
  imports Rush_Lib
begin

text \<open>
  The numbers \<open>comma_value\<close> of \<open>src/lib.rs\<close> prints. The code splits the digits with two
  regular expressions and reverses; the reference below cuts three digits at a time off the end.
\<close>

section \<open>Reference definitions\<close>

fun thousands :: "string \<Rightarrow> string" where
  "thousands s =
     (if length s \<le> 3 then s
      else thousands (take (length s - 3) s) @ '','' @ drop (length s - 3) s)"

definition dec_value :: "string \<Rightarrow> nat" where
  "dec_value s = foldl (\<lambda>v c. 10 * v + (of_char c - 48)) 0 s"

declare thousands.simps [simp del]

section \<open>Decimal digits\<close>

lemma digit_char_value: "d < 10 \<Longrightarrow> of_char (digit_char d) = 48 + d"
  by (simp add: digit_char_def)

lemma is_digit_digit_char: "d < 10 \<Longrightarrow> is_digit (digit_char d)"
  by (simp add: is_digit_def digit_char_value)

lemma dec_string_digits: "list_all is_digit (dec_string n)"
  by (induction n rule: dec_string.induct)
    (subst dec_string.simps, simp add: is_digit_digit_char)

lemma dec_string_nonempty: "dec_string n \<noteq> []"
  by (subst dec_string.simps) simp

lemma dec_value_dec_string: "dec_value (dec_string n) = n"
proof (induction n rule: dec_string.induct)
  case (1 n)
  then show ?case
    by (subst dec_string.simps) (auto simp: dec_value_def digit_char_value)
qed

lemma comma_not_digit: "is_digit c \<Longrightarrow> c \<noteq> CHR '',''"
  by (auto simp: is_digit_def)

lemma filter_thousands:
  "list_all is_digit s \<Longrightarrow> filter (\<lambda>c. c \<noteq> CHR '','') (thousands s) = s"
proof (induction s rule: thousands.induct)
  case (1 s)
  have all: "filter (\<lambda>c. c \<noteq> CHR '','') t = t" if "set t \<subseteq> set s" for t
    using that 1(2) by (auto simp: list_all_iff filter_id_conv dest: comma_not_digit)
  show ?case
  proof (cases "length s \<le> 3")
    case True
    then show ?thesis by (simp add: thousands.simps [of s] all)
  next
    case False
    have "list_all is_digit (take (length s - 3) s)"
      using 1(2) by (auto simp: list_all_iff dest: in_set_takeD)
    then show ?thesis
      using False 1(1) by (simp add: thousands.simps [of s] all set_drop_subset)
  qed
qed

section \<open>The regular expressions\<close>

abbreviation trip :: rx where
  "trip \<equiv> rseq [RClass DigitClass, RClass DigitClass, RClass DigitClass]"

lemma rx_trip:
  assumes "list_all is_digit (a # b # d # s)"
  shows "rx_match n trip (a # b # d # s) c k = k s c"
  using assms by simp

lemma length3: "3 \<le> length s \<Longrightarrow> \<exists>a b d t. s = a # b # d # t"
  by (cases s; cases "tl s"; cases "tl (tl s)") auto

lemma rx_trip_short: "length s < 3 \<Longrightarrow> rx_match n trip s c k = None"
  by (auto split: list.splits)

lemma trips_all:
  assumes "list_all is_digit s" and "3 dvd length s" and "k [] c = Some v"
  shows "rx_match n (RStar trip) s c k = Some v"
  using assms(1,2)
proof (induction s rule: measure_induct_rule [of length])
  case (less s)
  show ?case
  proof (cases "s = []")
    case True
    then show ?thesis using assms(3) by (simp add: rx_match.simps(5))
  next
    case False
    then obtain a b d t where s: "s = a # b # d # t"
      using less.prems(2) length3 [of s] by (metis dvd_imp_le length_greater_0_conv)
    have "3 dvd length t" using less.prems(2) by (simp add: s dvd_def) presburger
    then have "rx_match n (RStar trip) t c k = Some v"
      using less.IH [of t] less.prems(1) by (simp add: s)
    then show ?thesis
      by (subst rx_match.simps(5)) (use less.prems(1) s in \<open>simp del: rseq.simps add: rx_trip\<close>)
  qed
qed

lemma trips_none:
  assumes "list_all is_digit s" and "\<not> 3 dvd length s"
    and "\<And>s' c'. s' \<noteq> [] \<Longrightarrow> k s' c' = None"
  shows "rx_match n (RStar trip) s c k = None"
  using assms(1,2)
proof (induction s rule: measure_induct_rule [of length])
  case (less s)
  have k: "k s c = None" using assms(3) less.prems(2) by (cases s) auto
  show ?case
  proof (cases "length s < 3")
    case True
    show ?thesis
      by (subst rx_match.simps(5)) (simp only: rx_trip_short [OF True] k or_else_simps)
  next
    case False
    then obtain a b d t where s: "s = a # b # d # t" using length3 [of s] by auto
    have "\<not> 3 dvd length t" using less.prems(2) by (simp add: s) presburger
    then have "rx_match n (RStar trip) t c k = None"
      using less.IH [of t] less.prems(1) by (simp add: s)
    then show ?thesis
      by (subst rx_match.simps(5))
        (use less.prems(1) s k in \<open>simp del: rseq.simps add: rx_trip\<close>)
  qed
qed

abbreviation triples_to_end :: rx where
  "triples_to_end \<equiv> RSeq (RGroup 2 (RStar trip)) REnd"

lemma rx_triples_to_end:
  assumes "list_all is_digit t"
  shows "rx_match n triples_to_end t c (\<lambda>s c. Some (s, c)) =
    (if 3 dvd length t then Some ([], c(2 \<mapsto> t)) else None)"
proof (cases "3 dvd length t")
  case True
  show ?thesis
    using trips_all [OF assms True, of "\<lambda>s' c'. if s' = [] then Some (s', c'(2 \<mapsto> take (length t - length s') t)) else None"]
      True by simp
next
  case False
  show ?thesis
    using trips_none [OF assms False, of "\<lambda>s' c'. if s' = [] then Some (s', c'(2 \<mapsto> take (length t - length s') t)) else None"]
      False by simp
qed

text \<open>How many digits stand before the first comma.\<close>

abbreviation lead :: "string \<Rightarrow> nat" where
  "lead s \<equiv> Suc ((length s - 1) mod 3)"

lemma rx_lead:
  assumes digits: "list_all is_digit s" and "s \<noteq> []"
    and k: "\<And>t c. list_all is_digit t \<Longrightarrow> k t c = (if 3 dvd length t then Some (f t c) else None)"
  shows "rx_match n (RGroup 1 (rseq [RClass DigitClass, ROpt (RClass DigitClass), ROpt (RClass DigitClass)])) s c k =
    Some (f (drop (lead s) s) (c(1 \<mapsto> take (lead s) s)))"
proof (cases "length s < 3")
  case True
  then consider a where "s = [a]" | a b where "s = [a, b]"
    using assms(2) by (cases s; cases "tl s"; cases "tl (tl s)") auto
  then show ?thesis using digits by cases (simp_all add: k)
next
  case False
  then obtain a b d t where s: "s = a # b # d # t" using length3 [of s] by auto
  have "(m mod 3 = 0 \<and> Suc m mod 3 = 1 \<and> Suc (Suc m) mod 3 = 2)
    \<or> (m mod 3 = 1 \<and> Suc m mod 3 = 2 \<and> Suc (Suc m) mod 3 = 0)
    \<or> (m mod 3 = 2 \<and> Suc m mod 3 = 0 \<and> Suc (Suc m) mod 3 = 1)" for m :: nat
    by presburger
  from this [of "length t"] show ?thesis
    using digits by (elim disjE conjE) (simp_all add: s k dvd_eq_mod_eq_0)
qed

lemma captures_leftnum:
  assumes "list_all is_digit s" and "s \<noteq> []"
  shows "captures CVLEFTNUM s = Some [1 \<mapsto> take (lead s) s, 2 \<mapsto> drop (lead s) s]"
proof -
  have rest: "rx_match (length s) CVLEFTNUM s Map.empty (\<lambda>s c. Some (s, c)) =
    rx_match (length s) (RGroup 1 (rseq [RClass DigitClass, ROpt (RClass DigitClass), ROpt (RClass DigitClass)]))
      s Map.empty (\<lambda>t c. rx_match (length s) triples_to_end t c (\<lambda>s c. Some (s, c)))"
    by (simp add: CVLEFTNUM_def)
  show ?thesis
    unfolding captures_def
    by (subst rx_find.simps)
      (simp only: rest rx_lead [OF assms rx_triples_to_end] option.map prod.case or_else_simps)
qed

section \<open>Placing the commas\<close>

text \<open>The commas in the reversed digits, three digits at a time from the front.\<close>

fun after_triples :: "string \<Rightarrow> string" where
  "after_triples (a # b # d # t) = a # b # d # CHR '','' # after_triples t"
| "after_triples t = t"

lemma find_thousands:
  assumes "list_all is_digit (a # b # d # t)"
  shows "rx_find n CVTHOUSANDS (a # b # d # t) = Some ([], t, [1 \<mapsto> [a, b, d]])"
  using assms by (simp add: rx_find.simps CVTHOUSANDS_def)

lemma replace_thousands:
  assumes "list_all is_digit s" and "3 dvd length s" and "length s \<le> fuel"
  shows "replace_all fuel n CVTHOUSANDS (\<lambda>c. the (c 1) @ '','') s = after_triples s"
  using assms
proof (induction s arbitrary: fuel rule: after_triples.induct)
  case (1 a b d t)
  have "3 dvd length t" using 1(3) by simp presburger
  then show ?case
    using 1 by (cases fuel) (simp_all add: find_thousands)
next
  case "2_1"
  then show ?case by (cases fuel) (simp_all add: rx_find.simps CVTHOUSANDS_def)
qed (simp_all add: nat_dvd_not_less)

lemma thousands_lead:
  assumes "s \<noteq> []"
  shows "thousands s = take (lead s) s @ rev (after_triples (rev (drop (lead s) s)))"
  using assms
proof (induction s rule: thousands.induct)
  case (1 s)
  show ?case
  proof (cases "length s \<le> 3")
    case True
    then have "length s - 1 < 3" "0 < length s" using 1(2) by auto
    then have "lead s = length s" by simp
    then show ?thesis using True by (simp add: thousands.simps [of s])
  next
    case False
    define u where "u = take (length s - 3) s"
    have u: "u \<noteq> []" "length s = length u + 3" using False 1(2) by (auto simp: u_def)
    have "length (drop (length s - 3) s) = 3" using False by simp
    then obtain a b d where w: "drop (length s - 3) s = [a, b, d]"
      using length3 [of "drop (length s - 3) s"] by (metis length_Cons length_0_conv
          numeral_3_eq_3 order_refl nat.inject)
    have s: "s = u @ [a, b, d]" unfolding u_def w [symmetric] by simp
    have "(length u + 3 - 1) mod 3 = (length u - 1) mod 3" using u(1)
      by (cases u) (auto simp: mod_simps)
    then have l: "lead s = lead u" using u(2) by simp
    moreover have "lead u \<le> length u"
      using u(1) by (cases u) (auto intro: mod_less_eq_dividend)
    ultimately show ?thesis
      using False 1(1) u(1) w by (simp add: thousands.simps [of s] u_def [symmetric]) (simp add: s)
  qed
qed

section \<open>Numbers with commas\<close>

text \<open>
  C28: \<open>comma_value\<close> prints the decimal digits of every 64 bit number with a comma before each
  group of three digits counted from the right; without the commas they read back as the number.
\<close>

theorem comma_value_groups_thousands:
  "comma_value n = thousands (dec_string (unat n)) \<and>
   dec_value (filter (\<lambda>c. c \<noteq> CHR '','') (comma_value n)) = unat n"
proof -
  let ?s = "dec_string (unat n)"
  let ?num = "drop (lead ?s) ?s"
  have s: "list_all is_digit ?s" "?s \<noteq> []" by (rule dec_string_digits, rule dec_string_nonempty)
  have num: "list_all is_digit (rev ?num)"
    using s(1) by (auto simp: list_all_iff dest: in_set_dropD)
  have three: "3 dvd length (rev ?num)"
  proof -
    have "length ?s - 1 - (length ?s - 1) mod 3 = 3 * ((length ?s - 1) div 3)"
      by (simp add: minus_mod_eq_mult_div)
    then show ?thesis by simp
  qed
  have "comma_value n = thousands ?s"
    using replace_thousands [OF num three order_refl, of "length (rev ?num)"]
    by (simp add: comma_value_def captures_leftnum [OF s] thousands_lead [OF s(2)] Let_def)
  then show ?thesis by (simp add: filter_thousands [OF s(1)] dec_value_dec_string)
qed

end
