(* ===== verification/Rush_Memory.thy ===== *)
theory Rush_Memory
  imports Rush_Lib
begin

text \<open>
  \<open>src/memory.rs\<close>: DMA memory served from huge pages. The state is the list of chunks and the
  cached huge page size. The operating system is a parameter: what \<open>/proc/meminfo\<close> holds and
  what each system call of the \<open>n\<close>-th huge page allocation returns.
\<close>

section \<open>The environment\<close>

text \<open>What the system calls of one huge page allocation return.\<close>

record hp_calls =
  hp_remount :: int
  hp_mount :: int
  hp_open :: int
  hp_ftruncate :: int
  hp_mmap :: ptr
  hp_mlock :: int
  hp_pagemap_open :: int
  hp_pread :: "int \<Rightarrow> int \<times> u64"
  hp_mmap_fixed :: "ptr \<Rightarrow> ptr"

text \<open>
  \<open>os_uid\<close> is what \<open>getuid\<close> returns, \<open>os_meminfo\<close> the contents of
  \<open>/proc/meminfo\<close>, and \<open>os_box\<close> where the regular heap puts the \<open>n\<close>-th
  packet, \<^const>\<open>None\<close> if it is out of memory.
\<close>

record os =
  os_uid :: u32
  os_meminfo :: "string option"
  os_hugepage :: "nat \<Rightarrow> hp_calls"
  os_box :: "nat \<Rightarrow> ptr option"

definition MAP_FAILED :: ptr where
  "MAP_FAILED = - 1"

section \<open>State\<close>

record chunk =
  pointer :: u64
  chunk_size :: usize
  used :: usize

text \<open>\<open>npages\<close> counts the huge page allocations so far; it selects the environment's answers.\<close>

record mem_state =
  CHUNKS :: "chunk list"
  HUGE_PAGE_SIZE :: "usize option"
  npages :: nat

section \<open>Huge page size\<close>

text \<open>\<open>str::parse::<usize>\<close> on a string of digits.\<close>

definition digit_val :: "char \<Rightarrow> nat" where
  "digit_val c = of_char c - 48"

definition dec_val :: "string \<Rightarrow> nat" where
  "dec_val s = foldl (\<lambda>n c. 10 * n + digit_val c) 0 s"

definition parse_usize :: "string \<Rightarrow> usize option" where
  "parse_usize s =
     (if s \<noteq> [] \<and> list_all is_digit s \<and> dec_val s < 2 ^ 64 then Some (of_nat (dec_val s)) else None)"

text \<open>\<open>Hugepagesize: +([0-9]+) kB\<close>.\<close>

definition HUGEPAGESIZE_SYNTAX :: rx where
  "HUGEPAGESIZE_SYNTAX =
     rseq (map RLit ''Hugepagesize:'' @ [RPlus (RLit CHR '' '')] @
           [RGroup 1 (RPlus (RClass DigitClass))] @ map RLit '' kB'')"

definition get_huge_page_size :: "os \<Rightarrow> usize res" where
  "get_huge_page_size os =
     bind_res (unwrap (os_meminfo os)) (\<lambda>meminfo.
     case captures HUGEPAGESIZE_SYNTAX meminfo of
       Some cap \<Rightarrow> bind_res (unwrap (parse_usize (the (cap 1)))) (\<lambda>n. Inr (n * 1024))
     | None \<Rightarrow> Inl (Panic ''Failed to get hugepage size''))"

definition huge_page_size :: "os \<Rightarrow> 'a mem_state_scheme \<Rightarrow> (usize \<times> 'a mem_state_scheme) res" where
  "huge_page_size os s =
     (case HUGE_PAGE_SIZE s of
        Some n \<Rightarrow> Inr (n, s)
      | None \<Rightarrow> bind_res (get_huge_page_size os) (\<lambda>n. Inr (n, s\<lparr>HUGE_PAGE_SIZE := Some n\<rparr>)))"

section \<open>Physical addresses\<close>

definition TAG :: u64 where
  "TAG = 0x500000000000"

definition virtual_to_physical :: "ptr \<Rightarrow> u64 res" where
  "virtual_to_physical virt_addr =
     bind_res (assert_res (virt_addr AND 0x500000000000 = 0x500000000000)
                (AssertFailed ''Invalid DMA address''))
       (\<lambda>_. Inr (virt_addr XOR 0x500000000000))"

definition resolve_physical :: "hp_calls \<Rightarrow> ptr \<Rightarrow> u64 res" where
  "resolve_physical h p =
     (let pagesize = 4096; virtpage = p div pagesize in
      bind_res (assert_res (0 \<le> hp_pagemap_open h)
                 (AssertFailed ''Failed to open /proc/self/pagemap'')) (\<lambda>_.
      let (n, data) = hp_pread h (uint virtpage * 8) in
      bind_res (assert_res (n = 8) (AssertFailed ''pread'')) (\<lambda>_.
      bind_res (assert_res (data AND push_bit 63 1 \<noteq> 0) (AssertFailed ''page not present'')) (\<lambda>_.
      let physpage = data AND 0xFFFFFFFFFFFFF in
      Inr (physpage * pagesize)))))"

section \<open>Allocating huge pages\<close>

definition ensure_hugetlbfs :: "hp_calls \<Rightarrow> unit res" where
  "ensure_hugetlbfs h =
     (if hp_remount h \<noteq> 0 then
        assert_res (hp_mount h = 0) (AssertFailed ''failed to (re)mount /var/run/rush/hugetlbfs'')
      else Inr ())"

definition allocate_huge_page :: "hp_calls \<Rightarrow> usize \<Rightarrow> ptr res" where
  "allocate_huge_page h sz =
     bind_res (ensure_hugetlbfs h) (\<lambda>_.
     bind_res (assert_res (0 \<le> hp_open h) (AssertFailed ''create hugetlb'')) (\<lambda>_.
     bind_res (assert_res (hp_ftruncate h = 0) (AssertFailed ''ftruncate'')) (\<lambda>_.
     let tmpptr = hp_mmap h in
     bind_res (assert_res (tmpptr \<noteq> MAP_FAILED) (AssertFailed ''mmap hugetlb'')) (\<lambda>_.
     bind_res (assert_res (hp_mlock h = 0) (AssertFailed ''mlock'')) (\<lambda>_.
     bind_res (resolve_physical h tmpptr) (\<lambda>phys.
     let virt = phys OR TAG in
     Inr (hp_mmap_fixed h virt)))))))"

text \<open>A panic of \<open>allocate_huge_page\<close> is caught and turned into one message.\<close>

definition allocate_hugetlb_chunk ::
  "os \<Rightarrow> 'a mem_state_scheme \<Rightarrow> (ptr \<times> 'a mem_state_scheme) res" where
  "allocate_hugetlb_chunk os s =
     (case bind_res (huge_page_size os s) (\<lambda>(sz, s).
             bind_res (allocate_huge_page (os_hugepage os (npages s)) sz) (\<lambda>p. Inr (p, s))) of
        Inr (p, s) \<Rightarrow> Inr (p, s\<lparr>npages := Suc (npages s)\<rparr>)
      | Inl _ \<Rightarrow> Inl (Panic ''Failed to allocate a huge page for DMA''))"

definition allocate_next_chunk :: "os \<Rightarrow> 'a mem_state_scheme \<Rightarrow> 'a mem_state_scheme res" where
  "allocate_next_chunk os s =
     bind_res (allocate_hugetlb_chunk os s) (\<lambda>(p, s).
     bind_res (huge_page_size os s) (\<lambda>(sz, s).
     Inr (s\<lparr>CHUNKS := CHUNKS s @ [\<lparr>pointer = p, chunk_size = sz, used = 0\<rparr>]\<rparr>)))"

text \<open>\<open>*CHUNKS.last_mut().unwrap() = c\<close>.\<close>

definition set_last :: "'a list \<Rightarrow> 'a \<Rightarrow> 'a list" where
  "set_last xs x = butlast xs @ [x]"

definition dma_alloc ::
  "os \<Rightarrow> usize \<Rightarrow> usize \<Rightarrow> 'a mem_state_scheme \<Rightarrow> (ptr \<times> 'a mem_state_scheme) res" where
  "dma_alloc os bytes algn s =
     bind_res (huge_page_size os s) (\<lambda>(hps, s).
     bind_res (assert_res (bytes \<le> hps) (AssertFailed ''bytes <= huge_page_size()'')) (\<lambda>_.
     bind_res (if CHUNKS s = [] then allocate_next_chunk os s else Inr s) (\<lambda>s.
     let c = last (CHUNKS s) in
     bind_res (align (used c) algn) (\<lambda>u.
     let c = c\<lparr>used := u\<rparr>; s = s\<lparr>CHUNKS := set_last (CHUNKS s) c\<rparr> in
     bind_res (if chunk_size c < used c + bytes then allocate_next_chunk os s else Inr s) (\<lambda>s.
     let c = last (CHUNKS s); offset = used c;
         s = s\<lparr>CHUNKS := set_last (CHUNKS s) (c\<lparr>used := used c + bytes\<rparr>)\<rparr> in
     Inr (pointer c + offset, s))))))"

end
