(* ===== verification/Rush_Memory_Correct.thy ===== *)
theory Rush_Memory_Correct
  imports Rush_Memory
begin

text \<open>
  What the DMA allocator promises: every block it returns is aligned, lies inside one chunk, and
  starts at or after everything handed out of that chunk before; address translation undoes the
  mapping scheme of the huge pages.
\<close>

section \<open>Address translation\<close>

lemma virtual_to_physical_ok:
  "virtual_to_physical v = Inr p \<longleftrightarrow> v AND TAG = TAG \<and> p = v XOR TAG"
  by (auto simp: virtual_to_physical_def TAG_def res_simps)

lemma virtual_to_physical_tagged:
  assumes "phys AND TAG = 0"
  shows "virtual_to_physical (phys OR TAG) = Inr phys"
proof -
  have bits: "\<not> (bit phys n \<and> bit TAG n)" for n
    using assms by (metis bit_and_iff bit_0_eq bot_apply bot_bool_def)
  have "(phys OR TAG) AND TAG = TAG"
    by (rule bit_word_eqI) (auto simp: bit_simps)
  moreover have "(phys OR TAG) XOR TAG = phys"
    by (rule bit_word_eqI) (use bits in \<open>auto simp: bit_simps\<close>)
  ultimately show ?thesis by (simp add: virtual_to_physical_ok)
qed

section \<open>The allocator's invariant\<close>

definition page_addr :: "os \<Rightarrow> usize \<Rightarrow> nat \<Rightarrow> ptr res" where
  "page_addr os hps n = allocate_huge_page (os_hugepage os n) hps"

definition mem_wf :: "os \<Rightarrow> usize \<Rightarrow> 'a mem_state_scheme \<Rightarrow> bool" where
  "mem_wf os hps s \<longleftrightarrow>
     get_huge_page_size os = Inr hps \<and> HUGE_PAGE_SIZE s \<in> {None, Some hps} \<and>
     npages s = length (CHUNKS s) \<and>
     (\<forall>i < length (CHUNKS s). page_addr os hps i = Inr (pointer (CHUNKS s ! i)) \<and>
        chunk_size (CHUNKS s ! i) = hps)"

definition mem_inv :: "os \<Rightarrow> usize \<Rightarrow> 'a mem_state_scheme \<Rightarrow> bool" where
  "mem_inv os hps s \<longleftrightarrow>
     mem_wf os hps s \<and> (CHUNKS s \<noteq> [] \<longrightarrow> used (last (CHUNKS s)) \<le> hps)"

text \<open>Chunks are only added, and what is used of a chunk only grows.\<close>

definition mem_le :: "'a mem_state_scheme \<Rightarrow> 'a mem_state_scheme \<Rightarrow> bool" where
  "mem_le s s' \<longleftrightarrow>
     length (CHUNKS s) \<le> length (CHUNKS s') \<and>
     (\<forall>i < length (CHUNKS s). pointer (CHUNKS s' ! i) = pointer (CHUNKS s ! i) \<and>
        used (CHUNKS s ! i) \<le> used (CHUNKS s' ! i)) \<and>
     mem_state.more s' = mem_state.more s"

lemma mem_le_refl [simp]: "mem_le s s"
  by (simp add: mem_le_def)

lemma mem_le_trans: "mem_le s t \<Longrightarrow> mem_le t u \<Longrightarrow> mem_le s u"
  unfolding mem_le_def by (metis (no_types, lifting) less_le_trans order_trans)

lemma length_set_last [simp]: "xs \<noteq> [] \<Longrightarrow> length (set_last xs x) = length xs"
  by (simp add: set_last_def)

lemma last_set_last [simp]: "last (set_last xs x) = x"
  by (simp add: set_last_def)

lemma nth_set_last:
  "xs \<noteq> [] \<Longrightarrow> i < length xs \<Longrightarrow> set_last xs x ! i = (if i = length xs - 1 then x else xs ! i)"
  by (auto simp: set_last_def nth_append nth_butlast)

lemma set_last_not_Nil [simp]: "set_last xs x \<noteq> []"
  by (simp add: set_last_def)

lemma huge_page_size_inv:
  assumes "mem_wf os hps s"
  shows "huge_page_size os s = Inr (hps, s\<lparr>HUGE_PAGE_SIZE := Some hps\<rparr>)"
  using assms by (auto simp: mem_wf_def huge_page_size_def)

lemma mem_inv_cached:
  "mem_inv os hps s \<Longrightarrow> mem_inv os hps (s\<lparr>HUGE_PAGE_SIZE := Some hps\<rparr>)"
  by (simp add: mem_inv_def mem_wf_def)

lemma mem_le_cached [simp]:
  "mem_le (s\<lparr>HUGE_PAGE_SIZE := v\<rparr>) t = mem_le s t" "mem_le s (t\<lparr>HUGE_PAGE_SIZE := v\<rparr>) = mem_le s t"
  by (simp_all add: mem_le_def)

lemma allocate_next_chunk_spec:
  assumes "mem_wf os hps s" and "allocate_next_chunk os s = Inr s'"
  shows "\<exists>p. page_addr os hps (length (CHUNKS s)) = Inr p \<and>
    CHUNKS s' = CHUNKS s @ [\<lparr>pointer = p, chunk_size = hps, used = 0\<rparr>] \<and>
    mem_inv os hps s' \<and> mem_le s s'"
proof -
  have np: "npages s = length (CHUNKS s)" using assms(1) by (simp add: mem_wf_def)
  have "allocate_hugetlb_chunk os s = (case page_addr os hps (length (CHUNKS s)) of
      Inr p \<Rightarrow> Inr (p, s\<lparr>HUGE_PAGE_SIZE := Some hps, npages := Suc (npages s)\<rparr>)
    | Inl _ \<Rightarrow> Inl (Panic ''Failed to allocate a huge page for DMA''))"
    by (simp add: allocate_hugetlb_chunk_def huge_page_size_inv [OF assms(1)] page_addr_def np
        split: sum.splits)
  with assms(2) obtain p where p: "page_addr os hps (length (CHUNKS s)) = Inr p"
    and s': "s' = s\<lparr>HUGE_PAGE_SIZE := Some hps, npages := Suc (npages s),
      CHUNKS := CHUNKS s @ [\<lparr>pointer = p, chunk_size = hps, used = 0\<rparr>]\<rparr>"
    by (auto simp: allocate_next_chunk_def huge_page_size_def split: sum.splits)
  moreover have "mem_inv os hps s'"
    using assms(1) p by (auto simp: mem_inv_def mem_wf_def s' nth_append less_Suc_eq)
  moreover have "mem_le s s'" by (simp add: mem_le_def s' nth_append)
  ultimately show ?thesis by auto
qed

text \<open>Raising the use of the last chunk.\<close>

lemma mem_wf_set_last:
  assumes "mem_wf os hps s" and "CHUNKS s \<noteq> []" and "c = last (CHUNKS s)"
  shows "mem_wf os hps (s\<lparr>CHUNKS := set_last (CHUNKS s) (c\<lparr>used := u\<rparr>)\<rparr>)"
proof -
  have "c = CHUNKS s ! (length (CHUNKS s) - 1)" using assms(2,3) by (simp add: last_conv_nth)
  then show ?thesis
    using assms by (auto simp: mem_wf_def nth_set_last)
qed

lemma mem_le_set_last:
  assumes "CHUNKS s \<noteq> []" and "c = last (CHUNKS s)" and "used c \<le> u"
  shows "mem_le s (s\<lparr>CHUNKS := set_last (CHUNKS s) (c\<lparr>used := u\<rparr>)\<rparr>)"
  using assms by (auto simp: mem_le_def nth_set_last last_conv_nth)

section \<open>What an allocation returns\<close>

text \<open>
  The block at offset \<open>off\<close> of the last chunk of \<open>s'\<close>: aligned, inside the chunk, and,
  where the chunk existed before, at or after everything used of it.
\<close>

definition fresh_block :: "'a mem_state_scheme \<Rightarrow> 'a mem_state_scheme \<Rightarrow> usize \<Rightarrow> usize \<Rightarrow> bool" where
  "fresh_block s s' bytes off \<longleftrightarrow>
     (let k = length (CHUNKS s') - 1 in
      CHUNKS s' \<noteq> [] \<and> used (CHUNKS s' ! k) = off + bytes \<and>
      (k < length (CHUNKS s) \<longrightarrow> used (CHUNKS s ! k) \<le> off))"

text \<open>The second half of \<^const>\<open>dma_alloc\<close>: slicing the block out of the last chunk.\<close>

lemma slice_out:
  assumes "mem_wf os hps s" and "CHUNKS s \<noteq> []" and "c = last (CHUNKS s)"
    and "unat (used c) + unat bytes \<le> unat hps" and "mem_le s0 s"
    and "length (CHUNKS s) - 1 < length (CHUNKS s0) \<longrightarrow>
      used (CHUNKS s0 ! (length (CHUNKS s) - 1)) \<le> used c"
    and "s' = s\<lparr>CHUNKS := set_last (CHUNKS s) (c\<lparr>used := used c + bytes\<rparr>)\<rparr>"
  shows "mem_inv os hps s' \<and> mem_le s0 s' \<and> fresh_block s0 s' bytes (used c) \<and>
    pointer (last (CHUNKS s')) = pointer c"
proof -
  have u: "unat (used c + bytes) = unat (used c) + unat bytes"
    using assms(4) unat_bound_64 [of hps] by (intro unat_add_no_wrap) simp
  then have le: "used c + bytes \<le> hps" "used c \<le> used c + bytes"
    using assms(4) by (simp_all add: word_le_nat_alt)
  have "mem_inv os hps s'"
    using mem_wf_set_last [OF assms(1-3)] le(1) by (simp add: mem_inv_def assms(7))
  moreover have "mem_le s0 s'"
    using mem_le_trans [OF assms(5) mem_le_set_last [OF assms(2,3) le(2)]] by (simp add: assms(7))
  moreover have "fresh_block s0 s' bytes (used c)"
    using assms(2,6) by (auto simp: fresh_block_def assms(7) nth_set_last Let_def)
  ultimately show ?thesis by (simp add: assms(7))
qed

text \<open>There is a chunk to allocate from.\<close>

lemma first_chunk:
  assumes inv: "mem_inv os hps s"
    and run: "(if CHUNKS s = [] then allocate_next_chunk os (s\<lparr>HUGE_PAGE_SIZE := Some hps\<rparr>)
      else Inr (s\<lparr>HUGE_PAGE_SIZE := Some hps\<rparr>)) = Inr s1"
  shows "mem_inv os hps s1 \<and> mem_le s s1 \<and> CHUNKS s1 \<noteq> [] \<and> (CHUNKS s \<noteq> [] \<longrightarrow> CHUNKS s1 = CHUNKS s)"
proof (cases "CHUNKS s = []")
  case True
  then show ?thesis
    using allocate_next_chunk_spec [of os hps "s\<lparr>HUGE_PAGE_SIZE := Some hps\<rparr>" s1] mem_inv_cached [OF inv] run
    by (auto simp: mem_inv_def)
next
  case False
  then show ?thesis using run mem_inv_cached [OF inv] by auto
qed

text \<open>From the aligned offset of the last chunk, or from a new chunk when the block does not fit.\<close>

lemma cut_block:
  assumes i1: "mem_inv os hps s1 \<and> mem_le s s1 \<and> CHUNKS s1 \<noteq> [] \<and> (CHUNKS s \<noteq> [] \<longrightarrow> CHUNKS s1 = CHUNKS s)"
    and ge: "unat (used (last (CHUNKS s1))) \<le> unat u" and dv: "unat algn dvd unat u"
    and ub: "unat (u + bytes) = unat u + unat bytes" and bytes: "unat bytes \<le> unat hps"
    and s2: "s2 = s1\<lparr>CHUNKS := set_last (CHUNKS s1) ((last (CHUNKS s1))\<lparr>used := u\<rparr>)\<rparr>"
    and s3: "(if hps < u + bytes then allocate_next_chunk os s2 else Inr s2) = Inr s3"
    and s': "s' = s3\<lparr>CHUNKS := set_last (CHUNKS s3) ((last (CHUNKS s3))\<lparr>used := used (last (CHUNKS s3)) + bytes\<rparr>)\<rparr>"
  shows "mem_inv os hps s' \<and> mem_le s s' \<and> fresh_block s s' bytes (used (last (CHUNKS s3))) \<and>
    pointer (last (CHUNKS s')) = pointer (last (CHUNKS s3)) \<and> unat algn dvd unat (used (last (CHUNKS s3))) \<and>
    unat (used (last (CHUNKS s3))) + unat bytes \<le> unat hps"
proof -
  have c2: "CHUNKS s2 \<noteq> []" "last (CHUNKS s2) = (last (CHUNKS s1))\<lparr>used := u\<rparr>"
    "length (CHUNKS s2) = length (CHUNKS s1)"
    using i1 by (simp_all add: s2)
  have wf2: "mem_wf os hps s2"
    unfolding s2 by (rule mem_wf_set_last) (use i1 in \<open>auto simp: mem_inv_def\<close>)
  have le2: "mem_le s s2"
    using mem_le_trans [of s s1 s2] mem_le_set_last [of s1 "last (CHUNKS s1)" u] i1 ge
    by (simp add: s2 word_le_nat_alt)
  show ?thesis
  proof (cases "hps < u + bytes")
    case True
    with s3 have "allocate_next_chunk os s2 = Inr s3" by simp
    from allocate_next_chunk_spec [OF wf2 this] obtain q where
      q: "CHUNKS s3 = CHUNKS s2 @ [\<lparr>pointer = q, chunk_size = hps, used = 0\<rparr>]"
        "mem_inv os hps s3" "mem_le s2 s3" by auto
    have "length (CHUNKS s) \<le> length (CHUNKS s2)" using le2 by (simp add: mem_le_def)
    then show ?thesis
      using slice_out [of os hps s3 "last (CHUNKS s3)" bytes s s'] q mem_le_trans [OF le2 q(3)] s' bytes
      by (auto simp: mem_inv_def)
  next
    case False
    then have eq: "s3 = s2" using s3 by simp
    have "unat u + unat bytes \<le> unat hps"
      using False ub by (simp add: word_less_nat_alt)
    moreover have "used (CHUNKS s ! (length (CHUNKS s2) - 1)) \<le> u" if "length (CHUNKS s2) - 1 < length (CHUNKS s)"
    proof -
      have "CHUNKS s1 = CHUNKS s" using i1 that by auto
      then show ?thesis using ge i1 c2(3) by (simp add: last_conv_nth word_le_nat_alt)
    qed
    ultimately show ?thesis
      using slice_out [OF wf2 c2(1) refl _ le2, of bytes s'] s' c2 dv by (auto simp: eq)
  qed
qed

lemma dma_alloc_spec:
  assumes "mem_inv os hps s" and "unat hps * 2 + unat algn < 2 ^ 64"
    and "dma_alloc os bytes algn s = Inr (p, s')"
  shows "\<exists>off. mem_inv os hps s' \<and> mem_le s s' \<and> fresh_block s s' bytes off \<and>
    p = pointer (last (CHUNKS s')) + off \<and> unat algn dvd unat off \<and>
    unat off + unat bytes \<le> unat hps"
proof -
  let ?s0 = "s\<lparr>HUGE_PAGE_SIZE := Some hps\<rparr>"
  have wf: "mem_wf os hps s" using assms(1) by (simp add: mem_inv_def)
  have bytes: "unat bytes \<le> unat hps" and algn: "algn \<noteq> 0"
    using assms(3) unfolding dma_alloc_def
    by (auto simp: huge_page_size_inv [OF wf] res_simps word_le_nat_alt align_def split: if_splits)
  obtain s1 where s1: "(if CHUNKS s = [] then allocate_next_chunk os ?s0 else Inr ?s0) = Inr s1"
    and rest: "bind_res (align (used (last (CHUNKS s1))) algn) (\<lambda>u.
     let c = (last (CHUNKS s1))\<lparr>used := u\<rparr>; s = s1\<lparr>CHUNKS := set_last (CHUNKS s1) c\<rparr> in
     bind_res (if chunk_size c < used c + bytes then allocate_next_chunk os s else Inr s) (\<lambda>s.
     let c = last (CHUNKS s); offset = used c;
         s = s\<lparr>CHUNKS := set_last (CHUNKS s) (c\<lparr>used := used c + bytes\<rparr>)\<rparr> in
     Inr (pointer c + offset, s))) = Inr (p, s')"
    using assms(3) unfolding dma_alloc_def
    by (auto simp: huge_page_size_inv [OF wf] res_simps Let_def)
  note i1 = first_chunk [OF assms(1) s1]
  define c where "c = last (CHUNKS s1)"
  have uc: "unat (used c) \<le> unat hps" and sz: "chunk_size c = hps"
    using i1 by (auto simp: mem_inv_def c_def word_le_nat_alt mem_wf_def last_conv_nth)
  then obtain u where u: "align (used c) algn = Inr u" and dv: "unat algn dvd unat u"
    and ge: "unat (used c) \<le> unat u" and lt: "unat u < unat (used c) + unat algn"
    using align_correct [OF algn, of "used c"] assms(2) by auto
  define s2 where "s2 = s1\<lparr>CHUNKS := set_last (CHUNKS s1) (c\<lparr>used := u\<rparr>)\<rparr>"
  have ub: "unat (u + bytes) = unat u + unat bytes"
    using lt uc bytes assms(2) by (intro unat_add_no_wrap) simp
  have "bind_res (if hps < u + bytes then allocate_next_chunk os s2 else Inr s2) (\<lambda>s.
      Inr (pointer (last (CHUNKS s)) + used (last (CHUNKS s)), s\<lparr>CHUNKS := set_last (CHUNKS s)
        ((last (CHUNKS s))\<lparr>used := used (last (CHUNKS s)) + bytes\<rparr>)\<rparr>)) = Inr (p, s')"
    using rest u sz by (simp add: c_def [symmetric] s2_def Let_def split: if_splits)
  then obtain s3 where s3: "(if hps < u + bytes then allocate_next_chunk os s2 else Inr s2) = Inr s3"
    and fin: "p = pointer (last (CHUNKS s3)) + used (last (CHUNKS s3))"
      "s' = s3\<lparr>CHUNKS := set_last (CHUNKS s3) ((last (CHUNKS s3))\<lparr>used := used (last (CHUNKS s3)) + bytes\<rparr>)\<rparr>"
    unfolding bind_res_eq_Inr by blast
  show ?thesis
    using cut_block [OF i1 ge [unfolded c_def] dv ub bytes s2_def [unfolded c_def] s3 fin(2)] fin(1)
    by (intro exI [of _ "used (last (CHUNKS s3))"]) simp
qed

section \<open>Mapped pages translate back\<close>

lemma or_disjoint: "(a :: u64) AND b = 0 \<Longrightarrow> a OR b = a + b"
  by (simp add: disjunctive_add_eq_or)

lemma virtual_to_physical_offset:
  assumes "phys AND TAG = 0" and "(phys + off) AND TAG = 0"
  shows "virtual_to_physical ((phys OR TAG) + off) = Inr (phys + off)"
proof -
  have "(phys OR TAG) + off = (phys + off) OR TAG"
    using assms by (simp add: or_disjoint algebra_simps)
  then show ?thesis using virtual_to_physical_tagged [OF assms(2)] by simp
qed

section \<open>A machine with huge pages\<close>

text \<open>For instances of the properties: 2 MB pages, the \<open>n\<close>-th at physical address 2 MB * (n + 1).\<close>

definition sample_pages :: "nat \<Rightarrow> hp_calls" where
  "sample_pages n =
     \<lparr>hp_remount = 0, hp_mount = 0, hp_open = 3, hp_ftruncate = 0, hp_mmap = 0x7f0000000000,
      hp_mlock = 0, hp_pagemap_open = 4,
      hp_pread = (\<lambda>_. (8, push_bit 63 1 OR (of_nat (Suc n) * 512))), hp_mmap_fixed = (\<lambda>v. v)\<rparr>"

definition sample_root :: os where
  "sample_root =
     \<lparr>os_uid = 0, os_meminfo = Some ''Hugepagesize:    2048 kB'', os_hugepage = sample_pages,
      os_box = (\<lambda>_. None)\<rparr>"

definition mem_init :: mem_state where
  "mem_init = \<lparr>CHUNKS = [], HUGE_PAGE_SIZE = None, npages = 0\<rparr>"

lemma sample_root_page_size: "get_huge_page_size sample_root = Inr 2097152"
proof -
  have "captures HUGEPAGESIZE_SYNTAX ''Hugepagesize:    2048 kB'' = Some [1 \<mapsto> ''2048'']"
    by (simp add: captures_def rx_find.simps [of _ _ "_ # _"] HUGEPAGESIZE_SYNTAX_def rx_match.simps(5)
        is_digit_def)
  then show ?thesis
    by (simp add: get_huge_page_size_def sample_root_def parse_usize_def dec_val_def digit_val_def is_digit_def)
qed

lemma sample_root_hugepage: "os_hugepage sample_root = sample_pages"
  by (simp add: sample_root_def)

lemma sample_root_inv: "mem_inv sample_root 2097152 mem_init"
  by (simp add: mem_inv_def mem_wf_def mem_init_def sample_root_page_size)

section \<open>Properties\<close>

text \<open>
  C29: a successful \<open>dma_alloc\<close> returns a block that is aligned, lies inside one huge page, and
  starts at or after everything handed out of that page before; chunks are never lost or moved.
\<close>

theorem dma_alloc_block:
  assumes "mem_inv os hps s" and "unat hps * 2 + unat algn < 2 ^ 64"
    and "dma_alloc os bytes algn s = Inr (p, s')"
  shows "\<exists>off. mem_inv os hps s' \<and> mem_le s s' \<and> fresh_block s s' bytes off \<and>
    p = pointer (last (CHUNKS s')) + off \<and> unat algn dvd unat off \<and>
    unat off + unat bytes \<le> unat hps"
  using assms by (rule dma_alloc_spec)

theorem dma_alloc_block_witness:
  "\<exists>p s' off. dma_alloc sample_root 10242 2 mem_init = Inr (p, s') \<and> mem_inv sample_root 2097152 s' \<and>
     p = pointer (last (CHUNKS s')) + off \<and> unat off + unat (10242 :: usize) \<le> unat (2097152 :: usize)"
proof -
  have "\<exists>p s'. dma_alloc sample_root 10242 2 mem_init = Inr (p, s')"
    by (simp add: dma_alloc_def huge_page_size_def mem_init_def sample_root_page_size allocate_next_chunk_def
        allocate_hugetlb_chunk_def allocate_huge_page_def ensure_hugetlbfs_def sample_root_hugepage
        sample_pages_def resolve_physical_def MAP_FAILED_def align_def Let_def set_last_def)
  then obtain p s' where run: "dma_alloc sample_root 10242 2 mem_init = Inr (p, s')" by blast
  from dma_alloc_block [OF sample_root_inv _ run] run show ?thesis by auto
qed

text \<open>
  C30: the addresses of DMA memory encode their physical addresses: if the system maps a huge page
  where it is asked to, then every address inside that page translates to the page's physical address
  plus the offset, as long as physical addresses stay clear of the tag bits.
\<close>

theorem dma_addresses_translate:
  assumes "allocate_huge_page h sz = Inr p" and "\<And>v. hp_mmap_fixed h v = v"
    and "resolve_physical h (hp_mmap h) = Inr phys"
    and "phys AND TAG = 0" and "(phys + off) AND TAG = 0"
  shows "virtual_to_physical (p + off) = Inr (phys + off)"
proof -
  have "p = phys OR TAG" using assms(1-3) by (auto simp: allocate_huge_page_def res_simps Let_def)
  then show ?thesis using virtual_to_physical_offset [OF assms(4,5)] by simp
qed

theorem dma_addresses_translate_witness:
  "virtual_to_physical (0x500000200000 + 0x2a) = Inr (0x200000 + 0x2a)"
proof (rule dma_addresses_translate [of "sample_pages 0" 2097152])
  show "resolve_physical (sample_pages 0) (hp_mmap (sample_pages 0)) = Inr 0x200000"
    by (simp add: resolve_physical_def sample_pages_def)
  then show "allocate_huge_page (sample_pages 0) 2097152 = Inr 0x500000200000"
    by (simp add: allocate_huge_page_def ensure_hugetlbfs_def sample_pages_def MAP_FAILED_def TAG_def Let_def)
qed (simp_all add: sample_pages_def TAG_def)

end
