(* ===== verification/Rush_Packet.thy ===== *)
theory Rush_Packet
  imports Rush_Memory_Correct
begin

text \<open>
  \<open>src/packet.rs\<close>, and the counters of \<open>src/engine.rs\<close> it feeds: packets, the global
  freelist, its growth in doubling steps, allocating, freeing and cloning.

  A \<open>Box<Packet>\<close> is the address of the packet; the packets themselves live in
  \<open>heap\<close>. The state extends the allocator's by the heap, the freelist and the counters.
\<close>

section \<open>Packets and the freelist\<close>

definition PAYLOAD_SIZE :: nat where
  "PAYLOAD_SIZE = 1024 * 10"

record packet =
  plen :: u16
  pdata :: "u8 list"

text \<open>\<open>size_of::<Packet>()\<close> and \<open>align_of::<Packet>()\<close>: the payload follows the 16 bit length.\<close>

definition SIZE_OF_PACKET :: usize where
  "SIZE_OF_PACKET = 2 + of_nat PAYLOAD_SIZE"

definition ALIGN_OF_PACKET :: usize where
  "ALIGN_OF_PACKET = 2"

definition MAX_PACKETS :: nat where
  "MAX_PACKETS = 1000000"

record EngineStats =
  breaths :: u64
  frees :: u64
  freebits :: u64
  freebytes :: u64

text \<open>
  \<open>FL_list\<close> is the array of \<open>MAX_PACKETS\<close> pointers; an access outside of it panics.
  \<open>npackets\<close> counts the packets constructed so far; it selects the environment's answers.
\<close>

record pkt_state = mem_state +
  heap :: "ptr \<Rightarrow> packet"
  npackets :: nat
  FL_list :: "nat \<Rightarrow> ptr"
  FL_nfree :: usize
  PACKETS_ALLOCATED :: usize
  PACKET_ALLOCATION_STEP :: usize
  STATS :: EngineStats

text \<open>The statics as the program starts, over a memory that holds whatever it holds.\<close>

definition pkt_init :: "(ptr \<Rightarrow> packet) \<Rightarrow> pkt_state" where
  "pkt_init h =
     \<lparr>CHUNKS = [], HUGE_PAGE_SIZE = None, npages = 0, heap = h, npackets = 0,
      FL_list = (\<lambda>_. null_ptr), FL_nfree = 0, PACKETS_ALLOCATED = 0,
      PACKET_ALLOCATION_STEP = 1000,
      STATS = \<lparr>breaths = 0, frees = 0, freebits = 0, freebytes = 0\<rparr>\<rparr>"

section \<open>Engine counters\<close>

definition add_frees :: "'a pkt_state_scheme \<Rightarrow> 'a pkt_state_scheme" where
  "add_frees s = s\<lparr>STATS := (STATS s)\<lparr>frees := frees (STATS s) + 1\<rparr>\<rparr>"

definition add_freebytes :: "u64 \<Rightarrow> 'a pkt_state_scheme \<Rightarrow> 'a pkt_state_scheme" where
  "add_freebytes n s = s\<lparr>STATS := (STATS s)\<lparr>freebytes := freebytes (STATS s) + n\<rparr>\<rparr>"

definition add_freebits :: "u64 \<Rightarrow> 'a pkt_state_scheme \<Rightarrow> 'a pkt_state_scheme" where
  "add_freebits n s = s\<lparr>STATS := (STATS s)\<lparr>freebits := freebits (STATS s) + n\<rparr>\<rparr>"

section \<open>Operations\<close>

definition new_packet :: "os \<Rightarrow> 'a pkt_state_scheme \<Rightarrow> (ptr \<times> 'a pkt_state_scheme) res" where
  "new_packet os s =
     bind_res (dma_alloc os SIZE_OF_PACKET ALIGN_OF_PACKET s) (\<lambda>(p, s).
     Inr (p, s\<lparr>npackets := Suc (npackets s), heap := (heap s)(p := (heap s p)\<lparr>plen := 0\<rparr>)\<rparr>))"

text \<open>\<open>Box::new\<close> aborts the program when the heap is exhausted.\<close>

definition new_packet_noroot :: "os \<Rightarrow> 'a pkt_state_scheme \<Rightarrow> (ptr \<times> 'a pkt_state_scheme) res" where
  "new_packet_noroot os s =
     (case os_box os (npackets s) of
        None \<Rightarrow> Inl (Panic ''memory allocation failed'')
      | Some p \<Rightarrow>
          Inr (p, s\<lparr>npackets := Suc (npackets s),
                   heap := (heap s)(p := \<lparr>plen = 0, pdata = replicate PAYLOAD_SIZE 0\<rparr>)\<rparr>))"

definition free_internal :: "ptr \<Rightarrow> 'a pkt_state_scheme \<Rightarrow> 'a pkt_state_scheme res" where
  "free_internal p s =
     (if unat (FL_nfree s) = MAX_PACKETS then Inl FreelistOverflow
      else
        let s = s\<lparr>heap := (heap s)(p := (heap s p)\<lparr>plen := 0\<rparr>)\<rparr> in
        bind_res (assert_res (unat (FL_nfree s) < MAX_PACKETS) IndexOutOfBounds) (\<lambda>_.
        Inr (s\<lparr>FL_list := (FL_list s)(unat (FL_nfree s) := p), FL_nfree := FL_nfree s + 1\<rparr>)))"

text \<open>The constructor \<open>preallocate_step\<close> picks: the DMA allocator for root only.\<close>

definition packet_ctor :: "os \<Rightarrow> 'a pkt_state_scheme \<Rightarrow> (ptr \<times> 'a pkt_state_scheme) res" where
  "packet_ctor os = (if os_uid os = 0 then new_packet os else new_packet_noroot os)"

definition preallocate_step :: "os \<Rightarrow> 'a pkt_state_scheme \<Rightarrow> 'a pkt_state_scheme res" where
  "preallocate_step os s =
     bind_res (assert_res (unat (PACKETS_ALLOCATED s + PACKET_ALLOCATION_STEP s) \<le> MAX_PACKETS)
                AllocationOverflow) (\<lambda>_.
     bind_res (repeat_res (unat (PACKET_ALLOCATION_STEP s))
                (\<lambda>s. bind_res (packet_ctor os s) (\<lambda>(p, s). free_internal p s)) s) (\<lambda>s.
     let s = s\<lparr>PACKETS_ALLOCATED := PACKETS_ALLOCATED s + PACKET_ALLOCATION_STEP s\<rparr> in
     Inr (s\<lparr>PACKET_ALLOCATION_STEP := PACKET_ALLOCATION_STEP s * 2\<rparr>)))"

definition allocate :: "os \<Rightarrow> 'a pkt_state_scheme \<Rightarrow> (ptr \<times> 'a pkt_state_scheme) res" where
  "allocate os s =
     bind_res (if FL_nfree s = 0 then preallocate_step os s else Inr s) (\<lambda>s.
     let s = s\<lparr>FL_nfree := FL_nfree s - 1\<rparr> in
     bind_res (assert_res (unat (FL_nfree s) < MAX_PACKETS) IndexOutOfBounds) (\<lambda>_.
     Inr (FL_list s (unat (FL_nfree s)), s)))"

definition free :: "ptr \<Rightarrow> 'a pkt_state_scheme \<Rightarrow> 'a pkt_state_scheme res" where
  "free p s =
     (let s = add_frees s;
          s = add_freebytes (ucast (plen (heap s p))) s;
          s = add_freebits ((12 + 8 + max (ucast (plen (heap s p))) 60 + 4) * 8) s
      in free_internal p s)"

definition clone :: "os \<Rightarrow> ptr \<Rightarrow> 'a pkt_state_scheme \<Rightarrow> (ptr \<times> 'a pkt_state_scheme) res" where
  "clone os p s =
     bind_res (allocate os s) (\<lambda>(copy', s).
     let q = heap s p;
         c = (heap s copy')\<lparr>pdata := copy (pdata (heap s copy')) (pdata q) (ucast (plen q)),
                             plen := plen q\<rparr>
     in Inr (copy', s\<lparr>heap := (heap s)(copy' := c)\<rparr>))"

end
