(* ===== verification/Rush_Packet_Correct.thy ===== *)
theory Rush_Packet_Correct
  imports Rush_Packet
begin

text \<open>
  The freelist never hands out one packet twice, never overflows, and grows by doubling steps.

  The interface \<open>packet_source\<close> is what the freelist relies on when it asks for a new packet:
  memory that overlaps no packet handed out before. Both constructors of \<open>packet.rs\<close>, and the
  choice between them, are instances. The client's lemmas are proved over the interface.
\<close>

section \<open>Separation\<close>

definition apart :: "ptr \<Rightarrow> ptr \<Rightarrow> bool" where
  "apart p q \<longleftrightarrow> unat p + unat SIZE_OF_PACKET \<le> unat q \<or> unat q + unat SIZE_OF_PACKET \<le> unat p"

lemma unat_SIZE_OF_PACKET: "unat SIZE_OF_PACKET = 10242"
  by (simp add: SIZE_OF_PACKET_def PAYLOAD_SIZE_def)

lemma apart_neq: "apart p q \<Longrightarrow> p \<noteq> q"
  by (auto simp: apart_def unat_SIZE_OF_PACKET)

lemma apart_sym: "apart p q \<longleftrightarrow> apart q p"
  by (auto simp: apart_def)

section \<open>The pool\<close>

abbreviation nfree :: "'a pkt_state_scheme \<Rightarrow> nat" where
  "nfree s \<equiv> unat (FL_nfree s)"

definition FL_set :: "'a pkt_state_scheme \<Rightarrow> ptr set" where
  "FL_set s = FL_list s ` {..<nfree s}"

definition heap_wf :: "'a pkt_state_scheme \<Rightarrow> bool" where
  "heap_wf s \<longleftrightarrow> (\<forall>p. length (pdata (heap s p)) = PAYLOAD_SIZE)"

text \<open>
  The fields the freelist owns, which a constructor must leave alone, and the rest of the program's
  state.
\<close>

definition pool_frame :: "'a pkt_state_scheme \<Rightarrow> 'a pkt_state_scheme \<Rightarrow> bool" where
  "pool_frame s s' \<longleftrightarrow>
     FL_list s' = FL_list s \<and> FL_nfree s' = FL_nfree s \<and>
     PACKETS_ALLOCATED s' = PACKETS_ALLOCATED s \<and>
     PACKET_ALLOCATION_STEP s' = PACKET_ALLOCATION_STEP s \<and>
     npackets s' = Suc (npackets s) \<and>
     STATS s' = STATS s \<and> pkt_state.more s' = pkt_state.more s"

text \<open>The part of the state the constructors own.\<close>

definition source_part :: "'a pkt_state_scheme \<Rightarrow> chunk list \<times> usize option \<times> nat \<times> nat" where
  "source_part s = (CHUNKS s, HUGE_PAGE_SIZE s, npages s, npackets s)"

text \<open>
  \<open>pool region ok U n s\<close>: the freelist holds packets with length 0 that do not overlap each
  other or the packets in use, \<open>U\<close>, all of them carved out of \<open>region s\<close>, \<open>n\<close>
  in total.
\<close>

definition pool :: "('a pkt_state_scheme \<Rightarrow> ptr set) \<Rightarrow> ('a pkt_state_scheme \<Rightarrow> bool) \<Rightarrow>
    ptr set \<Rightarrow> nat \<Rightarrow> 'a pkt_state_scheme \<Rightarrow> bool" where
  "pool region ok U n s \<longleftrightarrow>
     ok s \<and> npackets s = n \<and> heap_wf s \<and> finite U \<and> inj_on (FL_list s) {..<nfree s} \<and> FL_set s \<inter> U = {} \<and>
     FL_set s \<union> U \<subseteq> region s \<and> pairwise apart (FL_set s \<union> U) \<and> nfree s + card U = n \<and>
     (\<forall>p \<in> FL_set s. plen (heap s p) = 0)"

lemma FL_set_push:
  assumes "nfree s < MAX_PACKETS"
    and "s' = s\<lparr>FL_list := (FL_list s)(nfree s := p), FL_nfree := FL_nfree s + 1\<rparr>"
  shows "nfree s' = Suc (nfree s)" and "FL_set s' = insert p (FL_set s)"
    and "inj_on (FL_list s') {..<nfree s'} \<longleftrightarrow> inj_on (FL_list s) {..<nfree s} \<and> p \<notin> FL_set s"
proof -
  have n: "unat (FL_nfree s + 1) = Suc (nfree s)"
    using assms(1) by (subst unat_add_no_wrap) (auto simp: MAX_PACKETS_def)
  then show n': "nfree s' = Suc (nfree s)" by (simp add: assms(2))
  have l: "FL_list s' = (FL_list s)(nfree s := p)" by (simp add: assms(2))
  have upd: "(FL_list s)(nfree s := p) ` {..<nfree s} = FL_list s ` {..<nfree s}"
    by (rule image_cong) auto
  then show "FL_set s' = insert p (FL_set s)"
    unfolding FL_set_def n' l lessThan_Suc image_insert by (simp only: fun_upd_same)
  have "inj_on ((FL_list s)(nfree s := p)) {..<nfree s} = inj_on (FL_list s) {..<nfree s}"
    by (rule inj_on_cong) auto
  moreover have d: "{..<nfree s} - {nfree s} = {..<nfree s}" by auto
  ultimately show "inj_on (FL_list s') {..<nfree s'} \<longleftrightarrow> inj_on (FL_list s) {..<nfree s} \<and> p \<notin> FL_set s"
    unfolding n' l lessThan_Suc inj_on_insert FL_set_def
    by (simp only: fun_upd_same upd d)
qed

section \<open>Where packets come from\<close>

locale packet_source =
  fixes newp :: "'a pkt_state_scheme \<Rightarrow> (ptr \<times> 'a pkt_state_scheme) res"
    and region :: "'a pkt_state_scheme \<Rightarrow> ptr set"
    and ok :: "'a pkt_state_scheme \<Rightarrow> bool"
  assumes newp_fresh: "ok s \<Longrightarrow> newp s = Inr (p, s') \<Longrightarrow>
      ok s' \<and> insert p (region s) \<subseteq> region s' \<and> (\<forall>q \<in> region s. apart p q)"
    and newp_frame: "ok s \<Longrightarrow> newp s = Inr (p, s') \<Longrightarrow> pool_frame s s'"
    and newp_heap: "ok s \<Longrightarrow> newp s = Inr (p, s') \<Longrightarrow> heap_wf s \<Longrightarrow>
      heap_wf s' \<and> plen (heap s' p) = 0 \<and> (\<forall>q. q \<noteq> p \<longrightarrow> heap s' q = heap s q)"
    and source_only: "source_part s = source_part s' \<Longrightarrow> ok s = ok s' \<and> region s = region s'"
begin

lemma free_internal_pool:
  assumes "pool region ok (insert p U) n s" and "p \<notin> U" and "n \<le> MAX_PACKETS"
  shows "\<exists>s'. free_internal p s = Inr s' \<and> pool region ok U n s' \<and> FL_set s' = insert p (FL_set s) \<and>
    source_part s' = source_part s \<and> (\<forall>q. q \<noteq> p \<longrightarrow> heap s' q = heap s q) \<and>
    PACKETS_ALLOCATED s' = PACKETS_ALLOCATED s \<and>
    PACKET_ALLOCATION_STEP s' = PACKET_ALLOCATION_STEP s \<and> STATS s' = STATS s \<and>
    pkt_state.more s' = pkt_state.more s"
proof -
  define h where "h = s\<lparr>heap := (heap s)(p := (heap s p)\<lparr>plen := 0\<rparr>)\<rparr>"
  define t where "t = h\<lparr>FL_list := (FL_list h)(nfree h := p), FL_nfree := FL_nfree h + 1\<rparr>"
  have n: "nfree s + Suc (card U) = n" and fin: "finite U" and lt: "nfree s < MAX_PACKETS"
    using assms by (auto simp: pool_def)
  have eq: "free_internal p s = Inr t"
    using lt by (simp add: free_internal_def Let_def t_def h_def)
  have hs: "nfree h = nfree s" "FL_set h = FL_set s" "FL_list h = FL_list s"
    by (simp_all add: h_def FL_set_def)
  have tp: "heap t = (heap s)(p := (heap s p)\<lparr>plen := 0\<rparr>)" by (simp add: t_def h_def)
  note push = FL_set_push [OF _ t_def, unfolded hs, OF lt]
  have FL: "nfree t = Suc (nfree s)" "FL_set t = insert p (FL_set s)"
    by (rule push)+
  have src: "source_part t = source_part s" by (simp add: source_part_def t_def h_def)
  have "pool region ok U n t"
    unfolding pool_def
  proof (intro conjI)
    show "ok t" using source_only [OF src] assms(1) by (simp add: pool_def)
    show "npackets t = n" using src assms(1) by (simp add: pool_def source_part_def)
    show "heap_wf t" using assms(1) by (simp add: pool_def heap_wf_def tp)
    show "finite U" by (rule fin)
    show "inj_on (FL_list t) {..<nfree t}"
      using push(3) assms(1) by (simp add: pool_def)
    show "FL_set t \<inter> U = {}" using assms(1,2) by (auto simp: FL pool_def)
    have un: "FL_set t \<union> U = FL_set s \<union> insert p U" by (simp add: FL)
    show "FL_set t \<union> U \<subseteq> region t" "pairwise apart (FL_set t \<union> U)"
      unfolding un using source_only [OF src] assms(1) by (simp_all add: pool_def)
    show "nfree t + card U = n" using n by (simp only: FL)
    show "\<forall>q \<in> FL_set t. plen (heap t q) = 0" using assms(1) unfolding FL by (simp add: pool_def tp)
  qed
  then show ?thesis using eq FL src tp by (simp add: t_def h_def)
qed

lemma newp_pool:
  assumes "pool region ok U n s" and "newp s = Inr (p, s')"
  shows "pool region ok (insert p U) (Suc n) s' \<and> p \<notin> U \<and> p \<notin> FL_set s \<and> pool_frame s s' \<and>
    (\<forall>q. q \<noteq> p \<longrightarrow> heap s' q = heap s q)"
proof -
  have ok: "ok s" and wf: "heap_wf s" using assms(1) by (simp_all add: pool_def)
  note fresh = newp_fresh [OF ok assms(2)] and frame = newp_frame [OF ok assms(2)]
    and hp = newp_heap [OF ok assms(2) wf]
  have FL: "FL_set s' = FL_set s" "nfree s' = nfree s" "FL_list s' = FL_list s"
    using frame by (simp_all add: pool_frame_def FL_set_def)
  have new: "\<forall>q \<in> FL_set s \<union> U. apart p q" using assms(1) fresh by (auto simp: pool_def)
  then have notin: "p \<notin> U" "p \<notin> FL_set s" using apart_neq by blast+
  have "pairwise apart (insert p (FL_set s \<union> U))"
    using assms(1) new apart_sym by (auto simp: pool_def pairwise_insert)
  then have "pool region ok (insert p U) (Suc n) s'"
    using assms(1) fresh hp notin frame by (auto simp: pool_def FL insert_commute pool_frame_def)
  then show ?thesis using notin frame hp by simp
qed

text \<open>The loop of \<open>preallocate_step\<close>.\<close>

lemma refill_pool:
  assumes "pool region ok U n s" and "n + k \<le> MAX_PACKETS"
    and "repeat_res k (\<lambda>s. bind_res (newp s) (\<lambda>(p, s). free_internal p s)) s = Inr s'"
  shows "pool region ok U (n + k) s' \<and> nfree s' = nfree s + k \<and>
    PACKETS_ALLOCATED s' = PACKETS_ALLOCATED s \<and>
    PACKET_ALLOCATION_STEP s' = PACKET_ALLOCATION_STEP s \<and>
    STATS s' = STATS s \<and> pkt_state.more s' = pkt_state.more s \<and> (\<forall>q \<in> U. heap s' q = heap s q)"
  using assms
proof (induction k arbitrary: n s)
  case 0
  then show ?case by simp
next
  case (Suc k)
  then obtain p t u where t: "newp s = Inr (p, t)" and u: "free_internal p t = Inr u"
    and rest: "repeat_res k (\<lambda>s. bind_res (newp s) (\<lambda>(p, s). free_internal p s)) u = Inr s'"
    by (auto simp: res_simps)
  have n1: "pool region ok (insert p U) (Suc n) t" "p \<notin> U" "pool_frame s t"
    "\<forall>q. q \<noteq> p \<longrightarrow> heap t q = heap s q"
    using newp_pool [OF Suc.prems(1) t] by auto
  obtain n2: "pool region ok U (Suc n) u" "PACKETS_ALLOCATED u = PACKETS_ALLOCATED t"
    "PACKET_ALLOCATION_STEP u = PACKET_ALLOCATION_STEP t" "STATS u = STATS t"
    "pkt_state.more u = pkt_state.more t" "\<forall>q. q \<noteq> p \<longrightarrow> heap u q = heap t q"
    using free_internal_pool [OF n1(1,2)] Suc.prems(2) u by auto
  have "nfree u = Suc (nfree s)"
    using n2(1) Suc.prems(1) by (auto simp: pool_def)
  then show ?case
    using Suc.IH [OF n2(1) _ rest] Suc.prems(2) n1 n2 by (auto simp: pool_frame_def)
qed

text \<open>The loop fails only if the source does.\<close>

lemma refill_error:
  assumes "pool region ok U n s" and "n + k \<le> MAX_PACKETS"
    and "repeat_res k (\<lambda>s. bind_res (newp s) (\<lambda>(p, s). free_internal p s)) s = Inl e"
  shows "\<exists>t m. m < n + k \<and> pool region ok U m t \<and> newp t = Inl e"
  using assms
proof (induction k arbitrary: n s)
  case 0
  then show ?case by simp
next
  case (Suc k)
  show ?case
  proof (cases "newp s")
    case (Inl e')
    then show ?thesis using Suc.prems by (auto intro!: exI [of _ s] exI [of _ n])
  next
    case (Inr r)
    then obtain p t where t: "newp s = Inr (p, t)" by (cases r) auto
    from newp_pool [OF Suc.prems(1) t]
    have n1: "pool region ok (insert p U) (Suc n) t" "p \<notin> U" by auto
    then obtain u where u: "free_internal p t = Inr u" "pool region ok U (Suc n) u"
      using free_internal_pool [OF n1] Suc.prems(2) by auto
    then show ?thesis using Suc.IH [OF u(2)] Suc.prems(2,3) t by simp
  qed
qed

end

section \<open>The regular heap as a source\<close>

text \<open>Boxes do not overlap.\<close>

definition box_env :: "os \<Rightarrow> bool" where
  "box_env os \<longleftrightarrow>
     (\<forall>i j p q. i \<noteq> j \<longrightarrow> os_box os i = Some p \<longrightarrow> os_box os j = Some q \<longrightarrow> apart p q)"

definition noroot_region :: "os \<Rightarrow> 'a pkt_state_scheme \<Rightarrow> ptr set" where
  "noroot_region os s = {p. \<exists>i < npackets s. os_box os i = Some p}"

definition noroot_ok :: "os \<Rightarrow> 'a pkt_state_scheme \<Rightarrow> bool" where
  "noroot_ok os s \<longleftrightarrow> box_env os"

interpretation noroot: packet_source "new_packet_noroot os" "noroot_region os" "noroot_ok os" for os
proof unfold_locales
  fix s s' :: "'a pkt_state_scheme" and p
  assume ok: "noroot_ok os s" and new: "new_packet_noroot os s = Inr (p, s')"
  from new have box: "os_box os (npackets s) = Some p" and s': "s' = s\<lparr>npackets := Suc (npackets s),
      heap := (heap s)(p := \<lparr>plen = 0, pdata = replicate PAYLOAD_SIZE 0\<rparr>)\<rparr>"
    by (auto simp: new_packet_noroot_def split: option.splits)
  show "noroot_ok os s' \<and> insert p (noroot_region os s) \<subseteq> noroot_region os s' \<and>
      (\<forall>q \<in> noroot_region os s. apart p q)"
    using ok box unfolding noroot_ok_def noroot_region_def s' box_env_def
    by (auto simp: less_Suc_eq) (metis less_irrefl)
  show "pool_frame s s'" by (simp add: pool_frame_def s')
  show "heap_wf s \<Longrightarrow> heap_wf s' \<and> plen (heap s' p) = 0 \<and> (\<forall>q. q \<noteq> p \<longrightarrow> heap s' q = heap s q)"
    by (simp add: heap_wf_def s')
next
  fix s s' :: "'a pkt_state_scheme"
  assume "source_part s = source_part s'"
  then show "noroot_ok os s = noroot_ok os s' \<and> noroot_region os s = noroot_region os s'"
    by (simp add: source_part_def noroot_ok_def noroot_region_def)
qed

section \<open>Huge pages as a source\<close>

text \<open>The huge pages the system maps lie inside the address space and do not overlap.\<close>

definition page_env :: "os \<Rightarrow> usize \<Rightarrow> bool" where
  "page_env os hps \<longleftrightarrow>
     unat hps * 2 + 128 < 2 ^ 64 \<and>
     (\<forall>i p. page_addr os hps i = Inr p \<longrightarrow> unat p + unat hps < 2 ^ 64) \<and>
     (\<forall>i j p q. i \<noteq> j \<longrightarrow> page_addr os hps i = Inr p \<longrightarrow> page_addr os hps j = Inr q \<longrightarrow>
        unat p + unat hps \<le> unat q \<or> unat q + unat hps \<le> unat p)"

definition root_ok :: "os \<Rightarrow> 'a pkt_state_scheme \<Rightarrow> bool" where
  "root_ok os s \<longleftrightarrow> (\<exists>hps. page_env os hps \<and> mem_inv os hps s)"

text \<open>The addresses of packets that fit into what is used of a chunk.\<close>

definition root_region :: "'a pkt_state_scheme \<Rightarrow> ptr set" where
  "root_region s =
     {p. \<exists>i < length (CHUNKS s). \<exists>off. p = pointer (CHUNKS s ! i) + off \<and>
        unat off + unat SIZE_OF_PACKET \<le> unat (used (CHUNKS s ! i)) \<and>
        unat off + unat SIZE_OF_PACKET \<le> unat (chunk_size (CHUNKS s ! i))}"

lemma mem_more_fields:
  assumes "mem_state.more s' = mem_state.more s"
  shows "heap s' = heap s" "npackets s' = npackets s" "FL_list s' = FL_list s"
    "FL_nfree s' = FL_nfree s" "PACKETS_ALLOCATED s' = PACKETS_ALLOCATED s"
    "PACKET_ALLOCATION_STEP s' = PACKET_ALLOCATION_STEP s" "STATS s' = STATS s"
    "pkt_state.more s' = pkt_state.more s"
  using assms by (cases s; cases s'; simp)+

lemma root_apart:
  assumes env: "page_env os hps"
    and p: "page_addr os hps i = Inr a" "unat off + unat SIZE_OF_PACKET \<le> unat hps"
    and q: "page_addr os hps j = Inr b" "unat off' + unat SIZE_OF_PACKET \<le> unat hps"
    and disj: "i = j \<longrightarrow> unat off' + unat SIZE_OF_PACKET \<le> unat off"
  shows "apart (a + off) (b + off')"
proof -
  have inside: "unat a + unat hps < 2 ^ 64" "unat b + unat hps < 2 ^ 64"
    using env p(1) q(1) unfolding page_env_def by blast+
  then have "unat (a + off) = unat a + unat off" "unat (b + off') = unat b + unat off'"
    using inside p(2) q(2) by (auto intro!: unat_add_no_wrap)
  moreover have "i \<noteq> j \<longrightarrow> unat a + unat hps \<le> unat b \<or> unat b + unat hps \<le> unat a"
    using env p(1) q(1) unfolding page_env_def by blast
  moreover have "i = j \<longrightarrow> a = b" using p(1) q(1) by auto
  ultimately show ?thesis using p(2) q(2) disj unfolding apart_def by (cases "i = j") auto
qed

lemma root_region_mono:
  assumes "mem_le s s'" and wf: "mem_wf os hps s" "mem_wf os hps s'"
  shows "root_region s \<subseteq> root_region s'"
proof
  fix q
  assume "q \<in> root_region s"
  then obtain i off' where i: "i < length (CHUNKS s)" "q = pointer (CHUNKS s ! i) + off'"
    "unat off' + unat SIZE_OF_PACKET \<le> unat (used (CHUNKS s ! i))"
    "unat off' + unat SIZE_OF_PACKET \<le> unat (chunk_size (CHUNKS s ! i))"
    by (auto simp: root_region_def)
  have le: "i < length (CHUNKS s')" "pointer (CHUNKS s' ! i) = pointer (CHUNKS s ! i)"
    "unat (used (CHUNKS s ! i)) \<le> unat (used (CHUNKS s' ! i))"
    using assms(1) i(1) by (auto simp: mem_le_def word_le_nat_alt)
  moreover have "chunk_size (CHUNKS s' ! i) = chunk_size (CHUNKS s ! i)"
    using wf i(1) le(1) by (simp add: mem_wf_def)
  ultimately show "q \<in> root_region s'"
    unfolding root_region_def using i by (auto intro!: exI [of _ i] exI [of _ off'])
qed

lemma root_fresh:
  assumes "page_env os hps" and "mem_inv os hps s"
    and "dma_alloc os SIZE_OF_PACKET ALIGN_OF_PACKET s = Inr (p, s')"
  shows "mem_inv os hps s' \<and> mem_le s s' \<and> insert p (root_region s) \<subseteq> root_region s' \<and>
    (\<forall>q \<in> root_region s. apart p q)"
proof -
  from assms(1) have small: "unat hps * 2 + unat ALIGN_OF_PACKET < 2 ^ 64"
    by (simp add: page_env_def ALIGN_OF_PACKET_def)
  obtain off where off: "mem_inv os hps s'" "mem_le s s'" "fresh_block s s' SIZE_OF_PACKET off"
    "p = pointer (last (CHUNKS s')) + off" "unat off + unat SIZE_OF_PACKET \<le> unat hps"
    using dma_alloc_spec [OF assms(2) small assms(3)] by auto
  define k where "k = length (CHUNKS s') - 1"
  have k: "k < length (CHUNKS s')" "used (CHUNKS s' ! k) = off + SIZE_OF_PACKET"
    "k < length (CHUNKS s) \<longrightarrow> used (CHUNKS s ! k) \<le> off" "last (CHUNKS s') = CHUNKS s' ! k"
    using off(3) by (auto simp: fresh_block_def k_def Let_def last_conv_nth)
  have u: "unat (off + SIZE_OF_PACKET) = unat off + unat SIZE_OF_PACKET"
    using off(5) unat_bound_64 [of hps] by (intro unat_add_no_wrap) simp
  have wf: "mem_wf os hps s" "mem_wf os hps s'" using assms(2) off(1) by (simp_all add: mem_inv_def)
  have "p \<in> root_region s'"
    using k off(4,5) u wf(2) by (auto simp: root_region_def mem_wf_def intro!: exI [of _ k] exI [of _ off])
  moreover have "root_region s \<subseteq> root_region s'" using off(2) wf by (rule root_region_mono)
  moreover have "apart p q" if q: "q \<in> root_region s" for q
  proof -
    obtain i off' where i: "i < length (CHUNKS s)" "q = pointer (CHUNKS s ! i) + off'"
      "unat off' + unat SIZE_OF_PACKET \<le> unat (used (CHUNKS s ! i))"
      "unat off' + unat SIZE_OF_PACKET \<le> unat (chunk_size (CHUNKS s ! i))"
      using q by (auto simp: root_region_def)
    have hi: "page_addr os hps i = Inr (pointer (CHUNKS s ! i))" "chunk_size (CHUNKS s ! i) = hps"
      "page_addr os hps k = Inr (pointer (CHUNKS s' ! k))"
      using wf i(1) k(1) by (simp_all add: mem_wf_def)
    have "k = i \<longrightarrow> unat off' + unat SIZE_OF_PACKET \<le> unat off"
      using i(1,3) k(3) by (auto simp: word_le_nat_alt)
    then show ?thesis
      using root_apart [OF assms(1) hi(3) off(5) hi(1)] i(2,4) hi(2) off(4) k(4) by simp
  qed
  ultimately show ?thesis using off(1,2) by simp
qed

interpretation root: packet_source "new_packet os" root_region "root_ok os" for os
proof unfold_locales
  fix s s' :: "'a pkt_state_scheme" and p
  assume ok: "root_ok os s" and new: "new_packet os s = Inr (p, s')"
  obtain hps where hps: "page_env os hps" "mem_inv os hps s" using ok by (auto simp: root_ok_def)
  obtain t where t: "dma_alloc os SIZE_OF_PACKET ALIGN_OF_PACKET s = Inr (p, t)"
    and s': "s' = t\<lparr>npackets := Suc (npackets t), heap := (heap t)(p := (heap t p)\<lparr>plen := 0\<rparr>)\<rparr>"
    using new by (auto simp: new_packet_def res_simps)
  note fresh = root_fresh [OF hps t]
  have more: "mem_state.more t = mem_state.more s" using fresh by (simp add: mem_le_def)
  note same = mem_more_fields [OF more]
  have "mem_inv os hps s'" using fresh by (simp add: s' mem_inv_def mem_wf_def)
  moreover have "root_region s' = root_region t" by (simp add: s' root_region_def)
  ultimately show "root_ok os s' \<and> insert p (root_region s) \<subseteq> root_region s' \<and>
      (\<forall>q \<in> root_region s. apart p q)"
    using fresh hps(1) unfolding root_ok_def by auto
  show "pool_frame s s'" using same by (simp add: pool_frame_def s')
  show "heap_wf s \<Longrightarrow> heap_wf s' \<and> plen (heap s' p) = 0 \<and> (\<forall>q. q \<noteq> p \<longrightarrow> heap s' q = heap s q)"
    using same by (simp add: heap_wf_def s')
next
  fix s s' :: "'a pkt_state_scheme"
  assume "source_part s = source_part s'"
  then show "root_ok os s = root_ok os s' \<and> root_region s = root_region s'"
    by (simp add: source_part_def root_ok_def root_region_def mem_inv_def mem_wf_def)
qed

section \<open>The constructor the program uses\<close>

definition packet_region :: "os \<Rightarrow> 'a pkt_state_scheme \<Rightarrow> ptr set" where
  "packet_region os = (if os_uid os = 0 then root_region else noroot_region os)"

definition packet_ok :: "os \<Rightarrow> 'a pkt_state_scheme \<Rightarrow> bool" where
  "packet_ok os = (if os_uid os = 0 then root_ok os else noroot_ok os)"

interpretation ctor: packet_source "packet_ctor os" "packet_region os" "packet_ok os" for os
  by (simp add: packet_ctor_def packet_region_def packet_ok_def root.packet_source_axioms
      noroot.packet_source_axioms)

section \<open>The freelist's invariant\<close>

text \<open>
  The pool grows by 1000, 2000, 4000, ... packets. The tenth step would pass
  \<^const>\<open>MAX_PACKETS\<close>, so \<open>PACKET_LIMIT\<close> packets is all there ever are.
\<close>

definition PACKET_LIMIT :: nat where
  "PACKET_LIMIT = 511000"

definition steps_ok :: "'a pkt_state_scheme \<Rightarrow> bool" where
  "steps_ok s \<longleftrightarrow>
     (\<exists>k \<le> 9. unat (PACKETS_ALLOCATED s) = 1000 * (2 ^ k - 1) \<and>
        unat (PACKET_ALLOCATION_STEP s) = 1000 * 2 ^ k)"

text \<open>\<open>U\<close> is the set of packets in use: handed out and not freed yet.\<close>

definition pkt_inv :: "os \<Rightarrow> ptr set \<Rightarrow> 'a pkt_state_scheme \<Rightarrow> bool" where
  "pkt_inv os U s \<longleftrightarrow>
     pool (packet_region os) (packet_ok os) U (unat (PACKETS_ALLOCATED s)) s \<and> steps_ok s"

definition env_ok :: "os \<Rightarrow> bool" where
  "env_ok os \<longleftrightarrow>
     (if os_uid os = 0 then \<exists>hps. page_env os hps \<and> get_huge_page_size os = Inr hps else box_env os)"

lemma pkt_inv_init:
  assumes "env_ok os" and "\<And>p. length (pdata (h p)) = PAYLOAD_SIZE"
  shows "pkt_inv os {} (pkt_init h)"
proof -
  have "packet_ok os (pkt_init h)"
    using assms(1)
    by (auto simp: env_ok_def packet_ok_def root_ok_def noroot_ok_def mem_inv_def mem_wf_def pkt_init_def)
  moreover have "steps_ok (pkt_init h)"
    by (auto simp: steps_ok_def pkt_init_def intro!: exI [of _ 0])
  ultimately show ?thesis
    using assms(2) by (simp add: pkt_inv_def pool_def heap_wf_def pkt_init_def FL_set_def)
qed

lemma step_bounds:
  assumes "k \<le> (9::nat)"
  shows "1000 * (2 ^ k - 1) + 1000 * 2 ^ k = 1000 * (2 ^ Suc k - 1 :: nat)"
    and "1000 * (2 ^ Suc k - 1) \<le> MAX_PACKETS \<longleftrightarrow> k \<le> 8"
    and "1000 * (2 ^ k - 1) \<le> PACKET_LIMIT"
    and "1000 * (2 ^ Suc k) \<le> (1024000 :: nat)"
proof -
  have "k \<in> {0, 1, 2, 3, 4, 5, 6, 7, 8, 9}" using assms by auto
  then show "1000 * (2 ^ k - 1) + 1000 * 2 ^ k = 1000 * (2 ^ Suc k - 1 :: nat)"
    and "1000 * (2 ^ Suc k - 1) \<le> MAX_PACKETS \<longleftrightarrow> k \<le> 8"
    and "1000 * (2 ^ k - 1) \<le> PACKET_LIMIT"
    and "1000 * (2 ^ Suc k) \<le> (1024000 :: nat)"
    by (auto simp: MAX_PACKETS_def PACKET_LIMIT_def)
qed

text \<open>What the sum and the doubled step of \<open>preallocate_step\<close> are, as numbers.\<close>

lemma steps_okE:
  assumes "steps_ok s"
  obtains k where "k \<le> 9" "unat (PACKETS_ALLOCATED s) = 1000 * (2 ^ k - 1)"
    "unat (PACKET_ALLOCATION_STEP s) = 1000 * 2 ^ k"
    "unat (PACKETS_ALLOCATED s + PACKET_ALLOCATION_STEP s) = 1000 * (2 ^ Suc k - 1)"
    "unat (PACKET_ALLOCATION_STEP s * 2) = 1000 * 2 ^ Suc k"
proof -
  obtain k where k: "k \<le> 9" "unat (PACKETS_ALLOCATED s) = 1000 * (2 ^ k - 1)"
    "unat (PACKET_ALLOCATION_STEP s) = 1000 * 2 ^ k"
    using assms by (auto simp: steps_ok_def)
  note b = step_bounds [OF k(1)]
  have "unat (PACKETS_ALLOCATED s + PACKET_ALLOCATION_STEP s) = 1000 * (2 ^ Suc k - 1)"
    using b k(2,3) by (subst unat_add_no_wrap) auto
  moreover have "unat (PACKET_ALLOCATION_STEP s * 2) = 1000 * 2 ^ Suc k"
    using b(4) k(3) by (simp add: unat_word_ariths)
  ultimately show thesis using that k by blast
qed

lemma pkt_inv_total: "pkt_inv os U s \<Longrightarrow> nfree s + card U \<le> PACKET_LIMIT"
  using step_bounds(3) by (auto simp: pkt_inv_def pool_def steps_ok_def)

section \<open>Growing the pool\<close>

lemma preallocate_step_ok:
  assumes inv: "pkt_inv os U s" and run: "preallocate_step os s = Inr s'"
  shows "pkt_inv os U s' \<and> nfree s < nfree s' \<and> STATS s' = STATS s \<and>
    pkt_state.more s' = pkt_state.more s \<and> (\<forall>q \<in> U. heap s' q = heap s q)"
proof -
  obtain k where k: "k \<le> 9" "unat (PACKETS_ALLOCATED s) = 1000 * (2 ^ k - 1)"
    "unat (PACKET_ALLOCATION_STEP s) = 1000 * 2 ^ k"
    "unat (PACKETS_ALLOCATED s + PACKET_ALLOCATION_STEP s) = 1000 * (2 ^ Suc k - 1)"
    "unat (PACKET_ALLOCATION_STEP s * 2) = 1000 * 2 ^ Suc k"
    using inv steps_okE unfolding pkt_inv_def by blast
  obtain t where le: "unat (PACKETS_ALLOCATED s + PACKET_ALLOCATION_STEP s) \<le> MAX_PACKETS"
    and t: "repeat_res (unat (PACKET_ALLOCATION_STEP s))
      (\<lambda>s. bind_res (packet_ctor os s) (\<lambda>(p, s). free_internal p s)) s = Inr t"
    and s': "s' = t\<lparr>PACKETS_ALLOCATED := PACKETS_ALLOCATED t + PACKET_ALLOCATION_STEP t,
      PACKET_ALLOCATION_STEP := PACKET_ALLOCATION_STEP t * 2\<rparr>"
    using run unfolding preallocate_step_def Let_def by (auto simp: res_simps)
  have k8: "Suc k \<le> 9" using le k(4) step_bounds(2) [OF k(1)] by simp
  have sum: "unat (PACKETS_ALLOCATED s) + unat (PACKET_ALLOCATION_STEP s) =
      unat (PACKETS_ALLOCATED s + PACKET_ALLOCATION_STEP s)"
    using k(2-4) step_bounds(1) [OF k(1)] by simp
  have inv': "pool (packet_region os) (packet_ok os) U (unat (PACKETS_ALLOCATED s)) s"
    using inv by (simp add: pkt_inv_def)
  have r: "pool (packet_region os) (packet_ok os) U
        (unat (PACKETS_ALLOCATED s) + unat (PACKET_ALLOCATION_STEP s)) t"
      "nfree t = nfree s + unat (PACKET_ALLOCATION_STEP s)"
      "PACKETS_ALLOCATED t = PACKETS_ALLOCATED s" "PACKET_ALLOCATION_STEP t = PACKET_ALLOCATION_STEP s"
      "STATS t = STATS s" "pkt_state.more t = pkt_state.more s" "\<forall>q \<in> U. heap t q = heap s q"
    using ctor.refill_pool [OF inv' _ t] le unfolding sum by simp_all
  have "source_part s' = source_part t" by (simp add: s' source_part_def)
  note src = ctor.source_only [OF this, of os]
  have "pool (packet_region os) (packet_ok os) U (unat (PACKETS_ALLOCATED s')) s'"
    using r(1) src unfolding pool_def by (simp add: s' r(3,4) sum heap_wf_def FL_set_def)
  moreover have "steps_ok s'"
    unfolding steps_ok_def using k8 k(4,5) by (intro exI [of _ "Suc k"]) (simp add: s' r(3,4))
  ultimately show ?thesis using r k(3) by (simp add: pkt_inv_def s')
qed

lemma preallocate_step_error:
  fixes s :: "'a pkt_state_scheme"
  assumes inv: "pkt_inv os U s" and run: "preallocate_step os s = Inl e" and "nfree s = 0"
  shows "e = AllocationOverflow \<and> card U = PACKET_LIMIT \<or>
    card U < PACKET_LIMIT \<and>
    (\<exists>t :: 'a pkt_state_scheme. npackets t < PACKET_LIMIT \<and> packet_ok os t \<and> packet_ctor os t = Inl e)"
proof -
  obtain k where k: "k \<le> 9" "unat (PACKETS_ALLOCATED s) = 1000 * (2 ^ k - 1)"
    "unat (PACKET_ALLOCATION_STEP s) = 1000 * 2 ^ k"
    "unat (PACKETS_ALLOCATED s + PACKET_ALLOCATION_STEP s) = 1000 * (2 ^ Suc k - 1)"
    using inv steps_okE unfolding pkt_inv_def by blast
  have card: "card U = 1000 * (2 ^ k - 1)"
    using inv assms(3) k(2) by (simp add: pkt_inv_def pool_def)
  show ?thesis
  proof (cases "k = 9")
    case True
    then show ?thesis
      using run k(4) card by (simp add: preallocate_step_def MAX_PACKETS_def PACKET_LIMIT_def)
  next
    case False
    then have k8: "Suc k \<le> 9" using k(1) by simp
    then have le: "unat (PACKETS_ALLOCATED s + PACKET_ALLOCATION_STEP s) \<le> MAX_PACKETS"
      using k(4) step_bounds(2) [OF k(1)] by simp
    have sum: "unat (PACKETS_ALLOCATED s) + unat (PACKET_ALLOCATION_STEP s) = 1000 * (2 ^ Suc k - 1)"
      using k(2,3) step_bounds(1) [OF k(1)] by simp
    have loop: "repeat_res (unat (PACKET_ALLOCATION_STEP s))
        (\<lambda>s. bind_res (packet_ctor os s) (\<lambda>(p, s). free_internal p s)) s = Inl e"
      using run le unfolding preallocate_step_def Let_def by (auto simp: res_simps)
    have "pool (packet_region os) (packet_ok os) U (unat (PACKETS_ALLOCATED s)) s"
      using inv by (simp add: pkt_inv_def)
    from ctor.refill_error [OF this _ loop] obtain t :: "'a pkt_state_scheme" and m where m: "m < 1000 * (2 ^ Suc k - 1)"
      "pool (packet_region os) (packet_ok os) U m t" "packet_ctor os t = Inl e"
      using le unfolding sum k(4) by blast
    have lim: "1000 * (2 ^ Suc k - 1) \<le> PACKET_LIMIT" by (rule step_bounds(3) [OF k8])
    have "(1::nat) \<le> 2 ^ k" by simp
    then have "1000 * (2 ^ k - 1) < (1000 * (2 ^ Suc k - 1) :: nat)"
      unfolding power_Suc by linarith
    then have "card U < PACKET_LIMIT" using card lim by linarith
    moreover have "m < PACKET_LIMIT" using m(1) lim by linarith
    ultimately show ?thesis using m(2,3) unfolding pool_def by blast
  qed
qed

section \<open>Allocating\<close>

lemma pop_pool:
  assumes inv: "pool region ok U n s" and ne: "nfree s \<noteq> 0"
    and src: "\<And>t. source_part t = source_part s \<Longrightarrow> ok t = ok s \<and> region t = region s"
    and s': "s' = s\<lparr>FL_nfree := FL_nfree s - 1\<rparr>"
  shows "pool region ok (insert (FL_list s (nfree s - 1)) U) n s' \<and>
    FL_list s (nfree s - 1) \<in> FL_set s \<and> nfree s' = nfree s - 1"
proof -
  define p where "p = FL_list s (nfree s - 1)"
  have n: "nfree s' = nfree s - 1"
    unfolding s' using ne by (simp add: unat_sub_no_wrap)
  then have dom: "{..<nfree s} = insert (nfree s - 1) {..<nfree s'}" using ne by auto
  have inj: "inj_on (FL_list s) (insert (nfree s - 1) {..<nfree s'})"
    using inv unfolding pool_def dom by simp
  have FL: "FL_set s = insert p (FL_set s')" unfolding FL_set_def dom by (simp add: s' p_def)
  have p: "p \<notin> FL_set s'" using inj n unfolding FL_set_def p_def by (auto simp: s')
  have pU: "p \<notin> U" and fin: "finite U" using inv FL by (auto simp: pool_def)
  have un: "FL_set s' \<union> insert p U = FL_set s \<union> U" by (auto simp: FL)
  have "ok s' = ok s \<and> region s' = region s" by (rule src) (simp add: s' source_part_def)
  moreover have "inj_on (FL_list s') {..<nfree s'}"
    using inj unfolding inj_on_insert by (simp add: s')
  moreover have "nfree s' + card (insert p U) = n" using inv pU fin ne n by (simp add: pool_def)
  moreover have "FL_set s' \<inter> insert p U = {}" using inv p by (auto simp: pool_def FL)
  ultimately have "pool region ok (insert p U) n s'"
    using inv unfolding pool_def un by (simp add: heap_wf_def FL s')
  then show ?thesis using FL n by (simp add: p_def)
qed

text \<open>A packet that is handed out is empty and overlaps none that is in use.\<close>

lemma allocate_ok:
  assumes inv: "pkt_inv os U s" and run: "allocate os s = Inr (p, s')"
  shows "pkt_inv os (insert p U) s' \<and> p \<notin> U \<and> plen (heap s' p) = 0 \<and>
    (\<forall>q \<in> U. apart p q \<and> heap s' q = heap s q) \<and> STATS s' = STATS s \<and>
    pkt_state.more s' = pkt_state.more s"
proof -
  obtain t where t: "(if FL_nfree s = 0 then preallocate_step os s else Inr s) = Inr t"
    and p: "p = FL_list t (unat (FL_nfree t - 1))" and s': "s' = t\<lparr>FL_nfree := FL_nfree t - 1\<rparr>"
    using run unfolding allocate_def Let_def by (auto simp: res_simps)
  have t': "pkt_inv os U t \<and> nfree t \<noteq> 0 \<and> STATS t = STATS s \<and>
      pkt_state.more t = pkt_state.more s \<and> (\<forall>q \<in> U. heap t q = heap s q)"
  proof (cases "FL_nfree s = 0")
    case True
    then show ?thesis using preallocate_step_ok [OF inv] t by fastforce
  next
    case False
    then show ?thesis using t inv by (auto simp: word_eq_unat_iff)
  qed
  then have p': "p = FL_list t (nfree t - 1)" by (simp add: p unat_sub_no_wrap)
  have inv': "pool (packet_region os) (packet_ok os) U (unat (PACKETS_ALLOCATED t)) t"
    using t' by (simp add: pkt_inv_def)
  note pop = pop_pool [OF inv' _ ctor.source_only s', folded p']
  have "pkt_inv os (insert p U) s'"
    using pop t' by (simp add: pkt_inv_def s' steps_ok_def)
  moreover have "p \<in> FL_set t" using pop t' by blast
  then have "p \<notin> U" "plen (heap t p) = 0" "\<forall>q \<in> U. apart p q"
    using inv' unfolding pool_def by (auto dest: pairwiseD)
  ultimately show ?thesis using t' by (simp add: s')
qed

text \<open>
  Allocating fails only when the freelist is empty, and then either because the pool has reached its
  limit, with every packet in use, or because the system has no memory left.
\<close>

lemma allocate_error:
  fixes s :: "'a pkt_state_scheme"
  assumes inv: "pkt_inv os U s" and run: "allocate os s = Inl e"
  shows "nfree s = 0 \<and> (e = AllocationOverflow \<and> card U = PACKET_LIMIT \<or>
    card U < PACKET_LIMIT \<and>
    (\<exists>t :: 'a pkt_state_scheme. npackets t < PACKET_LIMIT \<and> packet_ok os t \<and> packet_ctor os t = Inl e))"
proof -
  have idx: "unat (FL_nfree t - 1) < MAX_PACKETS" if "pkt_inv os U t" "nfree t \<noteq> 0" for t :: "'a pkt_state_scheme"
    using pkt_inv_total [OF that(1)] that(2)
    by (simp add: unat_sub_no_wrap MAX_PACKETS_def PACKET_LIMIT_def)
  show ?thesis
  proof (cases "FL_nfree s = 0")
    case True
    have "preallocate_step os s = Inl e"
    proof (cases "preallocate_step os s")
      case (Inr t)
      then have "unat (FL_nfree t - 1) < MAX_PACKETS"
        using preallocate_step_ok [OF inv Inr] idx [of t] by simp
      then show ?thesis using run True Inr by (simp add: allocate_def Let_def)
    qed (use run True in \<open>simp add: allocate_def\<close>)
    then show ?thesis using preallocate_step_error [OF inv] True by simp
  next
    case False
    then have "nfree s \<noteq> 0" by (simp add: word_eq_unat_iff)
    then have False using run False idx [OF inv] by (simp add: allocate_def Let_def)
    then show ?thesis ..
  qed
qed

text \<open>DMA memory for other purposes, the descriptor rings of a driver.\<close>

lemma dma_alloc_inv:
  assumes inv: "pkt_inv os U s" and root: "os_uid os = 0" and algn: "unat algn \<le> 128"
    and run: "dma_alloc os bytes algn s = Inr (p, s')"
  shows "pkt_inv os U s' \<and> pkt_state.more s' = pkt_state.more s"
proof -
  have "root_ok os s" using inv root by (simp add: pkt_inv_def pool_def packet_ok_def)
  then obtain hps where hps: "page_env os hps" "mem_inv os hps s" by (auto simp: root_ok_def)
  then have "unat hps * 2 + unat algn < 2 ^ 64" using algn by (simp add: page_env_def)
  from dma_alloc_spec [OF hps(2) this run] have m: "mem_inv os hps s'" "mem_le s s'" by auto
  have more: "mem_state.more s' = mem_state.more s" using m(2) by (simp add: mem_le_def)
  note same = mem_more_fields [OF more]
  have "root_region s \<subseteq> root_region s'" using m hps(2) by (intro root_region_mono) (auto simp: mem_inv_def)
  moreover have "root_ok os s'" using hps(1) m(1) by (auto simp: root_ok_def)
  moreover have "FL_set s' = FL_set s" using same by (simp add: FL_set_def)
  ultimately have "pkt_inv os U s'"
    using inv root same by (auto simp: pkt_inv_def pool_def packet_ok_def packet_region_def heap_wf_def steps_ok_def)
  then show ?thesis using same(8) by simp
qed

section \<open>Freeing\<close>

definition counted :: "u16 \<Rightarrow> EngineStats \<Rightarrow> EngineStats" where
  "counted len st =
     st\<lparr>frees := frees st + 1, freebytes := freebytes st + ucast len,
        freebits := freebits st + (max (ucast len) 60 + 24) * 8\<rparr>"

text \<open>Freeing a packet that is in use always succeeds; it counts the packet and returns it.\<close>

lemma free_ok:
  assumes inv: "pkt_inv os U s" and p: "p \<in> U"
  shows "\<exists>s'. free p s = Inr s' \<and> pkt_inv os (U - {p}) s' \<and>
    STATS s' = counted (plen (heap s p)) (STATS s) \<and> (\<forall>q. q \<noteq> p \<longrightarrow> heap s' q = heap s q) \<and>
    FL_set s' = insert p (FL_set s) \<and> pkt_state.more s' = pkt_state.more s"
proof -
  define t where "t = s\<lparr>STATS := counted (plen (heap s p)) (STATS s)\<rparr>"
  have eq: "free p s = free_internal p t"
    by (simp add: free_def Let_def add_frees_def add_freebytes_def add_freebits_def t_def counted_def
        algebra_simps)
  have U: "insert p (U - {p}) = U" using p by auto
  have src: "source_part t = source_part s" by (simp add: t_def source_part_def)
  have "pool (packet_region os) (packet_ok os) (insert p (U - {p})) (unat (PACKETS_ALLOCATED s)) t"
    using inv ctor.source_only [OF src, of os] unfolding U pkt_inv_def pool_def
    by (simp add: t_def heap_wf_def FL_set_def)
  moreover have "unat (PACKETS_ALLOCATED s) \<le> MAX_PACKETS"
    using pkt_inv_total [OF inv] inv by (auto simp: pkt_inv_def pool_def PACKET_LIMIT_def MAX_PACKETS_def)
  ultimately obtain s' where s': "free_internal p t = Inr s'"
    "pool (packet_region os) (packet_ok os) (U - {p}) (unat (PACKETS_ALLOCATED s)) s'"
    "FL_set s' = insert p (FL_set t)" "\<forall>q. q \<noteq> p \<longrightarrow> heap s' q = heap t q"
    "PACKETS_ALLOCATED s' = PACKETS_ALLOCATED t"
    "PACKET_ALLOCATION_STEP s' = PACKET_ALLOCATION_STEP t" "STATS s' = STATS t"
    "pkt_state.more s' = pkt_state.more t"
    using ctor.free_internal_pool by blast
  have "FL_set t = FL_set s" by (simp add: t_def FL_set_def)
  then show ?thesis
    using s' inv unfolding eq by (simp add: pkt_inv_def steps_ok_def t_def)
qed

section \<open>Cloning\<close>

lemma pkt_inv_heap:
  assumes "pkt_inv os U s" and "p \<in> U" and "length (pdata x) = PAYLOAD_SIZE"
  shows "pkt_inv os U (s\<lparr>heap := (heap s)(p := x)\<rparr>)"
proof -
  let ?t = "s\<lparr>heap := (heap s)(p := x)\<rparr>"
  have src: "source_part ?t = source_part s" by (simp add: source_part_def)
  have "FL_set ?t = FL_set s" by (simp add: FL_set_def)
  moreover have "p \<notin> FL_set s" using assms(1,2) by (auto simp: pkt_inv_def pool_def)
  ultimately show ?thesis
    using assms ctor.source_only [OF src, of os]
    by (auto simp: pkt_inv_def pool_def heap_wf_def steps_ok_def)
qed

lemma clone_ok:
  assumes inv: "pkt_inv os U s" and p: "p \<in> U" and run: "clone os p s = Inr (c, s')"
  shows "pkt_inv os (insert c U) s' \<and> c \<notin> U \<and> plen (heap s' c) = plen (heap s p) \<and>
    (\<forall>i < min (unat (plen (heap s p))) PAYLOAD_SIZE. pdata (heap s' c) ! i = pdata (heap s p) ! i) \<and>
    (\<forall>q \<in> U. apart c q \<and> heap s' q = heap s q) \<and> STATS s' = STATS s \<and>
    pkt_state.more s' = pkt_state.more s"
proof -
  obtain t where t: "allocate os s = Inr (c, t)"
    and s': "s' = t\<lparr>heap := (heap t)(c := (heap t c)
      \<lparr>pdata := copy (pdata (heap t c)) (pdata (heap t p)) (ucast (plen (heap t p))),
       plen := plen (heap t p)\<rparr>)\<rparr>"
    using run by (auto simp: clone_def res_simps Let_def)
  note a = allocate_ok [OF inv t]
  have hp: "heap t p = heap s p" using a p by simp
  have len: "length (pdata (heap t q)) = PAYLOAD_SIZE" for q
    using a by (auto simp: pkt_inv_def pool_def heap_wf_def)
  have "pkt_inv os (insert c U) s'"
    unfolding s' by (rule pkt_inv_heap) (use a len in auto)
  moreover have "\<forall>i < min (unat (plen (heap s p))) PAYLOAD_SIZE.
      pdata (heap s' c) ! i = pdata (heap s p) ! i"
    using len [of c] len [of p] hp by (auto simp: s' copy_nth)
  ultimately show ?thesis using a hp by (auto simp: s')
qed

section \<open>A system to run on\<close>

text \<open>
  For instances of the properties: a user without root rights, with room on the heap for as many
  packets as the program can allocate.
\<close>

definition zero_heap :: "ptr \<Rightarrow> packet" where
  "zero_heap p = \<lparr>plen = 0, pdata = replicate PAYLOAD_SIZE 0\<rparr>"

definition no_hugepage :: hp_calls where
  "no_hugepage =
     \<lparr>hp_remount = - 1, hp_mount = - 1, hp_open = - 1, hp_ftruncate = - 1, hp_mmap = MAP_FAILED,
      hp_mlock = - 1, hp_pagemap_open = - 1, hp_pread = (\<lambda>_. (- 1, 0)), hp_mmap_fixed = (\<lambda>_. MAP_FAILED)\<rparr>"

definition sample_os :: os where
  "sample_os =
     \<lparr>os_uid = 1000, os_meminfo = None, os_hugepage = (\<lambda>_. no_hugepage),
      os_box = (\<lambda>n. if n < PACKET_LIMIT then Some (of_nat ((n + 1) * 10242)) else None)\<rparr>"

abbreviation sample_state :: pkt_state where
  "sample_state \<equiv> pkt_init zero_heap"

lemma sample_env_ok: "env_ok sample_os"
proof -
  have u: "unat (of_nat ((n + 1) * 10242) :: ptr) = (n + 1) * 10242" if "n < PACKET_LIMIT" for n
    unfolding unat_of_nat using that by (simp add: PACKET_LIMIT_def)
  have "apart (of_nat ((i + 1) * 10242)) (of_nat ((j + 1) * 10242))"
    if "i < PACKET_LIMIT" "j < PACKET_LIMIT" "i \<noteq> j" for i j
    unfolding apart_def unat_SIZE_OF_PACKET u [OF that(1)] u [OF that(2)]
    using that(3) by (cases "i < j") auto
  then have "box_env sample_os"
    unfolding box_env_def sample_os_def by (simp split: if_splits)
  then show ?thesis by (simp add: env_ok_def sample_os_def)
qed

lemma sample_inv: "pkt_inv sample_os {} sample_state"
  by (rule pkt_inv_init [OF sample_env_ok]) (simp add: zero_heap_def)

text \<open>Without root rights, allocating succeeds for as long as the heap has room.\<close>

lemma allocate_noroot:
  fixes s :: "'a pkt_state_scheme"
  assumes inv: "pkt_inv os U s" and "os_uid os \<noteq> 0" and "\<And>i. i < PACKET_LIMIT \<Longrightarrow> os_box os i \<noteq> None"
    and "card U < PACKET_LIMIT"
  shows "\<exists>p s'. allocate os s = Inr (p, s')"
proof (cases "allocate os s")
  case (Inl e)
  from allocate_error [OF inv Inl] assms(4) obtain t :: "'a pkt_state_scheme"
    where "npackets t < PACKET_LIMIT" "packet_ctor os t = Inl e" by auto
  then have False
    using assms(2) assms(3) [of "npackets t"]
    by (auto simp: packet_ctor_def new_packet_noroot_def split: option.splits)
  then show ?thesis ..
next
  case (Inr r)
  then show ?thesis by (cases r) auto
qed

lemma sample_allocate:
  "\<exists>p s. allocate sample_os sample_state = Inr (p, s) \<and> pkt_inv sample_os {p} s"
  using allocate_noroot [OF sample_inv] allocate_ok [OF sample_inv]
  by (fastforce simp: sample_os_def PACKET_LIMIT_def split: if_splits)

section \<open>Properties\<close>

text \<open>
  C20: a packet that \<open>allocate\<close> hands out is empty, is not in use already, and its memory
  overlaps no packet in use; no packet in use changes, and the freelist's invariant is kept. This
  holds for both sources of packets, huge pages and the regular heap.
\<close>

theorem allocate_fresh:
  assumes "pkt_inv os U s" and "allocate os s = Inr (p, s')"
  shows "pkt_inv os (insert p U) s' \<and> p \<notin> U \<and> plen (heap s' p) = 0 \<and>
    (\<forall>q \<in> U. apart p q \<and> heap s' q = heap s q)"
  using allocate_ok [OF assms] by blast

theorem allocate_fresh_witness:
  "\<exists>p s'. allocate sample_os sample_state = Inr (p, s') \<and> pkt_inv sample_os {p} s' \<and> plen (heap s' p) = 0"
  using sample_allocate allocate_fresh [OF sample_inv] by fastforce



text \<open>
  C24: freeing a packet that is in use never panics (the freelist cannot overflow); the packet is on
  the freelist afterwards, with length 0, and is counted with the bits it takes on the wire.
\<close>

theorem free_returns_packet:
  assumes "pkt_inv os U s" and "p \<in> U"
  shows "\<exists>s'. free p s = Inr s' \<and> pkt_inv os (U - {p}) s' \<and> FL_set s' = insert p (FL_set s) \<and>
    STATS s' = counted (plen (heap s p)) (STATS s)"
  using free_ok [OF assms] by blast

theorem free_returns_packet_witness:
  "\<exists>p s s'. allocate sample_os sample_state = Inr (p, s) \<and> free p s = Inr s' \<and> pkt_inv sample_os {} s'"
proof -
  obtain p s where a: "allocate sample_os sample_state = Inr (p, s)" "pkt_inv sample_os {p} s"
    using sample_allocate by blast
  from free_returns_packet [OF a(2), of p] show ?thesis using a by auto
qed

text \<open>
  A clone is a fresh packet with the same length and payload, and the original is unchanged.
\<close>

theorem clone_copies:
  assumes "pkt_inv os U s" and "p \<in> U" and "clone os p s = Inr (c, s')"
  shows "pkt_inv os (insert c U) s' \<and> c \<notin> U \<and> plen (heap s' c) = plen (heap s p) \<and>
    (\<forall>i < min (unat (plen (heap s p))) PAYLOAD_SIZE. pdata (heap s' c) ! i = pdata (heap s p) ! i) \<and>
    (\<forall>q \<in> U. apart c q \<and> heap s' q = heap s q)"
  using clone_ok [OF assms] by blast

end
