(* ===== verification/Rush_Link.thy ===== *)
theory Rush_Link
  imports Rush_Packet_Correct
begin

text \<open>
  \<open>src/link.rs\<close>: unidirectional links, ring buffers of packet pointers with two cursors and
  counters.
\<close>

definition LINK_RING_SIZE :: nat where
  "LINK_RING_SIZE = 1024"

definition LINK_MAX_PACKETS :: nat where
  "LINK_MAX_PACKETS = LINK_RING_SIZE - 1"

text \<open>\<open>packets\<close> is the array of \<open>LINK_RING_SIZE\<close> pointers.\<close>

record Link =
  packets :: "nat \<Rightarrow> ptr"
  read_i :: i32
  write_i :: i32
  txpackets :: u64
  txbytes :: u64
  txdrop :: u64
  rxpackets :: u64
  rxbytes :: u64

definition SIZE :: i32 where
  "SIZE = of_nat LINK_RING_SIZE"

definition new_link :: Link where
  "new_link =
     \<lparr>packets = (\<lambda>_. null_ptr), read_i = 0, write_i = 0,
      txpackets = 0, txbytes = 0, txdrop = 0, rxpackets = 0, rxbytes = 0\<rparr>"

definition empty :: "Link \<Rightarrow> bool" where
  "empty r \<longleftrightarrow> read_i r = write_i r"

definition full :: "Link \<Rightarrow> bool" where
  "full r \<longleftrightarrow> (write_i r + 1) AND (SIZE - 1) = read_i r"

text \<open>\<open>i as usize\<close> of an \<open>i32\<close> extends the sign.\<close>

definition ring_index :: "i32 \<Rightarrow> nat" where
  "ring_index i = unat (scast i :: usize)"

definition receive :: "Link \<Rightarrow> 'a pkt_state_scheme \<Rightarrow> (ptr \<times> Link) res" where
  "receive r s =
     (if empty r then Inl LinkUnderflow
      else
        bind_res (assert_res (ring_index (read_i r) < LINK_RING_SIZE) IndexOutOfBounds) (\<lambda>_.
        let p = packets r (ring_index (read_i r));
            r = r\<lparr>read_i := (read_i r + 1) AND (SIZE - 1)\<rparr>;
            r = r\<lparr>rxpackets := rxpackets r + 1\<rparr>;
            r = r\<lparr>rxbytes := rxbytes r + ucast (plen (heap s p))\<rparr>
        in Inr (p, r)))"

definition transmit :: "Link \<Rightarrow> ptr \<Rightarrow> 'a pkt_state_scheme \<Rightarrow> (Link \<times> 'a pkt_state_scheme) res" where
  "transmit r p s =
     (if full r then
        let r = r\<lparr>txdrop := txdrop r + 1\<rparr> in bind_res (free p s) (\<lambda>s. Inr (r, s))
      else
        let r = r\<lparr>txpackets := txpackets r + 1\<rparr>;
            r = r\<lparr>txbytes := txbytes r + ucast (plen (heap s p))\<rparr>
        in bind_res (assert_res (ring_index (write_i r) < LINK_RING_SIZE) IndexOutOfBounds) (\<lambda>_.
           let r = r\<lparr>packets := (packets r)(ring_index (write_i r) := p)\<rparr>;
               r = r\<lparr>write_i := (write_i r + 1) AND (SIZE - 1)\<rparr>
           in Inr (r, s)))"

text \<open>
  \<open>Drop\<close>: free what is left on the link. The loop is given \<open>LINK_RING_SIZE\<close> rounds,
  more than a ring can hold packets.
\<close>

primrec drop_loop :: "nat \<Rightarrow> Link \<Rightarrow> 'a pkt_state_scheme \<Rightarrow> (Link \<times> 'a pkt_state_scheme) res" where
  "drop_loop 0 r s = (if empty r then Inr (r, s) else Inl Diverges)"
| "drop_loop (Suc fuel) r s =
     (if empty r then Inr (r, s)
      else bind_res (receive r s) (\<lambda>(p, r). bind_res (free p s) (\<lambda>s. drop_loop fuel r s)))"

definition drop_link :: "Link \<Rightarrow> 'a pkt_state_scheme \<Rightarrow> (Link \<times> 'a pkt_state_scheme) res" where
  "drop_link r s = drop_loop LINK_RING_SIZE r s"

end
