(* ===== verification/Rush_Link_Correct.thy ===== *)
theory Rush_Link_Correct
  imports Rush_Link
begin

text \<open>
  A link is a first-in first-out queue of at most 1023 packets. The ring and its cursors are
  abstracted to the list of the packets in it; the interface \<open>bounded_fifo\<close> says what the
  operations do to that list, and its lemmas say what a client sees.
\<close>

section \<open>The interface of a bounded queue\<close>

locale bounded_fifo =
  fixes new :: 'q and emp :: "'q \<Rightarrow> bool" and ful :: "'q \<Rightarrow> bool"
    and rx :: "'q \<Rightarrow> 'c \<Rightarrow> ('p \<times> 'q) res"
    and tx :: "'q \<Rightarrow> 'p \<Rightarrow> 'c \<Rightarrow> ('q \<times> 'c) res"
    and fifo :: "'q \<Rightarrow> 'p list" and wf :: "'q \<Rightarrow> bool" and cap :: nat
  assumes new_law: "wf new" "fifo new = []"
    and emp_law: "wf q \<Longrightarrow> emp q \<longleftrightarrow> fifo q = []"
    and ful_law: "wf q \<Longrightarrow> ful q \<longleftrightarrow> length (fifo q) = cap"
    and bound_law: "wf q \<Longrightarrow> length (fifo q) \<le> cap"
    and rx_law: "wf q \<Longrightarrow> fifo q = p # ps \<Longrightarrow> \<exists>q'. rx q c = Inr (p, q') \<and> wf q' \<and> fifo q' = ps"
    and rx_underflow: "wf q \<Longrightarrow> fifo q = [] \<Longrightarrow> rx q c = Inl LinkUnderflow"
    and tx_law: "wf q \<Longrightarrow> length (fifo q) < cap \<Longrightarrow>
      \<exists>q'. tx q p c = Inr (q', c) \<and> wf q' \<and> fifo q' = fifo q @ [p]"
    and tx_drop: "wf q \<Longrightarrow> length (fifo q) = cap \<Longrightarrow> tx q p c = Inr (q', c') \<Longrightarrow>
      wf q' \<and> fifo q' = fifo q"

text \<open>A client that transmits a list of packets, and one that receives \<open>n\<close> packets.\<close>

primrec tx_all :: "('q \<Rightarrow> 'p \<Rightarrow> 'c \<Rightarrow> ('q \<times> 'c) res) \<Rightarrow> 'p list \<Rightarrow> 'q \<Rightarrow> 'c \<Rightarrow> ('q \<times> 'c) res" where
  "tx_all tx [] q c = Inr (q, c)"
| "tx_all tx (p # ps) q c = bind_res (tx q p c) (\<lambda>(q, c). tx_all tx ps q c)"

primrec rx_all :: "('q \<Rightarrow> 'c \<Rightarrow> ('p \<times> 'q) res) \<Rightarrow> nat \<Rightarrow> 'q \<Rightarrow> 'c \<Rightarrow> ('p list \<times> 'q) res" where
  "rx_all rx 0 q c = Inr ([], q)"
| "rx_all rx (Suc n) q c =
     bind_res (rx q c) (\<lambda>(p, q). bind_res (rx_all rx n q c) (\<lambda>(ps, q). Inr (p # ps, q)))"

text \<open>Any interleaving of the two, and what it should do to a list.\<close>

datatype 'p fifo_op = Tx 'p | Rx

primrec run_ops ::
  "('q \<Rightarrow> 'c \<Rightarrow> ('p \<times> 'q) res) \<Rightarrow> ('q \<Rightarrow> 'p \<Rightarrow> 'c \<Rightarrow> ('q \<times> 'c) res) \<Rightarrow> 'p fifo_op list \<Rightarrow> 'q \<Rightarrow> 'c \<Rightarrow>
   ('p list \<times> 'q \<times> 'c) res" where
  "run_ops rx tx [] q c = Inr ([], q, c)"
| "run_ops rx tx (a # as) q c =
     (case a of
        Tx p \<Rightarrow> bind_res (tx q p c) (\<lambda>(q, c). run_ops rx tx as q c)
      | Rx \<Rightarrow> bind_res (rx q c) (\<lambda>(p, q).
          bind_res (run_ops rx tx as q c) (\<lambda>(ps, r). Inr (p # ps, r))))"

primrec spec_ops :: "nat \<Rightarrow> 'p fifo_op list \<Rightarrow> 'p list \<Rightarrow> 'p list \<times> 'p list" where
  "spec_ops cap [] ps = ([], ps)"
| "spec_ops cap (a # as) ps =
     (case a of
        Tx p \<Rightarrow> spec_ops cap as (if length ps < cap then ps @ [p] else ps)
      | Rx \<Rightarrow> (let (out, ps') = spec_ops cap as (tl ps) in (hd ps # out, ps')))"

context bounded_fifo
begin

lemma tx_all_room:
  assumes "wf q" and "length (fifo q) + length ps \<le> cap"
  shows "\<exists>q'. tx_all tx ps q c = Inr (q', c) \<and> wf q' \<and> fifo q' = fifo q @ ps"
  using assms
proof (induction ps arbitrary: q)
  case Nil
  then show ?case by simp
next
  case (Cons p ps)
  then obtain q1 where "tx q p c = Inr (q1, c)" "wf q1" "fifo q1 = fifo q @ [p]"
    using tx_law [of q p c] by auto
  then show ?case using Cons.IH [of q1] Cons.prems by auto
qed

lemma rx_all_take:
  assumes "wf q" and "n \<le> length (fifo q)"
  shows "\<exists>q'. rx_all rx n q c = Inr (take n (fifo q), q') \<and> wf q' \<and> fifo q' = drop n (fifo q)"
  using assms
proof (induction n arbitrary: q)
  case 0
  then show ?case by simp
next
  case (Suc n)
  then obtain p ps where f: "fifo q = p # ps" by (cases "fifo q") auto
  from rx_law [OF Suc.prems(1) this, of c] obtain q1
    where "rx q c = Inr (p, q1)" "wf q1" "fifo q1 = ps" by auto
  then show ?case using Suc.IH [of q1] Suc.prems(2) f by auto
qed

text \<open>What is sent is received, in order.\<close>

lemma roundtrip:
  assumes "length ps \<le> cap"
  shows "\<exists>q q'. tx_all tx ps new c = Inr (q, c) \<and> rx_all rx (length ps) q c = Inr (ps, q') \<and>
    emp q'"
proof -
  obtain q where q: "tx_all tx ps new c = Inr (q, c)" "wf q" "fifo q = ps"
    using tx_all_room [OF new_law(1), of ps c] assms new_law(2) by auto
  then show ?thesis using rx_all_take [OF q(2), of "length ps" c] by (auto simp: emp_law)
qed

text \<open>Whatever the interleaving, the queue answers as the list does.\<close>

lemma simulation:
  assumes "wf q" and "run_ops rx tx as q c = Inr (out, q', c')"
  shows "wf q' \<and> spec_ops cap as (fifo q) = (out, fifo q')"
  using assms
proof (induction as arbitrary: q c out)
  case Nil
  then show ?case by simp
next
  case (Cons a as)
  show ?case
  proof (cases a)
    case (Tx p)
    then obtain q1 c1 where t: "tx q p c = Inr (q1, c1)" and r: "run_ops rx tx as q1 c1 = Inr (out, q', c')"
      using Cons.prems(2) by (auto simp: res_simps)
    have "wf q1 \<and> fifo q1 = (if length (fifo q) < cap then fifo q @ [p] else fifo q)"
    proof (cases "length (fifo q) < cap")
      case True
      then show ?thesis using tx_law [OF Cons.prems(1) True, of p c] t by auto
    next
      case False
      then have "length (fifo q) = cap" using bound_law [OF Cons.prems(1)] by simp
      then show ?thesis using tx_drop [OF Cons.prems(1) _ t] by simp
    qed
    then show ?thesis using Cons.IH [OF _ r] Tx by simp
  next
    case Rx
    then obtain p q1 ps where t: "rx q c = Inr (p, q1)"
      and r: "run_ops rx tx as q1 c = Inr (ps, q', c')" and out: "out = p # ps"
      using Cons.prems(2) by (auto simp: res_simps)
    obtain x xs where f: "fifo q = x # xs"
      using rx_underflow [OF Cons.prems(1), of c] t by (cases "fifo q") auto
    then have "x = p" "wf q1" "fifo q1 = xs" using rx_law [OF Cons.prems(1) f, of c] t by auto
    then show ?thesis using Cons.IH [OF _ r] Rx out f by simp
  qed
qed

end

section \<open>The ring\<close>

definition link_wf :: "Link \<Rightarrow> bool" where
  "link_wf r \<longleftrightarrow> unat (read_i r) < LINK_RING_SIZE \<and> unat (write_i r) < LINK_RING_SIZE"

definition link_count :: "Link \<Rightarrow> nat" where
  "link_count r = (unat (write_i r) + LINK_RING_SIZE - unat (read_i r)) mod LINK_RING_SIZE"

definition link_fifo :: "Link \<Rightarrow> ptr list" where
  "link_fifo r = map (\<lambda>i. packets r ((unat (read_i r) + i) mod LINK_RING_SIZE)) [0..<link_count r]"

lemma length_link_fifo [simp]: "length (link_fifo r) = link_count r"
  by (simp add: link_fifo_def)

lemma ring_index_small:
  assumes "unat i < LINK_RING_SIZE"
  shows "ring_index i = unat i"
proof -
  have u: "uint i < 1024"
    using assms unfolding LINK_RING_SIZE_def by (metis of_nat_less_iff of_nat_numeral uint_nat)
  have "sint i = uint i"
    by (simp only: sint_uint)
      (rule signed_take_bit_int_eq_self, use u in \<open>auto intro: order_trans [of _ 0]\<close>)
  moreover have "(scast i :: usize) = word_of_int (sint i)" by simp
  ultimately have "(scast i :: usize) = of_nat (unat i)" by (metis of_int_of_nat_eq uint_nat)
  then show ?thesis
    using assms by (simp add: ring_index_def LINK_RING_SIZE_def unsigned_ucast_eq take_bit_nat_eq_self)
qed

lemma next_cursor:
  assumes "unat i < LINK_RING_SIZE"
  shows "unat ((i + 1) AND (SIZE - 1)) = (unat i + 1) mod LINK_RING_SIZE"
proof -
  have "SIZE - 1 = mask 10" by (simp add: SIZE_def LINK_RING_SIZE_def mask_numeral)
  then have "(i + 1) AND (SIZE - 1) = take_bit 10 (i + 1)" by (simp add: take_bit_eq_mask)
  moreover have "unat (i + 1) = unat i + 1"
    using assms by (subst unat_add_no_wrap) (auto simp: LINK_RING_SIZE_def)
  ultimately show ?thesis
    by (simp add: unsigned_take_bit_eq take_bit_nat_def LINK_RING_SIZE_def)
qed

text \<open>Distances on the ring.\<close>

lemma link_count_bound: "link_count r \<le> LINK_MAX_PACKETS"
proof -
  have "link_count r < LINK_RING_SIZE" by (simp add: link_count_def LINK_RING_SIZE_def)
  then show ?thesis by (simp add: LINK_MAX_PACKETS_def)
qed

lemma ring_distance:
  assumes "a < n" and "b < (n::nat)"
  shows "(b + n - a) mod n = (if a \<le> b then b - a else b + n - a)"
  using assms by (auto simp: mod_if)

lemma link_count_if:
  "link_wf r \<Longrightarrow> link_count r = (if unat (read_i r) \<le> unat (write_i r)
     then unat (write_i r) - unat (read_i r)
     else unat (write_i r) + LINK_RING_SIZE - unat (read_i r))"
  unfolding link_count_def link_wf_def by (simp add: ring_distance)

lemma empty_iff: "link_wf r \<Longrightarrow> empty r \<longleftrightarrow> link_fifo r = []"
  using link_count_if [of r]
  by (auto simp: empty_def link_fifo_def link_wf_def word_eq_unat_iff)

lemma full_iff:
  assumes "link_wf r"
  shows "full r \<longleftrightarrow> link_count r = LINK_MAX_PACKETS"
proof -
  have "full r \<longleftrightarrow> (unat (write_i r) + 1) mod LINK_RING_SIZE = unat (read_i r)"
    using assms by (simp add: full_def word_eq_unat_iff next_cursor link_wf_def)
  also have "... \<longleftrightarrow> link_count r = LINK_MAX_PACKETS"
    using assms
    by (auto simp: link_count_if [OF assms] link_wf_def LINK_MAX_PACKETS_def LINK_RING_SIZE_def mod_if)
  finally show ?thesis .
qed

text \<open>Moving a cursor by one.\<close>

definition pop_front :: "Link \<Rightarrow> Link" where
  "pop_front r = r\<lparr>read_i := (read_i r + 1) AND (SIZE - 1)\<rparr>"

definition push_back :: "ptr \<Rightarrow> Link \<Rightarrow> Link" where
  "push_back p r = r\<lparr>packets := (packets r)(unat (write_i r) := p),
     write_i := (write_i r + 1) AND (SIZE - 1)\<rparr>"

lemma pop_front_ok:
  assumes wf: "link_wf r" and f: "link_fifo r = p # ps"
  shows "packets r (unat (read_i r)) = p \<and> link_wf (pop_front r) \<and> link_fifo (pop_front r) = ps"
proof -
  let ?N = LINK_RING_SIZE
  have N: "0 < ?N" "?N = 1024" by (simp_all add: LINK_RING_SIZE_def)
  have rd: "unat (read_i (pop_front r)) = (unat (read_i r) + 1) mod ?N"
    using wf by (simp add: pop_front_def next_cursor link_wf_def)
  have cnt: "link_count r = Suc (length ps)" using f length_link_fifo [of r] by simp
  have wf': "link_wf (pop_front r)" using wf N by (simp add: link_wf_def rd) (simp add: pop_front_def)
  have cnt': "link_count (pop_front r) = length ps"
    using cnt wf N unfolding link_count_if [OF wf'] link_count_if [OF wf] rd
    by (auto simp: pop_front_def link_wf_def mod_if split: if_splits)
  have el: "(p # ps) ! i = packets r ((unat (read_i r) + i) mod ?N)" if "i < link_count r" for i
    using that unfolding f [symmetric] by (simp add: link_fifo_def)
  have "packets r (unat (read_i r)) = p" using el [of 0] cnt wf by (simp add: link_wf_def)
  moreover have "link_fifo (pop_front r) = ps"
  proof (rule nth_equalityI)
    fix i
    assume "i < length (link_fifo (pop_front r))"
    then have i: "i < length ps" by (simp add: cnt')
    then have "ps ! i = packets r ((unat (read_i r) + Suc i) mod ?N)" using el [of "Suc i"] cnt by simp
    moreover have "((unat (read_i r) + 1) mod ?N + i) mod ?N = (unat (read_i r) + Suc i) mod ?N"
      by (simp add: mod_add_left_eq)
    ultimately show "link_fifo (pop_front r) ! i = ps ! i"
      using i cnt' by (simp add: link_fifo_def rd) (simp add: pop_front_def)
  qed (simp add: cnt')
  ultimately show ?thesis using wf' by simp
qed

lemma push_back_ok:
  assumes wf: "link_wf r" and room: "link_count r < LINK_MAX_PACKETS"
  shows "link_wf (push_back p r) \<and> link_fifo (push_back p r) = link_fifo r @ [p]"
proof -
  let ?N = LINK_RING_SIZE
  have N: "0 < ?N" "?N = 1024" "LINK_MAX_PACKETS = 1023"
    by (simp_all add: LINK_RING_SIZE_def LINK_MAX_PACKETS_def)
  have wr: "unat (write_i (push_back p r)) = (unat (write_i r) + 1) mod ?N"
    and rd: "read_i (push_back p r) = read_i r"
    using wf by (simp_all add: push_back_def next_cursor link_wf_def)
  have wf': "link_wf (push_back p r)" using wf N by (simp add: link_wf_def wr rd)
  have cnt': "link_count (push_back p r) = Suc (link_count r)"
    using wf N room unfolding link_count_if [OF wf'] link_count_if [OF wf] wr rd
    by (auto simp: link_wf_def mod_if split: if_splits)
  have "link_fifo (push_back p r) = link_fifo r @ [p]"
  proof (rule nth_equalityI)
    fix i
    assume "i < length (link_fifo (push_back p r))"
    then have i: "i < Suc (link_count r)" by (simp add: cnt')
    have at: "link_fifo (push_back p r) ! i =
        ((packets r)(unat (write_i r) := p)) ((unat (read_i r) + i) mod ?N)"
      using i unfolding link_fifo_def cnt' by (simp add: rd del: upt_Suc) (simp add: push_back_def)
    have "(unat (read_i r) + i) mod ?N = unat (write_i r) \<longleftrightarrow> i = link_count r"
      using i wf N room unfolding link_count_if [OF wf]
      by (auto simp: link_wf_def mod_if split: if_splits)
    then show "link_fifo (push_back p r) ! i = (link_fifo r @ [p]) ! i"
      using i at by (auto simp: nth_append link_fifo_def)
  qed (simp add: cnt')
  then show ?thesis using wf' by simp
qed

text \<open>The counters are no part of the queue.\<close>

lemma link_counters [simp]:
  "link_fifo (r\<lparr>txpackets := n\<rparr>) = link_fifo r" "link_wf (r\<lparr>txpackets := n\<rparr>) = link_wf r"
  "link_fifo (r\<lparr>txbytes := n\<rparr>) = link_fifo r" "link_wf (r\<lparr>txbytes := n\<rparr>) = link_wf r"
  "link_fifo (r\<lparr>txdrop := n\<rparr>) = link_fifo r" "link_wf (r\<lparr>txdrop := n\<rparr>) = link_wf r"
  "link_fifo (r\<lparr>rxpackets := n\<rparr>) = link_fifo r" "link_wf (r\<lparr>rxpackets := n\<rparr>) = link_wf r"
  "link_fifo (r\<lparr>rxbytes := n\<rparr>) = link_fifo r" "link_wf (r\<lparr>rxbytes := n\<rparr>) = link_wf r"
  by (simp_all add: link_fifo_def link_count_def link_wf_def)

section \<open>The operations on the list\<close>

lemma new_link_ok: "link_wf new_link" "link_fifo new_link = []"
  by (simp_all add: new_link_def link_wf_def link_fifo_def link_count_def LINK_RING_SIZE_def)

lemma receive_ok:
  assumes wf: "link_wf r" and f: "link_fifo r = p # ps"
  shows "receive r s = Inr (p, (pop_front r)\<lparr>rxpackets := rxpackets r + 1,
      rxbytes := rxbytes r + ucast (plen (heap s p))\<rparr>)"
proof -
  have "\<not> empty r" using empty_iff [OF wf] f by simp
  moreover have "ring_index (read_i r) = unat (read_i r)" "unat (read_i r) < LINK_RING_SIZE"
    using wf by (simp_all add: ring_index_small link_wf_def)
  ultimately show ?thesis
    using pop_front_ok [OF wf f] by (simp add: receive_def Let_def pop_front_def)
qed

lemma receive_underflow: "link_wf r \<Longrightarrow> link_fifo r = [] \<Longrightarrow> receive r s = Inl LinkUnderflow"
  by (simp add: receive_def empty_iff)

lemma transmit_room:
  assumes wf: "link_wf r" and room: "link_count r < LINK_MAX_PACKETS"
  shows "transmit r p s = Inr ((push_back p r)\<lparr>txpackets := txpackets r + 1,
      txbytes := txbytes r + ucast (plen (heap s p))\<rparr>, s)"
proof -
  have "\<not> full r" using full_iff [OF wf] room by simp
  moreover have "ring_index (write_i r) = unat (write_i r)" "unat (write_i r) < LINK_RING_SIZE"
    using wf by (simp_all add: ring_index_small link_wf_def)
  ultimately show ?thesis by (simp add: transmit_def Let_def push_back_def)
qed

lemma transmit_full:
  assumes "link_wf r" and "link_count r = LINK_MAX_PACKETS"
  shows "transmit r p s = bind_res (free p s) (\<lambda>s. Inr (r\<lparr>txdrop := txdrop r + 1\<rparr>, s))"
  using assms by (simp add: transmit_def full_iff Let_def)

interpretation lk: bounded_fifo new_link empty full receive transmit link_fifo link_wf LINK_MAX_PACKETS
proof unfold_locales
  fix r :: Link and p ps and s :: "'a pkt_state_scheme"
  assume wf: "link_wf r"
  show "empty r \<longleftrightarrow> link_fifo r = []" by (rule empty_iff [OF wf])
  show "full r \<longleftrightarrow> length (link_fifo r) = LINK_MAX_PACKETS" by (simp add: full_iff [OF wf])
  show "length (link_fifo r) \<le> LINK_MAX_PACKETS" by (simp add: link_count_bound)
  show "\<exists>q'. receive r s = Inr (p, q') \<and> link_wf q' \<and> link_fifo q' = ps" if "link_fifo r = p # ps"
    using receive_ok [OF wf that, of s] pop_front_ok [OF wf that] by simp
  show "receive r s = Inl LinkUnderflow" if "link_fifo r = []"
    by (rule receive_underflow [OF wf that])
  show "\<exists>q'. transmit r p s = Inr (q', s) \<and> link_wf q' \<and> link_fifo q' = link_fifo r @ [p]"
    if "length (link_fifo r) < LINK_MAX_PACKETS"
    using that transmit_room [OF wf, of p s] push_back_ok [OF wf, of p] by simp
  show "link_wf q' \<and> link_fifo q' = link_fifo r"
    if "length (link_fifo r) = LINK_MAX_PACKETS" "transmit r p s = Inr (q', s')"
    for q' and s' :: "'a pkt_state_scheme"
    using that wf by (auto simp: transmit_full [OF wf] res_simps)
qed (simp_all add: new_link_ok)

section \<open>Counters\<close>

definition bytes_of :: "(ptr \<Rightarrow> packet) \<Rightarrow> ptr list \<Rightarrow> u64" where
  "bytes_of h ps = (\<Sum>p \<leftarrow> ps. ucast (plen (h p)))"

text \<open>What was sent was received or is still on the link.\<close>

definition link_counts :: "(ptr \<Rightarrow> packet) \<Rightarrow> Link \<Rightarrow> bool" where
  "link_counts h r \<longleftrightarrow>
     txpackets r = rxpackets r + of_nat (length (link_fifo r)) \<and>
     txbytes r = rxbytes r + bytes_of h (link_fifo r)"

lemma pop_front_counters [simp]:
  "txpackets (pop_front r) = txpackets r" "txbytes (pop_front r) = txbytes r"
  "rxpackets (pop_front r) = rxpackets r" "rxbytes (pop_front r) = rxbytes r"
  "txdrop (pop_front r) = txdrop r"
  by (simp_all add: pop_front_def)

lemma push_back_counters [simp]:
  "txpackets (push_back p r) = txpackets r" "txbytes (push_back p r) = txbytes r"
  "rxpackets (push_back p r) = rxpackets r" "rxbytes (push_back p r) = rxbytes r"
  "txdrop (push_back p r) = txdrop r"
  by (simp_all add: push_back_def)

lemma receive_counts:
  assumes "link_wf r" and "receive r s = Inr (p, r')" and "link_counts (heap s) r"
  shows "link_counts (heap s) r'"
proof -
  obtain q qs where f: "link_fifo r = q # qs"
    using receive_underflow [OF assms(1), of s] assms(2) by (cases "link_fifo r") auto
  show ?thesis
    using assms(2,3) pop_front_ok [OF assms(1) f] receive_ok [OF assms(1) f, of s]
    by (auto simp: link_counts_def f bytes_of_def simp del: length_link_fifo)
qed

lemma transmit_counts:
  assumes "link_wf r" and "transmit r p s = Inr (r', s')" and "link_counts (heap s) r"
  shows "link_counts (heap s) r'"
proof (cases "link_count r < LINK_MAX_PACKETS")
  case True
  then show ?thesis
    using assms(2,3) transmit_room [OF assms(1) True, of p s] push_back_ok [OF assms(1) True, of p]
    by (auto simp: link_counts_def bytes_of_def simp del: length_link_fifo)
next
  case False
  then have "link_count r = LINK_MAX_PACKETS" using link_count_bound [of r] by simp
  then show ?thesis
    using assms(2,3) by (auto simp: transmit_full [OF assms(1)] res_simps link_counts_def
        simp del: length_link_fifo)
qed

section \<open>Links and the freelist\<close>

text \<open>Transmitting a packet that is in use never fails; a full link frees it.\<close>

lemma transmit_ok:
  assumes wf: "link_wf r" and inv: "pkt_inv os U s" and p: "p \<in> U"
  shows "\<exists>r' s'. transmit r p s = Inr (r', s') \<and> link_wf r' \<and>
    (if full r then link_fifo r' = link_fifo r \<and> txdrop r' = txdrop r + 1 \<and> pkt_inv os (U - {p}) s' \<and>
       STATS s' = counted (plen (heap s p)) (STATS s)
     else link_fifo r' = link_fifo r @ [p] \<and> txdrop r' = txdrop r \<and> s' = s) \<and>
    (\<forall>q. q \<noteq> p \<longrightarrow> heap s' q = heap s q) \<and> pkt_state.more s' = pkt_state.more s"
proof (cases "full r")
  case True
  then have "link_count r = LINK_MAX_PACKETS" using full_iff [OF wf] by simp
  then show ?thesis
    using free_ok [OF inv p] wf True by (auto simp: transmit_full [OF wf])
next
  case False
  then have "link_count r < LINK_MAX_PACKETS" using full_iff [OF wf] link_count_bound [of r] by simp
  then show ?thesis
    using push_back_ok [OF wf, of p] False by (auto simp: transmit_room [OF wf])
qed

text \<open>Dropping a link frees exactly the packets on it.\<close>

lemma drop_loop_ok:
  assumes "link_wf r" and "length (link_fifo r) \<le> fuel" and "pkt_inv os U s"
    and "distinct (link_fifo r)" and "set (link_fifo r) \<subseteq> U"
  shows "\<exists>r' s'. drop_loop fuel r s = Inr (r', s') \<and> empty r' \<and>
    pkt_inv os (U - set (link_fifo r)) s' \<and>
    frees (STATS s') = frees (STATS s) + of_nat (length (link_fifo r)) \<and>
    (\<forall>q. q \<notin> set (link_fifo r) \<longrightarrow> heap s' q = heap s q) \<and> pkt_state.more s' = pkt_state.more s"
  using assms
proof (induction fuel arbitrary: r s U)
  case 0
  then show ?case using empty_iff [of r] by (simp del: length_link_fifo)
next
  case (Suc fuel)
  show ?case
  proof (cases "link_fifo r")
    case Nil
    then show ?thesis using Suc.prems empty_iff [of r] length_link_fifo [of r] by simp
  next
    case (Cons p ps)
    obtain r1 where r1: "receive r s = Inr (p, r1)" "link_wf r1" "link_fifo r1 = ps"
      using lk.rx_law [OF Suc.prems(1) Cons, of s] by auto
    have pU: "p \<in> U" using Suc.prems(5) Cons by simp
    obtain s1 where s1: "free p s = Inr s1" "pkt_inv os (U - {p}) s1"
      "STATS s1 = counted (plen (heap s p)) (STATS s)"
      "\<forall>q. q \<noteq> p \<longrightarrow> heap s1 q = heap s q" "pkt_state.more s1 = pkt_state.more s"
      using free_ok [OF Suc.prems(3) pU] by auto
    have "length (link_fifo r1) \<le> fuel" "distinct (link_fifo r1)" "set (link_fifo r1) \<subseteq> U - {p}"
      using Suc.prems(2,4,5) by (auto simp: Cons r1(3) simp del: length_link_fifo)
    note ih = Suc.IH [OF r1(2) this(1) s1(2) this(2,3), unfolded r1(3)]
    have "U - insert p (set ps) = U - {p} - set ps" by auto
    moreover have "\<not> empty r" using empty_iff [OF Suc.prems(1)] Cons by simp
    ultimately show ?thesis
      using ih s1 r1 by (auto simp: Cons counted_def simp del: length_link_fifo)
  qed
qed

lemma drop_link_ok:
  assumes "link_wf r" and "pkt_inv os U s" and "distinct (link_fifo r)" and "set (link_fifo r) \<subseteq> U"
  shows "\<exists>r' s'. drop_link r s = Inr (r', s') \<and> empty r' \<and> pkt_inv os (U - set (link_fifo r)) s' \<and>
    frees (STATS s') = frees (STATS s) + of_nat (length (link_fifo r)) \<and>
    (\<forall>q. q \<notin> set (link_fifo r) \<longrightarrow> heap s' q = heap s q) \<and> pkt_state.more s' = pkt_state.more s"
  unfolding drop_link_def
  by (rule drop_loop_ok [OF assms(1) _ assms(2-4)])
    (use link_count_bound [of r] in \<open>simp add: LINK_MAX_PACKETS_def\<close>)

section \<open>Properties\<close>

text \<open>
  A link delivers what was sent, in order: up to \<open>LINK_MAX_PACKETS\<close> packets transmitted
  on a new link are received in the order they were sent, and the link is empty again.
\<close>

theorem link_roundtrip:
  assumes "length ps \<le> LINK_MAX_PACKETS"
  shows "\<exists>r r'. tx_all transmit ps new_link s = Inr (r, s) \<and>
    rx_all receive (length ps) r s = Inr (ps, r') \<and> empty r'"
  using assms by (rule lk.roundtrip)

text \<open>
  C12: the ring buffer refines a list of at most 1023 packets: whatever the interleaving of transmits
  and receives, the packets received and the packets left are those of the list, where a transmit on
  a full list is dropped.
\<close>

theorem link_refines_fifo:
  assumes "link_wf r" and "run_ops receive transmit ops r s = Inr (out, r', s')"
  shows "link_wf r' \<and> spec_ops LINK_MAX_PACKETS ops (link_fifo r) = (out, link_fifo r')"
  using assms by (rule lk.simulation)

theorem link_refines_fifo_witness:
  "link_wf new_link \<and>
   (\<exists>out r' s'. run_ops receive transmit [Tx 8, Tx 16, Rx] new_link sample_state = Inr (out, r', s') \<and>
      link_wf r' \<and> spec_ops LINK_MAX_PACKETS [Tx 8, Tx 16, Rx] (link_fifo new_link) = (out, link_fifo r'))"
proof -
  have room: "link_count new_link < LINK_MAX_PACKETS"
    using new_link_ok(2) length_link_fifo [of new_link]
    by (simp add: LINK_MAX_PACKETS_def LINK_RING_SIZE_def del: length_link_fifo)
  obtain r1 where r1: "transmit new_link 8 sample_state = Inr (r1, sample_state)" "link_wf r1" "link_fifo r1 = [8]"
    using lk.tx_law [OF new_link_ok(1), of 8 "sample_state"] room new_link_ok(2) by auto
  obtain r2 where r2: "transmit r1 16 sample_state = Inr (r2, sample_state)" "link_wf r2" "link_fifo r2 = [8, 16]"
    using lk.tx_law [OF r1(2), of 16 "sample_state"] r1(3) length_link_fifo [of r1]
    by (auto simp: LINK_MAX_PACKETS_def LINK_RING_SIZE_def)
  obtain r3 where r3: "receive r2 sample_state = Inr (8, r3)"
    using lk.rx_law [OF r2(2,3), of "sample_state"] by auto
  have run: "run_ops receive transmit [Tx 8, Tx 16, Rx] new_link sample_state = Inr ([8], r3, sample_state)"
    using r1 r2 r3 by simp
  show ?thesis using link_refines_fifo [OF new_link_ok(1) run] run new_link_ok(1) by blast
qed

text \<open>
  C26: transmitting a packet that is in use always succeeds; on a full link the packet goes back to the
  freelist and is counted as dropped, otherwise it joins the end of the queue.
\<close>

theorem transmit_total:
  assumes "link_wf r" and "pkt_inv os U s" and "p \<in> U"
  shows "\<exists>r' s'. transmit r p s = Inr (r', s') \<and> link_wf r' \<and>
    (if full r then link_fifo r' = link_fifo r \<and> txdrop r' = txdrop r + 1 \<and> pkt_inv os (U - {p}) s'
     else link_fifo r' = link_fifo r @ [p] \<and> txdrop r' = txdrop r \<and> s' = s)"
proof -
  obtain r' s' where "transmit r p s = Inr (r', s')" "link_wf r'"
    "if full r then link_fifo r' = link_fifo r \<and> txdrop r' = txdrop r + 1 \<and> pkt_inv os (U - {p}) s' \<and>
       STATS s' = counted (plen (heap s p)) (STATS s)
     else link_fifo r' = link_fifo r @ [p] \<and> txdrop r' = txdrop r \<and> s' = s"
    using transmit_ok [OF assms] by blast
  then show ?thesis by (intro exI [of _ r'] exI [of _ s']) (simp split: if_splits)
qed

theorem transmit_total_witness:
  "\<exists>p s r' s'. allocate sample_os sample_state = Inr (p, s) \<and> transmit new_link p s = Inr (r', s')"
proof -
  obtain p s where a: "allocate sample_os sample_state = Inr (p, s)" "pkt_inv sample_os {p} s"
    using sample_allocate by blast
  from transmit_total [OF new_link_ok(1) a(2), of p] show ?thesis using a(1) by blast
qed

text \<open>
  C27: what was sent on a link was received or is still on it, in packets and in bytes, after any
  transmit or receive.
\<close>

theorem link_counters_conserved:
  assumes "link_wf r" and "link_counts (heap s) r"
  shows "(receive r s = Inr (p, r') \<longrightarrow> link_counts (heap s) r') \<and>
    (transmit r q s = Inr (r'', s'') \<longrightarrow> link_counts (heap s) r'')"
  using assms receive_counts transmit_counts by blast

theorem link_counters_conserved_witness:
  "\<exists>r. transmit new_link 8 sample_state = Inr (r, sample_state) \<and> link_counts (heap sample_state) r"
proof -
  have c: "link_counts (heap sample_state) new_link"
    using new_link_ok(2) by (simp add: link_counts_def bytes_of_def del: length_link_fifo)
      (simp add: new_link_def)
  obtain r where r: "transmit new_link 8 sample_state = Inr (r, sample_state)"
    using lk.tx_law [OF new_link_ok(1), of 8 "sample_state"] new_link_ok(2)
    by (auto simp: LINK_MAX_PACKETS_def LINK_RING_SIZE_def)
  then show ?thesis using link_counters_conserved [OF new_link_ok(1) c] by blast
qed

end
