(* ===== verification/Rush_Config.thy ===== *)
theory Rush_Config
  imports Rush_Lib
begin

text \<open>
  \<open>src/config.rs\<close>: configurations and the syntax of link specifications. App arguments are a
  type parameter; the set of links is the list of its members, without duplicates.
\<close>

section \<open>Configurations\<close>

record 'arg Config =
  apps :: "(string, 'arg) hashmap"
  links :: "string list"

record LinkSpec =
  from_app :: string
  output_name :: string
  to_app :: string
  input_name :: string

definition new_config :: "'arg Config" where
  "new_config = \<lparr>apps = [], links = []\<rparr>"

text \<open>The clone \<open>box_clone\<close> makes of the argument is the argument again.\<close>

definition app :: "string \<Rightarrow> 'arg \<Rightarrow> 'arg Config \<Rightarrow> 'arg Config" where
  "app name a c = c\<lparr>apps := AList.update name a (apps c)\<rparr>"

section \<open>Link specifications\<close>

text \<open>\<open> *([\w_]+)\.([\w_]+) *-> *([\w_]+)\.([\w_]+) *\<close>, anchored at neither end.\<close>

definition LINK_SYNTAX :: rx where
  "LINK_SYNTAX =
     rseq [RStar (RLit CHR '' ''),
       RGroup 1 (RPlus (RClass WordClass)), RLit CHR ''.'', RGroup 2 (RPlus (RClass WordClass)),
       RStar (RLit CHR '' ''), RLit CHR ''-'', RLit CHR ''>'', RStar (RLit CHR '' ''),
       RGroup 3 (RPlus (RClass WordClass)), RLit CHR ''.'', RGroup 4 (RPlus (RClass WordClass)),
       RStar (RLit CHR '' '')]"

definition parse_link :: "string \<Rightarrow> LinkSpec res" where
  "parse_link spec =
     (case captures LINK_SYNTAX spec of
        Some cap \<Rightarrow>
          Inr \<lparr>from_app = the (cap 1), output_name = the (cap 2),
               to_app = the (cap 3), input_name = the (cap 4)\<rparr>
      | None \<Rightarrow> Inl (LinkParseError spec))"

definition format_link :: "LinkSpec \<Rightarrow> string" where
  "format_link spec =
     from_app spec @ ''.'' @ output_name spec @ '' -> '' @ to_app spec @ ''.'' @ input_name spec"

definition canonical_link :: "string \<Rightarrow> string res" where
  "canonical_link spec = bind_res (parse_link spec) (\<lambda>l. Inr (format_link l))"

definition link :: "string \<Rightarrow> 'arg Config \<Rightarrow> 'arg Config res" where
  "link spec c = bind_res (canonical_link spec) (\<lambda>l. Inr (c\<lparr>links := List.insert l (links c)\<rparr>))"

section \<open>Names\<close>

definition name_ok :: "string \<Rightarrow> bool" where
  "name_ok w \<longleftrightarrow> w \<noteq> [] \<and> list_all is_word_char w"

definition spec_ok :: "LinkSpec \<Rightarrow> bool" where
  "spec_ok l \<longleftrightarrow>
     name_ok (from_app l) \<and> name_ok (output_name l) \<and> name_ok (to_app l) \<and> name_ok (input_name l)"

lemma word_char_not [simp]:
  "\<not> is_word_char CHR '' ''" "\<not> is_word_char CHR ''.''" "\<not> is_word_char CHR ''-''"
  "\<not> is_word_char CHR ''>''"
  by (simp_all add: is_word_char_def is_digit_def)

lemma name_ok_Cons: "name_ok w \<Longrightarrow> \<exists>x xs. w = x # xs \<and> is_word_char x"
  by (cases w) (auto simp: name_ok_def)

section \<open>Parsing what was printed\<close>

lemma lit_simp: "rx_match n (RLit x) (x # s) c k = k s c"
  by simp

lemma group_run:
  assumes "name_ok w" and "s = [] \<or> \<not> is_word_char (hd s)" and "k s (c(i \<mapsto> w)) = Some v"
  shows "rx_match n (RGroup i (RPlus (RClass WordClass))) (w @ s) c k = Some v"
  using rx_plus_run [of WordClass w s "\<lambda>s' c'. k s' (c'(i \<mapsto> take (length (w @ s) - length s') (w @ s)))" c v n] assms
  by (simp add: name_ok_def list_all_iff)

lemma spaces_none:
  assumes "name_ok w"
  shows "rx_match n (RStar (RLit CHR '' '')) (w @ s) c k = k (w @ s) c"
proof (rule rx_star_stop)
  show "w @ s = [] \<or> \<not> in_class (Exactly CHR '' '') (hd (w @ s))"
    using name_ok_Cons [OF assms] by auto
qed

lemma spaces_one:
  assumes "s = [] \<or> hd s \<noteq> CHR '' ''" and "k s c = Some v"
  shows "rx_match n (RStar (RLit CHR '' '')) (CHR '' '' # s) c k = Some v"
  using rx_star_run [of "Exactly CHR '' ''" "[CHR '' '']" s k c v n] assms by simp

lemma parse_format_link:
  assumes "spec_ok l"
  shows "parse_link (format_link l) = Inr l"
proof -
  obtain f out t i where l: "l = \<lparr>from_app = f, output_name = out, to_app = t, input_name = i\<rparr>"
    by (cases l) auto
  have ok: "name_ok f" "name_ok out" "name_ok t" "name_ok i" using assms by (simp_all add: spec_ok_def l)
  let ?c = "(Map.empty :: caps)(1 \<mapsto> f, 2 \<mapsto> out, 3 \<mapsto> t, 4 \<mapsto> i)"
  let ?k = "\<lambda>s c. Some (s, c)"
  let ?s1 = "f @ CHR ''.'' # out @ CHR '' '' # CHR ''-'' # CHR ''>'' # CHR '' '' # t @ CHR ''.'' # i"
  have t_hd: "t @ xs = [] \<or> hd (t @ xs) \<noteq> CHR '' ''" for xs using name_ok_Cons [OF ok(3)] by auto
  have m4: "rx_match n (RGroup 4 (RPlus (RClass WordClass))) i c
      (\<lambda>s c. rx_match n (RStar (RLit CHR '' '')) s c ?k) = Some ([], c(4 \<mapsto> i))" for n c
    using group_run [OF ok(4), of "[]" "\<lambda>s c. rx_match n (RStar (RLit CHR '' '')) s c ?k" c 4]
    by (simp add: rx_star_stop)
  have m: "rx_match n LINK_SYNTAX ?s1 Map.empty ?k = Some ([], ?c)" for n
    unfolding LINK_SYNTAX_def
    unfolding rseq.simps rx_match.simps(3) spaces_none [OF ok(1)]
  proof (rule group_run [OF ok(1)], goal_cases)
    case 2
    show ?case unfolding lit_simp
    proof (rule group_run [OF ok(2)], goal_cases)
      case 2
      show ?case
      proof (rule spaces_one, goal_cases)
        case 2
        show ?case unfolding lit_simp
        proof (rule spaces_one, goal_cases)
          case 2
          show ?case by (rule group_run [OF ok(3)]) (simp_all only: lit_simp m4 list.sel word_char_not, simp)
        qed (rule t_hd)
      qed simp
    qed simp
  qed simp
  have "captures LINK_SYNTAX (format_link l) = Some ?c"
    unfolding captures_def by (subst rx_find.simps) (simp add: format_link_def l m)
  then show ?thesis by (simp add: parse_link_def l)
qed

section \<open>What a parsed specification is\<close>

text \<open>The text holds the four names, with the separators and any spaces between them.\<close>

definition spaces :: "string \<Rightarrow> bool" where
  "spaces w \<longleftrightarrow> list_all (\<lambda>x. x = CHR '' '') w"

lemma rx_spaces_inv:
  "rx_match n (RStar (RLit CHR '' '')) s c k = Some v \<Longrightarrow> \<exists>w s'. s = w @ s' \<and> spaces w \<and> k s' c = Some v"
  using rx_star_inv [of n "Exactly CHR '' ''" s c k v] unfolding spaces_def list_all_iff in_class.simps
  by simp

lemma rx_name_inv:
  "rx_match n (RGroup i (RPlus (RClass WordClass))) s c k = Some v \<Longrightarrow>
   \<exists>w s'. s = w @ s' \<and> name_ok w \<and> k s' (c(i \<mapsto> w)) = Some v"
  using rx_group_plus_inv [of n i WordClass s c k v] by (auto simp: name_ok_def list_all_iff)

lemma rx_lit_inv: "rx_match n (RLit x) s c k = Some v \<Longrightarrow> \<exists>s'. s = x # s' \<and> k s' c = Some v"
  using rx_class_inv [of n "Exactly x" s c k v] by auto

lemma LINK_SYNTAX_inv:
  assumes "rx_match n LINK_SYNTAX s Map.empty (\<lambda>s c. Some (s, c)) = Some (rest, c)"
  shows "\<exists>f out t i a1 a2 a3 a4. c = [1 \<mapsto> f, 2 \<mapsto> out, 3 \<mapsto> t, 4 \<mapsto> i] \<and>
    s = a1 @ f @ ''.'' @ out @ a2 @ ''->'' @ a3 @ t @ ''.'' @ i @ a4 @ rest \<and>
    name_ok f \<and> name_ok out \<and> name_ok t \<and> name_ok i \<and>
    spaces a1 \<and> spaces a2 \<and> spaces a3 \<and> spaces a4"
  using assms unfolding LINK_SYNTAX_def rseq.simps rx_match.simps(3)
  by (elim rx_spaces_inv [THEN exE] rx_name_inv [THEN exE] rx_lit_inv [THEN exE] exE conjE)
    (clarsimp, blast)

lemma parse_link_inv:
  assumes "parse_link s = Inr l"
  shows "spec_ok l \<and> (\<exists>pre a1 a2 a3 a4 rest. spaces a1 \<and> spaces a2 \<and> spaces a3 \<and> spaces a4 \<and>
    s = pre @ a1 @ from_app l @ ''.'' @ output_name l @ a2 @ ''->'' @ a3 @ to_app l @ ''.'' @
      input_name l @ a4 @ rest)"
proof -
  obtain pre rest c where find: "rx_find (length s) LINK_SYNTAX s = Some (pre, rest, c)"
    and l: "l = \<lparr>from_app = the (c 1), output_name = the (c 2), to_app = the (c 3), input_name = the (c 4)\<rparr>"
    using assms by (auto simp: parse_link_def captures_def split: option.splits)
  obtain s0 where s: "s = pre @ s0"
    and m: "rx_match (length s) LINK_SYNTAX s0 Map.empty (\<lambda>s' c. Some (s', c)) = Some (rest, c)"
    using rx_find_inv [OF find] by blast
  obtain f out t i a1 a2 a3 a4 where "c = [1 \<mapsto> f, 2 \<mapsto> out, 3 \<mapsto> t, 4 \<mapsto> i]"
    and s0: "s0 = a1 @ f @ ''.'' @ out @ a2 @ ''->'' @ a3 @ t @ ''.'' @ i @ a4 @ rest"
    and ok: "name_ok f" "name_ok out" "name_ok t" "name_ok i"
      "spaces a1" "spaces a2" "spaces a3" "spaces a4"
    using LINK_SYNTAX_inv [OF m] by blast
  then have l: "l = \<lparr>from_app = f, output_name = out, to_app = t, input_name = i\<rparr>"
    by (simp add: l)
  have "spec_ok l" using ok by (simp add: spec_ok_def l)
  moreover have "s = pre @ a1 @ from_app l @ ''.'' @ output_name l @ a2 @ ''->'' @ a3 @ to_app l @ ''.'' @
      input_name l @ a4 @ rest"
    unfolding s s0 l LinkSpec.simps ..
  ultimately show ?thesis using ok(5-8) by blast
qed

lemma canonical_link_canonical:
  assumes "canonical_link s = Inr t"
  shows "canonical_link t = Inr t"
proof -
  obtain l where l: "parse_link s = Inr l" and t: "t = format_link l"
    using assms by (auto simp: canonical_link_def res_simps)
  then show ?thesis
    using parse_format_link [of l] parse_link_inv [OF l] by (simp add: canonical_link_def)
qed

section \<open>Configurations built with the API\<close>

text \<open>Links are canonical and without duplicates, apps have one argument each.\<close>

definition config_ok :: "'arg Config \<Rightarrow> bool" where
  "config_ok c \<longleftrightarrow>
     distinct (links c) \<and> distinct (keys_of (apps c)) \<and>
     (\<forall>l \<in> set (links c). \<exists>spec. spec_ok spec \<and> l = format_link spec)"

lemma config_ok_new: "config_ok new_config"
  by (simp add: config_ok_def new_config_def)

lemma config_ok_app: "config_ok c \<Longrightarrow> config_ok (app n a c)"
  by (simp add: config_ok_def app_def distinct_update)

lemma config_ok_link:
  assumes "config_ok c" and "link spec c = Inr c'"
  shows "config_ok c'"
proof -
  obtain l where l: "parse_link spec = Inr l"
    and c': "c' = c\<lparr>links := List.insert (format_link l) (links c)\<rparr>"
    using assms(2) by (auto simp: link_def canonical_link_def res_simps)
  then show ?thesis using assms(1) parse_link_inv [OF l] by (auto simp: config_ok_def)
qed

section \<open>Properties\<close>

text \<open>
  C31: printing a link specification and parsing it again gives the specification, for all names made
  of word characters.
\<close>

theorem parse_link_format_link:
  assumes "spec_ok l"
  shows "parse_link (format_link l) = Inr l"
  using assms by (rule parse_format_link)

theorem parse_link_format_link_witness:
  "parse_link (format_link \<lparr>from_app = ''nic0'', output_name = ''tx'', to_app = ''vm_1'', input_name = ''rx''\<rparr>) =
     Inr \<lparr>from_app = ''nic0'', output_name = ''tx'', to_app = ''vm_1'', input_name = ''rx''\<rparr>"
  by (rule parse_link_format_link) (simp add: spec_ok_def name_ok_def is_word_char_def is_digit_def)



text \<open>
  The configuration API keeps configurations well formed: \<open>link\<close> stores links in canonical
  form and once, \<open>app\<close> keeps one argument per name.
\<close>

theorem config_stays_ok:
  assumes "config_ok c"
  shows "config_ok (app n a c) \<and> (\<forall>spec c'. link spec c = Inr c' \<longrightarrow> config_ok c')"
  using config_ok_app [OF assms] config_ok_link [OF assms] by (intro conjI allI impI)

end
