(* ===== verification/Rush_Engine.thy ===== *)
theory Rush_Engine
  imports Rush_Link_Correct Rush_Config "HOL-Library.List_Lexorder" "HOL-Library.Char_ord"
begin

text \<open>
  \<open>src/engine.rs\<close>, the configuration half: the app network, the traits apps implement,
  starting, stopping and linking apps, and the order in which a breath visits them.

  Trait objects are values of a type parameter \<open>'app\<close> (apps) and \<open>'arg\<close> (app
  arguments), and the methods are the fields of \<open>app_ops\<close>. A \<open>SharedLink\<close> is the
  number of a link in \<open>link_store\<close>; a link whose last reference goes away is dropped. Hash
  maps and sets are walked in an order that is a parameter of the model.
\<close>

section \<open>State\<close>

type_synonym shared_link = nat

text \<open>Points in time and durations, in nanoseconds.\<close>

type_synonym instant = nat

record ('app, 'arg) AppState =
  app_obj :: 'app
  conf :: 'arg
  app_input :: "(string, shared_link) hashmap"
  app_output :: "(string, shared_link) hashmap"

text \<open>
  A printed line. The load report prints three numbers it computes in floating point; the line keeps
  the integers they are computed from (the interval, the new frees and bits).
\<close>

datatype line =
    Line string
  | LoadLine (load_interval: instant) (load_frees: u64) (load_bits: u64)
      (load_fpb: string) (load_bpp: string) (load_sleep: u64)

text \<open>
  The statics of \<open>engine.rs\<close>. \<open>ticks\<close> counts the clock readings so far and selects
  the environment's answer; \<open>console\<close> is what was printed.
\<close>

record ('app, 'arg) eng = pkt_state +
  link_store :: "(shared_link, Link) hashmap"
  next_link :: nat
  link_table :: "(string, shared_link) hashmap"
  app_table :: "(string, ('app, 'arg) AppState) hashmap"
  inhale :: "string list"
  exhale :: "string list"
  MONOTONIC_NOW :: "instant option"
  ticks :: nat
  LASTFREES :: u64
  SLEEP :: u64
  LASTLOADREPORT :: "instant option"
  REPORTEDFREES :: u64
  REPORTEDFREEBITS :: u64
  REPORTEDFREEBYTES :: u64
  REPORTEDBREATHS :: u64
  console :: "line list"

definition eng_init :: "(ptr \<Rightarrow> packet) \<Rightarrow> ('app, 'arg) eng" where
  "eng_init h = pkt_state.extend (pkt_init h)
     \<lparr>link_store = [], next_link = 0, link_table = [], app_table = [], inhale = [], exhale = [],
      MONOTONIC_NOW = None, ticks = 0, LASTFREES = 0, SLEEP = 0, LASTLOADREPORT = None,
      REPORTEDFREES = 0, REPORTEDFREEBITS = 0, REPORTEDFREEBYTES = 0, REPORTEDBREATHS = 0,
      console = []\<rparr>"

section \<open>The environment\<close>

text \<open>
  The order in which each hash table of the program is walked or dropped: a proposal, which counts
  only if it visits every element once.
\<close>

record hash_order =
  by_link :: "string list \<Rightarrow> string list"
  by_app :: "string list \<Rightarrow> string list"
  by_conf_app :: "string list \<Rightarrow> string list"
  by_conf_link :: "string list \<Rightarrow> string list"
  by_succ :: "string \<Rightarrow> string list \<Rightarrow> string list"
  by_port :: "string list \<Rightarrow> string list"
  by_drop :: "shared_link list \<Rightarrow> shared_link list"

definition walk :: "('k list \<Rightarrow> 'k list) \<Rightarrow> 'k list \<Rightarrow> 'k list" where
  "walk f xs = (if mset (f xs) = mset xs then f xs else xs)"

definition link_iter :: "hash_order \<Rightarrow> string list \<Rightarrow> string list" where
  "link_iter h = walk (by_link h)"

definition app_iter :: "hash_order \<Rightarrow> string list \<Rightarrow> string list" where
  "app_iter h = walk (by_app h)"

definition conf_app_iter :: "hash_order \<Rightarrow> string list \<Rightarrow> string list" where
  "conf_app_iter h = walk (by_conf_app h)"

definition conf_link_iter :: "hash_order \<Rightarrow> string list \<Rightarrow> string list" where
  "conf_link_iter h = walk (by_conf_link h)"

definition succ_iter :: "hash_order \<Rightarrow> string \<Rightarrow> string list \<Rightarrow> string list" where
  "succ_iter h name = walk (by_succ h name)"

definition port_iter :: "hash_order \<Rightarrow> string list \<Rightarrow> string list" where
  "port_iter h = walk (by_port h)"

definition drop_iter :: "hash_order \<Rightarrow> shared_link list \<Rightarrow> shared_link list" where
  "drop_iter h = walk (by_drop h)"

text \<open>In the order they were inserted.\<close>

definition insertion_order :: hash_order where
  "insertion_order =
     \<lparr>by_link = id, by_app = id, by_conf_app = id, by_conf_link = id, by_succ = (\<lambda>_. id),
      by_port = id, by_drop = id\<rparr>"

text \<open>The system, the readings of the monotonic clock, and the hash orders.\<close>

record env =
  env_os :: os
  env_clk :: "nat \<Rightarrow> instant"
  env_order :: hash_order

section \<open>Apps\<close>

text \<open>
  The methods of the traits \<open>App\<close>, \<open>AppConfig\<close> and \<open>AppArg\<close>. Methods take
  \<open>&self\<close>, so what they change of the app is behind a cell: they return the app's new value.
\<close>

record ('app, 'arg) app_ops =
  op_new :: "'arg \<Rightarrow> ('app, 'arg) eng \<Rightarrow> ('app \<times> ('app, 'arg) eng) res"
  op_identity :: "'arg \<Rightarrow> string"
  op_has_pull :: "'app \<Rightarrow> bool"
  op_pull :: "('app, 'arg) AppState \<Rightarrow> ('app, 'arg) eng \<Rightarrow> ('app \<times> ('app, 'arg) eng) res"
  op_has_push :: "'app \<Rightarrow> bool"
  op_push :: "('app, 'arg) AppState \<Rightarrow> ('app, 'arg) eng \<Rightarrow> ('app \<times> ('app, 'arg) eng) res"
  op_has_report :: "'app \<Rightarrow> bool"
  op_report :: "'app \<Rightarrow> ('app, 'arg) eng \<Rightarrow> ('app \<times> ('app, 'arg) eng) res"
  op_has_stop :: "'app \<Rightarrow> bool"
  op_stop :: "'app \<Rightarrow> ('app, 'arg) eng \<Rightarrow> ('app, 'arg) eng res"

text \<open>The default methods of \<open>App\<close>.\<close>

definition default_pull :: "('app, 'arg) AppState \<Rightarrow> ('app, 'arg) eng \<Rightarrow> ('app \<times> ('app, 'arg) eng) res" where
  "default_pull a s = Inl (Panic ''Pull called but not implemented'')"

definition default_push :: "('app, 'arg) AppState \<Rightarrow> ('app, 'arg) eng \<Rightarrow> ('app \<times> ('app, 'arg) eng) res" where
  "default_push a s = Inl (Panic ''Push called but not implemented'')"

definition default_report :: "'app \<Rightarrow> ('app, 'arg) eng \<Rightarrow> ('app \<times> ('app, 'arg) eng) res" where
  "default_report a s = Inl (Panic ''Report called but not implemented'')"

definition default_stop :: "'app \<Rightarrow> ('app, 'arg) eng \<Rightarrow> ('app, 'arg) eng res" where
  "default_stop a s = Inl (Panic ''Stop called but not implemented'')"

definition PULL_NPACKETS :: nat where
  "PULL_NPACKETS = LINK_MAX_PACKETS div 10"

text \<open>\<open>AppArg::equal\<close>: two arguments are the same if they print the same.\<close>

definition arg_equal :: "('app, 'arg) app_ops \<Rightarrow> 'arg \<Rightarrow> 'arg \<Rightarrow> bool" where
  "arg_equal A x y \<longleftrightarrow> op_identity A x = op_identity A y"

section \<open>Shared links\<close>

text \<open>All references to links that the engine's tables hold.\<close>

definition app_refs :: "('app, 'arg) AppState \<Rightarrow> shared_link list" where
  "app_refs a = map snd (app_input a) @ map snd (app_output a)"

definition link_refs :: "('app, 'arg) eng \<Rightarrow> shared_link list" where
  "link_refs s = map snd (link_table s) @ concat (map (app_refs \<circ> snd) (app_table s))"

text \<open>Dropping one link, and every link that nothing refers to any more.\<close>

definition drop_shared :: "shared_link \<Rightarrow> ('app, 'arg) eng \<Rightarrow> ('app, 'arg) eng res" where
  "drop_shared i s =
     bind_res (unwrap (map_of (link_store s) i)) (\<lambda>r.
     bind_res (drop_link r s) (\<lambda>(_, s).
     Inr (s\<lparr>link_store := AList.delete i (link_store s)\<rparr>)))"

definition release_links :: "hash_order \<Rightarrow> ('app, 'arg) eng \<Rightarrow> ('app, 'arg) eng res" where
  "release_links h s =
     fold_res drop_shared
       (drop_iter h (filter (\<lambda>i. i \<notin> set (link_refs s)) (keys_of (link_store s)))) s"

definition new_shared_link :: "('app, 'arg) eng \<Rightarrow> shared_link \<times> ('app, 'arg) eng" where
  "new_shared_link s =
     (let i = next_link s in
      (i, s\<lparr>next_link := Suc i, link_store := AList.update i new_link (link_store s)\<rparr>))"

section \<open>Starting, stopping, linking\<close>

definition start_app :: "('app, 'arg) app_ops \<Rightarrow> string \<Rightarrow> 'arg \<Rightarrow> ('app, 'arg) eng \<Rightarrow> ('app, 'arg) eng res" where
  "start_app A name c s =
     bind_res (op_new A c s) (\<lambda>(a, s).
     Inr (s\<lparr>app_table := AList.update name \<lparr>app_obj = a, conf = c, app_input = [], app_output = []\<rparr>
                          (app_table s)\<rparr>))"

definition stop_app ::
  "hash_order \<Rightarrow> ('app, 'arg) app_ops \<Rightarrow> string \<Rightarrow> ('app, 'arg) eng \<Rightarrow> ('app, 'arg) eng res" where
  "stop_app h A name s =
     bind_res (unwrap (map_of (app_table s) name)) (\<lambda>removed.
     let s = s\<lparr>app_table := AList.delete name (app_table s)\<rparr> in
     bind_res (if op_has_stop A (app_obj removed) then op_stop A (app_obj removed) s else Inr s) (\<lambda>s.
     release_links h s))"

definition set_output :: "string \<Rightarrow> string \<Rightarrow> shared_link \<Rightarrow> ('app, 'arg) eng \<Rightarrow> ('app, 'arg) eng res" where
  "set_output name port i s =
     bind_res (unwrap (map_of (app_table s) name)) (\<lambda>a.
     Inr (s\<lparr>app_table := AList.update name (a\<lparr>app_output := AList.update port i (app_output a)\<rparr>) (app_table s)\<rparr>))"

definition set_input :: "string \<Rightarrow> string \<Rightarrow> shared_link \<Rightarrow> ('app, 'arg) eng \<Rightarrow> ('app, 'arg) eng res" where
  "set_input name port i s =
     bind_res (unwrap (map_of (app_table s) name)) (\<lambda>a.
     Inr (s\<lparr>app_table := AList.update name (a\<lparr>app_input := AList.update port i (app_input a)\<rparr>) (app_table s)\<rparr>))"

definition link_apps :: "hash_order \<Rightarrow> string \<Rightarrow> ('app, 'arg) eng \<Rightarrow> ('app, 'arg) eng res" where
  "link_apps h spec s =
     (let (i, s) =
        (case map_of (link_table s) spec of
           Some i \<Rightarrow> (i, s)
         | None \<Rightarrow>
             let (i, s) = new_shared_link s in (i, s\<lparr>link_table := AList.update spec i (link_table s)\<rparr>))
      in
      bind_res (parse_link spec) (\<lambda>l.
      bind_res (set_output (from_app l) (output_name l) i s) (\<lambda>s.
      bind_res (release_links h s) (\<lambda>s.
      bind_res (set_input (to_app l) (input_name l) i s) (\<lambda>s.
      release_links h s)))))"

definition del_output :: "string \<Rightarrow> string \<Rightarrow> ('app, 'arg) eng \<Rightarrow> ('app, 'arg) eng res" where
  "del_output name port s =
     bind_res (unwrap (map_of (app_table s) name)) (\<lambda>a.
     Inr (s\<lparr>app_table := AList.update name (a\<lparr>app_output := AList.delete port (app_output a)\<rparr>) (app_table s)\<rparr>))"

definition del_input :: "string \<Rightarrow> string \<Rightarrow> ('app, 'arg) eng \<Rightarrow> ('app, 'arg) eng res" where
  "del_input name port s =
     bind_res (unwrap (map_of (app_table s) name)) (\<lambda>a.
     Inr (s\<lparr>app_table := AList.update name (a\<lparr>app_input := AList.delete port (app_input a)\<rparr>) (app_table s)\<rparr>))"

text \<open>
  \<open>configure\<close> calls this on the keys of a clone of the link table, which keeps every link
  alive until the loop is over.
\<close>

definition unlink_apps :: "string \<Rightarrow> ('app, 'arg) eng \<Rightarrow> ('app, 'arg) eng res" where
  "unlink_apps spec s =
     (let s = s\<lparr>link_table := AList.delete spec (link_table s)\<rparr> in
      bind_res (parse_link spec) (\<lambda>l.
      bind_res (del_output (from_app l) (output_name l) s) (\<lambda>s.
      del_input (to_app l) (input_name l) s)))"

section \<open>The breathe order\<close>

type_synonym succs = "(string, string list) hashmap"

text \<open>\<open>successors.entry(from).or_insert(HashSet::new()).insert(to)\<close>.\<close>

definition add_successor :: "string \<Rightarrow> succs \<Rightarrow> succs res" where
  "add_successor l m =
     bind_res (parse_link l) (\<lambda>spec.
     let old = (case map_of m (from_app spec) of None \<Rightarrow> [] | Some xs \<Rightarrow> xs) in
     Inr (AList.update (from_app spec) (List.insert (to_app spec) old) m))"

text \<open>
  Push every successor of the apps in \<open>names\<close> that implements \<open>push\<close> and is on
  neither list. The first collection of the source has no test against \<open>exhale\<close>, which is
  still empty then.
\<close>

definition collect_one ::
  "('app, 'arg) app_ops \<Rightarrow> ('app, 'arg) eng \<Rightarrow> string list \<Rightarrow> string \<Rightarrow> string list \<Rightarrow> string list res" where
  "collect_one A s exh successor dependents =
     bind_res (unwrap (map_of (app_table s) successor)) (\<lambda>a.
     Inr (if op_has_push A (app_obj a) \<and> successor \<notin> set exh \<and> successor \<notin> set dependents
          then dependents @ [successor] else dependents))"

definition collect_dependents ::
  "hash_order \<Rightarrow> ('app, 'arg) app_ops \<Rightarrow> ('app, 'arg) eng \<Rightarrow> string list \<Rightarrow> succs \<Rightarrow> string list \<Rightarrow>
   string list res" where
  "collect_dependents h A s exh m names =
     fold_res (\<lambda>name dependents.
         case map_of m name of
           None \<Rightarrow> Inr dependents
         | Some xs \<Rightarrow> fold_res (collect_one A s exh) (succ_iter h name xs) dependents)
       names []"

text \<open>
  Take out of \<open>dependents\<close> what another dependent precedes. The pair is \<open>selected\<close>
  and \<open>dependents\<close>.
\<close>

definition delay_one :: "string \<Rightarrow> string \<Rightarrow> string list \<times> string list \<Rightarrow> string list \<times> string list" where
  "delay_one name successor = (\<lambda>(selected, dependents).
     if successor \<notin> set selected \<and> successor \<in> set dependents \<and> 1 < length dependents
     then (List.insert name selected, filter (\<lambda>n. n \<noteq> successor) dependents)
     else (selected, dependents))"

definition delay_dependents :: "hash_order \<Rightarrow> succs \<Rightarrow> string list \<Rightarrow> string list" where
  "delay_dependents h m dependents =
     snd (fold (\<lambda>name st.
             case map_of m name of
               None \<Rightarrow> st
             | Some xs \<Rightarrow> fold (delay_one name) (succ_iter h name xs) st)
           dependents ([], dependents))"

definition remove_all :: "string list \<Rightarrow> succs \<Rightarrow> succs" where
  "remove_all names m = fold AList.delete names m"

text \<open>
  The loop ends because a round that finds further dependents found them through the successors of
  an app it then removes.
\<close>

lemma length_delete_le: "length (AList.delete k m) \<le> length m"
  by (simp add: AList.delete_eq)

lemma length_delete_less: "map_of m k \<noteq> None \<Longrightarrow> length (AList.delete k m) < length m"
proof (induction m)
  case Nil
  then show ?case by simp
next
  case (Cons a m)
  then show ?case
    using length_delete_le [of k m] by (cases a) (auto split: if_splits)
qed

lemma map_of_remove_all [simp]:
  "map_of (remove_all ns m) k = (if k \<in> set ns then None else map_of m k)"
  unfolding remove_all_def by (induction ns arbitrary: m) auto

lemma length_remove_all_le: "length (remove_all ns m) \<le> length m"
  unfolding remove_all_def
proof (induction ns arbitrary: m)
  case Nil
  then show ?case by simp
next
  case (Cons n ns)
  then show ?case using length_delete_le [of n m] by (auto intro: le_trans)
qed

lemma length_remove_all_less:
  "n \<in> set ns \<Longrightarrow> map_of m n \<noteq> None \<Longrightarrow> length (remove_all ns m) < length m"
proof (induction ns arbitrary: m)
  case Nil
  then show ?case by simp
next
  case (Cons k ns)
  have step: "remove_all (k # ns) m = remove_all ns (AList.delete k m)" by (simp add: remove_all_def)
  show ?case
  proof (cases "n = k")
    case True
    then show ?thesis
      using length_delete_less [of m n] Cons.prems(2) length_remove_all_le [of ns "AList.delete k m"]
      unfolding step by simp
  next
    case False
    then have "length (remove_all ns (AList.delete k m)) < length (AList.delete k m)"
      using Cons.IH [of "AList.delete k m"] Cons.prems by auto
    then show ?thesis using length_delete_le [of k m] unfolding step by simp
  qed
qed

lemma collect_dependents_none:
  assumes "\<And>n. n \<in> set names \<Longrightarrow> map_of m n = None"
  shows "collect_dependents h A s exh m names = Inr []"
proof -
  have "fold_res (\<lambda>name dependents.
      case map_of m name of None \<Rightarrow> Inr dependents
      | Some xs \<Rightarrow> fold_res (collect_one A s exh) (succ_iter h name xs) dependents) names ds = Inr ds" for ds
    using assms by (induction names) auto
  then show ?thesis by (simp add: collect_dependents_def)
qed

function breathe_loop ::
  "hash_order \<Rightarrow> ('app, 'arg) app_ops \<Rightarrow> ('app, 'arg) eng \<Rightarrow> string list \<Rightarrow> succs \<Rightarrow> string list \<Rightarrow>
   string list res" where
  "breathe_loop h A s dependents m exh =
     (if dependents = [] then Inr exh
      else
        let exhaled = sort (delay_dependents h m dependents);
            exh = exh @ exhaled in
        bind_res (collect_dependents h A s exh m exhaled) (\<lambda>dependents.
        breathe_loop h A s dependents (remove_all exhaled m) exh))"
  by pat_completeness auto
termination
proof (relation "measures [\<lambda>(h, A, s, ds, m, exh). length m,
    \<lambda>(h, A, s, ds, m, exh). if ds = [] then 0 else 1]", goal_cases)
  case 1
  then show ?case by simp
next
  case (2 h A s dependents m exh exhaled exh' dependents')
  show ?case
  proof (cases "\<exists>n \<in> set exhaled. map_of m n \<noteq> None")
    case True
    then obtain n where "n \<in> set exhaled" "map_of m n \<noteq> None" by blast
    from length_remove_all_less [OF this] show ?thesis by simp
  next
    case False
    then have "collect_dependents h A s exh' m exhaled = Inr []"
      by (intro collect_dependents_none) auto
    then have "dependents' = []" using 2(4) by simp
    then show ?thesis using 2(1) length_remove_all_le [of exhaled m] by auto
  qed
qed

declare breathe_loop.simps [simp del]

definition compute_breathe_order ::
  "hash_order \<Rightarrow> ('app, 'arg) app_ops \<Rightarrow> ('app, 'arg) eng \<Rightarrow> ('app, 'arg) eng res" where
  "compute_breathe_order h A s =
     bind_res (fold_res add_successor (link_iter h (keys_of (link_table s))) []) (\<lambda>successors.
     let inh = sort (filter (\<lambda>n. op_has_pull A (app_obj (the (map_of (app_table s) n))))
                      (app_iter h (keys_of (app_table s)))) in
     bind_res (collect_dependents h A s [] successors inh) (\<lambda>dependents.
     bind_res (breathe_loop h A s dependents (remove_all inh successors) []) (\<lambda>exh.
     Inr (s\<lparr>inhale := inh, exhale := exh\<rparr>))))"

section \<open>Configuring the network\<close>

definition configure ::
  "hash_order \<Rightarrow> ('app, 'arg) app_ops \<Rightarrow> 'arg Config \<Rightarrow> ('app, 'arg) eng \<Rightarrow> ('app, 'arg) eng res" where
  "configure h A config s =
     bind_res (fold_res (\<lambda>l s. if l \<in> set (links config) then Inr s else unlink_apps l s)
                (link_iter h (keys_of (link_table s))) s) (\<lambda>s.
     bind_res (release_links h s) (\<lambda>s.
     bind_res (fold_res (\<lambda>name s.
                  bind_res (unwrap (map_of (app_table s) name)) (\<lambda>old.
                  case map_of (apps config) name of
                    Some new \<Rightarrow> if \<not> arg_equal A (conf old) new then stop_app h A name s else Inr s
                  | None \<Rightarrow> stop_app h A name s))
                (app_iter h (keys_of (app_table s))) s) (\<lambda>s.
     bind_res (fold_res (\<lambda>name s.
                  if map_of (app_table s) name = None
                  then start_app A name (the (map_of (apps config) name)) s else Inr s)
                (conf_app_iter h (keys_of (apps config))) s) (\<lambda>s.
     bind_res (fold_res (link_apps h) (conf_link_iter h (links config)) s) (\<lambda>s.
     compute_breathe_order h A s)))))"

end
