(* ===== verification/Rush_Engine_Order.thy ===== *)
theory Rush_Engine_Order
  imports Rush_Engine
begin

text \<open>
  What \<open>compute_breathe_order\<close> computes: the pull apps, sorted by name, and the push apps
  that packets of pull apps can reach, each once. All of it holds for every order in which the hash
  tables may be walked.
\<close>

section \<open>Hash orders\<close>

lemma walk_mset [simp]: "mset (walk f xs) = mset xs"
  by (simp add: walk_def)

lemma walk_set [simp]: "set (walk f xs) = set xs"
  by (metis set_mset_mset walk_mset)

lemma walk_distinct [simp]: "distinct (walk f xs) = distinct xs"
  by (rule mset_eq_imp_distinct_iff) simp

lemma hash_order_set [simp]:
  "set (link_iter h xs) = set xs" "set (app_iter h xs) = set xs"
  "set (conf_app_iter h xs) = set xs" "set (conf_link_iter h xs) = set xs"
  "set (succ_iter h n xs) = set xs" "set (port_iter h xs) = set xs" "set (drop_iter h js) = set js"
  by (simp_all add: link_iter_def app_iter_def conf_app_iter_def conf_link_iter_def succ_iter_def
      port_iter_def drop_iter_def)

lemma hash_order_distinct [simp]:
  "distinct (link_iter h xs) = distinct xs" "distinct (app_iter h xs) = distinct xs"
  "distinct (conf_app_iter h xs) = distinct xs" "distinct (conf_link_iter h xs) = distinct xs"
  "distinct (port_iter h xs) = distinct xs" "distinct (drop_iter h js) = distinct js"
  by (simp_all add: link_iter_def app_iter_def conf_app_iter_def conf_link_iter_def
      port_iter_def drop_iter_def)

section \<open>Successors\<close>

definition succ_set :: "succs \<Rightarrow> string \<Rightarrow> string set" where
  "succ_set m n = (case map_of m n of None \<Rightarrow> {} | Some xs \<Rightarrow> set xs)"

definition edges :: "string set \<Rightarrow> (string \<times> string) set" where
  "edges ls = {(from_app l, to_app l) | l x. x \<in> ls \<and> parse_link x = Inr l}"

lemma edges_insert:
  assumes "parse_link x = Inr l"
  shows "edges (insert x X) = insert (from_app l, to_app l) (edges X)"
proof -
  have "e \<in> edges (insert x X) \<longleftrightarrow> e = (from_app l, to_app l) \<or> e \<in> edges X" for e
    unfolding edges_def mem_Collect_eq insert_iff using assms by (metis Inr_inject)
  then show ?thesis by blast
qed

lemma add_successor_ok:
  assumes "fold_res add_successor ls m = Inr m'"
  shows "succ_set m' n = succ_set m n \<union> edges (set ls) `` {n}"
  using assms
proof (induction ls arbitrary: m)
  case Nil
  then show ?case by (simp add: edges_def)
next
  case (Cons x ls)
  then obtain m1 where m1: "add_successor x m = Inr m1" and rest: "fold_res add_successor ls m1 = Inr m'"
    by (auto simp: res_simps)
  then obtain l where l: "parse_link x = Inr l" and m1': "m1 = AList.update (from_app l)
      (List.insert (to_app l) (case map_of m (from_app l) of None \<Rightarrow> [] | Some xs \<Rightarrow> xs)) m"
    by (auto simp: add_successor_def res_simps Let_def)
  have "succ_set m1 n = succ_set m n \<union> (if n = from_app l then {to_app l} else {})"
    by (auto simp: succ_set_def m1' split: option.splits)
  moreover have "edges (set (x # ls)) `` {n} =
      edges (set ls) `` {n} \<union> (if n = from_app l then {to_app l} else {})"
    unfolding list.set edges_insert [OF l] by auto
  ultimately show ?case unfolding Cons.IH [OF rest] by (simp add: Un_ac)
qed

lemma succ_set_remove [simp]:
  "succ_set (remove_all ns m) n = (if n \<in> set ns then {} else succ_set m n)"
  by (simp add: succ_set_def)

section \<open>Collecting\<close>

definition push_app :: "('app, 'arg) app_ops \<Rightarrow> ('app, 'arg) eng \<Rightarrow> string \<Rightarrow> bool" where
  "push_app A s n \<longleftrightarrow> (\<exists>a. map_of (app_table s) n = Some a \<and> op_has_push A (app_obj a))"

definition pull_app :: "('app, 'arg) app_ops \<Rightarrow> ('app, 'arg) eng \<Rightarrow> string \<Rightarrow> bool" where
  "pull_app A s n \<longleftrightarrow> (\<exists>a. map_of (app_table s) n = Some a \<and> op_has_pull A (app_obj a))"

lemma collect_one_fold:
  assumes "fold_res (collect_one A s exh) xs ds = Inr ds'" and "distinct ds"
  shows "distinct ds' \<and> set ds' = set ds \<union> {t \<in> set xs. push_app A s t \<and> t \<notin> set exh}"
  using assms
proof (induction xs arbitrary: ds)
  case Nil
  then show ?case by simp
next
  case (Cons x xs)
  then obtain ds1 where one: "collect_one A s exh x ds = Inr ds1"
    and rest: "fold_res (collect_one A s exh) xs ds1 = Inr ds'"
    by (auto simp: res_simps)
  obtain a where a: "map_of (app_table s) x = Some a" and ds1: "ds1 =
      (if op_has_push A (app_obj a) \<and> x \<notin> set exh \<and> x \<notin> set ds then ds @ [x] else ds)"
    using one by (auto simp: res_simps collect_one_def)
  have "push_app A s x = op_has_push A (app_obj a)" using a by (simp add: push_app_def)
  moreover have "distinct ds1" using Cons.prems(2) by (simp add: ds1)
  ultimately show ?case using Cons.IH [OF rest] by (auto simp: ds1)
qed

lemma collect_dependents_ok:
  assumes run: "collect_dependents h A s exh m names = Inr ds"
  shows "distinct ds \<and>
    set ds = {t. push_app A s t \<and> t \<notin> set exh \<and> (\<exists>n \<in> set names. t \<in> succ_set m n)}"
proof -
  let ?f = "\<lambda>name dependents. case map_of m name of None \<Rightarrow> Inr dependents
      | Some xs \<Rightarrow> fold_res (collect_one A s exh) (succ_iter h name xs) dependents"
  have "distinct ds' \<and> set ds' = set ds0 \<union>
      {t. push_app A s t \<and> t \<notin> set exh \<and> (\<exists>n \<in> set names. t \<in> succ_set m n)}"
    if "fold_res ?f names ds0 = Inr ds'" "distinct ds0" for ds0 ds'
    using that
  proof (induction names arbitrary: ds0)
    case Nil
    then show ?case by simp
  next
    case (Cons n names)
    then obtain ds1 where ds1: "?f n ds0 = Inr ds1" and rest: "fold_res ?f names ds1 = Inr ds'"
      by (auto simp: res_simps)
    have "distinct ds1 \<and> set ds1 = set ds0 \<union> {t \<in> succ_set m n. push_app A s t \<and> t \<notin> set exh}"
      using ds1 Cons.prems(2) collect_one_fold [of A s exh _ ds0 ds1]
      by (auto simp: succ_set_def split: option.splits)
    then show ?case using Cons.IH [OF rest] by auto
  qed
  from this [of "[]" ds] run show ?thesis by (simp add: collect_dependents_def)
qed

text \<open>Collecting cannot fail if the successors are apps of the network.\<close>

lemma collect_dependents_total:
  assumes apps: "\<And>n t. n \<in> set names \<Longrightarrow> t \<in> succ_set m n \<Longrightarrow> map_of (app_table s) t \<noteq> None"
  shows "\<exists>ds. collect_dependents h A s exh m names = Inr ds"
proof -
  have one: "\<exists>ds'. fold_res (collect_one A s exh) xs ds = Inr ds'"
    if "\<And>t. t \<in> set xs \<Longrightarrow> map_of (app_table s) t \<noteq> None" for xs ds
    using fold_res_total [of xs "\<lambda>_. True" "collect_one A s exh" ds] that
    by (fastforce simp: collect_one_def)
  have "\<exists>ds'. fold_res (\<lambda>name dependents. case map_of m name of None \<Rightarrow> Inr dependents
      | Some xs \<Rightarrow> fold_res (collect_one A s exh) (succ_iter h name xs) dependents) names [] = Inr ds' \<and> True"
  proof (rule fold_res_total [where P = "\<lambda>_. True"])
    fix n ds
    assume n: "n \<in> set names"
    show "\<exists>ds'. (case map_of m n of None \<Rightarrow> Inr ds
        | Some xs \<Rightarrow> fold_res (collect_one A s exh) (succ_iter h n xs) ds) = Inr ds' \<and> True"
    proof (cases "map_of m n")
      case (Some xs)
      then have "t \<in> set (succ_iter h n xs) \<Longrightarrow> map_of (app_table s) t \<noteq> None" for t
        using apps [OF n, of t] by (simp add: succ_set_def)
      then have "\<exists>ds'. fold_res (collect_one A s exh) (succ_iter h n xs) ds = Inr ds'" by (rule one)
      then show ?thesis using Some by simp
    qed simp
  qed simp
  then show ?thesis by (simp add: collect_dependents_def)
qed

section \<open>Delaying\<close>

text \<open>The edges of \<open>m\<close> that end in push apps.\<close>

definition push_edges :: "('app, 'arg) app_ops \<Rightarrow> ('app, 'arg) eng \<Rightarrow> succs \<Rightarrow> (string \<times> string) set" where
  "push_edges A s m = {(n, t). t \<in> succ_set m n \<and> push_app A s t}"

text \<open>
  What holds of \<open>(selected, dependents)\<close> while dependents are taken out: what was taken out is
  reached from an app that is selected, and a selected app stays.
\<close>

definition delay_inv ::
  "(string \<times> string) set \<Rightarrow> string list \<Rightarrow> string list \<times> string list \<Rightarrow> bool" where
  "delay_inv R ds0 = (\<lambda>(selected, ds).
     distinct ds \<and> ds \<noteq> [] \<and> set ds \<subseteq> set ds0 \<and>
     (\<forall>x \<in> set ds0. x \<in> set ds \<or> x \<in> R\<^sup>* `` (set selected \<inter> set ds)))"

lemma delay_one_inv:
  assumes inv: "delay_inv R ds0 st" and n: "n \<in> set ds0" and ne: "t \<noteq> n"
    and e: "t \<in> set ds0 \<Longrightarrow> (n, t) \<in> R"
  shows "delay_inv R ds0 (delay_one n t st)"
proof -
  obtain sel ds where st: "st = (sel, ds)" by (cases st) auto
  show ?thesis
  proof (cases "t \<notin> set sel \<and> t \<in> set ds \<and> 1 < length ds")
    case True
    let ?sel = "List.insert n sel" and ?ds = "filter (\<lambda>x. x \<noteq> t) ds"
    have step: "delay_one n t st = (?sel, ?ds)" using True by (simp add: delay_one_def st)
    have d: "distinct ds" "set ds \<subseteq> set ds0"
      and reach: "\<forall>x \<in> set ds0. x \<in> set ds \<or> x \<in> R\<^sup>* `` (set sel \<inter> set ds)"
      using inv by (auto simp: delay_inv_def st)
    have keep: "set sel \<inter> set ds \<subseteq> set ?sel \<inter> set ?ds" using True by auto
    have nreach: "n \<in> R\<^sup>* `` (set ?sel \<inter> set ?ds)"
    proof (cases "n \<in> set ds")
      case True
      then show ?thesis using ne by auto
    next
      case False
      then show ?thesis using reach n keep by blast
    qed
    moreover have "(n, t) \<in> R" using e d(2) True by auto
    ultimately have treach: "t \<in> R\<^sup>* `` (set ?sel \<inter> set ?ds)" by (meson Image_iff rtrancl.simps)
    have "?ds \<noteq> []"
    proof -
      have "card (set ds - {t}) = length ds - 1" using d(1) True by (simp add: distinct_card)
      then have "set ds - {t} \<noteq> {}" using True by (metis card.empty less_numeral_extra(3) zero_less_diff)
      then show ?thesis by (auto simp: filter_empty_conv)
    qed
    moreover have "\<forall>x \<in> set ds0. x \<in> set ?ds \<or> x \<in> R\<^sup>* `` (set ?sel \<inter> set ?ds)"
      using reach keep treach by auto
    ultimately show ?thesis using d unfolding step delay_inv_def by auto
  next
    case False
    then show ?thesis using inv by (auto simp: delay_one_def st)
  qed
qed

lemma delay_dependents_ok:
  assumes ds: "distinct ds" "ds \<noteq> []"
    and push: "\<And>t. t \<in> set ds \<Longrightarrow> push_app A s t" and irr: "\<And>n. n \<notin> succ_set m n"
  shows "distinct (delay_dependents h m ds)" and "delay_dependents h m ds \<noteq> []"
    and "set (delay_dependents h m ds) \<subseteq> set ds"
    and "set ds \<subseteq> (push_edges A s m)\<^sup>* `` set (delay_dependents h m ds)"
proof -
  let ?R = "push_edges A s m"
  let ?f = "\<lambda>name st. case map_of m name of None \<Rightarrow> st
      | Some xs \<Rightarrow> fold (delay_one name) (succ_iter h name xs) st"
  have inner: "delay_inv ?R ds (fold (delay_one n) xs st)"
    if "delay_inv ?R ds st" "n \<in> set ds" "set xs \<subseteq> succ_set m n" for n xs st
    using that
  proof (induction xs arbitrary: st)
    case Nil
    then show ?case by simp
  next
    case (Cons t xs)
    then have "t \<noteq> n" "t \<in> set ds \<Longrightarrow> (n, t) \<in> ?R" using irr push by (auto simp: push_edges_def)
    with Cons show ?case using delay_one_inv [of ?R ds st n t] by simp
  qed
  have outer: "delay_inv ?R ds (fold ?f ns st)" if "delay_inv ?R ds st" "set ns \<subseteq> set ds" for ns st
    using that
  proof (induction ns arbitrary: st)
    case Nil
    then show ?case by simp
  next
    case (Cons n ns)
    have "delay_inv ?R ds (?f n st)"
    proof (cases "map_of m n")
      case (Some xs)
      then show ?thesis
        using inner [of st n "succ_iter h n xs"] Cons.prems
        by (simp add: succ_set_def)
    qed (use Cons.prems in simp)
    then show ?case using Cons.IH Cons.prems(2) by simp
  qed
  have start: "delay_inv ?R ds ([], ds)" using ds by (simp add: delay_inv_def)
  obtain sel ds' where st: "fold ?f ds ([], ds) = (sel, ds')" by (cases "fold ?f ds ([], ds)")
  have inv: "delay_inv ?R ds (sel, ds')" using outer [OF start subset_refl] unfolding st .
  have eq: "delay_dependents h m ds = ds'" unfolding delay_dependents_def st by simp
  show "distinct (delay_dependents h m ds)" "delay_dependents h m ds \<noteq> []"
    "set (delay_dependents h m ds) \<subseteq> set ds"
    using inv unfolding eq by (auto simp: delay_inv_def)
  show "set ds \<subseteq> (push_edges A s m)\<^sup>* `` set (delay_dependents h m ds)"
    using inv unfolding eq delay_inv_def by auto
qed

text \<open>Without the assumption on self links it still takes a non-empty part of the dependents.\<close>

lemma delay_one_subset:
  assumes "delay_one n t (sel, ds) = (sel', ds')" and "distinct ds"
  shows "distinct ds' \<and> set ds' \<subseteq> set ds"
  using assms by (auto simp: delay_one_def split: if_splits)

lemma delay_dependents_subset:
  assumes "distinct ds"
  shows "distinct (delay_dependents h m ds) \<and> set (delay_dependents h m ds) \<subseteq> set ds"
proof -
  let ?f = "\<lambda>name st. case map_of m name of None \<Rightarrow> st
      | Some xs \<Rightarrow> fold (delay_one name) (succ_iter h name xs) st"
  let ?P = "\<lambda>st. distinct (snd st) \<and> set (snd st) \<subseteq> set ds"
  have inner: "?P st \<Longrightarrow> ?P (fold (delay_one n) xs st)" for n xs st
  proof (induction xs arbitrary: st)
    case (Cons t xs)
    then have "?P (delay_one n t st)"
      using delay_one_subset [of n t "fst st" "snd st"] by (metis prod.collapse subset_trans)
    then show ?case using Cons.IH by simp
  qed simp
  have outer: "?P st \<Longrightarrow> ?P (fold ?f ns st)" for ns st
  proof (induction ns arbitrary: st)
    case (Cons n ns)
    then have "?P (?f n st)" using inner [OF Cons.prems, of n] by (cases "map_of m n") auto
    from Cons.IH [OF this] show ?case by simp
  qed simp
  have "?P ([], ds)" using assms by simp
  from outer [OF this, of ds] show ?thesis by (simp add: delay_dependents_def)
qed

section \<open>The loop\<close>

text \<open>
  \<open>P\<close> are the apps whose successors were processed: \<open>m\<close> is \<open>m0\<close>
  without them. Every push app after a processed one is in \<open>exh\<close> or still to be reached
  from the dependents.
\<close>

definition order_inv ::
  "('app, 'arg) app_ops \<Rightarrow> ('app, 'arg) eng \<Rightarrow> succs \<Rightarrow> string set \<Rightarrow> string set \<Rightarrow>
   string list \<Rightarrow> succs \<Rightarrow> string list \<Rightarrow> bool" where
  "order_inv A s m0 Z P ds m exh \<longleftrightarrow>
     distinct ds \<and> distinct exh \<and> set ds \<inter> set exh = {} \<and>
     (\<forall>t \<in> set ds \<union> set exh. push_app A s t \<and> t \<in> Z) \<and> set exh \<subseteq> P \<and>
     (\<forall>n. succ_set m n = (if n \<in> P then {} else succ_set m0 n)) \<and>
     (\<forall>n \<in> P. \<forall>t. (n, t) \<in> push_edges A s m0 \<longrightarrow>
        t \<in> set exh \<or> t \<in> (push_edges A s m)\<^sup>* `` set ds)"

text \<open>Whatever was ahead of the apps that are run now stays ahead of the dependents they leave.\<close>

lemma order_ahead:
  assumes past: "\<And>t. t \<in> P \<Longrightarrow> succ_set m t = {}" and P: "set exh \<subseteq> P"
    and coll: "\<And>u t. t \<in> set D \<Longrightarrow> u \<in> succ_set m t \<Longrightarrow> push_app A s u \<Longrightarrow> u \<in> set ds' \<or> u \<in> set (exh @ D)"
    and path: "(d, t) \<in> (push_edges A s m)\<^sup>*" and d: "d \<in> set D"
  shows "t \<in> set (exh @ D) \<or> t \<in> (push_edges A s (remove_all D m))\<^sup>* `` set ds'"
  using path d
proof (induction rule: rtrancl_induct)
  case base
  then show ?case by simp
next
  case (step t u)
  have u: "push_app A s u" "u \<in> succ_set m t" using step.hyps(2) by (simp_all add: push_edges_def)
  then have tP: "t \<notin> P" using past by auto
  show ?case
  proof (cases "t \<in> set D")
    case True
    then show ?thesis using coll [OF True u(2,1)] by auto
  next
    case False
    then have "(t, u) \<in> push_edges A s (remove_all D m)" using u by (simp add: push_edges_def)
    moreover have "t \<in> (push_edges A s (remove_all D m))\<^sup>* `` set ds'" using step.IH step.prems False tP P by auto
    ultimately show ?thesis by (meson Image_iff rtrancl.simps)
  qed
qed

lemma order_step:
  assumes irr: "\<And>n. n \<notin> succ_set m0 n"
    and Z: "push_edges A s m0 `` Z \<subseteq> Z"
    and inv: "order_inv A s m0 Z P ds m exh" and ne: "ds \<noteq> []"
    and D: "D = sort (delay_dependents h m ds)"
    and run: "collect_dependents h A s (exh @ D) m D = Inr ds'"
  shows "order_inv A s m0 Z (P \<union> set D) ds' (remove_all D m) (exh @ D)"
proof -
  let ?R = "push_edges A s m" and ?R' = "push_edges A s (remove_all D m)" and ?S = "push_edges A s m0"
  have m: "succ_set m n = (if n \<in> P then {} else succ_set m0 n)" for n
    using inv by (simp add: order_inv_def)
  have ds: "distinct ds" "\<And>t. t \<in> set ds \<Longrightarrow> push_app A s t" and dsexh: "set ds \<inter> set exh = {}"
    and dsZ: "set ds \<union> set exh \<subseteq> Z" and P: "set exh \<subseteq> P"
    using inv by (auto simp: order_inv_def)
  have irr': "n \<notin> succ_set m n" for n using irr m by simp
  note delay = delay_dependents_ok [OF ds(1) ne ds(2) irr']
  have Dset: "distinct D" "set D \<subseteq> set ds" "set ds \<subseteq> ?R\<^sup>* `` set D" using delay by (simp_all add: D)
  note coll = collect_dependents_ok [OF run]
  have past: "succ_set m t = {}" if "t \<in> P" for t using that m by simp
  have next_in: "u \<in> set ds' \<or> u \<in> set (exh @ D)" if "t \<in> set D" "u \<in> succ_set m t" "push_app A s u" for t u
    using that coll by auto
  have fwd: "t \<in> set (exh @ D) \<or> t \<in> ?R'\<^sup>* `` set ds'" if "(d, t) \<in> ?R\<^sup>*" "d \<in> set D" for d t
    by (rule order_ahead [OF past P next_in that])
  have reach: "t \<in> set (exh @ D) \<or> t \<in> ?R'\<^sup>* `` set ds'"
    if n: "n \<in> P \<union> set D" and e: "(n, t) \<in> ?S" for n t
  proof (cases "n \<in> P")
    case True
    then have "t \<in> set exh \<or> t \<in> ?R\<^sup>* `` set ds" using inv e by (simp add: order_inv_def)
    moreover have "?R\<^sup>* `` set ds \<subseteq> ?R\<^sup>* `` set D" 
      using Image_mono [OF subset_refl Dset(3), of "?R\<^sup>*"] by (simp add: relcomp_Image [symmetric])
    ultimately show ?thesis using fwd by auto
  next
    case False
    then have "(n, t) \<in> ?R" "n \<in> set D" using e n m by (auto simp: push_edges_def)
    then show ?thesis using fwd by blast
  qed
  have "t \<in> Z" if t: "t \<in> set ds'" for t
  proof -
    obtain n where "n \<in> set D" "t \<in> succ_set m n" "push_app A s t" using t coll by auto
    then have "n \<in> Z" "(n, t) \<in> ?S"
      using Dset(2) dsZ m by (auto simp: push_edges_def split: if_splits)
    then show "t \<in> Z" using Z by blast
  qed
  then have new: "\<forall>t \<in> set ds'. push_app A s t \<and> t \<in> Z" using coll by auto
  have old: "\<forall>t \<in> set (exh @ D). push_app A s t \<and> t \<in> Z" using inv Dset(2) unfolding order_inv_def by auto
  show ?thesis
    unfolding order_inv_def
  proof (intro conjI)
    show "distinct ds'" "set ds' \<inter> set (exh @ D) = {}" using coll by auto
    show "distinct (exh @ D)" using inv Dset(1,2) dsexh by (auto simp: order_inv_def)
    show "\<forall>t \<in> set ds' \<union> set (exh @ D). push_app A s t \<and> t \<in> Z" using new old by blast
    show "set (exh @ D) \<subseteq> P \<union> set D" using P by auto
    show "\<forall>n. succ_set (remove_all D m) n = (if n \<in> P \<union> set D then {} else succ_set m0 n)" using m by simp
    show "\<forall>n \<in> P \<union> set D. \<forall>t. (n, t) \<in> ?S \<longrightarrow> t \<in> set (exh @ D) \<or> t \<in> ?R'\<^sup>* `` set ds'"
      using reach by blast
  qed
qed

lemma breathe_loop_ok:
  assumes "\<And>n. n \<notin> succ_set m0 n"
    and "push_edges A s m0 `` Z \<subseteq> Z"
    and "order_inv A s m0 Z P ds m exh" and "breathe_loop h A s ds m exh = Inr exh'"
  shows "\<exists>P' m'. P \<subseteq> P' \<and> order_inv A s m0 Z P' [] m' exh'"
  using assms
proof (induction h A s ds m exh arbitrary: P rule: breathe_loop.induct)
  case (1 h A s ds m exh)
  note prems = "1.prems"
  show ?case
  proof (cases "ds = []")
    case True
    then have "exh' = exh" using prems(4) by (simp add: breathe_loop.simps [of h A s "[]"])
    then show ?thesis using prems(3) True by blast
  next
    case False
    define D where "D = sort (delay_dependents h m ds)"
    obtain ds' where coll: "collect_dependents h A s (exh @ D) m D = Inr ds'"
      and rest: "breathe_loop h A s ds' (remove_all D m) (exh @ D) = Inr exh'"
      using prems(4) False by (auto simp: breathe_loop.simps [of h A s ds] Let_def res_simps D_def)
    have "order_inv A s m0 Z (P \<union> set D) ds' (remove_all D m) (exh @ D)"
      by (rule order_step [OF prems(1-3) False D_def coll])
    from "1.IH" [OF False D_def refl coll prems(1-2) this rest] obtain P' m'
      where "P \<union> set D \<subseteq> P'" "order_inv A s m0 Z P' [] m' exh'" by (elim exE conjE)
    then show ?thesis by (intro exI [of _ P'] exI [of _ m']) simp
  qed
qed

section \<open>The breathe order\<close>

text \<open>The links of the network, as edges that end in push apps.\<close>

definition push_links :: "('app, 'arg) app_ops \<Rightarrow> ('app, 'arg) eng \<Rightarrow> (string \<times> string) set" where
  "push_links A s = {(n, t) \<in> edges (set (keys_of (link_table s))). push_app A s t}"

lemma compute_breathe_order_ok:
  assumes d: "distinct (keys_of (app_table s))"
    and irr: "\<And>n. (n, n) \<notin> edges (set (keys_of (link_table s)))"
    and run: "compute_breathe_order h A s = Inr s'"
  shows "\<exists>inh exh. s' = s\<lparr>inhale := inh, exhale := exh\<rparr> \<and>
    sorted inh \<and> distinct inh \<and> set inh = {n. pull_app A s n} \<and>
    distinct exh \<and> set exh = (push_links A s)\<^sup>+ `` {n. pull_app A s n}"
proof -
  obtain m0 where m0: "fold_res add_successor (link_iter h (keys_of (link_table s))) [] = Inr m0"
    using run by (auto simp: compute_breathe_order_def res_simps)
  define inh where "inh = sort (filter (\<lambda>n. op_has_pull A (app_obj (the (map_of (app_table s) n))))
      (app_iter h (keys_of (app_table s))))"
  obtain ds exh where coll: "collect_dependents h A s [] m0 inh = Inr ds"
    and loop: "breathe_loop h A s ds (remove_all inh m0) [] = Inr exh"
    and s': "s' = s\<lparr>inhale := inh, exhale := exh\<rparr>"
    using run m0 by (auto simp: compute_breathe_order_def res_simps Let_def inh_def)
  have succ: "succ_set m0 n = edges (set (keys_of (link_table s))) `` {n}" for n
    using add_successor_ok [OF m0, of n] by (simp add: succ_set_def)
  have R: "push_edges A s m0 = push_links A s" by (auto simp: push_edges_def push_links_def succ)
  have inh: "sorted inh" "distinct inh"
    using d by (simp_all add: inh_def)
  have inhset: "set inh = {n. pull_app A s n}"
  proof -
    have "n \<in> set (keys_of (app_table s)) \<longleftrightarrow> (\<exists>a. map_of (app_table s) n = Some a)" for n
      using map_of_eq_None_keys [of "app_table s" n] by auto
    then show ?thesis by (auto simp: inh_def pull_app_def simp del: set_map)
  qed
  let ?Z = "(push_links A s)\<^sup>+ `` set inh"
  have irr': "n \<notin> succ_set m0 n" for n using irr by (simp add: succ)
  have Z: "push_edges A s m0 `` ?Z \<subseteq> ?Z"
    unfolding R by (auto intro: trancl.trancl_into_trancl)
  note c = collect_dependents_ok [OF coll]
  have "order_inv A s m0 ?Z (set inh) ds (remove_all inh m0) []"
  proof -
    have "t \<in> set ds \<longleftrightarrow> (\<exists>n \<in> set inh. (n, t) \<in> push_links A s)" for t
      using c R by (auto simp: push_edges_def)
    then show ?thesis using c unfolding order_inv_def R by auto
  qed
  from breathe_loop_ok [OF irr' Z this loop]
  obtain P m where P: "set inh \<subseteq> P" and inv: "order_inv A s m0 ?Z P [] m exh" by blast
  have closed: "t \<in> set exh" if "n \<in> P" "(n, t) \<in> push_links A s" for n t
    using inv that by (auto simp: order_inv_def R)
  have "t \<in> set exh" if "(i, t) \<in> (push_links A s)\<^sup>+" "i \<in> set inh" for i t
    using that by (induction rule: trancl_induct) (use P inv closed in \<open>auto simp: order_inv_def\<close>)
  then have "set exh = ?Z" using inv by (auto simp: order_inv_def)
  moreover have "distinct exh" using inv by (simp add: order_inv_def)
  ultimately show ?thesis using s' inh inhset by blast
qed

text \<open>The order exists whenever every link joins two apps of the network.\<close>

lemma breathe_loop_total:
  assumes "\<And>n t. t \<in> succ_set m n \<Longrightarrow> map_of (app_table s) t \<noteq> None"
  shows "\<exists>exh'. breathe_loop h A s ds m exh = Inr exh'"
  using assms
proof (induction h A s ds m exh rule: breathe_loop.induct)
  case (1 h A s ds m exh)
  show ?case
  proof (cases "ds = []")
    case True
    then show ?thesis by (simp add: breathe_loop.simps [of h A s "[]"])
  next
    case False
    define D where "D = sort (delay_dependents h m ds)"
    obtain ds' where coll: "collect_dependents h A s (exh @ D) m D = Inr ds'"
      using collect_dependents_total [of D m s h A "exh @ D"] "1.prems" by blast
    have "\<exists>exh'. breathe_loop h A s ds' (remove_all D m) (exh @ D) = Inr exh'"
      by (rule "1.IH" [OF False D_def refl coll])
        (use "1.prems" in \<open>auto split: if_splits\<close>)
    then show ?thesis
      using False coll by (simp add: breathe_loop.simps [of h A s ds] Let_def D_def)
  qed
qed

definition links_joined :: "('app, 'arg) eng \<Rightarrow> bool" where
  "links_joined s \<longleftrightarrow>
     (\<forall>x \<in> set (keys_of (link_table s)). \<exists>l. parse_link x = Inr l \<and>
        map_of (app_table s) (from_app l) \<noteq> None \<and> map_of (app_table s) (to_app l) \<noteq> None)"

lemma compute_breathe_order_total:
  assumes joined: "links_joined s"
  shows "\<exists>s'. compute_breathe_order h A s = Inr s'"
proof -
  let ?ls = "link_iter h (keys_of (link_table s))"
  have "\<exists>m. fold_res add_successor ?ls [] = Inr m \<and> True"
    by (rule fold_res_total [where P = "\<lambda>_. True"])
      (use joined in \<open>auto simp: links_joined_def add_successor_def Let_def
        simp del: set_map\<close>)
  then obtain m where m: "fold_res add_successor ?ls [] = Inr m" by blast
  have succ: "map_of (app_table s) t \<noteq> None" if "t \<in> succ_set m n" for n t
  proof -
    have "(n, t) \<in> edges (set (keys_of (link_table s)))"
      using add_successor_ok [OF m, of n] that by (simp add: succ_set_def)
    then obtain l x where "x \<in> set (keys_of (link_table s))" "parse_link x = Inr l" "t = to_app l"
      unfolding edges_def by blast
    then show ?thesis using joined unfolding links_joined_def by (metis Inr_inject)
  qed
  define inh where "inh = sort (filter (\<lambda>n. op_has_pull A (app_obj (the (map_of (app_table s) n))))
      (app_iter h (keys_of (app_table s))))"
  obtain ds where ds: "collect_dependents h A s [] m inh = Inr ds"
    using collect_dependents_total [of inh m s h A "[]"] succ by blast
  have "\<exists>exh. breathe_loop h A s ds (remove_all inh m) [] = Inr exh"
    by (rule breathe_loop_total) (use succ in \<open>auto split: if_splits\<close>)
  then obtain exh where "breathe_loop h A s ds (remove_all inh m) [] = Inr exh" by blast
  then show ?thesis using m ds by (simp add: compute_breathe_order_def Let_def inh_def)
qed

end
