(* ===== verification/Rush_Engine_Run.thy ===== *)
theory Rush_Engine_Run
  imports Rush_Engine
begin

text \<open>
  \<open>src/engine.rs\<close>, the running half: engine time, breaths, pacing, the main loop and the
  reports.
\<close>

section \<open>Time\<close>

definition instant_now :: "env \<Rightarrow> ('app, 'arg) eng \<Rightarrow> instant \<times> ('app, 'arg) eng" where
  "instant_now E s = (env_clk E (ticks s), s\<lparr>ticks := Suc (ticks s)\<rparr>)"

definition now :: "env \<Rightarrow> ('app, 'arg) eng \<Rightarrow> instant \<times> ('app, 'arg) eng" where
  "now E s = (case MONOTONIC_NOW s of Some t \<Rightarrow> (t, s) | None \<Rightarrow> instant_now E s)"

text \<open>A closure that returns a \<open>bool\<close>; it may read the clock.\<close>

type_synonym ('app, 'arg) predicate = "('app, 'arg) eng \<Rightarrow> bool \<times> ('app, 'arg) eng"

definition timeout ::
  "env \<Rightarrow> instant \<Rightarrow> ('app, 'arg) eng \<Rightarrow> ('app, 'arg) predicate \<times> ('app, 'arg) eng" where
  "timeout E duration s =
     (let (t, s) = now E s; deadline = t + duration in
      ((\<lambda>s. let (t, s) = now E s in (deadline < t, s)), s))"

text \<open>A throttle is its deadline; calling it may move the deadline.\<close>

definition throttle :: "env \<Rightarrow> ('app, 'arg) eng \<Rightarrow> instant \<times> ('app, 'arg) eng" where
  "throttle E s = now E s"

definition throttle_call ::
  "env \<Rightarrow> instant \<Rightarrow> instant \<Rightarrow> ('app, 'arg) eng \<Rightarrow> bool \<times> instant \<times> ('app, 'arg) eng" where
  "throttle_call E duration deadline s =
     (let (t, s) = now E s in
      if deadline < t then let (t, s) = now E s in (True, t + duration, s)
      else (False, deadline, s))"

section \<open>Breathing\<close>

definition call_app ::
  "(('app, 'arg) AppState \<Rightarrow> ('app, 'arg) eng \<Rightarrow> ('app \<times> ('app, 'arg) eng) res) \<Rightarrow>
   string \<Rightarrow> ('app, 'arg) eng \<Rightarrow> ('app, 'arg) eng res" where
  "call_app f name s =
     bind_res (unwrap (map_of (app_table s) name)) (\<lambda>a.
     bind_res (f a s) (\<lambda>(x, s).
     Inr (s\<lparr>app_table := AList.update name (a\<lparr>app_obj := x\<rparr>) (app_table s)\<rparr>)))"

definition breathe :: "env \<Rightarrow> ('app, 'arg) app_ops \<Rightarrow> ('app, 'arg) eng \<Rightarrow> ('app, 'arg) eng res" where
  "breathe E A s =
     (let (t, s) = instant_now E s; s = s\<lparr>MONOTONIC_NOW := Some t\<rparr> in
      bind_res (fold_res (call_app (op_pull A)) (inhale s) s) (\<lambda>s.
      bind_res (fold_res (call_app (op_push A)) (exhale s) s) (\<lambda>s.
      Inr (s\<lparr>STATS := (STATS s)\<lparr>breaths := breaths (STATS s) + 1\<rparr>\<rparr>))))"

definition MAXSLEEP :: u64 where
  "MAXSLEEP = 100"

text \<open>Sleeping changes nothing but the time.\<close>

definition pace_breathing :: "('app, 'arg) eng \<Rightarrow> ('app, 'arg) eng" where
  "pace_breathing s =
     (let s = (if LASTFREES s = frees (STATS s) then s\<lparr>SLEEP := min (SLEEP s + 1) MAXSLEEP\<rparr>
               else s\<lparr>SLEEP := SLEEP s div 2\<rparr>)
      in s\<lparr>LASTFREES := frees (STATS s)\<rparr>)"

section \<open>Reports\<close>

definition println :: "line \<Rightarrow> ('app, 'arg) eng \<Rightarrow> ('app, 'arg) eng" where
  "println l s = s\<lparr>console := console s @ [l]\<rparr>"

definition report_load :: "env \<Rightarrow> ('app, 'arg) eng \<Rightarrow> ('app, 'arg) eng" where
  "report_load E s =
     (let fr = frees (STATS s); bits = freebits (STATS s);
          bytes = freebytes (STATS s); br = breaths (STATS s);
          s = (case LASTLOADREPORT s of
                 Some lastloadreport \<Rightarrow>
                   let (t, s) = now E s;
                       interval = t - lastloadreport;
                       newfrees = fr - REPORTEDFREES s;
                       newbits = bits - REPORTEDFREEBITS s;
                       newbytes = bytes - REPORTEDFREEBYTES s;
                       newbreaths = br - REPORTEDBREATHS s;
                       fpb = (if 0 < newbreaths then newfrees div newbreaths else 0);
                       bpp = (if 0 < newfrees then newbytes div newfrees else 0)
                   in println (LoadLine interval newfrees newbits (comma_value fpb) (comma_value bpp)
                                (SLEEP s)) s
               | None \<Rightarrow> s);
          (t, s) = now E s
      in s\<lparr>LASTLOADREPORT := Some t, REPORTEDFREES := fr, REPORTEDFREEBITS := bits,
           REPORTEDFREEBYTES := bytes, REPORTEDBREATHS := br\<rparr>)"

definition loss_rate :: "u64 \<Rightarrow> u64 \<Rightarrow> u64 res" where
  "loss_rate dropped sent =
     (if sent = 0 then Inr 0
      else if dropped + sent = 0 then Inl DivisionByZero
      else Inr (dropped * 100 div (dropped + sent)))"

definition report_link :: "string \<Rightarrow> ('app, 'arg) eng \<Rightarrow> ('app, 'arg) eng res" where
  "report_link name s =
     bind_res (unwrap (map_of (link_table s) name)) (\<lambda>i.
     bind_res (unwrap (map_of (link_store s) i)) (\<lambda>l.
     bind_res (loss_rate (txdrop l) (txpackets l)) (\<lambda>rate.
     Inr (println (Line (''  '' @ comma_value (txpackets l) @ '' sent on '' @ name @
                         '' (loss rate: '' @ dec_string (unat rate) @ ''%)'')) s))))"

definition report_links :: "('app, 'arg) eng \<Rightarrow> ('app, 'arg) eng res" where
  "report_links s =
     (let s = println (Line ''Link report:'') s in
      fold_res report_link (sort (keys_of (link_table s))) s)"

definition report_ports :: "string \<Rightarrow> string \<Rightarrow> nat \<Rightarrow> ('app, 'arg) eng \<Rightarrow> ('app, 'arg) eng" where
  "report_ports verb kind n s =
     (if n = 0 then s
      else if n = 1 then println (Line (''  '' @ verb @ '' one '' @ kind @ '' link'')) s
      else println (Line (''  '' @ verb @ '' '' @ dec_string n @ '' '' @ kind @ '' links'')) s)"

definition report_app :: "('app, 'arg) app_ops \<Rightarrow> string \<Rightarrow> ('app, 'arg) eng \<Rightarrow> ('app, 'arg) eng res" where
  "report_app A name s =
     bind_res (unwrap (map_of (app_table s) name)) (\<lambda>a.
     let s = println (Line (''App report for '' @ name @ '':'')) s;
         s = report_ports ''receiving from'' ''input'' (length (app_input a)) s;
         s = report_ports ''transmitting to'' ''output'' (length (app_output a)) s in
     if op_has_report A (app_obj a) then
       bind_res (op_report A (app_obj a) s) (\<lambda>(x, s).
       Inr (s\<lparr>app_table := AList.update name (a\<lparr>app_obj := x\<rparr>) (app_table s)\<rparr>))
     else Inr s)"

definition report_apps :: "hash_order \<Rightarrow> ('app, 'arg) app_ops \<Rightarrow> ('app, 'arg) eng \<Rightarrow> ('app, 'arg) eng res" where
  "report_apps h A s = fold_res (report_app A) (app_iter h (keys_of (app_table s))) s"

section \<open>The main loop\<close>

record ('app, 'arg) Options =
  opt_done :: "('app, 'arg) predicate option"
  opt_duration :: "instant option"
  opt_no_report :: bool
  opt_report_load :: bool
  opt_report_links :: bool
  opt_report_apps :: bool

definition default_options :: "('app, 'arg) Options" where
  "default_options =
     \<lparr>opt_done = None, opt_duration = None, opt_no_report = False, opt_report_load = False,
      opt_report_links = False, opt_report_apps = False\<rparr>"

text \<open>\<open>while !done() { pace_breathing(); breathe(); }\<close>, for at most \<open>fuel\<close> tests.\<close>

primrec main_loop ::
  "nat \<Rightarrow> env \<Rightarrow> ('app, 'arg) app_ops \<Rightarrow> ('app, 'arg) predicate option \<Rightarrow> ('app, 'arg) eng \<Rightarrow>
   ('app, 'arg) eng res" where
  "main_loop 0 E A done_fn s = Inl Diverges"
| "main_loop (Suc fuel) E A done_fn s =
     (let (stop, s) = (case done_fn of Some f \<Rightarrow> f s | None \<Rightarrow> (False, s)) in
      if stop then Inr s
      else bind_res (breathe E A (pace_breathing s)) (main_loop fuel E A done_fn))"

definition main ::
  "nat \<Rightarrow> env \<Rightarrow> ('app, 'arg) app_ops \<Rightarrow> ('app, 'arg) Options option \<Rightarrow> ('app, 'arg) eng \<Rightarrow>
   ('app, 'arg) eng res" where
  "main fuel E A options s =
     (let opts = (case options of Some opts \<Rightarrow> opts | None \<Rightarrow> default_options) in
      bind_res
        (case opt_duration opts of
           None \<Rightarrow> Inr (opt_done opts, s)
         | Some duration \<Rightarrow>
             if \<not> Option.is_none (opt_done opts) then Inl (Panic ''You can not have both duration and done'')
             else let (f, s) = timeout E duration s in Inr (Some f, s)) (\<lambda>(done_fn, s).
      bind_res (breathe E A s) (\<lambda>s.
      bind_res (main_loop fuel E A done_fn s) (\<lambda>s.
      bind_res
        (if opt_no_report opts then Inr s
         else
           let s = (if opt_report_load opts then report_load E s else s) in
           bind_res (if opt_report_links opts then report_links s else Inr s) (\<lambda>s.
           if opt_report_apps opts then report_apps (env_order E) A s else Inr s)) (\<lambda>s.
      Inr (s\<lparr>MONOTONIC_NOW := None\<rparr>))))))"

end
