(* ===== verification/Rush_Basic_Apps.thy ===== *)
theory Rush_Basic_Apps
  imports Rush_Engine_Run
begin

text \<open>
  \<open>src/basic_apps.rs\<close>: the apps Source, Sink and Tee, with PseudoIO, the app without
  callbacks that the tests of \<open>engine.rs\<close> use. Their arguments and instances are the
  constructors of two datatypes, and \<open>basic_ops\<close> is the table of their methods.
\<close>

section \<open>Arguments and instances\<close>

datatype basic_arg = Source u16 | Sink | Tee | PseudoIO

datatype basic_app = SourceApp u16 | SinkApp | TeeApp | PseudoIOApp

type_synonym basic_eng = "(basic_app, basic_arg) eng"
type_synonym basic_state = "(basic_app, basic_arg) AppState"

fun basic_new :: "basic_arg \<Rightarrow> basic_app" where
  "basic_new (Source sz) = SourceApp sz"
| "basic_new Sink = SinkApp"
| "basic_new Tee = TeeApp"
| "basic_new PseudoIO = PseudoIOApp"

text \<open>What \<open>derive(Debug)\<close> prints, after the path of the module that formats it.\<close>

fun basic_debug :: "basic_arg \<Rightarrow> string" where
  "basic_debug (Source sz) = ''Source { size: '' @ dec_string (unat sz) @ '' }''"
| "basic_debug Sink = ''Sink''"
| "basic_debug Tee = ''Tee''"
| "basic_debug PseudoIO = ''PseudoIO''"

definition basic_identity :: "basic_arg \<Rightarrow> string" where
  "basic_identity x = ''rush::engine::'' @ basic_debug x"

section \<open>Packet I/O on shared links\<close>

text \<open>
  An app borrows a link for as long as it uses it and nothing else can touch it meanwhile, so each
  step reads the link from the store and writes it back.
\<close>

definition link_at :: "shared_link \<Rightarrow> ('app, 'arg) eng \<Rightarrow> Link res" where
  "link_at i s = unwrap (map_of (link_store s) i)"

definition put_link :: "shared_link \<Rightarrow> Link \<Rightarrow> ('app, 'arg) eng \<Rightarrow> ('app, 'arg) eng" where
  "put_link i r s = s\<lparr>link_store := AList.update i r (link_store s)\<rparr>"

definition transmit_on :: "shared_link \<Rightarrow> ptr \<Rightarrow> ('app, 'arg) eng \<Rightarrow> ('app, 'arg) eng res" where
  "transmit_on i p s =
     bind_res (link_at i s) (\<lambda>r. bind_res (transmit r p s) (\<lambda>(r, s). Inr (put_link i r s)))"

definition receive_on :: "shared_link \<Rightarrow> ('app, 'arg) eng \<Rightarrow> (ptr \<times> ('app, 'arg) eng) res" where
  "receive_on i s =
     bind_res (link_at i s) (\<lambda>r. bind_res (receive r s) (\<lambda>(p, r). Inr (p, put_link i r s)))"

text \<open>\<open>for link in ports.values()\<close>.\<close>

definition for_ports ::
  "hash_order \<Rightarrow> (shared_link \<Rightarrow> ('app, 'arg) eng \<Rightarrow> ('app, 'arg) eng res) \<Rightarrow>
   (string, shared_link) hashmap \<Rightarrow> ('app, 'arg) eng \<Rightarrow> ('app, 'arg) eng res" where
  "for_ports h f ports s =
     fold_res (\<lambda>port s. f (the (map_of ports port)) s) (port_iter h (keys_of ports)) s"

section \<open>Source\<close>

definition source_packet :: "env \<Rightarrow> u16 \<Rightarrow> ('app, 'arg) eng \<Rightarrow> (ptr \<times> ('app, 'arg) eng) res" where
  "source_packet E sz s =
     bind_res (allocate (env_os E) s) (\<lambda>(p, s).
     let q = (heap s p)\<lparr>pdata := fill (pdata (heap s p)) (ucast sz) 0\<rparr>;
         q = q\<lparr>plen := sz\<rparr>
     in Inr (p, s\<lparr>heap := (heap s)(p := q)\<rparr>))"

definition source_pull :: "env \<Rightarrow> u16 \<Rightarrow> ('app, 'arg) AppState \<Rightarrow> ('app, 'arg) eng \<Rightarrow> ('app, 'arg) eng res" where
  "source_pull E sz a s =
     for_ports (env_order E)
       (\<lambda>i. repeat_res PULL_NPACKETS
             (\<lambda>s. bind_res (source_packet E sz s) (\<lambda>(p, s). transmit_on i p s)))
       (app_output a) s"

section \<open>Sink\<close>

text \<open>The loops that drain an input are given more rounds than a link can hold packets.\<close>

primrec sink_drain :: "nat \<Rightarrow> shared_link \<Rightarrow> ('app, 'arg) eng \<Rightarrow> ('app, 'arg) eng res" where
  "sink_drain 0 i s = bind_res (link_at i s) (\<lambda>r. if empty r then Inr s else Inl Diverges)"
| "sink_drain (Suc fuel) i s =
     bind_res (link_at i s) (\<lambda>r.
     if empty r then Inr s
     else bind_res (receive_on i s) (\<lambda>(p, s). bind_res (free p s) (sink_drain fuel i)))"

definition sink_push :: "env \<Rightarrow> ('app, 'arg) AppState \<Rightarrow> ('app, 'arg) eng \<Rightarrow> ('app, 'arg) eng res" where
  "sink_push E a s = for_ports (env_order E) (sink_drain LINK_RING_SIZE) (app_input a) s"

section \<open>Tee\<close>

text \<open>The input stays borrowed while the outputs are; a link that is both panics.\<close>

definition tee_output ::
  "env \<Rightarrow> shared_link \<Rightarrow> ptr \<Rightarrow> shared_link \<Rightarrow> ('app, 'arg) eng \<Rightarrow> ('app, 'arg) eng res" where
  "tee_output E inp p i s =
     (if i = inp then Inl AlreadyBorrowed
      else bind_res (clone (env_os E) p s) (\<lambda>(c, s). transmit_on i c s))"

primrec tee_drain ::
  "nat \<Rightarrow> env \<Rightarrow> ('app, 'arg) AppState \<Rightarrow> shared_link \<Rightarrow> ('app, 'arg) eng \<Rightarrow> ('app, 'arg) eng res" where
  "tee_drain 0 E a i s = bind_res (link_at i s) (\<lambda>r. if empty r then Inr s else Inl Diverges)"
| "tee_drain (Suc fuel) E a i s =
     bind_res (link_at i s) (\<lambda>r.
     if empty r then Inr s
     else bind_res (receive_on i s) (\<lambda>(p, s).
          bind_res (for_ports (env_order E) (tee_output E i p) (app_output a) s) (\<lambda>s.
          bind_res (free p s) (tee_drain fuel E a i))))"

definition tee_push :: "env \<Rightarrow> ('app, 'arg) AppState \<Rightarrow> ('app, 'arg) eng \<Rightarrow> ('app, 'arg) eng res" where
  "tee_push E a s = for_ports (env_order E) (tee_drain LINK_RING_SIZE E a) (app_input a) s"

section \<open>The methods\<close>

fun basic_has_pull :: "basic_app \<Rightarrow> bool" where
  "basic_has_pull (SourceApp sz) = True"
| "basic_has_pull SinkApp = False"
| "basic_has_pull TeeApp = False"
| "basic_has_pull PseudoIOApp = True"

fun basic_has_push :: "basic_app \<Rightarrow> bool" where
  "basic_has_push (SourceApp sz) = False"
| "basic_has_push SinkApp = True"
| "basic_has_push TeeApp = True"
| "basic_has_push PseudoIOApp = True"

definition same_app :: "('app, 'arg) AppState \<Rightarrow> ('app, 'arg) eng res \<Rightarrow> ('app \<times> ('app, 'arg) eng) res" where
  "same_app a m = bind_res m (\<lambda>s. Inr (app_obj a, s))"

definition basic_pull :: "env \<Rightarrow> basic_state \<Rightarrow> basic_eng \<Rightarrow> (basic_app \<times> basic_eng) res" where
  "basic_pull E a s =
     (case app_obj a of
        SourceApp sz \<Rightarrow> same_app a (source_pull E sz a s)
      | _ \<Rightarrow> default_pull a s)"

definition basic_push :: "env \<Rightarrow> basic_state \<Rightarrow> basic_eng \<Rightarrow> (basic_app \<times> basic_eng) res" where
  "basic_push E a s =
     (case app_obj a of
        SinkApp \<Rightarrow> same_app a (sink_push E a s)
      | TeeApp \<Rightarrow> same_app a (tee_push E a s)
      | _ \<Rightarrow> default_push a s)"

definition basic_ops :: "env \<Rightarrow> (basic_app, basic_arg) app_ops" where
  "basic_ops E =
     \<lparr>op_new = (\<lambda>x s. Inr (basic_new x, s)),
      op_identity = basic_identity,
      op_has_pull = basic_has_pull,
      op_pull = basic_pull E,
      op_has_push = basic_has_push,
      op_push = basic_push E,
      op_has_report = (\<lambda>_. False),
      op_report = default_report,
      op_has_stop = (\<lambda>_. False),
      op_stop = default_stop\<rparr>"

end
