(* ===== verification/Rush_Engine_Inv.thy ===== *)
theory Rush_Engine_Inv
  imports Rush_Engine_Order Rush_Basic_Apps
begin

text \<open>
  The engine's invariant: every packet that was allocated is on the freelist, on exactly one link,
  or held by exactly one app, and the tables refer to links that exist.
\<close>

section \<open>Packets on links\<close>

definition fifo_at :: "('app, 'arg) eng \<Rightarrow> shared_link \<Rightarrow> ptr list" where
  "fifo_at s i = (case map_of (link_store s) i of None \<Rightarrow> [] | Some r \<Rightarrow> link_fifo r)"

definition on_links :: "('app, 'arg) eng \<Rightarrow> ptr set" where
  "on_links s = (\<Union>i. set (fifo_at s i))"

definition live :: "('app, 'arg) eng \<Rightarrow> shared_link set" where
  "live s = dom (map_of (link_store s))"

definition links_ok :: "('app, 'arg) eng \<Rightarrow> bool" where
  "links_ok s \<longleftrightarrow>
     distinct (keys_of (link_store s)) \<and>
     (\<forall>i r. map_of (link_store s) i = Some r \<longrightarrow> link_wf r) \<and> (\<forall>i. distinct (fifo_at s i)) \<and>
     (\<forall>i j. i \<noteq> j \<longrightarrow> set (fifo_at s i) \<inter> set (fifo_at s j) = {})"

text \<open>\<open>X\<close> are the packets that are in use and on no link.\<close>

definition eng_inv :: "os \<Rightarrow> ptr set \<Rightarrow> ('app, 'arg) eng \<Rightarrow> bool" where
  "eng_inv os X s \<longleftrightarrow>
     pkt_inv os (on_links s \<union> X) s \<and> on_links s \<inter> X = {} \<and> links_ok s \<and>
     set (link_refs s) \<subseteq> live s \<and> (\<forall>i \<in> live s. i < next_link s)"

text \<open>What callbacks and packet operations leave as it is.\<close>

definition eng_frame :: "('app, 'arg) eng \<Rightarrow> ('app, 'arg) eng \<Rightarrow> bool" where
  "eng_frame s s' \<longleftrightarrow>
     live s' = live s \<and> next_link s' = next_link s \<and> link_table s' = link_table s \<and>
     app_table s' = app_table s \<and> inhale s' = inhale s \<and> exhale s' = exhale s \<and>
     MONOTONIC_NOW s' = MONOTONIC_NOW s \<and> ticks s \<le> ticks s'"

lemma eng_frame_refl [simp]: "eng_frame s s"
  by (simp add: eng_frame_def)

lemma eng_frame_trans: "eng_frame s t \<Longrightarrow> eng_frame t u \<Longrightarrow> eng_frame s u"
  by (simp add: eng_frame_def)

lemma link_refs_frame: "eng_frame s s' \<Longrightarrow> link_refs s' = link_refs s"
  by (simp add: eng_frame_def link_refs_def)

text \<open>The pool's operations do not touch the engine's part of the state.\<close>

lemma pkt_more_fields:
  assumes "pkt_state.more s' = pkt_state.more s"
  shows "link_store s' = link_store s" "next_link s' = next_link s" "link_table s' = link_table s"
    "app_table s' = app_table s" "inhale s' = inhale s" "exhale s' = exhale s"
    "MONOTONIC_NOW s' = MONOTONIC_NOW s" "ticks s' = ticks s"
  using assms by (cases s; cases s'; simp)+

lemma pkt_more_links:
  assumes "pkt_state.more s' = pkt_state.more s"
  shows "fifo_at s' = fifo_at s" "on_links s' = on_links s" "live s' = live s"
    "links_ok s' = links_ok s" "link_refs s' = link_refs s" "eng_frame s s'"
  using pkt_more_fields [OF assms]
  by (auto simp: fifo_at_def on_links_def live_def links_ok_def link_refs_def eng_frame_def fun_eq_iff)

lemma eng_inv_pkt:
  assumes "eng_inv os X s" and "pkt_state.more s' = pkt_state.more s"
    and "pkt_inv os (on_links s \<union> X') s'" and "on_links s \<inter> X' = {}"
  shows "eng_inv os X' s' \<and> eng_frame s s'"
  using assms pkt_more_links [OF assms(2)] pkt_more_fields [OF assms(2)] by (simp add: eng_inv_def)

section \<open>Packets of apps\<close>

lemma eng_allocate:
  assumes inv: "eng_inv os X s" and run: "allocate os s = Inr (p, s')"
  shows "eng_inv os (insert p X) s' \<and> p \<notin> X \<and> p \<notin> on_links s \<and> eng_frame s s' \<and>
    fifo_at s' = fifo_at s \<and> plen (heap s' p) = 0 \<and>
    (\<forall>q \<in> on_links s \<union> X. heap s' q = heap s q) \<and> STATS s' = STATS s"
proof -
  have pinv: "pkt_inv os (on_links s \<union> X) s" using inv by (simp add: eng_inv_def)
  note a = allocate_ok [OF pinv run]
  have "on_links s \<inter> insert p X = {}" using a inv by (auto simp: eng_inv_def)
  moreover have "pkt_inv os (on_links s \<union> insert p X) s'" using a by simp
  ultimately show ?thesis
    using eng_inv_pkt [OF inv, of s' "insert p X"] a pkt_more_links(1) [of s' s] by simp
qed

lemma eng_free:
  assumes inv: "eng_inv os (insert p X) s" and p: "p \<notin> X"
  shows "\<exists>s'. free p s = Inr s' \<and> eng_inv os X s' \<and> eng_frame s s' \<and> fifo_at s' = fifo_at s \<and>
    STATS s' = counted (plen (heap s p)) (STATS s) \<and> (\<forall>q. q \<noteq> p \<longrightarrow> heap s' q = heap s q)"
proof -
  have pinv: "pkt_inv os (on_links s \<union> insert p X) s" using inv by (simp add: eng_inv_def)
  obtain s' where s': "free p s = Inr s'" "pkt_inv os (on_links s \<union> insert p X - {p}) s'"
    "STATS s' = counted (plen (heap s p)) (STATS s)" "\<forall>q. q \<noteq> p \<longrightarrow> heap s' q = heap s q"
    "pkt_state.more s' = pkt_state.more s"
    using free_ok [OF pinv, of p] by auto
  have "p \<notin> on_links s" using inv by (auto simp: eng_inv_def)
  then have "on_links s \<union> insert p X - {p} = on_links s \<union> X" using p by auto
  then show ?thesis
    using eng_inv_pkt [OF inv s'(5), of X] s' inv pkt_more_links(1) [OF s'(5)]
    by (auto simp: eng_inv_def)
qed

lemma eng_clone:
  assumes inv: "eng_inv os X s" and p: "p \<in> X" and run: "clone os p s = Inr (c, s')"
  shows "eng_inv os (insert c X) s' \<and> c \<notin> X \<and> c \<notin> on_links s \<and> eng_frame s s' \<and>
    fifo_at s' = fifo_at s \<and> plen (heap s' c) = plen (heap s p) \<and>
    (\<forall>i < min (unat (plen (heap s p))) PAYLOAD_SIZE. pdata (heap s' c) ! i = pdata (heap s p) ! i) \<and>
    (\<forall>q \<in> on_links s \<union> X. heap s' q = heap s q) \<and> STATS s' = STATS s"
proof -
  have pinv: "pkt_inv os (on_links s \<union> X) s" using inv by (simp add: eng_inv_def)
  note a = clone_ok [OF pinv _ run]
  have "on_links s \<inter> insert c X = {}" using a p inv by (auto simp: eng_inv_def)
  moreover have "pkt_inv os (on_links s \<union> insert c X) s'" using a p by simp
  ultimately show ?thesis
    using eng_inv_pkt [OF inv, of s' "insert c X"] a p pkt_more_links(1) [of s' s] by simp
qed

text \<open>Writing into a packet an app holds.\<close>

lemma eng_write:
  assumes "eng_inv os X s" and "p \<in> X" and "length (pdata x) = PAYLOAD_SIZE"
  shows "eng_inv os X (s\<lparr>heap := (heap s)(p := x)\<rparr>) \<and> eng_frame s (s\<lparr>heap := (heap s)(p := x)\<rparr>)"
proof -
  let ?t = "s\<lparr>heap := (heap s)(p := x)\<rparr>"
  have "pkt_inv os (on_links s \<union> X) ?t"
    using pkt_inv_heap [of os "on_links s \<union> X" s p x] assms by (simp add: eng_inv_def)
  then show ?thesis
    using eng_inv_pkt [OF assms(1), of ?t X] assms(1) by (simp add: eng_inv_def)
qed

lemma eng_payload:
  assumes "eng_inv os X s"
  shows "length (pdata (heap s p)) = PAYLOAD_SIZE"
  using assms by (simp add: eng_inv_def pkt_inv_def pool_def heap_wf_def)

section \<open>Moving packets between apps and links\<close>

lemma fifo_at_put [simp]:
  "fifo_at (put_link i r s) j = (if j = i then link_fifo r else fifo_at s j)"
  by (simp add: fifo_at_def put_link_def)

lemma live_put: "i \<in> live s \<Longrightarrow> live (put_link i r s) = live s"
  by (auto simp: live_def put_link_def dom_def)

lemma put_frame: "i \<in> live s \<Longrightarrow> eng_frame s (put_link i r s)"
  using live_put [of i s r] by (simp add: eng_frame_def) (simp add: put_link_def)

lemma on_links_split: "on_links s = set (fifo_at s i) \<union> (\<Union>j \<in> - {i}. set (fifo_at s j))"
  unfolding on_links_def by auto

lemma pkt_inv_put [simp]: "pkt_inv os U (put_link i r s) = pkt_inv os U s"
proof -
  have src: "source_part (put_link i r s) = source_part s" by (simp add: source_part_def put_link_def)
  show ?thesis
    using ctor.source_only [OF src, of os]
    by (simp add: pkt_inv_def pool_def heap_wf_def steps_ok_def FL_set_def) (simp add: put_link_def)
qed

lemma eng_put:
  assumes inv: "eng_inv os X s" and i: "i \<in> live s" and r: "link_wf r" "distinct (link_fifo r)"
    and disj: "\<And>j. j \<noteq> i \<Longrightarrow> set (link_fifo r) \<inter> set (fifo_at s j) = {}"
    and same: "set (link_fifo r) \<union> X' = set (fifo_at s i) \<union> X" and X': "on_links s \<inter> X \<inter> X' = {}"
      "set (link_fifo r) \<inter> X' = {}" "\<And>j. j \<noteq> i \<Longrightarrow> set (fifo_at s j) \<inter> X' = {}"
  shows "eng_inv os X' (put_link i r s) \<and> eng_frame s (put_link i r s)"
proof -
  let ?t = "put_link i r s"
  have on: "on_links ?t = set (link_fifo r) \<union> (\<Union>j \<in> - {i}. set (fifo_at s j))"
    using on_links_split [of ?t i] by simp
  have "on_links ?t \<union> X' = on_links s \<union> X" unfolding on on_links_split [of s i] using same by blast
  then have "pkt_inv os (on_links ?t \<union> X') ?t" using inv by (simp add: eng_inv_def)
  moreover have "on_links ?t \<inter> X' = {}" unfolding on using X' by blast
  moreover have "links_ok ?t"
  proof -
    have "set (fifo_at ?t j) \<inter> set (fifo_at ?t k) = {}" if "j \<noteq> k" for j k
      using that disj inv unfolding eng_inv_def links_ok_def by (cases "j = i"; cases "k = i") auto
    moreover have "link_wf q" if "map_of (link_store ?t) j = Some q" for j q
      using that r inv by (auto simp: put_link_def eng_inv_def links_ok_def split: if_splits)
    moreover have "distinct (keys_of (link_store ?t))"
      using inv by (simp add: put_link_def eng_inv_def links_ok_def distinct_update)
    ultimately show ?thesis using r inv by (auto simp: links_ok_def eng_inv_def)
  qed
  moreover have "link_refs ?t = link_refs s" "next_link ?t = next_link s"
    by (simp_all add: put_link_def link_refs_def)
  ultimately show ?thesis
    using inv live_put [OF i, of r] put_frame [OF i] by (simp add: eng_inv_def)
qed

lemma eng_link_at:
  assumes "eng_inv os X s" and "i \<in> live s"
  shows "\<exists>r. link_at i s = Inr r \<and> link_wf r \<and> fifo_at s i = link_fifo r"
  using assms by (auto simp: live_def link_at_def eng_inv_def links_ok_def fifo_at_def)

text \<open>A transmit puts the packet on the link or, if that is full, frees it.\<close>

lemma eng_transmit:
  assumes inv: "eng_inv os (insert p X) s" and p: "p \<notin> X" and i: "i \<in> live s"
  shows "\<exists>s'. transmit_on i p s = Inr s' \<and> eng_inv os X s' \<and> eng_frame s s' \<and>
    fifo_at s' = (fifo_at s)(i := if length (fifo_at s i) < LINK_MAX_PACKETS
      then fifo_at s i @ [p] else fifo_at s i) \<and>
    (\<forall>q. q \<noteq> p \<longrightarrow> heap s' q = heap s q) \<and>
    (length (fifo_at s i) < LINK_MAX_PACKETS \<longrightarrow> heap s' = heap s \<and> STATS s' = STATS s)"
proof -
  obtain r where r: "link_at i s = Inr r" "link_wf r" "fifo_at s i = link_fifo r"
    using eng_link_at [OF inv i] by blast
  have pl: "p \<notin> set (fifo_at s j)" for j using inv by (auto simp: eng_inv_def on_links_def)
  have ok: "links_ok s" using inv by (simp add: eng_inv_def)
  have Xj: "set (fifo_at s j) \<inter> X = {}" for j using inv by (auto simp: eng_inv_def on_links_def)
  show ?thesis
  proof (cases "link_count r < LINK_MAX_PACKETS")
    case True
    define r' where "r' = (push_back p r)\<lparr>txpackets := txpackets r + 1,
      txbytes := txbytes r + ucast (plen (heap s p))\<rparr>"
    have r': "link_wf r'" "link_fifo r' = fifo_at s i @ [p]"
      using push_back_ok [OF r(2) True, of p] by (simp_all add: r'_def r(3))
    have run: "transmit_on i p s = Inr (put_link i r' s)"
      using r(1) transmit_room [OF r(2) True, of p s] by (simp add: transmit_on_def r'_def)
    have "eng_inv os X (put_link i r' s) \<and> eng_frame s (put_link i r' s)"
    proof (rule eng_put [OF inv i r'(1)])
      show "distinct (link_fifo r')" using ok pl by (simp add: r'(2) links_ok_def)
      show "set (link_fifo r') \<inter> set (fifo_at s j) = {}" if "j \<noteq> i" for j
        using that ok pl by (auto simp: r'(2) links_ok_def)
      show "set (link_fifo r') \<union> X = set (fifo_at s i) \<union> insert p X" by (auto simp: r'(2))
      show "on_links s \<inter> insert p X \<inter> X = {}" using inv by (auto simp: eng_inv_def)
      show "set (link_fifo r') \<inter> X = {}" using Xj p by (auto simp: r'(2))
      show "set (fifo_at s j) \<inter> X = {}" if "j \<noteq> i" for j by (rule Xj)
    qed
    then show ?thesis
      using run r' True r(3) by (auto simp: fun_eq_iff) (simp_all add: put_link_def)
  next
    case False
    then have full: "link_count r = LINK_MAX_PACKETS" using link_count_bound [of r] by simp
    obtain t where t: "free p s = Inr t" "eng_inv os X t" "eng_frame s t" "fifo_at t = fifo_at s"
      "\<forall>q. q \<noteq> p \<longrightarrow> heap t q = heap s q"
      using eng_free [OF inv p] by auto
    define r' where "r' = r\<lparr>txdrop := txdrop r + 1\<rparr>"
    have r': "link_wf r'" "link_fifo r' = fifo_at t i" using r t(4) by (simp_all add: r'_def)
    have it: "i \<in> live t" using i t(3) by (simp add: eng_frame_def)
    have run: "transmit_on i p s = Inr (put_link i r' t)"
      using r(1) t(1) by (simp add: transmit_on_def transmit_full [OF r(2) full] r'_def)
    have "eng_inv os X (put_link i r' t) \<and> eng_frame t (put_link i r' t)"
      by (rule eng_put [OF t(2) it r'(1)])
        (use t(2,4) ok Xj in \<open>auto simp: r'(2) links_ok_def eng_inv_def\<close>)
    then show ?thesis
      using run r' full r(3) t eng_frame_trans [OF t(3)]
      by (auto simp: fun_eq_iff) (simp_all add: put_link_def)
  qed
qed

lemma eng_receive:
  assumes inv: "eng_inv os X s" and i: "i \<in> live s" and f: "fifo_at s i = p # ps"
  shows "\<exists>s'. receive_on i s = Inr (p, s') \<and> eng_inv os (insert p X) s' \<and> p \<notin> X \<and> eng_frame s s' \<and>
    fifo_at s' = (fifo_at s)(i := ps) \<and> heap s' = heap s \<and> STATS s' = STATS s"
proof -
  obtain r where r: "link_at i s = Inr r" "link_wf r" "fifo_at s i = link_fifo r"
    using eng_link_at [OF inv i] by blast
  have ok: "links_ok s" using inv by (simp add: eng_inv_def)
  have Xj: "set (fifo_at s j) \<inter> X = {}" for j using inv by (auto simp: eng_inv_def on_links_def)
  have rf: "link_fifo r = p # ps" using r(3) f by simp
  define r' where "r' = (pop_front r)\<lparr>rxpackets := rxpackets r + 1,
      rxbytes := rxbytes r + ucast (plen (heap s p))\<rparr>"
  have r': "link_wf r'" "link_fifo r' = ps" using pop_front_ok [OF r(2) rf] by (simp_all add: r'_def)
  have run: "receive_on i s = Inr (p, put_link i r' s)"
    using r(1) receive_ok [OF r(2) rf, of s] by (simp add: receive_on_def r'_def)
  have di: "distinct (p # ps)" using ok f by (metis links_ok_def)
  have pX: "p \<notin> X" using Xj [of i] f by auto
  have dj: "set (fifo_at s j) \<inter> set (p # ps) = {}" if "j \<noteq> i" for j
    using that ok f by (metis links_ok_def)
  have "eng_inv os (insert p X) (put_link i r' s) \<and> eng_frame s (put_link i r' s)"
  proof (rule eng_put [OF inv i r'(1)])
    show "distinct (link_fifo r')" using di by (simp add: r'(2))
    show "set (link_fifo r') \<inter> set (fifo_at s j) = {}" if "j \<noteq> i" for j
      using dj [OF that] by (auto simp: r'(2))
    show "set (link_fifo r') \<union> insert p X = set (fifo_at s i) \<union> X" by (auto simp: r'(2) f)
    show "on_links s \<inter> X \<inter> insert p X = {}" using inv by (auto simp: eng_inv_def)
    show "set (link_fifo r') \<inter> insert p X = {}" using Xj [of i] di f by (auto simp: r'(2))
    show "set (fifo_at s j) \<inter> insert p X = {}" if "j \<noteq> i" for j
      using Xj [of j] dj [OF that] by auto
  qed
  then show ?thesis
    using run r' pX by (auto simp: fun_eq_iff) (simp_all add: put_link_def)
qed

end
