(* ===== verification/Rush_App_Contract.thy ===== *)
theory Rush_App_Contract
  imports Rush_Engine_Inv
begin

text \<open>
  The contract between the engine and its apps, as an interface: the callbacks keep the engine's
  invariant, with the packets an app holds between two callbacks. Over it, a breath, the main loop,
  and the reports keep the invariant of the whole network.
\<close>

section \<open>The invariant of the network\<close>

definition own_at :: "('app \<Rightarrow> ptr set) \<Rightarrow> ('app, 'arg) eng \<Rightarrow> string \<Rightarrow> ptr set" where
  "own_at owns s n = (case map_of (app_table s) n of None \<Rightarrow> {} | Some a \<Rightarrow> owns (app_obj a))"

definition owned :: "('app \<Rightarrow> ptr set) \<Rightarrow> ('app, 'arg) eng \<Rightarrow> ptr set" where
  "owned owns s = (\<Union>n. own_at owns s n)"

text \<open>Every packet in use is on one link or held by one app.\<close>

definition net_inv :: "os \<Rightarrow> ('app \<Rightarrow> ptr set) \<Rightarrow> ('app, 'arg) eng \<Rightarrow> bool" where
  "net_inv os owns s \<longleftrightarrow>
     eng_inv os (owned owns s) s \<and> (\<forall>m n. m \<noteq> n \<longrightarrow> own_at owns s m \<inter> own_at owns s n = {})"

text \<open>What running the network leaves as it is.\<close>

definition ports_of :: "('app, 'arg) eng \<Rightarrow> string \<rightharpoonup> 'arg \<times> (string, shared_link) hashmap \<times> (string, shared_link) hashmap" where
  "ports_of s n = map_option (\<lambda>a. (conf a, app_input a, app_output a)) (map_of (app_table s) n)"

definition net_frame :: "('app, 'arg) eng \<Rightarrow> ('app, 'arg) eng \<Rightarrow> bool" where
  "net_frame s s' \<longleftrightarrow>
     live s' = live s \<and> next_link s' = next_link s \<and> link_table s' = link_table s \<and>
     keys_of (app_table s') = keys_of (app_table s) \<and> ports_of s' = ports_of s \<and>
     inhale s' = inhale s \<and> exhale s' = exhale s"

lemma net_frame_refl [simp]: "net_frame s s"
  by (simp add: net_frame_def)

lemma net_frame_trans: "net_frame s t \<Longrightarrow> net_frame t u \<Longrightarrow> net_frame s u"
  by (simp add: net_frame_def)

lemma eng_net_frame: "eng_frame s s' \<Longrightarrow> net_frame s s'"
  by (simp add: eng_frame_def net_frame_def ports_of_def fun_eq_iff)

definition time_frame :: "('app, 'arg) eng \<Rightarrow> ('app, 'arg) eng \<Rightarrow> bool" where
  "time_frame s s' \<longleftrightarrow> MONOTONIC_NOW s' = MONOTONIC_NOW s \<and> ticks s \<le> ticks s'"

lemma time_frame_refl [simp]: "time_frame s s"
  by (simp add: time_frame_def)

lemma time_frame_trans: "time_frame s t \<Longrightarrow> time_frame t u \<Longrightarrow> time_frame s u"
  by (simp add: time_frame_def)

section \<open>Replacing the object of an app\<close>

definition set_obj :: "string \<Rightarrow> ('app, 'arg) AppState \<Rightarrow> 'app \<Rightarrow> ('app, 'arg) eng \<Rightarrow> ('app, 'arg) eng" where
  "set_obj n a x s = s\<lparr>app_table := AList.update n (a\<lparr>app_obj := x\<rparr>) (app_table s)\<rparr>"

lemma concat_refs_update:
  "map_of m k = Some a \<Longrightarrow> f b = f a \<Longrightarrow>
   concat (map (f \<circ> snd) (AList.update k b m)) = concat (map (f \<circ> snd) m)"
  by (induction m) (auto split: if_splits)

lemma app_refs_obj [simp]: "app_refs (a\<lparr>app_obj := x\<rparr>) = app_refs a"
  by (simp add: app_refs_def)

lemma set_obj_frame:
  assumes "map_of (app_table s) n = Some a"
  shows "net_frame s (set_obj n a x s)" and "link_refs (set_obj n a x s) = link_refs s"
proof -
  have "n \<in> set (keys_of (app_table s))" using assms map_of_eq_None_keys [of "app_table s" n] by auto
  then have "keys_of (AList.update n (a\<lparr>app_obj := x\<rparr>) (app_table s)) = keys_of (app_table s)"
    by (simp add: update_keys)
  then show "net_frame s (set_obj n a x s)"
    using assms by (auto simp: net_frame_def set_obj_def live_def ports_of_def fun_eq_iff)
  show "link_refs (set_obj n a x s) = link_refs s"
    using concat_refs_update [OF assms, of app_refs "a\<lparr>app_obj := x\<rparr>"]
    by (simp add: link_refs_def set_obj_def)
qed

lemma own_at_set_obj:
  "own_at owns (set_obj n a x s) m = (if m = n then owns x else own_at owns s m)"
  by (simp add: own_at_def set_obj_def)

lemma eng_inv_set_obj:
  assumes "map_of (app_table s) n = Some a"
  shows "eng_inv os X (set_obj n a x s) = eng_inv os X s"
proof -
  let ?t = "set_obj n a x s"
  have src: "source_part ?t = source_part s" by (simp add: source_part_def set_obj_def)
  have "pkt_inv os U ?t = pkt_inv os U s" for U
    using ctor.source_only [OF src, of os]
    by (simp add: pkt_inv_def pool_def heap_wf_def steps_ok_def FL_set_def) (simp add: set_obj_def)
  moreover have "fifo_at ?t = fifo_at s" "live ?t = live s" "links_ok ?t = links_ok s"
    "next_link ?t = next_link s"
    by (simp_all add: fifo_at_def live_def links_ok_def set_obj_def fun_eq_iff)
  ultimately show ?thesis
    using set_obj_frame(2) [OF assms, of x] by (simp add: eng_inv_def on_links_def)
qed

text \<open>The packets of the other apps.\<close>

definition others :: "('app \<Rightarrow> ptr set) \<Rightarrow> ('app, 'arg) eng \<Rightarrow> string \<Rightarrow> ptr set" where
  "others owns s n = (\<Union>m \<in> - {n}. own_at owns s m)"

lemma owned_split: "owned owns s = own_at owns s n \<union> others owns s n"
  by (auto simp: owned_def others_def)

lemma net_inv_split:
  assumes "net_inv os owns s"
  shows "eng_inv os (own_at owns s n \<union> others owns s n) s" "own_at owns s n \<inter> others owns s n = {}"
  using assms owned_split [of owns s n] by (auto simp: net_inv_def others_def)

text \<open>After a callback of app \<open>n\<close> that ends in \<open>t\<close> with the object \<open>x\<close>.\<close>

lemma net_inv_set_obj:
  assumes inv: "net_inv os owns s" and a: "map_of (app_table s) n = Some a"
    and t: "eng_inv os (owns x \<union> others owns s n) t" "owns x \<inter> others owns s n = {}" "eng_frame s t"
  shows "net_inv os owns (set_obj n a x t) \<and> net_frame s (set_obj n a x t)"
proof -
  have tab: "app_table t = app_table s" using t(3) by (simp add: eng_frame_def)
  have at: "map_of (app_table t) n = Some a" using a tab by simp
  have own: "own_at owns (set_obj n a x t) m = (if m = n then owns x else own_at owns s m)" for m
    using tab by (simp add: own_at_def set_obj_def)
  have "owned owns (set_obj n a x t) = owns x \<union> others owns s n"
    by (auto simp: owned_def others_def own split: if_splits)
  moreover have "own_at owns (set_obj n a x t) m \<inter> own_at owns (set_obj n a x t) k = {}" if "m \<noteq> k" for m k
    using that inv t(2) unfolding own net_inv_def others_def by auto
  ultimately have "net_inv os owns (set_obj n a x t)"
    using t(1) by (simp add: net_inv_def eng_inv_set_obj [OF at])
  then show ?thesis
    using net_frame_trans [OF eng_net_frame [OF t(3)] set_obj_frame(1) [OF at]] by simp
qed

section \<open>The part of the state the invariant is about\<close>

definition core :: "('app, 'arg) eng \<Rightarrow> _" where
  "core s = (source_part s, heap s, FL_list s, FL_nfree s, PACKETS_ALLOCATED s, PACKET_ALLOCATION_STEP s,
     link_store s, next_link s, link_table s, app_table s)"

definition orders :: "('app, 'arg) eng \<Rightarrow> string list \<times> string list" where
  "orders s = (inhale s, exhale s)"

lemma core_eng_inv:
  assumes "core s = core s'"
  shows "eng_inv os X s = eng_inv os X s'"
proof -
  have src: "source_part s = source_part s'" using assms by (simp add: core_def)
  have "pkt_inv os U s = pkt_inv os U s'" for U
    using ctor.source_only [OF src, of os] assms
    by (simp add: pkt_inv_def pool_def heap_wf_def steps_ok_def FL_set_def core_def source_part_def)
  moreover have "fifo_at s = fifo_at s'" "live s = live s'" "links_ok s = links_ok s'"
    "link_refs s = link_refs s'" "next_link s = next_link s'"
    using assms by (simp_all add: fifo_at_def live_def links_ok_def link_refs_def core_def fun_eq_iff)
  ultimately show ?thesis by (simp add: eng_inv_def on_links_def)
qed

lemma core_cong:
  assumes "core s = core s'"
  shows "net_inv os owns s = net_inv os owns s'"
proof -
  have "app_table s = app_table s'" using assms by (simp add: core_def)
  then have "own_at owns s = own_at owns s'" by (simp add: own_at_def fun_eq_iff)
  then show ?thesis using core_eng_inv [OF assms] by (simp add: net_inv_def owned_def)
qed

lemma core_frame: "core s = core s' \<Longrightarrow> orders s = orders s' \<Longrightarrow> net_frame s s'"
  by (simp add: core_def orders_def net_frame_def live_def ports_of_def fun_eq_iff)

lemma unaffected:
  assumes "core t = core s" and "orders t = orders s" and "net_inv os owns s"
  shows "net_inv os owns t \<and> net_frame s t"
  using core_cong [OF assms(1)] core_frame [of s t] assms by simp

section \<open>The contract\<close>

locale app_contract =
  fixes A :: "('app, 'arg) app_ops" and os :: os and owns :: "'app \<Rightarrow> ptr set"
  assumes pull_ok: "eng_inv os (owns (app_obj a) \<union> Y) s \<Longrightarrow> owns (app_obj a) \<inter> Y = {} \<Longrightarrow>
      set (app_refs a) \<subseteq> live s \<Longrightarrow> op_pull A a s = Inr (x, s') \<Longrightarrow>
      eng_inv os (owns x \<union> Y) s' \<and> owns x \<inter> Y = {} \<and> eng_frame s s'"
    and push_ok: "eng_inv os (owns (app_obj a) \<union> Y) s \<Longrightarrow> owns (app_obj a) \<inter> Y = {} \<Longrightarrow>
      set (app_refs a) \<subseteq> live s \<Longrightarrow> op_push A a s = Inr (x, s') \<Longrightarrow>
      eng_inv os (owns x \<union> Y) s' \<and> owns x \<inter> Y = {} \<and> eng_frame s s'"
    and report_ok: "eng_inv os (owns y \<union> Y) s \<Longrightarrow> owns y \<inter> Y = {} \<Longrightarrow>
      op_report A y s = Inr (x, s') \<Longrightarrow>
      eng_inv os (owns x \<union> Y) s' \<and> owns x \<inter> Y = {} \<and> eng_frame s s'"
    and new_ok: "eng_inv os Y s \<Longrightarrow> op_new A c s = Inr (x, s') \<Longrightarrow>
      eng_inv os (owns x \<union> Y) s' \<and> owns x \<inter> Y = {} \<and> eng_frame s s'"
    and stop_ok: "eng_inv os (owns x \<union> Y) s \<Longrightarrow> owns x \<inter> Y = {} \<Longrightarrow> op_has_stop A x \<Longrightarrow>
      op_stop A x s = Inr s' \<Longrightarrow> eng_inv os Y s' \<and> eng_frame s s'"
    and no_stop: "\<not> op_has_stop A x \<Longrightarrow> owns x = {}"
begin

lemma refs_live:
  assumes "net_inv os owns s" and "map_of (app_table s) n = Some a"
  shows "set (app_refs a) \<subseteq> live s"
proof -
  have "(n, a) \<in> set (app_table s)" using assms(2) by (rule map_of_SomeD)
  then have "set (app_refs a) \<subseteq> set (link_refs s)" by (force simp: link_refs_def)
  then show ?thesis using assms(1) by (auto simp: net_inv_def eng_inv_def)
qed

lemma call_app_inv:
  assumes inv: "net_inv os owns s" and run: "call_app f n s = Inr s'" and f: "f = op_pull A \<or> f = op_push A"
  shows "net_inv os owns s' \<and> net_frame s s' \<and> time_frame s s'"
proof -
  obtain a x t where a: "map_of (app_table s) n = Some a" and fx: "f a s = Inr (x, t)"
    and s0: "s' = t\<lparr>app_table := AList.update n (a\<lparr>app_obj := x\<rparr>) (app_table t)\<rparr>"
    using run by (auto simp: call_app_def res_simps)
  have own: "own_at owns s n = owns (app_obj a)" using a by (simp add: own_at_def)
  note sp = net_inv_split [OF inv, of n, unfolded own]
  have "eng_inv os (owns x \<union> others owns s n) t \<and> owns x \<inter> others owns s n = {} \<and> eng_frame s t"
    using f fx pull_ok [OF sp refs_live [OF inv a]] push_ok [OF sp refs_live [OF inv a]] by blast
  then show ?thesis
    using net_inv_set_obj [OF inv a, of x t]
    by (simp add: s0 set_obj_def [symmetric]) (simp add: set_obj_def time_frame_def eng_frame_def)
qed

lemma calls_inv:
  assumes "net_inv os owns s" and "fold_res (call_app f) ns s = Inr s'" and "f = op_pull A \<or> f = op_push A"
  shows "net_inv os owns s' \<and> net_frame s s' \<and> time_frame s s'"
proof (rule fold_res_invariant [of ns "\<lambda>t. net_inv os owns t \<and> net_frame s t \<and> time_frame s t",
      OF _ _ assms(2)])
  fix n t t'
  assume "net_inv os owns t \<and> net_frame s t \<and> time_frame s t" and run: "call_app f n t = Inr t'"
  then show "net_inv os owns t' \<and> net_frame s t' \<and> time_frame s t'"
    using call_app_inv [OF _ run assms(3)] net_frame_trans [of s t t'] time_frame_trans [of s t t'] by simp
qed (simp add: assms(1))

lemma breathe_steps:
  assumes inv: "net_inv os owns s" and run: "breathe E A s = Inr s'"
  shows "net_inv os owns s' \<and> net_frame s s' \<and> MONOTONIC_NOW s' = Some (env_clk E (ticks s)) \<and>
    ticks s < ticks s'"
proof -
  define t where "t = s\<lparr>ticks := Suc (ticks s), MONOTONIC_NOW := Some (env_clk E (ticks s))\<rparr>"
  have t: "net_inv os owns t" "net_frame s t"
    using unaffected [OF _ _ inv, of t] by (simp_all add: t_def core_def source_part_def orders_def)
  obtain u v where u: "fold_res (call_app (op_pull A)) (inhale t) t = Inr u"
    and v: "fold_res (call_app (op_push A)) (exhale u) u = Inr v"
    and s': "s' = v\<lparr>STATS := (STATS v)\<lparr>breaths := breaths (STATS v) + 1\<rparr>\<rparr>"
    using run by (auto simp: breathe_def instant_now_def Let_def res_simps t_def)
  have 1: "net_inv os owns u \<and> net_frame t u \<and> time_frame t u" using calls_inv [OF t(1) u] by simp
  then have 2: "net_inv os owns v \<and> net_frame u v \<and> time_frame u v" using calls_inv [OF _ v] by simp
  have 3: "net_inv os owns s'" "net_frame v s'"
    using 2 unaffected [of s' v os owns] by (simp_all add: s' core_def source_part_def orders_def)
  have "net_frame s s'" using t 1 2 3 by (meson net_frame_trans)
  moreover have "MONOTONIC_NOW s' = Some (env_clk E (ticks s)) \<and> ticks s < ticks s'"
    using 1 2 by (simp add: time_frame_def t_def s')
  ultimately show ?thesis using 3 by simp
qed

lemma breathe_inv:
  assumes "net_inv os owns s" and "breathe E A s = Inr s'"
  shows "net_inv os owns s' \<and> net_frame s s'"
  using breathe_steps [OF assms] by simp

lemma pace_inv:
  "net_inv os owns s \<Longrightarrow> net_inv os owns (pace_breathing s) \<and> net_frame s (pace_breathing s)"
  by (rule unaffected) (simp_all add: pace_breathing_def core_def source_part_def orders_def Let_def)

lemma main_loop_inv:
  assumes d: "\<And>f t. done_fn = Some f \<Longrightarrow> core (snd (f t)) = core t \<and> orders (snd (f t)) = orders t"
    and "net_inv os owns s" and "main_loop fuel E A done_fn s = Inr s'"
  shows "net_inv os owns s' \<and> net_frame s s'"
  using assms(2,3)
proof (induction fuel arbitrary: s)
  case 0
  then show ?case by simp
next
  case (Suc fuel)
  obtain stop t where t: "(case done_fn of Some f \<Rightarrow> f s | None \<Rightarrow> (False, s)) = (stop, t)" by fastforce
  then have "core t = core s" "orders t = orders s"
    using d [of _ s] by (force split: option.splits)+
  then have inv: "net_inv os owns t" "net_frame s t"
    using unaffected [OF _ _ Suc.prems(1), of t] by simp_all
  show ?case
  proof (cases stop)
    case True
    then show ?thesis using Suc.prems(2) t inv by simp
  next
    case False
    then obtain u where u: "breathe E A (pace_breathing t) = Inr u"
      and rest: "main_loop fuel E A done_fn u = Inr s'"
      using Suc.prems(2) t by (auto simp: res_simps)
    have p: "net_inv os owns (pace_breathing t)" "net_frame t (pace_breathing t)"
      using pace_inv [OF inv(1)] by simp_all
    note b = breathe_inv [OF p(1) u]
    show ?thesis
      using Suc.IH [OF _ rest] b inv(2) p(2) by (meson net_frame_trans)
  qed
qed

lemma report_app_inv:
  assumes inv: "net_inv os owns s" and run: "report_app A n s = Inr s'"
  shows "net_inv os owns s' \<and> net_frame s s'"
proof -
  obtain a where a: "map_of (app_table s) n = Some a"
    using run by (auto simp: report_app_def res_simps)
  define t where "t = report_ports ''transmitting to'' ''output'' (length (app_output a))
    (report_ports ''receiving from'' ''input'' (length (app_input a))
      (println (Line (''App report for '' @ n @ '':'')) s))"
  have rest: "(if op_has_report A (app_obj a) then
       bind_res (op_report A (app_obj a) t) (\<lambda>(x, s).
       Inr (s\<lparr>app_table := AList.update n (a\<lparr>app_obj := x\<rparr>) (app_table s)\<rparr>))
     else Inr t) = Inr s'"
    using run unfolding report_app_def Let_def a unwrap_simps bind_res_simps t_def .
  have ct: "core t = core s" "orders t = orders s"
    by (simp_all add: t_def report_ports_def println_def core_def orders_def source_part_def)
  have tinv: "net_inv os owns t" "net_frame s t" using unaffected [OF ct inv] by simp_all
  have at: "map_of (app_table t) n = Some a" using a ct(1) by (simp add: core_def)
  show ?thesis
  proof (cases "op_has_report A (app_obj a)")
    case True
    then obtain x u where u: "op_report A (app_obj a) t = Inr (x, u)"
      and s': "s' = set_obj n a x u"
      using rest by (auto simp: res_simps set_obj_def)
    have own: "own_at owns t n = owns (app_obj a)" using at by (simp add: own_at_def)
    note sp = net_inv_split [OF tinv(1), of n, unfolded own]
    show ?thesis
      using report_ok [OF sp u] net_inv_set_obj [OF tinv(1) at, of x u] net_frame_trans [OF tinv(2)]
      unfolding s' by blast
  next
    case False
    then show ?thesis using rest tinv by simp
  qed
qed

lemma report_apps_inv:
  assumes "net_inv os owns s" and "report_apps h A s = Inr s'"
  shows "net_inv os owns s' \<and> net_frame s s'"
proof (rule fold_res_invariant [of _ "\<lambda>t. net_inv os owns t \<and> net_frame s t",
      OF _ _ assms(2) [unfolded report_apps_def]])
  fix n t t'
  assume "net_inv os owns t \<and> net_frame s t" and run: "report_app A n t = Inr t'"
  then show "net_inv os owns t' \<and> net_frame s t'"
    using report_app_inv [OF _ run] net_frame_trans [of s t t'] by simp
qed (simp add: assms(1))

end

lemma report_load_same: "core (report_load E s) = core s \<and> orders (report_load E s) = orders s"
  by (simp add: report_load_def Let_def now_def instant_now_def println_def core_def orders_def
      source_part_def split: option.splits prod.splits)

lemma report_links_same:
  assumes "report_links s = Inr s'"
  shows "core s' = core s \<and> orders s' = orders s"
proof (rule fold_res_invariant [of _ "\<lambda>t. core t = core s \<and> orders t = orders s",
      OF _ _ assms [unfolded report_links_def Let_def]])
  fix n t t'
  assume "core t = core s \<and> orders t = orders s" and "report_link n t = Inr t'"
  then show "core t' = core s \<and> orders t' = orders s"
    by (auto simp: report_link_def res_simps println_def core_def orders_def source_part_def)
qed (simp add: println_def core_def orders_def source_part_def)

lemma timeout_same:
  assumes "timeout E d s = (f, t)"
  shows "core t = core s \<and> orders t = orders s"
    and "core (snd (f u)) = core u \<and> orders (snd (f u)) = orders u"
  using assms
  by (auto simp: timeout_def Let_def now_def instant_now_def core_def orders_def source_part_def
      split: option.splits prod.splits)

context app_contract
begin

lemma main_inv:
  assumes inv: "net_inv os owns s" and run: "main fuel E A (Some opts) s = Inr s'"
    and d: "\<And>f t. opt_done opts = Some f \<Longrightarrow> core (snd (f t)) = core t \<and> orders (snd (f t)) = orders t"
  shows "net_inv os owns s' \<and> net_frame s s'"
proof -
  obtain done_fn t u v w where
    t: "(case opt_duration opts of None \<Rightarrow> Inr (opt_done opts, s)
       | Some duration \<Rightarrow> if \<not> Option.is_none (opt_done opts)
           then Inl (Panic ''You can not have both duration and done'')
           else let (f, s) = timeout E duration s in Inr (Some f, s)) = Inr (done_fn, t)"
    and u: "breathe E A t = Inr u" and v: "main_loop fuel E A done_fn u = Inr v"
    and w: "(if opt_no_report opts then Inr v
         else let s = (if opt_report_load opts then report_load E v else v) in
           bind_res (if opt_report_links opts then report_links s else Inr s) (\<lambda>s.
           if opt_report_apps opts then report_apps (env_order E) A s else Inr s)) = Inr w"
    and s': "s' = w\<lparr>MONOTONIC_NOW := None\<rparr>"
    using run by (auto simp: main_def res_simps)
  have same: "core t = core s" "orders t = orders s"
    and dn: "done_fn = Some f \<Longrightarrow> core (snd (f x)) = core x \<and> orders (snd (f x)) = orders x" for f x
    using t timeout_same d by (fastforce split: option.splits if_splits prod.splits)+
  have it: "net_inv os owns t" "net_frame s t" using unaffected [OF same inv] by simp_all
  have iu: "net_inv os owns u" "net_frame t u" using breathe_inv [OF it(1) u] by simp_all
  have iv: "net_inv os owns v" "net_frame u v" using main_loop_inv [of done_fn u fuel E v] dn iu(1) v by blast+
  have "net_inv os owns w \<and> net_frame v w"
  proof (cases "opt_no_report opts")
    case True
    then show ?thesis using w iv by simp
  next
    case False
    define x where "x = (if opt_report_load opts then report_load E v else v)"
    have x: "core x = core v" "orders x = orders v" using report_load_same [of E v] by (simp_all add: x_def)
    obtain y where y: "(if opt_report_links opts then report_links x else Inr x) = Inr y"
      and wy: "(if opt_report_apps opts then report_apps (env_order E) A y else Inr y) = Inr w"
      using w False unfolding Let_def x_def [symmetric] by (auto simp: bind_res_eq_Inr)
    have "core y = core v" "orders y = orders v"
      using y x report_links_same [of x y] by (auto split: if_splits)
    then have "net_inv os owns y" "net_frame v y" using unaffected [OF _ _ iv(1), of y] by simp_all
    then show ?thesis
      using wy report_apps_inv [of y "env_order E" w] net_frame_trans [of v y w] by (auto split: if_splits)
  qed
  moreover have "net_inv os owns s' \<and> net_frame w s'" if "net_inv os owns w"
    by (rule unaffected [OF _ _ that]) (simp_all add: s' core_def orders_def source_part_def)
  ultimately show ?thesis using it iu iv by (meson net_frame_trans)
qed

end

section \<open>The main loop ends\<close>

text \<open>
  With a stop condition on the time and a clock that passes every deadline, the loop ends, provided
  no breath panics.
\<close>

lemma main_loop_ends:
  fixes s :: "('app, 'arg) eng"
  assumes step: "\<And>s. P s \<Longrightarrow> \<exists>s'. breathe E A (pace_breathing s) = Inr s' \<and> P s' \<and> ticks s < ticks s' \<and>
      MONOTONIC_NOW s' = Some (env_clk E (ticks s))"
    and clock: "\<And>m. n \<le> m \<Longrightarrow> deadline < env_clk E m"
    and "P s" and "MONOTONIC_NOW s \<noteq> None"
  shows "\<exists>fuel s'. main_loop fuel E A (Some (\<lambda>s. let (t, s) = now E s in (deadline < t, s))) s = Inr s' \<and> P s'"
  using assms(3,4)
proof (induction "n - ticks s" arbitrary: s rule: less_induct)
  case less
  let ?f = "\<lambda>s. let (t, s) = now E s in (deadline < t, s)"
  obtain t where t: "MONOTONIC_NOW s = Some t" using less.prems(2) by auto
  have fs: "?f s = (deadline < t, s)" by (simp add: now_def t)
  show ?case
  proof (cases "deadline < t")
    case True
    then have "main_loop (Suc 0) E A (Some ?f) s = Inr s" by (simp add: now_def t)
    then show ?thesis using less.prems(1) by blast
  next
    case False
    obtain u where u: "breathe E A (pace_breathing s) = Inr u" "P u" "ticks s < ticks u"
      "MONOTONIC_NOW u = Some (env_clk E (ticks s))"
      using step [OF less.prems(1)] by blast
    have "\<exists>fuel s'. main_loop fuel E A (Some ?f) u = Inr s' \<and> P s'"
    proof (cases "n \<le> ticks s")
      case True
      then have "deadline < env_clk E (ticks s)" by (rule clock)
      then have "main_loop (Suc 0) E A (Some ?f) u = Inr u" by (simp add: now_def u(4))
      then show ?thesis using u(2) by blast
    next
      case False
      then have "n - ticks u < n - ticks s" using u(3) by simp
      then show ?thesis using less.hyps [of u] u(2,4) by simp
    qed
    then obtain fuel s' where "main_loop fuel E A (Some ?f) u = Inr s'" "P s'" by blast
    then have "main_loop (Suc fuel) E A (Some ?f) s = Inr s' \<and> P s'"
      using u(1) False by (simp add: now_def t)
    then show ?thesis by blast
  qed
qed

end
