(* ===== verification/Rush_Engine_Configure.thy ===== *)
theory Rush_Engine_Configure
  imports Rush_App_Contract
begin

text \<open>
  Configuring the network: \<open>configure\<close> brings the app and link tables to what the
  configuration says, keeps the apps and links that did not change, and keeps the invariant of the
  network; links that go away return their packets to the freelist.
\<close>

section \<open>Changing the tables\<close>

lemma set_alist_update: "set (AList.update k v m) \<subseteq> insert (k, v) (set m)"
  by (induction m) (auto split: if_splits)

lemma set_alist_delete: "set (AList.delete k m) \<subseteq> set m"
  by (auto simp: AList.delete_eq)

definition pcore :: "('app, 'arg) eng \<Rightarrow> _" where
  "pcore s = (source_part s, heap s, FL_list s, FL_nfree s, PACKETS_ALLOCATED s, PACKET_ALLOCATION_STEP s,
     link_store s, next_link s)"

lemma eng_inv_retable:
  fixes s s' :: "('app, 'arg) eng"
  assumes "pcore s' = pcore s" and "eng_inv os X s" and "set (link_refs s') \<subseteq> live s"
  shows "eng_inv os X s'"
proof -
  have src: "source_part s' = source_part s" using assms(1) by (simp add: pcore_def)
  have "pkt_inv os U s' = pkt_inv os U s" for U
    using ctor.source_only [OF src, of os] assms(1)
    by (simp add: pkt_inv_def pool_def heap_wf_def steps_ok_def FL_set_def pcore_def source_part_def)
  moreover have "fifo_at s' = fifo_at s" "live s' = live s" "links_ok s' = links_ok s"
    "next_link s' = next_link s"
    using assms(1) by (simp_all add: fifo_at_def live_def links_ok_def pcore_def fun_eq_iff)
  ultimately show ?thesis using assms(2,3) by (simp add: eng_inv_def on_links_def)
qed

text \<open>The reference sets of a table.\<close>

definition table_refs :: "(string, ('app, 'arg) AppState) hashmap \<Rightarrow> shared_link set" where
  "table_refs T = (\<Union>(n, a) \<in> set T. set (app_refs a))"

lemma set_link_refs: "set (link_refs s) = snd ` set (link_table s) \<union> table_refs (app_table s)"
  by (auto simp: link_refs_def table_refs_def)

lemma table_refs_update: "table_refs (AList.update n a T) \<subseteq> set (app_refs a) \<union> table_refs T"
  using set_alist_update [of n a T] by (auto simp: table_refs_def)

lemma table_refs_delete: "table_refs (AList.delete n T) \<subseteq> table_refs T"
  using set_alist_delete [of n T] by (auto simp: table_refs_def)

lemma table_refs_at: "map_of T n = Some a \<Longrightarrow> set (app_refs a) \<subseteq> table_refs T"
  by (force simp: table_refs_def dest: map_of_SomeD)

lemma link_values_update: "snd ` set (AList.update l i L) \<subseteq> insert i (snd ` set L)"
  using set_alist_update [of l i L] by force

lemma link_values_delete: "snd ` set (AList.delete l L) \<subseteq> snd ` set L"
  using set_alist_delete [of l L] by auto

section \<open>Dropping links\<close>

lemma drop_shared_ok:
  assumes inv: "eng_inv os X s" and i: "i \<in> live s" and unref: "i \<notin> set (link_refs s)"
  shows "\<exists>s'. drop_shared i s = Inr s' \<and> eng_inv os X s' \<and> live s' = live s - {i} \<and>
    link_table s' = link_table s \<and> app_table s' = app_table s \<and> orders s' = orders s \<and>
    frees (STATS s') = frees (STATS s) + of_nat (length (fifo_at s i))"
proof -
  obtain r where r: "map_of (link_store s) i = Some r" using i by (auto simp: live_def)
  have fr: "fifo_at s i = link_fifo r" using r by (simp add: fifo_at_def)
  have ok: "links_ok s" and pinv: "pkt_inv os (on_links s \<union> X) s" using inv by (simp_all add: eng_inv_def)
  have wf: "link_wf r" and dist: "distinct (link_fifo r)"
    using ok r fr by (auto simp: links_ok_def) (metis links_ok_def ok)
  have sub: "set (link_fifo r) \<subseteq> on_links s \<union> X" using fr by (auto simp: on_links_def) (metis)
  obtain r' t where t: "drop_link r s = Inr (r', t)" "pkt_inv os (on_links s \<union> X - set (link_fifo r)) t"
    "frees (STATS t) = frees (STATS s) + of_nat (length (link_fifo r))"
    "pkt_state.more t = pkt_state.more s"
    using drop_link_ok [OF wf pinv dist sub] by blast
  define s' where "s' = t\<lparr>link_store := AList.delete i (link_store t)\<rparr>"
  have run: "drop_shared i s = Inr s'" using r t(1) by (simp add: drop_shared_def s'_def)
  note more = pkt_more_fields [OF t(4)] pkt_more_links [OF t(4)]
  have fifo: "fifo_at s' j = (if j = i then [] else fifo_at s j)" for j
    by (simp add: fifo_at_def s'_def more(1))
  have on: "on_links s' = on_links s - set (link_fifo r)"
  proof -
    have "set (fifo_at s i) \<inter> set (fifo_at s j) = {}" if "j \<noteq> i" for j
      using ok that by (simp add: links_ok_def)
    then show ?thesis
      unfolding on_links_split [of s i] on_links_split [of s' i] fr by (auto simp: fifo)
  qed
  have lv: "live s' = live s - {i}" by (auto simp: live_def s'_def more(1))
  have XX: "on_links s \<inter> X = {}" using inv by (simp add: eng_inv_def)
  have "on_links s \<union> X - set (link_fifo r) = on_links s' \<union> X"
  proof -
    have "set (link_fifo r) \<subseteq> on_links s" unfolding on_links_split [of s i] fr by simp
    then show ?thesis unfolding on using XX by blast
  qed
  moreover have "source_part s' = source_part t" by (simp add: s'_def source_part_def)
  ultimately have "pkt_inv os (on_links s' \<union> X) s'"
    using t(2) ctor.source_only [of s' t os]
    by (simp add: pkt_inv_def pool_def heap_wf_def steps_ok_def FL_set_def) (simp add: s'_def)
  moreover have "links_ok s'"
  proof -
    have "link_wf q" if "map_of (link_store s') j = Some q" for j q
      using that ok by (auto simp: s'_def more(1) links_ok_def split: if_splits)
    moreover have "distinct (keys_of (link_store s'))"
      using ok by (simp add: s'_def more(1) links_ok_def distinct_delete)
    ultimately show ?thesis using ok by (auto simp: links_ok_def fifo)
  qed
  moreover have "link_refs s' = link_refs s" by (simp add: link_refs_def s'_def more)
  ultimately have "eng_inv os X s'"
    using inv unref lv XX on by (auto simp: eng_inv_def s'_def more)
  then show ?thesis
    using run lv t(3) fr by (intro exI [of _ s']) (simp add: s'_def more orders_def)
qed

lemma drop_all_ok:
  assumes "eng_inv os X s" and "distinct js" and "set js \<subseteq> live s - set (link_refs s)"
  shows "\<exists>s'. fold_res drop_shared js s = Inr s' \<and> eng_inv os X s' \<and> live s' = live s - set js \<and>
    link_table s' = link_table s \<and> app_table s' = app_table s \<and> orders s' = orders s"
  using assms
proof (induction js arbitrary: s)
  case Nil
  then show ?case by simp
next
  case (Cons i js)
  then obtain t where t: "drop_shared i s = Inr t" "eng_inv os X t" "live t = live s - {i}"
    "link_table t = link_table s" "app_table t = app_table s" "orders t = orders s"
    using drop_shared_ok [of os X s i] by auto
  have "link_refs t = link_refs s" by (simp add: link_refs_def t)
  then obtain u where "fold_res drop_shared js t = Inr u" "eng_inv os X u" "live u = live t - set js"
    "link_table u = link_table t" "app_table u = app_table t" "orders u = orders t"
    using Cons.IH [OF t(2)] Cons.prems(2,3) t(3) by auto
  then show ?case using t by auto
qed

text \<open>Exactly the links something refers to are kept.\<close>

lemma release_links_ok:
  assumes inv: "eng_inv os X s"
  shows "\<exists>s'. release_links h s = Inr s' \<and> eng_inv os X s' \<and> live s' = set (link_refs s) \<and>
    link_table s' = link_table s \<and> app_table s' = app_table s \<and> orders s' = orders s"
proof -
  let ?js = "drop_iter h (filter (\<lambda>i. i \<notin> set (link_refs s)) (keys_of (link_store s)))"
  have keys: "set (keys_of (link_store s)) = live s" by (simp add: live_def dom_map_of_conv_image_fst)
  have "distinct ?js" using inv by (simp add: eng_inv_def links_ok_def)
  moreover have js: "set ?js = live s - set (link_refs s)" using keys by auto
  moreover have "live s - (live s - set (link_refs s)) = set (link_refs s)"
    using inv by (auto simp: eng_inv_def)
  ultimately show ?thesis
    using drop_all_ok [OF inv, of ?js] unfolding release_links_def by simp
qed

lemma net_release:
  assumes "net_inv os owns s"
  shows "\<exists>s'. release_links h s = Inr s' \<and> net_inv os owns s' \<and> live s' = set (link_refs s) \<and>
    link_table s' = link_table s \<and> app_table s' = app_table s \<and> orders s' = orders s"
proof -
  obtain s' where s': "release_links h s = Inr s'" "eng_inv os (owned owns s) s'"
    "live s' = set (link_refs s)" "link_table s' = link_table s" "app_table s' = app_table s"
    "orders s' = orders s"
    using release_links_ok [of os "owned owns s" s h] assms by (auto simp: net_inv_def)
  have "own_at owns s' = own_at owns s" by (simp add: own_at_def s' fun_eq_iff)
  then have "net_inv os owns s'" using s'(2) assms by (simp add: net_inv_def owned_def)
  then show ?thesis using s' by blast
qed

section \<open>Linking and unlinking\<close>

text \<open>A change of the tables that keeps the apps' objects and refers to existing links only.\<close>

lemma net_retable:
  fixes s s' :: "('app, 'arg) eng"
  assumes "pcore s' = pcore s" and "net_inv os owns s" and "set (link_refs s') \<subseteq> live s"
    and "\<And>n. map_option app_obj (map_of (app_table s') n) = map_option app_obj (map_of (app_table s) n)"
  shows "net_inv os owns s'"
proof -
  have "own_at owns s' n = own_at owns s n" for n
    using assms(4) [of n] by (auto simp: own_at_def split: option.splits)
  then have "own_at owns s' = own_at owns s" by blast
  then show ?thesis
    using assms(2) eng_inv_retable [OF assms(1) _ assms(3)] by (simp add: net_inv_def owned_def)
qed

text \<open>What the tables say of an app: its argument and its object.\<close>

definition inst_of :: "('app, 'arg) eng \<Rightarrow> string \<rightharpoonup> 'arg \<times> 'app" where
  "inst_of s n = map_option (\<lambda>a. (conf a, app_obj a)) (map_of (app_table s) n)"

lemma inst_of_obj:
  "inst_of s' n = inst_of s n \<Longrightarrow>
   map_option app_obj (map_of (app_table s') n) = map_option app_obj (map_of (app_table s) n)"
  by (cases "map_of (app_table s') n"; cases "map_of (app_table s) n") (simp_all add: inst_of_def)

lemma refs_live_app:
  assumes "net_inv os owns s" and "map_of (app_table s) n = Some a"
  shows "set (app_refs a) \<subseteq> live s"
  using assms table_refs_at [OF assms(2)] by (auto simp: net_inv_def eng_inv_def set_link_refs)

text \<open>Replacing the ports of one app.\<close>

lemma net_set_ports:
  assumes inv: "net_inv os owns s" and a: "map_of (app_table s) n = Some a"
    and b: "conf b = conf a" "app_obj b = app_obj a" "set (app_refs b) \<subseteq> live s"
    and s': "s' = s\<lparr>app_table := AList.update n b (app_table s)\<rparr>"
  shows "net_inv os owns s'" and "inst_of s' = inst_of s"
proof -
  show inst: "inst_of s' = inst_of s" using a b by (auto simp: inst_of_def s' fun_eq_iff)
  show "net_inv os owns s'"
  proof (rule net_retable [OF _ inv])
    show "pcore s' = pcore s" by (simp add: pcore_def s' source_part_def)
    show "set (link_refs s') \<subseteq> live s"
      using inv b(3) table_refs_update [of n b "app_table s"]
      by (auto simp: set_link_refs s' net_inv_def eng_inv_def)
  qed (rule inst_of_obj, simp add: inst)
qed

text \<open>Every step of \<open>configure\<close>: the invariant, the instances, the names of the links.\<close>

definition link_names :: "('app, 'arg) eng \<Rightarrow> string set" where
  "link_names s = set (keys_of (link_table s))"

lemma app_refs_out:
  "set (app_refs (a\<lparr>app_output := AList.update port i (app_output a)\<rparr>)) \<subseteq> insert i (set (app_refs a))"
  "set (app_refs (a\<lparr>app_input := AList.update port i (app_input a)\<rparr>)) \<subseteq> insert i (set (app_refs a))"
  "set (app_refs (a\<lparr>app_output := AList.delete port (app_output a)\<rparr>)) \<subseteq> set (app_refs a)"
  "set (app_refs (a\<lparr>app_input := AList.delete port (app_input a)\<rparr>)) \<subseteq> set (app_refs a)"
  using link_values_update [of port i "app_output a"] link_values_update [of port i "app_input a"]
    link_values_delete [of port "app_output a"] link_values_delete [of port "app_input a"]
  by (auto simp: app_refs_def)

lemma set_output_ok:
  assumes inv: "net_inv os owns s" and i: "i \<in> live s" and run: "set_output n port i s = Inr s'"
  shows "net_inv os owns s' \<and> inst_of s' = inst_of s \<and> link_table s' = link_table s \<and> live s' = live s"
proof -
  obtain a where a: "map_of (app_table s) n = Some a" and s': "s' = s\<lparr>app_table :=
      AList.update n (a\<lparr>app_output := AList.update port i (app_output a)\<rparr>) (app_table s)\<rparr>"
    using run by (auto simp: set_output_def res_simps)
  note p = net_set_ports [OF inv a _ _ _ s']
  show ?thesis
    using p app_refs_out(1) [of port i a] refs_live_app [OF inv a] i by (auto simp: s' live_def)
qed

lemma set_input_ok:
  assumes inv: "net_inv os owns s" and i: "i \<in> live s" and run: "set_input n port i s = Inr s'"
  shows "net_inv os owns s' \<and> inst_of s' = inst_of s \<and> link_table s' = link_table s \<and> live s' = live s"
proof -
  obtain a where a: "map_of (app_table s) n = Some a" and s': "s' = s\<lparr>app_table :=
      AList.update n (a\<lparr>app_input := AList.update port i (app_input a)\<rparr>) (app_table s)\<rparr>"
    using run by (auto simp: set_input_def res_simps)
  note p = net_set_ports [OF inv a _ _ _ s']
  show ?thesis
    using p app_refs_out(2) [of port i a] refs_live_app [OF inv a] i by (auto simp: s' live_def)
qed

lemma del_output_ok:
  assumes inv: "net_inv os owns s" and run: "del_output n port s = Inr s'"
  shows "net_inv os owns s' \<and> inst_of s' = inst_of s \<and> link_table s' = link_table s"
proof -
  obtain a where a: "map_of (app_table s) n = Some a" and s': "s' = s\<lparr>app_table :=
      AList.update n (a\<lparr>app_output := AList.delete port (app_output a)\<rparr>) (app_table s)\<rparr>"
    using run by (auto simp: del_output_def res_simps)
  note p = net_set_ports [OF inv a _ _ _ s']
  show ?thesis
    using p app_refs_out(3) [of port a] refs_live_app [OF inv a] by (auto simp: s')
qed

lemma del_input_ok:
  assumes inv: "net_inv os owns s" and run: "del_input n port s = Inr s'"
  shows "net_inv os owns s' \<and> inst_of s' = inst_of s \<and> link_table s' = link_table s"
proof -
  obtain a where a: "map_of (app_table s) n = Some a" and s': "s' = s\<lparr>app_table :=
      AList.update n (a\<lparr>app_input := AList.delete port (app_input a)\<rparr>) (app_table s)\<rparr>"
    using run by (auto simp: del_input_def res_simps)
  note p = net_set_ports [OF inv a _ _ _ s']
  show ?thesis
    using p app_refs_out(4) [of port a] refs_live_app [OF inv a] by (auto simp: s')
qed

lemma unlink_apps_steps:
  assumes "unlink_apps spec s = Inr s'"
  obtains l u where "parse_link spec = Inr l"
    "del_output (from_app l) (output_name l) (s\<lparr>link_table := AList.delete spec (link_table s)\<rparr>) = Inr u"
    "del_input (to_app l) (input_name l) u = Inr s'"
  using assms unfolding unlink_apps_def Let_def bind_res_eq_Inr by (elim exE conjE) (rule that)

lemma unlink_apps_ok:
  assumes inv: "net_inv os owns s" and run: "unlink_apps l s = Inr s'"
  shows "net_inv os owns s' \<and> inst_of s' = inst_of s \<and> link_table s' = AList.delete l (link_table s)"
proof -
  define t where "t = s\<lparr>link_table := AList.delete l (link_table s)\<rparr>"
  have "net_inv os owns t"
  proof (rule net_retable [OF _ inv])
    show "pcore t = pcore s" by (simp add: pcore_def t_def source_part_def)
    show "set (link_refs t) \<subseteq> live s"
      using inv link_values_delete [of l "link_table s"]
      by (auto simp: set_link_refs t_def net_inv_def eng_inv_def)
  qed (simp add: t_def)
  moreover obtain spec u where "parse_link l = Inr spec" "del_output (from_app spec) (output_name spec) t = Inr u"
    "del_input (to_app spec) (input_name spec) u = Inr s'"
    unfolding t_def by (rule unlink_apps_steps [OF run])
  moreover have "inst_of t = inst_of s" by (simp add: t_def inst_of_def fun_eq_iff)
  ultimately show ?thesis
    using del_output_ok [of os owns t _ _ u] del_input_ok [of os owns u _ _ s']
    by (simp add: t_def)
qed

lemma net_new_link:
  assumes inv: "net_inv os owns s" and new: "new_shared_link s = (i, t)"
  shows "net_inv os owns t \<and> i \<in> live t \<and> live t = insert i (live s) \<and> inst_of t = inst_of s \<and>
    link_table t = link_table s"
proof -
  have i: "i = next_link s" and t: "t = s\<lparr>next_link := Suc i, link_store := AList.update i new_link (link_store s)\<rparr>"
    using new by (auto simp: new_shared_link_def Let_def)
  have fresh: "i \<notin> live s" using inv by (auto simp: i net_inv_def eng_inv_def)
  then have none: "map_of (link_store s) i = None" by (auto simp: live_def)
  have fifo: "fifo_at t = fifo_at s"
    using none new_link_ok(2) by (auto simp: fifo_at_def t fun_eq_iff split: option.splits)
  have lv: "live t = insert i (live s)" by (auto simp: live_def t)
  have src: "source_part t = source_part s" by (simp add: source_part_def t)
  have "pkt_inv os U t = pkt_inv os U s" for U
    using ctor.source_only [OF src, of os]
    by (simp add: pkt_inv_def pool_def heap_wf_def steps_ok_def FL_set_def) (simp add: t)
  moreover have "links_ok t"
  proof -
    have ok: "links_ok s" using inv by (simp add: net_inv_def eng_inv_def)
    have "link_wf q" if "map_of (link_store t) j = Some q" for j q
      using that ok new_link_ok(1) by (auto simp: t links_ok_def split: if_splits)
    moreover have "distinct (keys_of (link_store t))" using ok by (simp add: t links_ok_def distinct_update)
    ultimately show ?thesis using ok by (auto simp: links_ok_def fifo)
  qed
  moreover have "link_refs t = link_refs s" "own_at owns t = own_at owns s"
    by (simp_all add: link_refs_def own_at_def t fun_eq_iff)
  ultimately have "net_inv os owns t"
    using inv lv by (auto simp: net_inv_def eng_inv_def on_links_def fifo owned_def) (auto simp: t i)
  then show ?thesis using lv by (simp add: t inst_of_def fun_eq_iff)
qed

text \<open>The link a specification gets: the one it had, or a new one.\<close>

definition get_link :: "string \<Rightarrow> ('app, 'arg) eng \<Rightarrow> shared_link \<times> ('app, 'arg) eng" where
  "get_link spec s =
     (case map_of (link_table s) spec of
        Some i \<Rightarrow> (i, s)
      | None \<Rightarrow>
          let (i, s) = new_shared_link s in (i, s\<lparr>link_table := AList.update spec i (link_table s)\<rparr>))"

lemma get_link_ok:
  assumes inv: "net_inv os owns s" and get: "get_link spec s = (i, t)"
  shows "net_inv os owns t \<and> i \<in> live t \<and> inst_of t = inst_of s \<and> map_of (link_table t) spec = Some i \<and>
    link_names t = insert spec (link_names s) \<and>
    (\<forall>l. l \<noteq> spec \<longrightarrow> map_of (link_table t) l = map_of (link_table s) l) \<and>
    (map_of (link_table s) spec \<noteq> None \<longrightarrow> t = s)"
proof (cases "map_of (link_table s) spec")
  case (Some j)
  then have "j \<in> snd ` set (link_table s)" by (force dest: map_of_SomeD)
  then have "j \<in> live s" using inv by (auto simp: net_inv_def eng_inv_def set_link_refs)
  moreover have "spec \<in> link_names s"
    using Some map_of_eq_None_keys [of "link_table s" spec] by (auto simp: link_names_def)
  ultimately show ?thesis using Some get inv by (auto simp: get_link_def)
next
  case None
  obtain j u where u: "new_shared_link s = (j, u)" by fastforce
  have ij: "i = j" and t: "t = u\<lparr>link_table := AList.update spec j (link_table u)\<rparr>"
    using get None u by (auto simp: get_link_def)
  note n = net_new_link [OF inv u]
  have "net_inv os owns t"
  proof (rule net_retable)
    show "pcore t = pcore u" by (simp add: pcore_def t source_part_def)
    show "net_inv os owns u" using n by simp
    have "set (link_refs u) \<subseteq> live u" using n by (auto simp: net_inv_def eng_inv_def)
    then show "set (link_refs t) \<subseteq> live u"
      using n link_values_update [of spec j "link_table u"] by (auto simp: set_link_refs t)
  qed (simp add: t)
  moreover have "inst_of t = inst_of u" by (simp add: t inst_of_def fun_eq_iff)
  ultimately show ?thesis
    using n None keys_of_update_set [of spec j "link_table s"]
    by (auto simp: t ij link_names_def live_def)
qed

lemma get_link_apps: "get_link spec s = (i, t) \<Longrightarrow> app_table t = app_table s"
  by (auto simp: get_link_def new_shared_link_def Let_def split: option.splits)

lemma link_apps_eq:
  "get_link spec s = (i, t) \<Longrightarrow> link_apps h spec s =
     bind_res (parse_link spec) (\<lambda>l.
     bind_res (set_output (from_app l) (output_name l) i t) (\<lambda>s.
     bind_res (release_links h s) (\<lambda>s.
     bind_res (set_input (to_app l) (input_name l) i s) (release_links h))))"
  by (simp add: link_apps_def get_link_def [symmetric])

lemma link_apps_steps:
  assumes "link_apps h spec s = Inr s'"
  obtains i t l u v w where "get_link spec s = (i, t)" "parse_link spec = Inr l"
    "set_output (from_app l) (output_name l) i t = Inr u" "release_links h u = Inr v"
    "set_input (to_app l) (input_name l) i v = Inr w" "release_links h w = Inr s'"
proof -
  obtain i t where get: "get_link spec s = (i, t)" by fastforce
  show ?thesis using assms unfolding link_apps_eq [OF get] bind_res_eq_Inr by (elim exE conjE) (rule that [OF get])
qed

text \<open>Both ends are set on a link that the releases in between leave alive.\<close>

lemma link_ends_ok:
  assumes inv: "net_inv os owns t" and i: "map_of (link_table t) spec = Some i" "i \<in> live t"
    and u: "set_output n p i t = Inr u" and v: "release_links h u = Inr v"
    and w: "set_input m q i v = Inr w" and s': "release_links h w = Inr s'"
  shows "net_inv os owns s'" "inst_of s' = inst_of t" "link_table s' = link_table t"
    and "app_table v = app_table u" "app_table s' = app_table w" "live s' = set (link_refs s')"
proof -
  have u': "net_inv os owns u" "inst_of u = inst_of t" "link_table u = link_table t"
    using set_output_ok [OF inv i(2) u] by simp_all
  then have v': "net_inv os owns v" "live v = set (link_refs u)" "link_table v = link_table u" "app_table v = app_table u"
    using net_release [of os owns u h] v by auto
  have "i \<in> snd ` set (link_table u)" using i(1) u'(3) by (force dest: map_of_SomeD)
  then have "i \<in> live v" using v'(2) by (simp add: set_link_refs)
  then have w': "net_inv os owns w" "inst_of w = inst_of v" "link_table w = link_table v"
    using set_input_ok [OF v'(1) _ w] by simp_all
  then have s'': "net_inv os owns s'" "link_table s' = link_table w" "app_table s' = app_table w" "live s' = set (link_refs w)"
    using net_release [of os owns w h] s' by auto
  show "net_inv os owns s'" "app_table v = app_table u" "app_table s' = app_table w" by fact+
  show "link_table s' = link_table t" using s''(2) w'(3) v'(3) u'(3) by simp
  show "live s' = set (link_refs s')" using s'' by (simp add: link_refs_def)
  have "inst_of v = inst_of u" "inst_of s' = inst_of w"
    using v'(4) s''(3) by (simp_all add: inst_of_def fun_eq_iff)
  then show "inst_of s' = inst_of t" using w'(2) u'(2) by simp
qed

lemma link_apps_ok:
  assumes inv: "net_inv os owns s" and run: "link_apps h spec s = Inr s'"
  shows "net_inv os owns s' \<and> inst_of s' = inst_of s \<and> link_names s' = insert spec (link_names s) \<and>
    (\<forall>l. map_of (link_table s) l \<noteq> None \<longrightarrow> map_of (link_table s') l = map_of (link_table s) l)"
proof -
  obtain i t l u v w where get: "get_link spec s = (i, t)" and l: "parse_link spec = Inr l"
    and run': "set_output (from_app l) (output_name l) i t = Inr u" "release_links h u = Inr v"
      "set_input (to_app l) (input_name l) i v = Inr w" "release_links h w = Inr s'"
    by (rule link_apps_steps [OF run])
  note g = get_link_ok [OF inv get]
  have i: "net_inv os owns t" "map_of (link_table t) spec = Some i" "i \<in> live t" using g by simp_all
  note e = link_ends_ok(1-3) [OF i run']
  show ?thesis using e g by (auto simp: link_names_def)
qed

text \<open>An app of the network that the configuration leaves alone.\<close>

definition keeps ::
  "('app, 'arg) app_ops \<Rightarrow> (string, 'arg) hashmap \<Rightarrow> (string \<rightharpoonup> 'arg \<times> 'app) \<Rightarrow> string \<Rightarrow> bool" where
  "keeps A cs inst n \<longleftrightarrow> (\<exists>c x c'. inst n = Some (c, x) \<and> map_of cs n = Some c' \<and> arg_equal A c c')"

section \<open>The steps of configure\<close>

text \<open>The bodies of its three loops.\<close>

abbreviation unlink_step :: "string set \<Rightarrow> string \<Rightarrow> ('app, 'arg) eng \<Rightarrow> ('app, 'arg) eng res" where
  "unlink_step L l s \<equiv> if l \<in> L then Inr s else unlink_apps l s"

abbreviation stop_step ::
  "hash_order \<Rightarrow> ('app, 'arg) app_ops \<Rightarrow> (string, 'arg) hashmap \<Rightarrow> string \<Rightarrow> ('app, 'arg) eng \<Rightarrow> ('app, 'arg) eng res" where
  "stop_step h A cs n s \<equiv>
     bind_res (unwrap (map_of (app_table s) n)) (\<lambda>old.
     case map_of cs n of
       Some new \<Rightarrow> if \<not> arg_equal A (conf old) new then stop_app h A n s else Inr s
     | None \<Rightarrow> stop_app h A n s)"

abbreviation start_step ::
  "('app, 'arg) app_ops \<Rightarrow> (string, 'arg) hashmap \<Rightarrow> string \<Rightarrow> ('app, 'arg) eng \<Rightarrow> ('app, 'arg) eng res" where
  "start_step A cs n s \<equiv>
     if map_of (app_table s) n = None then start_app A n (the (map_of cs n)) s else Inr s"

lemma configure_phases:
  assumes "configure h A config s = Inr s'"
  obtains s1 s2 s3 s4 s5 where
    "fold_res (unlink_step (set (links config))) (link_iter h (keys_of (link_table s))) s = Inr s1"
    "release_links h s1 = Inr s2"
    "fold_res (stop_step h A (apps config)) (app_iter h (keys_of (app_table s2))) s2 = Inr s3"
    "fold_res (start_step A (apps config)) (conf_app_iter h (keys_of (apps config))) s3 = Inr s4"
    "fold_res (link_apps h) (conf_link_iter h (links config)) s4 = Inr s5"
    "compute_breathe_order h A s5 = Inr s'"
  using assms unfolding configure_def bind_res_eq_Inr by (elim exE conjE) (rule that)

lemma compute_breathe_order_effect:
  assumes "compute_breathe_order h A s = Inr s'"
  obtains inh exh where "s' = s\<lparr>inhale := inh, exhale := exh\<rparr>"
  using assms by (auto simp: compute_breathe_order_def res_simps Let_def)

section \<open>Starting and stopping\<close>

context app_contract
begin

lemma start_app_ok:
  assumes inv: "net_inv os owns s" and new: "map_of (app_table s) n = None"
    and run: "start_app A n c s = Inr s'"
  shows "net_inv os owns s' \<and> (\<exists>x. inst_of s' = (inst_of s)(n \<mapsto> (c, x))) \<and> link_table s' = link_table s"
proof -
  obtain x t where x: "op_new A c s = Inr (x, t)" and s': "s' = t\<lparr>app_table :=
      AList.update n \<lparr>app_obj = x, conf = c, app_input = [], app_output = []\<rparr> (app_table t)\<rparr>"
    using run by (auto simp: start_app_def res_simps)
  have "eng_inv os (owned owns s) s" using inv by (simp add: net_inv_def)
  from new_ok [OF this x] have t: "eng_inv os (owns x \<union> owned owns s) t" "owns x \<inter> owned owns s = {}"
    "eng_frame s t" by auto
  have tab: "app_table t = app_table s" "link_table t = link_table s" using t(3) by (simp_all add: eng_frame_def)
  have own: "own_at owns s' m = (if m = n then owns x else own_at owns s m)" for m
    by (simp add: own_at_def s' tab)
  have "own_at owns s n = {}" using new by (simp add: own_at_def)
  then have "owned owns s' = owns x \<union> owned owns s"
    by (auto simp: owned_def own split: if_splits)
  moreover have "eng_inv os (owns x \<union> owned owns s) s'"
  proof (rule eng_inv_retable [OF _ t(1)])
    show "pcore s' = pcore t" by (simp add: pcore_def s' source_part_def)
    have "set (link_refs t) \<subseteq> live t" using t(1) by (simp add: eng_inv_def)
    then show "set (link_refs s') \<subseteq> live t"
      using table_refs_update [of n "\<lparr>app_obj = x, conf = c, app_input = [], app_output = []\<rparr>" "app_table t"]
      by (auto simp: set_link_refs s' app_refs_def)
  qed
  moreover have "own_at owns s' m \<inter> own_at owns s' k = {}" if "m \<noteq> k" for m k
    using that inv t(2) unfolding own net_inv_def owned_def by auto
  ultimately have "net_inv os owns s'" by (simp add: net_inv_def)
  then show ?thesis by (auto simp: s' tab inst_of_def fun_eq_iff)
qed

lemma stop_app_ok:
  assumes inv: "net_inv os owns s" and run: "stop_app h A n s = Inr s'"
  shows "net_inv os owns s' \<and> inst_of s' = (inst_of s)(n := None) \<and> link_table s' = link_table s"
proof -
  obtain a where a: "map_of (app_table s) n = Some a"
    using run by (auto simp: stop_app_def res_simps)
  define t where "t = s\<lparr>app_table := AList.delete n (app_table s)\<rparr>"
  obtain u where u: "(if op_has_stop A (app_obj a) then op_stop A (app_obj a) t else Inr t) = Inr u"
    and rel: "release_links h u = Inr s'"
    using run unfolding stop_app_def Let_def a unwrap_simps bind_res_simps t_def [symmetric]
    by (auto simp: bind_res_eq_Inr)
  have own: "own_at owns s n = owns (app_obj a)" using a by (simp add: own_at_def)
  note sp = net_inv_split [OF inv, of n, unfolded own]
  have t: "eng_inv os (owns (app_obj a) \<union> others owns s n) t"
  proof (rule eng_inv_retable [OF _ sp(1)])
    show "pcore t = pcore s" by (simp add: pcore_def t_def source_part_def)
    show "set (link_refs t) \<subseteq> live s"
      using inv table_refs_delete [of n "app_table s"]
      by (auto simp: set_link_refs t_def net_inv_def eng_inv_def)
  qed
  have u': "eng_inv os (others owns s n) u \<and> eng_frame t u"
    using u t sp(2) stop_ok [OF t sp(2)] no_stop [of "app_obj a"] by (auto split: if_splits)
  then have tab: "app_table u = AList.delete n (app_table s)" "link_table u = link_table s"
    by (simp_all add: eng_frame_def t_def)
  have ownu: "own_at owns u m = (if m = n then {} else own_at owns s m)" for m
    by (simp add: own_at_def tab)
  have "owned owns u = others owns s n" by (auto simp: owned_def others_def ownu split: if_splits)
  then have "net_inv os owns u" using u' inv by (auto simp: net_inv_def ownu)
  then have "net_inv os owns s' \<and> link_table s' = link_table u \<and> app_table s' = app_table u"
    using net_release [of os owns u h] rel by auto
  then show ?thesis by (auto simp: tab inst_of_def fun_eq_iff)
qed

section \<open>The phases of configure\<close>

lemma unlink_phase:
  assumes "fold_res (unlink_step L) ls s = Inr s'"
    and "net_inv os owns s"
  shows "net_inv os owns s' \<and> inst_of s' = inst_of s \<and>
    map_of (link_table s') = (\<lambda>l. if l \<in> set ls \<and> l \<notin> L then None else map_of (link_table s) l)"
  using assms
proof (induction ls arbitrary: s)
  case Nil
  then show ?case by simp
next
  case (Cons l ls)
  then obtain t where t: "(if l \<in> L then Inr s else unlink_apps l s) = Inr t"
    and rest: "fold_res (unlink_step L) ls t = Inr s'"
    by (auto simp: res_simps)
  have "net_inv os owns t \<and> inst_of t = inst_of s \<and>
      map_of (link_table t) = (if l \<in> L then map_of (link_table s) else (map_of (link_table s))(l := None))"
    using t Cons.prems(2) unlink_apps_ok [of os owns s l t] by (auto split: if_splits)
  then show ?case using Cons.IH [OF rest] by (auto simp: fun_eq_iff)
qed

lemma stop_phase:
  assumes "fold_res (stop_step h A cs) ns s = Inr s'"
    and "net_inv os owns s"
  shows "net_inv os owns s' \<and> link_table s' = link_table s \<and>
    inst_of s' = (\<lambda>n. if n \<in> set ns \<and> \<not> keeps A cs (inst_of s) n then None else inst_of s n)"
  using assms
proof (induction ns arbitrary: s)
  case Nil
  then show ?case by simp
next
  case (Cons n ns)
  let ?f = "stop_step h A cs"
  obtain t where t: "?f n s = Inr t" and rest: "fold_res ?f ns t = Inr s'"
    using Cons.prems(1) by (auto simp: res_simps)
  obtain old where old: "map_of (app_table s) n = Some old" using t by (auto simp: res_simps)
  have inst: "inst_of s n = Some (conf old, app_obj old)" by (simp add: inst_of_def old)
  have step: "net_inv os owns t \<and> link_table t = link_table s \<and>
      inst_of t = (if keeps A cs (inst_of s) n then inst_of s else (inst_of s)(n := None))"
    using t Cons.prems(2) stop_app_ok [OF Cons.prems(2), of h n t]
    by (auto simp: old inst keeps_def split: option.splits if_splits)
  have k: "keeps A cs (inst_of t) m = keeps A cs (inst_of s) m" for m
    using step by (auto simp: keeps_def split: if_splits)
  show ?case
    using Cons.IH [OF rest] step unfolding k by (auto simp: fun_eq_iff)
qed

lemma start_phase:
  assumes "fold_res (start_step A cs) ns s = Inr s'"
    and "net_inv os owns s"
  shows "net_inv os owns s' \<and> link_table s' = link_table s \<and>
    (\<forall>n. inst_of s n \<noteq> None \<or> n \<notin> set ns \<longrightarrow> inst_of s' n = inst_of s n) \<and>
    (\<forall>n \<in> set ns. inst_of s n = None \<longrightarrow> (\<exists>x. inst_of s' n = Some (the (map_of cs n), x)))"
  using assms
proof (induction ns arbitrary: s)
  case Nil
  then show ?case by simp
next
  case (Cons n ns)
  let ?f = "start_step A cs"
  obtain t where t: "?f n s = Inr t" and rest: "fold_res ?f ns t = Inr s'"
    using Cons.prems(1) by (auto simp: res_simps)
  have none: "map_of (app_table s) n = None \<longleftrightarrow> inst_of s n = None" by (simp add: inst_of_def)
  have step: "net_inv os owns t \<and> link_table t = link_table s \<and>
      (\<forall>m. m \<noteq> n \<longrightarrow> inst_of t m = inst_of s m) \<and> (inst_of s n \<noteq> None \<longrightarrow> inst_of t n = inst_of s n) \<and>
      (inst_of s n = None \<longrightarrow> (\<exists>x. inst_of t n = Some (the (map_of cs n), x)))"
    using t Cons.prems(2) start_app_ok [OF Cons.prems(2), of n "the (map_of cs n)" t] none
    by (auto split: if_splits)
  have ih: "net_inv os owns s' \<and> link_table s' = link_table t \<and>
      (\<forall>n. inst_of t n \<noteq> None \<or> n \<notin> set ns \<longrightarrow> inst_of s' n = inst_of t n) \<and>
      (\<forall>n \<in> set ns. inst_of t n = None \<longrightarrow> (\<exists>x. inst_of s' n = Some (the (map_of cs n), x)))"
    using Cons.IH [OF rest] step by blast
  show ?case
    using ih step by (auto simp: all_conj_distrib) (metis option.distinct(1))+
qed

lemma link_phase:
  assumes "fold_res (link_apps h) ls s = Inr s'" and "net_inv os owns s"
  shows "net_inv os owns s' \<and> inst_of s' = inst_of s \<and> link_names s' = set ls \<union> link_names s \<and>
    (\<forall>l. map_of (link_table s) l \<noteq> None \<longrightarrow> map_of (link_table s') l = map_of (link_table s) l)"
  using assms
proof (induction ls arbitrary: s)
  case Nil
  then show ?case by simp
next
  case (Cons l ls)
  then obtain t where t: "link_apps h l s = Inr t" and rest: "fold_res (link_apps h) ls t = Inr s'"
    by (auto simp: res_simps)
  note step = link_apps_ok [OF Cons.prems(2) t]
  have "net_inv os owns s' \<and> inst_of s' = inst_of t \<and> link_names s' = set ls \<union> link_names t \<and>
      (\<forall>l. map_of (link_table t) l \<noteq> None \<longrightarrow> map_of (link_table s') l = map_of (link_table t) l)"
    using Cons.IH [OF rest] step by blast
  then show ?case using step by auto
qed

lemma link_names_dom: "link_names s = dom (map_of (link_table s))"
  by (simp add: link_names_def dom_map_of_conv_image_fst)

lemma keys_app_table: "set (keys_of (app_table s)) = dom (inst_of s)"
proof -
  have "n \<in> set (keys_of (app_table s)) \<longleftrightarrow> inst_of s n \<noteq> None" for n
    using map_of_eq_None_keys [of "app_table s" n] by (simp add: inst_of_def)
  then show ?thesis by (simp only: dom_def set_eq_iff mem_Collect_eq simp_thms)
qed

text \<open>The apps and the links after \<open>configure\<close>, phase by phase.\<close>

lemma configure_tables:
  assumes inv: "net_inv os owns s" and run: "configure h A config s = Inr s'"
  shows "net_inv os owns s'"
    and "keeps A (apps config) (inst_of s) n \<Longrightarrow> inst_of s' n = inst_of s n"
    and "\<not> keeps A (apps config) (inst_of s) n \<Longrightarrow> n \<in> set (keys_of (apps config)) \<Longrightarrow>
      \<exists>x. inst_of s' n = Some (the (map_of (apps config) n), x)"
    and "n \<notin> set (keys_of (apps config)) \<Longrightarrow> inst_of s' n = None"
    and "link_names s' = set (links config)"
    and "l \<in> set (links config) \<Longrightarrow> map_of (link_table s) l \<noteq> None \<Longrightarrow>
      map_of (link_table s') l = map_of (link_table s) l"
proof -
  let ?cs = "apps config"
  from run obtain s1 s2 s3 s4 s5 where
    r1: "fold_res (unlink_step (set (links config))) (link_iter h (keys_of (link_table s))) s = Inr s1"
    and r2: "release_links h s1 = Inr s2"
    and r3: "fold_res (stop_step h A ?cs) (app_iter h (keys_of (app_table s2))) s2 = Inr s3"
    and r4: "fold_res (start_step A ?cs) (conf_app_iter h (keys_of ?cs)) s3 = Inr s4"
    and r5: "fold_res (link_apps h) (conf_link_iter h (links config)) s4 = Inr s5"
    and r6: "compute_breathe_order h A s5 = Inr s'"
    by (rule configure_phases)
  have p1: "net_inv os owns s1" "inst_of s1 = inst_of s"
    "map_of (link_table s1) = (\<lambda>l. if l \<in> link_names s \<and> l \<notin> set (links config) then None
       else map_of (link_table s) l)"
    using unlink_phase [OF r1 inv] by (simp_all add: link_names_def)
  have p2: "net_inv os owns s2" "inst_of s2 = inst_of s" "link_table s2 = link_table s1"
    using net_release [OF p1(1), of h] r2 p1(2) by (auto simp: inst_of_def fun_eq_iff)
  note st = stop_phase [OF r3 p2(1)]
  have "n \<notin> set (app_iter h (keys_of (app_table s2))) \<Longrightarrow> inst_of s n = None" for n
    using keys_app_table [of s2] p2(2) by (auto simp del: set_map)
  then have p3: "inst_of s3 = (\<lambda>n. if \<not> keeps A ?cs (inst_of s) n then None else inst_of s n)"
    using st unfolding p2(2) by (auto simp del: set_map hash_order_set)
  have p4: "net_inv os owns s4" "link_table s4 = link_table s1"
    "\<forall>n. inst_of s3 n \<noteq> None \<or> n \<notin> set (keys_of ?cs) \<longrightarrow> inst_of s4 n = inst_of s3 n"
    "\<forall>n \<in> set (keys_of ?cs). inst_of s3 n = None \<longrightarrow> (\<exists>x. inst_of s4 n = Some (the (map_of ?cs n), x))"
    using start_phase [OF r4] st p2(3) by (simp_all del: set_map)
  have p5: "net_inv os owns s5" "inst_of s5 = inst_of s4"
    "link_names s5 = set (links config) \<union> link_names s4"
    "\<forall>l. map_of (link_table s4) l \<noteq> None \<longrightarrow> map_of (link_table s5) l = map_of (link_table s4) l"
    using link_phase [OF r5 p4(1)] by simp_all
  obtain inh exh where s': "s' = s5\<lparr>inhale := inh, exhale := exh\<rparr>"
    by (rule compute_breathe_order_effect [OF r6])
  show "net_inv os owns s'"
    using p5(1) core_cong [of s' s5 os owns] by (simp add: s' core_def source_part_def)
  have inst: "inst_of s' = inst_of s4" "link_table s' = link_table s5"
    using p5(2) by (simp_all add: s' inst_of_def fun_eq_iff)
  show "inst_of s' n = inst_of s n" if "keeps A ?cs (inst_of s) n"
    using that p4(3) p3 inst by (auto simp: keeps_def)
  show "\<exists>x. inst_of s' n = Some (the (map_of ?cs n), x)"
    if "\<not> keeps A ?cs (inst_of s) n" "n \<in> set (keys_of ?cs)"
    using that p4(4) p3 inst by auto
  show "inst_of s' n = None" if "n \<notin> set (keys_of ?cs)"
    using that p4(3) p3 inst map_of_eq_None_keys [of ?cs n] by (auto simp: keeps_def)
  show "link_names s' = set (links config)"
    using p5(3) p4(2) p1(3) inst(2) by (auto simp: link_names_dom dom_def split: if_splits)
  show "map_of (link_table s') l = map_of (link_table s) l"
    if "l \<in> set (links config)" "map_of (link_table s) l \<noteq> None"
    using that p5(4) p4(2) p1(3) inst(2) by auto
qed

text \<open>
  After \<open>configure\<close>: the apps are those of the configuration, each with an argument equal to
  the configured one; apps whose argument did not change were not touched; the links are those of
  the configuration, and links that were there before are the same links still.
\<close>

lemma configure_ok:
  assumes inv: "net_inv os owns s" and run: "configure h A config s = Inr s'"
  shows "net_inv os owns s' \<and> dom (inst_of s') = set (keys_of (apps config)) \<and>
    (\<forall>n c x. inst_of s' n = Some (c, x) \<longrightarrow> (\<exists>c'. map_of (apps config) n = Some c' \<and> arg_equal A c c')) \<and>
    (\<forall>n. keeps A (apps config) (inst_of s) n \<longrightarrow> inst_of s' n = inst_of s n) \<and>
    link_names s' = set (links config) \<and>
    (\<forall>l \<in> set (links config). map_of (link_table s) l \<noteq> None \<longrightarrow>
       map_of (link_table s') l = map_of (link_table s) l)"
proof -
  let ?cs = "apps config"
  note tabs = configure_tables [OF inv run]
  have key: "n \<in> set (keys_of ?cs) \<longleftrightarrow> map_of ?cs n \<noteq> None" for n
    using map_of_eq_None_keys [of ?cs n] by auto
  have "inst_of s' n \<noteq> None \<longleftrightarrow> n \<in> set (keys_of ?cs)" for n
  proof (cases "keeps A ?cs (inst_of s) n")
    case True
    then show ?thesis using tabs(2) [OF True] key [of n] by (auto simp: keeps_def)
  next
    case False
    then show ?thesis
      using tabs(3) [OF False] tabs(4) [of n] by (cases "n \<in> set (keys_of ?cs)") (auto simp del: set_map)
  qed
  then have "dom (inst_of s') = set (keys_of ?cs)"
    by (simp only: dom_def set_eq_iff mem_Collect_eq simp_thms)
  moreover have "\<exists>c'. map_of ?cs n = Some c' \<and> arg_equal A c c'" if "inst_of s' n = Some (c, x)" for n c x
  proof (cases "keeps A ?cs (inst_of s) n")
    case True
    then show ?thesis using tabs(2) [OF True] that by (auto simp: keeps_def)
  next
    case False
    then show ?thesis using tabs(3) [OF False] tabs(4) [of n] that key [of n] by (auto simp: arg_equal_def)
  qed
  ultimately show ?thesis using tabs by blast
qed

end

end
