(* ===== verification/Rush_Basic_Apps_Correct.thy ===== *)
theory Rush_Basic_Apps_Correct
  imports Rush_Engine_Configure
begin

text \<open>
  Source, Sink and Tee keep the contract of the engine, and what each of them does to its links:
  Source fills its outputs, Sink empties its inputs and frees every packet, Tee empties its inputs
  onto all its outputs.
\<close>

section \<open>Walking over ports\<close>

lemma for_ports_invariant:
  assumes "\<And>i s s'. i \<in> snd ` set ports \<Longrightarrow> P s \<Longrightarrow> f i s = Inr s' \<Longrightarrow> P s'"
    and "P s" and "for_ports h f ports s = Inr s'"
  shows "P s'"
proof (rule fold_res_invariant [where P = P, OF _ assms(2) assms(3) [unfolded for_ports_def]])
  fix port t t'
  assume port: "port \<in> set (port_iter h (keys_of ports))" and t: "P t" "f (the (map_of ports port)) t = Inr t'"
  obtain i where i: "map_of ports port = Some i"
    using port map_of_eq_None_keys [of ports port] by auto
  then have "i \<in> snd ` set ports" by (force dest: map_of_SomeD)
  then show "P t'" using assms(1) t i by simp
qed

lemma for_ports_total:
  assumes "\<And>i s. i \<in> snd ` set ports \<Longrightarrow> P s \<Longrightarrow> \<exists>s'. f i s = Inr s' \<and> P s'" and "P s"
  shows "\<exists>s'. for_ports h f ports s = Inr s' \<and> P s'"
  unfolding for_ports_def
proof (rule fold_res_total [where P = P, OF _ assms(2)])
  fix port t
  assume port: "port \<in> set (port_iter h (keys_of ports))" and t: "P t"
  obtain i where i: "map_of ports port = Some i"
    using port map_of_eq_None_keys [of ports port] by auto
  then have "i \<in> snd ` set ports" by (force dest: map_of_SomeD)
  then show "\<exists>t'. f (the (map_of ports port)) t = Inr t' \<and> P t'" using assms(1) t i by simp
qed

section \<open>Source\<close>

lemma source_packet_ok:
  assumes inv: "eng_inv (env_os E) Y s" and run: "source_packet E sz s = Inr (p, s')"
  shows "eng_inv (env_os E) (insert p Y) s' \<and> p \<notin> Y \<and> eng_frame s s' \<and> fifo_at s' = fifo_at s \<and>
    plen (heap s' p) = sz \<and>
    (\<forall>i < min (unat sz) PAYLOAD_SIZE. pdata (heap s' p) ! i = 0) \<and>
    (\<forall>q \<in> on_links s \<union> Y. heap s' q = heap s q) \<and> STATS s' = STATS s"
proof -
  obtain t where t: "allocate (env_os E) s = Inr (p, t)"
    and s': "s' = t\<lparr>heap := (heap t)(p := (heap t p)\<lparr>
      pdata := fill (pdata (heap t p)) (ucast sz) 0, plen := sz\<rparr>)\<rparr>"
    using run by (auto simp: source_packet_def res_simps Let_def)
  note a = eng_allocate [OF inv t]
  have len: "length (pdata (heap t p)) = PAYLOAD_SIZE" using a eng_payload by blast
  have w: "eng_inv (env_os E) (insert p Y) s' \<and> eng_frame t s'"
    unfolding s' by (rule eng_write) (use a len in auto)
  have "fifo_at s' = fifo_at t" by (simp add: s' fifo_at_def fun_eq_iff)
  moreover have "\<forall>i < min (unat sz) PAYLOAD_SIZE. pdata (heap s' p) ! i = 0"
    using len by (auto simp: s' fill_nth)
  ultimately show ?thesis
    using a w eng_frame_trans [of s t s'] by (auto simp: s')
qed

lemma source_port_ok:
  assumes "repeat_res n (\<lambda>s. bind_res (source_packet E sz s) (\<lambda>(p, s). transmit_on i p s)) s = Inr s'"
    and "eng_inv (env_os E) Y s" and "i \<in> live s"
  shows "eng_inv (env_os E) Y s' \<and> eng_frame s s' \<and>
    (\<exists>ps. length ps = min n (LINK_MAX_PACKETS - length (fifo_at s i)) \<and>
       fifo_at s' = (fifo_at s)(i := fifo_at s i @ ps) \<and> (\<forall>p \<in> set ps. plen (heap s' p) = sz)) \<and>
    (\<forall>q \<in> on_links s \<union> Y. heap s' q = heap s q) \<and>
    (length (fifo_at s i) + n \<le> LINK_MAX_PACKETS \<longrightarrow> STATS s' = STATS s)"
  using assms
proof (induction n arbitrary: s)
  case 0
  then show ?case by (auto intro!: exI [of _ "[]"])
next
  case (Suc n)
  obtain p t u where t: "source_packet E sz s = Inr (p, t)" and u: "transmit_on i p t = Inr u"
    and rest: "repeat_res n (\<lambda>s. bind_res (source_packet E sz s) (\<lambda>(p, s). transmit_on i p s)) u = Inr s'"
    using Suc.prems(1) by (auto simp: res_simps)
  note a = source_packet_ok [OF Suc.prems(2) t]
  have it: "i \<in> live t" using a Suc.prems(3) by (simp add: eng_frame_def)
  have inv': "eng_inv (env_os E) (insert p Y) t" using a by simp
  let ?room = "length (fifo_at s i) < LINK_MAX_PACKETS"
  have b: "eng_inv (env_os E) Y u" "eng_frame t u"
    "fifo_at u = (fifo_at s)(i := if ?room then fifo_at s i @ [p] else fifo_at s i)"
    "\<forall>q. q \<noteq> p \<longrightarrow> heap u q = heap t q" "?room \<longrightarrow> heap u = heap t" "?room \<longrightarrow> STATS u = STATS t"
    using eng_transmit [OF inv' _ it] a u by auto
  have iu: "i \<in> live u" using b(2) it by (simp add: eng_frame_def)
  obtain ps where c: "eng_inv (env_os E) Y s'" "eng_frame u s'"
    "length ps = min n (LINK_MAX_PACKETS - length (fifo_at u i))"
    "fifo_at s' = (fifo_at u)(i := fifo_at u i @ ps)" "\<forall>q \<in> set ps. plen (heap s' q) = sz"
    "\<forall>q \<in> on_links u \<union> Y. heap s' q = heap u q"
    "length (fifo_at u i) + n \<le> LINK_MAX_PACKETS \<longrightarrow> STATS s' = STATS u"
    using Suc.IH [OF rest b(1) iu] by blast
  have p: "p \<notin> on_links s \<union> Y" using inv' a by (auto simp: eng_inv_def on_links_def)
  have old: "on_links s \<subseteq> on_links u" unfolding on_links_def by (auto simp: b(3))
  have keep: "\<forall>q \<in> on_links s \<union> Y. heap s' q = heap s q"
  proof
    fix q
    assume q: "q \<in> on_links s \<union> Y"
    then have "heap s' q = heap u q" using c(6) old by blast
    moreover have "heap u q = heap t q" using b(4) p q by auto
    ultimately show "heap s' q = heap s q" using a q by simp
  qed
  have fr: "eng_frame s s'" using a b(2) c(2) eng_frame_trans by blast
  show ?case
  proof (cases ?room)
    case True
    have "p \<in> on_links u" unfolding on_links_def using True by (auto simp: b(3) intro!: exI [of _ i])
    then have "plen (heap s' p) = sz" using c(6) b(5) True a by simp
    then show ?thesis
      using c(1,3-5,7) keep fr b(3,6) True a by (intro conjI exI [of _ "p # ps"]) auto
  next
    case False
    then show ?thesis
      using c(1,3-5) keep fr b(3) by (intro conjI exI [of _ ps]) auto
  qed
qed

lemma source_pull_ok:
  assumes inv: "eng_inv (env_os E) Y s" and live: "snd ` set (app_output a) \<subseteq> live s"
    and run: "source_pull E sz a s = Inr s'"
  shows "eng_inv (env_os E) Y s' \<and> eng_frame s s'"
proof (rule for_ports_invariant [of "app_output a" "\<lambda>t. eng_inv (env_os E) Y t \<and> eng_frame s t",
      OF _ _ run [unfolded source_pull_def]])
  fix i t t'
  assume i: "i \<in> snd ` set (app_output a)" and t: "eng_inv (env_os E) Y t \<and> eng_frame s t"
    and run: "repeat_res PULL_NPACKETS
      (\<lambda>s. bind_res (source_packet E sz s) (\<lambda>(p, s). transmit_on i p s)) t = Inr t'"
  have "i \<in> live t" using i live t by (auto simp: eng_frame_def)
  then show "eng_inv (env_os E) Y t' \<and> eng_frame s t'"
    using source_port_ok [OF run, of Y] t eng_frame_trans [of s t t'] by simp
qed (simp add: inv)

text \<open>Without root rights, Source cannot run out of packets before the limit.\<close>

definition heap_user :: "os \<Rightarrow> bool" where
  "heap_user os \<longleftrightarrow> os_uid os \<noteq> 0 \<and> (\<forall>i < PACKET_LIMIT. os_box os i \<noteq> None)"

lemma source_packet_total:
  assumes "eng_inv (env_os E) Y s" and "heap_user (env_os E)" and "card (on_links s \<union> Y) < PACKET_LIMIT"
  shows "\<exists>p s'. source_packet E sz s = Inr (p, s')"
proof -
  have "pkt_inv (env_os E) (on_links s \<union> Y) s" using assms(1) by (simp add: eng_inv_def)
  then obtain p t where "allocate (env_os E) s = Inr (p, t)"
    using allocate_noroot [of "env_os E" _ s] assms(2,3) unfolding heap_user_def by blast
  then show ?thesis by (simp add: source_packet_def Let_def)
qed

lemma source_port_total:
  assumes "eng_inv (env_os E) Y s" and "heap_user (env_os E)" and "i \<in> live s"
    and "card (on_links s \<union> Y) + n \<le> PACKET_LIMIT"
  shows "\<exists>s'. repeat_res n (\<lambda>s. bind_res (source_packet E sz s) (\<lambda>(p, s). transmit_on i p s)) s = Inr s'"
  using assms
proof (induction n arbitrary: s)
  case 0
  then show ?case by simp
next
  case (Suc n)
  obtain p t where t: "source_packet E sz s = Inr (p, t)"
    using source_packet_total [OF Suc.prems(1,2), of sz] Suc.prems(4) by auto
  note a = source_packet_ok [OF Suc.prems(1) t]
  have it: "i \<in> live t" using a Suc.prems(3) by (simp add: eng_frame_def)
  have inv': "eng_inv (env_os E) (insert p Y) t" using a by simp
  then obtain u where u: "transmit_on i p t = Inr u" "eng_inv (env_os E) Y u" "eng_frame t u"
    "fifo_at u = (fifo_at s)(i := if length (fifo_at s i) < LINK_MAX_PACKETS then fifo_at s i @ [p] else fifo_at s i)"
    using eng_transmit [OF inv' _ it] a by auto
  have sub: "on_links u \<union> Y \<subseteq> insert p (on_links s \<union> Y)"
    unfolding on_links_def by (auto simp: u(4) split: if_splits)
  have fin: "finite (on_links s \<union> Y)"
    using Suc.prems(1) by (simp add: eng_inv_def pkt_inv_def pool_def)
  have "card (on_links u \<union> Y) \<le> Suc (card (on_links s \<union> Y))"
    using card_mono [OF _ sub] fin by (simp add: card_insert_if split: if_splits)
  then have "card (on_links u \<union> Y) + n \<le> PACKET_LIMIT" using Suc.prems(4) by simp
  moreover have "i \<in> live u" using it u(3) by (simp add: eng_frame_def)
  ultimately show ?case using Suc.IH [OF u(2) Suc.prems(2)] t u(1) by simp
qed

section \<open>Sink\<close>

lemma sink_drain_ok:
  assumes "eng_inv os Y s" and "i \<in> live s" and "length (fifo_at s i) \<le> fuel"
  shows "\<exists>s'. sink_drain fuel i s = Inr s' \<and> eng_inv os Y s' \<and> eng_frame s s' \<and>
    fifo_at s' = (fifo_at s)(i := []) \<and>
    frees (STATS s') = frees (STATS s) + of_nat (length (fifo_at s i))"
  using assms
proof (induction fuel arbitrary: s)
  case 0
  obtain r where "link_at i s = Inr r" "link_wf r" "fifo_at s i = link_fifo r"
    using eng_link_at [OF 0(1,2)] by blast
  then show ?case using 0 empty_iff [of r] by (auto simp: fun_eq_iff simp del: length_link_fifo)
next
  case (Suc fuel)
  obtain r where r: "link_at i s = Inr r" "link_wf r" "fifo_at s i = link_fifo r"
    using eng_link_at [OF Suc.prems(1,2)] by blast
  show ?case
  proof (cases "fifo_at s i")
    case Nil
    then show ?thesis using Suc.prems r empty_iff [of r] by (auto simp: fun_eq_iff)
  next
    case (Cons p ps)
    obtain t where t: "receive_on i s = Inr (p, t)" "eng_inv os (insert p Y) t" "p \<notin> Y" "eng_frame s t"
      "fifo_at t = (fifo_at s)(i := ps)" "STATS t = STATS s"
      using eng_receive [OF Suc.prems(1,2) Cons] by blast
    obtain u where u: "free p t = Inr u" "eng_inv os Y u" "eng_frame t u" "fifo_at u = fifo_at t"
      "STATS u = counted (plen (heap t p)) (STATS t)"
      using eng_free [OF t(2,3)] by blast
    have iu: "i \<in> live u" "length (fifo_at u i) \<le> fuel"
      using Suc.prems(2,3) t u Cons by (auto simp: eng_frame_def)
    obtain s' where s': "sink_drain fuel i u = Inr s'" "eng_inv os Y s'" "eng_frame u s'"
      "fifo_at s' = (fifo_at u)(i := [])"
      "frees (STATS s') = frees (STATS u) + of_nat (length (fifo_at u i))"
      using Suc.IH [OF u(2) iu] by blast
    have "\<not> empty r" using empty_iff [OF r(2)] r(3) Cons by auto
    then have "sink_drain (Suc fuel) i s = Inr s'" using r(1) t(1) u(1) s'(1) by simp
    moreover have "eng_frame s s'" using t(4) u(3) s'(3) eng_frame_trans by blast
    ultimately show ?thesis
      using s' u t Cons by (intro exI [of _ s']) (simp add: counted_def algebra_simps)
  qed
qed

lemma fifo_at_bound: "length (fifo_at s i) \<le> LINK_RING_SIZE"
  using link_count_bound by (auto simp: fifo_at_def LINK_MAX_PACKETS_def split: option.splits
      intro: le_trans [OF _ diff_le_self])

lemma sink_push_ok:
  assumes inv: "eng_inv os Y s" and live: "snd ` set (app_input a) \<subseteq> live s"
  shows "\<exists>s'. sink_push E a s = Inr s' \<and> eng_inv os Y s' \<and> eng_frame s s'"
proof -
  have "\<exists>s'. sink_push E a s = Inr s' \<and> (eng_inv os Y s' \<and> eng_frame s s')"
    unfolding sink_push_def
  proof (rule for_ports_total)
    fix i t
    assume i: "i \<in> snd ` set (app_input a)" and t: "eng_inv os Y t \<and> eng_frame s t"
    have "i \<in> live t" using i live t by (auto simp: eng_frame_def)
    from sink_drain_ok [OF _ this fifo_at_bound, of os Y]
    show "\<exists>t'. sink_drain LINK_RING_SIZE i t = Inr t' \<and> eng_inv os Y t' \<and> eng_frame s t'"
      using t eng_frame_trans by blast
  qed (simp add: inv)
  then show ?thesis by simp
qed

section \<open>Tee\<close>

text \<open>One output: a copy of the packet goes on the link, or is dropped if that is full.\<close>

definition same_payload :: "packet \<Rightarrow> packet \<Rightarrow> bool" where
  "same_payload x y \<longleftrightarrow>
     plen x = plen y \<and> (\<forall>i < min (unat (plen y)) PAYLOAD_SIZE. pdata x ! i = pdata y ! i)"

lemma tee_output_ok:
  assumes inv: "eng_inv (env_os E) (insert p Y) s" and p: "p \<notin> Y" and i: "i \<in> live s"
    and run: "tee_output E inp p i s = Inr s'"
  shows "i \<noteq> inp \<and> eng_inv (env_os E) (insert p Y) s' \<and> eng_frame s s' \<and> heap s' p = heap s p \<and>
    (if length (fifo_at s i) < LINK_MAX_PACKETS
     then \<exists>c. fifo_at s' = (fifo_at s)(i := fifo_at s i @ [c]) \<and> same_payload (heap s' c) (heap s p)
     else fifo_at s' = fifo_at s)"
proof -
  obtain c t where ne: "i \<noteq> inp" and t: "clone (env_os E) p s = Inr (c, t)"
    and u: "transmit_on i c t = Inr s'"
    using run by (auto simp: tee_output_def res_simps split: if_splits)
  note a = eng_clone [OF inv _ t]
  have it: "i \<in> live t" using a i by (simp add: eng_frame_def)
  have inv': "eng_inv (env_os E) (insert c (insert p Y)) t" and cn: "c \<notin> insert p Y" using a by auto
  have b: "eng_inv (env_os E) (insert p Y) s'" "eng_frame t s'"
    "fifo_at s' = (fifo_at t)(i := if length (fifo_at t i) < LINK_MAX_PACKETS
      then fifo_at t i @ [c] else fifo_at t i)" "\<forall>q. q \<noteq> c \<longrightarrow> heap s' q = heap t q"
    "length (fifo_at t i) < LINK_MAX_PACKETS \<longrightarrow> heap s' = heap t"
    using eng_transmit [OF inv' cn it] u by auto
  have "fifo_at t = fifo_at s" "heap t p = heap s p" using a by auto
  moreover have "same_payload (heap t c) (heap s p)" using a by (simp add: same_payload_def)
  moreover have "heap s' p = heap t p" using b(4) cn by auto
  moreover have "eng_frame s s'" using a b(2) eng_frame_trans by blast
  ultimately show ?thesis using ne b by (auto simp: fun_eq_iff)
qed

lemma tee_outputs_ok:
  assumes inv: "eng_inv (env_os E) (insert p Y) s" and p: "p \<notin> Y"
    and live: "snd ` set (app_output a) \<subseteq> live s"
    and run: "for_ports h (tee_output E inp p) (app_output a) s = Inr s'"
  shows "eng_inv (env_os E) (insert p Y) s' \<and> eng_frame s s' \<and> fifo_at s' inp = fifo_at s inp \<and>
    heap s' p = heap s p"
proof (rule for_ports_invariant [of "app_output a"
      "\<lambda>t. eng_inv (env_os E) (insert p Y) t \<and> eng_frame s t \<and> fifo_at t inp = fifo_at s inp \<and>
        heap t p = heap s p", OF _ _ run])
  fix i t t'
  assume i: "i \<in> snd ` set (app_output a)" and run: "tee_output E inp p i t = Inr t'"
    and t: "eng_inv (env_os E) (insert p Y) t \<and> eng_frame s t \<and> fifo_at t inp = fifo_at s inp \<and>
        heap t p = heap s p"
  have "i \<in> live t" using i live t by (auto simp: eng_frame_def)
  from tee_output_ok [OF _ p this run] t
  show "eng_inv (env_os E) (insert p Y) t' \<and> eng_frame s t' \<and> fifo_at t' inp = fifo_at s inp \<and>
      heap t' p = heap s p"
    using eng_frame_trans [of s t t'] by (auto split: if_splits)
qed (simp add: inv)

lemma tee_drain_ok:
  assumes "tee_drain fuel E a i s = Inr s'" and "eng_inv (env_os E) Y s" and "i \<in> live s"
    and "snd ` set (app_output a) \<subseteq> live s"
  shows "eng_inv (env_os E) Y s' \<and> eng_frame s s' \<and> fifo_at s' i = []"
  using assms
proof (induction fuel arbitrary: s)
  case 0
  obtain r where "link_at i s = Inr r" "link_wf r" "fifo_at s i = link_fifo r"
    using eng_link_at [OF 0(2,3)] by blast
  then show ?case using 0 empty_iff [of r] by (auto split: if_splits)
next
  case (Suc fuel)
  obtain r where r: "link_at i s = Inr r" "link_wf r" "fifo_at s i = link_fifo r"
    using eng_link_at [OF Suc.prems(2,3)] by blast
  show ?case
  proof (cases "fifo_at s i")
    case Nil
    then show ?thesis using Suc.prems r empty_iff [of r] by simp
  next
    case (Cons p ps)
    obtain t where t: "receive_on i s = Inr (p, t)" "eng_inv (env_os E) (insert p Y) t" "p \<notin> Y"
      "eng_frame s t"
      using eng_receive [OF Suc.prems(2,3) Cons] by blast
    have "\<not> empty r" using empty_iff [OF r(2)] r(3) Cons by auto
    then obtain u v where u: "for_ports (env_order E) (tee_output E i p) (app_output a) t = Inr u"
      and v: "free p u = Inr v" and rest: "tee_drain fuel E a i v = Inr s'"
      using Suc.prems(1) r(1) t(1) by (auto simp: res_simps)
    have tl: "snd ` set (app_output a) \<subseteq> live t" using t(4) Suc.prems(4) by (simp add: eng_frame_def)
    have u': "eng_inv (env_os E) (insert p Y) u" "eng_frame t u"
      using tee_outputs_ok [OF t(2,3) tl u] by simp_all
    have v': "eng_inv (env_os E) Y v" "eng_frame u v" using eng_free [OF u'(1) t(3)] v by auto
    have fr: "eng_frame s v" using t(4) u'(2) v'(2) eng_frame_trans by blast
    have "i \<in> live v" "snd ` set (app_output a) \<subseteq> live v"
      using Suc.prems(3,4) fr by (simp_all add: eng_frame_def)
    from Suc.IH [OF rest v'(1) this] show ?thesis using fr eng_frame_trans by blast
  qed
qed

lemma tee_push_ok:
  assumes inv: "eng_inv (env_os E) Y s" and live: "set (app_refs a) \<subseteq> live s"
    and run: "tee_push E a s = Inr s'"
  shows "eng_inv (env_os E) Y s' \<and> eng_frame s s'"
proof (rule for_ports_invariant [of "app_input a" "\<lambda>t. eng_inv (env_os E) Y t \<and> eng_frame s t",
      OF _ _ run [unfolded tee_push_def]])
  fix i t t'
  assume i: "i \<in> snd ` set (app_input a)" and t: "eng_inv (env_os E) Y t \<and> eng_frame s t"
    and run: "tee_drain LINK_RING_SIZE E a i t = Inr t'"
  have "i \<in> live t" "snd ` set (app_output a) \<subseteq> live t"
    using i live t by (auto simp: eng_frame_def app_refs_def)
  from tee_drain_ok [OF run _ this] show "eng_inv (env_os E) Y t' \<and> eng_frame s t'"
    using t eng_frame_trans [of s t t'] by blast
qed (simp add: inv)

section \<open>The contract\<close>

text \<open>None of the basic apps holds a packet between callbacks.\<close>

definition basic_owns :: "basic_app \<Rightarrow> ptr set" where
  "basic_owns x = {}"

interpretation basic: app_contract "basic_ops E" "env_os E" basic_owns for E
proof unfold_locales
  fix a :: basic_state and Y x and s s' :: basic_eng
  assume inv: "eng_inv (env_os E) (basic_owns (app_obj a) \<union> Y) s" and live: "set (app_refs a) \<subseteq> live s"
  have inv': "eng_inv (env_os E) Y s" using inv by (simp add: basic_owns_def)
  have out: "snd ` set (app_output a) \<subseteq> live s" and inp: "snd ` set (app_input a) \<subseteq> live s"
    using live by (auto simp: app_refs_def)
  show "eng_inv (env_os E) (basic_owns x \<union> Y) s' \<and> basic_owns x \<inter> Y = {} \<and> eng_frame s s'"
    if "op_pull (basic_ops E) a s = Inr (x, s')"
    using that source_pull_ok [OF inv' out]
    by (auto simp: basic_ops_def basic_pull_def default_pull_def same_app_def res_simps basic_owns_def
        split: basic_app.splits)
  show "eng_inv (env_os E) (basic_owns x \<union> Y) s' \<and> basic_owns x \<inter> Y = {} \<and> eng_frame s s'"
    if "op_push (basic_ops E) a s = Inr (x, s')"
    using that sink_push_ok [OF inv' inp, of E] tee_push_ok [OF inv' live]
    by (auto simp: basic_ops_def basic_push_def default_push_def same_app_def res_simps basic_owns_def
        split: basic_app.splits)
qed (simp_all add: basic_ops_def default_report_def default_stop_def basic_owns_def)

end
