(* ===== verification/Rush_Network.thy ===== *)
theory Rush_Network
  imports Rush_Basic_Apps_Correct
begin

text \<open>
  Properties of the engine as a whole, with the basic apps as its apps, and instances of them on the
  network of the engine's own test.
\<close>

section \<open>The initial state\<close>

lemma net_inv_init:
  assumes "env_ok os" and "\<And>p. length (pdata (h p)) = PAYLOAD_SIZE"
  shows "net_inv os owns (eng_init h :: ('app, 'arg) eng)"
proof -
  let ?s = "eng_init h :: ('app, 'arg) eng"
  have src: "source_part ?s = source_part (pkt_init h)"
    by (simp add: eng_init_def pkt_init_def source_part_def pkt_state.defs)
  have "packet_ok os ?s" "packet_region os ?s = {}"
    using assms(1) by (auto simp: env_ok_def packet_ok_def root_ok_def noroot_ok_def mem_inv_def mem_wf_def
        packet_region_def root_region_def noroot_region_def eng_init_def pkt_init_def pkt_state.defs)
  moreover have "steps_ok ?s"
    by (auto simp: steps_ok_def eng_init_def pkt_init_def pkt_state.defs intro!: exI [of _ 0])
  ultimately have "pkt_inv os {} ?s"
    using assms(2) by (simp add: pkt_inv_def pool_def heap_wf_def FL_set_def)
      (simp add: eng_init_def pkt_init_def pkt_state.defs)
  then show ?thesis
    by (simp add: net_inv_def eng_inv_def owned_def own_at_def on_links_def fifo_at_def links_ok_def live_def
        link_refs_def) (simp add: eng_init_def pkt_init_def pkt_state.defs)
qed

section \<open>A network to run\<close>

definition sample_env :: env where
  "sample_env = \<lparr>env_os = sample_os, env_clk = (\<lambda>n. n), env_order = insertion_order\<rparr>"

abbreviation start_state :: basic_eng where
  "start_state \<equiv> eng_init zero_heap"

lemma start_inv: "net_inv sample_os basic_owns start_state"
  by (rule net_inv_init [OF sample_env_ok]) (simp add: zero_heap_def)

definition sample_config :: "basic_arg Config" where
  "sample_config =
     \<lparr>apps = [(''source'', Source 60), (''sink'', Sink)], links = [''source.output -> sink.input'']\<rparr>"

lemma parse_sample_link: "parse_link ''source.output -> sink.input'' =
    Inr \<lparr>from_app = ''source'', output_name = ''output'', to_app = ''sink'', input_name = ''input''\<rparr>"
proof -
  have "parse_link (format_link \<lparr>from_app = ''source'', output_name = ''output'', to_app = ''sink'',
      input_name = ''input''\<rparr>) = Inr \<lparr>from_app = ''source'', output_name = ''output'', to_app = ''sink'',
      input_name = ''input''\<rparr>"
    by (rule parse_format_link) (simp add: spec_ok_def name_ok_def is_word_char_def is_digit_def)
  then show ?thesis by (simp add: format_link_def)
qed

lemmas hash_simps = walk_def link_iter_def app_iter_def conf_app_iter_def conf_link_iter_def
  succ_iter_def port_iter_def drop_iter_def insertion_order_def

lemmas eng_init_simps = eng_init_def pkt_init_def pkt_state.defs

text \<open>The network after \<open>configure\<close>.\<close>

definition sample_net :: basic_eng where
  "sample_net = (start_state :: basic_eng)
     \<lparr>link_store := [(0, new_link)], next_link := 1, link_table := [(''source.output -> sink.input'', 0)],
      app_table :=
        [(''source'', \<lparr>app_obj = SourceApp 60, conf = Source 60, app_input = [], app_output = [(''output'', 0)]\<rparr>),
         (''sink'', \<lparr>app_obj = SinkApp, conf = Sink, app_input = [(''input'', 0)], app_output = []\<rparr>)],
      inhale := [''source''], exhale := [''sink'']\<rparr>"

lemma sample_configure:
  "configure insertion_order (basic_ops sample_env) sample_config start_state = Inr sample_net"
  by (simp add: configure_def sample_config_def hash_simps start_app_def basic_ops_def link_apps_def
      new_shared_link_def parse_sample_link set_output_def set_input_def release_links_def link_refs_def
      app_refs_def compute_breathe_order_def add_successor_def collect_dependents_def collect_one_def
      breathe_loop.simps delay_dependents_def delay_one_def remove_all_def sample_net_def eng_init_simps)

lemma sample_net_inv: "net_inv sample_os basic_owns sample_net"
  using basic.configure_ok [of sample_env start_state insertion_order sample_config sample_net]
    start_inv sample_configure by (simp add: sample_env_def)

section \<open>Configuring\<close>

text \<open>
  C1: \<open>configure\<close> brings the network to the configuration. Afterwards the apps are exactly
  those configured, each built from an equal argument; apps whose argument did not change are the
  same instances as before; the links are exactly those configured, and a link that was there before
  is the same link still; and every packet in use is on exactly one live link, so links that went away
  returned theirs. It holds from any well-formed network and for any iteration order of the tables.
\<close>

theorem configure_reaches_configuration:
  assumes "net_inv (env_os E) basic_owns s" and "configure h (basic_ops E) config s = Inr s'"
  shows "net_inv (env_os E) basic_owns s' \<and> dom (inst_of s') = set (keys_of (apps config)) \<and>
    (\<forall>n c x. inst_of s' n = Some (c, x) \<longrightarrow>
       (\<exists>c'. map_of (apps config) n = Some c' \<and> arg_equal (basic_ops E) c c')) \<and>
    (\<forall>n. keeps (basic_ops E) (apps config) (inst_of s) n \<longrightarrow> inst_of s' n = inst_of s n) \<and>
    link_names s' = set (links config) \<and>
    (\<forall>l \<in> set (links config). map_of (link_table s) l \<noteq> None \<longrightarrow>
       map_of (link_table s') l = map_of (link_table s) l)"
  using assms by (rule basic.configure_ok)

theorem configure_reaches_configuration_witness:
  "configure insertion_order (basic_ops sample_env) sample_config start_state = Inr sample_net \<and>
   dom (inst_of sample_net) = {''source'', ''sink''} \<and>
   link_names sample_net = {''source.output -> sink.input''}"
proof -
  have inv: "net_inv (env_os sample_env) basic_owns start_state" using start_inv by (simp add: sample_env_def)
  from configure_reaches_configuration [OF inv sample_configure] sample_configure
  show ?thesis by (simp add: sample_config_def)
qed

section \<open>Breathing\<close>

text \<open>
  C3: running the engine leaks no packet and duplicates none. After any breath of a well-formed
  network, every packet that was ever allocated is on the freelist or on exactly one link, and the
  three numbers add up.
\<close>

theorem breathe_conserves_packets:
  assumes "net_inv (env_os E) basic_owns s" and "breathe E (basic_ops E) s = Inr s'"
  shows "net_inv (env_os E) basic_owns s' \<and> net_frame s s' \<and>
    nfree s' + card (on_links s') = unat (PACKETS_ALLOCATED s') \<and> FL_set s' \<inter> on_links s' = {}"
proof -
  have b: "net_inv (env_os E) basic_owns s' \<and> net_frame s s'"
    using assms by (rule basic.breathe_inv)
  moreover have "owned basic_owns s' = {}"
    by (simp add: owned_def own_at_def basic_owns_def split: option.splits)
  ultimately have "pkt_inv (env_os E) (on_links s') s'" by (simp add: net_inv_def eng_inv_def)
  then show ?thesis using b by (simp add: pkt_inv_def pool_def)
qed


section \<open>The order of a breath\<close>


text \<open>
  The computation of the breathe order always ends with an order when every link joins two apps of
  the network, whatever cycles the links form.
\<close>

theorem breathe_order_exists:
  assumes "links_joined s"
  shows "\<exists>s'. compute_breathe_order h A s = Inr s'"
  using assms by (rule compute_breathe_order_total)

lemma sample_joined: "links_joined sample_net"
  by (simp add: links_joined_def sample_net_def parse_sample_link)

lemma sample_edges: "edges (set (keys_of (link_table sample_net))) = {(''source'', ''sink'')}"
  by (simp add: sample_net_def edges_insert [OF parse_sample_link]) (simp add: edges_def)


section \<open>A source and a sink\<close>

text \<open>The tables of a network with one Source and one Sink, with nothing on the link between them.\<close>

definition pipeline :: "u16 \<Rightarrow> basic_eng \<Rightarrow> bool" where
  "pipeline sz s \<longleftrightarrow>
     app_table s =
       [(''source'', \<lparr>app_obj = SourceApp sz, conf = Source sz, app_input = [], app_output = [(''output'', 0)]\<rparr>),
        (''sink'', \<lparr>app_obj = SinkApp, conf = Sink, app_input = [(''input'', 0)], app_output = []\<rparr>)] \<and>
     inhale s = [''source''] \<and> exhale s = [''sink''] \<and> live s = {0} \<and> on_links s = {}"

lemma walk_single [simp]: "walk f [x] = [x]"
  by (auto simp: walk_def)

lemma PULL_NPACKETS_eq: "PULL_NPACKETS = 102" "LINK_MAX_PACKETS = 1023"
  by (simp_all add: PULL_NPACKETS_def LINK_MAX_PACKETS_def LINK_RING_SIZE_def)

lemma fifo_dead: "i \<notin> live s \<Longrightarrow> fifo_at s i = []"
  by (auto simp: live_def fifo_at_def split: option.splits)

lemma fifo_empty: "on_links s = {} \<Longrightarrow> fifo_at s i = []"
  by (auto simp: on_links_def)

lemma pipeline_frame: "pipeline sz s \<Longrightarrow> eng_frame s s' \<Longrightarrow> on_links s' = {} \<Longrightarrow> pipeline sz s'"
  by (simp add: pipeline_def eng_frame_def)

text \<open>The source puts 102 packets on the link.\<close>

lemma pipeline_pull:
  assumes inv: "eng_inv (env_os E) {} s" and user: "heap_user (env_os E)" and pl: "pipeline sz s"
  shows "\<exists>t. call_app (op_pull (basic_ops E)) ''source'' s = Inr t \<and> eng_inv (env_os E) {} t \<and>
    eng_frame s t \<and> length (fifo_at t 0) = 102 \<and> (\<forall>j. j \<noteq> 0 \<longrightarrow> fifo_at t j = []) \<and> STATS t = STATS s"
proof -
  let ?a = "\<lparr>app_obj = SourceApp sz, conf = Source sz, app_input = [], app_output = [(''output'', 0)]\<rparr>"
  let ?f = "\<lambda>s. bind_res (source_packet E sz s) (\<lambda>(p, s). transmit_on 0 p s)"
  have live: "0 \<in> live s" and on: "on_links s = {}" using pl by (simp_all add: pipeline_def)
  have f0: "fifo_at s j = []" for j by (rule fifo_empty [OF on])
  obtain t where t: "repeat_res PULL_NPACKETS ?f s = Inr t"
    using source_port_total [OF inv user live, of PULL_NPACKETS sz] on
    by (auto simp: PULL_NPACKETS_eq PACKET_LIMIT_def)
  from source_port_ok [OF t inv live] obtain ps where ps: "eng_inv (env_os E) {} t" "eng_frame s t"
    "length ps = min PULL_NPACKETS (LINK_MAX_PACKETS - length (fifo_at s 0))"
    "fifo_at t = (fifo_at s)(0 := fifo_at s 0 @ ps)"
    "length (fifo_at s 0) + PULL_NPACKETS \<le> LINK_MAX_PACKETS \<longrightarrow> STATS t = STATS s" by blast
  have src: "source_pull E sz ?a s = Inr t"
    using t by (simp add: source_pull_def for_ports_def port_iter_def)
  have tab: "map_of (app_table s) ''source'' = Some ?a" using pl by (simp add: pipeline_def)
  have at: "app_table t = app_table s" using ps(2) by (simp add: eng_frame_def)
  have "call_app (op_pull (basic_ops E)) ''source'' s =
      Inr (t\<lparr>app_table := AList.update ''source'' ?a (app_table t)\<rparr>)"
    by (simp add: call_app_def tab basic_ops_def basic_pull_def same_app_def src)
  moreover have "AList.update ''source'' ?a (app_table t) = app_table t"
    using pl by (simp add: at pipeline_def)
  ultimately have "call_app (op_pull (basic_ops E)) ''source'' s = Inr t" by simp
  then show ?thesis
    using ps by (intro exI [of _ t]) (simp add: f0 PULL_NPACKETS_eq)
qed

text \<open>The sink frees them.\<close>

lemma pipeline_push:
  assumes inv: "eng_inv os {} t"
    and tab: "map_of (app_table t) ''sink'' =
      Some \<lparr>app_obj = SinkApp, conf = Sink, app_input = [(''input'', 0)], app_output = []\<rparr>"
    and live: "0 \<in> live t" and rest: "\<forall>j. j \<noteq> 0 \<longrightarrow> fifo_at t j = []"
    and same: "AList.update ''sink'' \<lparr>app_obj = SinkApp, conf = Sink, app_input = [(''input'', 0)],
      app_output = []\<rparr> (app_table t) = app_table t"
  shows "\<exists>u. call_app (op_push (basic_ops E)) ''sink'' t = Inr u \<and> eng_inv os {} u \<and>
    eng_frame t u \<and> on_links u = {} \<and>
    frees (STATS u) = frees (STATS t) + of_nat (length (fifo_at t 0))"
proof -
  let ?a = "\<lparr>app_obj = SinkApp, conf = Sink, app_input = [(''input'', 0)], app_output = []\<rparr>"
  obtain u where u: "sink_drain LINK_RING_SIZE 0 t = Inr u" "eng_inv os {} u" "eng_frame t u"
    "fifo_at u = (fifo_at t)(0 := [])"
    "frees (STATS u) = frees (STATS t) + of_nat (length (fifo_at t 0))"
    using sink_drain_ok [OF inv live fifo_at_bound] by blast
  have "sink_push E ?a t = Inr u"
    using u(1) by (simp add: sink_push_def for_ports_def port_iter_def)
  moreover have "app_table u = app_table t" using u(3) by (simp add: eng_frame_def)
  ultimately have "call_app (op_push (basic_ops E)) ''sink'' t = Inr u"
    using tab same by (simp add: call_app_def basic_ops_def basic_push_def same_app_def)
  moreover have "on_links u = {}" using u(4) rest by (auto simp: on_links_def)
  ultimately show ?thesis using u by blast
qed

lemma pipeline_breathe:
  assumes inv: "eng_inv (env_os E) {} s" and user: "heap_user (env_os E)" and pl: "pipeline sz s"
  shows "\<exists>s'. breathe E (basic_ops E) s = Inr s' \<and> eng_inv (env_os E) {} s' \<and> pipeline sz s' \<and>
    frees (STATS s') = frees (STATS s) + 102 \<and> ticks s < ticks s' \<and>
    MONOTONIC_NOW s' = Some (env_clk E (ticks s))"
proof -
  define r where "r = s\<lparr>ticks := Suc (ticks s), MONOTONIC_NOW := Some (env_clk E (ticks s))\<rparr>"
  have rinv: "eng_inv (env_os E) {} r"
    using inv core_eng_inv [of r s] by (simp add: r_def core_def source_part_def)
  have on: "on_links r = on_links s" "live r = live s"
    by (simp_all add: r_def on_links_def fifo_at_def live_def)
  have rpl: "pipeline sz r" using pl on by (simp add: pipeline_def) (simp add: r_def)
  obtain t where t: "call_app (op_pull (basic_ops E)) ''source'' r = Inr t" "eng_inv (env_os E) {} t"
    "eng_frame r t" "length (fifo_at t 0) = 102" "\<forall>j. j \<noteq> 0 \<longrightarrow> fifo_at t j = []" "STATS t = STATS r"
    using pipeline_pull [OF rinv user rpl] by blast
  have tt: "app_table t = app_table r" "live t = live r" "exhale t = exhale r" "inhale t = inhale r"
    using t(3) by (simp_all add: eng_frame_def)
  obtain u where u: "call_app (op_push (basic_ops E)) ''sink'' t = Inr u" "eng_inv (env_os E) {} u"
    "eng_frame t u" "on_links u = {}" "frees (STATS u) = frees (STATS t) + of_nat (length (fifo_at t 0))"
    using pipeline_push [OF t(2) _ _ t(5), of E] rpl tt by (auto simp: pipeline_def)
  define s' where "s' = u\<lparr>STATS := (STATS u)\<lparr>breaths := breaths (STATS u) + 1\<rparr>\<rparr>"
  have run: "breathe E (basic_ops E) s = Inr s'"
    using t(1) u(1) rpl tt pl
    by (simp add: breathe_def instant_now_def r_def [symmetric] pipeline_def s'_def)
  have "eng_frame r u" using eng_frame_trans [OF t(3) u(3)] .
  moreover have "eng_inv (env_os E) {} s'"
    using u(2) core_eng_inv [of s' u] by (simp add: s'_def core_def source_part_def)
  moreover have "on_links s' = {}" "live s' = live u"
    using u(4) by (simp_all add: s'_def on_links_def fifo_at_def live_def)
  ultimately have "pipeline sz s' \<and> eng_inv (env_os E) {} s' \<and> ticks s < ticks s' \<and>
      MONOTONIC_NOW s' = Some (env_clk E (ticks s))"
    using rpl by (simp add: pipeline_def eng_frame_def) (simp add: s'_def r_def)
  moreover have "frees (STATS s') = frees (STATS s) + 102"
    using u(5) t(4,6) by (simp add: s'_def r_def)
  ultimately show ?thesis using run by blast
qed


text \<open>The steps around a breath leave the network as it is.\<close>

lemma core_pipeline: "core s = core t \<Longrightarrow> orders s = orders t \<Longrightarrow> pipeline sz t \<Longrightarrow> pipeline sz s"
  using core_cong [of s t] by (simp add: pipeline_def core_def orders_def on_links_def fifo_at_def live_def)

lemma pipeline_pace:
  assumes "eng_inv os {} s" and "pipeline sz s"
  shows "eng_inv os {} (pace_breathing s)" "pipeline sz (pace_breathing s)"
    "ticks (pace_breathing s) = ticks s" "frees (STATS (pace_breathing s)) = frees (STATS s)"
proof -
  have c: "core (pace_breathing s) = core s" "orders (pace_breathing s) = orders s"
    by (simp_all add: pace_breathing_def core_def orders_def source_part_def)
  show "eng_inv os {} (pace_breathing s)" using core_eng_inv [of "pace_breathing s" s] c assms(1) by simp
  show "pipeline sz (pace_breathing s)" using core_pipeline [OF c assms(2)] .
  show "ticks (pace_breathing s) = ticks s" "frees (STATS (pace_breathing s)) = frees (STATS s)"
    by (simp_all add: pace_breathing_def)
qed


lemma pipeline_step:
  assumes "eng_inv (env_os E) {} s \<and> pipeline sz s" and "heap_user (env_os E)"
  shows "\<exists>s'. breathe E (basic_ops E) (pace_breathing s) = Inr s' \<and> (eng_inv (env_os E) {} s' \<and> pipeline sz s') \<and>
    ticks s < ticks s' \<and> MONOTONIC_NOW s' = Some (env_clk E (ticks s))"
  using pipeline_breathe [of E "pace_breathing s" sz] pipeline_pace [of "env_os E" s sz] assms by auto

lemma sample_pipeline: "pipeline 60 sample_net"
  by (auto simp: pipeline_def sample_net_def live_def on_links_def fifo_at_def link_fifo_def new_link_def link_count_def
      split: if_splits)

lemma basic_owned [simp]: "owned basic_owns s = {}"
  by (simp add: owned_def own_at_def basic_owns_def split: option.splits)

lemma sample_eng_inv: "eng_inv (env_os sample_env) {} sample_net"
  using sample_net_inv by (simp add: net_inv_def sample_env_def)

lemma sample_user: "heap_user (env_os sample_env)"
  by (simp add: heap_user_def sample_env_def sample_os_def)

text \<open>
  A network of one Source and one Sink breathes for ever: from any well-formed state with nothing
  on the link, a breath does not panic, moves exactly 102 packets from the source through the link to
  the freelist, counts each of them once, and leaves nothing on the link. The process runs without root
  privileges, on packets from the heap.
\<close>

theorem pipeline_breath:
  assumes "eng_inv (env_os E) {} s" and "heap_user (env_os E)" and "pipeline sz s"
  shows "\<exists>s'. breathe E (basic_ops E) s = Inr s' \<and> eng_inv (env_os E) {} s' \<and> pipeline sz s' \<and>
    frees (STATS s') = frees (STATS s) + 102 \<and> MONOTONIC_NOW s' = Some (env_clk E (ticks s))"
  using pipeline_breathe [OF assms] by blast

theorem breathe_conserves_packets_witness:
  "\<exists>s'. breathe sample_env (basic_ops sample_env) sample_net = Inr s' \<and>
     nfree s' + card (on_links s') = unat (PACKETS_ALLOCATED s') \<and> FL_set s' \<inter> on_links s' = {}"
proof -
  obtain s' where run: "breathe sample_env (basic_ops sample_env) sample_net = Inr s'"
    using pipeline_breathe [OF sample_eng_inv sample_user sample_pipeline] by blast
  have "net_inv (env_os sample_env) basic_owns sample_net" using sample_net_inv by (simp add: sample_env_def)
  from breathe_conserves_packets [OF this run] run show ?thesis by blast
qed

section \<open>The main loop ends\<close>

lemma pipeline_main:
  assumes "eng_inv (env_os E) {} s" and "heap_user (env_os E)" and "pipeline sz s"
    and "\<And>d. \<exists>n. \<forall>m \<ge> n. d < env_clk E m"
    and "opt_done opts = None" and "opt_duration opts = Some d"
    and "\<not> opt_report_links opts" and "\<not> opt_report_apps opts"
  shows "\<exists>fuel s'. main fuel E (basic_ops E) (Some opts) s = Inr s' \<and>
    eng_inv (env_os E) {} s' \<and> pipeline sz s' \<and> MONOTONIC_NOW s' = None"
proof -
  let ?P = "\<lambda>s. eng_inv (env_os E) {} s \<and> pipeline sz s"
  obtain f r where tm: "timeout E d s = (f, r)" by fastforce
  then obtain dl where f: "f = (\<lambda>s. let (t, s) = now E s in (dl < t, s))"
    by (auto simp: timeout_def split: prod.splits)
  have r: "core r = core s" "orders r = orders s"
    using tm by (auto simp: timeout_def now_def instant_now_def core_def orders_def source_part_def Let_def
        split: prod.splits option.splits)
  have "?P r" using assms(1,3) core_eng_inv [OF r(1)] core_pipeline [OF r assms(3)] by simp
  then obtain u where u: "breathe E (basic_ops E) r = Inr u" "?P u" "MONOTONIC_NOW u \<noteq> None"
    using pipeline_breathe [OF _ assms(2)] by (metis option.distinct(1))
  obtain n where n: "\<And>m. n \<le> m \<Longrightarrow> dl < env_clk E m" using assms(4) by blast
  obtain fuel v where v: "main_loop fuel E (basic_ops E) (Some f) u = Inr v" "?P v"
    using main_loop_ends [of ?P E "basic_ops E", OF pipeline_step [OF _ assms(2)] n u(2,3)] f by blast
  define w where "w = (if opt_no_report opts \<or> \<not> opt_report_load opts then v else report_load E v)"
  have w: "core w = core v" "orders w = orders v"
    unfolding w_def using report_load_same by auto
  have fin: "core (w\<lparr>MONOTONIC_NOW := None\<rparr>) = core v" "orders (w\<lparr>MONOTONIC_NOW := None\<rparr>) = orders v"
    using w by (simp_all add: core_def orders_def source_part_def)
  have "main fuel E (basic_ops E) (Some opts) s = Inr (w\<lparr>MONOTONIC_NOW := None\<rparr>)"
    using assms(5-8) by (simp add: main_def tm u(1) v(1) w_def)
  moreover have "?P (w\<lparr>MONOTONIC_NOW := None\<rparr>)"
    using v(2) core_eng_inv [OF fin(1)] core_pipeline [OF fin] by simp
  ultimately show ?thesis by fastforce
qed


definition sample_options :: "(basic_app, basic_arg) Options" where
  "sample_options = default_options\<lparr>opt_duration := Some 5, opt_report_load := True\<rparr>"

lemma sample_options_ok:
  "opt_done sample_options = None" "opt_duration sample_options = Some 5"
  "\<not> opt_report_links sample_options" "\<not> opt_report_apps sample_options"
  by (simp_all add: sample_options_def default_options_def)

lemma sample_clock: "\<exists>n. \<forall>m \<ge> n. d < env_clk sample_env m"
  by (rule exI [of _ "Suc d"]) (simp add: sample_env_def)



end
