(* ===== verification/Rush_Engine_Total.thy ===== *)
theory Rush_Engine_Total
  imports Rush_Network
begin

text \<open>
  That \<open>configure\<close> returns. For apps that can always be created and need no stopping, it reaches every
  configuration whose links join configured apps, from every network whose tables are sound, and the tables
  are sound again afterwards; so networks can be configured over and over.
\<close>

section \<open>Sound tables\<close>

text \<open>No app is listed twice, and every link joins two apps.\<close>

definition tables_ok :: "('app, 'arg) eng \<Rightarrow> bool" where
  "tables_ok s \<longleftrightarrow> distinct (keys_of (app_table s)) \<and> links_joined s"

definition joins :: "string set \<Rightarrow> string \<Rightarrow> bool" where
  "joins N x = (case parse_link x of Inl e \<Rightarrow> False | Inr l \<Rightarrow> from_app l \<in> N \<and> to_app l \<in> N)"

text \<open>A configuration whose links parse and name apps it has.\<close>

definition config_closed :: "'arg Config \<Rightarrow> bool" where
  "config_closed c \<longleftrightarrow> list_all (joins (set (keys_of (apps c)))) (links c)"

lemma joins_iff: "joins N x \<longleftrightarrow> (\<exists>l. parse_link x = Inr l \<and> from_app l \<in> N \<and> to_app l \<in> N)"
  by (cases "parse_link x") (simp_all add: joins_def)

lemma links_joined_iff: "links_joined s \<longleftrightarrow> (\<forall>x \<in> link_names s. joins (dom (inst_of s)) x)"
  unfolding links_joined_def link_names_def joins_iff by (simp add: inst_of_def domIff)

text \<open>What every step keeps.\<close>

definition sound :: "os \<Rightarrow> ('app \<Rightarrow> ptr set) \<Rightarrow> ('app, 'arg) eng \<Rightarrow> bool" where
  "sound os owns s \<longleftrightarrow> net_inv os owns s \<and> distinct (keys_of (app_table s))"

lemma sound_ports:
  fixes s :: "('app, 'arg) eng"
  assumes "sound os owns s" "n \<in> dom (inst_of s)"
  shows "i \<in> live s \<Longrightarrow> \<exists>s'. set_output n port i s = Inr s' \<and> sound os owns s'"
    and "i \<in> live s \<Longrightarrow> \<exists>s'. set_input n port i s = Inr s' \<and> sound os owns s'"
    and "\<exists>s'. del_output n port s = Inr s' \<and> sound os owns s'"
    and "\<exists>s'. del_input n port s = Inr s' \<and> sound os owns s'"
proof -
  obtain a where a: "map_of (app_table s) n = Some a" using assms(2) by (auto simp: inst_of_def)
  have inv: "net_inv os owns s" and d: "distinct (keys_of (app_table s))"
    using assms(1) by (simp_all add: sound_def)
  have keys: "distinct (keys_of (AList.update n b (app_table s)))" for b
    using d by (rule distinct_update)
  show "\<exists>s'. set_output n port i s = Inr s' \<and> sound os owns s'" if "i \<in> live s"
    using set_output_ok [OF inv that, of n port] a keys by (auto simp: set_output_def sound_def)
  show "\<exists>s'. set_input n port i s = Inr s' \<and> sound os owns s'" if "i \<in> live s"
    using set_input_ok [OF inv that, of n port] a keys by (auto simp: set_input_def sound_def)
  show "\<exists>s'. del_output n port s = Inr s' \<and> sound os owns s'"
    using del_output_ok [OF inv, of n port] a keys by (auto simp: del_output_def sound_def)
  show "\<exists>s'. del_input n port s = Inr s' \<and> sound os owns s'"
    using del_input_ok [OF inv, of n port] a keys by (auto simp: del_input_def sound_def)
qed

lemma sound_release:
  assumes "sound os owns s"
  shows "\<exists>s'. release_links h s = Inr s' \<and> sound os owns s' \<and> inst_of s' = inst_of s"
  using net_release [of os owns s h] assms by (auto simp: sound_def inst_of_def fun_eq_iff)

section \<open>The steps\<close>

lemma unlink_apps_total:
  assumes s: "sound os owns s" and l: "joins (dom (inst_of s)) x"
  shows "\<exists>s'. unlink_apps x s = Inr s' \<and> sound os owns s' \<and> inst_of s' = inst_of s"
proof -
  obtain l where l: "parse_link x = Inr l" "from_app l \<in> dom (inst_of s)" "to_app l \<in> dom (inst_of s)"
    using l by (auto simp: joins_iff)
  define t where "t = s\<lparr>link_table := AList.delete x (link_table s)\<rparr>"
  have it: "inst_of t = inst_of s" by (simp add: t_def inst_of_def fun_eq_iff)
  have "net_inv os owns t"
  proof (rule net_retable)
    show "pcore t = pcore s" by (simp add: pcore_def t_def source_part_def)
    show "net_inv os owns s" using s by (simp add: sound_def)
    then show "set (link_refs t) \<subseteq> live s"
      using link_values_delete [of x "link_table s"]
      by (auto simp: set_link_refs t_def net_inv_def eng_inv_def)
  qed (simp add: t_def)
  then have t: "sound os owns t" using s by (simp add: sound_def t_def)
  obtain u where u: "del_output (from_app l) (output_name l) t = Inr u" "sound os owns u"
    using sound_ports(3) [OF t, of "from_app l"] l(2) it by auto
  have iu: "inst_of u = inst_of s" using del_output_ok [OF _ u(1), of os owns] t it by (simp add: sound_def)
  obtain s' where s': "del_input (to_app l) (input_name l) u = Inr s'" "sound os owns s'"
    using sound_ports(4) [OF u(2), of "to_app l"] l(3) iu by auto
  have "inst_of s' = inst_of s" using del_input_ok [OF _ s'(1), of os owns] u(2) iu by (simp add: sound_def)
  then show ?thesis using l(1) u(1) s' by (simp add: unlink_apps_def Let_def t_def [symmetric])
qed

lemma link_apps_total:
  assumes s: "sound os owns s" and l: "joins (dom (inst_of s)) x"
  shows "\<exists>s'. link_apps h x s = Inr s' \<and> sound os owns s' \<and> inst_of s' = inst_of s"
proof -
  obtain l where l: "parse_link x = Inr l" "from_app l \<in> dom (inst_of s)" "to_app l \<in> dom (inst_of s)"
    using l by (auto simp: joins_iff)
  obtain i t where get: "get_link x s = (i, t)" by fastforce
  have g: "net_inv os owns t" "i \<in> live t" "inst_of t = inst_of s" "map_of (link_table t) x = Some i"
    using get_link_ok [OF _ get, of os owns] s by (simp_all add: sound_def)
  have t: "sound os owns t" using s g(1) get_link_apps [OF get] by (simp add: sound_def)
  obtain u where u: "set_output (from_app l) (output_name l) i t = Inr u" "sound os owns u"
    using sound_ports(1) [OF t _ g(2)] l(2) g(3) by metis
  have u': "inst_of u = inst_of s" "link_table u = link_table t"
    using set_output_ok [OF g(1,2) u(1)] g(3) by simp_all
  obtain v where v: "release_links h u = Inr v" "sound os owns v" "inst_of v = inst_of s"
    "live v = set (link_refs u)" "link_table v = link_table u"
    using sound_release [OF u(2), of h] net_release [of os owns u h] u(2) u'(1) by (auto simp: sound_def)
  have "i \<in> snd ` set (link_table u)" using g(4) u'(2) by (force dest: map_of_SomeD)
  then have iv: "i \<in> live v" using v(4) by (simp add: set_link_refs)
  obtain w where w: "set_input (to_app l) (input_name l) i v = Inr w" "sound os owns w"
    using sound_ports(2) [OF v(2) _ iv] l(3) v(3) by metis
  have "inst_of w = inst_of s" using set_input_ok [OF _ iv w(1), of os owns] v(2,3) by (simp add: sound_def)
  then obtain s' where "release_links h w = Inr s'" "sound os owns s'" "inst_of s' = inst_of s"
    using sound_release [OF w(2), of h] by auto
  then show ?thesis
    using l(1) u(1) v(1) w(1) by (auto simp: link_apps_eq [OF get])
qed

lemma unlink_phase_total:
  assumes "sound os owns s" "\<And>x. x \<in> set ls \<Longrightarrow> joins (dom (inst_of s)) x"
  shows "\<exists>s'. fold_res (unlink_step L) ls s = Inr s' \<and>
    (sound os owns s' \<and> inst_of s' = inst_of s)"
proof (rule fold_res_total)
  fix x t
  assume "x \<in> set ls" "sound os owns t \<and> inst_of t = inst_of s"
  then show "\<exists>s'. (if x \<in> L then Inr t else unlink_apps x t) = Inr s' \<and> sound os owns s' \<and> inst_of s' = inst_of s"
    using unlink_apps_total [of os owns t x] assms(2) [of x] by auto
qed (simp add: assms(1))

lemma link_phase_total:
  assumes "sound os owns s" "\<And>x. x \<in> set ls \<Longrightarrow> joins (dom (inst_of s)) x"
  shows "\<exists>s'. fold_res (link_apps h) ls s = Inr s' \<and> (sound os owns s' \<and> inst_of s' = inst_of s)"
proof (rule fold_res_total)
  fix x t
  assume "x \<in> set ls" "sound os owns t \<and> inst_of t = inst_of s"
  then show "\<exists>s'. link_apps h x t = Inr s' \<and> sound os owns s' \<and> inst_of s' = inst_of s"
    using link_apps_total [of os owns t x h] assms(2) [of x] by auto
qed (simp add: assms(1))

section \<open>Apps that start and stop without fail\<close>

locale lasting_contract = app_contract A os owns
  for A :: "('app, 'arg) app_ops" and os :: os and owns :: "'app \<Rightarrow> ptr set" +
  assumes new_returns: "\<exists>x s'. op_new A c s = Inr (x, s')"
    and stopless: "\<not> op_has_stop A x"
begin

lemma start_app_total:
  assumes "sound os owns s" "map_of (app_table s) n = None"
  shows "\<exists>s'. start_app A n c s = Inr s' \<and> sound os owns s'"
proof -
  obtain x t where x: "op_new A c s = Inr (x, t)" using new_returns [of c s] by blast
  have "net_inv os owns s" using assms(1) by (simp add: sound_def)
  then have "eng_inv os (owned owns s) s" by (simp add: net_inv_def)
  then have "app_table t = app_table s" using new_ok [OF _ x] by (simp add: eng_frame_def)
  then obtain s' where run: "start_app A n c s = Inr s'" and "distinct (keys_of (app_table s'))"
    using x assms(1) by (simp add: start_app_def sound_def distinct_update)
  then show ?thesis using start_app_ok [OF \<open>net_inv os owns s\<close> assms(2) run] by (auto simp: sound_def)
qed

lemma stop_app_total:
  assumes "sound os owns s" "n \<in> dom (inst_of s)"
  shows "\<exists>s'. stop_app h A n s = Inr s' \<and> sound os owns s' \<and> inst_of s' = (inst_of s)(n := None)"
proof -
  obtain a where a: "map_of (app_table s) n = Some a" using assms(2) by (auto simp: inst_of_def)
  define t where "t = s\<lparr>app_table := AList.delete n (app_table s)\<rparr>"
  have inv: "net_inv os owns s" using assms(1) by (simp add: sound_def)
  have "owns (app_obj a) = {}" using no_stop [OF stopless] .
  then have own: "own_at owns t = own_at owns s" using a by (auto simp: own_at_def t_def fun_eq_iff)
  have "eng_inv os (owned owns s) t"
  proof (rule eng_inv_retable)
    show "pcore t = pcore s" by (simp add: pcore_def t_def source_part_def)
    show "eng_inv os (owned owns s) s" using inv by (simp add: net_inv_def)
    show "set (link_refs t) \<subseteq> live s"
      using inv table_refs_delete [of n "app_table s"]
      by (auto simp: set_link_refs t_def net_inv_def eng_inv_def)
  qed
  then have "net_inv os owns t" using inv own by (simp add: net_inv_def owned_def)
  then obtain s' where s': "release_links h t = Inr s'" "sound os owns s'"
    using sound_release [of os owns t h] assms(1) by (auto simp: sound_def t_def distinct_delete)
  then have run: "stop_app h A n s = Inr s'" using a stopless by (simp add: stop_app_def Let_def t_def)
  then show ?thesis using stop_app_ok [OF inv run] s'(2) by simp
qed

text \<open>The apps are stopped one after the other; each is there until its turn.\<close>

lemma stop_phase_total:
  assumes "sound os owns s" "distinct ns" "set ns \<subseteq> dom (inst_of s)"
  shows "\<exists>s'. fold_res (stop_step h A cs) ns s = Inr s' \<and> sound os owns s'"
  using assms
proof (induction ns arbitrary: s)
  case Nil
  then show ?case by simp
next
  case (Cons n ns)
  let ?f = "stop_step h A cs"
  obtain old where old: "map_of (app_table s) n = Some old" using Cons.prems(3) by (auto simp: inst_of_def)
  obtain u where u: "stop_app h A n s = Inr u" "sound os owns u" "inst_of u = (inst_of s)(n := None)"
    using stop_app_total [OF Cons.prems(1), of n h] Cons.prems(3) by auto
  have "\<exists>t. ?f n s = Inr t \<and> sound os owns t \<and> set ns \<subseteq> dom (inst_of t)"
    using old u Cons.prems by (cases "map_of cs n") auto
  then show ?case using Cons.IH Cons.prems(2) by auto
qed

lemma start_phase_total:
  assumes "sound os owns s"
  shows "\<exists>s'. fold_res (start_step A cs) ns s = Inr s' \<and> sound os owns s'"
  using start_app_total by (intro fold_res_total) (simp_all add: assms)

lemma configure_total:
  assumes inv: "net_inv os owns s" and tab: "tables_ok s" and config: "config_closed config"
  shows "\<exists>s'. configure h A config s = Inr s' \<and> tables_ok s'"
proof -
  let ?f = "\<lambda>l s. if l \<in> set (links config) then Inr s else unlink_apps l s"
  have s: "sound os owns s" using inv tab by (simp add: sound_def tables_ok_def)
  have joined: "joins (dom (inst_of s)) x" if "x \<in> link_names s" for x
    using tab that by (simp add: tables_ok_def links_joined_iff)
  obtain s1 where s1: "fold_res ?f (link_iter h (keys_of (link_table s))) s = Inr s1" "sound os owns s1"
    using unlink_phase_total [OF s, of "link_iter h (keys_of (link_table s))" "set (links config)"] joined
    by (auto simp: link_names_def simp del: set_map)
  obtain s2 where s2: "release_links h s1 = Inr s2" "sound os owns s2" using sound_release [OF s1(2)] by blast
  have "distinct (app_iter h (keys_of (app_table s2)))" "set (app_iter h (keys_of (app_table s2))) \<subseteq> dom (inst_of s2)"
    using s2(2) keys_app_table [of s2] by (simp_all add: sound_def del: set_map)
  from stop_phase_total [OF s2(2) this] obtain s3 where
    s3: "fold_res (stop_step h A (apps config)) (app_iter h (keys_of (app_table s2))) s2 = Inr s3" "sound os owns s3"
    by blast
  obtain s4 where s4: "fold_res (start_step A (apps config)) (conf_app_iter h (keys_of (apps config))) s3 = Inr s4"
    "sound os owns s4"
    using start_phase_total [OF s3(2)] by blast
  have there: "set (keys_of (apps config)) \<subseteq> dom (inst_of s4)"
    using start_phase [OF s4(1)] s3(2) by (auto simp: sound_def simp del: set_map)
  have ok: "joins (dom (inst_of s4)) x" if "x \<in> set (links config)" for x
    using config that there unfolding config_closed_def list_all_iff joins_iff by blast
  obtain s5 where s5: "fold_res (link_apps h) (conf_link_iter h (links config)) s4 = Inr s5"
    "sound os owns s5" "inst_of s5 = inst_of s4"
    using link_phase_total [OF s4(2), of "conf_link_iter h (links config)" h] ok by auto
  have "link_table s4 = link_table s1"
    using start_phase [OF s4(1)] stop_phase [OF s3(1)] net_release [of os owns s1 h] s1(2) s2 s3(2)
    by (auto simp: sound_def)
  moreover have "link_names s1 \<subseteq> set (links config)"
    using unlink_phase [OF s1(1) inv] 
    by (auto simp: link_names_dom split: if_splits) (force dest: map_of_SomeD)
  ultimately have "link_names s5 \<subseteq> set (links config)"
    using link_phase [OF s5(1)] s4(2) by (auto simp: sound_def link_names_def)
  then have joined5: "links_joined s5" using ok s5(3) by (auto simp: links_joined_iff)
  obtain s' where s': "compute_breathe_order h A s5 = Inr s'"
    using compute_breathe_order_total [OF joined5] by blast
  then obtain inh exh where "s' = s5\<lparr>inhale := inh, exhale := exh\<rparr>"
    by (auto simp: compute_breathe_order_def res_simps Let_def)
  then have "tables_ok s'" using joined5 s5(2) by (simp add: tables_ok_def sound_def links_joined_def)
  then show ?thesis using s1(1) s2(1) s3(1) s4(1) s5(1) s' by (simp add: configure_def)
qed

end

section \<open>The basic apps\<close>

interpretation basic_lasting: lasting_contract "basic_ops E" "env_os E" basic_owns for E
  by unfold_locales (simp_all add: basic_ops_def)

text \<open>Running the network keeps the tables sound.\<close>

lemma tables_ok_frame: "tables_ok s \<Longrightarrow> net_frame s s' \<Longrightarrow> tables_ok s'"
proof -
  assume s: "tables_ok s" and fr: "net_frame s s'"
  have keys: "keys_of (app_table s') = keys_of (app_table s)" and "link_table s' = link_table s"
    using fr by (simp_all add: net_frame_def)
  moreover have "dom (inst_of s') = dom (inst_of s)"
    unfolding basic.keys_app_table [symmetric] keys ..
  ultimately show ?thesis using s by (simp add: tables_ok_def links_joined_iff link_names_def)
qed

lemma sample_tables: "tables_ok sample_net"
  using sample_joined by (simp add: tables_ok_def sample_net_def)



end
