(* ===== verification/Rush_Engine_Wiring.thy ===== *)
theory Rush_Engine_Wiring
  imports Rush_Engine_Total
begin

text \<open>
  How \<open>configure\<close> wires the apps: which link is at which port. A port in use always holds the link of a
  specification that names it, and links are not shared between specifications; after \<open>configure\<close>, when
  no two links want the same port, both ports of every configured link hold that link.
\<close>

section \<open>Ports\<close>

definition out_port :: "('app, 'arg) eng \<Rightarrow> string \<times> string \<rightharpoonup> shared_link" where
  "out_port s = (\<lambda>(n, p). Option.bind (map_of (app_table s) n) (\<lambda>a. map_of (app_output a) p))"

definition in_port :: "('app, 'arg) eng \<Rightarrow> string \<times> string \<rightharpoonup> shared_link" where
  "in_port s = (\<lambda>(n, p). Option.bind (map_of (app_table s) n) (\<lambda>a. map_of (app_input a) p))"

abbreviation from_port :: "LinkSpec \<Rightarrow> string \<times> string" where
  "from_port l \<equiv> (from_app l, output_name l)"

abbreviation to_port :: "LinkSpec \<Rightarrow> string \<times> string" where
  "to_port l \<equiv> (to_app l, input_name l)"

text \<open>No port is listed twice.\<close>

definition ports_distinct :: "('app, 'arg) eng \<Rightarrow> bool" where
  "ports_distinct s \<longleftrightarrow>
     (\<forall>n a. map_of (app_table s) n = Some a \<longrightarrow> distinct (keys_of (app_input a)) \<and> distinct (keys_of (app_output a)))"

definition wired :: "('app, 'arg) eng \<Rightarrow> bool" where
  "wired s \<longleftrightarrow>
     (\<forall>np i. out_port s np = Some i \<longrightarrow>
        (\<exists>x l. map_of (link_table s) x = Some i \<and> parse_link x = Inr l \<and> from_port l = np)) \<and>
     (\<forall>np i. in_port s np = Some i \<longrightarrow>
        (\<exists>x l. map_of (link_table s) x = Some i \<and> parse_link x = Inr l \<and> to_port l = np)) \<and>
     (\<forall>x y i. map_of (link_table s) x = Some i \<longrightarrow> map_of (link_table s) y = Some i \<longrightarrow> x = y) \<and>
     ports_distinct s \<and> distinct (keys_of (link_table s))"

text \<open>What each operation does to the ports.\<close>

lemma set_output_ports:
  assumes "set_output n p i s = Inr s'"
  shows "out_port s' = (out_port s)((n, p) \<mapsto> i)" "in_port s' = in_port s"
    "ports_distinct s \<Longrightarrow> ports_distinct s'" "link_table s' = link_table s"
  using assms by (auto simp: set_output_def res_simps out_port_def in_port_def fun_eq_iff ports_distinct_def
      distinct_update split: if_splits)

lemma set_input_ports:
  assumes "set_input n p i s = Inr s'"
  shows "in_port s' = (in_port s)((n, p) \<mapsto> i)" "out_port s' = out_port s"
    "ports_distinct s \<Longrightarrow> ports_distinct s'" "link_table s' = link_table s"
  using assms by (auto simp: set_input_def res_simps out_port_def in_port_def fun_eq_iff ports_distinct_def
      distinct_update split: if_splits)

lemma del_output_ports:
  assumes "del_output n p s = Inr s'"
  shows "out_port s' = (out_port s)((n, p) := None)" "in_port s' = in_port s"
    "ports_distinct s \<Longrightarrow> ports_distinct s'" "link_table s' = link_table s"
  using assms by (auto simp: del_output_def res_simps out_port_def in_port_def fun_eq_iff ports_distinct_def
      distinct_delete split: if_splits)

lemma del_input_ports:
  assumes "del_input n p s = Inr s'"
  shows "in_port s' = (in_port s)((n, p) := None)" "out_port s' = out_port s"
    "ports_distinct s \<Longrightarrow> ports_distinct s'" "link_table s' = link_table s"
  using assms by (auto simp: del_input_def res_simps out_port_def in_port_def fun_eq_iff ports_distinct_def
      distinct_delete split: if_splits)

text \<open>The ports depend on the app table only.\<close>

lemma ports_table:
  assumes "app_table s' = app_table s"
  shows "out_port s' = out_port s" "in_port s' = in_port s" "ports_distinct s' = ports_distinct s"
  using assms by (simp_all add: out_port_def in_port_def ports_distinct_def)

lemma wired_cong:
  assumes "app_table s' = app_table s" "link_table s' = link_table s"
  shows "wired s' = wired s"
  using ports_table [OF assms(1)] assms(2) by (simp add: wired_def)

lemma wired_frame:
  assumes "net_frame s s'"
  shows "out_port s' = out_port s" "in_port s' = in_port s" "wired s' = wired s"
proof -
  have p: "map_option (\<lambda>a. (conf a, app_input a, app_output a)) (map_of (app_table s') n) =
      map_option (\<lambda>a. (conf a, app_input a, app_output a)) (map_of (app_table s) n)" for n
    using assms by (simp add: net_frame_def ports_of_def fun_eq_iff)
  show o: "out_port s' = out_port s"
  proof
    fix np show "out_port s' np = out_port s np"
      using p [of "fst np"]
      by (cases np; cases "map_of (app_table s') (fst np)"; cases "map_of (app_table s) (fst np)")
        (simp_all add: out_port_def)
  qed
  show i: "in_port s' = in_port s"
  proof
    fix np show "in_port s' np = in_port s np"
      using p [of "fst np"]
      by (cases np; cases "map_of (app_table s') (fst np)"; cases "map_of (app_table s) (fst np)")
        (simp_all add: in_port_def)
  qed
  have "(\<forall>a. map_of (app_table s') n = Some a \<longrightarrow> distinct (keys_of (app_input a)) \<and> distinct (keys_of (app_output a))) =
      (\<forall>a. map_of (app_table s) n = Some a \<longrightarrow> distinct (keys_of (app_input a)) \<and> distinct (keys_of (app_output a)))" for n
    using p [of n] by (cases "map_of (app_table s') n"; cases "map_of (app_table s) n") simp_all
  then have "ports_distinct s' = ports_distinct s" by (simp only: ports_distinct_def)
  moreover have "link_table s' = link_table s" using assms by (simp add: net_frame_def)
  ultimately show "wired s' = wired s" using o i by (simp add: wired_def)
qed

section \<open>Every step keeps the wiring\<close>

lemma wired_release:
  assumes "net_inv os owns s" "wired s" "release_links h s = Inr s'"
  shows "wired s'" "out_port s' = out_port s" "in_port s' = in_port s" "link_table s' = link_table s"
  using net_release [OF assms(1), of h] assms(2,3) wired_cong [of s' s] ports_table [of s' s] by auto

lemma unlink_apps_wired:
  assumes "wired s" "unlink_apps x s = Inr s'"
  shows "wired s'"
proof -
  define t where "t = s\<lparr>link_table := AList.delete x (link_table s)\<rparr>"
  obtain l u where l: "parse_link x = Inr l" and u: "del_output (from_app l) (output_name l) t = Inr u"
    and s': "del_input (to_app l) (input_name l) u = Inr s'"
    unfolding t_def by (rule unlink_apps_steps [OF assms(2)])
  have ports: "out_port s' = (out_port s)(from_port l := None)" "in_port s' = (in_port s)(to_port l := None)"
    using del_output_ports [OF u] del_input_ports [OF s'] ports_table [of t s] by (simp_all add: t_def)
  have tab: "map_of (link_table s') = (map_of (link_table s))(x := None)"
    using del_output_ports [OF u] del_input_ports [OF s'] by (simp add: t_def)
  have "ports_distinct s'"
    using del_output_ports(3) [OF u] del_input_ports(3) [OF s'] ports_table(3) [of t s] assms(1)
    by (simp add: t_def wired_def)
  moreover have "distinct (keys_of (link_table s'))"
    using del_output_ports(4) [OF u] del_input_ports(4) [OF s'] assms(1) by (simp add: t_def wired_def distinct_delete)
  ultimately show ?thesis
    using assms(1) unfolding wired_def ports tab
    by (auto split: if_splits) (metis Inr_inject l prod.inject)+
qed

text \<open>The link of a specification is no other's.\<close>

lemma get_link_own:
  assumes inv: "net_inv os owns s" and w: "wired s" and get: "get_link x s = (i, t)"
    and y: "map_of (link_table t) y = Some i"
  shows "y = x"
proof (cases "map_of (link_table s) x")
  case (Some j)
  then show ?thesis using get_link_ok [OF inv get] w y unfolding wired_def by (metis option.distinct(1))
next
  case None
  then have "i = next_link s" using get by (auto simp: get_link_def new_shared_link_def Let_def)
  then have "i \<notin> live s" using inv by (auto simp: net_inv_def eng_inv_def)
  then have "i \<notin> snd ` set (link_table s)" using inv by (auto simp: net_inv_def eng_inv_def set_link_refs)
  then show ?thesis using get_link_ok [OF inv get] y by (metis image_eqI map_of_SomeD snd_conv)
qed

text \<open>Setting the two ends of a link keeps the wiring.\<close>

lemma wired_ends:
  assumes w: "wired s" and l: "parse_link x = Inr l" and x: "map_of (link_table s') x = Some i"
    and ports: "out_port s' = (out_port s)(from_port l \<mapsto> i)" "in_port s' = (in_port s)(to_port l \<mapsto> i)"
    and rest: "\<forall>y. y \<noteq> x \<longrightarrow> map_of (link_table s') y = map_of (link_table s) y"
    and keep: "\<forall>y. map_of (link_table s) y \<noteq> None \<longrightarrow> map_of (link_table s') y = map_of (link_table s) y"
    and own: "\<And>y. map_of (link_table s') y = Some i \<Longrightarrow> y = x"
    and d: "ports_distinct s'" "distinct (keys_of (link_table s'))"
  shows "wired s'"
  unfolding wired_def
proof (intro conjI d allI impI)
  have kept: "map_of (link_table s') y = Some j" if "map_of (link_table s) y = Some j" for y j
    using keep that by (metis option.distinct(1))
  have wo: "\<exists>x l. map_of (link_table s) x = Some j \<and> parse_link x = Inr l \<and> from_port l = np"
    if "out_port s np = Some j" for np j using w that unfolding wired_def by blast
  have wi: "\<exists>x l. map_of (link_table s) x = Some j \<and> parse_link x = Inr l \<and> to_port l = np"
    if "in_port s np = Some j" for np j using w that unfolding wired_def by blast
  {
    fix np j
    assume "out_port s' np = Some j"
    then have "np = from_port l \<and> j = i \<or> out_port s np = Some j" unfolding ports by (simp split: if_splits)
    then show "\<exists>x l. map_of (link_table s') x = Some j \<and> parse_link x = Inr l \<and> from_port l = np"
      using wo l x kept by blast
  next
    fix np j
    assume "in_port s' np = Some j"
    then have "np = to_port l \<and> j = i \<or> in_port s np = Some j" unfolding ports by (simp split: if_splits)
    then show "\<exists>x l. map_of (link_table s') x = Some j \<and> parse_link x = Inr l \<and> to_port l = np"
      using wi l x kept by blast
  next
    fix y z j
    assume "map_of (link_table s') y = Some j" "map_of (link_table s') z = Some j"
    then show "y = z" using own x rest w unfolding wired_def by metis
  }
qed

lemma link_apps_effect:
  assumes inv: "net_inv os owns s" and w: "wired s" and run: "link_apps h x s = Inr s'"
  obtains l i where "parse_link x = Inr l" "map_of (link_table s') x = Some i"
    "out_port s' = (out_port s)(from_port l \<mapsto> i)" "in_port s' = (in_port s)(to_port l \<mapsto> i)"
    "\<forall>y. y \<noteq> x \<longrightarrow> map_of (link_table s') y = map_of (link_table s) y" "wired s'"
    "live s' = set (link_refs s')"
proof -
  obtain i t l u v z where get: "get_link x s = (i, t)" and l: "parse_link x = Inr l"
    and u: "set_output (from_app l) (output_name l) i t = Inr u" and v: "release_links h u = Inr v"
    and z: "set_input (to_app l) (input_name l) i v = Inr z" and s': "release_links h z = Inr s'"
    by (rule link_apps_steps [OF run])
  note g = get_link_ok [OF inv get]
  have t: "net_inv os owns t" "map_of (link_table t) x = Some i" "i \<in> live t" using g by simp_all
  note e = link_ends_ok(3-6) [OF t u v z s']
  note tabs = ports_table [OF get_link_apps [OF get]] ports_table [OF e(2)] ports_table [OF e(3)]
  have ports: "out_port s' = (out_port s)(from_port l \<mapsto> i)" "in_port s' = (in_port s)(to_port l \<mapsto> i)"
    using set_output_ports [OF u] set_input_ports [OF z] tabs by simp_all
  have pd: "ports_distinct s'"
    using set_output_ports(3) [OF u] set_input_ports(3) [OF z] tabs w by (simp add: wired_def)
  have dl: "distinct (keys_of (link_table s'))"
    using get w unfolding e(1)
    by (auto simp: get_link_def new_shared_link_def Let_def wired_def distinct_update split: option.splits)
  have x: "map_of (link_table s') x = Some i" "\<forall>y. y \<noteq> x \<longrightarrow> map_of (link_table s') y = map_of (link_table s) y"
    using g by (simp_all add: e(1))
  have keep: "\<forall>y. map_of (link_table s) y \<noteq> None \<longrightarrow> map_of (link_table s') y = map_of (link_table s) y"
  proof (intro allI impI)
    fix y
    assume "map_of (link_table s) y \<noteq> None"
    then show "map_of (link_table s') y = map_of (link_table s) y"
      using g unfolding e(1) by (cases "y = x") simp_all
  qed
  have "wired s'"
    by (rule wired_ends [OF w l x(1) ports x(2) keep get_link_own [OF inv w get, folded e(1)] pd dl])
  then show ?thesis by (rule that [OF l x(1) ports x(2) _ e(4)])
qed

section \<open>Linking all of them\<close>

definition connected :: "('app, 'arg) eng \<Rightarrow> string \<Rightarrow> bool" where
  "connected s x =
     (case parse_link x of
        Inl e \<Rightarrow> False
      | Inr l \<Rightarrow> map_of (link_table s) x \<noteq> None \<and>
          out_port s (from_port l) = map_of (link_table s) x \<and> in_port s (to_port l) = map_of (link_table s) x)"

lemma connected_cong:
  assumes "app_table s' = app_table s" "link_table s' = link_table s"
  shows "connected s' x = connected s x"
  by (simp only: connected_def ports_table [OF assms(1)] assms(2))

text \<open>Two links that want the same port.\<close>

definition clash :: "string \<Rightarrow> string \<Rightarrow> bool" where
  "clash x y =
     (case parse_link x of
        Inl e \<Rightarrow> False
      | Inr l \<Rightarrow> (case parse_link y of Inl e \<Rightarrow> False | Inr m \<Rightarrow> from_port l = from_port m \<or> to_port l = to_port m))"

lemma link_phase_wired:
  assumes "fold_res (link_apps h) ls s = Inr s'" "net_inv os owns s" "wired s"
    "\<forall>x \<in> C \<union> set ls. \<forall>y \<in> C \<union> set ls. clash x y \<longrightarrow> x = y" "\<forall>x \<in> C. connected s x"
  shows "wired s' \<and> (\<forall>x \<in> C \<union> set ls. connected s' x)"
  using assms
proof (induction ls arbitrary: s C)
  case Nil
  then show ?case by simp
next
  case (Cons x ls)
  then obtain t where t: "link_apps h x s = Inr t" and rest: "fold_res (link_apps h) ls t = Inr s'"
    by (auto simp: res_simps)
  obtain l i where l: "parse_link x = Inr l" "map_of (link_table t) x = Some i"
    "out_port t = (out_port s)(from_port l \<mapsto> i)" "in_port t = (in_port s)(to_port l \<mapsto> i)"
    "\<forall>y. y \<noteq> x \<longrightarrow> map_of (link_table t) y = map_of (link_table s) y" "wired t"
    by (rule link_apps_effect [OF Cons.prems(2,3) t]) (rule that)
  have "connected t y" if "y \<in> insert x C" for y
  proof (cases "y = x")
    case True
    then show ?thesis using l by (simp add: connected_def)
  next
    case False
    then have y: "connected s y" "\<not> clash x y" using that Cons.prems(4,5) by auto
    then obtain m where m: "parse_link y = Inr m" by (cases "parse_link y") (simp_all add: connected_def)
    then have "from_port l \<noteq> from_port m" "to_port l \<noteq> to_port m"
      using y(2) l(1) unfolding clash_def by (simp_all only: sum.case de_Morgan_disj simp_thms)
    then have "out_port t (from_port m) = out_port s (from_port m)" "in_port t (to_port m) = in_port s (to_port m)"
      using l(3,4) by (auto simp del: prod.inject)
    then show ?thesis using y(1) m l(5) False by (simp add: connected_def)
  qed
  moreover have "net_inv os owns t" using link_apps_ok [OF Cons.prems(2) t] by simp
  ultimately have "wired s' \<and> (\<forall>x \<in> insert x C \<union> set ls. connected s' x)"
    using Cons.IH [OF rest _ l(6), of "insert x C"] Cons.prems(4) by simp
  then show ?case by simp
qed

text \<open>Only links that something refers to exist.\<close>

definition tight :: "('app, 'arg) eng \<Rightarrow> bool" where
  "tight s \<longleftrightarrow> live s = set (link_refs s)"

lemma release_tight:
  assumes "net_inv os owns s" "release_links h s = Inr s'"
  shows "tight s'"
  using net_release [OF assms(1), of h] assms(2) by (auto simp: tight_def link_refs_def)

lemma link_phase_tight:
  assumes "fold_res (link_apps h) ls s = Inr s'" "net_inv os owns s" "wired s" "tight s"
  shows "wired s' \<and> tight s'"
proof -
  have "net_inv os owns s' \<and> wired s' \<and> tight s'"
  proof (rule fold_res_invariant [where P = "\<lambda>t. net_inv os owns t \<and> wired t \<and> tight t", OF _ _ assms(1)])
    fix x t t'
    assume t: "net_inv os owns t \<and> wired t \<and> tight t" and run: "link_apps h x t = Inr t'"
    have "wired t' \<and> live t' = set (link_refs t')"
      by (rule link_apps_effect [of os owns t h x t']) (use t run in auto)
    then show "net_inv os owns t' \<and> wired t' \<and> tight t'"
      using link_apps_ok [OF _ run, of os owns] t by (simp add: tight_def)
  qed (simp add: assms)
  then show ?thesis by simp
qed

section \<open>Starting and stopping\<close>

lemma wired_delete:
  assumes "wired s" "app_table s' = AList.delete n (app_table s)" "link_table s' = link_table s"
  shows "wired s'"
proof -
  have tab: "map_of (app_table s') = (map_of (app_table s))(n := None)" using assms(2) by (simp add: delete_conv')
  have o: "out_port s np = Some i" if "out_port s' np = Some i" for np i
    using that by (cases np; cases "fst np = n") (simp_all add: out_port_def tab)
  have i: "in_port s np = Some i" if "in_port s' np = Some i" for np i
    using that by (cases np; cases "fst np = n") (simp_all add: in_port_def tab)
  have "ports_distinct s'"
    using assms(1) by (auto simp: wired_def ports_distinct_def tab split: if_splits)
  then show ?thesis using assms(1) o i unfolding wired_def assms(3) by blast
qed

lemma wired_insert:
  assumes "wired s" "map_of (app_table s) n = None" "link_table s' = link_table s"
    "app_table s' = AList.update n \<lparr>app_obj = x, conf = c, app_input = [], app_output = []\<rparr> (app_table s)"
  shows "wired s'"
proof -
  have "out_port s' = out_port s" "in_port s' = in_port s"
    using assms(2,4) by (auto simp: out_port_def in_port_def fun_eq_iff)
  moreover have "ports_distinct s'"
    using assms(1,4) by (auto simp: wired_def ports_distinct_def)
  ultimately show ?thesis using assms(1) unfolding wired_def assms(3) by (elim conjE) (intro conjI; simp only: simp_thms)
qed

context lasting_contract
begin

lemma stop_app_wired:
  assumes "net_inv os owns s" "wired s" "stop_app h A n s = Inr s'"
  shows "wired s' \<and> tight s'"
proof -
  define t where "t = s\<lparr>app_table := AList.delete n (app_table s)\<rparr>"
  obtain a where a: "map_of (app_table s) n = Some a" and run: "release_links h t = Inr s'"
    using assms(3) stopless by (auto simp: stop_app_def res_simps Let_def t_def)
  have "owns (app_obj a) = {}" using no_stop [OF stopless] .
  then have own: "own_at owns t = own_at owns s" using a by (auto simp: own_at_def t_def fun_eq_iff)
  have "eng_inv os (owned owns s) t"
  proof (rule eng_inv_retable)
    show "pcore t = pcore s" by (simp add: pcore_def t_def source_part_def)
    show "eng_inv os (owned owns s) s" using assms(1) by (simp add: net_inv_def)
    show "set (link_refs t) \<subseteq> live s"
      using assms(1) table_refs_delete [of n "app_table s"]
      by (auto simp: set_link_refs t_def net_inv_def eng_inv_def)
  qed
  then have inv: "net_inv os owns t" using assms(1) own by (simp add: net_inv_def owned_def)
  have "wired t" using wired_delete [OF assms(2), of t n] by (simp add: t_def)
  then show ?thesis using wired_release [OF inv _ run] release_tight [OF inv run] by simp
qed

lemma start_app_wired:
  assumes "net_inv os owns s" "wired s" "tight s" "map_of (app_table s) n = None" "start_app A n c s = Inr s'"
  shows "wired s' \<and> tight s'"
proof -
  obtain x t where x: "op_new A c s = Inr (x, t)" and s': "s' = t\<lparr>app_table :=
      AList.update n \<lparr>app_obj = x, conf = c, app_input = [], app_output = []\<rparr> (app_table t)\<rparr>"
    using assms(5) by (auto simp: start_app_def res_simps)
  have "eng_inv os (owned owns s) s" using assms(1) by (simp add: net_inv_def)
  from new_ok [OF this x] have t: "app_table t = app_table s" "link_table t = link_table s" "live t = live s"
    by (simp_all add: eng_frame_def)
  have upd: "AList.update n a m = m @ [(n, a)]" if "map_of m n = None" for a and m :: "(string \<times> ('app, 'arg) AppState) list"
    using that by (induction m) (auto split: if_splits)
  have "link_refs s' = link_refs s" using upd [OF assms(4)] t by (simp add: s' link_refs_def app_refs_def)
  moreover have "live s' = live t" by (simp add: s' live_def)
  ultimately have "tight s'" using assms(3) t(3) by (simp add: tight_def)
  moreover have "wired s'" by (rule wired_insert [OF assms(2,4), of _ x c]) (simp_all add: s' t)
  ultimately show ?thesis by simp
qed

text \<open>All the phases of \<open>configure\<close> together.\<close>

lemma unlink_phase_wired:
  assumes "fold_res (unlink_step L) ls s = Inr s'" "wired s"
  shows "wired s'"
  by (rule fold_res_invariant [where P = wired, OF _ assms(2,1)]) (auto intro: unlink_apps_wired split: if_splits)

lemma stop_phase_wired:
  assumes "fold_res (stop_step h A cs) ns s = Inr s'"
    and "net_inv os owns s" "wired s" "tight s"
  shows "wired s' \<and> tight s'"
proof -
  have "net_inv os owns s' \<and> wired s' \<and> tight s'"
  proof (rule fold_res_invariant [where P = "\<lambda>t. net_inv os owns t \<and> wired t \<and> tight t", OF _ _ assms(1)])
    fix n t t'
    assume t: "net_inv os owns t \<and> wired t \<and> tight t"
      and run: "bind_res (unwrap (map_of (app_table t) n)) (\<lambda>old.
        case map_of cs n of
          Some new \<Rightarrow> if \<not> arg_equal A (conf old) new then stop_app h A n t else Inr t
        | None \<Rightarrow> stop_app h A n t) = Inr t'"
    then have "t' = t \<or> stop_app h A n t = Inr t'" by (auto simp: res_simps split: option.splits if_splits)
    then show "net_inv os owns t' \<and> wired t' \<and> tight t'"
      using t stop_app_wired [of t h n t'] stop_app_ok [of t h n t'] by blast
  qed (simp add: assms)
  then show ?thesis by simp
qed

lemma start_phase_wired:
  assumes "fold_res (start_step A cs) ns s = Inr s'"
    and "net_inv os owns s" "wired s" "tight s"
  shows "wired s' \<and> tight s'"
proof -
  have "net_inv os owns s' \<and> wired s' \<and> tight s'"
  proof (rule fold_res_invariant [where P = "\<lambda>t. net_inv os owns t \<and> wired t \<and> tight t", OF _ _ assms(1)])
    fix n t t'
    assume t: "net_inv os owns t \<and> wired t \<and> tight t"
      and run: "(if map_of (app_table t) n = None then start_app A n (the (map_of cs n)) t else Inr t) = Inr t'"
    then show "net_inv os owns t' \<and> wired t' \<and> tight t'"
      using start_app_wired [of t n "the (map_of cs n)" t'] start_app_ok [of t n "the (map_of cs n)" t']
      by (auto split: if_splits)
  qed (simp add: assms)
  then show ?thesis by simp
qed

lemma configure_wired:
  assumes run: "configure h A config s = Inr s'" and inv: "net_inv os owns s" and w: "wired s"
  shows "wired s' \<and> tight s'"
    and "\<forall>x \<in> set (links config). \<forall>y \<in> set (links config). clash x y \<longrightarrow> x = y \<Longrightarrow>
      \<forall>x \<in> set (links config). connected s' x"
proof -
  from run obtain s1 s2 s3 s4 s5 where
    p1: "fold_res (unlink_step (set (links config))) (link_iter h (keys_of (link_table s))) s = Inr s1"
    and p2: "release_links h s1 = Inr s2"
    and p3: "fold_res (stop_step h A (apps config)) (app_iter h (keys_of (app_table s2))) s2 = Inr s3"
    and p4: "fold_res (start_step A (apps config)) (conf_app_iter h (keys_of (apps config))) s3 = Inr s4"
    and p5: "fold_res (link_apps h) (conf_link_iter h (links config)) s4 = Inr s5"
    and p6: "compute_breathe_order h A s5 = Inr s'"
    by (rule configure_phases)
  have i1: "net_inv os owns s1" using unlink_phase [OF p1 inv] by simp
  have i2: "net_inv os owns s2" using net_release [OF i1, of h] p2 by auto
  have w2: "wired s2" "tight s2"
    using wired_release(1) [OF i1 unlink_phase_wired [OF p1 w] p2] release_tight [OF i1 p2] by simp_all
  have i3: "net_inv os owns s3" using stop_phase [OF p3 i2] by simp
  have w3: "wired s3" "tight s3" using stop_phase_wired [OF p3 i2 w2] by simp_all
  have i4: "net_inv os owns s4" using start_phase [OF p4 i3] by simp
  have w4: "wired s4" "tight s4" using start_phase_wired [OF p4 i3 w3] by simp_all
  have w5: "wired s5" "tight s5" using link_phase_tight [OF p5 i4 w4] by simp_all
  obtain inh exh where s': "s' = s5\<lparr>inhale := inh, exhale := exh\<rparr>"
    by (rule compute_breathe_order_effect [OF p6])
  show "wired s' \<and> tight s'"
    using w5 wired_cong [of s' s5] by (simp add: s' tight_def link_refs_def live_def)
  show "\<forall>x \<in> set (links config). connected s' x"
    if "\<forall>x \<in> set (links config). \<forall>y \<in> set (links config). clash x y \<longrightarrow> x = y"
    using link_phase_wired [OF p5 i4 w4(1), of "{}"] that connected_cong [of s' s5] by (simp add: s')
qed

end

section \<open>The links that exist\<close>

lemma app_refs_ports:
  assumes "ports_distinct s" "distinct (keys_of (app_table s))"
    and "i \<in> set (concat (map (app_refs \<circ> snd) (app_table s)))"
  shows "\<exists>np. out_port s np = Some i \<or> in_port s np = Some i"
proof -
  obtain n a where na: "(n, a) \<in> set (app_table s)" "i \<in> set (app_refs a)" using assms(3) by auto
  then have a: "map_of (app_table s) n = Some a" using assms(2) by simp
  have d: "distinct (keys_of (app_input a))" "distinct (keys_of (app_output a))"
    using assms(1) a by (simp_all add: ports_distinct_def)
  obtain p where "(p, i) \<in> set (app_input a) \<or> (p, i) \<in> set (app_output a)"
    using na(2) unfolding app_refs_def by force
  then have "out_port s (n, p) = Some i \<or> in_port s (n, p) = Some i"
    using a d by (auto simp: out_port_def in_port_def)
  then show ?thesis by blast
qed

lemma live_links:
  assumes "wired s" "tight s" "distinct (keys_of (app_table s))"
  shows "bij_betw (\<lambda>x. the (map_of (link_table s) x)) (link_names s) (live s)"
proof (rule bij_betwI')
  have known: "map_of (link_table s) x \<noteq> None" if "x \<in> link_names s" for x
    using that by (auto simp: link_names_def map_of_eq_None_iff)
  have inj: "x = y" if "map_of (link_table s) x = Some i" "map_of (link_table s) y = Some i" for x y i
    using assms(1) that unfolding wired_def by blast
  show "(the (map_of (link_table s) x) = the (map_of (link_table s) y)) = (x = y)"
    if "x \<in> link_names s" "y \<in> link_names s" for x y
    using known [OF that(1)] known [OF that(2)] inj by fastforce
  show "the (map_of (link_table s) x) \<in> live s" if "x \<in> link_names s" for x
    using known [OF that] assms(2) by (force simp: tight_def set_link_refs dest: map_of_SomeD)
  show "\<exists>x \<in> link_names s. i = the (map_of (link_table s) x)" if "i \<in> live s" for i
  proof -
    have "\<exists>x. map_of (link_table s) x = Some i"
    proof (cases "i \<in> snd ` set (link_table s)")
      case True
      then show ?thesis using assms(1) unfolding wired_def by force
    next
      case False
      then have "i \<in> set (concat (map (app_refs \<circ> snd) (app_table s)))"
        using assms(2) that unfolding tight_def link_refs_def by simp
      from app_refs_ports [OF _ assms(3) this] show ?thesis using assms(1) unfolding wired_def by blast
    qed
    then obtain x where "map_of (link_table s) x = Some i" by blast
    then show ?thesis by (intro bexI [of _ x]) (force simp: link_names_def dest: map_of_SomeD)+
  qed
qed

lemma start_wired: "wired start_state"
  by (simp add: wired_def out_port_def in_port_def ports_distinct_def eng_init_simps)

text \<open>Which ports are in use.\<close>

lemma wired_ports:
  assumes "wired s" "\<forall>x \<in> link_names s. connected s x"
  shows "out_port s np \<noteq> None \<longleftrightarrow> (\<exists>x \<in> link_names s. \<exists>l. parse_link x = Inr l \<and> from_port l = np)" (is ?o)
    and "in_port s np \<noteq> None \<longleftrightarrow> (\<exists>x \<in> link_names s. \<exists>l. parse_link x = Inr l \<and> to_port l = np)" (is ?i)
proof -
  have o: "\<exists>x l. map_of (link_table s) x = Some i \<and> parse_link x = Inr l \<and> from_port l = np"
    if "out_port s np = Some i" for i using assms(1) that unfolding wired_def by blast
  have i: "\<exists>x l. map_of (link_table s) x = Some i \<and> parse_link x = Inr l \<and> to_port l = np"
    if "in_port s np = Some i" for i using assms(1) that unfolding wired_def by blast
  have there: "x \<in> link_names s" if "map_of (link_table s) x = Some i" for x i
    using that by (force simp: link_names_def dest: map_of_SomeD)
  have used: "out_port s (from_port l) \<noteq> None \<and> in_port s (to_port l) \<noteq> None"
    if "x \<in> link_names s" "parse_link x = Inr l" for x l
    using bspec [OF assms(2) that(1)] that(2) by (auto simp: connected_def)
  show ?o using o there used by (metis not_None_eq)
  show ?i using i there used by (metis not_None_eq)
qed



end
