(* ===== verification/Rush_Tee_Correct.thy ===== *)
theory Rush_Tee_Correct
  imports Rush_Network
begin

text \<open>
  What Tee does to the packets: every output gets a copy of every packet of the inputs, in order, as
  far as it has room.
\<close>

section \<open>Copies on links\<close>

text \<open>
  \<open>copied L xs s s'\<close>: from \<open>s\<close> to \<open>s'\<close> the links \<open>L\<close> got copies of the
  packets \<open>xs\<close>, as many as had room.
\<close>

definition copied :: "shared_link set \<Rightarrow> ptr list \<Rightarrow> ('app, 'arg) eng \<Rightarrow> ('app, 'arg) eng \<Rightarrow> bool" where
  "copied L xs s s' \<longleftrightarrow>
     (\<forall>j \<in> L. \<exists>cs. fifo_at s' j = fifo_at s j @ cs \<and>
        list_all2 (\<lambda>p c. same_payload (heap s' c) (heap s p))
          (take (LINK_MAX_PACKETS - length (fifo_at s j)) xs) cs)"

lemma copied_Nil: "(\<And>j. j \<in> L \<Longrightarrow> fifo_at s' j = fifo_at s j) \<Longrightarrow> copied L [] s s'"
  by (simp add: copied_def)

lemma copied_mono: "copied L xs s t \<Longrightarrow> j \<in> L \<Longrightarrow> set (fifo_at s j) \<subseteq> set (fifo_at t j)"
  by (auto simp: copied_def)

lemma copied_trans:
  assumes c: "copied L xs s t" "copied L ys t u"
    and keep: "\<And>q. q \<in> on_links t \<Longrightarrow> q \<notin> N \<Longrightarrow> heap u q = heap t q"
      "\<And>j. j \<in> L \<Longrightarrow> set (fifo_at t j) \<inter> N = {}"
    and same: "\<And>q. q \<in> set ys \<Longrightarrow> heap t q = heap s q"
  shows "copied L (xs @ ys) s u"
  unfolding copied_def
proof
  fix j
  assume j: "j \<in> L"
  let ?m = "LINK_MAX_PACKETS - length (fifo_at s j)"
  obtain cs where cs: "fifo_at t j = fifo_at s j @ cs"
    "list_all2 (\<lambda>p c. same_payload (heap t c) (heap s p)) (take ?m xs) cs"
    using c(1) j by (auto simp: copied_def)
  have len: "length cs = min ?m (length xs)" using list_all2_lengthD [OF cs(2)] by simp
  obtain ds where ds: "fifo_at u j = fifo_at t j @ ds"
    "list_all2 (\<lambda>p c. same_payload (heap u c) (heap t p))
       (take (LINK_MAX_PACKETS - length (fifo_at t j)) ys) ds"
    using c(2) j by (auto simp: copied_def)
  have old: "list_all2 (\<lambda>p c. same_payload (heap u c) (heap s p)) (take ?m xs) cs"
  proof (rule list.rel_mono_strong [OF cs(2)])
    fix p q
    assume "q \<in> set cs" and sp: "same_payload (heap t q) (heap s p)"
    then have "q \<in> set (fifo_at t j)" by (simp add: cs(1))
    then have "heap u q = heap t q" using keep j by (auto simp: on_links_def)
    then show "same_payload (heap u q) (heap s p)" using sp by simp
  qed
  have "take (LINK_MAX_PACKETS - length (fifo_at t j)) ys = take (?m - length xs) ys"
    by (simp add: cs(1) len min_def)
  moreover have "list_all2 (\<lambda>p c. same_payload (heap u c) (heap s p))
      (take (LINK_MAX_PACKETS - length (fifo_at t j)) ys) ds"
    by (rule list.rel_mono_strong [OF ds(2)]) (use same in \<open>auto dest: in_set_takeD\<close>)
  ultimately show "\<exists>cs. fifo_at u j = fifo_at s j @ cs \<and>
      list_all2 (\<lambda>p c. same_payload (heap u c) (heap s p)) (take ?m (xs @ ys)) cs"
    using old cs(1) ds(1) by (intro exI [of _ "cs @ ds"]) (auto intro: list_all2_appendI)
qed

section \<open>One packet to all outputs\<close>

lemma in_use_finite: "eng_inv os X s \<Longrightarrow> finite (on_links s \<union> X)"
  by (simp add: eng_inv_def pkt_inv_def pool_def)

lemma eng_fifo:
  assumes "eng_inv os Y s"
  shows "distinct (fifo_at s i)" "set (fifo_at s i) \<subseteq> on_links s" "on_links s \<inter> Y = {}"
    "i \<noteq> j \<Longrightarrow> set (fifo_at s i) \<inter> set (fifo_at s j) = {}"
  using assms by (auto simp: eng_inv_def links_ok_def on_links_def)

lemma tee_output_step:
  assumes inv: "eng_inv (env_os E) (insert p Y) s" and p: "p \<notin> Y" and i: "i \<in> live s" "i \<noteq> inp"
    and user: "heap_user (env_os E)" and room: "card (on_links s \<union> insert p Y) < PACKET_LIMIT"
  shows "\<exists>s'. tee_output E inp p i s = Inr s' \<and> eng_inv (env_os E) (insert p Y) s' \<and> eng_frame s s' \<and>
    (\<forall>j. j \<noteq> i \<longrightarrow> fifo_at s' j = fifo_at s j) \<and> copied {i} [p] s s' \<and>
    (\<forall>q \<in> on_links s \<union> insert p Y. heap s' q = heap s q) \<and> on_links s \<subseteq> on_links s' \<and>
    card (on_links s' \<union> insert p Y) \<le> Suc (card (on_links s \<union> insert p Y))"
proof -
  have "pkt_inv (env_os E) (on_links s \<union> insert p Y) s" using inv by (simp add: eng_inv_def)
  then obtain c t0 where "allocate (env_os E) s = Inr (c, t0)"
    using allocate_noroot [of "env_os E" _ s] user room unfolding heap_user_def by blast
  then obtain t where t: "clone (env_os E) p s = Inr (c, t)" by (simp add: clone_def Let_def)
  note a = eng_clone [OF inv _ t]
  have inv': "eng_inv (env_os E) (insert c (insert p Y)) t" and cn: "c \<notin> insert p Y" "c \<notin> on_links s"
    using a by auto
  have it: "i \<in> live t" using a i by (simp add: eng_frame_def)
  have tf: "fifo_at t = fifo_at s" using a by simp
  have payload: "same_payload (heap t c) (heap s p)" using a by (simp add: same_payload_def)
  let ?room = "length (fifo_at s i) < LINK_MAX_PACKETS"
  obtain s' where s': "transmit_on i c t = Inr s'" "eng_inv (env_os E) (insert p Y) s'" "eng_frame t s'"
    "fifo_at s' = (fifo_at s)(i := if ?room then fifo_at s i @ [c] else fifo_at s i)"
    "\<forall>q. q \<noteq> c \<longrightarrow> heap s' q = heap t q" "?room \<longrightarrow> heap s' = heap t"
    using eng_transmit [OF inv' cn(1) it] tf by auto
  have keep: "\<forall>q \<in> on_links s \<union> insert p Y. heap s' q = heap s q"
    using a s'(5) cn by (metis UnE insertI1)
  have "\<exists>cs. fifo_at s' i = fifo_at s i @ cs \<and>
      list_all2 (\<lambda>p c. same_payload (heap s' c) (heap s p)) (take (LINK_MAX_PACKETS - length (fifo_at s i)) [p]) cs"
    using s'(4,6) payload by (cases ?room) (auto simp: take_Cons' intro!: exI [of _ "[c]"])
  then have cp: "copied {i} [p] s s'" by (simp add: copied_def)
  have sub: "on_links s' \<union> insert p Y \<subseteq> insert c (on_links s \<union> insert p Y)"
    and sup: "on_links s \<subseteq> on_links s'"
    unfolding on_links_def by (auto simp: s'(4) split: if_splits)
  have "card (insert c (on_links s \<union> insert p Y)) = Suc (card (on_links s \<union> insert p Y))"
    using in_use_finite [OF inv] cn by (intro card_insert_disjoint) auto
  then have "card (on_links s' \<union> insert p Y) \<le> Suc (card (on_links s \<union> insert p Y))"
    using card_mono [OF _ sub] in_use_finite [OF inv] by (metis finite_insert)
  moreover have "tee_output E inp p i s = Inr s'" using i(2) t s'(1) by (simp add: tee_output_def)
  moreover have "eng_frame s s'" using a s'(3) eng_frame_trans by blast
  ultimately show ?thesis using s'(2,4) cp keep sup by (intro exI [of _ s']) auto
qed

lemma copied_other:
  assumes "copied L xs s t" and "\<And>j. j \<in> L \<Longrightarrow> fifo_at u j = fifo_at t j"
    and "\<And>q. q \<in> on_links t \<Longrightarrow> heap u q = heap t q"
  shows "copied L xs s u"
  using copied_trans [OF assms(1) copied_Nil [OF assms(2)], of "{}"] assms(3) by simp

lemma tee_outputs_copy:
  assumes "eng_inv (env_os E) (insert p Y) s" and p: "p \<notin> Y" and "set L \<subseteq> live s" and "distinct L"
    and inp: "inp \<notin> set L" and user: "heap_user (env_os E)"
    and "card (on_links s \<union> insert p Y) + length L \<le> PACKET_LIMIT"
  shows "\<exists>s'. fold_res (tee_output E inp p) L s = Inr s' \<and> eng_inv (env_os E) (insert p Y) s' \<and>
    eng_frame s s' \<and> (\<forall>j. j \<notin> set L \<longrightarrow> fifo_at s' j = fifo_at s j) \<and> copied (set L) [p] s s' \<and>
    (\<forall>q \<in> on_links s \<union> insert p Y. heap s' q = heap s q) \<and> on_links s \<subseteq> on_links s' \<and>
    card (on_links s' \<union> insert p Y) \<le> card (on_links s \<union> insert p Y) + length L"
  using assms(1,3,4,5,7)
proof (induction L arbitrary: s)
  case Nil
  then show ?case by (simp add: copied_def)
next
  case (Cons i L)
  obtain t where t: "tee_output E inp p i s = Inr t" "eng_inv (env_os E) (insert p Y) t" "eng_frame s t"
    "\<forall>j. j \<noteq> i \<longrightarrow> fifo_at t j = fifo_at s j" "copied {i} [p] s t"
    "\<forall>q \<in> on_links s \<union> insert p Y. heap t q = heap s q" "on_links s \<subseteq> on_links t"
    "card (on_links t \<union> insert p Y) \<le> Suc (card (on_links s \<union> insert p Y))"
    using tee_output_step [OF Cons.prems(1) p _ _ user, of i inp] Cons.prems by auto
  have "set L \<subseteq> live t" using Cons.prems(2) t(3) by (simp add: eng_frame_def)
  moreover have "card (on_links t \<union> insert p Y) + length L \<le> PACKET_LIMIT"
    using t(8) Cons.prems(5) by simp
  ultimately obtain u where u: "fold_res (tee_output E inp p) L t = Inr u"
    "eng_inv (env_os E) (insert p Y) u" "eng_frame t u" "\<forall>j. j \<notin> set L \<longrightarrow> fifo_at u j = fifo_at t j"
    "copied (set L) [p] t u" "\<forall>q \<in> on_links t \<union> insert p Y. heap u q = heap t q"
    "on_links t \<subseteq> on_links u" "card (on_links u \<union> insert p Y) \<le> card (on_links t \<union> insert p Y) + length L"
    using Cons.IH [OF t(2)] Cons.prems(3,4) by auto
  have "copied {i} [p] s u"
    using copied_other [OF t(5), of u] u(4,6) Cons.prems(3) by simp
  moreover have "copied (set L) [p] s u"
  proof -
    have "copied (set L) [] s t" using copied_Nil t(4) Cons.prems(3) by (metis distinct.simps(2))
    from copied_trans [OF this u(5), of "{}"] show ?thesis using u(6) t(6) by simp
  qed
  ultimately have "copied (set (i # L)) [p] s u" by (auto simp: copied_def)
  moreover have "eng_frame s u" using t(3) u(3) eng_frame_trans by blast
  moreover have "\<forall>q \<in> on_links s \<union> insert p Y. heap u q = heap s q" using t(6,7) u(6) by auto
  ultimately show ?case
    using t(1,4,7,8) u(1,2,4,7,8) by (intro exI [of _ u]) auto
qed

section \<open>The links behind ports\<close>

definition port_links :: "hash_order \<Rightarrow> (string, shared_link) hashmap \<Rightarrow> shared_link list" where
  "port_links h ports = map (\<lambda>port. the (map_of ports port)) (port_iter h (keys_of ports))"

lemma for_ports_links: "for_ports h f ports s = fold_res f (port_links h ports) s"
proof -
  have "fold_res (\<lambda>x. f (g x)) xs t = fold_res f (map g xs) t" for g :: "string \<Rightarrow> nat" and xs t
    by (induction xs arbitrary: t) (simp_all add: bind_res_def split: sum.splits)
  then show ?thesis by (simp add: for_ports_def port_links_def)
qed

lemma port_links_mset:
  assumes "distinct (keys_of ports)"
  shows "mset (port_links h ports) = mset (map snd ports)"
proof -
  have "mset (port_iter h (keys_of ports)) = mset (keys_of ports)" by (simp add: port_iter_def walk_def)
  then have "mset (port_links h ports) = image_mset (\<lambda>port. the (map_of ports port)) (mset (keys_of ports))"
    by (simp add: port_links_def)
  also have "\<dots> = mset (map (\<lambda>kv. the (map_of ports (fst kv))) ports)"
    by (simp add: image_mset.compositionality comp_def flip: mset_map)
  also have "map (\<lambda>kv. the (map_of ports (fst kv))) ports = map snd ports"
    using assms by (intro map_cong) auto
  finally show ?thesis .
qed

lemma port_links_distinct:
  assumes "distinct (keys_of ports)" and "distinct (map snd ports)"
  shows "distinct (port_links h ports)" "set (port_links h ports) = snd ` set ports"
    "length (port_links h ports) = length ports"
  using port_links_mset [OF assms(1), of h] assms(2)
  by (metis mset_eq_imp_distinct_iff, metis mset_eq_setD set_map, metis mset_eq_length length_map)

section \<open>Draining inputs\<close>

lemma copied_cong:
  assumes "copied L xs t u" and "\<And>j. j \<in> L \<Longrightarrow> fifo_at t j = fifo_at s j" and "heap t = heap s"
  shows "copied L xs s u"
  using assms by (simp add: copied_def)

lemma received_in_use:
  assumes "fifo_at t = (fifo_at s)(i := ps)" and "fifo_at s i = p # ps"
  shows "on_links t \<union> insert p Y = on_links s \<union> Y"
  unfolding on_links_split [of t i] on_links_split [of s i] using assms by auto

text \<open>One round of the loop: the first packet of the input is copied to the outputs and freed.\<close>

lemma tee_round:
  assumes inv: "eng_inv (env_os E) Y s" and i: "i \<in> live s" "i \<notin> set L" and L: "set L \<subseteq> live s" "distinct L"
    and user: "heap_user (env_os E)" and si: "fifo_at s i = p # ps"
    and room: "card (on_links s \<union> Y) + length L \<le> PACKET_LIMIT"
  shows "\<exists>t u v. receive_on i s = Inr (p, t) \<and> fold_res (tee_output E i p) L t = Inr u \<and> free p u = Inr v \<and>
    eng_inv (env_os E) Y v \<and> eng_frame s v \<and>
    (\<forall>j. j \<notin> set L \<longrightarrow> fifo_at v j = (if j = i then ps else fifo_at s j)) \<and> copied (set L) [p] s v \<and>
    (\<forall>q \<in> on_links s \<union> Y. q \<noteq> p \<longrightarrow> heap v q = heap s q) \<and> on_links s - {p} \<subseteq> on_links v \<and>
    card (on_links v \<union> Y) \<le> card (on_links s \<union> Y) + length L"
proof -
  obtain t where t: "receive_on i s = Inr (p, t)" "eng_inv (env_os E) (insert p Y) t" "p \<notin> Y"
    "eng_frame s t" "fifo_at t = (fifo_at s)(i := ps)" "heap t = heap s"
    using eng_receive [OF inv i(1) si] by blast
  note use = received_in_use [OF t(5) si, of Y]
  have lt: "set L \<subseteq> live t" using L(1) t(4) by (simp add: eng_frame_def)
  obtain u where u: "fold_res (tee_output E i p) L t = Inr u" "eng_inv (env_os E) (insert p Y) u"
    "eng_frame t u" "\<forall>j. j \<notin> set L \<longrightarrow> fifo_at u j = fifo_at t j" "copied (set L) [p] t u"
    "\<forall>q \<in> on_links t \<union> insert p Y. heap u q = heap t q" "on_links t \<subseteq> on_links u"
    "card (on_links u \<union> insert p Y) \<le> card (on_links t \<union> insert p Y) + length L"
    using tee_outputs_copy [OF t(2,3) lt L(2) i(2) user] room use by auto
  obtain v where v: "free p u = Inr v" "eng_inv (env_os E) Y v" "eng_frame u v" "fifo_at v = fifo_at u"
    "\<forall>q. q \<noteq> p \<longrightarrow> heap v q = heap u q"
    using eng_free [OF u(2) t(3)] by blast
  have on: "on_links v = on_links u" by (simp add: on_links_def v(4))
  have pu: "p \<notin> on_links u" using u(2) by (auto simp: eng_inv_def)
  have "on_links v \<union> Y \<subseteq> on_links u \<union> insert p Y" using on by auto
  from card_mono [OF in_use_finite [OF u(2)] this] have "card (on_links v \<union> Y) \<le> card (on_links s \<union> Y) + length L"
    using u(8) use by simp
  moreover have "copied (set L) [p] s v"
  proof (rule copied_other)
    show "copied (set L) [p] s u" by (rule copied_cong [OF u(5)]) (use t(5,6) i(2) in auto)
  qed (use v(4,5) pu in auto)
  moreover have "\<forall>q \<in> on_links s \<union> Y. q \<noteq> p \<longrightarrow> heap v q = heap s q" using u(6) v(5) t(6) use by auto
  moreover have "on_links s - {p} \<subseteq> on_links v"
    unfolding on using u(7) t(5) si on_links_split [of t i] on_links_split [of s i] by auto
  moreover have "eng_frame s v" using t(4) u(3) v(3) eng_frame_trans by blast
  ultimately show ?thesis using t(1,5) u(1,4) v(1,2,4) by (intro exI conjI) auto
qed

lemma tee_drain_copy:
  assumes L: "L = port_links (env_order E) (app_output a)"
    and "eng_inv (env_os E) Y s" and "i \<in> live s" and "set L \<subseteq> live s" and "distinct L"
    and "i \<notin> set L" and user: "heap_user (env_os E)" and "length (fifo_at s i) \<le> fuel"
    and "card (on_links s \<union> Y) + length L * length (fifo_at s i) \<le> PACKET_LIMIT"
  shows "\<exists>s'. tee_drain fuel E a i s = Inr s' \<and> eng_inv (env_os E) Y s' \<and> eng_frame s s' \<and>
    (\<forall>j. j \<notin> set L \<longrightarrow> fifo_at s' j = (if j = i then [] else fifo_at s j)) \<and>
    copied (set L) (fifo_at s i) s s' \<and>
    (\<forall>q \<in> (on_links s - set (fifo_at s i)) \<union> Y. heap s' q = heap s q) \<and>
    card (on_links s' \<union> Y) \<le> card (on_links s \<union> Y) + length L * length (fifo_at s i)"
  using assms(2-6,8,9)
proof (induction "fifo_at s i" arbitrary: s fuel)
  case Nil
  obtain r where r: "link_at i s = Inr r" "link_wf r" "fifo_at s i = link_fifo r"
    using eng_link_at [OF Nil.prems(1,2)] by blast
  then have "empty r" using empty_iff [OF r(2)] Nil(1) by simp
  then have "tee_drain fuel E a i s = Inr s" using r(1) by (cases fuel) simp_all
  then show ?case using Nil copied_Nil [of "set L" s s] by (auto simp flip: Nil(1))
next
  case (Cons p ps)
  note si = Cons(2) [symmetric]
  obtain r where r: "link_at i s = Inr r" "link_wf r" "fifo_at s i = link_fifo r"
    using eng_link_at [OF Cons.prems(1,2)] by blast
  then have ne: "\<not> empty r" using empty_iff [OF r(2)] si by auto
  obtain n where n: "fuel = Suc n" using Cons.prems(6) si by (cases fuel) auto
  have room: "card (on_links s \<union> Y) + length L \<le> PACKET_LIMIT" using Cons.prems(7) si by simp
  obtain t u v where v: "receive_on i s = Inr (p, t)" "fold_res (tee_output E i p) L t = Inr u" "free p u = Inr v"
    "eng_inv (env_os E) Y v" "eng_frame s v" "\<forall>j. j \<notin> set L \<longrightarrow> fifo_at v j = (if j = i then ps else fifo_at s j)"
    "copied (set L) [p] s v" "\<forall>q \<in> on_links s \<union> Y. q \<noteq> p \<longrightarrow> heap v q = heap s q"
    "on_links s - {p} \<subseteq> on_links v" "card (on_links v \<union> Y) \<le> card (on_links s \<union> Y) + length L"
    using tee_round [OF Cons.prems(1,2,5,3,4) user si room] by blast
  have vi: "fifo_at v i = ps" using v(6) Cons.prems(5) by simp
  have lv: "i \<in> live v" "set L \<subseteq> live v" using v(5) Cons.prems(2,3) by (simp_all add: eng_frame_def)
  have fv: "length (fifo_at v i) \<le> n" using Cons.prems(6) si n vi by simp
  have rv: "card (on_links v \<union> Y) + length L * length (fifo_at v i) \<le> PACKET_LIMIT"
    using Cons.prems(7) v(10) si vi by simp
  obtain w where w: "tee_drain n E a i v = Inr w" "eng_inv (env_os E) Y w" "eng_frame v w"
    "\<forall>j. j \<notin> set L \<longrightarrow> fifo_at w j = (if j = i then [] else fifo_at v j)"
    "copied (set L) ps v w" "\<forall>q \<in> (on_links v - set ps) \<union> Y. heap w q = heap v q"
    "card (on_links w \<union> Y) \<le> card (on_links v \<union> Y) + length L * length ps"
    by (rule exE [OF Cons(1) [OF vi [symmetric] v(4) lv Cons.prems(4,5) fv rv, unfolded vi]])
      (elim conjE, rule that)
  have own: "p \<notin> Y" "p \<notin> set ps" "set ps \<subseteq> on_links s" "set ps \<inter> Y = {}"
    using eng_fifo(1,2) [OF Cons.prems(1), of i] eng_fifo(3) [OF Cons.prems(1)] si by auto
  have "tee_drain fuel E a i s = Inr w"
    using r(1) ne v(1-3) w(1) by (simp add: n for_ports_links L)
  moreover have "copied (set L) ([p] @ ps) s w"
  proof (rule copied_trans [OF v(7) w(5), of "set ps"])
    show "set (fifo_at v j) \<inter> set ps = {}" if "j \<in> set L" for j
      using eng_fifo(4) [OF v(4), of j i] that vi Cons.prems(5) by auto
    show "heap v q = heap s q" if "q \<in> set ps" for q using that v(8) own by auto
  qed (use w(6) in auto)
  moreover have "\<forall>q \<in> (on_links s - set (fifo_at s i)) \<union> Y. heap w q = heap s q"
  proof
    fix q
    assume q: "q \<in> (on_links s - set (fifo_at s i)) \<union> Y"
    then have "q \<noteq> p" "q \<in> (on_links v - set ps) \<union> Y" using v(9) own(1) si by auto
    then show "heap w q = heap s q" using q v(8) w(6) by auto
  qed
  moreover have "\<forall>j. j \<notin> set L \<longrightarrow> fifo_at w j = (if j = i then [] else fifo_at s j)"
    using w(4) v(6) by auto
  ultimately show ?case
    using w(2,7) v(10) si eng_frame_trans [OF v(5) w(3)] by (intro exI [of _ w]) auto
qed

lemma tee_inputs_copy:
  assumes L: "L = port_links (env_order E) (app_output a)"
    and "eng_inv (env_os E) Y s" and "set I \<subseteq> live s" and "set L \<subseteq> live s" and "distinct L" and "distinct I"
    and "set I \<inter> set L = {}" and user: "heap_user (env_os E)"
    and "card (on_links s \<union> Y) + length L * length (concat (map (fifo_at s) I)) \<le> PACKET_LIMIT"
  shows "\<exists>s'. fold_res (tee_drain LINK_RING_SIZE E a) I s = Inr s' \<and> eng_inv (env_os E) Y s' \<and> eng_frame s s' \<and>
    (\<forall>j. j \<notin> set L \<longrightarrow> fifo_at s' j = (if j \<in> set I then [] else fifo_at s j)) \<and>
    copied (set L) (concat (map (fifo_at s) I)) s s' \<and>
    (\<forall>q \<in> (on_links s - set (concat (map (fifo_at s) I))) \<union> Y. heap s' q = heap s q)"
  using assms(2-7,9)
proof (induction I arbitrary: s)
  case Nil
  then show ?case by (simp add: copied_Nil)
next
  case (Cons i I)
  have room: "card (on_links s \<union> Y) + length L * length (fifo_at s i) \<le> PACKET_LIMIT"
    using Cons.prems(7) by (simp add: algebra_simps)
  obtain t where t: "tee_drain LINK_RING_SIZE E a i s = Inr t" "eng_inv (env_os E) Y t" "eng_frame s t"
    "\<forall>j. j \<notin> set L \<longrightarrow> fifo_at t j = (if j = i then [] else fifo_at s j)"
    "copied (set L) (fifo_at s i) s t" "\<forall>q \<in> (on_links s - set (fifo_at s i)) \<union> Y. heap t q = heap s q"
    "card (on_links t \<union> Y) \<le> card (on_links s \<union> Y) + length L * length (fifo_at s i)"
    using tee_drain_copy [OF L Cons.prems(1) _ Cons.prems(3,4) _ user fifo_at_bound room] Cons.prems(2,6) by auto
  have It: "map (fifo_at t) I = map (fifo_at s) I" using t(4) Cons.prems(5,6) by auto
  have lt: "set I \<subseteq> live t" "set L \<subseteq> live t" using t(3) Cons.prems(2,3) by (simp_all add: eng_frame_def)
  have rt: "card (on_links t \<union> Y) + length L * length (concat (map (fifo_at t) I)) \<le> PACKET_LIMIT"
    using Cons.prems(7) t(7) unfolding It by (simp add: algebra_simps)
  obtain u where u: "fold_res (tee_drain LINK_RING_SIZE E a) I t = Inr u" "eng_inv (env_os E) Y u"
    "eng_frame t u" "\<forall>j. j \<notin> set L \<longrightarrow> fifo_at u j = (if j \<in> set I then [] else fifo_at t j)"
    "copied (set L) (concat (map (fifo_at s) I)) t u"
    "\<forall>q \<in> (on_links t - set (concat (map (fifo_at s) I))) \<union> Y. heap u q = heap t q"
    using Cons.IH [OF t(2) lt Cons.prems(4) _ _ rt] Cons.prems(5,6) unfolding It by auto
  have apart: "q \<notin> set (fifo_at s i)" if "q \<in> set (concat (map (fifo_at s) I))" for q
    using that eng_fifo(4) [OF Cons.prems(1), of _ i] Cons.prems(5) by fastforce
  have on: "q \<in> on_links t" if q: "q \<in> on_links s" "q \<notin> set (fifo_at s i)" for q
  proof -
    obtain j where "q \<in> set (fifo_at s j)" using q(1) by (auto simp: on_links_def)
    then have "q \<in> set (fifo_at t j)"
      using q(2) t(4) copied_mono [OF t(5), of j] by (cases "j \<in> set L") auto
    then show ?thesis by (auto simp: on_links_def)
  qed
  have "copied (set L) (fifo_at s i @ concat (map (fifo_at s) I)) s u"
  proof (rule copied_trans [OF t(5) u(5), of "set (concat (map (fifo_at s) I))"])
    show "set (fifo_at t j) \<inter> set (concat (map (fifo_at s) I)) = {}" if "j \<in> set L" for j
      using eng_fifo(4) [OF t(2), of j] that Cons.prems(6) unfolding It [symmetric] by fastforce
    show "heap t q = heap s q" if "q \<in> set (concat (map (fifo_at s) I))" for q
      using that t(6) apart [OF that] by (auto simp: on_links_def)
  qed (use u(6) in auto)
  moreover have "\<forall>q \<in> (on_links s - set (concat (map (fifo_at s) (i # I)))) \<union> Y. heap u q = heap s q"
  proof
    fix q
    assume q: "q \<in> (on_links s - set (concat (map (fifo_at s) (i # I)))) \<union> Y"
    then have "heap t q = heap s q" using t(6) by auto
    moreover have "heap u q = heap t q" using q u(6) on by auto
    ultimately show "heap u q = heap s q" by simp
  qed
  moreover have "fold_res (tee_drain LINK_RING_SIZE E a) (i # I) s = Inr u" using t(1) u(1) by simp
  moreover have "\<forall>j. j \<notin> set L \<longrightarrow> fifo_at u j = (if j \<in> set (i # I) then [] else fifo_at s j)"
    using t(4) u(4) by auto
  ultimately show ?case using u(2) eng_frame_trans [OF t(3) u(3)] by (intro exI [of _ u]) simp
qed

section \<open>A tee with two outputs\<close>

definition tee_app :: basic_state where
  "tee_app = \<lparr>app_obj = TeeApp, conf = Tee, app_input = [(''input'', 0)],
     app_output = [(''left'', 1), (''right'', 2)]\<rparr>"

text \<open>Three links and nothing on them, and a packet on the first.\<close>

abbreviation add_link :: "basic_eng \<Rightarrow> basic_eng" where
  "add_link s \<equiv> snd (new_shared_link s)"

definition tee_links :: basic_eng where
  "tee_links = add_link (add_link (add_link start_state))"

lemma add_link_inv: "net_inv os basic_owns s \<Longrightarrow> net_inv os basic_owns (add_link s)"
  using net_new_link [of os basic_owns s] by (cases "new_shared_link s") simp

lemma tee_links_ok: "eng_inv (env_os sample_env) {} tee_links" "live tee_links = {0, 1, 2}" "on_links tee_links = {}"
proof -
  have "net_inv sample_os basic_owns tee_links"
    unfolding tee_links_def by (intro add_link_inv start_inv)
  then show "eng_inv (env_os sample_env) {} tee_links" by (simp add: net_inv_def sample_env_def)
  show "live tee_links = {0, 1, 2}"
    by (auto simp: tee_links_def new_shared_link_def Let_def live_def eng_init_simps)
  have "fifo_at tee_links j = []" for j
    using new_link_ok(2) by (simp add: tee_links_def new_shared_link_def Let_def fifo_at_def eng_init_simps)
  then show "on_links tee_links = {}" by (simp add: on_links_def)
qed

lemma tee_sample:
  "\<exists>(s :: basic_eng) p. eng_inv (env_os sample_env) {} s \<and> live s = {0, 1, 2} \<and> plen (heap s p) = 60 \<and>
     fifo_at s 0 = [p] \<and> fifo_at s 1 = [] \<and> fifo_at s 2 = [] \<and> on_links s = {p}"
proof -
  obtain p t where t: "source_packet sample_env 60 tee_links = Inr (p, t)"
    using source_packet_total [OF tee_links_ok(1) sample_user, of 60] tee_links_ok(3)
    by (auto simp: PACKET_LIMIT_def)
  note a = source_packet_ok [OF tee_links_ok(1) t]
  have lt: "live t = {0, 1, 2}" using a tee_links_ok(2) by (simp add: eng_frame_def)
  have ft: "fifo_at t j = []" for j using a fifo_empty [OF tee_links_ok(3)] by simp
  obtain s where s: "eng_inv (env_os sample_env) {} s" "eng_frame t s" "fifo_at s = (fifo_at t)(0 := [p])"
    "heap s = heap t"
    using eng_transmit [of "env_os sample_env" p "{}" t 0] a lt ft by (auto simp: PULL_NPACKETS_eq)
  have "on_links s = {p}" by (auto simp: on_links_def s(3) ft split: if_splits)
  then show ?thesis
    using s lt ft a by (intro exI [of _ s] exI [of _ p]) (simp add: eng_frame_def)
qed

section \<open>Tee\<close>



end
