(* ===== verification/Rush_Breathe_Total.thy ===== *)
theory Rush_Breathe_Total
  imports Rush_Engine_Wiring Rush_Tee_Correct
begin

text \<open>
  That networks of Source, Sink and Tee apps keep running: links bound the number of packets in use, so with
  few enough links the apps never run out of packets, and no breath panics. With what \<open>configure\<close> sets up, a
  configured network can be run for any number of breaths.
\<close>

section \<open>Packets in use\<close>

lemma finite_live [simp]: "finite (live s)"
  by (simp add: live_def finite_dom_map_of)

lemma fifo_at_max:
  assumes "eng_inv os Y s"
  shows "length (fifo_at s i) \<le> LINK_MAX_PACKETS"
  using link_count_bound by (auto simp: fifo_at_def split: option.splits)

lemma on_links_bound:
  assumes "eng_inv os Y s"
  shows "card (on_links s) \<le> LINK_MAX_PACKETS * card (live s)"
proof -
  have "on_links s = (\<Union>i \<in> live s. set (fifo_at s i))"
    unfolding on_links_def using fifo_dead by force
  then have "card (on_links s) \<le> (\<Sum>i \<in> live s. card (set (fifo_at s i)))" by (simp add: card_UN_le)
  also have "\<dots> \<le> (\<Sum>i \<in> live s. LINK_MAX_PACKETS)"
    by (rule sum_mono) (use card_length fifo_at_max [OF assms] le_trans in blast)
  finally show ?thesis by (simp add: mult.commute)
qed

text \<open>So many links that the limit on packets cannot be reached.\<close>

definition LINK_LIMIT :: nat where
  "LINK_LIMIT = 499"

lemma room:
  assumes "eng_inv os Y s" "card (live s) \<le> LINK_LIMIT"
  shows "card (on_links s) + PULL_NPACKETS \<le> PACKET_LIMIT" "card (on_links s) + 1 < PACKET_LIMIT"
proof -
  have "card (on_links s) \<le> 1023 * 499"
    using on_links_bound [OF assms(1)] mult_le_mono2 [OF assms(2), of LINK_MAX_PACKETS]
    by (simp add: PULL_NPACKETS_eq LINK_LIMIT_def)
  then show "card (on_links s) + PULL_NPACKETS \<le> PACKET_LIMIT" "card (on_links s) + 1 < PACKET_LIMIT"
    by (simp_all add: PULL_NPACKETS_eq PACKET_LIMIT_def)
qed

section \<open>The callbacks return\<close>

lemma source_pull_total:
  assumes inv: "eng_inv (env_os E) {} s" and user: "heap_user (env_os E)"
    and few: "card (live s) \<le> LINK_LIMIT" and live: "snd ` set (app_output a) \<subseteq> live s"
  shows "\<exists>s'. source_pull E sz a s = Inr s'"
proof -
  have "\<exists>s'. source_pull E sz a s = Inr s' \<and> (eng_inv (env_os E) {} s' \<and> eng_frame s s')"
    unfolding source_pull_def
  proof (rule for_ports_total)
    fix i t
    assume i: "i \<in> snd ` set (app_output a)" and t: "eng_inv (env_os E) {} t \<and> eng_frame s t"
    have lt: "i \<in> live t" "card (live t) \<le> LINK_LIMIT" using i live few t by (auto simp: eng_frame_def)
    obtain t' where run: "repeat_res PULL_NPACKETS
        (\<lambda>s. bind_res (source_packet E sz s) (\<lambda>(p, s). transmit_on i p s)) t = Inr t'"
      using source_port_total [OF _ user lt(1), of "{}" PULL_NPACKETS sz] room(1) [OF _ lt(2)] t by auto
    then show "\<exists>t'. repeat_res PULL_NPACKETS
        (\<lambda>s. bind_res (source_packet E sz s) (\<lambda>(p, s). transmit_on i p s)) t = Inr t' \<and>
        eng_inv (env_os E) {} t' \<and> eng_frame s t'"
      using source_port_ok [OF run _ lt(1), of "{}"] t eng_frame_trans [of s t t'] by blast
  qed (simp add: inv)
  then show ?thesis by blast
qed

lemma tee_drain_total:
  assumes "eng_inv (env_os E) {} s" and user: "heap_user (env_os E)" and "card (live s) \<le> LINK_LIMIT"
    and "i \<in> live s" and "snd ` set (app_output a) \<subseteq> live s" and out: "i \<notin> snd ` set (app_output a)"
    and "length (fifo_at s i) \<le> fuel"
  shows "\<exists>s'. tee_drain fuel E a i s = Inr s'"
  using assms(1,3-5,7)
proof (induction fuel arbitrary: s)
  case 0
  obtain r where "link_at i s = Inr r" "link_wf r" "fifo_at s i = link_fifo r"
    using eng_link_at [OF 0(1,3)] by blast
  then show ?case using 0(5) empty_iff [of r] by (simp del: length_link_fifo)
next
  case (Suc fuel)
  obtain r where r: "link_at i s = Inr r" "link_wf r" "fifo_at s i = link_fifo r"
    using eng_link_at [OF Suc.prems(1,3)] by blast
  show ?case
  proof (cases "fifo_at s i")
    case Nil
    then show ?thesis using r empty_iff [of r] by simp
  next
    case (Cons p ps)
    obtain t where t: "receive_on i s = Inr (p, t)" "eng_inv (env_os E) (insert p {}) t" "eng_frame s t"
      "fifo_at t = (fifo_at s)(i := ps)"
      using eng_receive [OF Suc.prems(1,3) Cons] by blast
    have "\<exists>u. for_ports (env_order E) (tee_output E i p) (app_output a) t = Inr u \<and>
        (eng_inv (env_os E) (insert p {}) u \<and> eng_frame s u \<and> fifo_at u i = ps)"
    proof (rule for_ports_total)
      fix j u
      assume j: "j \<in> snd ` set (app_output a)"
        and u: "eng_inv (env_os E) (insert p {}) u \<and> eng_frame s u \<and> fifo_at u i = ps"
      have l: "j \<in> live u" "j \<noteq> i" "card (live u) \<le> LINK_LIMIT"
        using j u out Suc.prems(2,4) by (auto simp: eng_frame_def)
      have "card (on_links u \<union> insert p {}) \<le> card (on_links u) + 1" using card_Un_le [of "on_links u" "{p}"] by simp
      then have "card (on_links u \<union> insert p {}) < PACKET_LIMIT" using room(2) [of _ _ u] l(3) u by force
      from tee_output_step [OF _ _ l(1,2) user this] u obtain v where
        "tee_output E i p j u = Inr v" "eng_inv (env_os E) (insert p {}) v" "eng_frame u v" "fifo_at v i = fifo_at u i"
        using l(2) by auto
      then show "\<exists>v. tee_output E i p j u = Inr v \<and> eng_inv (env_os E) (insert p {}) v \<and> eng_frame s v \<and>
          fifo_at v i = ps"
        using u eng_frame_trans [of s u v] by simp
    qed (simp add: t(2-4))
    then obtain u where u: "for_ports (env_order E) (tee_output E i p) (app_output a) t = Inr u"
      "eng_inv (env_os E) (insert p {}) u" "eng_frame s u" "fifo_at u i = ps" by blast
    obtain v where v: "free p u = Inr v" "eng_inv (env_os E) {} v" "eng_frame u v" "fifo_at v = fifo_at u"
      using eng_free [OF u(2)] by blast
    have fr: "eng_frame s v" using eng_frame_trans [OF u(3) v(3)] .
    have "\<exists>s'. tee_drain fuel E a i v = Inr s'"
      by (rule Suc.IH [OF v(2)]) (use fr Suc.prems u(4) v(4) Cons in \<open>auto simp: eng_frame_def\<close>)
    moreover have "\<not> empty r" using empty_iff [OF r(2)] r(3) Cons by auto
    ultimately show ?thesis using r(1) t(1) u(1) v(1) by auto
  qed
qed

lemma tee_push_total:
  assumes inv: "eng_inv (env_os E) {} s" and user: "heap_user (env_os E)"
    and few: "card (live s) \<le> LINK_LIMIT" and live: "set (app_refs a) \<subseteq> live s"
    and apart: "snd ` set (app_input a) \<inter> snd ` set (app_output a) = {}"
  shows "\<exists>s'. tee_push E a s = Inr s'"
proof -
  have "\<exists>s'. tee_push E a s = Inr s' \<and> (eng_inv (env_os E) {} s' \<and> eng_frame s s')"
    unfolding tee_push_def
  proof (rule for_ports_total)
    fix i t
    assume i: "i \<in> snd ` set (app_input a)" and t: "eng_inv (env_os E) {} t \<and> eng_frame s t"
    have l: "card (live t) \<le> LINK_LIMIT" "i \<in> live t" "snd ` set (app_output a) \<subseteq> live t"
      using i live few t by (auto simp: eng_frame_def app_refs_def)
    obtain t' where run: "tee_drain LINK_RING_SIZE E a i t = Inr t'"
      using tee_drain_total [OF _ user l _ fifo_at_bound] t i apart by blast
    then show "\<exists>t'. tee_drain LINK_RING_SIZE E a i t = Inr t' \<and> eng_inv (env_os E) {} t' \<and> eng_frame s t'"
      using tee_drain_ok [OF run _ l(2,3), of "{}"] t eng_frame_trans [of s t t'] by blast
  qed (simp add: inv)
  then show ?thesis by blast
qed

section \<open>A breath returns\<close>

text \<open>The apps that are called have the callback, and no Tee reads the links it writes.\<close>

definition pulls :: "basic_state \<Rightarrow> bool" where
  "pulls a = (case app_obj a of SourceApp sz \<Rightarrow> True | _ \<Rightarrow> False)"

definition pushes :: "basic_state \<Rightarrow> bool" where
  "pushes a =
     (case app_obj a of
        SinkApp \<Rightarrow> True
      | TeeApp \<Rightarrow> snd ` set (app_input a) \<inter> snd ` set (app_output a) = {}
      | _ \<Rightarrow> False)"

definition breathable :: "basic_eng \<Rightarrow> bool" where
  "breathable s \<longleftrightarrow>
     card (live s) \<le> LINK_LIMIT \<and>
     (\<forall>n \<in> set (inhale s). \<exists>a. map_of (app_table s) n = Some a \<and> pulls a) \<and>
     (\<forall>n \<in> set (exhale s). \<exists>a. map_of (app_table s) n = Some a \<and> pushes a)"

text \<open>What a breath leaves alone: everything about the apps.\<close>

definition same_apps :: "basic_eng \<Rightarrow> basic_eng \<Rightarrow> bool" where
  "same_apps s t \<longleftrightarrow> net_frame s t \<and> map_of (app_table t) = map_of (app_table s)"

lemma same_apps_trans: "same_apps s t \<Longrightarrow> same_apps t u \<Longrightarrow> same_apps s u"
  using net_frame_trans by (auto simp: same_apps_def)

lemma same_apps_breathable: "same_apps s t \<Longrightarrow> breathable t = breathable s"
  by (simp add: same_apps_def breathable_def net_frame_def)

lemma basic_net_eng: "net_inv os basic_owns s \<longleftrightarrow> eng_inv os {} s"
proof -
  have "own_at basic_owns s n = {}" for n by (simp add: own_at_def basic_owns_def split: option.splits)
  then show ?thesis by (simp add: net_inv_def owned_def)
qed

lemma call_app_same:
  assumes inv: "net_inv (env_os E) basic_owns s" and a: "map_of (app_table s) n = Some a"
    and run: "f a s = Inr (app_obj a, t)" and f: "f = op_pull (basic_ops E) \<or> f = op_push (basic_ops E)"
  shows "\<exists>s'. call_app f n s = Inr s' \<and> net_inv (env_os E) basic_owns s' \<and> same_apps s s'"
proof -
  define s' where "s' = t\<lparr>app_table := AList.update n a (app_table t)\<rparr>"
  have call: "call_app f n s = Inr s'" using a run by (simp add: call_app_def s'_def)
  have live: "set (app_refs a) \<subseteq> live s" using refs_live_app [OF inv a] .
  have "eng_inv (env_os E) (basic_owns (app_obj a) \<union> {}) s" using inv by (simp add: basic_net_eng basic_owns_def)
  then have "eng_frame s t"
    using f run basic.pull_ok [OF _ _ live, of E "{}" "app_obj a" t] basic.push_ok [OF _ _ live, of E "{}" "app_obj a" t]
    by auto
  then have "map_of (app_table s') = map_of (app_table s)" using a by (auto simp: s'_def eng_frame_def)
  then show ?thesis using call basic.call_app_inv [OF inv call f] by (simp add: same_apps_def)
qed

lemma pull_total:
  assumes inv: "net_inv (env_os E) basic_owns s" and user: "heap_user (env_os E)"
    and few: "card (live s) \<le> LINK_LIMIT" and a: "map_of (app_table s) n = Some a" and p: "pulls a"
  shows "\<exists>s'. call_app (op_pull (basic_ops E)) n s = Inr s' \<and> net_inv (env_os E) basic_owns s' \<and> same_apps s s'"
proof -
  obtain sz where sz: "app_obj a = SourceApp sz" using p by (auto simp: pulls_def split: basic_app.splits)
  have "snd ` set (app_output a) \<subseteq> live s" using refs_live_app [OF inv a] by (auto simp: app_refs_def)
  then obtain t where "source_pull E sz a s = Inr t"
    using source_pull_total [OF _ user few] inv unfolding basic_net_eng by blast
  then have "op_pull (basic_ops E) a s = Inr (app_obj a, t)"
    by (simp add: basic_ops_def basic_pull_def sz same_app_def)
  then show ?thesis using call_app_same [OF inv a] by blast
qed

lemma push_total:
  assumes inv: "net_inv (env_os E) basic_owns s" and user: "heap_user (env_os E)"
    and few: "card (live s) \<le> LINK_LIMIT" and a: "map_of (app_table s) n = Some a" and p: "pushes a"
  shows "\<exists>s'. call_app (op_push (basic_ops E)) n s = Inr s' \<and> net_inv (env_os E) basic_owns s' \<and> same_apps s s'"
proof -
  have eng: "eng_inv (env_os E) {} s" using inv by (simp add: basic_net_eng)
  have live: "set (app_refs a) \<subseteq> live s" using refs_live_app [OF inv a] .
  then have inp: "snd ` set (app_input a) \<subseteq> live s" by (auto simp: app_refs_def)
  have "\<exists>t. op_push (basic_ops E) a s = Inr (app_obj a, t)"
  proof (cases "app_obj a = SinkApp")
    case True
    then show ?thesis using sink_push_ok [OF eng inp, of E] by (auto simp: basic_ops_def basic_push_def same_app_def)
  next
    case False
    then have tee: "app_obj a = TeeApp" "snd ` set (app_input a) \<inter> snd ` set (app_output a) = {}"
      using p by (auto simp: pushes_def split: basic_app.splits)
    then show ?thesis
      using tee_push_total [OF eng user few live tee(2)] by (auto simp: basic_ops_def basic_push_def same_app_def)
  qed
  then show ?thesis using call_app_same [OF inv a] by blast
qed

lemma calls_total:
  assumes inv: "net_inv (env_os E) basic_owns s"
    and step: "\<And>n t. n \<in> set ns \<Longrightarrow> net_inv (env_os E) basic_owns t \<Longrightarrow> same_apps s t \<Longrightarrow>
      \<exists>t'. call_app f n t = Inr t' \<and> net_inv (env_os E) basic_owns t' \<and> same_apps t t'"
  shows "\<exists>s'. fold_res (call_app f) ns s = Inr s' \<and> (net_inv (env_os E) basic_owns s' \<and> same_apps s s')"
proof (rule fold_res_total)
  fix n t
  assume "n \<in> set ns" and t: "net_inv (env_os E) basic_owns t \<and> same_apps s t"
  then obtain t' where "call_app f n t = Inr t'" "net_inv (env_os E) basic_owns t'" "same_apps t t'"
    using step [of n t] by blast
  then show "\<exists>t'. call_app f n t = Inr t' \<and> net_inv (env_os E) basic_owns t' \<and> same_apps s t'"
    using same_apps_trans [of s t t'] t by blast
qed (simp add: inv same_apps_def)

lemma breathe_total:
  assumes inv: "net_inv (env_os E) basic_owns s" and user: "heap_user (env_os E)" and ok: "breathable s"
  shows "\<exists>s'. breathe E (basic_ops E) s = Inr s' \<and> net_inv (env_os E) basic_owns s' \<and> same_apps s s'"
proof -
  define r where "r = s\<lparr>ticks := Suc (ticks s), MONOTONIC_NOW := Some (env_clk E (ticks s))\<rparr>"
  have r: "net_inv (env_os E) basic_owns r" "net_frame s r"
    using unaffected [OF _ _ inv, of r] by (simp_all add: r_def core_def source_part_def orders_def)
  then have sr: "same_apps s r" by (simp add: same_apps_def r_def)
  have few: "card (live t) \<le> LINK_LIMIT" if "same_apps r t" for t
    using that ok same_apps_breathable [OF same_apps_trans [OF sr that]] by (simp add: breathable_def)
  have here: "map_of (app_table t) = map_of (app_table s)" "inhale t = inhale s" "exhale t = exhale s"
    if "same_apps r t" for t
    using same_apps_trans [OF sr that] by (simp_all add: same_apps_def net_frame_def)
  have rr: "same_apps r r" by (simp add: same_apps_def)
  obtain t where t: "fold_res (call_app (op_pull (basic_ops E))) (inhale r) r = Inr t"
    "net_inv (env_os E) basic_owns t" "same_apps r t"
    using calls_total [OF r(1), of "inhale r" "op_pull (basic_ops E)"] pull_total [OF _ user few] ok here
    by (metis breathable_def rr)
  obtain u where u: "fold_res (call_app (op_push (basic_ops E))) (exhale t) t = Inr u"
    "net_inv (env_os E) basic_owns u" "same_apps t u"
    using calls_total [OF t(2), of "exhale t" "op_push (basic_ops E)"] push_total [OF _ user few] ok here
      same_apps_trans [OF t(3)] by (metis breathable_def t(3))
  define s' where "s' = u\<lparr>STATS := (STATS u)\<lparr>breaths := breaths (STATS u) + 1\<rparr>\<rparr>"
  have run: "breathe E (basic_ops E) s = Inr s'"
    using t(1) u(1) by (simp add: breathe_def instant_now_def r_def [symmetric] s'_def) (simp add: r_def)
  have "map_of (app_table s') = map_of (app_table s)"
    using here(1) [OF same_apps_trans [OF t(3) u(3)]] by (simp add: s'_def)
  then show ?thesis using run basic.breathe_inv [OF inv run] by (simp add: same_apps_def)
qed

section \<open>Configured networks\<close>

text \<open>Every app is what its argument makes.\<close>

definition genuine :: "basic_eng \<Rightarrow> bool" where
  "genuine s \<longleftrightarrow> (\<forall>n c x. inst_of s n = Some (c, x) \<longrightarrow> x = basic_new c)"

lemma start_app_genuine:
  assumes "genuine s" "start_app (basic_ops E) n c s = Inr s'"
  shows "genuine s'"
proof -
  have "inst_of s' = (inst_of s)(n \<mapsto> (c, basic_new c))"
    using assms(2) by (auto simp: start_app_def basic_ops_def inst_of_def)
  then show ?thesis using assms(1) by (auto simp: genuine_def split: if_splits)
qed

lemma configure_steps:
  assumes "configure h (basic_ops E) config s = Inr s'" "net_inv (env_os E) basic_owns s"
  obtains t where "compute_breathe_order h (basic_ops E) t = Inr s'" "genuine s \<Longrightarrow> genuine t"
proof -
  let ?A = "basic_ops E"
  from assms(1) obtain s1 s2 s3 s4 s5 where
    p1: "fold_res (unlink_step (set (links config))) (link_iter h (keys_of (link_table s))) s = Inr s1"
    and p2: "release_links h s1 = Inr s2"
    and p3: "fold_res (stop_step h ?A (apps config)) (app_iter h (keys_of (app_table s2))) s2 = Inr s3"
    and p4: "fold_res (start_step ?A (apps config)) (conf_app_iter h (keys_of (apps config))) s3 = Inr s4"
    and p5: "fold_res (link_apps h) (conf_link_iter h (links config)) s4 = Inr s5"
    and p6: "compute_breathe_order h ?A s5 = Inr s'"
    by (rule configure_phases)
  have i1: "net_inv (env_os E) basic_owns s1" "inst_of s1 = inst_of s" using basic.unlink_phase [OF p1 assms(2)] by simp_all
  have i2: "net_inv (env_os E) basic_owns s2" "inst_of s2 = inst_of s"
    using net_release [OF i1(1), of h] p2 i1(2) by (auto simp: inst_of_def fun_eq_iff)
  note i3 = basic.stop_phase [OF p3 i2(1)]
  have i4: "net_inv (env_os E) basic_owns s4" using basic.start_phase [OF p4] i3 by simp
  have i5: "inst_of s5 = inst_of s4" using basic.link_phase [OF p5 i4] by simp
  have "genuine s5" if "genuine s"
  proof -
    have g3: "genuine s3" using that i3 i2(2) by (auto simp: genuine_def split: if_splits)
    have "genuine s4"
      by (rule fold_res_invariant [where P = genuine, OF _ g3 p4]) (auto intro: start_app_genuine split: if_splits)
    then show ?thesis using i5 by (simp add: genuine_def)
  qed
  then show ?thesis using that p6 by blast
qed

text \<open>No link from an app to itself.\<close>

definition no_loops :: "'arg Config \<Rightarrow> bool" where
  "no_loops c \<longleftrightarrow>
     list_all (\<lambda>x. case parse_link x of Inl e \<Rightarrow> True | Inr l \<Rightarrow> from_app l \<noteq> to_app l) (links c)"

lemma no_loopsD: "no_loops c \<Longrightarrow> x \<in> set (links c) \<Longrightarrow> parse_link x = Inr l \<Longrightarrow> from_app l \<noteq> to_app l"
  by (auto simp: no_loops_def list_all_iff)

lemma not_pseudo: "arg_equal (basic_ops E) c c' \<Longrightarrow> c' \<noteq> PseudoIO \<Longrightarrow> c \<noteq> PseudoIO"
  by (cases c') (auto simp: arg_equal_def basic_ops_def basic_identity_def)

lemma tee_apart:
  assumes "wired s" "no_loops config" "link_names s = set (links config)" "map_of (app_table s) n = Some a"
  shows "snd ` set (app_input a) \<inter> snd ` set (app_output a) = {}"
proof (rule ccontr)
  assume "\<not> ?thesis"
  then obtain p q i where pq: "(p, i) \<in> set (app_input a)" "(q, i) \<in> set (app_output a)" by auto
  have "ports_distinct s" using assms(1) unfolding wired_def by blast
  then have "in_port s (n, p) = Some i" "out_port s (n, q) = Some i"
    using pq assms(4) by (simp_all add: ports_distinct_def in_port_def out_port_def)
  then have "\<exists>x l. map_of (link_table s) x = Some i \<and> parse_link x = Inr l \<and> to_port l = (n, p)"
    and "\<exists>y m. map_of (link_table s) y = Some i \<and> parse_link y = Inr m \<and> from_port m = (n, q)"
    using assms(1) unfolding wired_def by blast+
  then obtain x l y m where x: "map_of (link_table s) x = Some i" "parse_link x = Inr l" "to_port l = (n, p)"
    and y: "map_of (link_table s) y = Some i" "parse_link y = Inr m" "from_port m = (n, q)"
    by blast
  have "x = y" using x(1) y(1) assms(1) unfolding wired_def by blast
  moreover have "x \<in> set (links config)"
    using x(1) assms(3) by (force simp: link_names_def dest: map_of_SomeD)
  ultimately show False using no_loopsD [OF assms(2) _ x(2)] x y by auto
qed

text \<open>The apps, the links and the breathe order of a network that \<open>configure\<close> has built.\<close>

lemma configured_network:
  assumes inv: "net_inv (env_os E) basic_owns s" and run: "configure h (basic_ops E) config s = Inr s'"
    and g: "genuine s" and tab: "tables_ok s'" and loops: "no_loops config"
  obtains t where "genuine t" "s' = t\<lparr>inhale := inhale s', exhale := exhale s'\<rparr>"
    "link_names t = set (links config)" "dom (inst_of t) = set (keys_of (apps config))"
    "\<forall>n c x. inst_of t n = Some (c, x) \<longrightarrow> (\<exists>c'. map_of (apps config) n = Some c' \<and> arg_equal (basic_ops E) c c')"
    "sorted (inhale s')" "distinct (inhale s')" "set (inhale s') = {n. pull_app (basic_ops E) t n}"
    "distinct (exhale s')" "set (exhale s') = (push_links (basic_ops E) t)\<^sup>+ `` {n. pull_app (basic_ops E) t n}"
proof -
  let ?A = "basic_ops E"
  obtain t where t: "compute_breathe_order h ?A t = Inr s'" "genuine t"
    using configure_steps [OF run inv] g by blast
  obtain i e where s': "s' = t\<lparr>inhale := i, exhale := e\<rparr>"
    by (rule compute_breathe_order_effect [OF t(1)])
  have inst: "inst_of s' = inst_of t" by (simp add: s' inst_of_def fun_eq_iff)
  note c = basic.configure_ok [OF inv run, unfolded inst]
  have names: "link_names t = set (links config)" using c by (simp add: s' link_names_def)
  have irr: "(n, n) \<notin> edges (set (keys_of (link_table t)))" for n
    using names no_loopsD [OF loops] unfolding edges_def link_names_def by fastforce
  have d: "distinct (keys_of (app_table t))" using tab by (simp add: tables_ok_def s')
  obtain inh exh where o: "s' = t\<lparr>inhale := inh, exhale := exh\<rparr>" "sorted inh" "distinct inh"
    "set inh = {n. pull_app ?A t n}" "distinct exh" "set exh = (push_links ?A t)\<^sup>+ `` {n. pull_app ?A t n}"
    using compute_breathe_order_ok [OF d irr t(1)] by (elim exE conjE) (rule that)
  have ie: "inhale s' = inh" "exhale s' = exh" by (simp_all add: o(1))
  show ?thesis
    by (rule that [OF t(2) _ names, unfolded ie]) (use c o in simp_all)
qed

lemma configured_breathable:
  assumes inv: "net_inv (env_os E) basic_owns s" and run: "configure h (basic_ops E) config s = Inr s'"
    and w: "wired s" and g: "genuine s" and tab: "tables_ok s'"
    and loops: "no_loops config" and pseudo: "PseudoIO \<notin> snd ` set (apps config)"
    and few: "card (set (links config)) \<le> LINK_LIMIT"
  shows "breathable s'"
proof -
  let ?A = "basic_ops E"
  obtain t where t: "genuine t" and s': "s' = t\<lparr>inhale := inhale s', exhale := exhale s'\<rparr>"
    and names: "link_names t = set (links config)"
    and conf: "\<forall>n c x. inst_of t n = Some (c, x) \<longrightarrow> (\<exists>c'. map_of (apps config) n = Some c' \<and> arg_equal ?A c c')"
    and ord: "set (inhale s') = {n. pull_app ?A t n}"
      "set (exhale s') = (push_links ?A t)\<^sup>+ `` {n. pull_app ?A t n}"
    by (rule configured_network [OF inv run g tab loops])
  have same: "map_of (app_table s') n = map_of (app_table t) n" "link_names s' = link_names t" for n
    by (subst s', simp add: link_names_def)+
  have w': "wired s'" "tight s'" using basic_lasting.configure_wired(1) [OF run inv w] by simp_all
  have "card (live s') = card (link_names s')"
    using bij_betw_same_card [OF live_links [OF w']] tab by (simp add: tables_ok_def)
  then have cl: "card (live s') \<le> LINK_LIMIT" using few names same(2) by simp
  have obj: "app_obj a \<noteq> PseudoIOApp" if "map_of (app_table t) n = Some a" for n a
  proof -
    have inst: "inst_of t n = Some (conf a, app_obj a)" using that by (simp add: inst_of_def)
    then obtain c' where "map_of (apps config) n = Some c'" "arg_equal ?A (conf a) c'" using conf by blast
    moreover from this(1) have "c' \<noteq> PseudoIO" using pseudo by (force dest: map_of_SomeD)
    ultimately have "conf a \<noteq> PseudoIO" using not_pseudo by blast
    moreover have "app_obj a = basic_new (conf a)" using t inst unfolding genuine_def by blast
    ultimately show ?thesis by (cases "conf a") simp_all
  qed
  have "\<exists>a. map_of (app_table s') n = Some a \<and> pulls a" if "n \<in> set (inhale s')" for n
  proof -
    have "pull_app ?A t n" using that ord(1) by simp
    then obtain a where "map_of (app_table t) n = Some a" "basic_has_pull (app_obj a)"
      by (auto simp: pull_app_def basic_ops_def)
    then show ?thesis using obj [of n a] by (cases "app_obj a") (simp_all add: pulls_def same(1))
  qed
  moreover have "\<exists>a. map_of (app_table s') n = Some a \<and> pushes a" if "n \<in> set (exhale s')" for n
  proof -
    have "n \<in> (push_links ?A t)\<^sup>+ `` {n. pull_app ?A t n}" using that ord(2) by simp
    then obtain m where "(m, n) \<in> (push_links ?A t)\<^sup>+" by auto
    then have "push_app ?A t n" by (cases rule: trancl.cases) (auto simp: push_links_def)
    then obtain a where a: "map_of (app_table t) n = Some a" "basic_has_push (app_obj a)"
      by (auto simp: push_app_def basic_ops_def)
    then have "snd ` set (app_input a) \<inter> snd ` set (app_output a) = {}"
      using tee_apart [OF w'(1) loops, of n a] names by (simp add: same)
    then show ?thesis using a obj [of n a] by (cases "app_obj a") (simp_all add: pushes_def same(1))
  qed
  ultimately show ?thesis using cl by (simp add: breathable_def)
qed

text \<open>Then it can be run on and on.\<close>

lemma breathable_repeat:
  assumes "net_inv (env_os E) basic_owns s" "heap_user (env_os E)" "breathable s"
  shows "\<exists>s'. repeat_res n (breathe E (basic_ops E)) s = Inr s' \<and> net_inv (env_os E) basic_owns s' \<and> same_apps s s'"
  using assms
proof (induction n arbitrary: s)
  case 0
  then show ?case by (simp add: same_apps_def)
next
  case (Suc n)
  obtain t where t: "breathe E (basic_ops E) s = Inr t" "net_inv (env_os E) basic_owns t" "same_apps s t"
    using breathe_total [OF Suc.prems] by blast
  then obtain u where "repeat_res n (breathe E (basic_ops E)) t = Inr u" "net_inv (env_os E) basic_owns u" "same_apps t u"
    using Suc.IH [OF t(2) Suc.prems(2)] same_apps_breathable [OF t(3)] Suc.prems(3) by blast
  then show ?case using t same_apps_trans by auto
qed

lemma breathable_main_loop:
  assumes "net_inv (env_os E) basic_owns s" "heap_user (env_os E)" "breathable s"
    and looks: "\<And>f t. done_fn = Some f \<Longrightarrow> core (snd (f t)) = core t \<and> orders (snd (f t)) = orders t"
    and "main_loop fuel E (basic_ops E) done_fn s = Inl e"
  shows "e = Diverges"
  using assms(1-3,5)
proof (induction fuel arbitrary: s)
  case 0
  then show ?case by simp
next
  case (Suc fuel)
  define r where "r = (case done_fn of Some f \<Rightarrow> f s | None \<Rightarrow> (False, s))"
  have same: "same_apps s t" "net_inv (env_os E) basic_owns t" if "core t = core s" "orders t = orders s" for t
    using unaffected [OF that Suc.prems(1)] that(1) by (simp_all add: same_apps_def core_def)
  have r: "core (snd r) = core s" "orders (snd r) = orders s" using looks by (auto simp: r_def split: option.splits)
  then have p: "core (pace_breathing (snd r)) = core s" "orders (pace_breathing (snd r)) = orders s"
    by (simp_all add: pace_breathing_def core_def orders_def source_part_def Let_def)
  obtain t where t: "breathe E (basic_ops E) (pace_breathing (snd r)) = Inr t" "net_inv (env_os E) basic_owns t"
    "same_apps (pace_breathing (snd r)) t"
    using breathe_total [OF same(2) [OF p] Suc.prems(2)] same_apps_breathable [OF same(1) [OF p]] Suc.prems(3) by blast
  have "breathable t" using same_apps_breathable [OF t(3)] same_apps_breathable [OF same(1) [OF p]] Suc.prems(3) by simp
  moreover have "main_loop fuel E (basic_ops E) done_fn t = Inl e"
    using Suc.prems(4) t(1) by (simp add: r_def [symmetric] split: prod.splits if_splits)
  ultimately show ?case using Suc.IH [OF t(2) Suc.prems(2)] by blast
qed

text \<open>
  C2: a configured network runs without panic. From any well-formed network \<open>configure\<close> reaches any
  configuration of Source, Sink and Tee apps in which every link joins two different apps and which has at
  most 499 links; then, for a process that gets its memory from the heap, any number of breaths returns, with
  every packet accounted for, and the main loop with any stop condition that only looks at the state ends
  in no panic, however long it runs.
\<close>

theorem configured_network_runs:
  assumes "net_inv (env_os E) basic_owns s" and "tables_ok s" and "wired s" and "genuine s"
    and "heap_user (env_os E)" and "config_closed config" and "no_loops config"
    and "PseudoIO \<notin> snd ` set (apps config)" and "card (set (links config)) \<le> LINK_LIMIT"
  shows "\<exists>s'. configure h (basic_ops E) config s = Inr s' \<and>
    (\<forall>n. \<exists>t. repeat_res n (breathe E (basic_ops E)) s' = Inr t \<and> net_inv (env_os E) basic_owns t) \<and>
    (\<forall>fuel f e. (\<forall>t. core (snd (f t)) = core t \<and> orders (snd (f t)) = orders t) \<longrightarrow>
       main_loop fuel E (basic_ops E) (Some f) s' = Inl e \<longrightarrow> e = Diverges)"
proof -
  obtain s' where s': "configure h (basic_ops E) config s = Inr s'" "tables_ok s'"
    using basic_lasting.configure_total [OF assms(1,2,6), of h] by blast
  have inv: "net_inv (env_os E) basic_owns s'" using basic.configure_ok [OF assms(1) s'(1)] by simp
  have ok: "breathable s'" using configured_breathable [OF assms(1) s'(1) assms(3,4) s'(2) assms(7-9)] .
  show ?thesis
    using s'(1) breathable_repeat [OF inv assms(5) ok] breathable_main_loop [OF inv assms(5) ok]
    by (metis option.inject)
qed

theorem configured_network_runs_witness:
  "\<exists>t. repeat_res 3 (breathe sample_env (basic_ops sample_env)) sample_net = Inr t \<and>
     net_inv (env_os sample_env) basic_owns t"
proof -
  have inv: "net_inv (env_os sample_env) basic_owns start_state" using start_inv by (simp add: sample_env_def)
  have tab: "tables_ok start_state" by (simp add: tables_ok_def links_joined_def eng_init_simps)
  have gen: "genuine start_state" by (simp add: genuine_def inst_of_def eng_init_simps)
  have closed: "config_closed sample_config" "no_loops sample_config" "PseudoIO \<notin> snd ` set (apps sample_config)"
    "card (set (links sample_config)) \<le> LINK_LIMIT"
    by (simp_all add: sample_config_def config_closed_def no_loops_def joins_def parse_sample_link LINK_LIMIT_def)
  obtain s' where "configure insertion_order (basic_ops sample_env) sample_config start_state = Inr s'"
    "\<forall>n. \<exists>t. repeat_res n (breathe sample_env (basic_ops sample_env)) s' = Inr t \<and> net_inv (env_os sample_env) basic_owns t"
    using configured_network_runs [OF inv tab start_wired gen sample_user closed, of insertion_order]
    by (elim exE conjE) (rule that)
  then show ?thesis using sample_configure by simp
qed

end
