(* ===== verification/Rush_Order_Test.thy ===== *)
theory Rush_Order_Test
  imports Rush_Breathe_Total
begin

text \<open>
  The test \<open>breathe_order\<close> of \<open>src/engine.rs\<close>: three networks with cycles and diamonds are configured one
  after the other, and the order of callbacks is printed for each. It is shown which order that is, up to
  what depends on the iteration order of hash tables.
\<close>

section \<open>The test\<close>

definition add_links :: "string list \<Rightarrow> 'arg Config \<Rightarrow> 'arg Config res" where
  "add_links specs c = fold_res link specs c"

definition test_order_case1 :: "basic_arg Config res" where
  "test_order_case1 =
     (let c = new_config;
          c = app ''a_io1'' PseudoIO c;
          c = app ''b_t1'' Tee c;
          c = app ''c_t2'' Tee c;
          c = app ''d_t3'' Tee c
      in add_links [''a_io1.output -> b_t1.input'', ''b_t1.output -> c_t2.input'',
           ''b_t1.output2 -> d_t3.input'', ''d_t3.output -> b_t1.input2''] c)"

definition test_order_case2 :: "basic_arg Config res" where
  "test_order_case2 =
     (let c = new_config;
          c = app ''a_io1'' PseudoIO c;
          c = app ''b_t1'' Tee c;
          c = app ''c_t2'' Tee c;
          c = app ''d_t3'' Tee c
      in add_links [''a_io1.output -> b_t1.input'', ''b_t1.output -> c_t2.input'',
           ''b_t1.output2 -> d_t3.input'', ''c_t2.output -> d_t3.input2''] c)"

definition test_order_case3 :: "basic_arg Config res" where
  "test_order_case3 =
     (let c = new_config;
          c = app ''a_io1'' PseudoIO c;
          c = app ''b_t1'' Tee c;
          c = app ''c_t2'' Tee c
      in add_links [''a_io1.output -> b_t1.input'', ''a_io1.output2 -> c_t2.input'',
           ''b_t1.output -> a_io1.input'', ''b_t1.output2 -> c_t2.input2'', ''c_t2.output -> a_io1.input2''] c)"

text \<open>Configure, report the links, and print the order; the result is the order that was printed.\<close>

definition test_order_run ::
  "env \<Rightarrow> basic_arg Config res \<Rightarrow> basic_eng \<Rightarrow> ((string list \<times> string list) \<times> basic_eng) res" where
  "test_order_run E config s =
     bind_res config (\<lambda>c.
     bind_res (configure (env_order E) (basic_ops E) c s) (\<lambda>s.
     bind_res (report_links s) (\<lambda>s.
     let s = fold (\<lambda>name. println (Line (''pull '' @ name))) (inhale s) s;
         s = fold (\<lambda>name. println (Line (''push '' @ name))) (exhale s) s
     in Inr ((inhale s, exhale s), s))))"

definition test_breathe_order ::
  "env \<Rightarrow> basic_eng \<Rightarrow> ((string list \<times> string list) list \<times> basic_eng) res" where
  "test_breathe_order E s =
     (let s = println (Line ''Case 1:'') s in
      bind_res (test_order_run E test_order_case1 s) (\<lambda>(o1, s).
      let s = println (Line ''Case 2:'') s in
      bind_res (test_order_run E test_order_case2 s) (\<lambda>(o2, s).
      let s = println (Line ''Case 3:'') s in
      bind_res (test_order_run E test_order_case3 s) (\<lambda>(o3, s).
      Inr ([o1, o2, o3], s)))))"

section \<open>Links that were never used\<close>

definition quiet :: "('app, 'arg) eng \<Rightarrow> bool" where
  "quiet s \<longleftrightarrow> (\<forall>i r. map_of (link_store s) i = Some r \<longrightarrow> r = new_link)"

lemma drop_new_link: "drop_link new_link s = Inr (new_link, s)"
proof -
  have "empty new_link" using empty_iff [OF new_link_ok(1)] new_link_ok(2) by simp
  then show ?thesis by (simp add: drop_link_def LINK_RING_SIZE_def eval_nat_numeral)
qed

lemma drop_shared_quiet:
  assumes "quiet s" "drop_shared i s = Inr s'"
  shows "quiet s'"
proof -
  obtain r where r: "map_of (link_store s) i = Some r" using assms(2) by (auto simp: drop_shared_def res_simps)
  then have "r = new_link" using assms(1) by (simp add: quiet_def)
  then have "s' = s\<lparr>link_store := AList.delete i (link_store s)\<rparr>"
    using assms(2) r by (simp add: drop_shared_def drop_new_link)
  then show ?thesis using assms(1) by (simp add: quiet_def delete_conv')
qed

lemma release_quiet: "quiet s \<Longrightarrow> release_links h s = Inr s' \<Longrightarrow> quiet s'"
  unfolding release_links_def by (rule fold_res_invariant [where P = quiet]) (auto intro: drop_shared_quiet)

lemma quiet_cong: "link_store s' = link_store s \<Longrightarrow> quiet s' = quiet s"
  by (simp add: quiet_def)

lemma port_ops_store:
  "set_output n p i s = Inr s' \<Longrightarrow> link_store s' = link_store s"
  "set_input n p i s = Inr s' \<Longrightarrow> link_store s' = link_store s"
  "del_output n p s = Inr s' \<Longrightarrow> link_store s' = link_store s"
  "del_input n p s = Inr s' \<Longrightarrow> link_store s' = link_store s"
  by (auto simp: set_output_def set_input_def del_output_def del_input_def res_simps)

lemma unlink_quiet: "quiet s \<Longrightarrow> unlink_apps x s = Inr s' \<Longrightarrow> quiet s'"
  by (auto simp: unlink_apps_def Let_def res_simps quiet_def dest!: port_ops_store)

lemma stop_quiet:
  assumes "quiet s" "stop_app h (basic_ops E) n s = Inr s'"
  shows "quiet s'"
proof -
  have "release_links h (s\<lparr>app_table := AList.delete n (app_table s)\<rparr>) = Inr s'"
    using assms(2) by (auto simp: stop_app_def res_simps Let_def basic_ops_def)
  moreover have "quiet (s\<lparr>app_table := AList.delete n (app_table s)\<rparr>)" using assms(1) by (simp add: quiet_def)
  ultimately show ?thesis using release_quiet by blast
qed

lemma start_quiet: "quiet s \<Longrightarrow> start_app (basic_ops E) n c s = Inr s' \<Longrightarrow> quiet s'"
  by (auto simp: start_app_def basic_ops_def quiet_def)

lemma link_quiet:
  assumes "quiet s" "link_apps h x s = Inr s'"
  shows "quiet s'"
proof -
  obtain i t l u v z where get: "get_link x s = (i, t)" and l: "parse_link x = Inr l"
    and run: "set_output (from_app l) (output_name l) i t = Inr u" "release_links h u = Inr v"
      "set_input (to_app l) (input_name l) i v = Inr z" "release_links h z = Inr s'"
    by (rule link_apps_steps [OF assms(2)])
  have "quiet t"
    using get assms(1) by (auto simp: get_link_def new_shared_link_def Let_def quiet_def split: option.splits if_splits)
  then show ?thesis using run port_ops_store release_quiet quiet_cong by metis
qed

lemma configure_quiet:
  assumes "configure h (basic_ops E) config s = Inr s'" "quiet s"
  shows "quiet s'"
proof -
  let ?A = "basic_ops E"
  from assms(1) obtain s1 s2 s3 s4 s5 where
    p1: "fold_res (unlink_step (set (links config))) (link_iter h (keys_of (link_table s))) s = Inr s1"
    and p2: "release_links h s1 = Inr s2"
    and p3: "fold_res (stop_step h ?A (apps config)) (app_iter h (keys_of (app_table s2))) s2 = Inr s3"
    and p4: "fold_res (start_step ?A (apps config)) (conf_app_iter h (keys_of (apps config))) s3 = Inr s4"
    and p5: "fold_res (link_apps h) (conf_link_iter h (links config)) s4 = Inr s5"
    and p6: "compute_breathe_order h ?A s5 = Inr s'"
    by (rule configure_phases)
  have "quiet s1"
    by (rule fold_res_invariant [where P = quiet, OF _ assms(2) p1]) (auto intro: unlink_quiet split: if_splits)
  then have q2: "quiet s2" using release_quiet p2 by blast
  have q3: "quiet s3"
    by (rule fold_res_invariant [where P = quiet, OF _ q2 p3])
      (auto simp: res_simps intro: stop_quiet split: option.splits if_splits)
  have q4: "quiet s4"
    by (rule fold_res_invariant [where P = quiet, OF _ q3 p4]) (auto intro: start_quiet split: if_splits)
  have "quiet s5" by (rule fold_res_invariant [where P = quiet, OF _ q4 p5]) (auto intro: link_quiet)
  moreover obtain inh exh where "s' = s5\<lparr>inhale := inh, exhale := exh\<rparr>"
    by (rule compute_breathe_order_effect [OF p6])
  ultimately show ?thesis by (simp add: quiet_def)
qed

text \<open>The report on such links returns.\<close>

lemma report_quiet:
  fixes s :: "('app, 'arg) eng"
  assumes inv: "net_inv os owns s" and q: "quiet s"
  shows "\<exists>s'. report_links s = Inr s'"
proof -
  define t where "t = println (Line ''Link report:'') s"
  have t: "link_table t = link_table s" "link_store t = link_store s" by (simp_all add: t_def println_def)
  have "\<exists>s'. fold_res report_link (sort (keys_of (link_table t))) t = Inr s' \<and>
      (link_table s' = link_table s \<and> link_store s' = link_store s)"
  proof (rule fold_res_total)
    fix n and u :: "('app, 'arg) eng"
    assume n: "n \<in> set (sort (keys_of (link_table t)))" and u: "link_table u = link_table s \<and> link_store u = link_store s"
    obtain i where i: "map_of (link_table s) n = Some i"
      using n t map_of_eq_None_keys [of "link_table s" n] by (auto simp del: set_map)
    then have "i \<in> snd ` set (link_table s)" by (force dest: map_of_SomeD)
    then have "i \<in> live s" using inv by (auto simp: net_inv_def eng_inv_def set_link_refs)
    then obtain r where "map_of (link_store s) i = Some r" by (auto simp: live_def)
    moreover from this have "r = new_link" using q by (simp add: quiet_def)
    ultimately show "\<exists>s'. report_link n u = Inr s' \<and> link_table s' = link_table s \<and> link_store s' = link_store s"
      using i u by (simp add: report_link_def loss_rate_def new_link_def println_def)
  qed (use t in simp)
  then show ?thesis by (auto simp: report_links_def t_def Let_def)
qed

section \<open>The order of a configuration of PseudoIO and Tee apps\<close>

lemma same_arg: "arg_equal (basic_ops E) c c' \<Longrightarrow> c' = PseudoIO \<or> c' = Tee \<Longrightarrow> c = c'"
  by (cases c) (auto simp: arg_equal_def basic_ops_def basic_identity_def)

lemma print_names_core: "core (fold (\<lambda>n. println (f n)) ns s) = core s \<and> orders (fold (\<lambda>n. println (f n)) ns s) = orders s"
  by (induction ns arbitrary: s) (simp_all add: println_def core_def orders_def source_part_def)

text \<open>What the cases hand on to each other.\<close>

definition ready :: "os \<Rightarrow> basic_eng \<Rightarrow> bool" where
  "ready os s \<longleftrightarrow> net_inv os basic_owns s \<and> tables_ok s \<and> genuine s \<and> quiet s"

lemma ready_core:
  assumes "ready os s" "core t = core s" "orders t = orders s"
  shows "ready os t"
proof -
  have eq: "app_table t = app_table s" "link_store t = link_store s"
    using assms(2) by (simp_all add: core_def)
  have inv: "net_inv os basic_owns s" "tables_ok s" "genuine s" "quiet s" using assms(1) by (simp_all add: ready_def)
  have "net_inv os basic_owns t" "net_frame s t" using unaffected [OF assms(2,3) inv(1)] by simp_all
  moreover from this have "tables_ok t" using tables_ok_frame [OF inv(2)] by blast
  moreover have "inst_of t = inst_of s" using eq(1) by (simp add: inst_of_def fun_eq_iff)
  then have "genuine t" using inv(3) by (simp add: genuine_def)
  moreover have "quiet t" using inv(4) quiet_cong [OF eq(2)] by simp
  ultimately show ?thesis by (simp add: ready_def)
qed

text \<open>What the order follows, in terms of the configuration.\<close>

lemma pseudo_tee_apps:
  assumes gen: "genuine t" and dom: "dom (inst_of t) = set (keys_of (apps c))"
    and conf: "\<forall>n x y. inst_of t n = Some (x, y) \<longrightarrow> (\<exists>x'. map_of (apps c) n = Some x' \<and> arg_equal (basic_ops E) x x')"
    and args: "\<forall>n x. map_of (apps c) n = Some x \<longrightarrow> x = PseudoIO \<or> x = Tee"
  shows "pull_app (basic_ops E) t n \<longleftrightarrow> map_of (apps c) n = Some PseudoIO"
    and "push_app (basic_ops E) t n \<longleftrightarrow> map_of (apps c) n \<noteq> None"
proof -
  have app: "map_of (apps c) n = Some (conf a) \<and> app_obj a = basic_new (conf a)"
    if "map_of (app_table t) n = Some a" for a
  proof -
    have i: "inst_of t n = Some (conf a, app_obj a)" using that by (simp add: inst_of_def)
    then obtain x where "map_of (apps c) n = Some x" "arg_equal (basic_ops E) (conf a) x" using conf by blast
    moreover from this have "conf a = x" using same_arg args by blast
    ultimately show ?thesis using gen i unfolding genuine_def by blast
  qed
  have "n \<in> dom (inst_of t) \<longleftrightarrow> map_of (apps c) n \<noteq> None"
    unfolding dom by (simp add: map_of_eq_None_keys del: set_map)
  then have "map_of (app_table t) n = None \<longleftrightarrow> map_of (apps c) n = None"
    unfolding domIff inst_of_def option.map_disc_iff by blast
  then consider (none) "map_of (app_table t) n = None" "map_of (apps c) n = None"
    | (pseudo) a where "map_of (app_table t) n = Some a" "map_of (apps c) n = Some PseudoIO" "app_obj a = PseudoIOApp"
    | (tee) a where "map_of (app_table t) n = Some a" "map_of (apps c) n = Some Tee" "app_obj a = TeeApp"
    using app args by fastforce
  then show "pull_app (basic_ops E) t n \<longleftrightarrow> map_of (apps c) n = Some PseudoIO"
    and "push_app (basic_ops E) t n \<longleftrightarrow> map_of (apps c) n \<noteq> None"
    by (cases; simp add: pull_app_def push_app_def basic_ops_def)+
qed

lemma closed_ends:
  assumes "config_closed c" "(n, m) \<in> edges (set (links c))"
  shows "map_of (apps c) m \<noteq> None"
proof -
  obtain x l where "x \<in> set (links c)" "parse_link x = Inr l" "m = to_app l"
    using assms(2) unfolding edges_def by blast
  then have "m \<in> set (keys_of (apps c))"
    using assms(1) by (auto simp: config_closed_def list_all_iff joins_iff simp del: set_map)
  then show ?thesis using map_of_eq_None_keys [of "apps c" m] by blast
qed

lemma configure_order:
  assumes s: "ready (env_os E) s" and closed: "config_closed c" "no_loops c"
    and args: "\<forall>n x. map_of (apps c) n = Some x \<longrightarrow> x = PseudoIO \<or> x = Tee"
  shows "\<exists>s'. configure h (basic_ops E) c s = Inr s' \<and> ready (env_os E) s' \<and>
    sorted (inhale s') \<and> distinct (inhale s') \<and> set (inhale s') = {n. map_of (apps c) n = Some PseudoIO} \<and>
    distinct (exhale s') \<and> set (exhale s') = (edges (set (links c)))\<^sup>+ `` {n. map_of (apps c) n = Some PseudoIO}"
proof -
  let ?A = "basic_ops E"
  have inv: "net_inv (env_os E) basic_owns s" and tab: "tables_ok s" and gen: "genuine s" and q: "quiet s"
    using s by (simp_all add: ready_def)
  obtain s' where run: "configure h ?A c s = Inr s'" and tab': "tables_ok s'"
    using basic_lasting.configure_total [OF inv tab closed(1)] by blast
  obtain t where t: "genuine t" "dom (inst_of t) = set (keys_of (apps c))"
      "\<forall>n x y. inst_of t n = Some (x, y) \<longrightarrow> (\<exists>x'. map_of (apps c) n = Some x' \<and> arg_equal ?A x x')"
    and s': "s' = t\<lparr>inhale := inhale s', exhale := exhale s'\<rparr>"
    and names: "link_names t = set (links c)"
    and ord: "sorted (inhale s')" "distinct (inhale s')" "set (inhale s') = {n. pull_app ?A t n}"
      "distinct (exhale s')" "set (exhale s') = (push_links ?A t)\<^sup>+ `` {n. pull_app ?A t n}"
    by (rule configured_network [OF inv run gen tab' closed(2)])
  note net = pseudo_tee_apps [OF t args]
  have keys: "set (keys_of (link_table t)) = set (links c)" using names by (simp add: link_names_def)
  have "push_links ?A t = edges (set (links c))"
    unfolding push_links_def net(2) keys using closed_ends [OF closed(1)] by blast
  then have o: "set (inhale s') = {n. map_of (apps c) n = Some PseudoIO}"
    "set (exhale s') = (edges (set (links c)))\<^sup>+ `` {n. map_of (apps c) n = Some PseudoIO}"
    using ord(3,5) unfolding net(1) by simp_all
  have "inst_of s' = inst_of t" by (subst s') (simp add: inst_of_def fun_eq_iff)
  then have "genuine s'" using t(1) by (simp add: genuine_def)
  then have "ready (env_os E) s'"
    using basic.configure_ok [OF inv run] tab' configure_quiet [OF run q] by (simp add: ready_def)
  then show ?thesis using run ord(1,2,4) o by blast
qed

lemma test_order_run_passes:
  assumes s: "ready (env_os E) s" and closed: "config_closed c" "no_loops c"
    and args: "\<forall>n x. map_of (apps c) n = Some x \<longrightarrow> x = PseudoIO \<or> x = Tee"
  shows "\<exists>inh exh s'. test_order_run E (Inr c) s = Inr ((inh, exh), s') \<and> ready (env_os E) s' \<and>
    sorted inh \<and> distinct inh \<and> set inh = {n. map_of (apps c) n = Some PseudoIO} \<and>
    distinct exh \<and> set exh = (edges (set (links c)))\<^sup>+ `` {n. map_of (apps c) n = Some PseudoIO}"
proof -
  obtain t where t: "configure (env_order E) (basic_ops E) c s = Inr t" "ready (env_os E) t"
    "sorted (inhale t)" "distinct (inhale t)" "set (inhale t) = {n. map_of (apps c) n = Some PseudoIO}"
    "distinct (exhale t)" "set (exhale t) = (edges (set (links c)))\<^sup>+ `` {n. map_of (apps c) n = Some PseudoIO}"
    using configure_order [OF assms, of "env_order E"] by (elim exE conjE) (rule that)
  obtain u where u: "report_links t = Inr u"
    using report_quiet [of "env_os E" basic_owns t] t(2) by (auto simp: ready_def)
  define v where "v = fold (\<lambda>n. println (Line (''pull '' @ n))) (inhale u) u"
  define w where "w = fold (\<lambda>n. println (Line (''push '' @ n))) (exhale v) v"
  have c: "core w = core t" "orders w = orders t"
    using report_links_same [OF u] print_names_core [of "\<lambda>n. Line (''pull '' @ n)" "inhale u" u, folded v_def]
      print_names_core [of "\<lambda>n. Line (''push '' @ n)" "exhale v" v, folded w_def] by simp_all
  then have "inhale w = inhale t" "exhale w = exhale t" by (simp_all add: orders_def)
  moreover have "test_order_run E (Inr c) s = Inr ((inhale w, exhale w), w)"
    using t(1) u by (simp add: test_order_run_def Let_def v_def w_def)
  ultimately show ?thesis using t(3-7) ready_core [OF t(2) c] by auto
qed

section \<open>The three cases\<close>

lemma parse_spec:
  assumes "name_ok a" "name_ok p" "name_ok b" "name_ok q"
  shows "parse_link (a @ ''.'' @ p @ '' -> '' @ b @ ''.'' @ q) =
    Inr \<lparr>from_app = a, output_name = p, to_app = b, input_name = q\<rparr>"
  using parse_format_link [of "\<lparr>from_app = a, output_name = p, to_app = b, input_name = q\<rparr>"] assms
  by (simp add: spec_ok_def format_link_def)

lemma order_names:
  "name_ok ''a_io1''" "name_ok ''b_t1''" "name_ok ''c_t2''" "name_ok ''d_t3''"
  "name_ok ''input''" "name_ok ''input2''" "name_ok ''output''" "name_ok ''output2''"
  by (simp_all add: name_ok_def is_word_char_def is_digit_def)

lemma parse_order_links:
  "parse_link ''a_io1.output -> b_t1.input'' =
     Inr \<lparr>from_app = ''a_io1'', output_name = ''output'', to_app = ''b_t1'', input_name = ''input''\<rparr>"
  "parse_link ''a_io1.output2 -> c_t2.input'' =
     Inr \<lparr>from_app = ''a_io1'', output_name = ''output2'', to_app = ''c_t2'', input_name = ''input''\<rparr>"
  "parse_link ''b_t1.output -> c_t2.input'' =
     Inr \<lparr>from_app = ''b_t1'', output_name = ''output'', to_app = ''c_t2'', input_name = ''input''\<rparr>"
  "parse_link ''b_t1.output -> a_io1.input'' =
     Inr \<lparr>from_app = ''b_t1'', output_name = ''output'', to_app = ''a_io1'', input_name = ''input''\<rparr>"
  "parse_link ''b_t1.output2 -> d_t3.input'' =
     Inr \<lparr>from_app = ''b_t1'', output_name = ''output2'', to_app = ''d_t3'', input_name = ''input''\<rparr>"
  "parse_link ''b_t1.output2 -> c_t2.input2'' =
     Inr \<lparr>from_app = ''b_t1'', output_name = ''output2'', to_app = ''c_t2'', input_name = ''input2''\<rparr>"
  "parse_link ''c_t2.output -> d_t3.input2'' =
     Inr \<lparr>from_app = ''c_t2'', output_name = ''output'', to_app = ''d_t3'', input_name = ''input2''\<rparr>"
  "parse_link ''c_t2.output -> a_io1.input2'' =
     Inr \<lparr>from_app = ''c_t2'', output_name = ''output'', to_app = ''a_io1'', input_name = ''input2''\<rparr>"
  "parse_link ''d_t3.output -> b_t1.input2'' =
     Inr \<lparr>from_app = ''d_t3'', output_name = ''output'', to_app = ''b_t1'', input_name = ''input2''\<rparr>"
  using parse_spec [OF order_names(1,7,2,5)] parse_spec [OF order_names(1,8,3,5)]
    parse_spec [OF order_names(2,7,3,5)] parse_spec [OF order_names(2,7,1,5)]
    parse_spec [OF order_names(2,8,4,5)] parse_spec [OF order_names(2,8,3,6)]
    parse_spec [OF order_names(3,7,4,6)] parse_spec [OF order_names(3,7,1,6)]
    parse_spec [OF order_names(4,7,2,6)]
  by simp_all

lemmas order_config_simps = new_config_def app_def add_links_def link_def canonical_link_def format_link_def
  parse_order_links

definition order_config1 :: "basic_arg Config" where
  "order_config1 =
     \<lparr>apps = [(''a_io1'', PseudoIO), (''b_t1'', Tee), (''c_t2'', Tee), (''d_t3'', Tee)],
      links = [''d_t3.output -> b_t1.input2'', ''b_t1.output2 -> d_t3.input'', ''b_t1.output -> c_t2.input'',
        ''a_io1.output -> b_t1.input'']\<rparr>"

definition order_config2 :: "basic_arg Config" where
  "order_config2 =
     \<lparr>apps = [(''a_io1'', PseudoIO), (''b_t1'', Tee), (''c_t2'', Tee), (''d_t3'', Tee)],
      links = [''c_t2.output -> d_t3.input2'', ''b_t1.output2 -> d_t3.input'', ''b_t1.output -> c_t2.input'',
        ''a_io1.output -> b_t1.input'']\<rparr>"

definition order_config3 :: "basic_arg Config" where
  "order_config3 =
     \<lparr>apps = [(''a_io1'', PseudoIO), (''b_t1'', Tee), (''c_t2'', Tee)],
      links = [''c_t2.output -> a_io1.input2'', ''b_t1.output2 -> c_t2.input2'', ''b_t1.output -> a_io1.input'',
        ''a_io1.output2 -> c_t2.input'', ''a_io1.output -> b_t1.input'']\<rparr>"

lemmas order_configs = order_config1_def order_config2_def order_config3_def

lemma test_order_configs:
  "test_order_case1 = Inr order_config1"
  "test_order_case2 = Inr order_config2"
  "test_order_case3 = Inr order_config3"
  by (simp_all add: test_order_case1_def test_order_case2_def test_order_case3_def order_configs order_config_simps)

text \<open>The apps that can be reached.\<close>

lemma reach_eq:
  assumes "R `` insert a S \<subseteq> S" and "\<And>x. x \<in> S \<Longrightarrow> (a, x) \<in> R\<^sup>+"
  shows "R\<^sup>+ `` {a} = S"
proof
  show "R\<^sup>+ `` {a} \<subseteq> S"
  proof
    fix x
    assume "x \<in> R\<^sup>+ `` {a}"
    then have "(a, x) \<in> R\<^sup>+" by simp
    then show "x \<in> S" by (induction rule: trancl_induct) (use assms(1) in auto)
  qed
  show "S \<subseteq> R\<^sup>+ `` {a}" using assms(2) by auto
qed

lemma edges_empty [simp]: "edges {} = {}"
  by (simp add: edges_def)

lemmas order_edges = parse_order_links [THEN edges_insert]

lemma reach_case1:
  "{(''d_t3'', ''b_t1''), (''b_t1'', ''d_t3''), (''b_t1'', ''c_t2''), (''a_io1'', ''b_t1'')}\<^sup>+ `` {''a_io1''} =
     {''b_t1'', ''c_t2'', ''d_t3''}" (is "?R\<^sup>+ `` {?a} = ?S")
proof (rule reach_eq)
  have b: "(?a, ''b_t1'') \<in> ?R\<^sup>+" by (rule r_into_trancl) simp
  have c: "(?a, ''c_t2'') \<in> ?R\<^sup>+" by (rule trancl_into_trancl [OF b]) simp
  have d: "(?a, ''d_t3'') \<in> ?R\<^sup>+" by (rule trancl_into_trancl [OF b]) simp
  show "(?a, x) \<in> ?R\<^sup>+" if "x \<in> ?S" for x using that b c d by (elim insertE emptyE) simp_all
qed auto

lemma reach_case2:
  "{(''c_t2'', ''d_t3''), (''b_t1'', ''d_t3''), (''b_t1'', ''c_t2''), (''a_io1'', ''b_t1'')}\<^sup>+ `` {''a_io1''} =
     {''b_t1'', ''c_t2'', ''d_t3''}" (is "?R\<^sup>+ `` {?a} = ?S")
proof (rule reach_eq)
  have b: "(?a, ''b_t1'') \<in> ?R\<^sup>+" by (rule r_into_trancl) simp
  have c: "(?a, ''c_t2'') \<in> ?R\<^sup>+" by (rule trancl_into_trancl [OF b]) simp
  have d: "(?a, ''d_t3'') \<in> ?R\<^sup>+" by (rule trancl_into_trancl [OF b]) simp
  show "(?a, x) \<in> ?R\<^sup>+" if "x \<in> ?S" for x using that b c d by (elim insertE emptyE) simp_all
qed auto

lemma reach_case3:
  "{(''c_t2'', ''a_io1''), (''b_t1'', ''c_t2''), (''b_t1'', ''a_io1''), (''a_io1'', ''c_t2''), (''a_io1'', ''b_t1'')}\<^sup>+ ``
     {''a_io1''} = {''a_io1'', ''b_t1'', ''c_t2''}" (is "?R\<^sup>+ `` {?a} = ?S")
proof (rule reach_eq)
  have b: "(?a, ''b_t1'') \<in> ?R\<^sup>+" by (rule r_into_trancl) simp
  have c: "(?a, ''c_t2'') \<in> ?R\<^sup>+" by (rule r_into_trancl) simp
  have a: "(?a, ''a_io1'') \<in> ?R\<^sup>+" by (rule trancl_into_trancl [OF b]) simp
  show "(?a, x) \<in> ?R\<^sup>+" if "x \<in> ?S" for x using that a b c by (elim insertE emptyE) simp_all
qed auto

lemma order_side:
  "config_closed order_config1" "no_loops order_config1"
  "\<forall>n x. map_of (apps order_config1) n = Some x \<longrightarrow> x = PseudoIO \<or> x = Tee"
  "{n. map_of (apps order_config1) n = Some PseudoIO} = {''a_io1''}"
  "config_closed order_config2" "no_loops order_config2"
  "\<forall>n x. map_of (apps order_config2) n = Some x \<longrightarrow> x = PseudoIO \<or> x = Tee"
  "{n. map_of (apps order_config2) n = Some PseudoIO} = {''a_io1''}"
  "config_closed order_config3" "no_loops order_config3"
  "\<forall>n x. map_of (apps order_config3) n = Some x \<longrightarrow> x = PseudoIO \<or> x = Tee"
  "{n. map_of (apps order_config3) n = Some PseudoIO} = {''a_io1''}"
  by (auto simp: order_configs config_closed_def joins_def no_loops_def parse_order_links split: if_splits)

lemma order_reach:
  "(edges (set (links order_config1)))\<^sup>+ `` {''a_io1''} = {''b_t1'', ''c_t2'', ''d_t3''}"
  "(edges (set (links order_config2)))\<^sup>+ `` {''a_io1''} = {''b_t1'', ''c_t2'', ''d_t3''}"
  "(edges (set (links order_config3)))\<^sup>+ `` {''a_io1''} = {''a_io1'', ''b_t1'', ''c_t2''}"
  using reach_case1 reach_case2 reach_case3 by (simp_all add: order_configs order_edges)

lemma ready_print: "ready os s \<Longrightarrow> ready os (println l s)"
  by (erule ready_core) (simp_all add: println_def core_def orders_def source_part_def)

text \<open>
  One case: the pull callback of the PseudoIO app, then push callbacks of the apps that can be reached.
\<close>

lemma test_order_case_passes:
  assumes "ready (env_os E) s" "config = Inr c" "config_closed c" "no_loops c"
    and "\<forall>n x. map_of (apps c) n = Some x \<longrightarrow> x = PseudoIO \<or> x = Tee"
    and "{n. map_of (apps c) n = Some PseudoIO} = {''a_io1''}"
    and "(edges (set (links c)))\<^sup>+ `` {''a_io1''} = S"
  shows "\<exists>exh s'. test_order_run E config s = Inr (([''a_io1''], exh), s') \<and> ready (env_os E) s' \<and>
    distinct exh \<and> set exh = S"
proof -
  obtain inh exh s' where r: "test_order_run E (Inr c) s = Inr ((inh, exh), s')" "ready (env_os E) s'" "sorted inh"
    "distinct inh" "set inh = {''a_io1''}" "distinct exh" "set exh = S"
    using test_order_run_passes [OF assms(1,3-5)] unfolding assms(6,7) by (elim exE conjE) (rule that)
  have "inh = [''a_io1'']" using r(4,5) by (cases inh rule: list.exhaust; cases "tl inh") auto
  then show ?thesis using r assms(2) by blast
qed

text \<open>
  C10: the test of the breathe order passes, whatever order hash tables are iterated in: in every one of the
  three networks, with their cycles, the PseudoIO app is the only one that inhales; then in the first two
  the three Tee apps exhale, once each, and in the third, where packets come back to it, the PseudoIO app
  and both Tee apps do.
\<close>

theorem breathe_order_test_passes:
  assumes "ready (env_os E) s"
  shows "\<exists>e1 e2 e3 s'. test_breathe_order E s = Inr ([([''a_io1''], e1), ([''a_io1''], e2), ([''a_io1''], e3)], s') \<and>
    distinct e1 \<and> set e1 = {''b_t1'', ''c_t2'', ''d_t3''} \<and>
    distinct e2 \<and> set e2 = {''b_t1'', ''c_t2'', ''d_t3''} \<and>
    distinct e3 \<and> set e3 = {''a_io1'', ''b_t1'', ''c_t2''}"
proof -
  obtain e1 s1 where r1: "test_order_run E test_order_case1 (println (Line ''Case 1:'') s) = Inr (([''a_io1''], e1), s1)"
    "ready (env_os E) s1" "distinct e1" "set e1 = {''b_t1'', ''c_t2'', ''d_t3''}"
    using test_order_case_passes [OF ready_print [OF assms] test_order_configs(1) order_side(1-4) order_reach(1)]
    by blast
  obtain e2 s2 where r2: "test_order_run E test_order_case2 (println (Line ''Case 2:'') s1) = Inr (([''a_io1''], e2), s2)"
    "ready (env_os E) s2" "distinct e2" "set e2 = {''b_t1'', ''c_t2'', ''d_t3''}"
    using test_order_case_passes [OF ready_print [OF r1(2)] test_order_configs(2) order_side(5-8) order_reach(2)]
    by blast
  obtain e3 s3 where r3: "test_order_run E test_order_case3 (println (Line ''Case 3:'') s2) = Inr (([''a_io1''], e3), s3)"
    "distinct e3" "set e3 = {''a_io1'', ''b_t1'', ''c_t2''}"
    using test_order_case_passes [OF ready_print [OF r2(2)] test_order_configs(3) order_side(9-12) order_reach(3)]
    by blast
  show ?thesis using r1 r2 r3 by (simp add: test_breathe_order_def Let_def)
qed

theorem breathe_order_test_passes_witness:
  "\<exists>os s. test_breathe_order sample_env start_state = Inr (os, s) \<and> map fst os = [[''a_io1''], [''a_io1''], [''a_io1'']]"
proof -
  have "ready (env_os sample_env) start_state"
    using start_inv by (simp add: ready_def tables_ok_def links_joined_def genuine_def inst_of_def quiet_def sample_env_def
        eng_init_simps)
  from breathe_order_test_passes [OF this] obtain e1 e2 e3 s' where
    "test_breathe_order sample_env start_state =
      Inr ([([''a_io1''], e1), ([''a_io1''], e2), ([''a_io1''], e3)], s')"
    by (elim exE conjE) (rule that)
  then show ?thesis by (intro exI [of _ "[([''a_io1''], e1), ([''a_io1''], e2), ([''a_io1''], e3)]"] exI [of _ s'])
      (simp only: list.map fst_conv simp_thms)
qed

end
