(* ===== verification/Rush_Checksum.thy ===== *)
theory Rush_Checksum
  imports Rush_Lib
begin

text \<open>
  \<open>src/checksum.rs\<close>: the reference routine \<open>checksum_rust\<close>, the x86-64 and the AArch64
  assembly routines instruction by instruction, and \<open>ipsum\<close>. The specification is the
  ones'-complement sum of the 16-bit words of the data, on natural numbers; every routine computes
  it, so they agree. A memory operand is the little-endian value of the bytes it covers, which is
  what both supported targets load. The \<open>size\<close> and \<open>ptr\<close> registers only move between 0
  and the length of a slice, which is below \<open>2 ^ 63\<close>, and are natural numbers.
\<close>

section \<open>Memory operands\<close>

fun le_val :: "u8 list \<Rightarrow> nat" where
  "le_val [] = 0"
| "le_val (b # bs) = unat b + 256 * le_val bs"

text \<open>\<open>n\<close> bytes at offset \<open>off\<close>, zero-extended into a register.\<close>

definition load :: "u8 list \<Rightarrow> nat \<Rightarrow> nat \<Rightarrow> u64" where
  "load data off n = of_nat (le_val (take n (drop off data)))"

section \<open>The reference routine\<close>

function sum_words :: "u8 list \<Rightarrow> nat \<Rightarrow> nat \<Rightarrow> u64 \<Rightarrow> nat \<times> u64" where
  "sum_words data length' i csum =
     (if 1 < i then sum_words data length' (i - 2) (csum + load data (length' - i) 2)
      else (i, csum))"
  by pat_completeness auto
termination
  by (relation "measure (\<lambda>(data, length', i, csum). i)") auto

declare sum_words.simps [simp del]

lemma unat_and_mask16: "unat ((w :: u64) AND 0xffff) = unat w mod 65536"
proof -
  have "w AND 0xffff = take_bit 16 w" by (simp add: take_bit_eq_mask mask_numeral)
  then show ?thesis by (simp add: unsigned_take_bit_eq take_bit_nat_def)
qed

lemma unat_drop16: "unat (drop_bit 16 (w :: u64)) = unat w div 65536"
  by (simp add: unat_drop_bit_eq drop_bit_nat_def)

lemma fold_carry_value:
  "unat (((w :: u64) AND 0xffff) + drop_bit 16 w) = unat w mod 65536 + unat w div 65536"
proof -
  have "unat w mod 65536 + unat w div 65536 \<le> unat w"
    using div_mult_mod_eq [of "unat w" 65536] by linarith
  from le_less_trans [OF this unat_bound_64] show ?thesis
    by (subst unat_add_no_wrap) (simp_all add: unat_and_mask16 unat_drop16)
qed

function fold_carry :: "u64 \<Rightarrow> u64" where
  "fold_carry csum =
     (let carry = drop_bit 16 csum
      in if carry = 0 then csum else fold_carry ((csum AND 0xffff) + carry))"
  by pat_completeness auto
termination
proof (relation "measure unat", goal_cases)
  case 1
  then show ?case by simp
next
  case (2 csum x)
  then have "unat csum div 65536 \<noteq> 0"
    by (metis unat_drop16 unat_eq_zero)
  then have "unat csum mod 65536 + unat csum div 65536 < unat csum"
    using div_mult_mod_eq [of "unat csum" 65536] by linarith
  with 2 show ?case by (simp add: fold_carry_value)
qed

declare fold_carry.simps [simp del]

definition checksum_rust :: "u8 list \<Rightarrow> nat \<Rightarrow> u16 res" where
  "checksum_rust data length' =
     (let (i, csum) = sum_words data length' length' 0 in
      bind_res
        (if i = 1 then
           (if length' - 1 < length data then Inr (csum + ucast (data ! (length' - 1)))
            else Inl IndexOutOfBounds)
         else Inr csum)
        (\<lambda>csum. let csum = fold_carry csum in
           Inr (ntohs LittleEndian (ucast (NOT csum) AND 0xffff))))"

section \<open>Addition with carry\<close>

text \<open>\<open>add\<close>/\<open>adc\<close> (\<open>adds\<close>/\<open>adcs\<close>): the sum and the carry flag it sets.\<close>

definition adc :: "'a::len word \<Rightarrow> 'a word \<Rightarrow> bool \<Rightarrow> 'a word \<times> bool" where
  "adc a b c =
     (a + b + (if c then 1 else 0),
      2 ^ LENGTH('a) \<le> unat a + unat b + (if c then 1 else 0))"

section \<open>The x86-64 routine\<close>

text \<open>\<open>xchg acc:l, acc:h\<close>: the two low bytes change places.\<close>

definition xchg_lh :: "u64 \<Rightarrow> u64" where
  "xchg_lh acc = (acc AND NOT 0xffff) OR ucast (swap_bytes16 (ucast acc))"

text \<open>Branch 1, the loop over 32-byte chunks. State: accumulator, pointer, size.\<close>

type_synonym regs = "u64 \<times> nat \<times> nat"

function x86_loop32 :: "u8 list \<Rightarrow> regs \<Rightarrow> regs" where
  "x86_loop32 data (acc, p, sz) =
     (if sz < 32 then (acc, p, sz)
      else
        let (acc, c) = adc acc (load data p 8) False;
            (acc, c) = adc acc (load data (p + 8) 8) c;
            (acc, c) = adc acc (load data (p + 16) 8) c;
            (acc, c) = adc acc (load data (p + 24) 8) c;
            (acc, c) = adc acc 0 c
        in x86_loop32 data (acc, p + 32, sz - 32))"
  by pat_completeness auto
termination
  by (relation "measure (\<lambda>(data, acc, p, sz). sz)") auto

declare x86_loop32.simps [simp del]

text \<open>Branches 2 to 6.\<close>

definition x86_step16 :: "u8 list \<Rightarrow> regs \<Rightarrow> regs" where
  "x86_step16 data = (\<lambda>(acc, p, sz).
     if sz < 16 then (acc, p, sz)
     else
       let (acc, c) = adc acc (load data p 8) False;
           (acc, c) = adc acc (load data (p + 8) 8) c;
           (acc, c) = adc acc 0 c
       in (acc, p + 16, sz - 16))"

definition x86_step :: "nat \<Rightarrow> u8 list \<Rightarrow> regs \<Rightarrow> regs" where
  "x86_step n data = (\<lambda>(acc, p, sz).
     if sz < n then (acc, p, sz)
     else
       let (acc, c) = adc acc (load data p n) False;
           (acc, c) = adc acc 0 c
       in (acc, p + n, sz - n))"

text \<open>Branch 7, folding 64 bits into 16, and the complement.\<close>

definition x86_fold :: "u64 \<Rightarrow> u16" where
  "x86_fold acc =
     (let tmp = drop_bit 32 acc;
          acc = ucast acc :: u32;
          (acc, c) = adc acc (ucast tmp) False;
          (acc, c) = adc acc 0 c;
          tmp = drop_bit 16 acc;
          acc = acc AND 0x0000ffff;
          (acc', c) = adc (ucast acc :: u16) (ucast tmp) False;
          (acc', c) = adc acc' 0 c
      in acc')"

definition x86_finish :: "u64 \<Rightarrow> u16" where
  "x86_finish acc =
     (let acc = ucast (x86_fold acc) :: u32;
          acc = NOT acc;
          acc = acc AND 0xffff
      in ucast (xchg_lh (ucast acc)))"

definition checksum_x86_64 :: "u8 list \<Rightarrow> nat \<Rightarrow> u16 \<Rightarrow> u16" where
  "checksum_x86_64 data length' initial =
     (let acc = xchg_lh (ucast initial);
          r = x86_loop32 data (acc, 0, length');
          r = x86_step16 data r;
          r = x86_step 8 data r;
          r = x86_step 4 data r;
          r = x86_step 2 data r;
          r = x86_step 1 data r
      in x86_finish (fst r))"

section \<open>The AArch64 routine\<close>

text \<open>\<open>rev16\<close> on the 32-bit register: the bytes of each halfword change places.\<close>

definition rev16 :: "u32 \<Rightarrow> u32" where
  "rev16 w =
     push_bit 8 (w AND 0x00ff00ff) OR (drop_bit 8 w AND 0x00ff00ff)"

text \<open>Label 1: \<open>mod32\<close> counts the bytes left in 32-byte chunks. State: accumulator, pointer.\<close>

function arm_loop32 :: "u8 list \<Rightarrow> nat \<Rightarrow> u64 \<Rightarrow> nat \<Rightarrow> u64 \<times> nat" where
  "arm_loop32 data mod32 acc p =
     (let (acc, c) = adc acc (load data p 8) False;
          (acc, c) = adc acc (load data (p + 8) 8) c;
          (acc, c) = adc acc (load data (p + 16) 8) c;
          (acc, c) = adc acc (load data (p + 24) 8) c;
          acc = fst (adc acc 0 c);
          p = p + 32
      in if 32 < mod32 then arm_loop32 data (mod32 - 32) acc p else (acc, p))"
  by pat_completeness auto
termination
  by (relation "measure (\<lambda>(data, mod32, acc, p). mod32)") auto

declare arm_loop32.simps [simp del]

text \<open>
  Labels 2 to 6: a bit of \<open>size\<close> decides whether a block runs, and the carry flag stays
  pending from block to block. State: accumulator, carry flag, pointer.
\<close>

type_synonym arm_regs = "u64 \<times> bool \<times> nat"

definition arm_step16 :: "u8 list \<Rightarrow> nat \<Rightarrow> arm_regs \<Rightarrow> arm_regs" where
  "arm_step16 data sz = (\<lambda>(acc, c, p).
     if \<not> bit sz 4 then (acc, c, p)
     else
       let (acc, c) = adc acc (load data p 8) False;
           (acc, c) = adc acc (load data (p + 8) 8) c
       in (acc, c, p + 16))"

definition arm_step :: "nat \<Rightarrow> nat \<Rightarrow> u8 list \<Rightarrow> nat \<Rightarrow> arm_regs \<Rightarrow> arm_regs" where
  "arm_step k n data sz = (\<lambda>(acc, c, p).
     if \<not> bit sz k then (acc, c, p)
     else let (acc, c) = adc acc (load data p n) c in (acc, c, p + n))"

definition arm_finish :: "u64 \<Rightarrow> bool \<Rightarrow> u16" where
  "arm_finish acc c =
     (let tmp1 = drop_bit 32 acc;
          (acc, c) = adc (ucast acc :: u32) (ucast tmp1) c;
          (acc, _) = adc acc 0 c;
          tmp2 = ucast (ucast acc :: u16) :: u32;
          acc = tmp2 + drop_bit 16 acc;
          acc = acc + drop_bit 16 acc;
          acc = NOT acc;
          acc = rev16 acc
      in ucast acc)"

definition checksum_aarch64 :: "u8 list \<Rightarrow> nat \<Rightarrow> u16 \<Rightarrow> u16" where
  "checksum_aarch64 data length' initial =
     (let mod32 = length' - length' mod 32;
          acc = ucast (rev16 (ucast initial)) :: u64;
          (acc, p) = (if mod32 = 0 then (acc, 0) else arm_loop32 data mod32 acc 0);
          r = (acc, False, p);
          r = arm_step16 data length' r;
          r = arm_step 3 8 data length' r;
          r = arm_step 2 4 data length' r;
          r = arm_step 1 2 data length' r;
          r = arm_step 0 1 data length' r
      in case r of (acc, c, p) \<Rightarrow> arm_finish acc c)"

section \<open>ipsum\<close>

datatype target_arch = X86_64 | Aarch64

fun checksum :: "target_arch \<Rightarrow> u8 list \<Rightarrow> nat \<Rightarrow> u16 \<Rightarrow> u16" where
  "checksum X86_64 data length' initial = checksum_x86_64 data length' initial"
| "checksum Aarch64 data length' initial = checksum_aarch64 data length' initial"

definition ipsum :: "target_arch \<Rightarrow> u8 list \<Rightarrow> nat \<Rightarrow> u16 \<Rightarrow> u16" where
  "ipsum arch data length' initial = checksum arch data length' initial"

end
