(* ===== verification/Rush_Checksum_Correct.thy ===== *)
theory Rush_Checksum_Correct
  imports Rush_Checksum
begin

text \<open>
  Correctness of the checksum routines: the ones'-complement sum as a function of natural numbers,
  the end-around-carry facts that every block of the routines preserves, the equivalence of the
  reference and both assembly routines with the specification, and the two uses of \<open>ipsum\<close>
  its documentation promises (verification and chaining).
\<close>

section \<open>Ones'-complement sums\<close>

text \<open>\<open>oc m n\<close> is \<open>n\<close> modulo \<open>m\<close>, with \<open>m\<close> for a non-zero multiple of \<open>m\<close>.\<close>

definition oc :: "nat \<Rightarrow> nat \<Rightarrow> nat" where
  "oc m n = (if n = 0 then 0 else (n - 1) mod m + 1)"

abbreviation oc16 :: "nat \<Rightarrow> nat" where
  "oc16 \<equiv> oc 65535"

text \<open>The sum of the little-endian 16-bit words of the data; an odd last byte is a low byte.\<close>

fun wsum :: "u8 list \<Rightarrow> nat" where
  "wsum [] = 0"
| "wsum [b] = unat b"
| "wsum (b0 # b1 # bs) = unat b0 + 256 * unat b1 + wsum bs"

text \<open>The checksum the routines must return.\<close>

definition ip_checksum :: "u8 list \<Rightarrow> u16 \<Rightarrow> u16" where
  "ip_checksum data initial =
     swap_bytes16 (NOT (of_nat (oc16 (unat (swap_bytes16 initial) + wsum data))))"

lemma oc_le: "0 < m \<Longrightarrow> oc m n \<le> m"
  by (simp add: oc_def Suc_leI)

lemma oc_mod: "0 < m \<Longrightarrow> oc m n mod m = n mod m"
  by (cases n) (simp_all add: oc_def mod_Suc_eq)

lemma oc_eq_0 [simp]: "oc m n = 0 \<longleftrightarrow> n = 0"
  by (simp add: oc_def)

text \<open>Two sums agree when they are congruent and both zero or both non-zero.\<close>

lemma oc_eqI:
  assumes "0 < m" and "a mod m = b mod m" and "a = 0 \<longleftrightarrow> b = 0"
  shows "oc m a = oc m b"
proof (cases "b = 0")
  case True
  with assms(3) show ?thesis by (simp add: oc_def)
next
  case False
  with assms(3) obtain a' b' where ab: "a = Suc a'" "b = Suc b'"
    by (meson not0_implies_Suc)
  with assms(2) have "Suc a' mod m = Suc b' mod m" by simp
  then have "a' mod m = b' mod m"
    by (metis add_left_imp_eq assms(1) mod_Suc mod_less_divisor nat.inject
        not_less_eq old.nat.distinct(2) plus_1_eq_Suc)
  with ab show ?thesis by (simp add: oc_def)
qed

lemma oc_eqD:
  assumes "0 < m" and "oc m a = oc m b"
  shows "a mod m = b mod m" and "a = 0 \<longleftrightarrow> b = 0"
  using assms by (metis oc_mod, metis oc_eq_0)

lemma oc_add_cong:
  assumes "0 < m" and "oc m a = oc m b"
  shows "oc m (a + c) = oc m (b + c)"
  using oc_eqD [OF assms] assms(1) by (intro oc_eqI) (auto intro: mod_add_cong)

lemma oc_id: "n \<le> m \<Longrightarrow> oc m n = n"
  by (cases n) (auto simp: oc_def)

lemma oc16_idem_add [simp]: "oc16 (oc16 a + b) = oc16 (a + b)"
  by (rule oc_add_cong) (simp_all add: oc_id oc_le)

section \<open>Words of the data\<close>

lemma wsum_append_even: "even (length xs) \<Longrightarrow> wsum (xs @ ys) = wsum xs + wsum ys"
  by (induction xs rule: wsum.induct) auto

text \<open>A wide load is congruent to the sum of the 16-bit words it covers.\<close>

lemma le_val_wsum_mod: "le_val bs mod 65535 = wsum bs mod 65535"
proof (induction bs rule: wsum.induct)
  case (3 b0 b1 bs)
  have "le_val (b0 # b1 # bs) = unat b0 + 256 * unat b1 + le_val bs + 65535 * le_val bs"
    by simp
  then have "le_val (b0 # b1 # bs) mod 65535 = (unat b0 + 256 * unat b1 + le_val bs) mod 65535"
    by (metis mod_mult_self2)
  also have "\<dots> = (unat b0 + 256 * unat b1 + wsum bs) mod 65535"
    using 3 by (metis mod_add_right_eq)
  finally show ?case by simp
qed simp_all

lemma le_val_eq_0: "le_val bs = 0 \<longleftrightarrow> wsum bs = 0"
  by (induction bs rule: wsum.induct) auto

lemma le_val_bound: "le_val bs < 256 ^ length bs"
proof (induction bs)
  case (Cons b bs)
  then have "le_val bs + 1 \<le> 256 ^ length bs" by simp
  then have "256 * (le_val bs + 1) \<le> 256 * 256 ^ length bs" by (rule mult_le_mono2)
  then show ?case using unat_bound_8 [of b] by simp
qed simp

lemma unat_load:
  assumes "n \<le> 8"
  shows "unat (load data off n) = le_val (take n (drop off data))"
proof -
  have "le_val (take n (drop off data)) < 256 ^ length (take n (drop off data))"
    by (rule le_val_bound)
  also have "\<dots> \<le> 256 ^ 8"
    using assms by (intro power_increasing) auto
  finally show ?thesis
    by (simp add: load_def unsigned_of_nat take_bit_nat_eq_self)
qed

lemma oc16_load:
  assumes "n \<le> 8"
  shows "oc16 (unat (load data off n) + x) = oc16 (wsum (take n (drop off data)) + x)"
proof (rule oc_add_cong)
  show "oc16 (unat (load data off n)) = oc16 (wsum (take n (drop off data)))"
    by (rule oc_eqI) (simp_all add: unat_load [OF assms] le_val_wsum_mod le_val_eq_0)
qed simp

text \<open>Consuming an even number of bytes, or the last one.\<close>

lemma wsum_take_drop:
  assumes "even n \<or> p + n = len" and "p + n \<le> len" and "len \<le> length data"
  shows "wsum (drop p (take len data)) =
    wsum (take n (drop p data)) + wsum (drop (p + n) (take len data))"
proof -
  have split: "drop p (take len data) = take n (drop p data) @ drop (p + n) (take len data)"
  proof -
    have "take n (drop p (take len data)) = take n (drop p data)"
      using assms(2) by (simp add: drop_take min_def)
    then show ?thesis
      by (metis add.commute append_take_drop_id drop_drop)
  qed
  show ?thesis
  proof (cases "even n")
    case True
    then show ?thesis using assms by (subst split) (simp add: wsum_append_even)
  next
    case False
    with assms(1) show ?thesis using assms by (subst split) simp
  qed
qed

section \<open>End-around carry\<close>

text \<open>
  A register together with a pending carry stands for their sum. A carry is never pending beside a
  register that is all ones, so adding it later cannot overflow and nothing is lost.
\<close>

definition cval :: "'a::len word \<Rightarrow> bool \<Rightarrow> nat" where
  "cval a c = unat a + of_bool c"

definition cok :: "'a::len word \<Rightarrow> bool \<Rightarrow> bool" where
  "cok a c = (c \<longrightarrow> unat a + 1 < 2 ^ LENGTH('a))"

lemma cok_False [simp]: "cok a False"
  by (simp add: cok_def)

lemma cval_False [simp]: "cval a False = unat a"
  by (simp add: cval_def)

lemma unat_adc:
  fixes a b :: "'a::len word"
  assumes "adc a b c = (r, c')"
  shows "unat r + 2 ^ LENGTH('a) * of_bool c' = unat a + unat b + of_bool c"
proof -
  let ?t = "unat a + unat b + of_bool c"
  let ?M = "2 ^ LENGTH('a) :: nat"
  have r: "r = of_nat ?t" and c': "c' = (?M \<le> ?t)"
    using assms by (auto simp: adc_def)
  have "unat r = ?t mod ?M"
    by (simp only: r unsigned_of_nat take_bit_nat_def of_nat_id)
  moreover have "unat a < ?M" "unat b < ?M" by simp_all
  then have "?t < 2 * ?M" by (cases c) (auto simp del: unsigned_less)
  then have "?t mod ?M = (if ?M \<le> ?t then ?t - ?M else ?t)"
    by (auto simp: mod_if)
  ultimately show ?thesis by (auto simp: c')
qed

lemma adc_cok:
  assumes "cok a c" and "adc a b c = (r, c')"
  shows "cok r c'"
  using unat_adc [OF assms(2)] assms(1) unsigned_less [of b, where ?'a = nat]
    unsigned_less [of a, where ?'a = nat]
  by (cases c; cases c') (auto simp: cok_def simp del: unsigned_less)

lemma adc_oc16:
  fixes a b :: "'a::len word"
  assumes "65535 dvd (2 ^ LENGTH('a) - 1 :: nat)" and "adc a b c = (r, c')"
  shows "oc16 (cval r c' + x) = oc16 (cval a c + unat b + x)"
proof -
  have eq: "cval a c + unat b + x = cval r c' + x + (2 ^ LENGTH('a) - 1) * of_bool c'"
    using unat_adc [OF assms(2)] by (cases c') (auto simp: cval_def)
  obtain k where k: "(2 ^ LENGTH('a) - 1 :: nat) = 65535 * k"
    using assms(1) by (elim dvdE)
  have nz: "of_bool c' \<le> cval r c'" by (simp add: cval_def)
  show ?thesis
  proof (rule oc_eqI)
    show "(cval r c' + x) mod 65535 = (cval a c + unat b + x) mod 65535"
      unfolding eq k by (simp add: mult.assoc)
    show "cval r c' + x = 0 \<longleftrightarrow> cval a c + unat b + x = 0"
      unfolding eq using nz by (cases c') (auto simp: cval_def)
  qed simp
qed

text \<open>The last \<open>adc\<close> of a chain adds the pending carry exactly.\<close>

lemma adc_zero:
  assumes "cok a c" and "adc a 0 c = (r, c')"
  shows "unat r = cval a c" and "\<not> c'"
  using unat_adc [OF assms(2)] assms(1) unsigned_less [of a, where ?'a = nat]
  by (cases c; cases c'; auto simp: cok_def cval_def)+

lemma oc16_dvd [simp]:
  "65535 dvd (2 ^ LENGTH(64) - 1 :: nat)"
  "65535 dvd (2 ^ LENGTH(32) - 1 :: nat)"
  "65535 dvd (2 ^ LENGTH(16) - 1 :: nat)"
  by (simp_all add: dvd_eq_mod_eq_0)

section \<open>The blocks of the x86-64 routine\<close>

text \<open>What is still to be added when the pointer is at \<open>p\<close>.\<close>

abbreviation rest :: "u8 list \<Rightarrow> nat \<Rightarrow> nat \<Rightarrow> nat" where
  "rest data len p \<equiv> wsum (drop p (take len data))"

lemma adc_load:
  assumes "adc acc (load data p n) c = (r, c')" and "n \<le> 8" and "even n \<or> p + n = len"
    and "p + n \<le> len" and "len \<le> length data"
  shows "oc16 (cval r c' + rest data len (p + n)) = oc16 (cval acc c + rest data len p)"
proof -
  have "oc16 (cval r c' + rest data len (p + n))
      = oc16 (cval acc c + unat (load data p n) + rest data len (p + n))"
    by (rule adc_oc16 [OF oc16_dvd(1) assms(1)])
  also have "\<dots> = oc16 (unat (load data p n) + (cval acc c + rest data len (p + n)))"
    by (simp only: add.assoc add.left_commute)
  also have "\<dots> = oc16 (wsum (take n (drop p data)) + (cval acc c + rest data len (p + n)))"
    by (rule oc16_load [OF assms(2)])
  also have "\<dots> = oc16 (cval acc c + rest data len p)"
    unfolding wsum_take_drop [OF assms(3-5)] by (simp only: add.left_commute)
  finally show ?thesis .
qed

lemma adc_zero_oc16:
  assumes "cok a c" and "adc a 0 c = (r, c')"
  shows "oc16 (unat r + x) = oc16 (cval a c + x)"
  using adc_zero [OF assms] by simp

text \<open>A chain of four loads, as in the 32-byte loop of both routines.\<close>

lemma adc_chain4:
  assumes "adc a0 (load data p 8) False = (a1, c1)" and "adc a1 (load data (p + 8) 8) c1 = (a2, c2)"
    and "adc a2 (load data (p + 16) 8) c2 = (a3, c3)" and "adc a3 (load data (p + 24) 8) c3 = (a4, c4)"
    and "adc a4 0 c4 = (a5, c5)" and "p + 32 \<le> len" and "len \<le> length data"
  shows "oc16 (unat a5 + rest data len (p + 32)) = oc16 (unat a0 + rest data len p)"
proof -
  have ok: "cok a4 c4"
    using adc_cok [OF adc_cok [OF adc_cok [OF adc_cok [OF _ assms(1)] assms(2)] assms(3)] assms(4)]
    by simp
  have p: "p + 8 + 8 = p + 16" "p + 16 + 8 = p + 24" "p + 24 + 8 = p + 32" by simp_all
  have "oc16 (unat a5 + rest data len (p + 32)) = oc16 (cval a4 c4 + rest data len (p + 32))"
    by (rule adc_zero_oc16 [OF ok assms(5)])
  also have "\<dots> = oc16 (cval a3 c3 + rest data len (p + 24))"
    using adc_load [OF assms(4), of len] assms(6,7) by (simp only: p) simp
  also have "\<dots> = oc16 (cval a2 c2 + rest data len (p + 16))"
    using adc_load [OF assms(3), of len] assms(6,7) by (simp only: p) simp
  also have "\<dots> = oc16 (cval a1 c1 + rest data len (p + 8))"
    using adc_load [OF assms(2), of len] assms(6,7) by (simp only: p) simp
  also have "\<dots> = oc16 (unat a0 + rest data len p)"
    using adc_load [OF assms(1), of len] assms(6,7) by simp
  finally show ?thesis .
qed

text \<open>
  The invariant between blocks: pointer and size meet at the end of the data, and the accumulator
  plus what is left is the ones'-complement sum of the whole.
\<close>

definition x86_inv :: "u8 list \<Rightarrow> nat \<Rightarrow> nat \<Rightarrow> regs \<Rightarrow> bool" where
  "x86_inv data len tot = (\<lambda>(acc, p, sz).
     p + sz = len \<and> oc16 (unat acc + rest data len p) = oc16 tot)"

lemma x86_loop32_inv:
  assumes "len \<le> length data" and "x86_inv data len tot r"
  shows "x86_inv data len tot (x86_loop32 data r) \<and> snd (snd (x86_loop32 data r)) < 32"
  using assms
proof (induction data r rule: x86_loop32.induct)
  case (1 data acc p sz)
  show ?case
  proof (cases "sz < 32")
    case True
    with 1 show ?thesis by (simp add: x86_loop32.simps)
  next
    case False
    obtain a1 c1 where e1: "adc acc (load data p 8) False = (a1, c1)" by fastforce
    obtain a2 c2 where e2: "adc a1 (load data (p + 8) 8) c1 = (a2, c2)" by fastforce
    obtain a3 c3 where e3: "adc a2 (load data (p + 16) 8) c2 = (a3, c3)" by fastforce
    obtain a4 c4 where e4: "adc a3 (load data (p + 24) 8) c3 = (a4, c4)" by fastforce
    obtain a5 c5 where e5: "adc a4 0 c4 = (a5, c5)" by fastforce
    have "x86_inv data len tot (a5, p + 32, sz - 32)"
      using "1.prems" False adc_chain4 [OF e1 e2 e3 e4 e5, of len]
      by (auto simp: x86_inv_def)
    then show ?thesis
      using "1.IH" [of "(a1, c1)" a1 c1 "(a2, c2)" a2 c2 "(a3, c3)" a3 c3 "(a4, c4)" a4 c4
          "(a5, c5)" a5 c5] False "1.prems"(1)
      by (simp add: x86_loop32.simps [of data acc p sz] e1 e2 e3 e4 e5)
  qed
qed

lemma x86_step16_inv:
  assumes "len \<le> length data" and "x86_inv data len tot r" and "snd (snd r) < 32"
  shows "x86_inv data len tot (x86_step16 data r) \<and> snd (snd (x86_step16 data r)) < 16"
proof -
  obtain acc p sz where r: "r = (acc, p, sz)" by (cases r)
  show ?thesis
  proof (cases "sz < 16")
    case True
    with assms show ?thesis by (simp add: r x86_step16_def)
  next
    case False
    obtain a1 c1 where e1: "adc acc (load data p 8) False = (a1, c1)" by fastforce
    obtain a2 c2 where e2: "adc a1 (load data (p + 8) 8) c1 = (a2, c2)" by fastforce
    obtain a3 c3 where e3: "adc a2 0 c2 = (a3, c3)" by fastforce
    have ok: "cok a2 c2" using adc_cok [OF adc_cok [OF _ e1] e2] by simp
    have "oc16 (unat a3 + rest data len (p + 8 + 8)) = oc16 (unat acc + rest data len p)"
      using adc_zero_oc16 [OF ok e3] adc_load [OF e2, of len] adc_load [OF e1, of len]
        assms False by (simp add: r x86_inv_def)
    then show ?thesis
      using assms False by (auto simp: r x86_step16_def x86_inv_def e1 e2 e3 add.commute)
  qed
qed

lemma x86_step_inv:
  assumes "len \<le> length data" and "x86_inv data len tot r" and "snd (snd r) < 2 * n"
    and "n \<le> 8" and "even n \<or> n = 1"
  shows "x86_inv data len tot (x86_step n data r) \<and> snd (snd (x86_step n data r)) < n"
proof -
  obtain acc p sz where r: "r = (acc, p, sz)" by (cases r)
  show ?thesis
  proof (cases "sz < n")
    case True
    with assms show ?thesis by (simp add: r x86_step_def)
  next
    case False
    obtain a1 c1 where e1: "adc acc (load data p n) False = (a1, c1)" by fastforce
    obtain a2 c2 where e2: "adc a1 0 c1 = (a2, c2)" by fastforce
    have ok: "cok a1 c1" using adc_cok [OF _ e1] by simp
    have end': "even n \<or> p + n = len"
      using assms False by (auto simp: r x86_inv_def)
    have "oc16 (unat a2 + rest data len (p + n)) = oc16 (unat acc + rest data len p)"
      using adc_zero_oc16 [OF ok e2] adc_load [OF e1 assms(4) end']
        assms False by (simp add: r x86_inv_def)
    then show ?thesis
      using assms False by (auto simp: r x86_step_def x86_inv_def e1 e2)
  qed
qed

section \<open>Folding and the final swap\<close>

lemma oc16_split:
  assumes "65535 dvd B - 1" and "0 < B"
  shows "oc16 (a mod B + a div B) = oc16 a"
proof (rule oc_eqI)
  obtain k where k: "B - 1 = 65535 * k" using assms(1) by (elim dvdE)
  have "a = a mod B + a div B + (B - 1) * (a div B)"
    using assms(2) div_mult_mod_eq [of a B] by (cases B) (auto simp: algebra_simps)
  then have "a mod 65535 = (a mod B + a div B + 65535 * (k * (a div B))) mod 65535"
    by (simp only: k mult.assoc)
  then show "(a mod B + a div B) mod 65535 = a mod 65535" by simp
  show "a mod B + a div B = 0 \<longleftrightarrow> a = 0"
    by (metis add_eq_0_iff_both_eq_0 add_is_0 div_0 div_mult_mod_eq mod_0 mult_0)
qed simp

lemma unat_low32: "unat (ucast (w :: u64) :: u32) = unat w mod 2 ^ 32"
  by (simp add: unsigned_ucast_eq take_bit_nat_def)

lemma unat_high32: "unat (ucast (drop_bit 32 (w :: u64)) :: u32) = unat w div 2 ^ 32"
proof -
  have "unat w div 2 ^ 32 < 2 ^ 32"
    using unat_bound_64 [of w] by (simp add: less_mult_imp_div_less)
  then show ?thesis
    by (simp add: unsigned_ucast_eq take_bit_nat_def unat_drop_bit_eq drop_bit_nat_def)
qed

lemma unat_low16: "unat (ucast (w :: u32) :: u16) = unat w mod 2 ^ 16"
  by (simp add: unsigned_ucast_eq take_bit_nat_def)

lemma unat_high16: "unat (ucast (drop_bit 16 (w :: u32)) :: u16) = unat w div 2 ^ 16"
proof -
  have "unat w div 2 ^ 16 < 2 ^ 16"
    using unat_bound_32 [of w] by (simp add: less_mult_imp_div_less)
  then show ?thesis
    by (simp add: unsigned_ucast_eq take_bit_nat_def unat_drop_bit_eq drop_bit_nat_def)
qed

lemma ucast_and_ffff: "ucast ((w :: u32) AND 0x0000ffff) = (ucast w :: u16)"
  unfolding ffff_mask by (rule bit_word_eqI) (auto simp: bit_simps)

lemma x86_fold_oc16: "unat (x86_fold acc) = oc16 (unat acc)"
proof -
  obtain a1 c1 where e1: "adc (ucast acc :: u32) (ucast (drop_bit 32 acc)) False = (a1, c1)"
    by fastforce
  obtain a2 c2 where e2: "adc a1 0 c1 = (a2, c2)" by fastforce
  obtain a3 c3 where e3: "adc (ucast a2 :: u16) (ucast (drop_bit 16 a2)) False = (a3, c3)"
    by fastforce
  obtain a4 c4 where e4: "adc a3 0 c3 = (a4, c4)" by fastforce
  have "oc16 (unat a2) = oc16 (unat acc)"
    using adc_zero_oc16 [OF adc_cok [OF _ e1] e2, of 0] adc_oc16 [OF oc16_dvd(2) e1, of 0]
      oc16_split [of "2 ^ 32" "unat acc"]
    by (simp add: unat_low32 [of acc] unat_high32 dvd_eq_mod_eq_0)
  moreover have "oc16 (unat a4) = oc16 (unat a2)"
    using adc_zero_oc16 [OF adc_cok [OF _ e3] e4, of 0] adc_oc16 [OF oc16_dvd(3) e3, of 0]
      oc16_split [of "2 ^ 16" "unat a2"]
    by (simp add: unat_low16 [of a2] unat_high16)
  moreover have "oc16 (unat a4) = unat a4"
    using unat_bound_16 [of a4] by (intro oc_id) simp
  ultimately show ?thesis
    by (simp add: x86_fold_def e1 e2 e3 e4 ucast_and_ffff)
qed

lemma ucast_xchg_lh: "ucast (xchg_lh w) = swap_bytes16 (ucast w)"
  unfolding xchg_lh_def ffff_mask
  by (rule bit_word_eqI) (auto simp: swap_bytes16_def bit_simps)

lemma xchg_lh_ucast: "xchg_lh (ucast (w :: u16)) = ucast (swap_bytes16 w)"
  unfolding xchg_lh_def ffff_mask
  by (rule bit_word_eqI) (auto simp: swap_bytes16_def bit_simps dest: bit_imp_le_length)

lemma ucast_down_up: "ucast (ucast (w :: u32) :: u64) = (ucast w :: u16)"
  by (rule bit_word_eqI) (auto simp: bit_simps)

lemma x86_finish_eq: "x86_finish acc = swap_bytes16 (NOT (of_nat (oc16 (unat acc))))"
proof -
  have "of_nat (oc16 (unat acc)) = x86_fold acc"
    by (simp flip: x86_fold_oc16)
  moreover have "ucast ((NOT (ucast (f :: u16) :: u32)) AND 0xffff) = NOT f" for f
    unfolding ffff_mask by (rule bit_word_eqI) (auto simp: bit_simps)
  ultimately show ?thesis
    by (simp add: x86_finish_def ucast_xchg_lh ucast_down_up)
qed

section \<open>The routines compute the specification\<close>

lemma x86_64_correct:
  assumes "len \<le> length data"
  shows "checksum_x86_64 data len initial = ip_checksum (take len data) initial"
proof -
  let ?tot = "unat (swap_bytes16 initial) + wsum (take len data)"
  define r0 where "r0 = x86_loop32 data (xchg_lh (ucast initial), 0, len)"
  define r1 where "r1 = x86_step16 data r0"
  define r2 where "r2 = x86_step 8 data r1"
  define r3 where "r3 = x86_step 4 data r2"
  define r4 where "r4 = x86_step 2 data r3"
  define r5 where "r5 = x86_step 1 data r4"
  note inv = x86_step_inv [OF assms]
  have "x86_inv data len ?tot (xchg_lh (ucast initial), 0, len)"
    by (simp add: x86_inv_def xchg_lh_ucast)
  then have "x86_inv data len ?tot r0 \<and> snd (snd r0) < 32"
    unfolding r0_def by (rule x86_loop32_inv [OF assms])
  then have "x86_inv data len ?tot r1 \<and> snd (snd r1) < 16"
    unfolding r1_def using x86_step16_inv [OF assms] by blast
  then have "x86_inv data len ?tot r2 \<and> snd (snd r2) < 8"
    unfolding r2_def using inv [of ?tot r1 8] by simp
  then have "x86_inv data len ?tot r3 \<and> snd (snd r3) < 4"
    unfolding r3_def using inv [of ?tot r2 4] by simp
  then have "x86_inv data len ?tot r4 \<and> snd (snd r4) < 2"
    unfolding r4_def using inv [of ?tot r3 2] by simp
  then have "x86_inv data len ?tot r5 \<and> snd (snd r5) < 1"
    unfolding r5_def using inv [of ?tot r4 1] by simp
  then have "oc16 (unat (fst r5)) = oc16 ?tot"
    by (cases r5) (auto simp: x86_inv_def)
  then show ?thesis
    unfolding checksum_x86_64_def Let_def x86_finish_eq ip_checksum_def r0_def r1_def r2_def r3_def
      r4_def r5_def by simp
qed

subsection \<open>The reference routine\<close>

lemma wsum_bound: "wsum bs \<le> 65535 * length bs"
proof (induction bs rule: wsum.induct)
  case (2 b)
  then show ?case using unat_bound_8 [of b] by simp
next
  case (3 b0 b1 bs)
  then show ?case using unat_bound_8 [of b0] unat_bound_8 [of b1] by simp
qed simp

lemma le_val_2: "le_val (take 2 xs) = wsum (take 2 xs)"
  by (cases xs; cases "tl xs") auto

lemma rest_1:
  assumes "0 < len" and "len \<le> length data"
  shows "rest data len (len - 1) = unat (data ! (len - 1))"
proof -
  have "drop (len - 1) (take len data) = [data ! (len - 1)]"
    using assms by (cases len) (auto simp: take_Suc_conv_app_nth)
  then show ?thesis by simp
qed

lemma sum_words_value:
  assumes "i \<le> len" and "len \<le> length data"
    and "sum_words data len i csum = (j, r)"
    and "unat csum + 65535 * i < 2 ^ 64"
  shows "j = i mod 2 \<and> unat r + rest data len (len - j) = unat csum + rest data len (len - i)
    \<and> unat r + 65535 * j < 2 ^ 64"
  using assms
proof (induction data len i csum rule: sum_words.induct)
  case (1 data len i csum)
  show ?case
  proof (cases "1 < i")
    case True
    let ?w = "load data (len - i) 2"
    have w: "unat ?w = wsum (take 2 (drop (len - i) data))"
      by (simp add: unat_load le_val_2)
    have "unat ?w \<le> 65535 * 2"
      using wsum_bound [of "take 2 (drop (len - i) data)"] by (simp add: w)
    then have s: "unat (csum + ?w) = unat csum + unat ?w"
      and b: "unat (csum + ?w) + 65535 * (i - 2) < 2 ^ 64"
      using "1.prems"(4) True by (auto simp: unat_add_no_wrap)
    have rest: "rest data len (len - i) = unat ?w + rest data len (len - (i - 2))"
    proof -
      have "len - i + 2 = len - (i - 2)" using "1.prems"(1) True by simp
      then show ?thesis
        using wsum_take_drop [of 2 "len - i" len data] "1.prems"(1,2) True by (simp add: w)
    qed
    have sw: "sum_words data len (i - 2) (csum + ?w) = (j, r)"
      using "1.prems"(3) True by (simp add: sum_words.simps [of data len i csum])
    have "i - 2 \<le> len" using "1.prems"(1) by simp
    from "1.IH" [OF True this "1.prems"(2) sw b]
    have "j = (i - 2) mod 2 \<and> unat r + rest data len (len - j)
        = unat (csum + ?w) + rest data len (len - (i - 2)) \<and> unat r + 65535 * j < 2 ^ 64" .
    moreover have "(i - 2) mod 2 = i mod 2"
      using True by (metis Suc_leI le_mod_geq numeral_2_eq_2 One_nat_def)
    ultimately show ?thesis using rest s by auto
  next
    case False
    then have "sum_words data len i csum = (i, csum)" by (subst sum_words.simps) simp
    with "1.prems" False show ?thesis by auto
  qed
qed

lemma fold_carry_oc16: "unat (fold_carry csum) = oc16 (unat csum)"
proof (induction csum rule: fold_carry.induct)
  case (1 csum)
  show ?case
  proof (cases "drop_bit 16 csum = 0")
    case True
    then have "unat csum div 65536 = 0" by (metis unat_0 unat_drop16)
    then have "unat csum \<le> 65535" by auto
    with True show ?thesis by (simp add: fold_carry.simps [of csum] oc_id)
  next
    case False
    with 1 have "unat (fold_carry csum) = oc16 (unat csum mod 65536 + unat csum div 65536)"
      by (simp add: fold_carry.simps [of csum] fold_carry_value Let_def)
    also have "\<dots> = oc16 (unat csum)" by (rule oc16_split) simp_all
    finally show ?thesis .
  qed
qed

lemma checksum_rust_correct:
  assumes "len \<le> length data" and "len < 2 ^ 48"
  shows "checksum_rust data len = Inr (ip_checksum (take len data) 0)"
proof -
  obtain j r where e: "sum_words data len len 0 = (j, r)" by fastforce
  have j: "j = len mod 2" and r: "unat r + rest data len (len - j) = wsum (take len data)"
    and b: "unat r + 65535 * j < 2 ^ 64"
    using sum_words_value [OF _ assms(1) e] assms(2) by auto
  have n: "ucast (NOT x) AND 0xffff = NOT (ucast x :: u16)" for x :: u64
    unfolding ffff_mask by (rule bit_word_eqI) (auto simp: bit_simps)
  have fin: "unat x = wsum (take len data) \<Longrightarrow>
      ntohs LittleEndian (ucast (NOT (fold_carry x)) AND 0xffff) = ip_checksum (take len data) 0" for x
  proof -
    assume x: "unat x = wsum (take len data)"
    have "(ucast (fold_carry x) :: u16) = of_nat (unat (fold_carry x))" by (simp add: unsigned_of_nat)
    then show ?thesis
      using x by (simp add: n fold_carry_oc16 ip_checksum_def swap_bytes16_def)
  qed
  show ?thesis
  proof (cases "j = 1")
    case True
    then have len: "0 < len" using j by (cases len) auto
    have "unat (r + ucast (data ! (len - 1))) = unat r + unat (data ! (len - 1))"
      using b unat_bound_8 [of "data ! (len - 1)"] by (subst unat_add_no_wrap) (simp_all add: True)
    also have "\<dots> = wsum (take len data)" using r rest_1 [OF len assms(1)] by (simp add: True)
    finally show ?thesis
      using True len assms(1) fin by (simp add: checksum_rust_def e)
  next
    case False
    then have "unat r = wsum (take len data)" using j r by auto
    then show ?thesis using False fin by (simp add: checksum_rust_def e)
  qed
qed

subsection \<open>The AArch64 routine\<close>

definition arm_inv :: "u8 list \<Rightarrow> nat \<Rightarrow> nat \<Rightarrow> arm_regs \<Rightarrow> bool" where
  "arm_inv data len tot = (\<lambda>(acc, c, p).
     cok acc c \<and> oc16 (cval acc c + rest data len p) = oc16 tot)"

lemma arm_loop32_inv:
  assumes "len \<le> length data" and "p + mod32 \<le> len" and "32 dvd mod32" and "0 < mod32"
    and "arm_inv data len tot (acc, False, p)" and "arm_loop32 data mod32 acc p = (acc', p')"
  shows "arm_inv data len tot (acc', False, p') \<and> p' = p + mod32"
  using assms
proof (induction data mod32 acc p rule: arm_loop32.induct)
  case (1 data mod32 acc p)
  obtain a1 c1 where e1: "adc acc (load data p 8) False = (a1, c1)" by fastforce
  obtain a2 c2 where e2: "adc a1 (load data (p + 8) 8) c1 = (a2, c2)" by fastforce
  obtain a3 c3 where e3: "adc a2 (load data (p + 16) 8) c2 = (a3, c3)" by fastforce
  obtain a4 c4 where e4: "adc a3 (load data (p + 24) 8) c3 = (a4, c4)" by fastforce
  obtain a5 c5 where e5: "adc a4 0 c4 = (a5, c5)" by fastforce
  have m: "32 \<le> mod32" using "1.prems"(3,4) by (simp add: dvd_imp_le)
  then have i: "arm_inv data len tot (a5, False, p + 32)"
    using "1.prems" adc_chain4 [OF e1 e2 e3 e4 e5, of len] by (auto simp: arm_inv_def)
  show ?case
  proof (cases "32 < mod32")
    case True
    then have "arm_loop32 data (mod32 - 32) a5 (p + 32) = (acc', p')"
      using "1.prems"(6) by (simp add: arm_loop32.simps [of data mod32 acc p] e1 e2 e3 e4 e5)
    then show ?thesis
      using "1.IH" [of "(a1, c1)" a1 c1 "(a2, c2)" a2 c2 "(a3, c3)" a3 c3 "(a4, c4)" a4 c4 a5 "p + 32"]
        True "1.prems"(1-4) i e1 e2 e3 e4 e5 by (auto simp: dvd_diff_nat)
  next
    case False
    with m have "mod32 = 32" by simp
    then have "arm_loop32 data mod32 acc p = (a5, p + 32)"
      by (subst arm_loop32.simps) (simp add: e1 e2 e3 e4 e5)
    then show ?thesis
      using "1.prems"(6) i \<open>mod32 = 32\<close> by simp
  qed
qed

lemma arm_step16_inv:
  assumes "len \<le> length data" and "arm_inv data len tot (acc, False, p)"
    and "bit sz 4 \<longrightarrow> p + 16 \<le> len" and "arm_step16 data sz (acc, False, p) = (acc', c', p')"
  shows "arm_inv data len tot (acc', c', p') \<and> p' = p + 16 * of_bool (bit sz 4)"
proof (cases "bit sz 4")
  case True
  obtain a1 c1 where e1: "adc acc (load data p 8) False = (a1, c1)" by fastforce
  obtain a2 c2 where e2: "adc a1 (load data (p + 8) 8) c1 = (a2, c2)" by fastforce
  have "cok a2 c2" using adc_cok [OF adc_cok [OF _ e1] e2] by simp
  moreover have "oc16 (cval a2 c2 + rest data len (p + 8 + 8)) = oc16 (unat acc + rest data len p)"
    using adc_load [OF e2, of len] adc_load [OF e1, of len] assms True by simp
  ultimately show ?thesis
    using assms True by (auto simp: arm_step16_def arm_inv_def e1 e2 add.commute)
next
  case False
  with assms show ?thesis by (simp add: arm_step16_def)
qed

lemma arm_step_inv:
  assumes "len \<le> length data" and "arm_inv data len tot (acc, c, p)" and "n \<le> 8"
    and "bit sz k \<longrightarrow> p + n \<le> len \<and> (even n \<or> p + n = len)"
    and "arm_step k n data sz (acc, c, p) = (acc', c', p')"
  shows "arm_inv data len tot (acc', c', p') \<and> p' = p + n * of_bool (bit sz k)"
proof (cases "bit sz k")
  case True
  obtain a1 c1 where e1: "adc acc (load data p n) c = (a1, c1)" by fastforce
  have "cok a1 c1" using adc_cok [OF _ e1] assms(2) by (simp add: arm_inv_def)
  moreover have "oc16 (cval a1 c1 + rest data len (p + n)) = oc16 (cval acc c + rest data len p)"
    using adc_load [OF e1 assms(3), of len] assms True by simp
  ultimately show ?thesis
    using assms True by (auto simp: arm_step_def arm_inv_def e1)
next
  case False
  with assms show ?thesis by (simp add: arm_step_def)
qed

lemma ff00ff_mask: "0x00ff00ff = (mask 8 OR push_bit 16 (mask 8) :: u32)"
  by (simp add: mask_numeral)

lemma ucast_rev16: "ucast (rev16 w) = swap_bytes16 (ucast w)"
  unfolding rev16_def ff00ff_mask
  by (rule bit_word_eqI) (auto simp: swap_bytes16_def bit_simps)

lemma rev16_ucast: "ucast (rev16 (ucast (w :: u16))) = (ucast (swap_bytes16 w) :: u64)"
  unfolding rev16_def ff00ff_mask
  by (rule bit_word_eqI) (auto simp: swap_bytes16_def bit_simps dest: bit_imp_le_length)

lemma oc16_small:
  assumes "x \<le> 131070"
  shows "(x + x div 65536) mod 65536 = oc16 x"
proof (cases "x \<le> 65535")
  case True
  then show ?thesis by (simp add: oc_id)
next
  case False
  then obtain y where y: "x = y + 65536" by (intro that [of "x - 65536"]) simp
  with assms have y': "y \<le> 65534" by simp
  then have "oc16 x = y + 1" by (simp add: oc_def y)
  moreover have "x div 65536 = 1" using y y' by simp
  moreover have "(x + 1) mod 65536 = y + 1"
  proof -
    have "x + 1 = (y + 1) + 65536" using y by simp
    then show ?thesis using y' by (simp only: mod_add_self2) simp
  qed
  ultimately show ?thesis by simp
qed

lemma arm_finish_eq:
  assumes "cok acc c"
  shows "arm_finish acc c = swap_bytes16 (NOT (of_nat (oc16 (cval acc c))))"
proof -
  obtain a1 c1 where e1: "adc (ucast acc :: u32) (ucast (drop_bit 32 acc)) c = (a1, c1)"
    by fastforce
  obtain a2 c2 where e2: "adc a1 0 c1 = (a2, c2)" by fastforce
  let ?lo = "unat acc mod 2 ^ 32" and ?hi = "unat acc div 2 ^ 32"
  have u1: "unat a1 + 2 ^ 32 * of_bool c1 = ?lo + ?hi + of_bool c"
    using unat_adc [OF e1] by (simp add: unat_low32 [of acc] unat_high32)
  have "?lo < 2 ^ 32" and "?hi < 2 ^ 32"
    using unat_bound_64 [of acc] by (simp_all add: less_mult_imp_div_less)
  moreover have "\<not> (c \<and> ?lo = 2 ^ 32 - 1 \<and> ?hi = 2 ^ 32 - 1)"
  proof
    assume h: "c \<and> ?lo = 2 ^ 32 - 1 \<and> ?hi = 2 ^ 32 - 1"
    have "unat acc = ?hi * 2 ^ 32 + ?lo" by simp
    with h have "unat acc = (2 ^ 32 - 1) * 2 ^ 32 + (2 ^ 32 - 1)" by metis
    with h assms show False by (simp add: cok_def)
  qed
  ultimately have ok1: "cok a1 c1" using u1 by (cases c; cases c1) (auto simp: cok_def)
  have "oc16 (unat a2) = oc16 (cval a1 c1)" using adc_zero [OF ok1 e2] by simp
  also have "\<dots> = oc16 (?lo + ?hi + of_bool c)"
    using adc_oc16 [OF oc16_dvd(2) e1, of 0]
    by (simp add: cval_def unat_low32 [of acc] unat_high32 ac_simps)
  also have "\<dots> = oc16 (cval acc c)"
    unfolding cval_def by (rule oc_add_cong, simp, rule oc16_split) (simp_all add: dvd_eq_mod_eq_0)
  finally have o2: "oc16 (unat a2) = oc16 (cval acc c)" .
  define a3 where "a3 = (ucast (ucast a2 :: u16) :: u32) + drop_bit 16 a2"
  define a4 where "a4 = a3 + drop_bit 16 a3"
  have "(ucast (ucast a2 :: u16) :: u32) = take_bit 16 a2"
    by (rule bit_word_eqI) (auto simp: bit_simps)
  then have lo: "unat (ucast (ucast a2 :: u16) :: u32) = unat a2 mod 65536"
    by (simp add: unsigned_take_bit_eq take_bit_nat_def)
  have hi: "unat (drop_bit 16 w) = unat w div 65536" for w :: u32
    by (simp add: unat_drop_bit_eq drop_bit_nat_def)
  have b: "unat a2 mod 65536 \<le> 65535" "unat a2 div 65536 \<le> 65535"
    using unat_bound_32 [of a2] less_mult_imp_div_less [of "unat a2" 65536 65536] by auto
  have u3: "unat a3 = unat a2 mod 65536 + unat a2 div 65536"
    unfolding a3_def using b by (subst unat_add_no_wrap) (simp_all add: lo hi)
  then have b3: "unat a3 \<le> 131070" using b by simp
  then have u4: "unat a4 = unat a3 + unat a3 div 65536"
    unfolding a4_def using div_le_dividend [of "unat a3" 65536]
    by (subst unat_add_no_wrap) (simp_all add: hi del: div_le_dividend)
  have "unat (ucast a4 :: u16) = oc16 (unat a3)"
    using oc16_small [OF b3] unat_low16 [of a4] by (simp add: u4)
  also have "\<dots> = oc16 (unat a2)" unfolding u3 by (rule oc16_split) simp_all
  finally have "(ucast a4 :: u16) = of_nat (oc16 (cval acc c))"
    using o2 by (intro word_eq_of_natI) simp
  moreover have "arm_finish acc c = swap_bytes16 (ucast (NOT a4))"
    by (simp add: arm_finish_def e1 e2 ucast_rev16 a3_def a4_def Let_def)
  moreover have "(ucast (NOT a4) :: u16) = NOT (ucast a4)"
    by (rule bit_word_eqI) (auto simp: bit_simps)
  ultimately show ?thesis by simp
qed

text \<open>The blocks that \<open>tbz\<close> selects cover what the loop leaves.\<close>

lemma low_bits_sum:
  fixes n :: nat
  shows "n mod 32 = 16 * of_bool (bit n 4) + 8 * of_bool (bit n 3) + 4 * of_bool (bit n 2)
    + 2 * of_bool (bit n 1) + of_bool (bit n 0)"
proof -
  have "n mod 32 = take_bit (Suc (Suc (Suc (Suc (Suc 0))))) n" by (simp add: take_bit_nat_def)
  also have "\<dots> = 16 * of_bool (bit n 4) + 8 * of_bool (bit n 3) + 4 * of_bool (bit n 2)
    + 2 * of_bool (bit n 1) + of_bool (bit n 0)"
    by (simp only: take_bit_Suc_from_most) (simp add: numeral_eq_Suc)
  finally show ?thesis .
qed

lemma aarch64_correct:
  assumes "len \<le> length data"
  shows "checksum_aarch64 data len initial = ip_checksum (take len data) initial"
proof -
  let ?tot = "unat (swap_bytes16 initial) + wsum (take len data)"
  define m where "m = len - len mod 32"
  let ?acc = "ucast (rev16 (ucast initial)) :: u64"
  obtain a0 p0 where e0:
    "(if m = 0 then (?acc, 0) else arm_loop32 data m ?acc 0) = (a0, p0)" by fastforce
  obtain a1 c1 p1 where e1: "arm_step16 data len (a0, False, p0) = (a1, c1, p1)"
    using prod_cases3 by blast
  obtain a2 c2 p2 where e2: "arm_step 3 8 data len (a1, c1, p1) = (a2, c2, p2)"
    using prod_cases3 by blast
  obtain a3 c3 p3 where e3: "arm_step 2 4 data len (a2, c2, p2) = (a3, c3, p3)"
    using prod_cases3 by blast
  obtain a4 c4 p4 where e4: "arm_step 1 2 data len (a3, c3, p3) = (a4, c4, p4)"
    using prod_cases3 by blast
  obtain a5 c5 p5 where e5: "arm_step 0 1 data len (a4, c4, p4) = (a5, c5, p5)"
    using prod_cases3 by blast
  have start: "arm_inv data len ?tot (?acc, False, 0)"
    by (simp add: arm_inv_def rev16_ucast)
  have i0: "arm_inv data len ?tot (a0, False, p0) \<and> p0 = m"
  proof (cases "m = 0")
    case True
    with e0 start show ?thesis by simp
  next
    case False
    have "32 dvd m" by (simp add: m_def dvd_minus_mod)
    with False e0 show ?thesis
      using arm_loop32_inv [OF assms _ _ _ start, of m a0 p0] by (auto simp: m_def)
  qed
  have sum: "len = m + 16 * of_bool (bit len 4) + 8 * of_bool (bit len 3)
      + 4 * of_bool (bit len 2) + 2 * of_bool (bit len 1) + of_bool (bit len 0)"
  proof -
    have "len = m + len mod 32" by (simp add: m_def)
    with low_bits_sum [of len] show ?thesis by linarith
  qed
  have i1: "arm_inv data len ?tot (a1, c1, p1) \<and> p1 = m + 16 * of_bool (bit len 4)"
    using arm_step16_inv [OF assms _ _ e1, of ?tot] i0 sum by auto
  have i2: "arm_inv data len ?tot (a2, c2, p2) \<and> p2 = p1 + 8 * of_bool (bit len 3)"
    using arm_step_inv [OF assms _ _ _ e2, of ?tot] i1 sum by auto
  have i3: "arm_inv data len ?tot (a3, c3, p3) \<and> p3 = p2 + 4 * of_bool (bit len 2)"
    using arm_step_inv [OF assms _ _ _ e3, of ?tot] i1 i2 sum by auto
  have i4: "arm_inv data len ?tot (a4, c4, p4) \<and> p4 = p3 + 2 * of_bool (bit len 1)"
    using arm_step_inv [OF assms _ _ _ e4, of ?tot] i1 i2 i3 sum by auto
  have i5: "arm_inv data len ?tot (a5, c5, p5) \<and> p5 = p4 + 1 * of_bool (bit len 0)"
  proof -
    have "p4 + of_bool (bit len 0) = len" using i1 i2 i3 i4 sum by simp
    then have last: "bit len 0 \<longrightarrow> p4 + 1 \<le> len \<and> (even (1 :: nat) \<or> p4 + 1 = len)"
      by (cases "bit len 0") auto
    have "(1 :: nat) \<le> 8" by simp
    from arm_step_inv [OF assms conjunct1 [OF i4] this last e5] show ?thesis .
  qed
  have "p5 = len" using i1 i2 i3 i4 i5 sum by simp
  then have "cok a5 c5" and "oc16 (cval a5 c5) = oc16 ?tot"
    using i5 by (auto simp: arm_inv_def)
  then show ?thesis
    unfolding checksum_aarch64_def Let_def m_def [symmetric] e0 prod.case e1 e2 e3 e4 e5
    by (simp add: arm_finish_eq ip_checksum_def)
qed

lemma ipsum_correct:
  "len \<le> length data \<Longrightarrow> ipsum arch data len initial = ip_checksum (take len data) initial"
  by (cases arch) (simp_all add: ipsum_def x86_64_correct aarch64_correct)

section \<open>The contract of ipsum\<close>

lemma swap_bytes16_not: "swap_bytes16 (NOT w) = NOT (swap_bytes16 w)"
  by (rule bit_word_eqI) (auto simp: swap_bytes16_def bit_simps dest: bit_imp_le_length)

lemma unat_minus_1_16: "unat (- 1 :: u16) = 65535"
  by (simp add: unsigned_minus_1_eq_mask mask_numeral)

lemma unat_not_16: "unat (NOT w) = 65535 - unat (w :: u16)"
proof -
  have "NOT w = - 1 - w" by (simp add: not_eq_complement)
  then show ?thesis using unat_sub [OF word_n1_ge, of w] by (simp add: unat_minus_1_16)
qed

lemma swap_bytes16_eq_0: "swap_bytes16 w = 0 \<longleftrightarrow> w = 0"
  by (metis swap_bytes16_swap swap_bytes16_def drop_bit_of_0 or.right_neutral push_bit_of_0)

lemma unat_oc16: "unat (of_nat (oc16 n) :: u16) = oc16 n"
proof -
  have "oc16 n < 2 ^ 16" using oc_le [of 65535 n] by simp
  then show ?thesis by (simp add: unsigned_of_nat take_bit_nat_eq_self)
qed

lemma oc16_eq_max: "oc16 n = 65535 \<longleftrightarrow> n \<noteq> 0 \<and> n mod 65535 = 0"
proof (cases "n = 0")
  case False
  have "oc16 n mod 65535 = n mod 65535" by (rule oc_mod) simp
  moreover have "oc16 n \<le> 65535" "oc16 n \<noteq> 0" using False by (auto simp: oc_le)
  ultimately show ?thesis using False
    by (metis le_neq_implies_less mod_less mod_self)
qed (simp add: oc_def)

lemma ip_checksum_eq_0:
  "ip_checksum data v = 0 \<longleftrightarrow>
     (let s = unat (swap_bytes16 v) + wsum data in s \<noteq> 0 \<and> s mod 65535 = 0)"
proof -
  let ?s = "unat (swap_bytes16 v) + wsum data"
  have "ip_checksum data v = 0 \<longleftrightarrow> (of_nat (oc16 ?s) :: u16) = NOT 0"
    by (metis bit.double_compl ip_checksum_def swap_bytes16_eq_0)
  also have "\<dots> \<longleftrightarrow> oc16 ?s = 65535"
    using unat_oc16 [of ?s] by (auto simp: word_eq_unat_iff unat_minus_1_16)
  finally show ?thesis by (simp add: oc16_eq_max Let_def)
qed

lemma ip_checksum_verifies: "ip_checksum data (ip_checksum data 0) = 0"
proof -
  let ?n = "oc16 (wsum data)"
  have v: "swap_bytes16 (ip_checksum data 0) = NOT (of_nat ?n)"
    by (simp add: ip_checksum_def swap_bytes16_def [of 0])
  have "unat (NOT (of_nat ?n :: u16)) = 65535 - ?n"
    using unat_oc16 [of "wsum data"] by (simp add: unat_not_16)
  then have "oc16 (unat (swap_bytes16 (ip_checksum data 0)) + wsum data) = oc16 (65535 - ?n + ?n)"
    using oc_add_cong [of 65535 "wsum data" ?n "65535 - ?n"] oc_le [of 65535]
    by (simp add: v add.commute oc_id)
  also have "\<dots> = 65535" using oc_le [of 65535 "wsum data"] by (simp add: oc_id)
  finally show ?thesis
    unfolding ip_checksum_eq_0 Let_def by (simp add: oc16_eq_max)
qed

lemma ip_checksum_chain:
  assumes "even (length data1)"
  shows "ip_checksum data2 (NOT (ip_checksum data1 initial)) = ip_checksum (data1 @ data2) initial"
proof -
  let ?n = "unat (swap_bytes16 initial) + wsum data1"
  have "swap_bytes16 (NOT (ip_checksum data1 initial)) = of_nat (oc16 ?n)"
    by (simp add: ip_checksum_def swap_bytes16_not)
  then have "unat (swap_bytes16 (NOT (ip_checksum data1 initial))) = oc16 ?n"
    by (simp add: unat_oc16)
  then show ?thesis
    unfolding ip_checksum_def [of data2] ip_checksum_def [of "data1 @ data2"]
    by (simp add: wsum_append_even [OF assms] add.assoc)
qed

section \<open>Properties\<close>

text \<open>
  C11: on both architectures the assembly routine behind \<open>ipsum\<close> computes the Internet
  checksum of the first \<open>len\<close> bytes: the complement of the one's complement sum of the
  16-bit words, with the initial value added, in network byte order, for every length and every
  unrolled path.
\<close>

theorem ipsum_is_ip_checksum:
  assumes "len \<le> length data"
  shows "ipsum arch data len initial = ip_checksum (take len data) initial"
  using assms by (rule ipsum_correct)

theorem ipsum_is_ip_checksum_witness:
  "ipsum X86_64 [0x45, 0x00, 0x00, 0x73, 0x11] 5 0x1234 =
     ip_checksum (take 5 [0x45, 0x00, 0x00, 0x73, 0x11]) 0x1234"
  by (rule ipsum_is_ip_checksum) simp

text \<open>
  C25: the optimised assembly agrees with the reference routine in Rust, which the tests compare it
  with, on every input below 2^48 bytes (where the reference's accumulator cannot overflow).
\<close>

theorem ipsum_agrees_with_checksum_rust:
  assumes "len \<le> length data" and "len < 2 ^ 48"
  shows "checksum_rust data len = Inr (ipsum arch data len 0)"
  using assms by (simp add: checksum_rust_correct ipsum_correct)

theorem ipsum_agrees_with_checksum_rust_witness:
  "checksum_rust [1, 2, 3] 3 = Inr (ipsum Aarch64 [1, 2, 3] 3 0)"
  by (rule ipsum_agrees_with_checksum_rust) simp_all

text \<open>
  A receiver that checksums data with the sender's checksum as the initial value gets 0.
\<close>

theorem ipsum_verifies:
  assumes "len \<le> length data"
  shows "ipsum arch data len (ipsum arch data len 0) = 0"
  using assms by (simp add: ipsum_correct ip_checksum_verifies)

text \<open>
  A checksum can be computed piecewise: the complement of the checksum of a first part of even
  length, given as the initial value for the second part, yields the checksum of the whole.
\<close>

theorem ipsum_incremental:
  assumes "even (length data1)"
  shows "ipsum arch data2 (length data2) (NOT (ipsum arch data1 (length data1) initial)) =
    ipsum arch (data1 @ data2) (length (data1 @ data2)) initial"
  using ip_checksum_chain [OF assms, of data2 initial] by (simp add: ipsum_correct)

end
