(* ===== verification/Rush_Header.thy ===== *)
theory Rush_Header
  imports Rush_Lib
begin

text \<open>
  \<open>src/header.rs\<close> and \<open>src/ethernet.rs\<close>: protocol headers as views onto memory. A
  \<open>Header<T>\<close> is the memory its pointer leads to, from the pointer on; an operation that writes
  through the pointer returns the header with that memory changed. The one header type the sources
  define is \<open>Ethernet\<close>, whose packed layout gives the offsets of its fields.
\<close>

section \<open>Headers\<close>

record Header =
  hptr :: "u8 list"
  backing :: bool

definition new_header :: "u8 list \<Rightarrow> Header" where
  "new_header d = \<lparr>hptr = d, backing = True\<rparr>"

definition from_mem :: "usize \<Rightarrow> u8 list \<Rightarrow> Header res" where
  "from_mem sz mem =
     bind_res (assert_res (unat sz \<le> length mem) (AssertFailed ''ptr.len() >= size_of''))
       (\<lambda>_. Inr \<lparr>hptr = mem, backing = False\<rparr>)"

definition header_copy :: "usize \<Rightarrow> Header \<Rightarrow> u8 list \<Rightarrow> u8 list" where
  "header_copy sz h dst = copy dst (take (unat sz) (hptr h)) sz"

section \<open>Fields\<close>

definition get_field :: "nat \<Rightarrow> nat \<Rightarrow> Header \<Rightarrow> u8 list" where
  "get_field off n h = take n (drop off (hptr h))"

definition set_field :: "nat \<Rightarrow> u8 list \<Rightarrow> Header \<Rightarrow> Header" where
  "set_field off v h = h\<lparr>hptr := take off (hptr h) @ v @ drop (off + length v) (hptr h)\<rparr>"

text \<open>A \<open>u16\<close> in memory.\<close>

fun u16_bytes :: "target_endian \<Rightarrow> u16 \<Rightarrow> u8 list" where
  "u16_bytes LittleEndian w = [ucast w, ucast (drop_bit 8 w)]"
| "u16_bytes BigEndian w = [ucast (drop_bit 8 w), ucast w]"

fun bytes_u16 :: "target_endian \<Rightarrow> u8 list \<Rightarrow> u16" where
  "bytes_u16 LittleEndian (a # b # bs) = ucast a OR push_bit 8 (ucast b)"
| "bytes_u16 BigEndian (a # b # bs) = push_bit 8 (ucast a) OR ucast b"
| "bytes_u16 e bs = 0"

section \<open>MAC addresses\<close>

type_synonym MacAddress = "u8 list"

definition hex_char :: "nat \<Rightarrow> char" where
  "hex_char d = char_of (if d < 10 then 48 + d else 87 + d)"

text \<open>\<open>format!("{:x}", b)\<close>.\<close>

definition hex_string :: "u8 \<Rightarrow> string" where
  "hex_string b =
     (let n = unat b in if n < 16 then [hex_char n] else [hex_char (n div 16), hex_char (n mod 16)])"

definition ntop :: "MacAddress \<Rightarrow> string" where
  "ntop address =
     hex_string (address ! 0) @ '':'' @ hex_string (address ! 1) @ '':'' @ hex_string (address ! 2) @ '':'' @
     hex_string (address ! 3) @ '':'' @ hex_string (address ! 4) @ '':'' @ hex_string (address ! 5)"

text \<open>\<open>char::to_digit(16)\<close>.\<close>

definition hex_digit :: "char \<Rightarrow> nat option" where
  "hex_digit c =
     (let n = of_char c in
      if 48 \<le> n \<and> n \<le> 57 then Some (n - 48)
      else if 97 \<le> n \<and> n \<le> 102 then Some (n - 87)
      else if 65 \<le> n \<and> n \<le> 70 then Some (n - 55)
      else None)"

fun hex_value :: "nat \<Rightarrow> string \<Rightarrow> nat option" where
  "hex_value acc [] = Some acc"
| "hex_value acc (c # cs) =
     (case hex_digit c of
        None \<Rightarrow> None
      | Some d \<Rightarrow> if 16 * acc + d < 256 then hex_value (16 * acc + d) cs else None)"

text \<open>\<open>u8::from_str_radix(s, 16)\<close>: one leading plus sign is allowed.\<close>

definition from_str_radix_16 :: "string \<Rightarrow> u8 option" where
  "from_str_radix_16 s =
     (case s of
        [] \<Rightarrow> None
      | c # cs \<Rightarrow>
          if c = CHR ''+'' then if cs = [] then None else map_option of_nat (hex_value 0 cs)
          else map_option of_nat (hex_value 0 s))"

text \<open>\<open>&s[a..b]\<close> panics when the string is too short.\<close>

definition substring :: "string \<Rightarrow> nat \<Rightarrow> nat \<Rightarrow> string res" where
  "substring s a b =
     bind_res (assert_res (a \<le> b \<and> b \<le> length s) IndexOutOfBounds) (\<lambda>_. Inr (take (b - a) (drop a s)))"

definition pton_byte :: "string \<Rightarrow> nat \<Rightarrow> nat \<Rightarrow> u8 res" where
  "pton_byte s a b =
     bind_res (substring s a b) (\<lambda>t.
     case from_str_radix_16 t of Some v \<Rightarrow> Inr v | None \<Rightarrow> Inl (UnwrapErr ''ParseIntError''))"

definition pton :: "string \<Rightarrow> MacAddress res" where
  "pton s =
     bind_res (pton_byte s 0 2) (\<lambda>a0.
     bind_res (pton_byte s 3 5) (\<lambda>a1.
     bind_res (pton_byte s 6 8) (\<lambda>a2.
     bind_res (pton_byte s 9 11) (\<lambda>a3.
     bind_res (pton_byte s 12 14) (\<lambda>a4.
     bind_res (pton_byte s 15 17) (\<lambda>a5.
     Inr [a0, a1, a2, a3, a4, a5]))))))"

section \<open>Ethernet headers\<close>

text \<open>\<open>repr(C, packed)\<close>: two addresses of six bytes, and the type in two bytes.\<close>

definition DST :: nat where "DST = 0"
definition SRC :: nat where "SRC = 6"
definition ETHERTYPE :: nat where "ETHERTYPE = 12"

definition size_of_Ethernet :: usize where
  "size_of_Ethernet = 14"

definition default_Ethernet :: "u8 list" where
  "default_Ethernet = replicate 14 0"

definition dst :: "Header \<Rightarrow> MacAddress" where
  "dst h = get_field DST 6 h"

definition set_dst :: "MacAddress \<Rightarrow> Header \<Rightarrow> Header" where
  "set_dst address h = set_field DST (copy (get_field DST 6 h) address 6) h"

definition src :: "Header \<Rightarrow> MacAddress" where
  "src h = get_field SRC 6 h"

definition set_src :: "MacAddress \<Rightarrow> Header \<Rightarrow> Header" where
  "set_src address h = set_field SRC (copy (get_field SRC 6 h) address 6) h"

definition ethertype :: "target_endian \<Rightarrow> Header \<Rightarrow> u16" where
  "ethertype e h = ntohs e (bytes_u16 e (get_field ETHERTYPE 2 h))"

definition set_ethertype :: "target_endian \<Rightarrow> u16 \<Rightarrow> Header \<Rightarrow> Header" where
  "set_ethertype e ty h = set_field ETHERTYPE (u16_bytes e (htons e ty)) h"

definition swap :: "Header \<Rightarrow> Header" where
  "swap h =
     (let tmp = copy (replicate 6 0) (get_field DST 6 h) 6;
          h = set_field DST (copy (get_field DST 6 h) (get_field SRC 6 h) 6) h
      in set_field SRC (copy (get_field SRC 6 h) tmp 6) h)"

end
