(* ===== verification/Rush_Header_Correct.thy ===== *)
theory Rush_Header_Correct
  imports Rush_Header
begin

text \<open>
  The accessors of Ethernet headers: what is set is what is read back, setting one field leaves the
  others and the rest of the memory alone, and the type field is in network byte order whatever the
  machine's. Printing and parsing MAC addresses.
\<close>

section \<open>Fields\<close>

definition eth_ok :: "Header \<Rightarrow> bool" where
  "eth_ok h \<longleftrightarrow> 14 \<le> length (hptr h)"

lemma length_set_field [simp]:
  "off + length v \<le> length (hptr h) \<Longrightarrow> length (hptr (set_field off v h)) = length (hptr h)"
  by (simp add: set_field_def)

lemma backing_set_field [simp]: "backing (set_field off v h) = backing h"
  by (simp add: set_field_def)

lemma length_get_field [simp]: "off + n \<le> length (hptr h) \<Longrightarrow> length (get_field off n h) = n"
  by (simp add: get_field_def)

lemma nth_set_field:
  assumes "off + length v \<le> length (hptr h)" and "i < length (hptr h)"
  shows "hptr (set_field off v h) ! i =
    (if off \<le> i \<and> i < off + length v then v ! (i - off) else hptr h ! i)"
  using assms by (auto simp: set_field_def nth_append)

lemma get_set_field_same [simp]:
  assumes "off + length v \<le> length (hptr h)" and "n = length v"
  shows "get_field off n (set_field off v h) = v"
  using assms by (simp add: get_field_def set_field_def)

lemma get_set_field_other:
  assumes "off' + length v \<le> length (hptr h)" and "off + n \<le> length (hptr h)"
    and "off + n \<le> off' \<or> off' + length v \<le> off"
  shows "get_field off n (set_field off' v h) = get_field off n h"
  by (rule nth_equalityI) (use assms in \<open>auto simp: get_field_def nth_set_field\<close>)

lemma copy_field:
  assumes "length d = n" and "length a = n" and "unat m = n"
  shows "copy d a m = a"
  using assms by (simp add: copy_def)

lemma header_fields:
  assumes "eth_ok h"
  shows "length (get_field DST 6 h) = 6" "length (get_field SRC 6 h) = 6" "length (get_field ETHERTYPE 2 h) = 2"
  using assms by (simp_all add: eth_ok_def DST_def SRC_def ETHERTYPE_def)

lemma length_u16_bytes [simp]: "length (u16_bytes e w) = 2"
  by (cases e) simp_all

lemma u16_low_high: "ucast (ucast w :: u8) OR push_bit 8 (ucast (ucast (drop_bit 8 w) :: u8)) = (w :: u16)"
  by (rule bit_word_eqI) (auto simp: bit_simps)

lemma bytes_u16_bytes [simp]: "bytes_u16 e (u16_bytes e w) = w"
  using u16_low_high [of w] by (cases e) (simp_all add: or.commute)

section \<open>Setters as updates of one field\<close>

lemma set_dst_eq: "eth_ok h \<Longrightarrow> length a = 6 \<Longrightarrow> set_dst a h = set_field DST a h"
  by (simp add: set_dst_def copy_field [OF header_fields(1)])

lemma set_src_eq: "eth_ok h \<Longrightarrow> length a = 6 \<Longrightarrow> set_src a h = set_field SRC a h"
  by (simp add: set_src_def copy_field [OF header_fields(2)])

lemma swap_eq:
  assumes "eth_ok h"
  shows "swap h = set_field SRC (dst h) (set_field DST (src h) h)"
proof -
  have l: "length (get_field DST 6 h) = 6" "length (get_field SRC 6 h) = 6"
    by (rule header_fields [OF assms])+
  have ok: "eth_ok (set_field DST (get_field SRC 6 h) h)"
    using assms l by (simp add: eth_ok_def DST_def)
  show ?thesis
    using l header_fields(2) [OF ok]
    by (simp add: swap_def Let_def dst_def src_def copy_field [of _ 6])
qed

lemmas field_offsets = DST_def SRC_def ETHERTYPE_def

lemma setter_fields:
  assumes ok: "eth_ok h" and a: "length a = 6"
  shows "dst (set_dst a h) = a" "src (set_dst a h) = src h" "ethertype e (set_dst a h) = ethertype e h"
    "src (set_src a h) = a" "dst (set_src a h) = dst h" "ethertype e (set_src a h) = ethertype e h"
    "eth_ok (set_dst a h)" "eth_ok (set_src a h)"
  using ok [unfolded eth_ok_def] unfolding set_dst_eq [OF ok a] set_src_eq [OF ok a]
    ethertype_def dst_def src_def eth_ok_def
  by (simp_all add: get_set_field_other field_offsets a)

lemma type_fields:
  assumes "eth_ok h"
  shows "ethertype e (set_ethertype e ty h) = ty" "dst (set_ethertype e ty h) = dst h"
    "src (set_ethertype e ty h) = src h" "eth_ok (set_ethertype e ty h)"
  using assms unfolding set_ethertype_def ethertype_def dst_def src_def eth_ok_def
  by (simp_all add: get_set_field_other field_offsets)

lemma setter_rest:
  assumes ok: "eth_ok h" and a: "length a = 6" and i: "14 \<le> i" "i < length (hptr h)"
  shows "hptr (set_dst a h) ! i = hptr h ! i" "hptr (set_src a h) ! i = hptr h ! i"
    "hptr (set_ethertype e ty h) ! i = hptr h ! i"
  using i unfolding set_dst_eq [OF ok a] set_src_eq [OF ok a] set_ethertype_def
  by (simp_all add: field_offsets a nth_set_field)

text \<open>
  C38: the fields of an Ethernet header are independent: each setter makes its getter return what was
  set, leaves the two other fields alone, and does not touch the memory after the header.
\<close>

theorem ethernet_setters:
  assumes "14 \<le> length (hptr h)" and "length a = 6"
  shows "dst (set_dst a h) = a \<and> src (set_dst a h) = src h \<and> ethertype e (set_dst a h) = ethertype e h \<and>
    src (set_src a h) = a \<and> dst (set_src a h) = dst h \<and> ethertype e (set_src a h) = ethertype e h \<and>
    ethertype e (set_ethertype e ty h) = ty \<and> dst (set_ethertype e ty h) = dst h \<and>
    src (set_ethertype e ty h) = src h \<and>
    (\<forall>i. 14 \<le> i \<and> i < length (hptr h) \<longrightarrow> hptr (set_dst a h) ! i = hptr h ! i \<and>
       hptr (set_src a h) ! i = hptr h ! i \<and> hptr (set_ethertype e ty h) ! i = hptr h ! i)"
  using assms setter_fields [of h a] type_fields [of h] setter_rest [of h a] by (simp add: eth_ok_def)

theorem ethernet_setters_witness:
  "dst (set_dst [1, 2, 3, 4, 5, 6] (new_header default_Ethernet)) = [1, 2, 3, 4, 5, 6]"
  using ethernet_setters [of "new_header default_Ethernet" "[1, 2, 3, 4, 5, 6]"]
  by (simp add: new_header_def default_Ethernet_def)

text \<open>
  \<open>swap\<close> exchanges the addresses, keeps the type and the memory after the header, and
  undoes itself.
\<close>

theorem ethernet_swap:
  assumes "14 \<le> length (hptr h)"
  shows "dst (swap h) = src h \<and> src (swap h) = dst h \<and> ethertype e (swap h) = ethertype e h \<and>
    swap (swap h) = h"
proof -
  have ok: "eth_ok h" using assms by (simp add: eth_ok_def)
  have l: "length (dst h) = 6" "length (src h) = 6" using header_fields [OF ok] by (simp_all add: dst_def src_def)
  let ?g = "set_field SRC (dst h) (set_field DST (src h) h)"
  have ok': "eth_ok ?g" using assms l by (simp add: eth_ok_def field_offsets)
  have f: "dst ?g = src h" "src ?g = dst h" "ethertype e ?g = ethertype e h"
    unfolding dst_def [of ?g] src_def [of ?g] ethertype_def
    using assms l by (simp_all add: get_set_field_other field_offsets)
  have nths: "hptr (swap ?g) ! i = hptr h ! i" if "i < length (hptr h)" for i
  proof -
    have d: "dst h ! k = hptr h ! k" "src h ! k = hptr h ! (6 + k)" if "k < 6" for k
      using that assms by (simp_all add: dst_def src_def get_field_def field_offsets)
    show ?thesis
      using that assms l d [of "i - 6"] d [of i] unfolding swap_eq [OF ok'] f
      by (auto simp: nth_set_field field_offsets)
  qed
  have len: "length (hptr (swap ?g)) = length (hptr h)"
    unfolding swap_eq [OF ok'] f using assms l by (simp add: field_offsets)
  have "swap ?g = h"
  proof (rule Header.equality)
    show "hptr (swap ?g) = hptr h"
      by (rule nth_equalityI) (use nths assms l in \<open>auto simp: len\<close>)
    show "backing (swap ?g) = backing h" unfolding swap_eq [OF ok'] by (simp only: backing_set_field)
  qed simp
  then show ?thesis using f by (simp add: swap_eq [OF ok])
qed

section \<open>The type field\<close>

text \<open>
  The type is in network byte order in memory, on machines of either byte order: the high byte
  comes first.
\<close>

theorem ethertype_network_order:
  assumes "14 \<le> length (hptr h)"
  shows "hptr (set_ethertype e ty h) ! 12 = ucast (drop_bit 8 ty) \<and> hptr (set_ethertype e ty h) ! 13 = ucast ty \<and>
    unat (ethertype e h) = 256 * unat (hptr h ! 12) + unat (hptr h ! 13)"
proof -
  have s: "ucast (swap_bytes16 ty) = (ucast (drop_bit 8 ty) :: u8)"
    "ucast (drop_bit 8 (swap_bytes16 ty)) = (ucast ty :: u8)"
    by (rule bit_word_eqI; auto simp: swap_bytes16_def bit_simps)+
  have "hptr (set_ethertype e ty h) ! 12 = ucast (drop_bit 8 ty)" "hptr (set_ethertype e ty h) ! 13 = ucast ty"
    using assms s by (cases e; simp add: set_ethertype_def nth_set_field field_offsets)+
  moreover
  have f: "get_field ETHERTYPE 2 h = [hptr h ! 12, hptr h ! 13]"
    by (rule nth_equalityI) (use assms in \<open>auto simp: get_field_def field_offsets less_Suc_eq numeral_2_eq_2\<close>)
  have sw: "swap_bytes16 (ucast a OR push_bit 8 (ucast b)) = push_bit 8 (ucast a) OR ucast (b :: u8)" for a b :: u8
    by (rule bit_word_eqI) (auto simp: swap_bytes16_def bit_simps dest: bit_imp_le_length)
  have "ethertype e h = push_bit 8 (ucast (hptr h ! 12)) OR ucast (hptr h ! 13)"
    by (cases e) (simp_all add: ethertype_def f sw)
  moreover have "push_bit 8 (ucast a) OR ucast b = (push_bit 8 (ucast a) + ucast b :: u16)" for a b :: u8
    by (rule disjunctive_add [symmetric]) (auto simp: bit_simps dest: bit_imp_le_length)
  moreover have "unat (push_bit 8 (ucast a) + ucast b :: u16) = 256 * unat a + unat b" for a b :: u8
  proof -
    have "unat (push_bit 8 (ucast a) :: u16) = 256 * unat a"
      using unat_bound_8 [of a] by (simp add: push_bit_eq_mult unat_word_ariths unsigned_ucast_eq take_bit_nat_eq_self)
    moreover have "unat (ucast b :: u16) = unat b"
      using unat_bound_8 [of b] by (simp add: unsigned_ucast_eq take_bit_nat_eq_self)
    ultimately show ?thesis
      using unat_bound_8 [of a] unat_bound_8 [of b] by (subst unat_add_no_wrap) simp_all
  qed
  ultimately show ?thesis by simp
qed

section \<open>MAC addresses as text\<close>

lemma hex_digit_char [simp]: "d < 16 \<Longrightarrow> hex_digit (hex_char d) = Some d"
  by (auto simp: hex_digit_def hex_char_def Let_def)

lemma hex_string_wide:
  "16 \<le> unat b \<Longrightarrow> hex_string b = [hex_char (unat b div 16), hex_char (unat b mod 16)]"
  by (simp add: hex_string_def Let_def)

lemma hex_char_not_plus [simp]: "hex_char d = CHR ''+'' \<longleftrightarrow> False" if "d < 16"
proof -
  have "of_char (hex_char d) \<noteq> (43 :: nat)" using that by (auto simp: hex_char_def)
  then show ?thesis by auto
qed

lemma parse_hex_string:
  assumes "16 \<le> unat b"
  shows "from_str_radix_16 (hex_string b) = Some b"
  using assms unat_bound_8 [of b]
  by (simp add: hex_string_wide from_str_radix_16_def less_mult_imp_div_less)

text \<open>
  Where a byte prints as one digit, the positions \<open>pton\<close> reads from are off.
\<close>

lemma hex_digit_colon [simp]: "hex_digit CHR '':'' = None"
  by (simp add: hex_digit_def)

lemma hex_string_cases:
  obtains (narrow) "unat b < 16" "hex_string b = [hex_char (unat b)]"
    | (wide) "16 \<le> unat b" "hex_string b = [hex_char (unat b div 16), hex_char (unat b mod 16)]"
  by (cases "unat b < 16") (auto simp: hex_string_def Let_def)

lemma narrow_fails: "d < 16 \<Longrightarrow> from_str_radix_16 [hex_char d, CHR '':''] = None"
  by (simp add: from_str_radix_16_def)

lemma pton_byte_at:
  assumes "s = pre @ t @ post" and "length pre = a" and "length t = 2" and "b = a + 2"
  shows "pton_byte s a b =
    (case from_str_radix_16 t of Some v \<Rightarrow> Inr v | None \<Rightarrow> Inl (UnwrapErr ''ParseIntError''))"
  using assms by (simp add: pton_byte_def substring_def)

lemma pton_byte_inner:
  assumes "s = pre @ hex_string b @ '':'' @ post" and "length pre = i" and "j = i + 2"
  shows "pton_byte s i j = (if 16 \<le> unat b then Inr b else Inl (UnwrapErr ''ParseIntError''))"
proof (cases b rule: hex_string_cases)
  case narrow
  then show ?thesis
    using pton_byte_at [of s pre "[hex_char (unat b), CHR '':'']" post i j] assms by (simp add: narrow_fails)
next
  case wide
  then show ?thesis
    using pton_byte_at [of s pre "hex_string b" "'':'' @ post" i j] assms parse_hex_string [of b] by simp
qed

lemma pton_byte_last:
  assumes "s = pre @ hex_string b" and "length pre = i" and "j = i + 2"
  shows "pton_byte s i j = (if 16 \<le> unat b then Inr b else Inl IndexOutOfBounds)"
proof (cases b rule: hex_string_cases)
  case narrow
  then show ?thesis using assms by (simp add: pton_byte_def substring_def)
next
  case wide
  then show ?thesis
    using pton_byte_at [of s pre "hex_string b" "[]" i j] assms parse_hex_string [of b] by simp
qed

lemma length_hex_string: "16 \<le> unat b \<Longrightarrow> length (hex_string b) = 2"
  by (simp add: hex_string_wide)

lemma pton_ntop:
  "pton (ntop [a0, a1, a2, a3, a4, a5]) =
     (if \<forall>b \<in> {a0, a1, a2, a3, a4}. 16 \<le> unat b
      then if 16 \<le> unat a5 then Inr [a0, a1, a2, a3, a4, a5] else Inl IndexOutOfBounds
      else Inl (UnwrapErr ''ParseIntError''))"
proof -
  define s where "s = ntop [a0, a1, a2, a3, a4, a5]"
  let ?h = hex_string
  have s: "s = ?h a0 @ '':'' @ ?h a1 @ '':'' @ ?h a2 @ '':'' @ ?h a3 @ '':'' @ ?h a4 @ '':'' @ ?h a5"
    by (simp add: s_def ntop_def)
  let ?r = "\<lambda>b. if 16 \<le> unat b then Inr b else Inl (UnwrapErr ''ParseIntError'')"
  have "pton_byte s 0 2 = ?r a0"
    by (rule pton_byte_inner [of _ "[]"]) (simp_all add: s)
  moreover have "16 \<le> unat a0 \<Longrightarrow> pton_byte s 3 5 = ?r a1"
    by (rule pton_byte_inner [of _ "?h a0 @ '':''"]) (simp_all add: s length_hex_string)
  moreover have "16 \<le> unat a0 \<Longrightarrow> 16 \<le> unat a1 \<Longrightarrow> pton_byte s 6 8 = ?r a2"
    by (rule pton_byte_inner [of _ "?h a0 @ '':'' @ ?h a1 @ '':''"]) (simp_all add: s length_hex_string)
  moreover have "16 \<le> unat a0 \<Longrightarrow> 16 \<le> unat a1 \<Longrightarrow> 16 \<le> unat a2 \<Longrightarrow> pton_byte s 9 11 = ?r a3"
    by (rule pton_byte_inner [of _ "?h a0 @ '':'' @ ?h a1 @ '':'' @ ?h a2 @ '':''"])
      (simp_all add: s length_hex_string)
  moreover have "16 \<le> unat a0 \<Longrightarrow> 16 \<le> unat a1 \<Longrightarrow> 16 \<le> unat a2 \<Longrightarrow> 16 \<le> unat a3 \<Longrightarrow>
      pton_byte s 12 14 = ?r a4"
    by (rule pton_byte_inner [of _ "?h a0 @ '':'' @ ?h a1 @ '':'' @ ?h a2 @ '':'' @ ?h a3 @ '':''"])
      (simp_all add: s length_hex_string)
  moreover have "16 \<le> unat a0 \<Longrightarrow> 16 \<le> unat a1 \<Longrightarrow> 16 \<le> unat a2 \<Longrightarrow> 16 \<le> unat a3 \<Longrightarrow> 16 \<le> unat a4 \<Longrightarrow>
      pton_byte s 15 17 = (if 16 \<le> unat a5 then Inr a5 else Inl IndexOutOfBounds)"
    by (rule pton_byte_last [of _ "?h a0 @ '':'' @ ?h a1 @ '':'' @ ?h a2 @ '':'' @ ?h a3 @ '':'' @ ?h a4 @ '':''"])
      (simp_all add: s length_hex_string)
  ultimately show ?thesis unfolding s_def [symmetric] pton_def by auto
qed

text \<open>
  C37: parsing a printed MAC address gives the address if every byte of it is at least 0x10. Otherwise
  it panics: \<open>ntop\<close> does not pad its numbers to two digits, which is what \<open>pton\<close>
  reads.
\<close>

theorem pton_ntop_exactly:
  assumes "length a = 6"
  shows "(if \<forall>b \<in> set a. 16 \<le> unat b then pton (ntop a) = Inr a
          else \<exists>e. pton (ntop a) = Inl e)"
proof -
  obtain a0 a1 a2 a3 a4 a5 where a: "a = [a0, a1, a2, a3, a4, a5]"
    using assms by (auto simp: numeral_eq_Suc length_Suc_conv)
  show ?thesis unfolding a pton_ntop by auto
qed

theorem pton_ntop_exactly_witness:
  "pton (ntop [0x52, 0x54, 0x10, 0x11, 0x12, 0xff]) = Inr [0x52, 0x54, 0x10, 0x11, 0x12, 0xff] \<and>
   (\<exists>e. pton (ntop [0x52, 0x54, 0, 0, 0, 1]) = Inl e)"
  using pton_ntop_exactly [of "[0x52, 0x54, 0x10, 0x11, 0x12, 0xff]"] pton_ntop_exactly [of "[0x52, 0x54, 0, 0, 0, 1]"]
  by simp

end
