(* ===== verification/Rush_Selftest.thy ===== *)
theory Rush_Selftest
  imports Rush_Checksum_Correct Rush_Header_Correct Rush_Network
begin

text \<open>
  The tests the sources carry: \<open>alloc\<close> of \<open>src/packet.rs\<close>, \<open>link\<close> of \<open>src/link.rs\<close>,
  \<open>checksum\<close>, \<open>checksum_carry\<close> and \<open>checksum_random\<close> of \<open>src/checksum.rs\<close>,
  \<open>config\<close> of \<open>src/config.rs\<close> and \<open>ethernet\<close> of \<open>src/ethernet.rs\<close>. A test is a program over the operations of the component;
  what it prints while it runs is left out, what it asserts is kept, and numbers that it prints at the end are
  its result. A test that passes returns.
\<close>

section \<open>Packets\<close>

text \<open>Write to a field of a packet in hand; an index behind the payload panics.\<close>

definition set_length :: "ptr \<Rightarrow> u16 \<Rightarrow> 'a pkt_state_scheme \<Rightarrow> 'a pkt_state_scheme" where
  "set_length p n s = s\<lparr>heap := (heap s)(p := (heap s p)\<lparr>plen := n\<rparr>)\<rparr>"

definition set_data :: "ptr \<Rightarrow> usize \<Rightarrow> u8 \<Rightarrow> 'a pkt_state_scheme \<Rightarrow> 'a pkt_state_scheme res" where
  "set_data p i v s =
     bind_res (assert_res (unat i < length (pdata (heap s p))) IndexOutOfBounds) (\<lambda>_.
     Inr (s\<lparr>heap := (heap s)(p := (heap s p)\<lparr>pdata := (pdata (heap s p))[unat i := v]\<rparr>)\<rparr>))"

definition test_alloc :: "os \<Rightarrow> 'a pkt_state_scheme \<Rightarrow> (u16 \<times> 'a pkt_state_scheme) res" where
  "test_alloc os s =
     bind_res (allocate os s) (\<lambda>(p, s).
     let s = set_length p 1 s in
     bind_res (set_data p 0 42 s) (\<lambda>s.
     let len = plen (heap s p) in
     bind_res (free p s) (\<lambda>s. Inr (len, s))))"

section \<open>Links\<close>

definition test_link_send ::
  "os \<Rightarrow> u16 \<Rightarrow> Link \<times> 'a pkt_state_scheme \<Rightarrow> (Link \<times> 'a pkt_state_scheme) res" where
  "test_link_send os n = (\<lambda>(r, s).
     bind_res (allocate os s) (\<lambda>(p, s).
     let s = set_length p n s in
     bind_res (set_data p (ucast (n - 1)) 42 s) (\<lambda>s. transmit r p s)))"

text \<open>The loop is given more rounds than a link can hold packets.\<close>

primrec test_link_drain ::
  "nat \<Rightarrow> usize \<Rightarrow> Link \<times> 'a pkt_state_scheme \<Rightarrow> (usize \<times> Link \<times> 'a pkt_state_scheme) res" where
  "test_link_drain 0 n w = (if empty (fst w) then Inr (n, w) else Inl Diverges)"
| "test_link_drain (Suc fuel) n w =
     (let (r, s) = w in
      if empty r then Inr (n, w)
      else
        let n = n + 1 in
        bind_res (receive r s) (\<lambda>(p, r).
        if plen (heap s p) \<noteq> ucast n then Inl (Panic ''Corrupt packet!'')
        else
          bind_res (assert_res (unat (n - 1) < length (pdata (heap s p))) IndexOutOfBounds) (\<lambda>_.
          if pdata (heap s p) ! unat (n - 1) \<noteq> 42 then Inl (Panic ''Corrupt packet!'')
          else bind_res (free p s) (\<lambda>s. test_link_drain fuel n (r, s)))))"

definition test_link :: "os \<Rightarrow> 'a pkt_state_scheme \<Rightarrow> (usize \<times> Link \<times> 'a pkt_state_scheme) res" where
  "test_link os s =
     (let r = new_link; to_transmit = 2000 in
      if full r then Inl (Panic ''Link should be empty.'')
      else
        bind_res (fold_res (test_link_send os) (map of_nat [1..<Suc to_transmit]) (r, s)) (\<lambda>(r, s).
        if empty r \<or> \<not> full r then Inl (Panic ''Link should be full.'')
        else
          bind_res (test_link_drain LINK_RING_SIZE 0 (r, s)) (\<lambda>(n, r, s).
          bind_res (drop_link r s) (\<lambda>(_, s). Inr (n, r, s)))))"

section \<open>Checksums\<close>

definition test_checksum_case :: "target_arch \<Rightarrow> u8 list \<Rightarrow> nat \<Rightarrow> unit res" where
  "test_checksum_case arch data l =
     bind_res (checksum_rust data l) (\<lambda>n.
     assert_res (ipsum arch data l 0 = n) (AssertFailed ''ipsum(&case, l, 0) == n''))"

definition test_checksum_cases :: "u8 list list" where
  "test_checksum_cases =
     [[0xff, 0xff, 0xff, 0xff, 0xff],
      [0, 0, 0, 0, 0],
      [42, 41, 40, 39, 38, 37, 36, 35, 34, 33, 32, 31, 30, 29, 28],
      [],
      [1, 2, 3, 4, 5, 6, 7, 8, 9, 10, 11, 12, 13, 14, 15, 16,
       1, 2, 3, 4, 5, 6, 7, 8, 9, 10, 11, 12, 13, 14, 15, 16,
       1, 2, 3, 4, 5, 6, 7, 8, 9, 10, 11, 12, 13, 14, 15, 16,
       1, 2, 3, 4, 5, 6, 7, 8, 9, 10, 11, 12, 13, 14, 15]]"

definition test_checksum :: "target_arch \<Rightarrow> unit res" where
  "test_checksum arch =
     fold_res (\<lambda>data _. fold_res (\<lambda>l _. test_checksum_case arch data l) [0..<Suc (length data)] ())
       test_checksum_cases ()"

definition test_checksum_carry :: "target_arch \<Rightarrow> unit res" where
  "test_checksum_carry arch =
     fold_res (\<lambda>l _.
       let data = replicate l 0;
           data = fold (\<lambda>i data. data[i := 0xff]) [0..<Suc (l - 2)] data;
           data = data[l - 1 := 0x01]
       in test_checksum_case arch data l) [2..<64] ()"

text \<open>What the system call returns differs from call to call.\<close>

definition test_checksum_random :: "target_arch \<Rightarrow> (nat \<Rightarrow> nat \<Rightarrow> nat \<Rightarrow> int \<times> u8 list) \<Rightarrow> unit res" where
  "test_checksum_random arch getrandom =
     fold_res (\<lambda>i _.
       fold_res (\<lambda>l _.
         bind_res (random_bytes (getrandom i l) (replicate l 0) (of_nat l)) (\<lambda>data.
         bind_res (checksum_rust data l) (\<lambda>r.
         let n = ipsum arch data l 0 in
         assert_res (r = n) (Panic ''mismatch'')))) [0..<1501] ()) [1..<33] ()"

section \<open>Configurations and Ethernet headers\<close>

definition test_config :: "basic_arg Config res" where
  "test_config =
     (let c = new_config;
          c = app ''source'' (Source 60) c
      in link ''source.output -> sink.input'' c)"

text \<open>The result is what is printed of the two headers.\<close>

definition test_ethernet ::
  "target_endian \<Rightarrow> ((string \<times> string \<times> u16) \<times> (string \<times> string \<times> u16) \<times> usize) res" where
  "test_ethernet e =
     (let eth = new_header default_Ethernet in
      bind_res (pton ''42:42:42:42:42:42'') (\<lambda>a.
      let eth = set_src a eth;
          eth = set_ethertype e 0x0800 eth;
          mem = replicate 20 1 in
      bind_res (from_mem size_of_Ethernet mem) (\<lambda>eth2.
      bind_res (pton ''01:02:03:04:05:06'') (\<lambda>b.
      let eth2 = set_dst b eth2;
          eth2 = set_ethertype e 0x0800 eth2;
          eth = set_dst (dst eth2) eth;
          eth = swap eth in
      Inr ((ntop (dst eth), ntop (src eth), ethertype e eth),
           (ntop (dst eth2), ntop (src eth2), ethertype e eth2), size_of_Ethernet)))))"

section \<open>That they pass\<close>

lemma test_checksum_case_passes:
  "l \<le> length data \<Longrightarrow> l < 2 ^ 48 \<Longrightarrow> test_checksum_case arch data l = Inr ()"
  by (simp add: test_checksum_case_def checksum_rust_correct ipsum_correct)

lemma fold_res_unit: "(\<And>x. x \<in> set xs \<Longrightarrow> f x () = Inr ()) \<Longrightarrow> fold_res f xs () = Inr ()"
  using fold_res_total [of xs "\<lambda>_. True" f "()"] by auto

lemma test_checksum_passes: "test_checksum arch = Inr ()"
  unfolding test_checksum_def
proof (intro fold_res_unit test_checksum_case_passes)
  fix data l
  assume "data \<in> set test_checksum_cases" "l \<in> set [0..<Suc (length data)]"
  then show "l \<le> length data" "l < 2 ^ 48"
    by (auto simp: test_checksum_cases_def)
qed

lemma length_fold_update [simp]: "length (fold (\<lambda>i xs. xs[i := v]) is xs) = length xs"
  by (induction "is" arbitrary: xs) simp_all

lemma test_checksum_carry_passes: "test_checksum_carry arch = Inr ()"
  unfolding test_checksum_carry_def Let_def
proof (intro fold_res_unit test_checksum_case_passes)
  fix l :: nat
  assume "l \<in> set [2..<64]"
  then have "l < 64" by (simp only: set_upt atLeastLessThan_iff)
  then show "l < 2 ^ 48" by simp
  show "l \<le> length ((fold (\<lambda>i data. data[i := 0xff]) [0..<Suc (l - 2)] (replicate l (0 :: u8)))[l - 1 := 0x01])"
    by (simp only: length_list_update length_fold_update length_replicate order_refl)
qed

lemma test_checksum_random_passes:
  assumes "\<And>i l n. fst (getrandom i l n) = int n \<and> length (snd (getrandom i l n)) = n"
  shows "test_checksum_random arch getrandom = Inr ()"
  unfolding test_checksum_random_def
proof (intro fold_res_unit)
  fix i l
  assume "l \<in> set [0..<1501]"
  then have l: "l < 1501" by (simp only: set_upt atLeastLessThan_iff)
  have n: "unat (of_nat l :: usize) = l" using l by (simp add: unat_of_nat)
  define data where "data = snd (getrandom i l l)"
  have "random_bytes (getrandom i l) (replicate l 0) (of_nat l) = Inr data"
    using assms [of i l l] n by (simp add: random_bytes_def data_def)
  moreover have "length data = l" using assms by (simp add: data_def)
  ultimately show "bind_res (random_bytes (getrandom i l) (replicate l 0) (of_nat l)) (\<lambda>data.
      bind_res (checksum_rust data l) (\<lambda>r.
      let n = ipsum arch data l 0 in assert_res (r = n) (Panic ''mismatch''))) = Inr ()"
    using l by (simp add: checksum_rust_correct ipsum_correct)
qed

lemma test_config_passes:
  "test_config = Inr \<lparr>apps = [(''source'', Source 60)], links = [''source.output -> sink.input'']\<rparr>"
  by (simp add: test_config_def new_config_def app_def link_def canonical_link_def parse_sample_link format_link_def)

text \<open>Addresses with a byte below 16 are printed with less than 17 characters.\<close>

lemma pton_samples:
  "pton ''42:42:42:42:42:42'' = Inr [0x42, 0x42, 0x42, 0x42, 0x42, 0x42]"
  "pton ''01:02:03:04:05:06'' = Inr [1, 2, 3, 4, 5, 6]"
  by (simp_all add: pton_def pton_byte_def substring_def from_str_radix_16_def hex_digit_def of_char_def)

lemma ntop_samples:
  "ntop [0x42, 0x42, 0x42, 0x42, 0x42, 0x42] = ''42:42:42:42:42:42''"
  "ntop [1, 2, 3, 4, 5, 6] = ''1:2:3:4:5:6''" "ntop [1, 1, 1, 1, 1, 1] = ''1:1:1:1:1:1''"
  by (simp_all add: ntop_def hex_string_def hex_char_def Let_def char_of_def bit_Suc_0_iff)

lemma test_ethernet_passes:
  "test_ethernet e =
     Inr ((''42:42:42:42:42:42'', ''1:2:3:4:5:6'', 0x0800), (''1:2:3:4:5:6'', ''1:1:1:1:1:1'', 0x0800), 14)"
proof -
  let ?a = "[0x42, 0x42, 0x42, 0x42, 0x42, 0x42] :: u8 list" and ?b = "[1, 2, 3, 4, 5, 6] :: u8 list"
  define h where "h = \<lparr>hptr = replicate 20 (1 :: u8), backing = False\<rparr>"
  define eth2 where "eth2 = set_ethertype e 0x0800 (set_dst ?b h)"
  define eth where "eth = set_dst ?b (set_ethertype e 0x0800 (set_src ?a (new_header default_Ethernet)))"
  have ok: "eth_ok (new_header default_Ethernet)" "eth_ok h"
    by (simp_all add: eth_ok_def new_header_def default_Ethernet_def h_def)
  have h: "src h = [1, 1, 1, 1, 1, 1]" by (simp add: src_def get_field_def SRC_def h_def numeral_eq_Suc)
  have e2: "dst eth2 = ?b" "src eth2 = [1, 1, 1, 1, 1, 1]" "ethertype e eth2 = 0x0800"
    using ok(2) h by (simp_all add: eth2_def setter_fields type_fields)
  have "eth_ok eth" and e1: "dst eth = ?b" "src eth = ?a" "ethertype e eth = 0x0800"
    using ok(1) by (simp_all add: eth_def setter_fields type_fields)
  then have sw: "dst (swap eth) = ?a" "src (swap eth) = ?b" "ethertype e (swap eth) = 0x0800"
    using ethernet_swap [of eth e] by (simp_all add: eth_ok_def)
  have run: "test_ethernet e =
      Inr ((ntop (dst (swap eth)), ntop (src (swap eth)), ethertype e (swap eth)),
           (ntop (dst eth2), ntop (src eth2), ethertype e eth2), size_of_Ethernet)"
    unfolding eth_def e2(1) [symmetric]
    by (simp add: test_ethernet_def pton_samples from_mem_def size_of_Ethernet_def eth2_def h_def Let_def)
  show ?thesis
    unfolding run e2 sw by (simp add: size_of_Ethernet_def ntop_samples)
qed


lemma allocate_user:
  fixes s :: "'a pkt_state_scheme"
  assumes "pkt_inv os U s" "heap_user os" "card U < PACKET_LIMIT"
  obtains p t where "allocate os s = Inr (p, t)" "pkt_inv os (insert p U) t" "p \<notin> U" "plen (heap t p) = 0"
    "\<forall>q \<in> U. heap t q = heap s q" "STATS t = STATS s"
proof -
  obtain p t where a: "allocate os s = Inr (p, t)"
    using allocate_noroot [OF assms(1)] assms(2,3) unfolding heap_user_def by blast
  then show ?thesis using that allocate_ok [OF assms(1) a] by blast
qed

lemma heap_length: "pkt_inv os U s \<Longrightarrow> length (pdata (heap s p)) = PAYLOAD_SIZE"
  by (simp add: pkt_inv_def pool_def heap_wf_def)

text \<open>A packet with its length and one byte set.\<close>

lemma marked_packet:
  assumes "pkt_inv os U s" "p \<in> U" "unat i < PAYLOAD_SIZE"
  obtains t where "set_data p i v (set_length p n s) = Inr t" "pkt_inv os U t"
    "plen (heap t p) = n" "pdata (heap t p) ! unat i = v" "\<forall>q. q \<noteq> p \<longrightarrow> heap t q = heap s q" "STATS t = STATS s"
proof -
  define x where "x = (heap s p)\<lparr>plen := n, pdata := (pdata (heap s p))[unat i := v]\<rparr>"
  define t where "t = s\<lparr>heap := (heap s)(p := x)\<rparr>"
  have len: "length (pdata (heap s p)) = PAYLOAD_SIZE" using heap_length [OF assms(1)] .
  have "set_data p i v (set_length p n s) = Inr t"
    using assms(3) len by (simp add: set_data_def set_length_def t_def x_def)
  moreover have "pkt_inv os U t"
    using pkt_inv_heap [OF assms(1,2), of x] len by (simp add: t_def x_def)
  ultimately show ?thesis
    using that [of t] assms(3) len by (simp add: t_def x_def)
qed

lemma test_alloc_passes:
  assumes "pkt_inv os U s" "heap_user os" "card U < PACKET_LIMIT"
  shows "\<exists>s'. test_alloc os s = Inr (1, s') \<and> pkt_inv os U s' \<and> STATS s' = counted 1 (STATS s)"
proof -
  obtain p t where a: "allocate os s = Inr (p, t)" "pkt_inv os (insert p U) t" "p \<notin> U" "STATS t = STATS s"
    using assms by (rule allocate_user)
  obtain u where u: "set_data p 0 42 (set_length p 1 t) = Inr u" "pkt_inv os (insert p U) u" "plen (heap u p) = 1"
    "STATS u = STATS t"
    by (rule marked_packet [OF a(2), of p 0 42 1]) (simp_all add: PAYLOAD_SIZE_def)
  obtain w where "free p u = Inr w" "pkt_inv os (insert p U - {p}) w" "STATS w = counted 1 (STATS u)"
    using free_ok [OF u(2), of p] u(3) by auto
  then show ?thesis using a u by (simp add: test_alloc_def)
qed

text \<open>The link after \<open>k\<close> packets: the first 1023 are on it, numbered and marked; the others were freed.\<close>

definition sent :: "os \<Rightarrow> ptr set \<Rightarrow> u64 \<Rightarrow> nat \<Rightarrow> Link \<Rightarrow> 'a pkt_state_scheme \<Rightarrow> bool" where
  "sent os U f k r s \<longleftrightarrow>
     link_wf r \<and> link_count r = min k 1023 \<and> distinct (link_fifo r) \<and> set (link_fifo r) \<inter> U = {} \<and>
     pkt_inv os (U \<union> set (link_fifo r)) s \<and>
     (\<forall>i < min k 1023. plen (heap s (link_fifo r ! i)) = of_nat (Suc i) \<and> pdata (heap s (link_fifo r ! i)) ! i = 42) \<and>
     txdrop r = of_nat (k - 1023) \<and> frees (STATS s) = f + of_nat (k - 1023)"

lemma finite_used: "pkt_inv os U s \<Longrightarrow> finite U"
  by (simp add: pkt_inv_def pool_def)

lemma sent_card:
  assumes "sent os U f k r s" "card U + 1024 \<le> PACKET_LIMIT"
  shows "card (U \<union> set (link_fifo r)) < PACKET_LIMIT"
proof -
  have "card (set (link_fifo r)) \<le> 1023"
    using assms(1) card_length [of "link_fifo r"] by (simp add: sent_def)
  then show ?thesis using card_Un_le [of U "set (link_fifo r)"] assms(2) by linarith
qed

lemma test_link_send_ok:
  assumes inv: "sent os U f k r s" and user: "heap_user os" and room: "card U + 1024 \<le> PACKET_LIMIT"
    and k: "k < 2000"
  shows "\<exists>r' s'. test_link_send os (of_nat (Suc k)) (r, s) = Inr (r', s') \<and> sent os U f (Suc k) r' s'"
proof -
  let ?V = "U \<union> set (link_fifo r)"
  have n: "unat (of_nat (Suc k) - 1 :: u16) = k"
    using k by (simp add: unat_of_nat take_bit_nat_eq_self)
  have wf: "link_wf r" and V: "pkt_inv os ?V s" using inv by (simp_all add: sent_def)
  obtain p t where a: "allocate os s = Inr (p, t)" "pkt_inv os (insert p ?V) t" "p \<notin> ?V"
    "\<forall>q \<in> ?V. heap t q = heap s q" "STATS t = STATS s"
    using V user sent_card [OF inv room] by (rule allocate_user)
  obtain u where u: "set_data p (ucast (of_nat (Suc k) - 1 :: u16)) 42 (set_length p (of_nat (Suc k)) t) = Inr u"
    "pkt_inv os (insert p ?V) u" "plen (heap u p) = of_nat (Suc k)"
    "pdata (heap u p) ! unat (ucast (of_nat (Suc k) - 1 :: u16) :: usize) = 42"
    "\<forall>q. q \<noteq> p \<longrightarrow> heap u q = heap t q" "STATS u = STATS t"
    by (rule marked_packet [OF a(2), of p "ucast (of_nat (Suc k) - 1 :: u16)" 42 "of_nat (Suc k)"])
      (use k n in \<open>simp_all add: PAYLOAD_SIZE_def\<close>)
  have same: "heap u q = heap s q" if "q \<in> ?V" for q using that a(3,4) u(5) by metis
  obtain r' s' where x: "transmit r p u = Inr (r', s')" "link_wf r'"
    "if full r then link_fifo r' = link_fifo r \<and> txdrop r' = txdrop r + 1 \<and> pkt_inv os (insert p ?V - {p}) s' \<and>
       STATS s' = counted (plen (heap u p)) (STATS u)
     else link_fifo r' = link_fifo r @ [p] \<and> txdrop r' = txdrop r \<and> s' = u"
    "\<forall>q. q \<noteq> p \<longrightarrow> heap s' q = heap u q"
    using transmit_ok [OF wf u(2), of p] by blast
  have run: "test_link_send os (of_nat (Suc k)) (r, s) = Inr (r', s')"
    using a(1) u(1) x(1) by (simp add: test_link_send_def)
  have "sent os U f (Suc k) r' s'"
  proof (cases "full r")
    case True
    have "link_count r = 1023" using True full_iff [OF wf] by (simp add: PULL_NPACKETS_eq)
    then have "1023 \<le> k" using inv by (auto simp: sent_def min_def split: if_splits)
    have fr: "heap s' (link_fifo r ! i) = heap s (link_fifo r ! i)" if "i < 1023" for i
    proof -
      have "link_fifo r ! i \<in> ?V" using that \<open>link_count r = 1023\<close> by simp
      moreover have "link_fifo r ! i \<noteq> p" using calculation a(3) by blast
      ultimately show ?thesis using same x(4) by simp
    qed
    show ?thesis
      using inv x True a(3,5) u(6) \<open>1023 \<le> k\<close> fr
      by (simp add: sent_def counted_def Suc_diff_le flip: length_link_fifo)
  next
    case False
    have "link_count r \<noteq> 1023" using False full_iff [OF wf] by (simp add: PULL_NPACKETS_eq)
    then have "k < 1023" "link_count r = k" using inv by (auto simp: sent_def min_def split: if_splits)
    have fr: "heap s' (link_fifo r ! i) = heap s (link_fifo r ! i)" if "i < k" for i
      using same [of "link_fifo r ! i"] x(3) False that \<open>link_count r = k\<close> by simp
    have "unat (ucast (of_nat (Suc k) - 1 :: u16) :: usize) = k" using n by simp
    then show ?thesis
      using inv x False a(3,5) u(2,3,4,6) \<open>k < 1023\<close> \<open>link_count r = k\<close> fr
      by (auto simp: sent_def nth_append less_Suc_eq simp flip: length_link_fifo)
  qed
  then show ?thesis using run by blast
qed

lemma test_link_sends:
  assumes "pkt_inv os U s" "heap_user os" "card U + 1024 \<le> PACKET_LIMIT" "k \<le> 2000"
  shows "\<exists>r' s'. fold_res (test_link_send os) (map of_nat [1..<Suc k]) (new_link, s) = Inr (r', s') \<and>
    sent os U (frees (STATS s)) k r' s'"
  using assms(4)
proof (induction k)
  case 0
  have "txdrop new_link = 0" by (simp add: new_link_def)
  then show ?case using assms(1) new_link_ok length_link_fifo [of new_link] by (simp add: sent_def del: length_link_fifo)
next
  case (Suc k)
  then obtain r t where "fold_res (test_link_send os) (map of_nat [1..<Suc k]) (new_link, s) = Inr (r, t)"
    and t: "sent os U (frees (STATS s)) k r t" by auto
  moreover obtain r' s' where "test_link_send os (of_nat (Suc k)) (r, t) = Inr (r', s')"
    and "sent os U (frees (STATS s)) (Suc k) r' s'"
    using test_link_send_ok [OF t assms(2,3)] Suc.prems by auto
  moreover have "[1..<Suc (Suc k)] = [1..<Suc k] @ [Suc k]" by simp
  ultimately show ?case by (simp only: map_append fold_res_append) simp
qed

lemma test_link_drain_ok:
  assumes "link_wf r" "length (link_fifo r) \<le> fuel" "distinct (link_fifo r)" "set (link_fifo r) \<inter> U = {}"
    "pkt_inv os (U \<union> set (link_fifo r)) s" "j + length (link_fifo r) \<le> PAYLOAD_SIZE"
    "\<forall>i < length (link_fifo r). plen (heap s (link_fifo r ! i)) = of_nat (j + Suc i) \<and>
       pdata (heap s (link_fifo r ! i)) ! (j + i) = 42"
  shows "\<exists>r' s'. test_link_drain fuel (of_nat j) (r, s) = Inr (of_nat (j + length (link_fifo r)), r', s') \<and>
    link_wf r' \<and> link_fifo r' = [] \<and> pkt_inv os U s' \<and> txdrop r' = txdrop r \<and>
    frees (STATS s') = frees (STATS s) + of_nat (length (link_fifo r))"
  using assms
proof (induction fuel arbitrary: j r s)
  case 0
  then show ?case by (auto simp: empty_iff simp del: length_link_fifo)
next
  case (Suc fuel)
  show ?case
  proof (cases "link_fifo r")
    case Nil
    then show ?thesis using Suc.prems by (auto simp: empty_iff simp del: length_link_fifo)
  next
    case (Cons p ps)
    have wf: "link_wf r" using Suc.prems by simp
    obtain r1 where r1: "receive r s = Inr (p, r1)" "link_wf r1" "link_fifo r1 = ps" "txdrop r1 = txdrop r"
      using receive_ok [OF wf Cons, of s] pop_front_ok [OF wf Cons] by auto
    have small: "j < 10240" using Suc.prems(6) Cons by (simp add: PAYLOAD_SIZE_def del: length_link_fifo)
    have idx: "unat (of_nat j + 1 - 1 :: usize) = j"
      using small by (simp add: unat_of_nat take_bit_nat_eq_self)
    have mark: "plen (heap s p) = of_nat (j + 1)" "pdata (heap s p) ! j = 42"
      using Suc.prems(7) Cons by (force simp del: length_link_fifo)+
    have "unat (of_nat j + 1 :: usize) = j + 1"
      using small by (simp add: unat_word_ariths unat_of_nat take_bit_nat_eq_self)
    moreover have "(ucast (of_nat j + 1 :: usize) :: u16) = of_nat (unat (of_nat j + 1 :: usize))"
      by (rule of_nat_unat [symmetric])
    ultimately have cast: "(ucast (of_nat j + 1 :: usize) :: u16) = of_nat (j + 1)" by (simp only:)
    obtain s1 where s1: "free p s = Inr s1" "pkt_inv os ((U \<union> set (link_fifo r)) - {p}) s1"
      "frees (STATS s1) = frees (STATS s) + 1" "\<forall>q. q \<noteq> p \<longrightarrow> heap s1 q = heap s q"
      using free_ok [OF Suc.prems(5), of p] Cons by (auto simp: counted_def)
    have "(U \<union> set (link_fifo r)) - {p} = U \<union> set ps" using Suc.prems(3,4) Cons by auto
    then have inv: "pkt_inv os (U \<union> set (link_fifo r1)) s1" using s1(2) r1(3) by simp
    have marks: "plen (heap s1 (ps ! i)) = of_nat (Suc j + Suc i) \<and> pdata (heap s1 (ps ! i)) ! (Suc j + i) = 42"
      if "i < length ps" for i
    proof -
      have "ps ! i \<noteq> p" using Suc.prems(3) Cons that by (auto simp: in_set_conv_nth)
      then show ?thesis using s1(4) Suc.prems(7) that Cons by (force simp del: length_link_fifo)
    qed
    obtain r' s' where IH: "test_link_drain fuel (of_nat (Suc j)) (r1, s1) = Inr (of_nat (Suc j + length ps), r', s')"
      "link_wf r'" "link_fifo r' = []" "pkt_inv os U s'" "txdrop r' = txdrop r1"
      "frees (STATS s') = frees (STATS s1) + of_nat (length ps)"
      using Suc.IH [of r1 s1 "Suc j"] r1 inv marks Suc.prems Cons by (auto simp del: length_link_fifo of_nat_Suc)
    have "test_link_drain (Suc fuel) (of_nat j) (r, s) = test_link_drain fuel (of_nat (Suc j)) (r1, s1)"
      using r1(1) s1(1) mark small idx cast heap_length [OF Suc.prems(5), of p] empty_iff [OF wf] Cons
      by (simp add: PAYLOAD_SIZE_def add.commute)
    then show ?thesis using IH r1(4) s1(3) Cons by (auto simp: algebra_simps simp del: length_link_fifo)
  qed
qed

text \<open>
  The test of links passes wherever packets can be allocated: of the 2000 packets transmitted the first
  1023 are received, in order and intact, the other 977 are dropped; in the end every packet is back on the
  freelist.
\<close>

theorem link_test_passes:
  assumes "pkt_inv os U s" and "heap_user os" and "card U + 1024 \<le> PACKET_LIMIT"
  shows "\<exists>r s'. test_link os s = Inr (1023, r, s') \<and> empty r \<and> txdrop r = 977 \<and> pkt_inv os U s' \<and>
    frees (STATS s') = frees (STATS s) + 2000"
proof -
  obtain r t where t: "fold_res (test_link_send os) (map of_nat [1..<Suc 2000]) (new_link, s) = Inr (r, t)"
    and sent: "sent os U (frees (STATS s)) 2000 r t"
    using test_link_sends [OF assms, of 2000] by auto
  have len: "length (link_fifo r) = 1023" and wf: "link_wf r" using sent by (simp_all add: sent_def)
  obtain r' s' where d: "test_link_drain LINK_RING_SIZE 0 (r, t) = Inr (1023, r', s')" "link_wf r'"
    "link_fifo r' = []" "pkt_inv os U s'" "txdrop r' = txdrop r" "frees (STATS s') = frees (STATS t) + 1023"
    using test_link_drain_ok [of r LINK_RING_SIZE U os t 0] sent len
    by (auto simp: sent_def LINK_RING_SIZE_def PAYLOAD_SIZE_def simp del: length_link_fifo)
  have e: "\<not> empty r" "full r" "empty r'" "\<not> full new_link"
    using empty_iff [OF wf] full_iff [OF wf] len empty_iff [OF d(2)] d(3) full_iff [OF new_link_ok(1)]
      length_link_fifo [of new_link] new_link_ok(2)
    by (auto simp: PULL_NPACKETS_eq simp del: length_link_fifo) (simp add: len [symmetric])
  have "drop_link r' s' = Inr (r', s')" using e(3) by (simp add: drop_link_def LINK_RING_SIZE_def eval_nat_numeral)
  then show ?thesis
    using t d e sent by (simp add: test_link_def sent_def Let_def del: upt_Suc)
qed

end
