(* ===== verification/Rush_Pci.thy ===== *)
theory Rush_Pci
  imports Rush_Header Rush_Memory
begin

text \<open>
  \<open>src/ixy82599/pci.rs\<close>: access to a PCI device through the files of sysfs. What opening,
  measuring and mapping a file gives is the environment's; the contents of the files are state. The
  files have a fixed size, so an access past the end fails.

  An \<open>Ok\<close> or \<open>Err\<close> of the sources is a value of \<open>result\<close>; it is not a panic.
\<close>

section \<open>Results\<close>

datatype 'a result = Ok 'a | Err string

text \<open>The \<open>?\<close> operator.\<close>

definition try_ok :: "'a result \<Rightarrow> ('a \<Rightarrow> 'b result) \<Rightarrow> 'b result" where
  "try_ok m f = (case m of Ok x \<Rightarrow> f x | Err e \<Rightarrow> Err e)"

lemma try_ok_simps [simp]:
  "try_ok (Ok x) f = f x"
  "try_ok (Err e) f = Err e"
  by (simp_all add: try_ok_def)

lemma try_ok_eq_Ok: "try_ok m f = Ok y \<longleftrightarrow> (\<exists>x. m = Ok x \<and> f x = Ok y)"
  by (cases m) auto

section \<open>The environment\<close>

datatype opened = Opened | NotFound | OpenFailed string

record sysfs =
  fs_open :: "string \<Rightarrow> opened"
  fs_unbind :: "string \<Rightarrow> string \<Rightarrow> unit result"
  fs_len :: "string \<Rightarrow> usize result"
  fs_mmap :: "string \<Rightarrow> usize \<Rightarrow> ptr"
  fs_endian :: target_endian

type_synonym files = "string \<Rightarrow> u8 list"

definition pci_path :: "string \<Rightarrow> string \<Rightarrow> string" where
  "pci_path pci_addr resource = ''/sys/bus/pci/devices/'' @ pci_addr @ ''/'' @ resource"

definition open_rw :: "sysfs \<Rightarrow> string \<Rightarrow> string result" where
  "open_rw F path =
     (case fs_open F path of
        Opened \<Rightarrow> Ok path
      | NotFound \<Rightarrow> Err ''No such file or directory''
      | OpenFailed e \<Rightarrow> Err e)"

section \<open>Reading and writing numbers\<close>

fun u32_bytes :: "target_endian \<Rightarrow> u32 \<Rightarrow> u8 list" where
  "u32_bytes LittleEndian w =
     [ucast w, ucast (drop_bit 8 w), ucast (drop_bit 16 w), ucast (drop_bit 24 w)]"
| "u32_bytes BigEndian w =
     [ucast (drop_bit 24 w), ucast (drop_bit 16 w), ucast (drop_bit 8 w), ucast w]"

fun bytes_u32 :: "target_endian \<Rightarrow> u8 list \<Rightarrow> u32" where
  "bytes_u32 LittleEndian (a # b # c # d # bs) =
     ucast a OR push_bit 8 (ucast b) OR push_bit 16 (ucast c) OR push_bit 24 (ucast d)"
| "bytes_u32 BigEndian (a # b # c # d # bs) =
     push_bit 24 (ucast a) OR push_bit 16 (ucast b) OR push_bit 8 (ucast c) OR ucast d"
| "bytes_u32 e bs = 0"

text \<open>\<open>seek\<close> and \<open>read_exact\<close>, \<open>seek\<close> and \<open>write_all\<close>.\<close>

definition read_at :: "files \<Rightarrow> string \<Rightarrow> u64 \<Rightarrow> nat \<Rightarrow> u8 list result" where
  "read_at fs file offset n =
     (if unat offset + n \<le> length (fs file) then Ok (take n (drop (unat offset) (fs file)))
      else Err ''failed to fill whole buffer'')"

definition write_at :: "files \<Rightarrow> string \<Rightarrow> u64 \<Rightarrow> u8 list \<Rightarrow> files result" where
  "write_at fs file offset bs =
     (if unat offset + length bs \<le> length (fs file) then
        Ok (fs(file := take (unat offset) (fs file) @ bs @ drop (unat offset + length bs) (fs file)))
      else Err ''failed to write whole buffer'')"

definition read_io8 :: "files \<Rightarrow> string \<Rightarrow> u64 \<Rightarrow> u8 result" where
  "read_io8 fs file offset = try_ok (read_at fs file offset 1) (\<lambda>bs. Ok (bs ! 0))"

definition read_io16 :: "sysfs \<Rightarrow> files \<Rightarrow> string \<Rightarrow> u64 \<Rightarrow> u16 result" where
  "read_io16 F fs file offset =
     try_ok (read_at fs file offset 2) (\<lambda>bs. Ok (bytes_u16 (fs_endian F) bs))"

definition read_io32 :: "sysfs \<Rightarrow> files \<Rightarrow> string \<Rightarrow> u64 \<Rightarrow> u32 result" where
  "read_io32 F fs file offset =
     try_ok (read_at fs file offset 4) (\<lambda>bs. Ok (bytes_u32 (fs_endian F) bs))"

definition write_io8 :: "files \<Rightarrow> string \<Rightarrow> u8 \<Rightarrow> u64 \<Rightarrow> files result" where
  "write_io8 fs file val offset = write_at fs file offset [val]"

definition write_io16 :: "sysfs \<Rightarrow> files \<Rightarrow> string \<Rightarrow> u16 \<Rightarrow> u64 \<Rightarrow> files result" where
  "write_io16 F fs file val offset = write_at fs file offset (u16_bytes (fs_endian F) val)"

definition write_io32 :: "sysfs \<Rightarrow> files \<Rightarrow> string \<Rightarrow> u32 \<Rightarrow> u64 \<Rightarrow> files result" where
  "write_io32 F fs file val offset = write_at fs file offset (u32_bytes (fs_endian F) val)"

section \<open>Operations\<close>

definition COMMAND_REGISTER_OFFSET :: u64 where
  "COMMAND_REGISTER_OFFSET = 4"

definition BUS_MASTER_ENABLE_BIT :: u64 where
  "BUS_MASTER_ENABLE_BIT = 2"

definition unbind_driver :: "sysfs \<Rightarrow> string \<Rightarrow> unit result" where
  "unbind_driver F pci_addr =
     (let path = pci_path pci_addr ''driver/unbind'' in
      case fs_open F path of
        Opened \<Rightarrow> fs_unbind F path pci_addr
      | NotFound \<Rightarrow> Ok ()
      | OpenFailed e \<Rightarrow> Err e)"

definition enable_dma :: "sysfs \<Rightarrow> string \<Rightarrow> files \<Rightarrow> files result" where
  "enable_dma F pci_addr fs =
     try_ok (open_rw F (pci_path pci_addr ''config'')) (\<lambda>file.
     try_ok (read_io16 F fs file COMMAND_REGISTER_OFFSET) (\<lambda>dma.
     let dma = dma OR push_bit (unat BUS_MASTER_ENABLE_BIT) 1 in
     write_io16 F fs file dma COMMAND_REGISTER_OFFSET))"

definition pci_map_resource :: "sysfs \<Rightarrow> string \<Rightarrow> files \<Rightarrow> (ptr \<times> usize \<times> files) result" where
  "pci_map_resource F pci_addr fs =
     (let path = pci_path pci_addr ''resource0'' in
      try_ok (unbind_driver F pci_addr) (\<lambda>_.
      try_ok (enable_dma F pci_addr fs) (\<lambda>fs.
      try_ok (open_rw F path) (\<lambda>file.
      try_ok (fs_len F path) (\<lambda>len.
      let p = fs_mmap F path len in
      if p = null_ptr \<or> len = 0 then Err ''pci mapping failed'' else Ok (p, len, fs))))))"

definition pci_open_resource :: "sysfs \<Rightarrow> string \<Rightarrow> string \<Rightarrow> string result" where
  "pci_open_resource F pci_addr resource = open_rw F (pci_path pci_addr resource)"

end
