(* ===== verification/Rush_Pci_Correct.thy ===== *)
theory Rush_Pci_Correct
  imports Rush_Pci Rush_Header_Correct
begin

text \<open>
  What the functions on the configuration space do: a number that is written is read back, and
  enabling DMA changes one bit of the command register.
\<close>

lemma read_write_at:
  assumes "write_at fs file offset bs = Ok fs'"
  shows "read_at fs' file offset (length bs) = Ok bs"
  using assms by (auto simp: write_at_def read_at_def split: if_splits)

lemma length_u32_bytes [simp]: "length (u32_bytes e x) = 4"
  by (cases e) simp_all

lemma bytes_u32_bytes [simp]: "bytes_u32 e (u32_bytes e w) = w"
proof -
  let ?w = "(ucast (ucast w :: u8) OR push_bit 8 (ucast (ucast (drop_bit 8 w) :: u8)) OR
      push_bit 16 (ucast (ucast (drop_bit 16 w) :: u8)) OR push_bit 24 (ucast (ucast (drop_bit 24 w) :: u8))) :: u32"
  have "?w = w"
  proof (rule bit_word_eqI)
    fix n :: nat
    assume "n < LENGTH(32)"
    then consider "n < 8" | "8 \<le> n" "n < 16" | "16 \<le> n" "n < 24" | "24 \<le> n" "n < 32" by fastforce
    then show "bit ?w n = bit w n" by cases (auto simp: bit_simps)
  qed
  then show ?thesis by (cases e) (simp_all add: or.commute or.left_commute)
qed

text \<open>
  What is written to a file is what is read back, for numbers of each width and machines of either
  byte order.
\<close>

theorem read_io_write_io:
  "(write_io8 fs f a off = Ok fs1 \<longrightarrow> read_io8 fs1 f off = Ok a) \<and>
   (write_io16 F fs f b off = Ok fs2 \<longrightarrow> read_io16 F fs2 f off = Ok b) \<and>
   (write_io32 F fs f c off = Ok fs3 \<longrightarrow> read_io32 F fs3 f off = Ok c)"
  using read_write_at [of fs f off "[a]" fs1] read_write_at [of fs f off "u16_bytes (fs_endian F) b" fs2]
    read_write_at [of fs f off "u32_bytes (fs_endian F) c" fs3]
  by (auto simp: write_io8_def read_io8_def write_io16_def read_io16_def write_io32_def read_io32_def)

definition sample_sysfs :: sysfs where
  "sample_sysfs =
     \<lparr>fs_open = (\<lambda>_. Opened), fs_unbind = (\<lambda>_ _. Ok ()), fs_len = (\<lambda>_. Ok 0x20000),
      fs_mmap = (\<lambda>_ _. 0x7f0000000000), fs_endian = LittleEndian\<rparr>"

definition sample_files :: files where
  "sample_files path =
     [0x86, 0x80, 0xfb, 0x10, 3, 0, 0x10, 0, 1, 0, 0, 2, 0, 0, 0, 0]"

text \<open>
  Enabling DMA sets the bus master bit of the command register and changes nothing else: no other
  bit of the register, no other byte of the configuration space and no other file.
\<close>

theorem enable_dma_sets_bus_master:
  assumes "enable_dma F pci_addr fs = Ok fs'"
  shows "\<exists>cmd. read_io16 F fs (pci_path pci_addr ''config'') 4 = Ok cmd \<and>
    read_io16 F fs' (pci_path pci_addr ''config'') 4 = Ok (cmd OR 4) \<and>
    (\<forall>f i. (f, i) \<notin> {pci_path pci_addr ''config''} \<times> {4, 5} \<longrightarrow> fs' f ! i = fs f ! i) \<and>
    (\<forall>f. length (fs' f) = length (fs f))"
proof -
  let ?f = "pci_path pci_addr ''config''"
  obtain cmd where cmd: "read_io16 F fs ?f 4 = Ok cmd" and w: "write_io16 F fs ?f (cmd OR 4) 4 = Ok fs'"
    using assms
    by (auto simp: enable_dma_def try_ok_eq_Ok open_rw_def COMMAND_REGISTER_OFFSET_def BUS_MASTER_ENABLE_BIT_def
        split: opened.splits)
  have "read_io16 F fs' ?f 4 = Ok (cmd OR 4)"
    using read_write_at [of fs ?f 4 "u16_bytes (fs_endian F) (cmd OR 4)" fs'] w
    by (simp add: write_io16_def read_io16_def)
  moreover have "fs' = fs(?f := take 4 (fs ?f) @ u16_bytes (fs_endian F) (cmd OR 4) @ drop 6 (fs ?f))"
    and "6 \<le> length (fs ?f)"
    using w by (auto simp: write_io16_def write_at_def split: if_splits)
  then have "(\<forall>f i. (f, i) \<notin> {?f} \<times> {4, 5} \<longrightarrow> fs' f ! i = fs f ! i) \<and> (\<forall>f. length (fs' f) = length (fs f))"
    by (auto simp: nth_append)
  ultimately show ?thesis using cmd by blast
qed



end
