(* ===== verification/Rush_Layout.thy ===== *)
theory Rush_Layout
  imports Rush_Prelude
begin

text \<open>
  \<open>src/ixy82599/constants.rs\<close>: the data types the driver shares with the device. A structure or
  union declared \<open>repr(C)\<close> is a value of \<open>ctype\<close>; its size, its alignment and the places of its
  members follow the language's rules for \<open>repr(C)\<close> and \<open>repr(C, packed)\<close>. Enumerations are
  datatypes with the number of each constructor. How many bytes the compiler takes for an enumeration
  without a \<open>repr\<close> is left to it: a structure that holds one is a function of that choice.
\<close>

section \<open>Types and their layout\<close>

datatype ctype =
    Prim nat
  | Array ctype nat
  | Struct bool "(string \<times> ctype) list"
  | Union "(string \<times> ctype) list"

abbreviation U8 :: ctype where "U8 \<equiv> Prim 1"
abbreviation U16 :: ctype where "U16 \<equiv> Prim 2"
abbreviation U32 :: ctype where "U32 \<equiv> Prim 4"
abbreviation U64 :: ctype where "U64 \<equiv> Prim 8"
abbreviation Bool :: ctype where "Bool \<equiv> Prim 1"

text \<open>Rust's \<open>char\<close> is a Unicode scalar value of four bytes.\<close>

abbreviation RChar :: ctype where "RChar \<equiv> Prim 4"

definition pad_to :: "nat \<Rightarrow> nat \<Rightarrow> nat" where
  "pad_to a n = (n + a - 1) div a * a"

function align_of :: "ctype \<Rightarrow> nat" and aligns :: "(string \<times> ctype) list \<Rightarrow> nat" where
  "align_of (Prim n) = n"
| "align_of (Array t n) = align_of t"
| "align_of (Struct packed fs) = (if packed then 1 else aligns fs)"
| "align_of (Union fs) = aligns fs"
| "aligns [] = 1"
| "aligns ((x, t) # fs) = max (align_of t) (aligns fs)"
  by pat_completeness auto
termination
  by (relation "measure (case_sum size (size_list (size_prod (\<lambda>_. 0) size)))") auto

text \<open>The end of the last member of a structure, and the longest member of a union.\<close>

function size_of :: "ctype \<Rightarrow> nat"
  and struct_end :: "bool \<Rightarrow> nat \<Rightarrow> (string \<times> ctype) list \<Rightarrow> nat"
  and longest :: "(string \<times> ctype) list \<Rightarrow> nat" where
  "size_of (Prim n) = n"
| "size_of (Array t n) = n * size_of t"
| "size_of (Struct packed fs) = pad_to (align_of (Struct packed fs)) (struct_end packed 0 fs)"
| "size_of (Union fs) = pad_to (align_of (Union fs)) (longest fs)"
| "struct_end packed off [] = off"
| "struct_end packed off ((x, t) # fs) =
     struct_end packed (pad_to (if packed then 1 else align_of t) off + size_of t) fs"
| "longest [] = 0"
| "longest ((x, t) # fs) = max (size_of t) (longest fs)"
  by pat_completeness auto
termination
  by (relation "measure (case_sum size (case_sum (\<lambda>(_, _, fs). size_list (size_prod (\<lambda>_. 0) size) fs)
                           (size_list (size_prod (\<lambda>_. 0) size))))") auto

text \<open>The members of a type with their offsets.\<close>

fun placed :: "bool \<Rightarrow> nat \<Rightarrow> (string \<times> ctype) list \<Rightarrow> (string \<times> nat \<times> ctype) list" where
  "placed packed off [] = []"
| "placed packed off ((x, t) # fs) =
     (let o' = pad_to (if packed then 1 else align_of t) off in (x, o', t) # placed packed (o' + size_of t) fs)"

fun members :: "ctype \<Rightarrow> (string \<times> nat \<times> ctype) list" where
  "members (Struct packed fs) = placed packed 0 fs"
| "members (Union fs) = map (\<lambda>(x, t). (x, 0, t)) fs"
| "members t = []"

text \<open>Where \<open>x.y.z\<close> is found, and its type.\<close>

fun locate :: "string list \<Rightarrow> ctype \<Rightarrow> (nat \<times> ctype) option" where
  "locate [] t = Some (0, t)"
| "locate (x # xs) t =
     (case map_of (members t) x of
        None \<Rightarrow> None
      | Some (off, u) \<Rightarrow>
          (case locate xs u of None \<Rightarrow> None | Some (off', v) \<Rightarrow> Some (off + off', v)))"

definition offset_of :: "ctype \<Rightarrow> string list \<Rightarrow> nat option" where
  "offset_of t path = map_option fst (locate path t)"

section \<open>Enumerations\<close>

datatype ixgbe_fdir_pballoc_type =
    IXGBE_FDIR_PBALLOC_NONE
  | IXGBE_FDIR_PBALLOC_64K
  | IXGBE_FDIR_PBALLOC_128K
  | IXGBE_FDIR_PBALLOC_256K

primrec num_fdir_pballoc_type :: "ixgbe_fdir_pballoc_type \<Rightarrow> u32" where
  "num_fdir_pballoc_type IXGBE_FDIR_PBALLOC_NONE = 0"
| "num_fdir_pballoc_type IXGBE_FDIR_PBALLOC_64K = 1"
| "num_fdir_pballoc_type IXGBE_FDIR_PBALLOC_128K = 2"
| "num_fdir_pballoc_type IXGBE_FDIR_PBALLOC_256K = 3"

datatype ixgbe_atr_flow_type =
    IXGBE_ATR_FLOW_TYPE_IPV4
  | IXGBE_ATR_FLOW_TYPE_UDPV4
  | IXGBE_ATR_FLOW_TYPE_TCPV4
  | IXGBE_ATR_FLOW_TYPE_SCTPV4
  | IXGBE_ATR_FLOW_TYPE_IPV6
  | IXGBE_ATR_FLOW_TYPE_UDPV6
  | IXGBE_ATR_FLOW_TYPE_TCPV6
  | IXGBE_ATR_FLOW_TYPE_SCTPV6
  | IXGBE_ATR_FLOW_TYPE_TUNNELED_IPV4
  | IXGBE_ATR_FLOW_TYPE_TUNNELED_UDPV4
  | IXGBE_ATR_FLOW_TYPE_TUNNELED_TCPV4
  | IXGBE_ATR_FLOW_TYPE_TUNNELED_SCTPV4
  | IXGBE_ATR_FLOW_TYPE_TUNNELED_IPV6
  | IXGBE_ATR_FLOW_TYPE_TUNNELED_UDPV6
  | IXGBE_ATR_FLOW_TYPE_TUNNELED_TCPV6
  | IXGBE_ATR_FLOW_TYPE_TUNNELED_SCTPV6

primrec num_atr_flow_type :: "ixgbe_atr_flow_type \<Rightarrow> u32" where
  "num_atr_flow_type IXGBE_ATR_FLOW_TYPE_IPV4 = 0x0"
| "num_atr_flow_type IXGBE_ATR_FLOW_TYPE_UDPV4 = 0x1"
| "num_atr_flow_type IXGBE_ATR_FLOW_TYPE_TCPV4 = 0x2"
| "num_atr_flow_type IXGBE_ATR_FLOW_TYPE_SCTPV4 = 0x3"
| "num_atr_flow_type IXGBE_ATR_FLOW_TYPE_IPV6 = 0x4"
| "num_atr_flow_type IXGBE_ATR_FLOW_TYPE_UDPV6 = 0x5"
| "num_atr_flow_type IXGBE_ATR_FLOW_TYPE_TCPV6 = 0x6"
| "num_atr_flow_type IXGBE_ATR_FLOW_TYPE_SCTPV6 = 0x7"
| "num_atr_flow_type IXGBE_ATR_FLOW_TYPE_TUNNELED_IPV4 = 0x10"
| "num_atr_flow_type IXGBE_ATR_FLOW_TYPE_TUNNELED_UDPV4 = 0x11"
| "num_atr_flow_type IXGBE_ATR_FLOW_TYPE_TUNNELED_TCPV4 = 0x12"
| "num_atr_flow_type IXGBE_ATR_FLOW_TYPE_TUNNELED_SCTPV4 = 0x13"
| "num_atr_flow_type IXGBE_ATR_FLOW_TYPE_TUNNELED_IPV6 = 0x14"
| "num_atr_flow_type IXGBE_ATR_FLOW_TYPE_TUNNELED_UDPV6 = 0x15"
| "num_atr_flow_type IXGBE_ATR_FLOW_TYPE_TUNNELED_TCPV6 = 0x16"
| "num_atr_flow_type IXGBE_ATR_FLOW_TYPE_TUNNELED_SCTPV6 = 0x17"

datatype ixgbe_fcoe_boot_status =
    IXGbe_fcoe_bootstatus_disabled
  | IXGbe_fcoe_bootstatus_enabled
  | IXGbe_fcoe_bootstatus_unavailable

primrec num_fcoe_boot_status :: "ixgbe_fcoe_boot_status \<Rightarrow> u32" where
  "num_fcoe_boot_status IXGbe_fcoe_bootstatus_disabled = 0"
| "num_fcoe_boot_status IXGbe_fcoe_bootstatus_enabled = 1"
| "num_fcoe_boot_status IXGbe_fcoe_bootstatus_unavailable = 0xFFFF"

datatype ixgbe_eeprom_type =
    IXGbe_eeprom_uninitialized
  | IXGbe_eeprom_spi
  | IXGbe_flash
  | IXGbe_eeprom_none

primrec num_eeprom_type :: "ixgbe_eeprom_type \<Rightarrow> u32" where
  "num_eeprom_type IXGbe_eeprom_uninitialized = 0"
| "num_eeprom_type IXGbe_eeprom_spi = 1"
| "num_eeprom_type IXGbe_flash = 2"
| "num_eeprom_type IXGbe_eeprom_none = 3"

datatype ixgbe_mac_type =
    IXGbe_mac_unknown
  | IXGbe_mac_82598EB
  | IXGbe_mac_82599EB
  | IXGbe_mac_82599_vf
  | IXGbe_mac_X540
  | IXGbe_mac_X540_vf
  | IXGbe_mac_X550
  | IXGbe_mac_X550EM_x
  | IXGbe_mac_X550EM_a
  | IXGbe_mac_X550_vf
  | IXGbe_mac_X550EM_x_vf
  | IXGbe_mac_X550EM_a_vf
  | IXGbe_num_macs

primrec num_mac_type :: "ixgbe_mac_type \<Rightarrow> u32" where
  "num_mac_type IXGbe_mac_unknown = 0"
| "num_mac_type IXGbe_mac_82598EB = 1"
| "num_mac_type IXGbe_mac_82599EB = 2"
| "num_mac_type IXGbe_mac_82599_vf = 3"
| "num_mac_type IXGbe_mac_X540 = 4"
| "num_mac_type IXGbe_mac_X540_vf = 5"
| "num_mac_type IXGbe_mac_X550 = 6"
| "num_mac_type IXGbe_mac_X550EM_x = 7"
| "num_mac_type IXGbe_mac_X550EM_a = 8"
| "num_mac_type IXGbe_mac_X550_vf = 9"
| "num_mac_type IXGbe_mac_X550EM_x_vf = 10"
| "num_mac_type IXGbe_mac_X550EM_a_vf = 11"
| "num_mac_type IXGbe_num_macs = 12"

datatype ixgbe_phy_type =
    IXGbe_phy_unknown
  | IXGbe_phy_none
  | IXGbe_phy_tn
  | IXGbe_phy_aq
  | IXGbe_phy_x550em_kr
  | IXGbe_phy_x550em_kx4
  | IXGbe_phy_x550em_xfi
  | IXGbe_phy_x550em_ext_t
  | IXGbe_phy_ext_1g_t
  | IXGbe_phy_cu_unknown
  | IXGbe_phy_qt
  | IXGbe_phy_xaui
  | IXGbe_phy_nl
  | IXGbe_phy_sfp_passive_tyco
  | IXGbe_phy_sfp_passive_unknown
  | IXGbe_phy_sfp_active_unknown
  | IXGbe_phy_sfp_avago
  | IXGbe_phy_sfp_ftl
  | IXGbe_phy_sfp_ftl_active
  | IXGbe_phy_sfp_unknown
  | IXGbe_phy_sfp_intel
  | IXGbe_phy_qsfp_passive_unknown
  | IXGbe_phy_qsfp_active_unknown
  | IXGbe_phy_qsfp_intel
  | IXGbe_phy_qsfp_unknown
  | IXGbe_phy_sfp_unsupported
  | IXGbe_phy_sgmii
  | IXGbe_phy_fw
  | IXGbe_phy_generic

primrec num_phy_type :: "ixgbe_phy_type \<Rightarrow> u32" where
  "num_phy_type IXGbe_phy_unknown = 0"
| "num_phy_type IXGbe_phy_none = 1"
| "num_phy_type IXGbe_phy_tn = 2"
| "num_phy_type IXGbe_phy_aq = 3"
| "num_phy_type IXGbe_phy_x550em_kr = 4"
| "num_phy_type IXGbe_phy_x550em_kx4 = 5"
| "num_phy_type IXGbe_phy_x550em_xfi = 6"
| "num_phy_type IXGbe_phy_x550em_ext_t = 7"
| "num_phy_type IXGbe_phy_ext_1g_t = 8"
| "num_phy_type IXGbe_phy_cu_unknown = 9"
| "num_phy_type IXGbe_phy_qt = 10"
| "num_phy_type IXGbe_phy_xaui = 11"
| "num_phy_type IXGbe_phy_nl = 12"
| "num_phy_type IXGbe_phy_sfp_passive_tyco = 13"
| "num_phy_type IXGbe_phy_sfp_passive_unknown = 14"
| "num_phy_type IXGbe_phy_sfp_active_unknown = 15"
| "num_phy_type IXGbe_phy_sfp_avago = 16"
| "num_phy_type IXGbe_phy_sfp_ftl = 17"
| "num_phy_type IXGbe_phy_sfp_ftl_active = 18"
| "num_phy_type IXGbe_phy_sfp_unknown = 19"
| "num_phy_type IXGbe_phy_sfp_intel = 20"
| "num_phy_type IXGbe_phy_qsfp_passive_unknown = 21"
| "num_phy_type IXGbe_phy_qsfp_active_unknown = 22"
| "num_phy_type IXGbe_phy_qsfp_intel = 23"
| "num_phy_type IXGbe_phy_qsfp_unknown = 24"
| "num_phy_type IXGbe_phy_sfp_unsupported = 25"
| "num_phy_type IXGbe_phy_sgmii = 26"
| "num_phy_type IXGbe_phy_fw = 27"
| "num_phy_type IXGbe_phy_generic = 28"

datatype ixgbe_sfp_type =
    IXGbe_sfp_type_da_cu
  | IXGbe_sfp_type_sr
  | IXGbe_sfp_type_lr
  | IXGbe_sfp_type_da_cu_core0
  | IXGbe_sfp_type_da_cu_core1
  | IXGbe_sfp_type_srlr_core0
  | IXGbe_sfp_type_srlr_core1
  | IXGbe_sfp_type_da_act_lmt_core0
  | IXGbe_sfp_type_da_act_lmt_core1
  | IXGbe_sfp_type_1g_cu_core0
  | IXGbe_sfp_type_1g_cu_core1
  | IXGbe_sfp_type_1g_sx_core0
  | IXGbe_sfp_type_1g_sx_core1
  | IXGbe_sfp_type_1g_lx_core0
  | IXGbe_sfp_type_1g_lx_core1
  | IXGbe_sfp_type_not_present
  | IXGbe_sfp_type_unknown

primrec num_sfp_type :: "ixgbe_sfp_type \<Rightarrow> u32" where
  "num_sfp_type IXGbe_sfp_type_da_cu = 0"
| "num_sfp_type IXGbe_sfp_type_sr = 1"
| "num_sfp_type IXGbe_sfp_type_lr = 2"
| "num_sfp_type IXGbe_sfp_type_da_cu_core0 = 3"
| "num_sfp_type IXGbe_sfp_type_da_cu_core1 = 4"
| "num_sfp_type IXGbe_sfp_type_srlr_core0 = 5"
| "num_sfp_type IXGbe_sfp_type_srlr_core1 = 6"
| "num_sfp_type IXGbe_sfp_type_da_act_lmt_core0 = 7"
| "num_sfp_type IXGbe_sfp_type_da_act_lmt_core1 = 8"
| "num_sfp_type IXGbe_sfp_type_1g_cu_core0 = 9"
| "num_sfp_type IXGbe_sfp_type_1g_cu_core1 = 10"
| "num_sfp_type IXGbe_sfp_type_1g_sx_core0 = 11"
| "num_sfp_type IXGbe_sfp_type_1g_sx_core1 = 12"
| "num_sfp_type IXGbe_sfp_type_1g_lx_core0 = 13"
| "num_sfp_type IXGbe_sfp_type_1g_lx_core1 = 14"
| "num_sfp_type IXGbe_sfp_type_not_present = 0xFFFE"
| "num_sfp_type IXGbe_sfp_type_unknown = 0xFFFF"

datatype ixgbe_media_type =
    IXGbe_media_type_unknown
  | IXGbe_media_type_fiber
  | IXGbe_media_type_fiber_qsfp
  | IXGbe_media_type_fiber_lco
  | IXGbe_media_type_copper
  | IXGbe_media_type_backplane
  | IXGbe_media_type_cx4
  | IXGbe_media_type_virtual

primrec num_media_type :: "ixgbe_media_type \<Rightarrow> u32" where
  "num_media_type IXGbe_media_type_unknown = 0"
| "num_media_type IXGbe_media_type_fiber = 1"
| "num_media_type IXGbe_media_type_fiber_qsfp = 2"
| "num_media_type IXGbe_media_type_fiber_lco = 3"
| "num_media_type IXGbe_media_type_copper = 4"
| "num_media_type IXGbe_media_type_backplane = 5"
| "num_media_type IXGbe_media_type_cx4 = 6"
| "num_media_type IXGbe_media_type_virtual = 7"

datatype ixgbe_fc_mode =
    IXGbe_fc_none
  | IXGbe_fc_rx_pause
  | IXGbe_fc_tx_pause
  | IXGbe_fc_full
  | IXGbe_fc_default

primrec num_fc_mode :: "ixgbe_fc_mode \<Rightarrow> u32" where
  "num_fc_mode IXGbe_fc_none = 0"
| "num_fc_mode IXGbe_fc_rx_pause = 1"
| "num_fc_mode IXGbe_fc_tx_pause = 2"
| "num_fc_mode IXGbe_fc_full = 3"
| "num_fc_mode IXGbe_fc_default = 4"

datatype ixgbe_smart_speed =
    IXGbe_smart_speed_auto
  | IXGbe_smart_speed_on
  | IXGbe_smart_speed_off

primrec num_smart_speed :: "ixgbe_smart_speed \<Rightarrow> u32" where
  "num_smart_speed IXGbe_smart_speed_auto = 0"
| "num_smart_speed IXGbe_smart_speed_on = 1"
| "num_smart_speed IXGbe_smart_speed_off = 2"

datatype ixgbe_bus_type =
    IXGbe_bus_type_unknown
  | IXGbe_bus_type_pci
  | IXGbe_bus_type_pcix
  | IXGbe_bus_type_pci_express
  | IXGbe_bus_type_internal
  | IXGbe_bus_type_reserved

primrec num_bus_type :: "ixgbe_bus_type \<Rightarrow> u32" where
  "num_bus_type IXGbe_bus_type_unknown = 0"
| "num_bus_type IXGbe_bus_type_pci = 1"
| "num_bus_type IXGbe_bus_type_pcix = 2"
| "num_bus_type IXGbe_bus_type_pci_express = 3"
| "num_bus_type IXGbe_bus_type_internal = 4"
| "num_bus_type IXGbe_bus_type_reserved = 5"

datatype ixgbe_bus_speed =
    IXGbe_bus_speed_unknown
  | IXGbe_bus_speed_33
  | IXGbe_bus_speed_66
  | IXGbe_bus_speed_100
  | IXGbe_bus_speed_120
  | IXGbe_bus_speed_133
  | IXGbe_bus_speed_2500
  | IXGbe_bus_speed_5000
  | IXGbe_bus_speed_8000
  | IXGbe_bus_speed_reserved

primrec num_bus_speed :: "ixgbe_bus_speed \<Rightarrow> u32" where
  "num_bus_speed IXGbe_bus_speed_unknown = 0"
| "num_bus_speed IXGbe_bus_speed_33 = 33"
| "num_bus_speed IXGbe_bus_speed_66 = 66"
| "num_bus_speed IXGbe_bus_speed_100 = 100"
| "num_bus_speed IXGbe_bus_speed_120 = 120"
| "num_bus_speed IXGbe_bus_speed_133 = 133"
| "num_bus_speed IXGbe_bus_speed_2500 = 2500"
| "num_bus_speed IXGbe_bus_speed_5000 = 5000"
| "num_bus_speed IXGbe_bus_speed_8000 = 8000"
| "num_bus_speed IXGbe_bus_speed_reserved = 8001"

datatype ixgbe_bus_width =
    IXGbe_bus_width_unknown
  | IXGbe_bus_width_pcie_x1
  | IXGbe_bus_width_pcie_x2
  | IXGbe_bus_width_pcie_x4
  | IXGbe_bus_width_pcie_x8
  | IXGbe_bus_width_32
  | IXGbe_bus_width_64
  | IXGbe_bus_width_reserved

primrec num_bus_width :: "ixgbe_bus_width \<Rightarrow> u32" where
  "num_bus_width IXGbe_bus_width_unknown = 0"
| "num_bus_width IXGbe_bus_width_pcie_x1 = 1"
| "num_bus_width IXGbe_bus_width_pcie_x2 = 2"
| "num_bus_width IXGbe_bus_width_pcie_x4 = 4"
| "num_bus_width IXGbe_bus_width_pcie_x8 = 8"
| "num_bus_width IXGbe_bus_width_32 = 32"
| "num_bus_width IXGbe_bus_width_64 = 64"
| "num_bus_width IXGbe_bus_width_reserved = 65"

section \<open>Lengths\<close>

text \<open>The lengths of commands to the firmware, without their header, and of their arrays.\<close>

definition FW_CEM_HDR_LEN :: u32 where
  "FW_CEM_HDR_LEN = 0x4"

definition FW_CEM_CMD_DRIVER_INFO_LEN :: u32 where
  "FW_CEM_CMD_DRIVER_INFO_LEN = 0x5"

definition FW_CEM_DRIVER_VERSION_SIZE :: u32 where
  "FW_CEM_DRIVER_VERSION_SIZE = 39"

definition FW_READ_SHADOW_RAM_LEN :: u32 where
  "FW_READ_SHADOW_RAM_LEN = 0x6"

definition FW_WRITE_SHADOW_RAM_LEN :: u32 where
  "FW_WRITE_SHADOW_RAM_LEN = 0xA"

definition FW_DISABLE_RXEN_LEN :: u32 where
  "FW_DISABLE_RXEN_LEN = 0x1"

definition FW_PHY_TOKEN_REQ_LEN :: u32 where
  "FW_PHY_TOKEN_REQ_LEN = 2"

definition FW_INT_PHY_REQ_LEN :: u32 where
  "FW_INT_PHY_REQ_LEN = 10"

definition FW_PHY_ACT_DATA_COUNT :: u32 where
  "FW_PHY_ACT_DATA_COUNT = 4"

definition FW_PHY_ACT_REQ_LEN :: u32 where
  "FW_PHY_ACT_REQ_LEN = 4 + 4 * FW_PHY_ACT_DATA_COUNT"

definition IXGBE_DCB_MAX_TRAFFIC_CLASS :: u32 where
  "IXGBE_DCB_MAX_TRAFFIC_CLASS = 8"

text \<open>The bits of a flow type, and the packet buffer allocation of the flow director.\<close>

definition IXGBE_ATR_L4TYPE_MASK :: u32 where
  "IXGBE_ATR_L4TYPE_MASK = 0x3"

definition IXGBE_ATR_L4TYPE_UDP :: u32 where
  "IXGBE_ATR_L4TYPE_UDP = 0x1"

definition IXGBE_ATR_L4TYPE_TCP :: u32 where
  "IXGBE_ATR_L4TYPE_TCP = 0x2"

definition IXGBE_ATR_L4TYPE_SCTP :: u32 where
  "IXGBE_ATR_L4TYPE_SCTP = 0x3"

definition IXGBE_ATR_L4TYPE_IPV6_MASK :: u32 where
  "IXGBE_ATR_L4TYPE_IPV6_MASK = 0x4"

definition IXGBE_ATR_L4TYPE_TUNNEL_MASK :: u32 where
  "IXGBE_ATR_L4TYPE_TUNNEL_MASK = 0x10"

definition IXGBE_FDIRCTRL_PBALLOC_64K :: u32 where
  "IXGBE_FDIRCTRL_PBALLOC_64K = 0x00000001"

definition IXGBE_FDIRCTRL_PBALLOC_128K :: u32 where
  "IXGBE_FDIRCTRL_PBALLOC_128K = 0x00000002"

definition IXGBE_FDIRCTRL_PBALLOC_256K :: u32 where
  "IXGBE_FDIRCTRL_PBALLOC_256K = 0x00000003"

section \<open>DMA coalescing\<close>

definition ixgbe_dmac_config :: ctype where
  "ixgbe_dmac_config =
     Struct False [
       (''watchdog_timer'', U16), (''fcoe_en'', Bool), (''link_speed'', U32), (''fcoe_tc'', U8),
       (''num_tcs'', U8)]"

section \<open>Commands to the firmware\<close>

definition ixgbe_hic_hdr_cmd_or_resp :: ctype where
  "ixgbe_hic_hdr_cmd_or_resp =
     Union [
       (''cmd_resv'', U8), (''ret_status'', U8), (''_union_align'', U8)]"

definition ixgbe_hic_hdr :: ctype where
  "ixgbe_hic_hdr =
     Struct False [
       (''cmd'', U8), (''buf_len'', U8), (''cmd_or_resp'', ixgbe_hic_hdr_cmd_or_resp), (''checksum'', U8)]"

definition ixgbe_hic_hdr2_req :: ctype where
  "ixgbe_hic_hdr2_req =
     Struct False [
       (''cmd'', U8), (''buf_lenh'', U8), (''buf_lenl'', U8), (''checksum'', U8)]"

definition ixgbe_hic_hdr2_rsp :: ctype where
  "ixgbe_hic_hdr2_rsp =
     Struct False [
       (''cmd'', U8), (''buf_lenl'', U8), (''buf_lenh_status'', U8), (''checksum'', U8)]"

definition ixgbe_hic_hdr2 :: ctype where
  "ixgbe_hic_hdr2 =
     Union [
       (''req'', ixgbe_hic_hdr2_req), (''rsp'', ixgbe_hic_hdr2_rsp)]"

definition ixgbe_hic_drv_info :: ctype where
  "ixgbe_hic_drv_info =
     Struct True [
       (''hdr'', ixgbe_hic_hdr), (''port_num'', U8), (''ver_sub'', U8), (''ver_build'', U8),
       (''ver_min'', U8), (''ver_maj'', U8), (''pad'', U8), (''pad2'', U16)]"

definition ixgbe_hic_drv_info2 :: ctype where
  "ixgbe_hic_drv_info2 =
     Struct False [
       (''hdr'', ixgbe_hic_hdr), (''port_num'', U8), (''ver_sub'', U8), (''ver_build'', U8),
       (''ver_min'', U8), (''ver_maj'', U8),
       (''driver_string'', Array RChar (unat FW_CEM_DRIVER_VERSION_SIZE))]"

definition ixgbe_hic_read_shadow_ram :: ctype where
  "ixgbe_hic_read_shadow_ram =
     Struct True [
       (''hdr'', ixgbe_hic_hdr2), (''address'', U32), (''length'', U16), (''pad2'', U16), (''data'', U16),
       (''pad3'', U16)]"

definition ixgbe_hic_write_shadow_ram :: ctype where
  "ixgbe_hic_write_shadow_ram =
     Struct True [
       (''hdr'', ixgbe_hic_hdr2), (''address'', U32), (''length'', U16), (''pad2'', U16), (''data'', U16),
       (''pad3'', U16)]"

definition ixgbe_hic_disable_rxen :: ctype where
  "ixgbe_hic_disable_rxen =
     Struct True [
       (''hdr'', ixgbe_hic_hdr), (''port_number'', U8), (''pad2'', U8), (''pad3'', U16)]"

definition ixgbe_hic_phy_token_req :: ctype where
  "ixgbe_hic_phy_token_req =
     Struct True [
       (''hdr'', ixgbe_hic_hdr), (''port_number'', U8), (''command_type'', U8), (''pad'', U16)]"

definition ixgbe_hic_internal_phy_req :: ctype where
  "ixgbe_hic_internal_phy_req =
     Struct True [
       (''hdr'', ixgbe_hic_hdr), (''port_number'', U8), (''command_type'', U8), (''address'', U16),
       (''rsv1'', U16), (''write_data'', U32), (''pad'', U16)]"

definition ixgbe_hic_internal_phy_resp :: ctype where
  "ixgbe_hic_internal_phy_resp =
     Struct True [
       (''hdr'', ixgbe_hic_hdr), (''read_data'', U32)]"

definition ixgbe_hic_phy_activity_req :: ctype where
  "ixgbe_hic_phy_activity_req =
     Struct True [
       (''hdr'', ixgbe_hic_hdr), (''port_number'', U8), (''pad'', U8), (''activity_id'', U16),
       (''data'', Array U32 (unat FW_PHY_ACT_DATA_COUNT))]"

definition ixgbe_hic_phy_activity_resp :: ctype where
  "ixgbe_hic_phy_activity_resp =
     Struct True [
       (''hdr'', ixgbe_hic_hdr), (''data'', Array U32 (unat FW_PHY_ACT_DATA_COUNT))]"

section \<open>Descriptors\<close>

definition ixgbe_legacy_tx_desc_lower_flags :: ctype where
  "ixgbe_legacy_tx_desc_lower_flags =
     Struct False [
       (''length'', U16), (''cso'', U8), (''cmd'', U8)]"

definition ixgbe_legacy_tx_desc_lower :: ctype where
  "ixgbe_legacy_tx_desc_lower =
     Union [
       (''data'', U32), (''flags'', ixgbe_legacy_tx_desc_lower_flags), (''_union_align'', U32)]"

definition ixgbe_legacy_tx_desc_upper_fields :: ctype where
  "ixgbe_legacy_tx_desc_upper_fields =
     Struct False [
       (''status'', U8), (''css'', U8), (''vlan'', U16)]"

definition ixgbe_legacy_tx_desc_upper :: ctype where
  "ixgbe_legacy_tx_desc_upper =
     Union [
       (''data'', U32), (''fields'', ixgbe_legacy_tx_desc_upper_fields), (''_union_align'', U32)]"

definition ixgbe_legacy_tx_desc :: ctype where
  "ixgbe_legacy_tx_desc =
     Struct False [
       (''buffer_addr'', U64), (''lower'', ixgbe_legacy_tx_desc_lower),
       (''upper'', ixgbe_legacy_tx_desc_upper)]"

definition ixgbe_adv_tx_desc_read :: ctype where
  "ixgbe_adv_tx_desc_read =
     Struct False [
       (''buffer_addr'', U64), (''cmd_type_len'', U32), (''olinfo_status'', U32)]"

definition ixgbe_adv_tx_desc_wb :: ctype where
  "ixgbe_adv_tx_desc_wb =
     Struct False [
       (''rsvd'', U64), (''nxtseq_seed'', U32), (''status'', U32)]"

definition ixgbe_adv_tx_desc :: ctype where
  "ixgbe_adv_tx_desc =
     Union [
       (''read'', ixgbe_adv_tx_desc_read), (''wb'', ixgbe_adv_tx_desc_wb), (''_union_align'', Array U64 2)]"

definition ixgbe_legacy_rx_desc :: ctype where
  "ixgbe_legacy_rx_desc =
     Struct False [
       (''buffer_addr'', U64), (''length'', U16), (''csum'', U16), (''status'', U8), (''errors'', U8),
       (''vlan'', U16)]"

definition ixgbe_adv_rx_desc_read :: ctype where
  "ixgbe_adv_rx_desc_read =
     Struct False [
       (''pkt_addr'', U64), (''hdr_addr'', U64)]"

definition ixgbe_adv_rx_desc_wb_lower_lo_dword_hs_rss :: ctype where
  "ixgbe_adv_rx_desc_wb_lower_lo_dword_hs_rss =
     Struct False [
       (''pkt_info'', U16), (''hdr_info'', U16)]"

definition ixgbe_adv_rx_desc_wb_lower_lo_dword :: ctype where
  "ixgbe_adv_rx_desc_wb_lower_lo_dword =
     Union [
       (''data'', U32), (''hs_rss'', ixgbe_adv_rx_desc_wb_lower_lo_dword_hs_rss)]"

definition ixgbe_adv_rx_desc_wb_lower_hi_dword_csum_ip :: ctype where
  "ixgbe_adv_rx_desc_wb_lower_hi_dword_csum_ip =
     Struct False [
       (''ip_id'', U16), (''csum'', U16)]"

definition ixgbe_adv_rx_desc_wb_lower_hi_dword :: ctype where
  "ixgbe_adv_rx_desc_wb_lower_hi_dword =
     Union [
       (''rss'', U32), (''csum_ip'', ixgbe_adv_rx_desc_wb_lower_hi_dword_csum_ip)]"

definition ixgbe_adv_rx_desc_wb_lower :: ctype where
  "ixgbe_adv_rx_desc_wb_lower =
     Struct False [
       (''lo_dword'', ixgbe_adv_rx_desc_wb_lower_lo_dword),
       (''hi_dword'', ixgbe_adv_rx_desc_wb_lower_hi_dword)]"

definition ixgbe_adv_rx_desc_wb_upper :: ctype where
  "ixgbe_adv_rx_desc_wb_upper =
     Struct False [
       (''status_error'', U32), (''length'', U16), (''vlan'', U16)]"

definition ixgbe_adv_rx_desc_wb :: ctype where
  "ixgbe_adv_rx_desc_wb =
     Struct False [
       (''lower'', ixgbe_adv_rx_desc_wb_lower), (''upper'', ixgbe_adv_rx_desc_wb_upper)]"

definition ixgbe_adv_rx_desc :: ctype where
  "ixgbe_adv_rx_desc =
     Union [
       (''read'', ixgbe_adv_rx_desc_read), (''wb'', ixgbe_adv_rx_desc_wb), (''_union_align'', Array U64 2)]"

definition ixgbe_adv_tx_context_desc :: ctype where
  "ixgbe_adv_tx_context_desc =
     Struct False [
       (''vlan_macip_lens'', U32), (''seqnum_seed'', U32), (''type_tucmd_mlhl'', U32),
       (''mss_l4len_idx'', U32)]"

section \<open>Flow director input\<close>

definition ixgbe_atr_input_formatted :: ctype where
  "ixgbe_atr_input_formatted =
     Struct False [
       (''vm_pool'', U8), (''flow_type'', U8), (''vlan_id'', U16), (''dst_ip'', Array U32 4),
       (''src_ip'', Array U32 4), (''inner_mac'', Array U8 6), (''tunnel_type'', U16), (''tni_vni'', U32),
       (''src_port'', U16), (''dst_port'', U16), (''flex_bytes'', U16), (''bkt_hash'', U16)]"

definition ixgbe_atr_input :: ctype where
  "ixgbe_atr_input =
     Union [
       (''formatted'', ixgbe_atr_input_formatted), (''dword_stream'', Array U32 14),
       (''_union_align'', Array U32 14)]"

definition ixgbe_atr_hash_dword_formatted :: ctype where
  "ixgbe_atr_hash_dword_formatted =
     Struct False [
       (''vm_pool'', U8), (''flow_type'', U8), (''vlan_id'', U16)]"

definition ixgbe_atr_hash_dword_port :: ctype where
  "ixgbe_atr_hash_dword_port =
     Struct False [
       (''src'', U16), (''dst'', U16)]"

definition ixgbe_atr_hash_dword :: ctype where
  "ixgbe_atr_hash_dword =
     Union [
       (''formatted'', ixgbe_atr_hash_dword_formatted), (''ip'', U32), (''port'', ixgbe_atr_hash_dword_port),
       (''flex_bytes'', U16), (''dword'', U32), (''_union_align'', U32)]"

section \<open>Information and statistics\<close>

definition ixgbe_addr_filter_info :: ctype where
  "ixgbe_addr_filter_info =
     Struct False [
       (''num_mc_addrs'', U32), (''rar_used_count'', U32), (''mta_in_use'', U32),
       (''overflow_promisc'', U32), (''user_set_promisc'', Bool)]"

text \<open>\<open>enum_size\<close> is the number of bytes the compiler takes for an enumeration, by its name.\<close>

definition ixgbe_bus_info :: "(string \<Rightarrow> nat) \<Rightarrow> ctype" where
  "ixgbe_bus_info enum_size =
     Struct False [
       (''speed'', Prim (enum_size ''ixgbe_bus_speed'')), (''width'', Prim (enum_size ''ixgbe_bus_width'')),
       (''btype'', Prim (enum_size ''ixgbe_bus_type'')), (''func'', U16), (''lan_id'', U8),
       (''instance_id'', U16)]"

definition ixgbe_fc_info :: "(string \<Rightarrow> nat) \<Rightarrow> ctype" where
  "ixgbe_fc_info enum_size =
     Struct False [
       (''high_water'', Array U32 (unat IXGBE_DCB_MAX_TRAFFIC_CLASS)),
       (''low_water'', Array U32 (unat IXGBE_DCB_MAX_TRAFFIC_CLASS)), (''pause_time'', U16),
       (''send_xon'', Bool), (''strict_ieee'', Bool), (''disable_fc_autoneg'', Bool),
       (''fc_was_autonegged'', Bool), (''current_mode'', Prim (enum_size ''ixgbe_fc_mode'')),
       (''requested_mode'', Prim (enum_size ''ixgbe_fc_mode''))]"

definition ixgbe_hw_stats :: ctype where
  "ixgbe_hw_stats =
     Struct False [
       (''crcerrs'', U64), (''illerrc'', U64), (''errbc'', U64), (''mspdc'', U64), (''mpctotal'', U64),
       (''mpc'', Array U64 8), (''mlfc'', U64), (''mrfc'', U64), (''rlec'', U64), (''lxontxc'', U64),
       (''lxonrxc'', U64), (''lxofftxc'', U64), (''lxoffrxc'', U64), (''pxontxc'', Array U64 8),
       (''pxonrxc'', Array U64 8), (''pxofftxc'', Array U64 8), (''pxoffrxc'', Array U64 8),
       (''prc64'', U64), (''prc127'', U64), (''prc255'', U64), (''prc511'', U64), (''prc1023'', U64),
       (''prc1522'', U64), (''gprc'', U64), (''bprc'', U64), (''mprc'', U64), (''gptc'', U64),
       (''gorc'', U64), (''gotc'', U64), (''rnbc'', Array U64 8), (''ruc'', U64), (''rfc'', U64),
       (''roc'', U64), (''rjc'', U64), (''mngprc'', U64), (''mngpdc'', U64), (''mngptc'', U64),
       (''tor'', U64), (''tpr'', U64), (''tpt'', U64), (''ptc64'', U64), (''ptc127'', U64),
       (''ptc255'', U64), (''ptc511'', U64), (''ptc1023'', U64), (''ptc1522'', U64), (''mptc'', U64),
       (''bptc'', U64), (''xec'', U64), (''qprc'', Array U64 16), (''qptc'', Array U64 16),
       (''qbrc'', Array U64 16), (''qbtc'', Array U64 16), (''qprdc'', Array U64 16),
       (''pxon2offc'', Array U64 8), (''fdirustat_add'', U64), (''fdirustat_remove'', U64),
       (''fdirfstat_fadd'', U64), (''fdirfstat_fremove'', U64), (''fdirmatch'', U64), (''fdirmiss'', U64),
       (''fccrc'', U64), (''fclast'', U64), (''fcoerpdc'', U64), (''fcoeprc'', U64), (''fcoeptc'', U64),
       (''fcoedwrc'', U64), (''fcoedwtc'', U64), (''fcoe_noddp'', U64), (''fcoe_noddp_ext_buff'', U64),
       (''ldpcec'', U64), (''pcrc8ec'', U64), (''b2ospc'', U64), (''b2ogprc'', U64), (''o2bgptc'', U64),
       (''o2bspc'', U64)]"

section \<open>Ethernet headers\<close>

text \<open>\<open>Ethernet\<close> of \<open>src/ethernet.rs\<close>, the one structure besides that is laid out for the wire.\<close>

definition Ethernet :: ctype where
  "Ethernet = Struct True [(''dst'', Array U8 6), (''src'', Array U8 6), (''ethertype'', U16)]"

lemmas layout_defs =
  ixgbe_dmac_config_def ixgbe_hic_hdr_cmd_or_resp_def ixgbe_hic_hdr_def ixgbe_hic_hdr2_req_def
  ixgbe_hic_hdr2_rsp_def ixgbe_hic_hdr2_def ixgbe_hic_drv_info_def ixgbe_hic_drv_info2_def
  ixgbe_hic_read_shadow_ram_def ixgbe_hic_write_shadow_ram_def ixgbe_hic_disable_rxen_def
  ixgbe_hic_phy_token_req_def ixgbe_hic_internal_phy_req_def ixgbe_hic_internal_phy_resp_def
  ixgbe_hic_phy_activity_req_def ixgbe_hic_phy_activity_resp_def ixgbe_legacy_tx_desc_lower_flags_def
  ixgbe_legacy_tx_desc_lower_def ixgbe_legacy_tx_desc_upper_fields_def ixgbe_legacy_tx_desc_upper_def
  ixgbe_legacy_tx_desc_def ixgbe_adv_tx_desc_read_def ixgbe_adv_tx_desc_wb_def ixgbe_adv_tx_desc_def
  ixgbe_legacy_rx_desc_def ixgbe_adv_rx_desc_read_def ixgbe_adv_rx_desc_wb_lower_lo_dword_hs_rss_def
  ixgbe_adv_rx_desc_wb_lower_lo_dword_def ixgbe_adv_rx_desc_wb_lower_hi_dword_csum_ip_def
  ixgbe_adv_rx_desc_wb_lower_hi_dword_def ixgbe_adv_rx_desc_wb_lower_def ixgbe_adv_rx_desc_wb_upper_def
  ixgbe_adv_rx_desc_wb_def ixgbe_adv_rx_desc_def ixgbe_adv_tx_context_desc_def ixgbe_atr_input_formatted_def
  ixgbe_atr_input_def ixgbe_atr_hash_dword_formatted_def ixgbe_atr_hash_dword_port_def
  ixgbe_atr_hash_dword_def ixgbe_addr_filter_info_def ixgbe_bus_info_def ixgbe_fc_info_def
  ixgbe_hw_stats_def

lemmas length_defs =
  FW_CEM_HDR_LEN_def FW_CEM_CMD_DRIVER_INFO_LEN_def FW_CEM_DRIVER_VERSION_SIZE_def
  FW_READ_SHADOW_RAM_LEN_def FW_WRITE_SHADOW_RAM_LEN_def FW_DISABLE_RXEN_LEN_def FW_PHY_TOKEN_REQ_LEN_def
  FW_INT_PHY_REQ_LEN_def FW_PHY_ACT_DATA_COUNT_def FW_PHY_ACT_REQ_LEN_def IXGBE_DCB_MAX_TRAFFIC_CLASS_def

lemmas flow_defs =
  IXGBE_ATR_L4TYPE_MASK_def IXGBE_ATR_L4TYPE_UDP_def IXGBE_ATR_L4TYPE_TCP_def IXGBE_ATR_L4TYPE_SCTP_def
  IXGBE_ATR_L4TYPE_IPV6_MASK_def IXGBE_ATR_L4TYPE_TUNNEL_MASK_def IXGBE_FDIRCTRL_PBALLOC_64K_def
  IXGBE_FDIRCTRL_PBALLOC_128K_def IXGBE_FDIRCTRL_PBALLOC_256K_def

text \<open>Every structure and union, in the order of the source.\<close>

definition device_types :: "(string \<Rightarrow> nat) \<Rightarrow> ctype list" where
  "device_types enum_size = [
      ixgbe_dmac_config, ixgbe_hic_hdr_cmd_or_resp, ixgbe_hic_hdr, ixgbe_hic_hdr2_req, ixgbe_hic_hdr2_rsp,
      ixgbe_hic_hdr2, ixgbe_hic_drv_info, ixgbe_hic_drv_info2, ixgbe_hic_read_shadow_ram,
      ixgbe_hic_write_shadow_ram, ixgbe_hic_disable_rxen, ixgbe_hic_phy_token_req,
      ixgbe_hic_internal_phy_req, ixgbe_hic_internal_phy_resp, ixgbe_hic_phy_activity_req,
      ixgbe_hic_phy_activity_resp, ixgbe_legacy_tx_desc_lower_flags, ixgbe_legacy_tx_desc_lower,
      ixgbe_legacy_tx_desc_upper_fields, ixgbe_legacy_tx_desc_upper, ixgbe_legacy_tx_desc,
      ixgbe_adv_tx_desc_read, ixgbe_adv_tx_desc_wb, ixgbe_adv_tx_desc, ixgbe_legacy_rx_desc,
      ixgbe_adv_rx_desc_read, ixgbe_adv_rx_desc_wb_lower_lo_dword_hs_rss,
      ixgbe_adv_rx_desc_wb_lower_lo_dword, ixgbe_adv_rx_desc_wb_lower_hi_dword_csum_ip,
      ixgbe_adv_rx_desc_wb_lower_hi_dword, ixgbe_adv_rx_desc_wb_lower, ixgbe_adv_rx_desc_wb_upper,
      ixgbe_adv_rx_desc_wb, ixgbe_adv_rx_desc, ixgbe_adv_tx_context_desc, ixgbe_atr_input_formatted,
      ixgbe_atr_input, ixgbe_atr_hash_dword_formatted, ixgbe_atr_hash_dword_port, ixgbe_atr_hash_dword,
      ixgbe_addr_filter_info, ixgbe_bus_info enum_size, ixgbe_fc_info enum_size, ixgbe_hw_stats]"

end
