(* ===== verification/Rush_Registers.thy ===== *)
theory Rush_Registers
  imports Rush_Prelude
begin

text \<open>
  \<open>src/ixy82599/constants.rs\<close>: the register map of the device, and the fields of registers
  and descriptors that the driver uses. An offset is relative to the start of the mapped resource. A
  register that exists once per queue, address or packet buffer is a function of the index. Offsets are
  32-bit and wrap around.
\<close>

section \<open>General registers\<close>

definition IXGBE_CTRL :: u32 where
  "IXGBE_CTRL = 0x00000"

definition IXGBE_STATUS :: u32 where
  "IXGBE_STATUS = 0x00008"

definition IXGBE_CTRL_EXT :: u32 where
  "IXGBE_CTRL_EXT = 0x00018"

definition IXGBE_ESDP :: u32 where
  "IXGBE_ESDP = 0x00020"

definition IXGBE_EODSDP :: u32 where
  "IXGBE_EODSDP = 0x00028"

definition IXGBE_I2CCTL_82599 :: u32 where
  "IXGBE_I2CCTL_82599 = 0x00028"

definition IXGBE_I2CCTL_X550 :: u32 where
  "IXGBE_I2CCTL_X550 = 0x15F5C"

definition IXGBE_PHY_GPIO :: u32 where
  "IXGBE_PHY_GPIO = 0x00028"

definition IXGBE_MAC_GPIO :: u32 where
  "IXGBE_MAC_GPIO = 0x00030"

definition IXGBE_PHYINT_STATUS0 :: u32 where
  "IXGBE_PHYINT_STATUS0 = 0x00100"

definition IXGBE_PHYINT_STATUS1 :: u32 where
  "IXGBE_PHYINT_STATUS1 = 0x00104"

definition IXGBE_PHYINT_STATUS2 :: u32 where
  "IXGBE_PHYINT_STATUS2 = 0x00108"

definition IXGBE_LEDCTL :: u32 where
  "IXGBE_LEDCTL = 0x00200"

definition IXGBE_FRTIMER :: u32 where
  "IXGBE_FRTIMER = 0x00048"

definition IXGBE_TCPTIMER :: u32 where
  "IXGBE_TCPTIMER = 0x0004C"

definition IXGBE_CORESPARE :: u32 where
  "IXGBE_CORESPARE = 0x00600"

definition IXGBE_EXVET :: u32 where
  "IXGBE_EXVET = 0x05078"

section \<open>NVM registers\<close>

definition IXGBE_EEC :: u32 where
  "IXGBE_EEC = 0x10010"

definition IXGBE_EEC_X550EM_a :: u32 where
  "IXGBE_EEC_X550EM_a = 0x15FF8"

definition IXGBE_EERD :: u32 where
  "IXGBE_EERD = 0x10014"

definition IXGBE_EEWR :: u32 where
  "IXGBE_EEWR = 0x10018"

definition IXGBE_FLA :: u32 where
  "IXGBE_FLA = 0x1001C"

definition IXGBE_FLA_X550EM_a :: u32 where
  "IXGBE_FLA_X550EM_a = 0x15F68"

definition IXGBE_EEMNGCTL :: u32 where
  "IXGBE_EEMNGCTL = 0x10110"

definition IXGBE_EEMNGDATA :: u32 where
  "IXGBE_EEMNGDATA = 0x10114"

definition IXGBE_FLMNGCTL :: u32 where
  "IXGBE_FLMNGCTL = 0x10118"

definition IXGBE_FLMNGDATA :: u32 where
  "IXGBE_FLMNGDATA = 0x1011C"

definition IXGBE_FLMNGCNT :: u32 where
  "IXGBE_FLMNGCNT = 0x10120"

definition IXGBE_FLOP :: u32 where
  "IXGBE_FLOP = 0x1013C"

definition IXGBE_GRC :: u32 where
  "IXGBE_GRC = 0x10200"

definition IXGBE_GRC_X550EM_a :: u32 where
  "IXGBE_GRC_X550EM_a = 0x15F64"

definition IXGBE_SRAMREL :: u32 where
  "IXGBE_SRAMREL = 0x10210"

definition IXGBE_SRAMREL_X550EM_a :: u32 where
  "IXGBE_SRAMREL_X550EM_a = 0x15F6C"

definition IXGBE_PHYDBG :: u32 where
  "IXGBE_PHYDBG = 0x10218"

definition IXGBE_VPDDIAG0 :: u32 where
  "IXGBE_VPDDIAG0 = 0x10204"

definition IXGBE_VPDDIAG1 :: u32 where
  "IXGBE_VPDDIAG1 = 0x10208"

section \<open>Interrupt registers\<close>

definition IXGBE_EICR :: u32 where
  "IXGBE_EICR = 0x00800"

definition IXGBE_EICS :: u32 where
  "IXGBE_EICS = 0x00808"

definition IXGBE_EIMS :: u32 where
  "IXGBE_EIMS = 0x00880"

definition IXGBE_EIMC :: u32 where
  "IXGBE_EIMC = 0x00888"

definition IXGBE_EIAC :: u32 where
  "IXGBE_EIAC = 0x00810"

definition IXGBE_EIAM :: u32 where
  "IXGBE_EIAM = 0x00890"

definition IXGBE_EICS_EX :: "u32 \<Rightarrow> u32" where
  "IXGBE_EICS_EX i = 0x00A90 + i * 4"

definition IXGBE_EIMS_EX :: "u32 \<Rightarrow> u32" where
  "IXGBE_EIMS_EX i = 0x00AA0 + i * 4"

definition IXGBE_EIMC_EX :: "u32 \<Rightarrow> u32" where
  "IXGBE_EIMC_EX i = 0x00AB0 + i * 4"

definition IXGBE_EIAM_EX :: "u32 \<Rightarrow> u32" where
  "IXGBE_EIAM_EX i = 0x00AD0 + i * 4"

definition IXGBE_EITR :: "u32 \<Rightarrow> u32" where
  "IXGBE_EITR i = (if i \<le> 23 then 0x00820 + (i * 4) else 0x012300 + ((i - 24) * 4))"

definition IXGBE_IVAR :: "u32 \<Rightarrow> u32" where
  "IXGBE_IVAR i = 0x00900 + (i * 4)"

definition IXGBE_IVAR_MISC :: u32 where
  "IXGBE_IVAR_MISC = 0x00A00"

definition IXGBE_EITRSEL :: u32 where
  "IXGBE_EITRSEL = 0x00894"

definition IXGBE_MSIXT :: u32 where
  "IXGBE_MSIXT = 0x00000"

definition IXGBE_MSIXPBA :: u32 where
  "IXGBE_MSIXPBA = 0x02000"

definition IXGBE_PBACL :: "u32 \<Rightarrow> u32" where
  "IXGBE_PBACL i = (if i = 0 then 0x11068 else 0x110C0 + (i * 4))"

definition IXGBE_GPIE :: u32 where
  "IXGBE_GPIE = 0x00898"

section \<open>Flow control registers\<close>

definition IXGBE_FCADBUL :: u32 where
  "IXGBE_FCADBUL = 0x03210"

definition IXGBE_FCADBUH :: u32 where
  "IXGBE_FCADBUH = 0x03214"

definition IXGBE_FCAMACL :: u32 where
  "IXGBE_FCAMACL = 0x04328"

definition IXGBE_FCAMACH :: u32 where
  "IXGBE_FCAMACH = 0x0432C"

definition IXGBE_FCRTH_82599 :: "u32 \<Rightarrow> u32" where
  "IXGBE_FCRTH_82599 i = 0x03260 + (i * 4)"

definition IXGBE_FCRTL_82599 :: "u32 \<Rightarrow> u32" where
  "IXGBE_FCRTL_82599 i = 0x03220 + (i * 4)"

definition IXGBE_PFCTOP :: u32 where
  "IXGBE_PFCTOP = 0x03008"

definition IXGBE_FCTTV :: "u32 \<Rightarrow> u32" where
  "IXGBE_FCTTV i = 0x03200 + (i * 4)"

definition IXGBE_FCRTL :: "u32 \<Rightarrow> u32" where
  "IXGBE_FCRTL i = 0x03220 + (i * 8)"

definition IXGBE_FCRTH :: "u32 \<Rightarrow> u32" where
  "IXGBE_FCRTH i = 0x03260 + (i * 8)"

definition IXGBE_FCRTV :: u32 where
  "IXGBE_FCRTV = 0x032A0"

definition IXGBE_FCCFG :: u32 where
  "IXGBE_FCCFG = 0x03D00"

definition IXGBE_TFCS :: u32 where
  "IXGBE_TFCS = 0x0CE00"

section \<open>Receive DMA registers\<close>

definition IXGBE_RDBAL :: "u32 \<Rightarrow> u32" where
  "IXGBE_RDBAL i = (if i < 64 then 0x01000 + (i * 0x40) else 0x0D000 + ((i - 64) * 0x40))"

definition IXGBE_RDBAH :: "u32 \<Rightarrow> u32" where
  "IXGBE_RDBAH i = (if i < 64 then 0x01004 + (i * 0x40) else 0x0D004 + ((i - 64) * 0x40))"

definition IXGBE_RDLEN :: "u32 \<Rightarrow> u32" where
  "IXGBE_RDLEN i = (if i < 64 then 0x01008 + (i * 0x40) else 0x0D008 + ((i - 64) * 0x40))"

definition IXGBE_RDH :: "u32 \<Rightarrow> u32" where
  "IXGBE_RDH i = (if i < 64 then 0x01010 + (i * 0x40) else 0x0D010 + ((i - 64) * 0x40))"

definition IXGBE_RDT :: "u32 \<Rightarrow> u32" where
  "IXGBE_RDT i = (if i < 64 then 0x01018 + (i * 0x40) else 0x0D018 + ((i - 64) * 0x40))"

definition IXGBE_RXDCTL :: "u32 \<Rightarrow> u32" where
  "IXGBE_RXDCTL i = (if i < 64 then 0x01028 + (i * 0x40) else 0x0D028 + ((i - 64) * 0x40))"

definition IXGBE_RSCCTL :: "u32 \<Rightarrow> u32" where
  "IXGBE_RSCCTL i = (if i < 64 then 0x0102C + (i * 0x40) else 0x0D02C + ((i - 64) * 0x40))"

definition IXGBE_RSCDBU :: u32 where
  "IXGBE_RSCDBU = 0x03028"

definition IXGBE_RDDCC :: u32 where
  "IXGBE_RDDCC = 0x02F20"

definition IXGBE_RXMEMWRAP :: u32 where
  "IXGBE_RXMEMWRAP = 0x03190"

definition IXGBE_STARCTRL :: u32 where
  "IXGBE_STARCTRL = 0x03024"

definition IXGBE_SRRCTL :: "u32 \<Rightarrow> u32" where
  "IXGBE_SRRCTL i = (if i \<le> 15 then 0x02100 + (i * 4) else if i < 64 then 0x01014 + (i * 0x40) else 0x0D014 + ((i - 64) * 0x40))"

definition IXGBE_DCA_RXCTRL :: "u32 \<Rightarrow> u32" where
  "IXGBE_DCA_RXCTRL i = (if i \<le> 15 then 0x02200 + (i * 4) else if i < 64 then 0x0100C + (i * 0x40) else 0x0D00C + ((i - 64) * 0x40))"

definition IXGBE_RDRXCTL :: u32 where
  "IXGBE_RDRXCTL = 0x02F00"

definition IXGBE_RXPBSIZE :: "u32 \<Rightarrow> u32" where
  "IXGBE_RXPBSIZE i = 0x03C00 + (i * 4)"

definition IXGBE_RXCTRL :: u32 where
  "IXGBE_RXCTRL = 0x03000"

definition IXGBE_DROPEN :: u32 where
  "IXGBE_DROPEN = 0x03D04"

section \<open>Receive registers\<close>

definition IXGBE_RXCSUM :: u32 where
  "IXGBE_RXCSUM = 0x05000"

definition IXGBE_RFCTL :: u32 where
  "IXGBE_RFCTL = 0x05008"

definition IXGBE_DRECCCTL :: u32 where
  "IXGBE_DRECCCTL = 0x02F08"

definition IXGBE_DRECCCTL2 :: u32 where
  "IXGBE_DRECCCTL2 = 0x02F8C"

definition IXGBE_MTA :: "u32 \<Rightarrow> u32" where
  "IXGBE_MTA i = 0x05200 + (i * 4)"

definition IXGBE_RAL :: "u32 \<Rightarrow> u32" where
  "IXGBE_RAL i = (if i \<le> 15 then 0x05400 + (i * 8) else 0x0A200 + (i * 8))"

definition IXGBE_RAH :: "u32 \<Rightarrow> u32" where
  "IXGBE_RAH i = (if i \<le> 15 then 0x05404 + (i * 8) else 0x0A204 + (i * 8))"

definition IXGBE_MPSAR_LO :: "u32 \<Rightarrow> u32" where
  "IXGBE_MPSAR_LO i = 0x0A600 + (i * 8)"

definition IXGBE_MPSAR_HI :: "u32 \<Rightarrow> u32" where
  "IXGBE_MPSAR_HI i = 0x0A604 + (i * 8)"

definition IXGBE_PSRTYPE :: "u32 \<Rightarrow> u32" where
  "IXGBE_PSRTYPE i = (if i \<le> 15 then 0x05480 + (i * 4) else 0x0EA00 + (i * 4))"

definition IXGBE_VFTA :: "u32 \<Rightarrow> u32" where
  "IXGBE_VFTA i = 0x0A000 + (i * 4)"

definition IXGBE_VFTAVIND :: "u32 \<Rightarrow> u32 \<Rightarrow> u32" where
  "IXGBE_VFTAVIND j i = 0x0A200 + (j * 0x200) + (i * 4)"

definition IXGBE_FCTRL :: u32 where
  "IXGBE_FCTRL = 0x05080"

definition IXGBE_VLNCTRL :: u32 where
  "IXGBE_VLNCTRL = 0x05088"

definition IXGBE_MCSTCTRL :: u32 where
  "IXGBE_MCSTCTRL = 0x05090"

definition IXGBE_MRQC :: u32 where
  "IXGBE_MRQC = 0x05818"

definition IXGBE_SAQF :: "u32 \<Rightarrow> u32" where
  "IXGBE_SAQF i = 0x0E000 + (i * 4)"

definition IXGBE_DAQF :: "u32 \<Rightarrow> u32" where
  "IXGBE_DAQF i = 0x0E200 + (i * 4)"

definition IXGBE_SDPQF :: "u32 \<Rightarrow> u32" where
  "IXGBE_SDPQF i = 0x0E400 + (i * 4)"

definition IXGBE_FTQF :: "u32 \<Rightarrow> u32" where
  "IXGBE_FTQF i = 0x0E600 + (i * 4)"

definition IXGBE_ETQF :: "u32 \<Rightarrow> u32" where
  "IXGBE_ETQF i = 0x05128 + (i * 4)"

definition IXGBE_ETQS :: "u32 \<Rightarrow> u32" where
  "IXGBE_ETQS i = 0x0EC00 + (i * 4)"

definition IXGBE_SYNQF :: u32 where
  "IXGBE_SYNQF = 0x0EC30"

definition IXGBE_RQTC :: u32 where
  "IXGBE_RQTC = 0x0EC70"

definition IXGBE_MTQC :: u32 where
  "IXGBE_MTQC = 0x08120"

definition IXGBE_VLVF :: "u32 \<Rightarrow> u32" where
  "IXGBE_VLVF i = 0x0F100 + (i * 4)"

definition IXGBE_VLVFB :: "u32 \<Rightarrow> u32" where
  "IXGBE_VLVFB i = 0x0F200 + (i * 4)"

definition IXGBE_VMVIR :: "u32 \<Rightarrow> u32" where
  "IXGBE_VMVIR i = 0x08000 + (i * 4)"

definition IXGBE_PFFLPL :: u32 where
  "IXGBE_PFFLPL = 0x050B0"

definition IXGBE_PFFLPH :: u32 where
  "IXGBE_PFFLPH = 0x050B4"

definition IXGBE_VT_CTL :: u32 where
  "IXGBE_VT_CTL = 0x051B0"

definition IXGBE_PFMAILBOX :: "u32 \<Rightarrow> u32" where
  "IXGBE_PFMAILBOX i = 0x04B00 + (4 * i)"

definition IXGBE_PFMBMEM :: "u32 \<Rightarrow> u32" where
  "IXGBE_PFMBMEM i = 0x13000 + (64 * i)"

definition IXGBE_PFMBICR :: "u32 \<Rightarrow> u32" where
  "IXGBE_PFMBICR i = 0x00710 + (4 * i)"

definition IXGBE_PFMBIMR :: "u32 \<Rightarrow> u32" where
  "IXGBE_PFMBIMR i = 0x00720 + (4 * i)"

definition IXGBE_VFRE :: "u32 \<Rightarrow> u32" where
  "IXGBE_VFRE i = 0x051E0 + (i * 4)"

definition IXGBE_VFTE :: "u32 \<Rightarrow> u32" where
  "IXGBE_VFTE i = 0x08110 + (i * 4)"

definition IXGBE_VMECM :: "u32 \<Rightarrow> u32" where
  "IXGBE_VMECM i = 0x08790 + (i * 4)"

definition IXGBE_VMTXSW :: "u32 \<Rightarrow> u32" where
  "IXGBE_VMTXSW i = 0x05180 + (i * 4)"

definition IXGBE_VMOLR :: "u32 \<Rightarrow> u32" where
  "IXGBE_VMOLR i = 0x0F000 + (i * 4)"

definition IXGBE_UTA :: "u32 \<Rightarrow> u32" where
  "IXGBE_UTA i = 0x0F400 + (i * 4)"

definition IXGBE_MRCTL :: "u32 \<Rightarrow> u32" where
  "IXGBE_MRCTL i = 0x0F600 + (i * 4)"

definition IXGBE_VMRVLAN :: "u32 \<Rightarrow> u32" where
  "IXGBE_VMRVLAN i = 0x0F610 + (i * 4)"

definition IXGBE_VMRVM :: "u32 \<Rightarrow> u32" where
  "IXGBE_VMRVM i = 0x0F630 + (i * 4)"

definition IXGBE_WQBR_RX :: "u32 \<Rightarrow> u32" where
  "IXGBE_WQBR_RX i = 0x2FB0 + (i * 4)"

definition IXGBE_WQBR_TX :: "u32 \<Rightarrow> u32" where
  "IXGBE_WQBR_TX i = 0x8130 + (i * 4)"

definition IXGBE_L34T_IMIR :: "u32 \<Rightarrow> u32" where
  "IXGBE_L34T_IMIR i = 0x0E800 + (i * 4)"

definition IXGBE_RXFECCERR0 :: u32 where
  "IXGBE_RXFECCERR0 = 0x051B8"

definition IXGBE_LLITHRESH :: u32 where
  "IXGBE_LLITHRESH = 0x0EC90"

definition IXGBE_IMIR :: "u32 \<Rightarrow> u32" where
  "IXGBE_IMIR i = 0x05A80 + (i * 4)"

definition IXGBE_IMIREXT :: "u32 \<Rightarrow> u32" where
  "IXGBE_IMIREXT i = 0x05AA0 + (i * 4)"

definition IXGBE_IMIRVP :: u32 where
  "IXGBE_IMIRVP = 0x05AC0"

definition IXGBE_VMD_CTL :: u32 where
  "IXGBE_VMD_CTL = 0x0581C"

definition IXGBE_RETA :: "u32 \<Rightarrow> u32" where
  "IXGBE_RETA i = 0x05C00 + (i * 4)"

definition IXGBE_ERETA :: "u32 \<Rightarrow> u32" where
  "IXGBE_ERETA i = 0x0EE80 + (i * 4)"

definition IXGBE_RSSRK :: "u32 \<Rightarrow> u32" where
  "IXGBE_RSSRK i = 0x05C80 + (i * 4)"

definition IXGBE_PFVFMRQC :: "u32 \<Rightarrow> u32" where
  "IXGBE_PFVFMRQC p = 0x03400 + (p * 4)"

definition IXGBE_PFVFRSSRK :: "u32 \<Rightarrow> u32 \<Rightarrow> u32" where
  "IXGBE_PFVFRSSRK i p = 0x018000 + (i * 4) + (p * 0x40)"

definition IXGBE_PFVFRETA :: "u32 \<Rightarrow> u32 \<Rightarrow> u32" where
  "IXGBE_PFVFRETA i p = 0x019000 + (i * 4) + (p * 0x40)"

section \<open>Flow director registers\<close>

definition IXGBE_FDIRCTRL :: u32 where
  "IXGBE_FDIRCTRL = 0x0EE00"

definition IXGBE_FDIRHKEY :: u32 where
  "IXGBE_FDIRHKEY = 0x0EE68"

definition IXGBE_FDIRSKEY :: u32 where
  "IXGBE_FDIRSKEY = 0x0EE6C"

definition IXGBE_FDIRDIP4M :: u32 where
  "IXGBE_FDIRDIP4M = 0x0EE3C"

definition IXGBE_FDIRSIP4M :: u32 where
  "IXGBE_FDIRSIP4M = 0x0EE40"

definition IXGBE_FDIRTCPM :: u32 where
  "IXGBE_FDIRTCPM = 0x0EE44"

definition IXGBE_FDIRUDPM :: u32 where
  "IXGBE_FDIRUDPM = 0x0EE48"

definition IXGBE_FDIRSCTPM :: u32 where
  "IXGBE_FDIRSCTPM = 0x0EE78"

definition IXGBE_FDIRIP6M :: u32 where
  "IXGBE_FDIRIP6M = 0x0EE74"

definition IXGBE_FDIRM :: u32 where
  "IXGBE_FDIRM = 0x0EE70"

definition IXGBE_FDIRFREE :: u32 where
  "IXGBE_FDIRFREE = 0x0EE38"

definition IXGBE_FDIRLEN :: u32 where
  "IXGBE_FDIRLEN = 0x0EE4C"

definition IXGBE_FDIRUSTAT :: u32 where
  "IXGBE_FDIRUSTAT = 0x0EE50"

definition IXGBE_FDIRFSTAT :: u32 where
  "IXGBE_FDIRFSTAT = 0x0EE54"

definition IXGBE_FDIRMATCH :: u32 where
  "IXGBE_FDIRMATCH = 0x0EE58"

definition IXGBE_FDIRMISS :: u32 where
  "IXGBE_FDIRMISS = 0x0EE5C"

definition IXGBE_FDIRSIPv6 :: "u32 \<Rightarrow> u32" where
  "IXGBE_FDIRSIPv6 i = 0x0EE0C + (i * 4)"

definition IXGBE_FDIRIPSA :: u32 where
  "IXGBE_FDIRIPSA = 0x0EE18"

definition IXGBE_FDIRIPDA :: u32 where
  "IXGBE_FDIRIPDA = 0x0EE1C"

definition IXGBE_FDIRPORT :: u32 where
  "IXGBE_FDIRPORT = 0x0EE20"

definition IXGBE_FDIRVLAN :: u32 where
  "IXGBE_FDIRVLAN = 0x0EE24"

definition IXGBE_FDIRHASH :: u32 where
  "IXGBE_FDIRHASH = 0x0EE28"

definition IXGBE_FDIRCMD :: u32 where
  "IXGBE_FDIRCMD = 0x0EE2C"

section \<open>Transmit DMA registers\<close>

definition IXGBE_TDBAL :: "u32 \<Rightarrow> u32" where
  "IXGBE_TDBAL i = 0x06000 + (i * 0x40)"

definition IXGBE_TDBAH :: "u32 \<Rightarrow> u32" where
  "IXGBE_TDBAH i = 0x06004 + (i * 0x40)"

definition IXGBE_TDLEN :: "u32 \<Rightarrow> u32" where
  "IXGBE_TDLEN i = 0x06008 + (i * 0x40)"

definition IXGBE_TDH :: "u32 \<Rightarrow> u32" where
  "IXGBE_TDH i = 0x06010 + (i * 0x40)"

definition IXGBE_TDT :: "u32 \<Rightarrow> u32" where
  "IXGBE_TDT i = 0x06018 + (i * 0x40)"

definition IXGBE_TXDCTL :: "u32 \<Rightarrow> u32" where
  "IXGBE_TXDCTL i = 0x06028 + (i * 0x40)"

definition IXGBE_TDWBAL :: "u32 \<Rightarrow> u32" where
  "IXGBE_TDWBAL i = 0x06038 + (i * 0x40)"

definition IXGBE_TDWBAH :: "u32 \<Rightarrow> u32" where
  "IXGBE_TDWBAH i = 0x0603C + (i * 0x40)"

definition IXGBE_DTXCTL :: u32 where
  "IXGBE_DTXCTL = 0x07E00"

definition IXGBE_DMATXCTL :: u32 where
  "IXGBE_DMATXCTL = 0x04A80"

definition IXGBE_PFVFSPOOF :: "u32 \<Rightarrow> u32" where
  "IXGBE_PFVFSPOOF i = 0x08200 + (i * 4)"

definition IXGBE_PFDTXGSWC :: u32 where
  "IXGBE_PFDTXGSWC = 0x08220"

definition IXGBE_DTXMXSZRQ :: u32 where
  "IXGBE_DTXMXSZRQ = 0x08100"

definition IXGBE_DTXTCPFLGL :: u32 where
  "IXGBE_DTXTCPFLGL = 0x04A88"

definition IXGBE_DTXTCPFLGH :: u32 where
  "IXGBE_DTXTCPFLGH = 0x04A8C"

definition IXGBE_LBDRPEN :: u32 where
  "IXGBE_LBDRPEN = 0x0CA00"

definition IXGBE_TXPBTHRESH :: "u32 \<Rightarrow> u32" where
  "IXGBE_TXPBTHRESH i = 0x04950 + (i * 4)"

definition IXGBE_DCA_TXCTRL :: "u32 \<Rightarrow> u32" where
  "IXGBE_DCA_TXCTRL i = 0x07200 + (i * 4)"

definition IXGBE_DCA_TXCTRL_82599 :: "u32 \<Rightarrow> u32" where
  "IXGBE_DCA_TXCTRL_82599 i = 0x0600C + (i * 0x40)"

definition IXGBE_TIPG :: u32 where
  "IXGBE_TIPG = 0x0CB00"

definition IXGBE_TXPBSIZE :: "u32 \<Rightarrow> u32" where
  "IXGBE_TXPBSIZE i = 0x0CC00 + (i * 4)"

definition IXGBE_MNGTXMAP :: u32 where
  "IXGBE_MNGTXMAP = 0x0CD10"

section \<open>Wake up registers\<close>

definition IXGBE_WUC :: u32 where
  "IXGBE_WUC = 0x05800"

definition IXGBE_WUFC :: u32 where
  "IXGBE_WUFC = 0x05808"

definition IXGBE_WUS :: u32 where
  "IXGBE_WUS = 0x05810"

definition IXGBE_IPAV :: u32 where
  "IXGBE_IPAV = 0x05838"

definition IXGBE_IP4AT :: u32 where
  "IXGBE_IP4AT = 0x05840"

definition IXGBE_IP6AT :: u32 where
  "IXGBE_IP6AT = 0x05880"

definition IXGBE_WUPL :: u32 where
  "IXGBE_WUPL = 0x05900"

definition IXGBE_WUPM :: u32 where
  "IXGBE_WUPM = 0x05A00"

definition IXGBE_PROXYS :: u32 where
  "IXGBE_PROXYS = 0x05F60"

definition IXGBE_PROXYFC :: u32 where
  "IXGBE_PROXYFC = 0x05F64"

definition IXGBE_FHFT :: "u32 \<Rightarrow> u32" where
  "IXGBE_FHFT n = 0x09000 + (n * 0x100)"

definition IXGBE_FHFT_EXT :: "u32 \<Rightarrow> u32" where
  "IXGBE_FHFT_EXT n = 0x09800 + (n * 0x100)"

definition IXGBE_FHFT_EXT_X550 :: "u32 \<Rightarrow> u32" where
  "IXGBE_FHFT_EXT_X550 n = 0x09600 + (n * 0x100)"

section \<open>DCB and power management registers\<close>

definition IXGBE_RMCS :: u32 where
  "IXGBE_RMCS = 0x03D00"

definition IXGBE_DPMCS :: u32 where
  "IXGBE_DPMCS = 0x07F40"

definition IXGBE_PDPMCS :: u32 where
  "IXGBE_PDPMCS = 0x0CD00"

definition IXGBE_RUPPBMR :: u32 where
  "IXGBE_RUPPBMR = 0x050A0"

definition IXGBE_RT2CR :: "u32 \<Rightarrow> u32" where
  "IXGBE_RT2CR i = 0x03C20 + (i * 4)"

definition IXGBE_RT2SR :: "u32 \<Rightarrow> u32" where
  "IXGBE_RT2SR i = 0x03C40 + (i * 4)"

definition IXGBE_TDTQ2TCCR :: "u32 \<Rightarrow> u32" where
  "IXGBE_TDTQ2TCCR i = 0x0602C + (i * 0x40)"

definition IXGBE_TDTQ2TCSR :: "u32 \<Rightarrow> u32" where
  "IXGBE_TDTQ2TCSR i = 0x0622C + (i * 0x40)"

definition IXGBE_TDPT2TCCR :: "u32 \<Rightarrow> u32" where
  "IXGBE_TDPT2TCCR i = 0x0CD20 + (i * 4)"

definition IXGBE_TDPT2TCSR :: "u32 \<Rightarrow> u32" where
  "IXGBE_TDPT2TCSR i = 0x0CD40 + (i * 4)"

definition IXGBE_DMCMNGTH :: u32 where
  "IXGBE_DMCMNGTH = 0x15F20"

definition IXGBE_DMACR :: u32 where
  "IXGBE_DMACR = 0x02400"

definition IXGBE_DMCTH :: "u32 \<Rightarrow> u32" where
  "IXGBE_DMCTH i = 0x03300 + (i * 4)"

definition IXGBE_DMCTLX :: u32 where
  "IXGBE_DMCTLX = 0x02404"

definition IXGBE_EEER :: u32 where
  "IXGBE_EEER = 0x043A0"

definition IXGBE_EEE_STAT :: u32 where
  "IXGBE_EEE_STAT = 0x04398"

definition IXGBE_EEE_SU :: u32 where
  "IXGBE_EEE_SU = 0x04380"

definition IXGBE_TLPIC :: u32 where
  "IXGBE_TLPIC = 0x041F4"

definition IXGBE_RLPIC :: u32 where
  "IXGBE_RLPIC = 0x041F8"

section \<open>Security registers\<close>

definition IXGBE_SECTXCTRL :: u32 where
  "IXGBE_SECTXCTRL = 0x08800"

definition IXGBE_SECTXSTAT :: u32 where
  "IXGBE_SECTXSTAT = 0x08804"

definition IXGBE_SECTXBUFFAF :: u32 where
  "IXGBE_SECTXBUFFAF = 0x08808"

definition IXGBE_SECTXMINIFG :: u32 where
  "IXGBE_SECTXMINIFG = 0x08810"

definition IXGBE_SECRXCTRL :: u32 where
  "IXGBE_SECRXCTRL = 0x08D00"

definition IXGBE_SECRXSTAT :: u32 where
  "IXGBE_SECRXSTAT = 0x08D04"

definition IXGBE_LSECTXCAP :: u32 where
  "IXGBE_LSECTXCAP = 0x08A00"

definition IXGBE_LSECRXCAP :: u32 where
  "IXGBE_LSECRXCAP = 0x08F00"

definition IXGBE_LSECTXCTRL :: u32 where
  "IXGBE_LSECTXCTRL = 0x08A04"

definition IXGBE_LSECTXSCL :: u32 where
  "IXGBE_LSECTXSCL = 0x08A08"

definition IXGBE_LSECTXSCH :: u32 where
  "IXGBE_LSECTXSCH = 0x08A0C"

definition IXGBE_LSECTXSA :: u32 where
  "IXGBE_LSECTXSA = 0x08A10"

definition IXGBE_LSECTXPN0 :: u32 where
  "IXGBE_LSECTXPN0 = 0x08A14"

definition IXGBE_LSECTXPN1 :: u32 where
  "IXGBE_LSECTXPN1 = 0x08A18"

definition IXGBE_LSECTXKEY0 :: "u32 \<Rightarrow> u32" where
  "IXGBE_LSECTXKEY0 n = 0x08A1C + (4 * n)"

definition IXGBE_LSECTXKEY1 :: "u32 \<Rightarrow> u32" where
  "IXGBE_LSECTXKEY1 n = 0x08A2C + (4 * n)"

definition IXGBE_LSECRXCTRL :: u32 where
  "IXGBE_LSECRXCTRL = 0x08F04"

definition IXGBE_LSECRXSCL :: u32 where
  "IXGBE_LSECRXSCL = 0x08F08"

definition IXGBE_LSECRXSCH :: u32 where
  "IXGBE_LSECRXSCH = 0x08F0C"

definition IXGBE_LSECRXSA :: "u32 \<Rightarrow> u32" where
  "IXGBE_LSECRXSA i = 0x08F10 + (4 * i)"

definition IXGBE_LSECRXPN :: "u32 \<Rightarrow> u32" where
  "IXGBE_LSECRXPN i = 0x08F18 + (4 * i)"

definition IXGBE_LSECRXKEY :: "u32 \<Rightarrow> u32 \<Rightarrow> u32" where
  "IXGBE_LSECRXKEY n m = (0x08F20 + ((0x10 * n) + (4 * m)))"

definition IXGBE_LSECTXUT :: u32 where
  "IXGBE_LSECTXUT = 0x08A3C"

definition IXGBE_LSECTXPKTE :: u32 where
  "IXGBE_LSECTXPKTE = 0x08A40"

definition IXGBE_LSECTXPKTP :: u32 where
  "IXGBE_LSECTXPKTP = 0x08A44"

definition IXGBE_LSECTXOCTE :: u32 where
  "IXGBE_LSECTXOCTE = 0x08A48"

definition IXGBE_LSECTXOCTP :: u32 where
  "IXGBE_LSECTXOCTP = 0x08A4C"

definition IXGBE_LSECRXUT :: u32 where
  "IXGBE_LSECRXUT = 0x08F40"

definition IXGBE_LSECRXOCTD :: u32 where
  "IXGBE_LSECRXOCTD = 0x08F44"

definition IXGBE_LSECRXOCTV :: u32 where
  "IXGBE_LSECRXOCTV = 0x08F48"

definition IXGBE_LSECRXBAD :: u32 where
  "IXGBE_LSECRXBAD = 0x08F4C"

definition IXGBE_LSECRXNOSCI :: u32 where
  "IXGBE_LSECRXNOSCI = 0x08F50"

definition IXGBE_LSECRXUNSCI :: u32 where
  "IXGBE_LSECRXUNSCI = 0x08F54"

definition IXGBE_LSECRXUNCH :: u32 where
  "IXGBE_LSECRXUNCH = 0x08F58"

definition IXGBE_LSECRXDELAY :: u32 where
  "IXGBE_LSECRXDELAY = 0x08F5C"

definition IXGBE_LSECRXLATE :: u32 where
  "IXGBE_LSECRXLATE = 0x08F60"

definition IXGBE_LSECRXOK :: "u32 \<Rightarrow> u32" where
  "IXGBE_LSECRXOK n = 0x08F64 + (0x04 * n)"

definition IXGBE_LSECRXINV :: "u32 \<Rightarrow> u32" where
  "IXGBE_LSECRXINV n = 0x08F6C + (0x04 * n)"

definition IXGBE_LSECRXNV :: "u32 \<Rightarrow> u32" where
  "IXGBE_LSECRXNV n = 0x08F74 + (0x04 * n)"

definition IXGBE_LSECRXUNSA :: u32 where
  "IXGBE_LSECRXUNSA = 0x08F7C"

definition IXGBE_LSECRXNUSA :: u32 where
  "IXGBE_LSECRXNUSA = 0x08F80"

definition IXGBE_IPSTXIDX :: u32 where
  "IXGBE_IPSTXIDX = 0x08900"

definition IXGBE_IPSTXSALT :: u32 where
  "IXGBE_IPSTXSALT = 0x08904"

definition IXGBE_IPSTXKEY :: "u32 \<Rightarrow> u32" where
  "IXGBE_IPSTXKEY i = 0x08908 + (4 * i)"

definition IXGBE_IPSRXIDX :: u32 where
  "IXGBE_IPSRXIDX = 0x08E00"

definition IXGBE_IPSRXIPADDR :: "u32 \<Rightarrow> u32" where
  "IXGBE_IPSRXIPADDR i = 0x08E04 + (4 * i)"

definition IXGBE_IPSRXSPI :: u32 where
  "IXGBE_IPSRXSPI = 0x08E14"

definition IXGBE_IPSRXIPIDX :: u32 where
  "IXGBE_IPSRXIPIDX = 0x08E18"

definition IXGBE_IPSRXKEY :: "u32 \<Rightarrow> u32" where
  "IXGBE_IPSRXKEY i = 0x08E1C + (4 * i)"

definition IXGBE_IPSRXSALT :: u32 where
  "IXGBE_IPSRXSALT = 0x08E2C"

definition IXGBE_IPSRXMOD :: u32 where
  "IXGBE_IPSRXMOD = 0x08E30"

section \<open>DCB registers\<close>

definition IXGBE_RTRPCS :: u32 where
  "IXGBE_RTRPCS = 0x02430"

definition IXGBE_RTTDCS :: u32 where
  "IXGBE_RTTDCS = 0x04900"

definition IXGBE_RTTPCS :: u32 where
  "IXGBE_RTTPCS = 0x0CD00"

definition IXGBE_RTRUP2TC :: u32 where
  "IXGBE_RTRUP2TC = 0x03020"

definition IXGBE_RTTUP2TC :: u32 where
  "IXGBE_RTTUP2TC = 0x0C800"

definition IXGBE_RTRPT4C :: "u32 \<Rightarrow> u32" where
  "IXGBE_RTRPT4C i = 0x02140 + (i * 4)"

definition IXGBE_TXLLQ :: "u32 \<Rightarrow> u32" where
  "IXGBE_TXLLQ i = 0x082E0 + (i * 4)"

definition IXGBE_RTRPT4S :: "u32 \<Rightarrow> u32" where
  "IXGBE_RTRPT4S i = 0x02160 + (i * 4)"

definition IXGBE_RTTDT2C :: "u32 \<Rightarrow> u32" where
  "IXGBE_RTTDT2C i = 0x04910 + (i * 4)"

definition IXGBE_RTTDT2S :: "u32 \<Rightarrow> u32" where
  "IXGBE_RTTDT2S i = 0x04930 + (i * 4)"

definition IXGBE_RTTPT2C :: "u32 \<Rightarrow> u32" where
  "IXGBE_RTTPT2C i = 0x0CD20 + (i * 4)"

definition IXGBE_RTTPT2S :: "u32 \<Rightarrow> u32" where
  "IXGBE_RTTPT2S i = 0x0CD40 + (i * 4)"

definition IXGBE_RTTDQSEL :: u32 where
  "IXGBE_RTTDQSEL = 0x04904"

definition IXGBE_RTTDT1C :: u32 where
  "IXGBE_RTTDT1C = 0x04908"

definition IXGBE_RTTDT1S :: u32 where
  "IXGBE_RTTDT1S = 0x0490C"

definition IXGBE_RTTDTECC :: u32 where
  "IXGBE_RTTDTECC = 0x04990"

definition IXGBE_RTTBCNRC :: u32 where
  "IXGBE_RTTBCNRC = 0x04984"

definition IXGBE_RTTBCNRM :: u32 where
  "IXGBE_RTTBCNRM = 0x04980"

definition IXGBE_RTTBCNRS :: u32 where
  "IXGBE_RTTBCNRS = 0x04988"

definition IXGBE_RTTBCNCR :: u32 where
  "IXGBE_RTTBCNCR = 0x08B00"

definition IXGBE_RTTBCNACH :: u32 where
  "IXGBE_RTTBCNACH = 0x08B04"

definition IXGBE_RTTBCNACL :: u32 where
  "IXGBE_RTTBCNACL = 0x08B08"

definition IXGBE_RTTBCNTG :: u32 where
  "IXGBE_RTTBCNTG = 0x04A90"

definition IXGBE_RTTBCNIDX :: u32 where
  "IXGBE_RTTBCNIDX = 0x08B0C"

definition IXGBE_RTTBCNCP :: u32 where
  "IXGBE_RTTBCNCP = 0x08B10"

definition IXGBE_RTFRTIMER :: u32 where
  "IXGBE_RTFRTIMER = 0x08B14"

definition IXGBE_RTTBCNRTT :: u32 where
  "IXGBE_RTTBCNRTT = 0x05150"

definition IXGBE_RTTBCNRD :: u32 where
  "IXGBE_RTTBCNRD = 0x0498C"

section \<open>FCoE registers\<close>

definition IXGBE_FCDDC :: "u32 \<Rightarrow> u32 \<Rightarrow> u32" where
  "IXGBE_FCDDC i j = 0x20000 + (i * 0x4) + (j * 0x10)"

definition IXGBE_FCPTRL :: u32 where
  "IXGBE_FCPTRL = 0x02410"

definition IXGBE_FCPTRH :: u32 where
  "IXGBE_FCPTRH = 0x02414"

definition IXGBE_FCBUFF :: u32 where
  "IXGBE_FCBUFF = 0x02418"

definition IXGBE_FCDMARW :: u32 where
  "IXGBE_FCDMARW = 0x02420"

definition IXGBE_TEOFF :: u32 where
  "IXGBE_TEOFF = 0x04A94"

definition IXGBE_TSOFF :: u32 where
  "IXGBE_TSOFF = 0x04A98"

definition IXGBE_REOFF :: u32 where
  "IXGBE_REOFF = 0x05158"

definition IXGBE_RSOFF :: u32 where
  "IXGBE_RSOFF = 0x051F8"

definition IXGBE_FCD_ID :: u32 where
  "IXGBE_FCD_ID = 0x05114"

definition IXGBE_FCSMAC :: u32 where
  "IXGBE_FCSMAC = 0x0510C"

definition IXGBE_FCDFC :: "u32 \<Rightarrow> u32 \<Rightarrow> u32" where
  "IXGBE_FCDFC i j = 0x28000 + (i * 0x4) + (j * 0x10)"

definition IXGBE_FCDFCD :: "u32 \<Rightarrow> u32" where
  "IXGBE_FCDFCD i = 0x30000 + (i * 0x4)"

definition IXGBE_FCFLT :: u32 where
  "IXGBE_FCFLT = 0x05108"

definition IXGBE_FCFLTRW :: u32 where
  "IXGBE_FCFLTRW = 0x05110"

definition IXGBE_FCPARAM :: u32 where
  "IXGBE_FCPARAM = 0x051d8"

definition IXGBE_FCRXCTRL :: u32 where
  "IXGBE_FCRXCTRL = 0x05100"

definition IXGBE_FCRECTL :: u32 where
  "IXGBE_FCRECTL = 0x0ED00"

definition IXGBE_FCRETA0 :: u32 where
  "IXGBE_FCRETA0 = 0x0ED10"

definition IXGBE_FCRETA :: "u32 \<Rightarrow> u32" where
  "IXGBE_FCRETA i = IXGBE_FCRETA0 + (i * 4)"

section \<open>Statistics registers\<close>

definition IXGBE_CRCERRS :: u32 where
  "IXGBE_CRCERRS = 0x04000"

definition IXGBE_ILLERRC :: u32 where
  "IXGBE_ILLERRC = 0x04004"

definition IXGBE_ERRBC :: u32 where
  "IXGBE_ERRBC = 0x04008"

definition IXGBE_MSPDC :: u32 where
  "IXGBE_MSPDC = 0x04010"

definition IXGBE_MPC :: "u32 \<Rightarrow> u32" where
  "IXGBE_MPC i = 0x03FA0 + (i * 4)"

definition IXGBE_MLFC :: u32 where
  "IXGBE_MLFC = 0x04034"

definition IXGBE_MRFC :: u32 where
  "IXGBE_MRFC = 0x04038"

definition IXGBE_RLEC :: u32 where
  "IXGBE_RLEC = 0x04040"

definition IXGBE_LXONTXC :: u32 where
  "IXGBE_LXONTXC = 0x03F60"

definition IXGBE_LXONRXC :: u32 where
  "IXGBE_LXONRXC = 0x0CF60"

definition IXGBE_LXOFFTXC :: u32 where
  "IXGBE_LXOFFTXC = 0x03F68"

definition IXGBE_LXOFFRXC :: u32 where
  "IXGBE_LXOFFRXC = 0x0CF68"

definition IXGBE_LXONRXCNT :: u32 where
  "IXGBE_LXONRXCNT = 0x041A4"

definition IXGBE_LXOFFRXCNT :: u32 where
  "IXGBE_LXOFFRXCNT = 0x041A8"

definition IXGBE_PXONRXCNT :: "u32 \<Rightarrow> u32" where
  "IXGBE_PXONRXCNT i = 0x04140 + (i * 4)"

definition IXGBE_PXOFFRXCNT :: "u32 \<Rightarrow> u32" where
  "IXGBE_PXOFFRXCNT i = 0x04160 + (i * 4)"

definition IXGBE_PXON2OFFCNT :: "u32 \<Rightarrow> u32" where
  "IXGBE_PXON2OFFCNT i = 0x03240 + (i * 4)"

definition IXGBE_PXONTXC :: "u32 \<Rightarrow> u32" where
  "IXGBE_PXONTXC i = 0x03F00 + (i * 4)"

definition IXGBE_PXONRXC :: "u32 \<Rightarrow> u32" where
  "IXGBE_PXONRXC i = 0x0CF00 + (i * 4)"

definition IXGBE_PXOFFTXC :: "u32 \<Rightarrow> u32" where
  "IXGBE_PXOFFTXC i = 0x03F20 + (i * 4)"

definition IXGBE_PXOFFRXC :: "u32 \<Rightarrow> u32" where
  "IXGBE_PXOFFRXC i = 0x0CF20 + (i * 4)"

definition IXGBE_PRC64 :: u32 where
  "IXGBE_PRC64 = 0x0405C"

definition IXGBE_PRC127 :: u32 where
  "IXGBE_PRC127 = 0x04060"

definition IXGBE_PRC255 :: u32 where
  "IXGBE_PRC255 = 0x04064"

definition IXGBE_PRC511 :: u32 where
  "IXGBE_PRC511 = 0x04068"

definition IXGBE_PRC1023 :: u32 where
  "IXGBE_PRC1023 = 0x0406C"

definition IXGBE_PRC1522 :: u32 where
  "IXGBE_PRC1522 = 0x04070"

definition IXGBE_GPRC :: u32 where
  "IXGBE_GPRC = 0x04074"

definition IXGBE_BPRC :: u32 where
  "IXGBE_BPRC = 0x04078"

definition IXGBE_MPRC :: u32 where
  "IXGBE_MPRC = 0x0407C"

definition IXGBE_GPTC :: u32 where
  "IXGBE_GPTC = 0x04080"

definition IXGBE_GORCL :: u32 where
  "IXGBE_GORCL = 0x04088"

definition IXGBE_GORCH :: u32 where
  "IXGBE_GORCH = 0x0408C"

definition IXGBE_GOTCL :: u32 where
  "IXGBE_GOTCL = 0x04090"

definition IXGBE_GOTCH :: u32 where
  "IXGBE_GOTCH = 0x04094"

definition IXGBE_RNBC :: "u32 \<Rightarrow> u32" where
  "IXGBE_RNBC i = 0x03FC0 + (i * 4)"

definition IXGBE_RUC :: u32 where
  "IXGBE_RUC = 0x040A4"

definition IXGBE_RFC :: u32 where
  "IXGBE_RFC = 0x040A8"

definition IXGBE_ROC :: u32 where
  "IXGBE_ROC = 0x040AC"

definition IXGBE_RJC :: u32 where
  "IXGBE_RJC = 0x040B0"

definition IXGBE_MNGPRC :: u32 where
  "IXGBE_MNGPRC = 0x040B4"

definition IXGBE_MNGPDC :: u32 where
  "IXGBE_MNGPDC = 0x040B8"

definition IXGBE_MNGPTC :: u32 where
  "IXGBE_MNGPTC = 0x0CF90"

definition IXGBE_TORL :: u32 where
  "IXGBE_TORL = 0x040C0"

definition IXGBE_TORH :: u32 where
  "IXGBE_TORH = 0x040C4"

definition IXGBE_TPR :: u32 where
  "IXGBE_TPR = 0x040D0"

definition IXGBE_TPT :: u32 where
  "IXGBE_TPT = 0x040D4"

definition IXGBE_PTC64 :: u32 where
  "IXGBE_PTC64 = 0x040D8"

definition IXGBE_PTC127 :: u32 where
  "IXGBE_PTC127 = 0x040DC"

definition IXGBE_PTC255 :: u32 where
  "IXGBE_PTC255 = 0x040E0"

definition IXGBE_PTC511 :: u32 where
  "IXGBE_PTC511 = 0x040E4"

definition IXGBE_PTC1023 :: u32 where
  "IXGBE_PTC1023 = 0x040E8"

definition IXGBE_PTC1522 :: u32 where
  "IXGBE_PTC1522 = 0x040EC"

definition IXGBE_MPTC :: u32 where
  "IXGBE_MPTC = 0x040F0"

definition IXGBE_BPTC :: u32 where
  "IXGBE_BPTC = 0x040F4"

definition IXGBE_XEC :: u32 where
  "IXGBE_XEC = 0x04120"

definition IXGBE_SSVPC :: u32 where
  "IXGBE_SSVPC = 0x08780"

definition IXGBE_RQSMR :: "u32 \<Rightarrow> u32" where
  "IXGBE_RQSMR i = 0x02300 + (i * 4)"

definition IXGBE_TQSMR :: "u32 \<Rightarrow> u32" where
  "IXGBE_TQSMR i = (if i \<le> 7 then 0x07300 + (i * 4) else 0x08600 + (i * 4))"

definition IXGBE_TQSM :: "u32 \<Rightarrow> u32" where
  "IXGBE_TQSM i = 0x08600 + (i * 4)"

definition IXGBE_QPRC :: "u32 \<Rightarrow> u32" where
  "IXGBE_QPRC i = 0x01030 + (i * 0x40)"

definition IXGBE_QPTC :: "u32 \<Rightarrow> u32" where
  "IXGBE_QPTC i = 0x06030 + (i * 0x40)"

definition IXGBE_QBRC :: "u32 \<Rightarrow> u32" where
  "IXGBE_QBRC i = 0x01034 + (i * 0x40)"

definition IXGBE_QBTC :: "u32 \<Rightarrow> u32" where
  "IXGBE_QBTC i = 0x06034 + (i * 0x40)"

definition IXGBE_QBRC_L :: "u32 \<Rightarrow> u32" where
  "IXGBE_QBRC_L i = 0x01034 + (i * 0x40)"

definition IXGBE_QBRC_H :: "u32 \<Rightarrow> u32" where
  "IXGBE_QBRC_H i = 0x01038 + (i * 0x40)"

definition IXGBE_QPRDC :: "u32 \<Rightarrow> u32" where
  "IXGBE_QPRDC i = 0x01430 + (i * 0x40)"

definition IXGBE_QBTC_L :: "u32 \<Rightarrow> u32" where
  "IXGBE_QBTC_L i = 0x08700 + (i * 0x8)"

definition IXGBE_QBTC_H :: "u32 \<Rightarrow> u32" where
  "IXGBE_QBTC_H i = 0x08704 + (i * 0x8)"

definition IXGBE_FCCRC :: u32 where
  "IXGBE_FCCRC = 0x05118"

definition IXGBE_FCOERPDC :: u32 where
  "IXGBE_FCOERPDC = 0x0241C"

definition IXGBE_FCLAST :: u32 where
  "IXGBE_FCLAST = 0x02424"

definition IXGBE_FCOEPRC :: u32 where
  "IXGBE_FCOEPRC = 0x02428"

definition IXGBE_FCOEDWRC :: u32 where
  "IXGBE_FCOEDWRC = 0x0242C"

definition IXGBE_FCOEPTC :: u32 where
  "IXGBE_FCOEPTC = 0x08784"

definition IXGBE_FCOEDWTC :: u32 where
  "IXGBE_FCOEDWTC = 0x08788"

definition IXGBE_O2BGPTC :: u32 where
  "IXGBE_O2BGPTC = 0x041C4"

definition IXGBE_O2BSPC :: u32 where
  "IXGBE_O2BSPC = 0x087B0"

definition IXGBE_B2OSPC :: u32 where
  "IXGBE_B2OSPC = 0x041C0"

definition IXGBE_B2OGPRC :: u32 where
  "IXGBE_B2OGPRC = 0x02F90"

definition IXGBE_BUPRC :: u32 where
  "IXGBE_BUPRC = 0x04180"

definition IXGBE_BMPRC :: u32 where
  "IXGBE_BMPRC = 0x04184"

definition IXGBE_BBPRC :: u32 where
  "IXGBE_BBPRC = 0x04188"

definition IXGBE_BUPTC :: u32 where
  "IXGBE_BUPTC = 0x0418C"

definition IXGBE_BMPTC :: u32 where
  "IXGBE_BMPTC = 0x04190"

definition IXGBE_BBPTC :: u32 where
  "IXGBE_BBPTC = 0x04194"

definition IXGBE_BCRCERRS :: u32 where
  "IXGBE_BCRCERRS = 0x04198"

definition IXGBE_BXONRXC :: u32 where
  "IXGBE_BXONRXC = 0x0419C"

definition IXGBE_BXOFFRXC :: u32 where
  "IXGBE_BXOFFRXC = 0x041E0"

definition IXGBE_BXONTXC :: u32 where
  "IXGBE_BXONTXC = 0x041E4"

definition IXGBE_BXOFFTXC :: u32 where
  "IXGBE_BXOFFTXC = 0x041E8"

section \<open>Management registers\<close>

definition IXGBE_MAVTV :: "u32 \<Rightarrow> u32" where
  "IXGBE_MAVTV i = 0x05010 + (i * 4)"

definition IXGBE_MFUTP :: "u32 \<Rightarrow> u32" where
  "IXGBE_MFUTP i = 0x05030 + (i * 4)"

definition IXGBE_MANC :: u32 where
  "IXGBE_MANC = 0x05820"

definition IXGBE_MFVAL :: u32 where
  "IXGBE_MFVAL = 0x05824"

definition IXGBE_MANC2H :: u32 where
  "IXGBE_MANC2H = 0x05860"

definition IXGBE_MDEF :: "u32 \<Rightarrow> u32" where
  "IXGBE_MDEF i = 0x05890 + (i * 4)"

definition IXGBE_MIPAF :: u32 where
  "IXGBE_MIPAF = 0x058B0"

definition IXGBE_MMAL :: "u32 \<Rightarrow> u32" where
  "IXGBE_MMAL i = 0x05910 + (i * 8)"

definition IXGBE_MMAH :: "u32 \<Rightarrow> u32" where
  "IXGBE_MMAH i = 0x05914 + (i * 8)"

definition IXGBE_FTFT :: u32 where
  "IXGBE_FTFT = 0x09400"

definition IXGBE_METF :: "u32 \<Rightarrow> u32" where
  "IXGBE_METF i = 0x05190 + (i * 4)"

definition IXGBE_MDEF_EXT :: "u32 \<Rightarrow> u32" where
  "IXGBE_MDEF_EXT i = 0x05160 + (i * 4)"

definition IXGBE_LSWFW :: u32 where
  "IXGBE_LSWFW = 0x15F14"

definition IXGBE_BMCIP :: "u32 \<Rightarrow> u32" where
  "IXGBE_BMCIP i = 0x05050 + (i * 4)"

definition IXGBE_BMCIPVAL :: u32 where
  "IXGBE_BMCIPVAL = 0x05060"

definition IXGBE_HICR :: u32 where
  "IXGBE_HICR = 0x15F00"

definition IXGBE_FWSTS :: u32 where
  "IXGBE_FWSTS = 0x15F0C"

definition IXGBE_HSMC0R :: u32 where
  "IXGBE_HSMC0R = 0x15F04"

definition IXGBE_HSMC1R :: u32 where
  "IXGBE_HSMC1R = 0x15F08"

definition IXGBE_SWSR :: u32 where
  "IXGBE_SWSR = 0x15F10"

definition IXGBE_HFDR :: u32 where
  "IXGBE_HFDR = 0x15FE8"

definition IXGBE_FLEX_MNG :: u32 where
  "IXGBE_FLEX_MNG = 0x15800"

section \<open>PCI-E registers\<close>

definition IXGBE_GCR :: u32 where
  "IXGBE_GCR = 0x11000"

definition IXGBE_GTV :: u32 where
  "IXGBE_GTV = 0x11004"

definition IXGBE_FUNCTAG :: u32 where
  "IXGBE_FUNCTAG = 0x11008"

definition IXGBE_GLT :: u32 where
  "IXGBE_GLT = 0x1100C"

definition IXGBE_PCIEPIPEADR :: u32 where
  "IXGBE_PCIEPIPEADR = 0x11004"

definition IXGBE_PCIEPIPEDAT :: u32 where
  "IXGBE_PCIEPIPEDAT = 0x11008"

definition IXGBE_GSCL_1 :: u32 where
  "IXGBE_GSCL_1 = 0x11010"

definition IXGBE_GSCL_2 :: u32 where
  "IXGBE_GSCL_2 = 0x11014"

definition IXGBE_GSCL_3 :: u32 where
  "IXGBE_GSCL_3 = 0x11018"

definition IXGBE_GSCL_4 :: u32 where
  "IXGBE_GSCL_4 = 0x1101C"

definition IXGBE_GSCN_0 :: u32 where
  "IXGBE_GSCN_0 = 0x11020"

definition IXGBE_GSCN_1 :: u32 where
  "IXGBE_GSCN_1 = 0x11024"

definition IXGBE_GSCN_2 :: u32 where
  "IXGBE_GSCN_2 = 0x11028"

definition IXGBE_GSCN_3 :: u32 where
  "IXGBE_GSCN_3 = 0x1102C"

definition IXGBE_FACTPS :: u32 where
  "IXGBE_FACTPS = 0x10150"

definition IXGBE_GSCL_1_X550 :: u32 where
  "IXGBE_GSCL_1_X550 = 0x11800"

definition IXGBE_GSCL_2_X550 :: u32 where
  "IXGBE_GSCL_2_X550 = 0x11804"

definition IXGBE_GSCN_0_X550 :: u32 where
  "IXGBE_GSCN_0_X550 = 0x11820"

definition IXGBE_GSCN_1_X550 :: u32 where
  "IXGBE_GSCN_1_X550 = 0x11824"

definition IXGBE_GSCN_2_X550 :: u32 where
  "IXGBE_GSCN_2_X550 = 0x11828"

definition IXGBE_GSCN_3_X550 :: u32 where
  "IXGBE_GSCN_3_X550 = 0x1182C"

definition IXGBE_FACTPS_X550EM_a :: u32 where
  "IXGBE_FACTPS_X550EM_a = 0x15FEC"

definition IXGBE_PCIEANACTL :: u32 where
  "IXGBE_PCIEANACTL = 0x11040"

definition IXGBE_SWSM :: u32 where
  "IXGBE_SWSM = 0x10140"

definition IXGBE_SWSM_X550EM_a :: u32 where
  "IXGBE_SWSM_X550EM_a = 0x15F70"

definition IXGBE_FWSM :: u32 where
  "IXGBE_FWSM = 0x10148"

definition IXGBE_FWSM_X550EM_a :: u32 where
  "IXGBE_FWSM_X550EM_a = 0x15F74"

definition IXGBE_SWFW_SYNC_X550EM_a :: u32 where
  "IXGBE_SWFW_SYNC_X550EM_a = 0x15F78"

definition IXGBE_GSSR :: u32 where
  "IXGBE_GSSR = 0x10160"

definition IXGBE_MREVID :: u32 where
  "IXGBE_MREVID = 0x11064"

definition IXGBE_DCA_ID :: u32 where
  "IXGBE_DCA_ID = 0x11070"

definition IXGBE_DCA_CTRL :: u32 where
  "IXGBE_DCA_CTRL = 0x11074"

definition IXGBE_GCR_EXT :: u32 where
  "IXGBE_GCR_EXT = 0x11050"

definition IXGBE_GSCL_5_82599 :: u32 where
  "IXGBE_GSCL_5_82599 = 0x11030"

definition IXGBE_GSCL_6_82599 :: u32 where
  "IXGBE_GSCL_6_82599 = 0x11034"

definition IXGBE_GSCL_7_82599 :: u32 where
  "IXGBE_GSCL_7_82599 = 0x11038"

definition IXGBE_GSCL_8_82599 :: u32 where
  "IXGBE_GSCL_8_82599 = 0x1103C"

definition IXGBE_PHYADR_82599 :: u32 where
  "IXGBE_PHYADR_82599 = 0x11040"

definition IXGBE_PHYDAT_82599 :: u32 where
  "IXGBE_PHYDAT_82599 = 0x11044"

definition IXGBE_PHYCTL_82599 :: u32 where
  "IXGBE_PHYCTL_82599 = 0x11048"

definition IXGBE_PBACLR_82599 :: u32 where
  "IXGBE_PBACLR_82599 = 0x11068"

definition IXGBE_CIAA :: u32 where
  "IXGBE_CIAA = 0x11088"

definition IXGBE_CIAD :: u32 where
  "IXGBE_CIAD = 0x1108C"

definition IXGBE_GSCL_5_X550 :: u32 where
  "IXGBE_GSCL_5_X550 = 0x11810"

definition IXGBE_GSCL_6_X550 :: u32 where
  "IXGBE_GSCL_6_X550 = 0x11814"

definition IXGBE_GSCL_7_X550 :: u32 where
  "IXGBE_GSCL_7_X550 = 0x11818"

definition IXGBE_GSCL_8_X550 :: u32 where
  "IXGBE_GSCL_8_X550 = 0x1181C"

definition IXGBE_CIAA_X550 :: u32 where
  "IXGBE_CIAA_X550 = 0x11508"

definition IXGBE_CIAD_X550 :: u32 where
  "IXGBE_CIAD_X550 = 0x11510"

definition IXGBE_PICAUSE :: u32 where
  "IXGBE_PICAUSE = 0x110B0"

definition IXGBE_PIENA :: u32 where
  "IXGBE_PIENA = 0x110B8"

definition IXGBE_CDQ_MBR_82599 :: u32 where
  "IXGBE_CDQ_MBR_82599 = 0x110B4"

definition IXGBE_PCIESPARE :: u32 where
  "IXGBE_PCIESPARE = 0x110BC"

definition IXGBE_MISC_REG_82599 :: u32 where
  "IXGBE_MISC_REG_82599 = 0x110F0"

definition IXGBE_ECC_CTRL_0_82599 :: u32 where
  "IXGBE_ECC_CTRL_0_82599 = 0x11100"

definition IXGBE_ECC_CTRL_1_82599 :: u32 where
  "IXGBE_ECC_CTRL_1_82599 = 0x11104"

definition IXGBE_ECC_STATUS_82599 :: u32 where
  "IXGBE_ECC_STATUS_82599 = 0x110E0"

definition IXGBE_BAR_CTRL_82599 :: u32 where
  "IXGBE_BAR_CTRL_82599 = 0x110F4"

section \<open>Time sync registers\<close>

definition IXGBE_TSYNCRXCTL :: u32 where
  "IXGBE_TSYNCRXCTL = 0x05188"

definition IXGBE_TSYNCTXCTL :: u32 where
  "IXGBE_TSYNCTXCTL = 0x08C00"

definition IXGBE_RXSTMPL :: u32 where
  "IXGBE_RXSTMPL = 0x051E8"

definition IXGBE_RXSTMPH :: u32 where
  "IXGBE_RXSTMPH = 0x051A4"

definition IXGBE_RXSATRL :: u32 where
  "IXGBE_RXSATRL = 0x051A0"

definition IXGBE_RXSATRH :: u32 where
  "IXGBE_RXSATRH = 0x051A8"

definition IXGBE_RXMTRL :: u32 where
  "IXGBE_RXMTRL = 0x05120"

definition IXGBE_TXSTMPL :: u32 where
  "IXGBE_TXSTMPL = 0x08C04"

definition IXGBE_TXSTMPH :: u32 where
  "IXGBE_TXSTMPH = 0x08C08"

definition IXGBE_SYSTIML :: u32 where
  "IXGBE_SYSTIML = 0x08C0C"

definition IXGBE_SYSTIMH :: u32 where
  "IXGBE_SYSTIMH = 0x08C10"

definition IXGBE_SYSTIMR :: u32 where
  "IXGBE_SYSTIMR = 0x08C58"

definition IXGBE_TIMINCA :: u32 where
  "IXGBE_TIMINCA = 0x08C14"

definition IXGBE_TIMADJL :: u32 where
  "IXGBE_TIMADJL = 0x08C18"

definition IXGBE_TIMADJH :: u32 where
  "IXGBE_TIMADJH = 0x08C1C"

definition IXGBE_TSAUXC :: u32 where
  "IXGBE_TSAUXC = 0x08C20"

definition IXGBE_TRGTTIML0 :: u32 where
  "IXGBE_TRGTTIML0 = 0x08C24"

definition IXGBE_TRGTTIMH0 :: u32 where
  "IXGBE_TRGTTIMH0 = 0x08C28"

definition IXGBE_TRGTTIML1 :: u32 where
  "IXGBE_TRGTTIML1 = 0x08C2C"

definition IXGBE_TRGTTIMH1 :: u32 where
  "IXGBE_TRGTTIMH1 = 0x08C30"

definition IXGBE_CLKTIML :: u32 where
  "IXGBE_CLKTIML = 0x08C34"

definition IXGBE_CLKTIMH :: u32 where
  "IXGBE_CLKTIMH = 0x08C38"

definition IXGBE_FREQOUT0 :: u32 where
  "IXGBE_FREQOUT0 = 0x08C34"

definition IXGBE_FREQOUT1 :: u32 where
  "IXGBE_FREQOUT1 = 0x08C38"

definition IXGBE_AUXSTMPL0 :: u32 where
  "IXGBE_AUXSTMPL0 = 0x08C3C"

definition IXGBE_AUXSTMPH0 :: u32 where
  "IXGBE_AUXSTMPH0 = 0x08C40"

definition IXGBE_AUXSTMPL1 :: u32 where
  "IXGBE_AUXSTMPL1 = 0x08C44"

definition IXGBE_AUXSTMPH1 :: u32 where
  "IXGBE_AUXSTMPH1 = 0x08C48"

definition IXGBE_TSIM :: u32 where
  "IXGBE_TSIM = 0x08C68"

definition IXGBE_TSICR :: u32 where
  "IXGBE_TSICR = 0x08C60"

definition IXGBE_TSSDP :: u32 where
  "IXGBE_TSSDP = 0x0003C"

section \<open>Diagnostic registers\<close>

definition IXGBE_RDSTATCTL :: u32 where
  "IXGBE_RDSTATCTL = 0x02C20"

definition IXGBE_RDSTAT :: "u32 \<Rightarrow> u32" where
  "IXGBE_RDSTAT i = 0x02C00 + (i * 4)"

definition IXGBE_RDHMPN :: u32 where
  "IXGBE_RDHMPN = 0x02F08"

definition IXGBE_RIC_DW :: "u32 \<Rightarrow> u32" where
  "IXGBE_RIC_DW i = 0x02F10 + (i * 4)"

definition IXGBE_RDPROBE :: u32 where
  "IXGBE_RDPROBE = 0x02F20"

definition IXGBE_RDMAM :: u32 where
  "IXGBE_RDMAM = 0x02F30"

definition IXGBE_RDMAD :: u32 where
  "IXGBE_RDMAD = 0x02F34"

definition IXGBE_TDHMPN :: u32 where
  "IXGBE_TDHMPN = 0x07F08"

definition IXGBE_TDHMPN2 :: u32 where
  "IXGBE_TDHMPN2 = 0x082FC"

definition IXGBE_TXDESCIC :: u32 where
  "IXGBE_TXDESCIC = 0x082CC"

definition IXGBE_TIC_DW :: "u32 \<Rightarrow> u32" where
  "IXGBE_TIC_DW i = 0x07F10 + (i * 4)"

definition IXGBE_TIC_DW2 :: "u32 \<Rightarrow> u32" where
  "IXGBE_TIC_DW2 i = 0x082B0 + (i * 4)"

definition IXGBE_TDPROBE :: u32 where
  "IXGBE_TDPROBE = 0x07F20"

definition IXGBE_TXBUFCTRL :: u32 where
  "IXGBE_TXBUFCTRL = 0x0C600"

definition IXGBE_TXBUFDATA0 :: u32 where
  "IXGBE_TXBUFDATA0 = 0x0C610"

definition IXGBE_TXBUFDATA1 :: u32 where
  "IXGBE_TXBUFDATA1 = 0x0C614"

definition IXGBE_TXBUFDATA2 :: u32 where
  "IXGBE_TXBUFDATA2 = 0x0C618"

definition IXGBE_TXBUFDATA3 :: u32 where
  "IXGBE_TXBUFDATA3 = 0x0C61C"

definition IXGBE_RXBUFCTRL :: u32 where
  "IXGBE_RXBUFCTRL = 0x03600"

definition IXGBE_RXBUFDATA0 :: u32 where
  "IXGBE_RXBUFDATA0 = 0x03610"

definition IXGBE_RXBUFDATA1 :: u32 where
  "IXGBE_RXBUFDATA1 = 0x03614"

definition IXGBE_RXBUFDATA2 :: u32 where
  "IXGBE_RXBUFDATA2 = 0x03618"

definition IXGBE_RXBUFDATA3 :: u32 where
  "IXGBE_RXBUFDATA3 = 0x0361C"

definition IXGBE_PCIE_DIAG :: "u32 \<Rightarrow> u32" where
  "IXGBE_PCIE_DIAG i = 0x11090 + (i * 4)"

definition IXGBE_RFVAL :: u32 where
  "IXGBE_RFVAL = 0x050A4"

definition IXGBE_MDFTC1 :: u32 where
  "IXGBE_MDFTC1 = 0x042B8"

definition IXGBE_MDFTC2 :: u32 where
  "IXGBE_MDFTC2 = 0x042C0"

definition IXGBE_MDFTFIFO1 :: u32 where
  "IXGBE_MDFTFIFO1 = 0x042C4"

definition IXGBE_MDFTFIFO2 :: u32 where
  "IXGBE_MDFTFIFO2 = 0x042C8"

definition IXGBE_MDFTS :: u32 where
  "IXGBE_MDFTS = 0x042CC"

definition IXGBE_RXDATAWRPTR :: "u32 \<Rightarrow> u32" where
  "IXGBE_RXDATAWRPTR i = 0x03700 + (i * 4)"

definition IXGBE_RXDESCWRPTR :: "u32 \<Rightarrow> u32" where
  "IXGBE_RXDESCWRPTR i = 0x03710 + (i * 4)"

definition IXGBE_RXDATARDPTR :: "u32 \<Rightarrow> u32" where
  "IXGBE_RXDATARDPTR i = 0x03720 + (i * 4)"

definition IXGBE_RXDESCRDPTR :: "u32 \<Rightarrow> u32" where
  "IXGBE_RXDESCRDPTR i = 0x03730 + (i * 4)"

definition IXGBE_TXDATAWRPTR :: "u32 \<Rightarrow> u32" where
  "IXGBE_TXDATAWRPTR i = 0x0C700 + (i * 4)"

definition IXGBE_TXDESCWRPTR :: "u32 \<Rightarrow> u32" where
  "IXGBE_TXDESCWRPTR i = 0x0C710 + (i * 4)"

definition IXGBE_TXDATARDPTR :: "u32 \<Rightarrow> u32" where
  "IXGBE_TXDATARDPTR i = 0x0C720 + (i * 4)"

definition IXGBE_TXDESCRDPTR :: "u32 \<Rightarrow> u32" where
  "IXGBE_TXDESCRDPTR i = 0x0C730 + (i * 4)"

definition IXGBE_PCIEECCCTL :: u32 where
  "IXGBE_PCIEECCCTL = 0x1106C"

definition IXGBE_RXWRPTR :: "u32 \<Rightarrow> u32" where
  "IXGBE_RXWRPTR i = 0x03100 + (i * 4)"

definition IXGBE_RXUSED :: "u32 \<Rightarrow> u32" where
  "IXGBE_RXUSED i = 0x03120 + (i * 4)"

definition IXGBE_RXRDPTR :: "u32 \<Rightarrow> u32" where
  "IXGBE_RXRDPTR i = 0x03140 + (i * 4)"

definition IXGBE_RXRDWRPTR :: "u32 \<Rightarrow> u32" where
  "IXGBE_RXRDWRPTR i = 0x03160 + (i * 4)"

definition IXGBE_TXWRPTR :: "u32 \<Rightarrow> u32" where
  "IXGBE_TXWRPTR i = 0x0C100 + (i * 4)"

definition IXGBE_TXUSED :: "u32 \<Rightarrow> u32" where
  "IXGBE_TXUSED i = 0x0C120 + (i * 4)"

definition IXGBE_TXRDPTR :: "u32 \<Rightarrow> u32" where
  "IXGBE_TXRDPTR i = 0x0C140 + (i * 4)"

definition IXGBE_TXRDWRPTR :: "u32 \<Rightarrow> u32" where
  "IXGBE_TXRDWRPTR i = 0x0C160 + (i * 4)"

definition IXGBE_PCIEECCCTL0 :: u32 where
  "IXGBE_PCIEECCCTL0 = 0x11100"

definition IXGBE_PCIEECCCTL1 :: u32 where
  "IXGBE_PCIEECCCTL1 = 0x11104"

definition IXGBE_RXDBUECC :: u32 where
  "IXGBE_RXDBUECC = 0x03F70"

definition IXGBE_TXDBUECC :: u32 where
  "IXGBE_TXDBUECC = 0x0CF70"

definition IXGBE_RXDBUEST :: u32 where
  "IXGBE_RXDBUEST = 0x03F74"

definition IXGBE_TXDBUEST :: u32 where
  "IXGBE_TXDBUEST = 0x0CF74"

definition IXGBE_PBTXECC :: u32 where
  "IXGBE_PBTXECC = 0x0C300"

definition IXGBE_PBRXECC :: u32 where
  "IXGBE_PBRXECC = 0x03300"

definition IXGBE_GHECCR :: u32 where
  "IXGBE_GHECCR = 0x110B0"

section \<open>MAC registers\<close>

definition IXGBE_PCS1GCFIG :: u32 where
  "IXGBE_PCS1GCFIG = 0x04200"

definition IXGBE_PCS1GLCTL :: u32 where
  "IXGBE_PCS1GLCTL = 0x04208"

definition IXGBE_PCS1GLSTA :: u32 where
  "IXGBE_PCS1GLSTA = 0x0420C"

definition IXGBE_PCS1GDBG0 :: u32 where
  "IXGBE_PCS1GDBG0 = 0x04210"

definition IXGBE_PCS1GDBG1 :: u32 where
  "IXGBE_PCS1GDBG1 = 0x04214"

definition IXGBE_PCS1GANA :: u32 where
  "IXGBE_PCS1GANA = 0x04218"

definition IXGBE_PCS1GANLP :: u32 where
  "IXGBE_PCS1GANLP = 0x0421C"

definition IXGBE_PCS1GANNP :: u32 where
  "IXGBE_PCS1GANNP = 0x04220"

definition IXGBE_PCS1GANLPNP :: u32 where
  "IXGBE_PCS1GANLPNP = 0x04224"

definition IXGBE_HLREG0 :: u32 where
  "IXGBE_HLREG0 = 0x04240"

definition IXGBE_HLREG1 :: u32 where
  "IXGBE_HLREG1 = 0x04244"

definition IXGBE_PAP :: u32 where
  "IXGBE_PAP = 0x04248"

definition IXGBE_MACA :: u32 where
  "IXGBE_MACA = 0x0424C"

definition IXGBE_APAE :: u32 where
  "IXGBE_APAE = 0x04250"

definition IXGBE_ARD :: u32 where
  "IXGBE_ARD = 0x04254"

definition IXGBE_AIS :: u32 where
  "IXGBE_AIS = 0x04258"

definition IXGBE_MSCA :: u32 where
  "IXGBE_MSCA = 0x0425C"

definition IXGBE_MSRWD :: u32 where
  "IXGBE_MSRWD = 0x04260"

definition IXGBE_MLADD :: u32 where
  "IXGBE_MLADD = 0x04264"

definition IXGBE_MHADD :: u32 where
  "IXGBE_MHADD = 0x04268"

definition IXGBE_MAXFRS :: u32 where
  "IXGBE_MAXFRS = 0x04268"

definition IXGBE_TREG :: u32 where
  "IXGBE_TREG = 0x0426C"

definition IXGBE_PCSS1 :: u32 where
  "IXGBE_PCSS1 = 0x04288"

definition IXGBE_PCSS2 :: u32 where
  "IXGBE_PCSS2 = 0x0428C"

definition IXGBE_XPCSS :: u32 where
  "IXGBE_XPCSS = 0x04290"

definition IXGBE_MFLCN :: u32 where
  "IXGBE_MFLCN = 0x04294"

definition IXGBE_SERDESC :: u32 where
  "IXGBE_SERDESC = 0x04298"

definition IXGBE_MAC_SGMII_BUSY :: u32 where
  "IXGBE_MAC_SGMII_BUSY = 0x04298"

definition IXGBE_MACS :: u32 where
  "IXGBE_MACS = 0x0429C"

definition IXGBE_AUTOC :: u32 where
  "IXGBE_AUTOC = 0x042A0"

definition IXGBE_LINKS :: u32 where
  "IXGBE_LINKS = 0x042A4"

definition IXGBE_LINKS2 :: u32 where
  "IXGBE_LINKS2 = 0x04324"

definition IXGBE_AUTOC2 :: u32 where
  "IXGBE_AUTOC2 = 0x042A8"

definition IXGBE_AUTOC3 :: u32 where
  "IXGBE_AUTOC3 = 0x042AC"

definition IXGBE_ANLP1 :: u32 where
  "IXGBE_ANLP1 = 0x042B0"

definition IXGBE_ANLP2 :: u32 where
  "IXGBE_ANLP2 = 0x042B4"

definition IXGBE_MACC :: u32 where
  "IXGBE_MACC = 0x04330"

definition IXGBE_ATLASCTL :: u32 where
  "IXGBE_ATLASCTL = 0x04800"

definition IXGBE_MMNGC :: u32 where
  "IXGBE_MMNGC = 0x042D0"

definition IXGBE_ANLPNP1 :: u32 where
  "IXGBE_ANLPNP1 = 0x042D4"

definition IXGBE_ANLPNP2 :: u32 where
  "IXGBE_ANLPNP2 = 0x042D8"

definition IXGBE_KRPCSFC :: u32 where
  "IXGBE_KRPCSFC = 0x042E0"

definition IXGBE_KRPCSS :: u32 where
  "IXGBE_KRPCSS = 0x042E4"

definition IXGBE_FECS1 :: u32 where
  "IXGBE_FECS1 = 0x042E8"

definition IXGBE_FECS2 :: u32 where
  "IXGBE_FECS2 = 0x042EC"

definition IXGBE_SMADARCTL :: u32 where
  "IXGBE_SMADARCTL = 0x14F10"

definition IXGBE_MPVC :: u32 where
  "IXGBE_MPVC = 0x04318"

definition IXGBE_SGMIIC :: u32 where
  "IXGBE_SGMIIC = 0x04314"

definition IXGBE_RXNFGPC :: u32 where
  "IXGBE_RXNFGPC = 0x041B0"

definition IXGBE_RXNFGBCL :: u32 where
  "IXGBE_RXNFGBCL = 0x041B4"

definition IXGBE_RXNFGBCH :: u32 where
  "IXGBE_RXNFGBCH = 0x041B8"

definition IXGBE_RXDGPC :: u32 where
  "IXGBE_RXDGPC = 0x02F50"

definition IXGBE_RXDGBCL :: u32 where
  "IXGBE_RXDGBCL = 0x02F54"

definition IXGBE_RXDGBCH :: u32 where
  "IXGBE_RXDGBCH = 0x02F58"

definition IXGBE_RXDDGPC :: u32 where
  "IXGBE_RXDDGPC = 0x02F5C"

definition IXGBE_RXDDGBCL :: u32 where
  "IXGBE_RXDDGBCL = 0x02F60"

definition IXGBE_RXDDGBCH :: u32 where
  "IXGBE_RXDDGBCH = 0x02F64"

definition IXGBE_RXLPBKGPC :: u32 where
  "IXGBE_RXLPBKGPC = 0x02F68"

definition IXGBE_RXLPBKGBCL :: u32 where
  "IXGBE_RXLPBKGBCL = 0x02F6C"

definition IXGBE_RXLPBKGBCH :: u32 where
  "IXGBE_RXLPBKGBCH = 0x02F70"

definition IXGBE_RXDLPBKGPC :: u32 where
  "IXGBE_RXDLPBKGPC = 0x02F74"

definition IXGBE_RXDLPBKGBCL :: u32 where
  "IXGBE_RXDLPBKGBCL = 0x02F78"

definition IXGBE_RXDLPBKGBCH :: u32 where
  "IXGBE_RXDLPBKGBCH = 0x02F7C"

definition IXGBE_TXDGPC :: u32 where
  "IXGBE_TXDGPC = 0x087A0"

definition IXGBE_TXDGBCL :: u32 where
  "IXGBE_TXDGBCL = 0x087A4"

definition IXGBE_TXDGBCH :: u32 where
  "IXGBE_TXDGBCH = 0x087A8"

definition IXGBE_RXDSTATCTRL :: u32 where
  "IXGBE_RXDSTATCTRL = 0x02F40"

section \<open>Fields of registers and descriptors\<close>

definition IXGBE_DMATXCTL_TE :: u32 where
  "IXGBE_DMATXCTL_TE = 0x1"

definition IXGBE_RTTDCS_ARBDIS :: u32 where
  "IXGBE_RTTDCS_ARBDIS = 0x00000040"

definition IXGBE_RDRXCTL_CRCSTRIP :: u32 where
  "IXGBE_RDRXCTL_CRCSTRIP = 0x00000002"

definition IXGBE_RDRXCTL_DMAIDONE :: u32 where
  "IXGBE_RDRXCTL_DMAIDONE = 0x00000008"

definition IXGBE_CTRL_LNK_RST :: u32 where
  "IXGBE_CTRL_LNK_RST = 0x00000008"

definition IXGBE_CTRL_RST :: u32 where
  "IXGBE_CTRL_RST = 0x04000000"

definition IXGBE_CTRL_RST_MASK :: u32 where
  "IXGBE_CTRL_RST_MASK = IXGBE_CTRL_LNK_RST OR IXGBE_CTRL_RST"

definition IXGBE_CTRL_EXT_NS_DIS :: u32 where
  "IXGBE_CTRL_EXT_NS_DIS = 0x00010000"

definition IXGBE_TXPBSIZE_40KB :: u32 where
  "IXGBE_TXPBSIZE_40KB = 0x0000A000"

definition IXGBE_RXPBSIZE_128KB :: u32 where
  "IXGBE_RXPBSIZE_128KB = 0x00020000"

definition IXGBE_HLREG0_TXCRCEN :: u32 where
  "IXGBE_HLREG0_TXCRCEN = 0x00000001"

definition IXGBE_HLREG0_RXCRCSTRP :: u32 where
  "IXGBE_HLREG0_RXCRCSTRP = 0x00000002"

definition IXGBE_HLREG0_TXPADEN :: u32 where
  "IXGBE_HLREG0_TXPADEN = 0x00000400"

definition IXGBE_IRQ_CLEAR_MASK :: u32 where
  "IXGBE_IRQ_CLEAR_MASK = 0xFFFFFFFF"

definition IXGBE_AUTOC_AN_RESTART :: u32 where
  "IXGBE_AUTOC_AN_RESTART = 0x00001000"

definition IXGBE_AUTOC_LMS_SHIFT :: u32 where
  "IXGBE_AUTOC_LMS_SHIFT = 13"

definition IXGBE_AUTOC_LMS_10G_SERIAL :: u32 where
  "IXGBE_AUTOC_LMS_10G_SERIAL = push_bit (unat IXGBE_AUTOC_LMS_SHIFT) 0x3"

definition IXGBE_AUTOC_LMS_MASK :: u32 where
  "IXGBE_AUTOC_LMS_MASK = push_bit (unat IXGBE_AUTOC_LMS_SHIFT) 0x7"

definition IXGBE_AUTOC_10G_PMA_PMD_MASK :: u32 where
  "IXGBE_AUTOC_10G_PMA_PMD_MASK = 0x00000180"

definition IXGBE_AUTOC_10G_PMA_PMD_SHIFT :: u32 where
  "IXGBE_AUTOC_10G_PMA_PMD_SHIFT = 7"

definition IXGBE_AUTOC_10G_XAUI :: u32 where
  "IXGBE_AUTOC_10G_XAUI = push_bit (unat IXGBE_AUTOC_10G_PMA_PMD_SHIFT) 0x0"

definition IXGBE_LINKS_UP :: u32 where
  "IXGBE_LINKS_UP = 0x40000000"

definition IXGBE_LINKS_SPEED_82599 :: u32 where
  "IXGBE_LINKS_SPEED_82599 = 0x30000000"

definition IXGBE_LINKS_SPEED_10G_82599 :: u32 where
  "IXGBE_LINKS_SPEED_10G_82599 = 0x30000000"

definition IXGBE_LINKS_SPEED_1G_82599 :: u32 where
  "IXGBE_LINKS_SPEED_1G_82599 = 0x20000000"

definition IXGBE_LINKS_SPEED_100_82599 :: u32 where
  "IXGBE_LINKS_SPEED_100_82599 = 0x10000000"

definition IXGBE_EEC_ARD :: u32 where
  "IXGBE_EEC_ARD = 0x00000200"

definition IXGBE_TXDCTL_ENABLE :: u32 where
  "IXGBE_TXDCTL_ENABLE = 0x02000000"

definition IXGBE_RXCTRL_RXEN :: u32 where
  "IXGBE_RXCTRL_RXEN = 0x00000001"

definition IXGBE_RXDCTL_ENABLE :: u32 where
  "IXGBE_RXDCTL_ENABLE = 0x02000000"

definition IXGBE_FCTRL_MPE :: u32 where
  "IXGBE_FCTRL_MPE = 0x00000100"

definition IXGBE_FCTRL_UPE :: u32 where
  "IXGBE_FCTRL_UPE = 0x00000200"

definition IXGBE_FCTRL_BAM :: u32 where
  "IXGBE_FCTRL_BAM = 0x00000400"

definition IXGBE_TXD_CMD_EOP :: u32 where
  "IXGBE_TXD_CMD_EOP = 0x01000000"

definition IXGBE_TXD_CMD_IFCS :: u32 where
  "IXGBE_TXD_CMD_IFCS = 0x02000000"

definition IXGBE_TXD_CMD_RS :: u32 where
  "IXGBE_TXD_CMD_RS = 0x08000000"

definition IXGBE_TXD_CMD_DEXT :: u32 where
  "IXGBE_TXD_CMD_DEXT = 0x20000000"

definition IXGBE_TXD_STAT_DD :: u32 where
  "IXGBE_TXD_STAT_DD = 0x00000001"

definition IXGBE_RXD_STAT_DD :: u32 where
  "IXGBE_RXD_STAT_DD = 0x01"

definition IXGBE_RXD_STAT_EOP :: u32 where
  "IXGBE_RXD_STAT_EOP = 0x02"

definition IXGBE_RXDADV_STAT_DD :: u32 where
  "IXGBE_RXDADV_STAT_DD = IXGBE_RXD_STAT_DD"

definition IXGBE_RXDADV_STAT_EOP :: u32 where
  "IXGBE_RXDADV_STAT_EOP = IXGBE_RXD_STAT_EOP"

definition IXGBE_SRRCTL_DROP_EN :: u32 where
  "IXGBE_SRRCTL_DROP_EN = 0x10000000"

definition IXGBE_SRRCTL_DESCTYPE_ADV_ONEBUF :: u32 where
  "IXGBE_SRRCTL_DESCTYPE_ADV_ONEBUF = 0x02000000"

definition IXGBE_SRRCTL_DESCTYPE_MASK :: u32 where
  "IXGBE_SRRCTL_DESCTYPE_MASK = 0x0E000000"

definition IXGBE_ADVTXD_DTYP_DATA :: u32 where
  "IXGBE_ADVTXD_DTYP_DATA = 0x00300000"

definition IXGBE_ADVTXD_DCMD_EOP :: u32 where
  "IXGBE_ADVTXD_DCMD_EOP = IXGBE_TXD_CMD_EOP"

definition IXGBE_ADVTXD_DCMD_IFCS :: u32 where
  "IXGBE_ADVTXD_DCMD_IFCS = IXGBE_TXD_CMD_IFCS"

definition IXGBE_ADVTXD_DCMD_RS :: u32 where
  "IXGBE_ADVTXD_DCMD_RS = IXGBE_TXD_CMD_RS"

definition IXGBE_ADVTXD_DCMD_DEXT :: u32 where
  "IXGBE_ADVTXD_DCMD_DEXT = IXGBE_TXD_CMD_DEXT"

definition IXGBE_ADVTXD_STAT_DD :: u32 where
  "IXGBE_ADVTXD_STAT_DD = IXGBE_TXD_STAT_DD"

definition IXGBE_ADVTXD_PAYLEN_SHIFT :: u32 where
  "IXGBE_ADVTXD_PAYLEN_SHIFT = 14"

end
