(* ===== verification/Rush_Ixgbe.thy ===== *)
theory Rush_Ixgbe
  imports Rush_Registers Rush_Pci Rush_Link
begin

text \<open>
  \<open>src/ixy82599/ixgbe.rs\<close> and \<open>src/ixy82599/mod.rs\<close>: the driver of the Intel 82599.

  The device is the environment. It answers a register read as it likes, knowing which access it is and
  what was written to its registers so far; before any volatile read of a descriptor it may have written
  to the descriptors and to the payload of packets. The driver's own state is the device structure with
  its queues, beside the memory of the descriptor rings, the log of register writes and the packets.

  A loop that waits for the device is given a number of rounds.
\<close>

section \<open>Descriptors\<close>

text \<open>The unions of \<open>constants.rs\<close>: two quadwords, read and written in parts.\<close>

record desc =
  qw0 :: u64
  qw1 :: u64

definition set_pkt_addr :: "u64 \<Rightarrow> desc \<Rightarrow> desc" where
  "set_pkt_addr v d = d\<lparr>qw0 := v\<rparr>"

definition set_hdr_addr :: "u64 \<Rightarrow> desc \<Rightarrow> desc" where
  "set_hdr_addr v d = d\<lparr>qw1 := v\<rparr>"

definition rx_status_error :: "desc \<Rightarrow> u32" where
  "rx_status_error d = ucast (qw1 d)"

definition rx_length :: "desc \<Rightarrow> u16" where
  "rx_length d = ucast (drop_bit 32 (qw1 d))"

definition set_buffer_addr :: "u64 \<Rightarrow> desc \<Rightarrow> desc" where
  "set_buffer_addr v d = d\<lparr>qw0 := v\<rparr>"

definition set_cmd_type_len :: "u32 \<Rightarrow> desc \<Rightarrow> desc" where
  "set_cmd_type_len v d = d\<lparr>qw1 := push_bit 32 (drop_bit 32 (qw1 d)) OR ucast v\<rparr>"

definition set_olinfo_status :: "u32 \<Rightarrow> desc \<Rightarrow> desc" where
  "set_olinfo_status v d = d\<lparr>qw1 := push_bit 32 (ucast v) OR take_bit 32 (qw1 d)\<rparr>"

definition tx_status :: "desc \<Rightarrow> u32" where
  "tx_status d = ucast (drop_bit 32 (qw1 d))"

section \<open>State\<close>

definition NUM_RX_QUEUE_ENTRIES :: usize where
  "NUM_RX_QUEUE_ENTRIES = 512"

definition NUM_TX_QUEUE_ENTRIES :: usize where
  "NUM_TX_QUEUE_ENTRIES = 512"

definition TX_CLEAN_BATCH :: usize where
  "TX_CLEAN_BATCH = 32"

definition MAX_QUEUES :: u16 where
  "MAX_QUEUES = 64"

definition wrap_ring :: "usize \<Rightarrow> usize \<Rightarrow> usize" where
  "wrap_ring index ring_size = (index + 1) AND (ring_size - 1)"

record IxgbeRxQueue =
  rx_descriptors :: ptr
  rx_num_descriptors :: usize
  rx_bufs_in_use :: "ptr list"
  rx_index :: usize

record IxgbeTxQueue =
  tx_descriptors :: ptr
  tx_num_descriptors :: usize
  tx_bufs_in_use :: "ptr list"
  clean_index :: usize
  tx_index :: usize

record IxgbeDevice =
  pci_addr :: string
  dev_addr :: ptr
  dev_len :: usize
  num_rx_queues :: u16
  num_tx_queues :: u16
  rx_queues :: "IxgbeRxQueue list"
  tx_queues :: "IxgbeTxQueue list"

text \<open>What the driver says of itself.\<close>

definition DRIVER_NAME :: string where
  "DRIVER_NAME = ''ixy-ixgbe''"

definition get_driver_name :: "IxgbeDevice \<Rightarrow> string" where
  "get_driver_name dev = DRIVER_NAME"

definition is_card_iommu_capable :: "IxgbeDevice \<Rightarrow> bool" where
  "is_card_iommu_capable dev \<longleftrightarrow> False"

definition get_vfio_container :: "IxgbeDevice \<Rightarrow> int option" where
  "get_vfio_container dev = None"

definition get_pci_addr :: "IxgbeDevice \<Rightarrow> string" where
  "get_pci_addr dev = pci_addr dev"

text \<open>
  The device. \<open>hw_seconds\<close> is the monotonic clock, in seconds, at an access;
  \<open>data_offset\<close> is where the compiler puts the payload inside a packet.
\<close>

record hardware =
  hw_reg :: "nat \<Rightarrow> (u32 \<times> u32) list \<Rightarrow> u32 \<Rightarrow> u32"
  hw_desc :: "nat \<Rightarrow> (ptr \<Rightarrow> desc) \<Rightarrow> ptr \<Rightarrow> desc"
  hw_data :: "nat \<Rightarrow> (ptr \<Rightarrow> desc) \<Rightarrow> ptr \<Rightarrow> u8 list"
  hw_seconds :: "nat \<Rightarrow> nat"
  data_offset :: u64

record nic =
  desc_mem :: "ptr \<Rightarrow> desc"
  accesses :: nat
  reg_writes :: "(u32 \<times> u32) list"

section \<open>Memory\<close>

text \<open>The bytes the device puts at the start of a buffer; a buffer keeps its size.\<close>

definition dma_write :: "u8 list \<Rightarrow> u8 list \<Rightarrow> u8 list" where
  "dma_write new buf = take (length buf) new @ drop (length new) buf"

text \<open>What the device did up to a volatile read of a descriptor.\<close>

definition device_turn :: "hardware \<Rightarrow> nic \<times> 'a pkt_state_scheme \<Rightarrow> nic \<times> 'a pkt_state_scheme" where
  "device_turn H = (\<lambda>(ns, s).
     (ns\<lparr>desc_mem := hw_desc H (accesses ns) (desc_mem ns), accesses := Suc (accesses ns)\<rparr>,
      s\<lparr>heap := (\<lambda>p. (heap s p)\<lparr>pdata := dma_write (hw_data H (accesses ns) (desc_mem ns) p) (pdata (heap s p))\<rparr>)\<rparr>))"

definition desc_at :: "ptr \<Rightarrow> usize \<Rightarrow> ptr" where
  "desc_at base i = base + 16 * i"

definition write_desc :: "ptr \<Rightarrow> (desc \<Rightarrow> desc) \<Rightarrow> nic \<Rightarrow> nic" where
  "write_desc a f ns = ns\<lparr>desc_mem := (desc_mem ns)(a := f (desc_mem ns a))\<rparr>"

definition data_ptr :: "hardware \<Rightarrow> ptr \<Rightarrow> ptr" where
  "data_ptr H p = p + data_offset H"

text \<open>\<open>memset\<close> of \<open>len\<close> bytes, a number of whole descriptors, to 0xff.\<close>

definition memset_ff :: "ptr \<Rightarrow> usize \<Rightarrow> nic \<Rightarrow> nic" where
  "memset_ff base len ns =
     ns\<lparr>desc_mem := (\<lambda>a. if a - base < len \<and> (a - base) mod 16 = 0 then \<lparr>qw0 = - 1, qw1 = - 1\<rparr>
                       else desc_mem ns a)\<rparr>"

section \<open>Registers\<close>

definition in_bounds :: "IxgbeDevice \<Rightarrow> u32 \<Rightarrow> unit res" where
  "in_bounds dev reg = assert_res (ucast reg \<le> dev_len dev - 4) (AssertFailed ''memory access out of bounds'')"

definition get_reg32 :: "hardware \<Rightarrow> IxgbeDevice \<Rightarrow> u32 \<Rightarrow> nic \<Rightarrow> (u32 \<times> nic) res" where
  "get_reg32 H dev reg ns =
     bind_res (in_bounds dev reg) (\<lambda>_.
     Inr (hw_reg H (accesses ns) (reg_writes ns) reg, ns\<lparr>accesses := Suc (accesses ns)\<rparr>))"

definition set_reg32 :: "IxgbeDevice \<Rightarrow> u32 \<Rightarrow> u32 \<Rightarrow> nic \<Rightarrow> nic res" where
  "set_reg32 dev reg val ns =
     bind_res (in_bounds dev reg) (\<lambda>_. Inr (ns\<lparr>reg_writes := reg_writes ns @ [(reg, val)]\<rparr>))"

definition set_flags32 :: "hardware \<Rightarrow> IxgbeDevice \<Rightarrow> u32 \<Rightarrow> u32 \<Rightarrow> nic \<Rightarrow> nic res" where
  "set_flags32 H dev reg flags ns =
     bind_res (get_reg32 H dev reg ns) (\<lambda>(v, ns). set_reg32 dev reg (v OR flags) ns)"

definition clear_flags32 :: "hardware \<Rightarrow> IxgbeDevice \<Rightarrow> u32 \<Rightarrow> u32 \<Rightarrow> nic \<Rightarrow> nic res" where
  "clear_flags32 H dev reg flags ns =
     bind_res (get_reg32 H dev reg ns) (\<lambda>(v, ns). set_reg32 dev reg (v AND NOT flags) ns)"

primrec wait_clear_reg32 :: "nat \<Rightarrow> hardware \<Rightarrow> IxgbeDevice \<Rightarrow> u32 \<Rightarrow> u32 \<Rightarrow> nic \<Rightarrow> nic res" where
  "wait_clear_reg32 0 H dev reg val ns = Inl Diverges"
| "wait_clear_reg32 (Suc fuel) H dev reg val ns =
     bind_res (get_reg32 H dev reg ns) (\<lambda>(current, ns).
     if current AND val = 0 then Inr ns else wait_clear_reg32 fuel H dev reg val ns)"

primrec wait_set_reg32 :: "nat \<Rightarrow> hardware \<Rightarrow> IxgbeDevice \<Rightarrow> u32 \<Rightarrow> u32 \<Rightarrow> nic \<Rightarrow> nic res" where
  "wait_set_reg32 0 H dev reg val ns = Inl Diverges"
| "wait_set_reg32 (Suc fuel) H dev reg val ns =
     bind_res (get_reg32 H dev reg ns) (\<lambda>(current, ns).
     if current AND val = val then Inr ns else wait_set_reg32 fuel H dev reg val ns)"

text \<open>A block of statements, each on the device's state.\<close>

abbreviation steps :: "('s \<Rightarrow> 's res) list \<Rightarrow> 's \<Rightarrow> 's res" where
  "steps \<equiv> fold_res (\<lambda>f. f)"

text \<open>A statement \<open>self.get_reg32(reg);\<close> whose value is not used.\<close>

definition read_reg :: "hardware \<Rightarrow> IxgbeDevice \<Rightarrow> u32 \<Rightarrow> nic \<Rightarrow> nic res" where
  "read_reg H dev reg ns = bind_res (get_reg32 H dev reg ns) (\<lambda>(_, ns). Inr ns)"

definition clear_interrupts :: "hardware \<Rightarrow> IxgbeDevice \<Rightarrow> nic \<Rightarrow> nic res" where
  "clear_interrupts H dev =
     steps [set_reg32 dev IXGBE_EIMC IXGBE_IRQ_CLEAR_MASK, read_reg H dev IXGBE_EICR]"

definition disable_interrupts :: "hardware \<Rightarrow> IxgbeDevice \<Rightarrow> nic \<Rightarrow> nic res" where
  "disable_interrupts H dev = steps [set_reg32 dev IXGBE_EIMS 0, clear_interrupts H dev]"

definition set_promisc :: "hardware \<Rightarrow> IxgbeDevice \<Rightarrow> bool \<Rightarrow> nic \<Rightarrow> nic res" where
  "set_promisc H dev enabled =
     (if enabled then set_flags32 H dev IXGBE_FCTRL (IXGBE_FCTRL_MPE OR IXGBE_FCTRL_UPE)
      else clear_flags32 H dev IXGBE_FCTRL (IXGBE_FCTRL_MPE OR IXGBE_FCTRL_UPE))"

text \<open>\<open>self.set_reg32(reg, (self.get_reg32(reg) & !clear) | set)\<close>.\<close>

definition change_reg32 :: "hardware \<Rightarrow> IxgbeDevice \<Rightarrow> u32 \<Rightarrow> u32 \<Rightarrow> u32 \<Rightarrow> nic \<Rightarrow> nic res" where
  "change_reg32 H dev reg cl st ns =
     bind_res (get_reg32 H dev reg ns) (\<lambda>(v, ns). set_reg32 dev reg ((v AND NOT cl) OR st) ns)"

definition init_link :: "hardware \<Rightarrow> IxgbeDevice \<Rightarrow> nic \<Rightarrow> nic res" where
  "init_link H dev =
     steps
       [change_reg32 H dev IXGBE_AUTOC IXGBE_AUTOC_LMS_MASK IXGBE_AUTOC_LMS_10G_SERIAL,
        change_reg32 H dev IXGBE_AUTOC IXGBE_AUTOC_10G_PMA_PMD_MASK IXGBE_AUTOC_10G_XAUI,
        set_flags32 H dev IXGBE_AUTOC IXGBE_AUTOC_AN_RESTART]"

section \<open>Addresses, statistics and link speed\<close>

definition get_mac_addr :: "hardware \<Rightarrow> IxgbeDevice \<Rightarrow> nic \<Rightarrow> (MacAddress \<times> nic) res" where
  "get_mac_addr H dev ns =
     bind_res (get_reg32 H dev (IXGBE_RAL 0) ns) (\<lambda>(low, ns).
     bind_res (get_reg32 H dev (IXGBE_RAH 0) ns) (\<lambda>(high, ns).
     Inr ([ucast (low AND 0xff), ucast (drop_bit 8 low AND 0xff), ucast (drop_bit 16 low AND 0xff),
           ucast (drop_bit 24 low), ucast (high AND 0xff), ucast (drop_bit 8 high AND 0xff)], ns)))"

definition set_mac_addr :: "IxgbeDevice \<Rightarrow> MacAddress \<Rightarrow> nic \<Rightarrow> nic res" where
  "set_mac_addr dev mac =
     (let low = ucast (mac ! 0) + push_bit 8 (ucast (mac ! 1)) + push_bit 16 (ucast (mac ! 2)) +
                push_bit 24 (ucast (mac ! 3));
          high = ucast (mac ! 4) + push_bit 8 (ucast (mac ! 5))
      in steps [set_reg32 dev (IXGBE_RAL 0) low, set_reg32 dev (IXGBE_RAH 0) high])"

record DeviceStats =
  rx_pkts :: u64
  tx_pkts :: u64
  rx_bytes :: u64
  tx_bytes :: u64

definition default_stats :: DeviceStats where
  "default_stats = \<lparr>rx_pkts = 0, tx_pkts = 0, rx_bytes = 0, tx_bytes = 0\<rparr>"

definition read_stats :: "hardware \<Rightarrow> IxgbeDevice \<Rightarrow> DeviceStats \<Rightarrow> nic \<Rightarrow> (DeviceStats \<times> nic) res" where
  "read_stats H dev stats ns =
     bind_res (get_reg32 H dev IXGBE_GPRC ns) (\<lambda>(rx, ns).
     bind_res (get_reg32 H dev IXGBE_GPTC ns) (\<lambda>(tx, ns).
     bind_res (get_reg32 H dev IXGBE_GORCL ns) (\<lambda>(rxl, ns).
     bind_res (get_reg32 H dev IXGBE_GORCH ns) (\<lambda>(rxh, ns).
     bind_res (get_reg32 H dev IXGBE_GOTCL ns) (\<lambda>(txl, ns).
     bind_res (get_reg32 H dev IXGBE_GOTCH ns) (\<lambda>(txh, ns).
     Inr (stats\<lparr>rx_pkts := rx_pkts stats + ucast rx, tx_pkts := tx_pkts stats + ucast tx,
                rx_bytes := rx_bytes stats + (ucast rxl + push_bit 32 (ucast rxh)),
                tx_bytes := tx_bytes stats + (ucast txl + push_bit 32 (ucast txh))\<rparr>, ns)))))))"

definition reset_stats :: "hardware \<Rightarrow> IxgbeDevice \<Rightarrow> nic \<Rightarrow> nic res" where
  "reset_stats H dev =
     steps
       [read_reg H dev IXGBE_GPRC, read_reg H dev IXGBE_GPTC, read_reg H dev IXGBE_GORCL,
        read_reg H dev IXGBE_GORCH, read_reg H dev IXGBE_GOTCL, read_reg H dev IXGBE_GOTCH]"

definition get_link_speed :: "hardware \<Rightarrow> IxgbeDevice \<Rightarrow> nic \<Rightarrow> (u16 \<times> nic) res" where
  "get_link_speed H dev ns =
     bind_res (get_reg32 H dev IXGBE_LINKS ns) (\<lambda>(speed, ns).
     Inr (if speed AND IXGBE_LINKS_UP = 0 then 0
          else let v = speed AND IXGBE_LINKS_SPEED_82599 in
               if v = IXGBE_LINKS_SPEED_100_82599 then 100
               else if v = IXGBE_LINKS_SPEED_1G_82599 then 1000
               else if v = IXGBE_LINKS_SPEED_10G_82599 then 10000
               else 0, ns))"

primrec wait_link_loop :: "nat \<Rightarrow> hardware \<Rightarrow> IxgbeDevice \<Rightarrow> nat \<Rightarrow> u16 \<Rightarrow> nic \<Rightarrow> nic res" where
  "wait_link_loop 0 H dev start speed ns = Inl Diverges"
| "wait_link_loop (Suc fuel) H dev start speed ns =
     (if speed = 0 \<and> hw_seconds H (accesses ns) - start < 10 then
        bind_res (get_link_speed H dev ns) (\<lambda>(speed, ns). wait_link_loop fuel H dev start speed ns)
      else Inr ns)"

definition wait_for_link :: "nat \<Rightarrow> hardware \<Rightarrow> IxgbeDevice \<Rightarrow> nic \<Rightarrow> nic res" where
  "wait_for_link fuel H dev ns =
     (let start = hw_seconds H (accesses ns) in
      bind_res (get_link_speed H dev ns) (\<lambda>(speed, ns). wait_link_loop fuel H dev start speed ns))"

section \<open>Receiving\<close>

text \<open>\<open>v[i]\<close> of a vector.\<close>

definition vec_get :: "'b list \<Rightarrow> nat \<Rightarrow> 'b res" where
  "vec_get xs i = bind_res (assert_res (i < length xs) IndexOutOfBounds) (\<lambda>_. Inr (xs ! i))"

definition set_plen :: "ptr \<Rightarrow> u16 \<Rightarrow> 'a pkt_state_scheme \<Rightarrow> 'a pkt_state_scheme" where
  "set_plen p n s = s\<lparr>heap := (heap s)(p := (heap s p)\<lparr>plen := n\<rparr>)\<rparr>"

text \<open>
  The loop of \<open>rx_batch\<close>, with the packets still to receive: the queue, the two indices, the
  count, the output link, the device and the packets.
\<close>

primrec rx_loop ::
  "nat \<Rightarrow> os \<Rightarrow> hardware \<Rightarrow> IxgbeRxQueue \<times> usize \<times> usize \<times> nat \<times> Link \<times> nic \<times> 'a pkt_state_scheme \<Rightarrow>
   (IxgbeRxQueue \<times> usize \<times> usize \<times> nat \<times> Link \<times> nic \<times> 'a pkt_state_scheme) res" where
  "rx_loop 0 os H w = Inr w"
| "rx_loop (Suc k) os H w =
     (case w of (queue, rx, last_rx, received, outp, ns, s) \<Rightarrow>
      let desc = desc_at (rx_descriptors queue) rx; (ns, s) = device_turn H (ns, s);
          status = rx_status_error (desc_mem ns desc) in
      if status AND IXGBE_RXDADV_STAT_DD = 0 then Inr (queue, rx, last_rx, received, outp, ns, s)
      else if status AND IXGBE_RXDADV_STAT_EOP = 0 then Inl (Panic ''increase buffer size or decrease MTU'')
      else
        bind_res (vec_get (rx_bufs_in_use queue) (unat rx)) (\<lambda>p.
        let (ns, s) = device_turn H (ns, s); s = set_plen p (rx_length (desc_mem ns desc)) s in
        bind_res (allocate os s) (\<lambda>(np, s).
        let queue = queue\<lparr>rx_bufs_in_use := (rx_bufs_in_use queue)[unat rx := np]\<rparr> in
        bind_res (transmit outp p s) (\<lambda>(outp, s).
        bind_res (virtual_to_physical (data_ptr H (rx_bufs_in_use queue ! unat rx))) (\<lambda>phys.
        let ns = write_desc desc (set_pkt_addr phys) ns; ns = write_desc desc (set_hdr_addr 0) ns in
        rx_loop k os H (queue, wrap_ring rx (rx_num_descriptors queue), rx, Suc received, outp, ns, s))))))"

definition rx_batch ::
  "os \<Rightarrow> hardware \<Rightarrow> u32 \<Rightarrow> nat \<Rightarrow> IxgbeDevice \<Rightarrow> Link \<Rightarrow> nic \<Rightarrow> 'a pkt_state_scheme \<Rightarrow>
   (nat \<times> IxgbeDevice \<times> Link \<times> nic \<times> 'a pkt_state_scheme) res" where
  "rx_batch os H queue_id num_packets dev outp ns s =
     bind_res (assert_res (unat queue_id < length (rx_queues dev)) (Panic ''invalid rx queue id'')) (\<lambda>_.
     let queue = rx_queues dev ! unat queue_id in
     bind_res (rx_loop num_packets os H (queue, rx_index queue, rx_index queue, 0, outp, ns, s))
       (\<lambda>(queue, rx, last_rx, received, outp, ns, s).
     if rx \<noteq> last_rx then
       bind_res (set_reg32 dev (IXGBE_RDT queue_id) (ucast last_rx) ns) (\<lambda>ns.
       Inr (received,
            dev\<lparr>rx_queues := (rx_queues dev)[unat queue_id := queue\<lparr>rx_index := rx\<rparr>]\<rparr>, outp, ns, s))
     else
       Inr (received, dev\<lparr>rx_queues := (rx_queues dev)[unat queue_id := queue]\<rparr>, outp, ns, s)))"

section \<open>Transmitting\<close>

text \<open>\<open>for _ in 0..n { packet::free(bufs_in_use.pop_front().unwrap()) }\<close>.\<close>

primrec free_front :: "nat \<Rightarrow> IxgbeTxQueue \<Rightarrow> 'a pkt_state_scheme \<Rightarrow> (IxgbeTxQueue \<times> 'a pkt_state_scheme) res" where
  "free_front 0 queue s = Inr (queue, s)"
| "free_front (Suc n) queue s =
     (case tx_bufs_in_use queue of
        [] \<Rightarrow> Inl UnwrapNone
      | p # ps \<Rightarrow> bind_res (free p s) (\<lambda>s. free_front n (queue\<lparr>tx_bufs_in_use := ps\<rparr>) s))"

text \<open>The \<open>i32\<close> distance from \<open>clean\<close> to \<open>cur\<close> on the ring.\<close>

definition cleanable :: "usize \<Rightarrow> usize \<Rightarrow> usize \<Rightarrow> i32" where
  "cleanable cur clean n =
     (let c = ucast cur - ucast clean in if c <s 0 then c + ucast n else c)"

definition cleanup_to :: "usize \<Rightarrow> usize \<Rightarrow> usize" where
  "cleanup_to clean n =
     (let c = clean + TX_CLEAN_BATCH - 1 in if n \<le> c then c - n else c)"

primrec clean_loop ::
  "nat \<Rightarrow> hardware \<Rightarrow> IxgbeTxQueue \<times> usize \<times> nic \<times> 'a pkt_state_scheme \<Rightarrow>
   (IxgbeTxQueue \<times> usize \<times> nic \<times> 'a pkt_state_scheme) res" where
  "clean_loop 0 H w = Inl Diverges"
| "clean_loop (Suc fuel) H w =
     (case w of (queue, clean, ns, s) \<Rightarrow>
      if cleanable (tx_index queue) clean (tx_num_descriptors queue) <s ucast TX_CLEAN_BATCH then Inr w
      else
        let to = cleanup_to clean (tx_num_descriptors queue);
            (ns, s) = device_turn H (ns, s);
            status = tx_status (desc_mem ns (desc_at (tx_descriptors queue) to)) in
        if status AND IXGBE_ADVTXD_STAT_DD \<noteq> 0 then
          bind_res (free_front (min (unat TX_CLEAN_BATCH) (length (tx_bufs_in_use queue))) queue s)
            (\<lambda>(queue, s).
          clean_loop fuel H (queue, wrap_ring to (tx_num_descriptors queue), ns, s))
        else Inr (queue, clean, ns, s))"

text \<open>Each round but the last cleans 32 descriptors, so there are fewer rounds than descriptors.\<close>

definition clean_tx_queue ::
  "hardware \<Rightarrow> IxgbeTxQueue \<Rightarrow> nic \<Rightarrow> 'a pkt_state_scheme \<Rightarrow>
   (usize \<times> IxgbeTxQueue \<times> nic \<times> 'a pkt_state_scheme) res" where
  "clean_tx_queue H queue ns s =
     bind_res (clean_loop (unat (tx_num_descriptors queue)) H (queue, clean_index queue, ns, s))
       (\<lambda>(queue, clean, ns, s).
     Inr (clean, queue\<lparr>clean_index := clean\<rparr>, ns, s))"

definition tx_cmd :: "u16 \<Rightarrow> u32" where
  "tx_cmd len =
     IXGBE_ADVTXD_DCMD_EOP OR IXGBE_ADVTXD_DCMD_RS OR IXGBE_ADVTXD_DCMD_IFCS OR IXGBE_ADVTXD_DCMD_DEXT OR
     IXGBE_ADVTXD_DTYP_DATA OR ucast len"

text \<open>
  The loop of \<open>tx_batch\<close>: it takes a packet off the link in each round, so that a link's
  capacity bounds the rounds.
\<close>

primrec tx_loop ::
  "nat \<Rightarrow> hardware \<Rightarrow> usize \<Rightarrow> IxgbeTxQueue \<times> usize \<times> nat \<times> Link \<times> nic \<times> 'a pkt_state_scheme \<Rightarrow>
   (IxgbeTxQueue \<times> usize \<times> nat \<times> Link \<times> nic \<times> 'a pkt_state_scheme) res" where
  "tx_loop 0 H clean w = (case w of (queue, cur, sent, inp, ns, s) \<Rightarrow> if empty inp then Inr w else Inl Diverges)"
| "tx_loop (Suc fuel) H clean w =
     (case w of (queue, cur, sent, inp, ns, s) \<Rightarrow>
      if empty inp then Inr w
      else
        let next = wrap_ring cur (tx_num_descriptors queue) in
        if clean = next then Inr w
        else
          bind_res (receive inp s) (\<lambda>(p, inp).
          let queue = queue\<lparr>tx_index := wrap_ring (tx_index queue) (tx_num_descriptors queue)\<rparr>;
              desc = desc_at (tx_descriptors queue) cur; len = plen (heap s p) in
          bind_res (virtual_to_physical (data_ptr H p)) (\<lambda>phys.
          let ns = write_desc desc (set_buffer_addr phys) ns;
              ns = write_desc desc (set_cmd_type_len (tx_cmd len)) ns;
              ns = write_desc desc (set_olinfo_status (push_bit (unat IXGBE_ADVTXD_PAYLEN_SHIFT) (ucast len))) ns;
              queue = queue\<lparr>tx_bufs_in_use := tx_bufs_in_use queue @ [p]\<rparr> in
          tx_loop fuel H clean (queue, next, Suc sent, inp, ns, s))))"

definition tx_batch ::
  "hardware \<Rightarrow> u32 \<Rightarrow> IxgbeDevice \<Rightarrow> Link \<Rightarrow> nic \<Rightarrow> 'a pkt_state_scheme \<Rightarrow>
   (nat \<times> IxgbeDevice \<times> Link \<times> nic \<times> 'a pkt_state_scheme) res" where
  "tx_batch H queue_id dev inp ns s =
     bind_res (assert_res (unat queue_id < length (tx_queues dev)) (Panic ''invalid tx queue id'')) (\<lambda>_.
     let queue = tx_queues dev ! unat queue_id; cur = tx_index queue in
     bind_res (clean_tx_queue H queue ns s) (\<lambda>(clean, queue, ns, s).
     bind_res (tx_loop LINK_RING_SIZE H clean (queue, cur, 0, inp, ns, s))
       (\<lambda>(queue, cur, sent, inp, ns, s).
     let dev = dev\<lparr>tx_queues := (tx_queues dev)[unat queue_id := queue]\<rparr> in
     bind_res (set_reg32 dev (IXGBE_TDT queue_id) (ucast (tx_index queue)) ns) (\<lambda>ns.
     Inr (sent, dev, inp, ns, s)))))"

text \<open>\<open>while !link::empty(input) { self.tx_batch(queue_id, input); }\<close>.\<close>

primrec tx_batch_busy_wait ::
  "nat \<Rightarrow> hardware \<Rightarrow> u32 \<Rightarrow> IxgbeDevice \<Rightarrow> Link \<Rightarrow> nic \<Rightarrow> 'a pkt_state_scheme \<Rightarrow>
   (IxgbeDevice \<times> Link \<times> nic \<times> 'a pkt_state_scheme) res" where
  "tx_batch_busy_wait 0 H queue_id dev inp ns s = Inl Diverges"
| "tx_batch_busy_wait (Suc fuel) H queue_id dev inp ns s =
     (if empty inp then Inr (dev, inp, ns, s)
      else bind_res (tx_batch H queue_id dev inp ns s) (\<lambda>(_, dev, inp, ns, s).
           tx_batch_busy_wait fuel H queue_id dev inp ns s))"

end
