(* ===== verification/Rush_Layout_Correct.thy ===== *)
theory Rush_Layout_Correct
  imports Rush_Layout Rush_Ixgbe Rush_Header
begin

text \<open>
  That the types shared with the device are laid out soundly, and that the driver's model reads and
  writes its descriptors where the declared types place the members: the bytes of a descriptor are those
  of its two quadwords, little end first, and each access of the driver is an access to a member of a
  union of \<open>constants.rs\<close>.
\<close>

section \<open>Padding\<close>

lemma pad_to_ge: "0 < a \<Longrightarrow> n \<le> pad_to a n"
proof -
  assume "0 < a"
  then have "(n + a - 1) mod a < a" by simp
  then show ?thesis
    using div_mult_mod_eq [of "n + a - 1" a] unfolding pad_to_def by linarith
qed

lemma pad_to_dvd [simp]: "a dvd pad_to a n"
  by (simp add: pad_to_def)

lemma pad_to_1 [simp]: "pad_to 1 n = n" "pad_to (Suc 0) n = n"
  by (simp_all add: pad_to_def)

section \<open>Sound types\<close>

text \<open>Machine integers of a size there is, and distinct names for the members.\<close>

function wf_type :: "ctype \<Rightarrow> bool" and wf_fields :: "(string \<times> ctype) list \<Rightarrow> bool" where
  "wf_type (Prim n) \<longleftrightarrow> n \<in> {1, 2, 4, 8}"
| "wf_type (Array t n) \<longleftrightarrow> wf_type t"
| "wf_type (Struct packed fs) \<longleftrightarrow> distinct (map fst fs) \<and> wf_fields fs"
| "wf_type (Union fs) \<longleftrightarrow> distinct (map fst fs) \<and> wf_fields fs"
| "wf_fields [] \<longleftrightarrow> True"
| "wf_fields ((x, t) # fs) \<longleftrightarrow> wf_type t \<and> wf_fields fs"
  by pat_completeness auto
termination
  by (relation "measure (case_sum size (size_list (size_prod (\<lambda>_. 0) size)))") auto

text \<open>No packed structure anywhere inside.\<close>

function unpacked :: "ctype \<Rightarrow> bool" and unpacked_fields :: "(string \<times> ctype) list \<Rightarrow> bool" where
  "unpacked (Prim n) \<longleftrightarrow> True"
| "unpacked (Array t n) \<longleftrightarrow> unpacked t"
| "unpacked (Struct packed fs) \<longleftrightarrow> \<not> packed \<and> unpacked_fields fs"
| "unpacked (Union fs) \<longleftrightarrow> unpacked_fields fs"
| "unpacked_fields [] \<longleftrightarrow> True"
| "unpacked_fields ((x, t) # fs) \<longleftrightarrow> unpacked t \<and> unpacked_fields fs"
  by pat_completeness auto
termination
  by (relation "measure (case_sum size (size_list (size_prod (\<lambda>_. 0) size)))") auto

lemma wf_fields_member: "wf_fields fs \<Longrightarrow> (x, t) \<in> set fs \<Longrightarrow> wf_type t"
  by (induction fs) auto

lemma unpacked_fields_member: "unpacked_fields fs \<Longrightarrow> (x, t) \<in> set fs \<Longrightarrow> unpacked t"
  by (induction fs) auto

text \<open>Alignments are powers of two, so one divides another when it is no larger.\<close>

lemma align_power:
  "wf_type t \<Longrightarrow> align_of t \<in> {1, 2, 4, 8}"
  "wf_fields fs \<Longrightarrow> aligns fs \<in> {1, 2, 4, 8}"
  by (induction t and fs rule: wf_type_wf_fields.induct) (auto simp: max_def)

lemma align_pos: "wf_type t \<Longrightarrow> 0 < align_of t" "wf_fields fs \<Longrightarrow> 0 < aligns fs"
  using align_power(1) [of t] align_power(2) [of fs] by auto

lemma power_dvd: "a \<in> {1, 2, 4, 8} \<Longrightarrow> b \<in> {1, 2, 4, 8} \<Longrightarrow> a \<le> b \<Longrightarrow> a dvd (b :: nat)"
  by auto

lemma aligns_member: "(x, t) \<in> set fs \<Longrightarrow> align_of t \<le> aligns fs"
  by (induction fs) (auto simp: le_max_iff_disj)

lemma align_dvd_size: "wf_type t \<Longrightarrow> align_of t dvd size_of t"
  by (induction t) (auto simp del: align_of.simps(3,4) simp: align_of.simps(1,2))

section \<open>Members\<close>

lemma placed_bounds:
  "wf_fields fs \<Longrightarrow> off \<le> struct_end packed off fs \<and>
   (\<forall>(x, m, u) \<in> set (placed packed off fs). off \<le> m \<and> m + size_of u \<le> struct_end packed off fs)"
proof (induction fs arbitrary: off)
  case Nil
  then show ?case by simp
next
  case (Cons f fs)
  obtain x t where f: "f = (x, t)" by (cases f)
  define a where "a = (if packed then 1 else align_of t)"
  have "0 < a" using Cons.prems align_pos by (auto simp: f a_def)
  then have "off \<le> pad_to a off" by (rule pad_to_ge)
  then show ?case
    using Cons.IH [of "pad_to a off + size_of t"] Cons.prems by (fastforce simp: f a_def Let_def)
qed

lemma placed_disjoint:
  "wf_fields fs \<Longrightarrow> sorted_wrt (\<lambda>(x, m, u) (y, n, v). m + size_of u \<le> n) (placed packed off fs)"
proof (induction fs arbitrary: off)
  case Nil
  then show ?case by simp
next
  case (Cons f fs)
  then show ?case
    using placed_bounds [of fs] by (cases f) (fastforce simp: Let_def)
qed

lemma placed_fields: "(x, m, u) \<in> set (placed packed off fs) \<Longrightarrow> (x, u) \<in> set fs"
proof (induction fs arbitrary: off)
  case (Cons f fs)
  then show ?case by (cases f) (auto simp: Let_def)
qed simp

lemma placed_aligned: "(x, m, u) \<in> set (placed False off fs) \<Longrightarrow> align_of u dvd m"
proof (induction fs arbitrary: off)
  case (Cons f fs)
  then show ?case by (cases f) (auto simp: Let_def)
qed simp

lemma longest_member: "(x, u) \<in> set fs \<Longrightarrow> size_of u \<le> longest fs"
  by (induction fs) (auto simp: le_max_iff_disj)

lemma member_wf: "wf_type t \<Longrightarrow> (x, m, u) \<in> set (members t) \<Longrightarrow> wf_type u"
  by (cases t) (auto dest: placed_fields intro: wf_fields_member)

lemma member_unpacked: "unpacked t \<Longrightarrow> (x, m, u) \<in> set (members t) \<Longrightarrow> unpacked u"
  by (cases t) (auto dest: placed_fields intro: unpacked_fields_member)

lemma member_bounds:
  assumes "wf_type t" "(x, m, u) \<in> set (members t)"
  shows "m + size_of u \<le> size_of t"
proof (cases t)
  case (Struct packed fs)
  have "m + size_of u \<le> struct_end packed 0 fs"
    using assms placed_bounds [of fs 0 packed] by (auto simp: Struct)
  also have "\<dots> \<le> size_of t"
    using align_pos(1) [OF assms(1)] by (simp add: Struct pad_to_ge del: align_of.simps)
  finally show ?thesis .
next
  case (Union fs)
  have "size_of u \<le> longest fs" using assms by (auto simp: Union intro: longest_member)
  also have "\<dots> \<le> size_of t"
    using align_pos(1) [OF assms(1)] by (simp add: Union pad_to_ge del: align_of.simps)
  finally show ?thesis using assms by (auto simp: Union)
qed (use assms in auto)

lemma member_aligned:
  assumes "wf_type t" "unpacked t" "(x, m, u) \<in> set (members t)"
  shows "align_of u dvd m \<and> align_of u dvd align_of t"
proof -
  have "align_of u \<le> align_of t"
    using assms by (cases t) (auto dest!: placed_fields intro: aligns_member)
  moreover have "align_of u dvd m"
    using assms by (cases t) (auto dest: placed_aligned)
  ultimately show ?thesis
    using power_dvd align_power(1) member_wf assms by metis
qed

section \<open>Paths\<close>

lemma locate_step:
  assumes "locate (x # xs) t = Some (m, v)"
  obtains n u n' where "(x, n, u) \<in> set (members t)" "locate xs u = Some (n', v)" "m = n + n'"
  using assms by (auto split: option.splits dest!: map_of_SomeD)

lemma locate_bounds:
  "wf_type t \<Longrightarrow> locate path t = Some (m, u) \<Longrightarrow> m + size_of u \<le> size_of t"
proof (induction path arbitrary: t m)
  case (Cons x xs)
  from Cons.prems(2) obtain n v n' where
    v: "(x, n, v) \<in> set (members t)" "locate xs v = Some (n', u)" "m = n + n'"
    by (rule locate_step)
  then show ?case
    using Cons.IH [OF member_wf [OF Cons.prems(1) v(1)] v(2)] member_bounds [OF Cons.prems(1) v(1)] by simp
qed simp

lemma locate_aligned:
  "wf_type t \<Longrightarrow> unpacked t \<Longrightarrow> locate path t = Some (m, u) \<Longrightarrow>
   align_of u dvd m \<and> align_of u dvd align_of t"
proof (induction path arbitrary: t m)
  case (Cons x xs)
  from Cons.prems(3) obtain n v n' where
    v: "(x, n, v) \<in> set (members t)" "locate xs v = Some (n', u)" "m = n + n'"
    by (rule locate_step)
  have "align_of u dvd n' \<and> align_of u dvd align_of v"
    using Cons.IH [OF member_wf [OF Cons.prems(1) v(1)] member_unpacked [OF Cons.prems(2) v(1)] v(2)] .
  moreover have "align_of v dvd n \<and> align_of v dvd align_of t"
    using member_aligned [OF Cons.prems(1,2) v(1)] .
  ultimately show ?case by (auto simp: v(3) intro: dvd_trans)
qed simp


declare locate.simps [simp del]

section \<open>The types of the driver\<close>

lemma device_types_wf:
  assumes "\<forall>e. enum_size e \<in> {1, 2, 4, 8}"
  shows "list_all wf_type (device_types enum_size)"
  using assms by (simp add: device_types_def layout_defs)

definition structure_of :: "ctype \<Rightarrow> bool" where
  "structure_of t = (case t of Struct packed fs \<Rightarrow> True | _ \<Rightarrow> False)"

lemma structure_members:
  "wf_type t \<Longrightarrow> structure_of t \<Longrightarrow>
   sorted_wrt (\<lambda>(x, m, u) (y, n, v). m + size_of u \<le> n) (members t)"
  by (cases t) (auto simp: structure_of_def intro: placed_disjoint)



section \<open>Bytes\<close>

definition le_bytes :: "nat \<Rightarrow> 'a :: len word \<Rightarrow> u8 list" where
  "le_bytes n w = map (\<lambda>i. ucast (drop_bit (8 * i) w)) [0..<n]"

definition le_word :: "u8 list \<Rightarrow> 'a :: len word" where
  "le_word bs = foldr (\<lambda>b w. ucast b OR push_bit 8 w) bs 0"

lemma length_le_bytes [simp]: "length (le_bytes n w) = n"
  by (simp add: le_bytes_def)

lemma bit_le_bytes: "i < n \<Longrightarrow> bit (le_bytes n w ! i) k \<longleftrightarrow> k < 8 \<and> bit w (8 * i + k)"
  by (simp add: le_bytes_def bit_ucast_iff bit_drop_bit_eq)

lemma bit_le_word:
  "bit (le_word bs :: 'a :: len word) k \<longleftrightarrow>
   k < LENGTH('a) \<and> k div 8 < length bs \<and> bit (bs ! (k div 8)) (k mod 8)"
proof (induction bs arbitrary: k)
  case Nil
  then show ?case by (simp add: le_word_def)
next
  case (Cons b bs)
  have step: "le_word (b # bs) = (ucast b OR push_bit 8 (le_word bs) :: 'a word)" by (simp add: le_word_def)
  show ?case
  proof (cases "k < 8")
    case True
    then show ?thesis using bit_imp_le_length [of "le_word (b # bs) :: 'a word" k]
      by (auto simp: step bit_simps)
  next
    case False
    then obtain j where k: "k = 8 + j" using le_Suc_ex not_less by blast
    then have "k div 8 = Suc (j div 8)" "k mod 8 = j mod 8" by simp_all
    moreover have "\<not> bit b k" using bit_imp_le_length [of b k] False by auto
    ultimately show ?thesis
      using Cons.IH [of j] k bit_imp_le_length [of "le_word bs :: 'a word" j] by (auto simp: step bit_simps)
  qed
qed

lemma le_word_le_bytes:
  assumes "m + n \<le> k" "8 * n = LENGTH('b)"
  shows "(le_word (take n (drop m (le_bytes k (w :: 'a :: len word)))) :: 'b :: len word) =
         ucast (drop_bit (8 * m) w)"
proof (rule bit_word_eqI)
  fix i assume i: "i < LENGTH('b)"
  then have "i div 8 < n" using assms(2) by simp
  moreover have "8 * (m + i div 8) + i mod 8 = 8 * m + i" by (simp add: algebra_simps)
  ultimately show "bit (le_word (take n (drop m (le_bytes k w))) :: 'b word) i \<longleftrightarrow>
        bit (ucast (drop_bit (8 * m) w) :: 'b word) i"
    using assms i by (simp add: bit_le_word bit_le_bytes bit_simps add.commute)
qed

section \<open>Members of a descriptor\<close>

definition load :: "ctype \<Rightarrow> string list \<Rightarrow> u8 list \<Rightarrow> 'a :: len word option" where
  "load t path bs =
     (case locate path t of
        Some (m, Prim n) \<Rightarrow> if 8 * n = LENGTH('a) then Some (le_word (take n (drop m bs))) else None
      | _ \<Rightarrow> None)"

definition store :: "ctype \<Rightarrow> string list \<Rightarrow> 'a :: len word \<Rightarrow> u8 list \<Rightarrow> u8 list option" where
  "store t path v bs =
     (case locate path t of
        Some (m, Prim n) \<Rightarrow>
          if 8 * n = LENGTH('a) then Some (take m bs @ le_bytes n v @ drop (m + n) bs) else None
      | _ \<Rightarrow> None)"

text \<open>The sixteen bytes of a descriptor.\<close>

definition desc_bytes :: "desc \<Rightarrow> u8 list" where
  "desc_bytes d = le_bytes 8 (qw0 d) @ le_bytes 8 (qw1 d)"

lemma load_eq:
  assumes "locate path t = Some (m, Prim n)" "8 * n = LENGTH('a)"
  shows "load t path bs = Some (le_word (take n (drop m bs)) :: 'a :: len word)"
  using assms by (simp add: load_def)

lemma store_eq:
  assumes "locate path t = Some (m, Prim n)" "8 * n = LENGTH('a)"
  shows "store t path (v :: 'a :: len word) bs = Some (take m bs @ le_bytes n v @ drop (m + n) bs)"
  using assms by (simp add: store_def)

lemma load_upper:
  assumes "locate path t = Some (8 + m, Prim n)" "8 * n = LENGTH('a)" "m + n \<le> 8"
  shows "load t path (desc_bytes d) = Some (ucast (drop_bit (8 * m) (qw1 d)) :: 'a :: len word)"
  using assms by (simp add: load_eq desc_bytes_def le_word_le_bytes)

lemma le_bytes_low_half:
  "le_bytes 8 (push_bit 32 (drop_bit 32 q) OR ucast v :: u64) = le_bytes 4 (v :: u32) @ drop 4 (le_bytes 8 q)"
proof (rule nth_equalityI)
  fix i assume "i < length (le_bytes 8 (push_bit 32 (drop_bit 32 q) OR ucast v :: u64))"
  then show "le_bytes 8 (push_bit 32 (drop_bit 32 q) OR ucast v :: u64) ! i =
      (le_bytes 4 v @ drop 4 (le_bytes 8 q)) ! i"
    by (intro bit_word_eqI) (auto simp: nth_append bit_le_bytes bit_simps dest: bit_imp_le_length)
qed simp

lemma le_bytes_high_half:
  "le_bytes 8 (push_bit 32 (ucast v) OR take_bit 32 q :: u64) = take 4 (le_bytes 8 q) @ le_bytes 4 (v :: u32)"
proof (rule nth_equalityI)
  fix i assume "i < length (le_bytes 8 (push_bit 32 (ucast v) OR take_bit 32 q :: u64))"
  moreover have "\<not> i < 4 \<Longrightarrow> 8 * i + k - 32 = 8 * (i - 4) + k" for k by simp
  ultimately show "le_bytes 8 (push_bit 32 (ucast v) OR take_bit 32 q :: u64) ! i =
      (take 4 (le_bytes 8 q) @ le_bytes 4 v) ! i"
    by (intro bit_word_eqI) (auto simp: nth_append bit_le_bytes bit_simps)
qed simp

text \<open>Where the members are that the driver uses.\<close>

lemma descriptor_members:
  "locate [''read'', ''pkt_addr''] ixgbe_adv_rx_desc = Some (0, U64)"
  "locate [''read'', ''hdr_addr''] ixgbe_adv_rx_desc = Some (8, U64)"
  "locate [''wb'', ''upper'', ''status_error''] ixgbe_adv_rx_desc = Some (8, U32)"
  "locate [''wb'', ''upper'', ''length''] ixgbe_adv_rx_desc = Some (12, U16)"
  "locate [''read'', ''buffer_addr''] ixgbe_adv_tx_desc = Some (0, U64)"
  "locate [''read'', ''cmd_type_len''] ixgbe_adv_tx_desc = Some (8, U32)"
  "locate [''read'', ''olinfo_status''] ixgbe_adv_tx_desc = Some (12, U32)"
  "locate [''wb'', ''status''] ixgbe_adv_tx_desc = Some (12, U32)"
  by code_simp+

text \<open>
  C18: the driver's accesses to descriptors are accesses to the members of the declared unions: a
  descriptor of either ring has 16 bytes, the distance of neighbours in the ring, and each read and each
  write of the model moves exactly the bytes of the member named in the source.
\<close>

theorem descriptor_accesses:
  "desc_at base i = base + of_nat (size_of ixgbe_adv_rx_desc) * i \<and>
   desc_at base i = base + of_nat (size_of ixgbe_adv_tx_desc) * i \<and>
   length (desc_bytes d) = size_of ixgbe_adv_rx_desc \<and>
   store ixgbe_adv_rx_desc [''read'', ''pkt_addr''] a (desc_bytes d) = Some (desc_bytes (set_pkt_addr a d)) \<and>
   store ixgbe_adv_rx_desc [''read'', ''hdr_addr''] a (desc_bytes d) = Some (desc_bytes (set_hdr_addr a d)) \<and>
   load ixgbe_adv_rx_desc [''wb'', ''upper'', ''status_error''] (desc_bytes d) = Some (rx_status_error d) \<and>
   load ixgbe_adv_rx_desc [''wb'', ''upper'', ''length''] (desc_bytes d) = Some (rx_length d) \<and>
   store ixgbe_adv_tx_desc [''read'', ''buffer_addr''] a (desc_bytes d) = Some (desc_bytes (set_buffer_addr a d)) \<and>
   store ixgbe_adv_tx_desc [''read'', ''cmd_type_len''] v (desc_bytes d) = Some (desc_bytes (set_cmd_type_len v d)) \<and>
   store ixgbe_adv_tx_desc [''read'', ''olinfo_status''] v (desc_bytes d) = Some (desc_bytes (set_olinfo_status v d)) \<and>
   load ixgbe_adv_tx_desc [''wb'', ''status''] (desc_bytes d) = Some (tx_status d)"
proof -
  have sizes: "size_of ixgbe_adv_rx_desc = 16" "size_of ixgbe_adv_tx_desc = 16" by code_simp+
  have loads: "load ixgbe_adv_rx_desc [''wb'', ''upper'', ''status_error''] (desc_bytes d) = Some (rx_status_error d)"
    "load ixgbe_adv_rx_desc [''wb'', ''upper'', ''length''] (desc_bytes d) = Some (rx_length d)"
    "load ixgbe_adv_tx_desc [''wb'', ''status''] (desc_bytes d) = Some (tx_status d)"
    by (simp_all add: load_upper [where m = 0 and n = 4] load_upper [where m = 4 and n = 2]
        load_upper [where m = 4 and n = 4] descriptor_members rx_status_error_def rx_length_def tx_status_def)
  show ?thesis
    using loads by (simp add: sizes desc_at_def descriptor_members [THEN store_eq] desc_bytes_def
        set_pkt_addr_def set_hdr_addr_def set_buffer_addr_def set_cmd_type_len_def set_olinfo_status_def
        le_bytes_low_half le_bytes_high_half)
qed

section \<open>Commands to the firmware\<close>


section \<open>Flow director\<close>

text \<open>
  The structured view of a flow director key covers its fourteen double words without a gap; the
  destination address stands before the source address.
\<close>

lemma atr_input_words:
  "size_of ixgbe_atr_input = 14 * 4"
  "size_of ixgbe_atr_input_formatted = 14 * 4"
  "map (\<lambda>(x, m, t). m) (members ixgbe_atr_input_formatted) = [0, 1, 2, 4, 20, 36, 42, 44, 48, 50, 52, 54]"
  "offset_of ixgbe_atr_input [''formatted'', ''dst_ip''] = Some 4"
  "offset_of ixgbe_atr_input [''formatted'', ''src_ip''] = Some 20"
  by code_simp+

text \<open>A flow type is a transport protocol, the bit for IPv6 and the bit for tunnels; none is missing.\<close>

lemma flow_type_numbers:
  "inj num_atr_flow_type"
  "range num_atr_flow_type =
     set [l OR v OR t. l \<leftarrow> [0, IXGBE_ATR_L4TYPE_UDP, IXGBE_ATR_L4TYPE_TCP, IXGBE_ATR_L4TYPE_SCTP],
        v \<leftarrow> [0, IXGBE_ATR_L4TYPE_IPV6_MASK], t \<leftarrow> [0, IXGBE_ATR_L4TYPE_TUNNEL_MASK]]"
proof -
  have all: "f \<in> {IXGBE_ATR_FLOW_TYPE_IPV4, IXGBE_ATR_FLOW_TYPE_UDPV4, IXGBE_ATR_FLOW_TYPE_TCPV4,
      IXGBE_ATR_FLOW_TYPE_SCTPV4, IXGBE_ATR_FLOW_TYPE_IPV6, IXGBE_ATR_FLOW_TYPE_UDPV6,
      IXGBE_ATR_FLOW_TYPE_TCPV6, IXGBE_ATR_FLOW_TYPE_SCTPV6, IXGBE_ATR_FLOW_TYPE_TUNNELED_IPV4,
      IXGBE_ATR_FLOW_TYPE_TUNNELED_UDPV4, IXGBE_ATR_FLOW_TYPE_TUNNELED_TCPV4,
      IXGBE_ATR_FLOW_TYPE_TUNNELED_SCTPV4, IXGBE_ATR_FLOW_TYPE_TUNNELED_IPV6,
      IXGBE_ATR_FLOW_TYPE_TUNNELED_UDPV6, IXGBE_ATR_FLOW_TYPE_TUNNELED_TCPV6,
      IXGBE_ATR_FLOW_TYPE_TUNNELED_SCTPV6}" for f
    by (cases f) simp_all
  then have r: "range num_atr_flow_type =
      {0, 1, 2, 3, 4, 5, 6, 7, 0x10, 0x11, 0x12, 0x13, 0x14, 0x15, 0x16, 0x17}"
    by (subst UNIV_eq_I [OF all]) (simp add: image_insert)
  show "inj num_atr_flow_type" by (rule injI) (case_tac x; case_tac y; simp)
  show "range num_atr_flow_type =
     set [l OR v OR t. l \<leftarrow> [0, IXGBE_ATR_L4TYPE_UDP, IXGBE_ATR_L4TYPE_TCP, IXGBE_ATR_L4TYPE_SCTP],
        v \<leftarrow> [0, IXGBE_ATR_L4TYPE_IPV6_MASK], t \<leftarrow> [0, IXGBE_ATR_L4TYPE_TUNNEL_MASK]]"
    unfolding r flow_defs by auto
qed

lemma pballoc_numbers:
  "num_fdir_pballoc_type IXGBE_FDIR_PBALLOC_64K = IXGBE_FDIRCTRL_PBALLOC_64K"
  "num_fdir_pballoc_type IXGBE_FDIR_PBALLOC_128K = IXGBE_FDIRCTRL_PBALLOC_128K"
  "num_fdir_pballoc_type IXGBE_FDIR_PBALLOC_256K = IXGBE_FDIRCTRL_PBALLOC_256K"
  by (simp_all add: flow_defs)

section \<open>Ethernet headers\<close>

text \<open>The places at which the header views find their fields are those of the packed structure.\<close>

lemma ethernet_members:
  "offset_of Ethernet [''dst''] = Some DST"
  "offset_of Ethernet [''src''] = Some SRC"
  "offset_of Ethernet [''ethertype''] = Some ETHERTYPE"
  "size_of Ethernet = unat size_of_Ethernet"
  by code_simp+

end
