(* ===== verification/Rush_Fields.thy ===== *)
theory Rush_Fields
  imports Rush_Registers
begin

text \<open>
  \<open>src/ixy82599/constants.rs\<close>: the registers of virtual functions and of the KR PHY, the fields of
  registers that are given by a mask and a shift or by an index, and the delay values of flow control.
  Arithmetic is that of 32-bit words; a shift takes its distance modulo 32, as the optimised build does.
\<close>

section \<open>Registers of virtual functions\<close>

text \<open>A register of a virtual function or of its pool, by the number of the function, the pool or the queue.\<close>

definition IXGBE_MBVFICR_INDEX :: "u32 \<Rightarrow> u32" where
  "IXGBE_MBVFICR_INDEX vf_number = drop_bit 4 vf_number"

definition IXGBE_MBVFICR :: "u32 \<Rightarrow> u32" where
  "IXGBE_MBVFICR i = 0x00710 + (i * 4)"

definition IXGBE_VFLRE :: "u32 \<Rightarrow> u32" where
  "IXGBE_VFLRE i = (if (i AND 1) \<noteq> 0 then 0x001C0 else 0x00600)"

definition IXGBE_VFLREC :: "u32 \<Rightarrow> u32" where
  "IXGBE_VFLREC i = 0x00700 + (i * 4)"

definition IXGBE_PVFCTRL :: "u32 \<Rightarrow> u32" where
  "IXGBE_PVFCTRL P = 0x00300 + (4 * P)"

definition IXGBE_PVFSTATUS :: "u32 \<Rightarrow> u32" where
  "IXGBE_PVFSTATUS P = 0x00008 + (0 * P)"

definition IXGBE_PVFLINKS :: "u32 \<Rightarrow> u32" where
  "IXGBE_PVFLINKS P = 0x042A4 + (0 * P)"

definition IXGBE_PVFRTIMER :: "u32 \<Rightarrow> u32" where
  "IXGBE_PVFRTIMER P = 0x00048 + (0 * P)"

definition IXGBE_PVFMAILBOX :: "u32 \<Rightarrow> u32" where
  "IXGBE_PVFMAILBOX P = 0x04C00 + (4 * P)"

definition IXGBE_PVFRXMEMWRAP :: "u32 \<Rightarrow> u32" where
  "IXGBE_PVFRXMEMWRAP P = 0x03190 + (0 * P)"

definition IXGBE_PVTEICR :: "u32 \<Rightarrow> u32" where
  "IXGBE_PVTEICR P = 0x00B00 + (4 * P)"

definition IXGBE_PVTEICS :: "u32 \<Rightarrow> u32" where
  "IXGBE_PVTEICS P = 0x00C00 + (4 * P)"

definition IXGBE_PVTEIMS :: "u32 \<Rightarrow> u32" where
  "IXGBE_PVTEIMS P = 0x00D00 + (4 * P)"

definition IXGBE_PVTEIMC :: "u32 \<Rightarrow> u32" where
  "IXGBE_PVTEIMC P = 0x00E00 + (4 * P)"

definition IXGBE_PVTEIAC :: "u32 \<Rightarrow> u32" where
  "IXGBE_PVTEIAC P = 0x00F00 + (4 * P)"

definition IXGBE_PVTEIAM :: "u32 \<Rightarrow> u32" where
  "IXGBE_PVTEIAM P = 0x04D00 + (4 * P)"

definition IXGBE_PVTEITR :: "u32 \<Rightarrow> u32" where
  "IXGBE_PVTEITR P = (if P < 24 then 0x00820 + (P * 4) else 0x012300 + ((P - 24) * 4))"

definition IXGBE_PVTIVAR :: "u32 \<Rightarrow> u32" where
  "IXGBE_PVTIVAR P = 0x12500 + (4 * P)"

definition IXGBE_PVTIVAR_MISC :: "u32 \<Rightarrow> u32" where
  "IXGBE_PVTIVAR_MISC P = 0x04E00 + (4 * P)"

definition IXGBE_PVTRSCINT :: "u32 \<Rightarrow> u32" where
  "IXGBE_PVTRSCINT P = 0x12000 + (4 * P)"

definition IXGBE_VFPBACL :: "u32 \<Rightarrow> u32" where
  "IXGBE_VFPBACL P = 0x110C8 + (4 * P)"

definition IXGBE_PVFRDBAL :: "u32 \<Rightarrow> u32" where
  "IXGBE_PVFRDBAL P = (if P < 64 then 0x01000 + (0x40 * P) else 0x0D000 + (0x40 * (P - 64)))"

definition IXGBE_PVFRDBAH :: "u32 \<Rightarrow> u32" where
  "IXGBE_PVFRDBAH P = (if P < 64 then 0x01004 + (0x40 * P) else 0x0D004 + (0x40 * (P - 64)))"

definition IXGBE_PVFRDLEN :: "u32 \<Rightarrow> u32" where
  "IXGBE_PVFRDLEN P = (if P < 64 then 0x01008 + (0x40 * P) else 0x0D008 + (0x40 * (P - 64)))"

definition IXGBE_PVFRDH :: "u32 \<Rightarrow> u32" where
  "IXGBE_PVFRDH P = (if P < 64 then 0x01010 + (0x40 * P) else 0x0D010 + (0x40 * (P - 64)))"

definition IXGBE_PVFRDT :: "u32 \<Rightarrow> u32" where
  "IXGBE_PVFRDT P = (if P < 64 then 0x01018 + (0x40 * P) else 0x0D018 + (0x40 * (P - 64)))"

definition IXGBE_PVFRXDCTL :: "u32 \<Rightarrow> u32" where
  "IXGBE_PVFRXDCTL P = (if P < 64 then 0x01028 + (0x40 * P) else 0x0D028 + (0x40 * (P - 64)))"

definition IXGBE_PVFSRRCTL :: "u32 \<Rightarrow> u32" where
  "IXGBE_PVFSRRCTL P = (if P < 64 then 0x01014 + (0x40 * P) else 0x0D014 + (0x40 * (P - 64)))"

definition IXGBE_PVFPSRTYPE :: "u32 \<Rightarrow> u32" where
  "IXGBE_PVFPSRTYPE P = 0x0EA00 + (4 * P)"

definition IXGBE_PVFTDBAL :: "u32 \<Rightarrow> u32" where
  "IXGBE_PVFTDBAL P = 0x06000 + (0x40 * P)"

definition IXGBE_PVFTDBAH :: "u32 \<Rightarrow> u32" where
  "IXGBE_PVFTDBAH P = 0x06004 + (0x40 * P)"

definition IXGBE_PVFTDLEN :: "u32 \<Rightarrow> u32" where
  "IXGBE_PVFTDLEN P = 0x06008 + (0x40 * P)"

definition IXGBE_PVFTDH :: "u32 \<Rightarrow> u32" where
  "IXGBE_PVFTDH P = 0x06010 + (0x40 * P)"

definition IXGBE_PVFTDT :: "u32 \<Rightarrow> u32" where
  "IXGBE_PVFTDT P = 0x06018 + (0x40 * P)"

definition IXGBE_PVFTXDCTL :: "u32 \<Rightarrow> u32" where
  "IXGBE_PVFTXDCTL P = 0x06028 + (0x40 * P)"

definition IXGBE_PVFTDWBAL :: "u32 \<Rightarrow> u32" where
  "IXGBE_PVFTDWBAL P = 0x06038 + (0x40 * P)"

definition IXGBE_PVFTDWBAH :: "u32 \<Rightarrow> u32" where
  "IXGBE_PVFTDWBAH P = 0x0603C + (0x40 * P)"

definition IXGBE_PVFDCA_RXCTRL :: "u32 \<Rightarrow> u32" where
  "IXGBE_PVFDCA_RXCTRL P = (if P < 64 then 0x0100C + (0x40 * P) else 0x0D00C + (0x40 * (P - 64)))"

definition IXGBE_PVFDCA_TXCTRL :: "u32 \<Rightarrow> u32" where
  "IXGBE_PVFDCA_TXCTRL P = 0x0600C + (0x40 * P)"

definition IXGBE_PVFGPRC :: "u32 \<Rightarrow> u32" where
  "IXGBE_PVFGPRC x = 0x0101C + (0x40 * x)"

definition IXGBE_PVFGPTC :: "u32 \<Rightarrow> u32" where
  "IXGBE_PVFGPTC x = 0x08300 + (0x04 * x)"

definition IXGBE_PVFGORC_LSB :: "u32 \<Rightarrow> u32" where
  "IXGBE_PVFGORC_LSB x = 0x01020 + (0x40 * x)"

definition IXGBE_PVFGORC_MSB :: "u32 \<Rightarrow> u32" where
  "IXGBE_PVFGORC_MSB x = 0x0D020 + (0x40 * x)"

definition IXGBE_PVFGOTC_LSB :: "u32 \<Rightarrow> u32" where
  "IXGBE_PVFGOTC_LSB x = 0x08400 + (0x08 * x)"

definition IXGBE_PVFGOTC_MSB :: "u32 \<Rightarrow> u32" where
  "IXGBE_PVFGOTC_MSB x = 0x08404 + (0x08 * x)"

definition IXGBE_PVFMPRC :: "u32 \<Rightarrow> u32" where
  "IXGBE_PVFMPRC x = 0x0D01C + (0x40 * x)"

definition IXGBE_PVFTDWBALn :: "u32 \<Rightarrow> u32 \<Rightarrow> u32 \<Rightarrow> u32" where
  "IXGBE_PVFTDWBALn q_per_pool vf_number vf_q_index = IXGBE_PVFTDWBAL ((q_per_pool * vf_number) + vf_q_index)"

definition IXGBE_PVFTDWBAHn :: "u32 \<Rightarrow> u32 \<Rightarrow> u32 \<Rightarrow> u32" where
  "IXGBE_PVFTDWBAHn q_per_pool vf_number vf_q_index = IXGBE_PVFTDWBAH ((q_per_pool * vf_number) + vf_q_index)"

definition IXGBE_PVFTDHn :: "u32 \<Rightarrow> u32 \<Rightarrow> u32 \<Rightarrow> u32" where
  "IXGBE_PVFTDHn q_per_pool vf_number vf_q_index = IXGBE_PVFTDH ((q_per_pool * vf_number) + vf_q_index)"

definition IXGBE_PVFTDTn :: "u32 \<Rightarrow> u32 \<Rightarrow> u32 \<Rightarrow> u32" where
  "IXGBE_PVFTDTn q_per_pool vf_number vf_q_index = IXGBE_PVFTDT ((q_per_pool * vf_number) + vf_q_index)"

section \<open>Registers of the KR PHY\<close>

text \<open>There is one set per port.\<close>

definition IXGBE_FUSES0_GROUP :: "u32 \<Rightarrow> u32" where
  "IXGBE_FUSES0_GROUP i = 0x11158 + (i * 4)"

definition IXGBE_KRM_PORT_CAR_GEN_CTRL :: "u32 \<Rightarrow> u32" where
  "IXGBE_KRM_PORT_CAR_GEN_CTRL P = (if P \<noteq> 0 then 0x8010 else 0x4010)"

definition IXGBE_KRM_LINK_S1 :: "u32 \<Rightarrow> u32" where
  "IXGBE_KRM_LINK_S1 P = (if P \<noteq> 0 then 0x8200 else 0x4200)"

definition IXGBE_KRM_LINK_CTRL_1 :: "u32 \<Rightarrow> u32" where
  "IXGBE_KRM_LINK_CTRL_1 P = (if P \<noteq> 0 then 0x820C else 0x420C)"

definition IXGBE_KRM_AN_CNTL_1 :: "u32 \<Rightarrow> u32" where
  "IXGBE_KRM_AN_CNTL_1 P = (if P \<noteq> 0 then 0x822C else 0x422C)"

definition IXGBE_KRM_AN_CNTL_4 :: "u32 \<Rightarrow> u32" where
  "IXGBE_KRM_AN_CNTL_4 P = (if P \<noteq> 0 then 0x8238 else 0x4238)"

definition IXGBE_KRM_AN_CNTL_8 :: "u32 \<Rightarrow> u32" where
  "IXGBE_KRM_AN_CNTL_8 P = (if P \<noteq> 0 then 0x8248 else 0x4248)"

definition IXGBE_KRM_PCS_KX_AN :: "u32 \<Rightarrow> u32" where
  "IXGBE_KRM_PCS_KX_AN P = (if P \<noteq> 0 then 0x9918 else 0x5918)"

definition IXGBE_KRM_PCS_KX_AN_LP :: "u32 \<Rightarrow> u32" where
  "IXGBE_KRM_PCS_KX_AN_LP P = (if P \<noteq> 0 then 0x991C else 0x591C)"

definition IXGBE_KRM_SGMII_CTRL :: "u32 \<Rightarrow> u32" where
  "IXGBE_KRM_SGMII_CTRL P = (if P \<noteq> 0 then 0x82A0 else 0x42A0)"

definition IXGBE_KRM_LP_BASE_PAGE_HIGH :: "u32 \<Rightarrow> u32" where
  "IXGBE_KRM_LP_BASE_PAGE_HIGH P = (if P \<noteq> 0 then 0x836C else 0x436C)"

definition IXGBE_KRM_DSP_TXFFE_STATE_4 :: "u32 \<Rightarrow> u32" where
  "IXGBE_KRM_DSP_TXFFE_STATE_4 P = (if P \<noteq> 0 then 0x8634 else 0x4634)"

definition IXGBE_KRM_DSP_TXFFE_STATE_5 :: "u32 \<Rightarrow> u32" where
  "IXGBE_KRM_DSP_TXFFE_STATE_5 P = (if P \<noteq> 0 then 0x8638 else 0x4638)"

definition IXGBE_KRM_RX_TRN_LINKUP_CTRL :: "u32 \<Rightarrow> u32" where
  "IXGBE_KRM_RX_TRN_LINKUP_CTRL P = (if P \<noteq> 0 then 0x8B00 else 0x4B00)"

definition IXGBE_KRM_PMD_DFX_BURNIN :: "u32 \<Rightarrow> u32" where
  "IXGBE_KRM_PMD_DFX_BURNIN P = (if P \<noteq> 0 then 0x8E00 else 0x4E00)"

definition IXGBE_KRM_PMD_FLX_MASK_ST20 :: "u32 \<Rightarrow> u32" where
  "IXGBE_KRM_PMD_FLX_MASK_ST20 P = (if P \<noteq> 0 then 0x9054 else 0x5054)"

definition IXGBE_KRM_TX_COEFF_CTRL_1 :: "u32 \<Rightarrow> u32" where
  "IXGBE_KRM_TX_COEFF_CTRL_1 P = (if P \<noteq> 0 then 0x9520 else 0x5520)"

definition IXGBE_KRM_RX_ANA_CTL :: "u32 \<Rightarrow> u32" where
  "IXGBE_KRM_RX_ANA_CTL P = (if P \<noteq> 0 then 0x9A00 else 0x5A00)"

section \<open>Fields that are given by an index\<close>

definition IXGBE_RQTC_SHIFT_TC :: "u32 \<Rightarrow> u32" where
  "IXGBE_RQTC_SHIFT_TC i = i * 4"

definition IXGBE_IVAR_RX_QUEUE :: "u32 \<Rightarrow> u32" where
  "IXGBE_IVAR_RX_QUEUE i = 0 + i"

definition IXGBE_IVAR_TX_QUEUE :: "u32 \<Rightarrow> u32" where
  "IXGBE_IVAR_TX_QUEUE i = 64 + i"

definition IXGBE_MSIX_VECTOR :: "u32 \<Rightarrow> u32" where
  "IXGBE_MSIX_VECTOR i = 0 + i"

definition IXGBE_LED_OFFSET :: "u32 \<Rightarrow> u32 \<Rightarrow> u32" where
  "IXGBE_LED_OFFSET base i = push_bit (unat ((8 * i) AND 31)) base"

definition IXGBE_LED_MODE_SHIFT :: "u32 \<Rightarrow> u32" where
  "IXGBE_LED_MODE_SHIFT i = 8 * i"

definition IXGBE_LED_IVRT_BASE :: u32 where
  "IXGBE_LED_IVRT_BASE = 0x00000040"

definition IXGBE_LED_IVRT :: "u32 \<Rightarrow> u32" where
  "IXGBE_LED_IVRT i = IXGBE_LED_OFFSET IXGBE_LED_IVRT_BASE i"

definition IXGBE_LED_BLINK_BASE :: u32 where
  "IXGBE_LED_BLINK_BASE = 0x00000080"

definition IXGBE_LED_BLINK :: "u32 \<Rightarrow> u32" where
  "IXGBE_LED_BLINK i = IXGBE_LED_OFFSET IXGBE_LED_BLINK_BASE i"

definition IXGBE_LED_MODE_MASK_BASE :: u32 where
  "IXGBE_LED_MODE_MASK_BASE = 0x0000000F"

definition IXGBE_LED_MODE_MASK :: "u32 \<Rightarrow> u32" where
  "IXGBE_LED_MODE_MASK i = IXGBE_LED_OFFSET IXGBE_LED_MODE_MASK_BASE i"

definition FW_PHY_TOKEN_WAIT :: u32 where
  "FW_PHY_TOKEN_WAIT = 5"

definition FW_PHY_TOKEN_DELAY :: u32 where
  "FW_PHY_TOKEN_DELAY = 5"

definition FW_PHY_TOKEN_RETRIES :: u32 where
  "FW_PHY_TOKEN_RETRIES = (FW_PHY_TOKEN_WAIT * 1000) div FW_PHY_TOKEN_DELAY"

definition FW_PHY_ACT_SETUP_LINK_PAUSE_SHIFT :: u32 where
  "FW_PHY_ACT_SETUP_LINK_PAUSE_SHIFT = 16"

definition FW_PHY_ACT_SETUP_LINK_PAUSE_MASK :: u32 where
  "FW_PHY_ACT_SETUP_LINK_PAUSE_MASK = push_bit (unat FW_PHY_ACT_SETUP_LINK_PAUSE_SHIFT) 3"

definition IXGBE_RQTC_TC0_MASK :: u32 where
  "IXGBE_RQTC_TC0_MASK = push_bit 0 0x7"

definition IXGBE_RQTC_TC1_MASK :: u32 where
  "IXGBE_RQTC_TC1_MASK = push_bit 4 0x7"

definition IXGBE_RQTC_TC2_MASK :: u32 where
  "IXGBE_RQTC_TC2_MASK = push_bit 8 0x7"

definition IXGBE_RQTC_TC3_MASK :: u32 where
  "IXGBE_RQTC_TC3_MASK = push_bit 12 0x7"

definition IXGBE_RQTC_TC4_MASK :: u32 where
  "IXGBE_RQTC_TC4_MASK = push_bit 16 0x7"

definition IXGBE_RQTC_TC5_MASK :: u32 where
  "IXGBE_RQTC_TC5_MASK = push_bit 20 0x7"

definition IXGBE_RQTC_TC6_MASK :: u32 where
  "IXGBE_RQTC_TC6_MASK = push_bit 24 0x7"

definition IXGBE_RQTC_TC7_MASK :: u32 where
  "IXGBE_RQTC_TC7_MASK = push_bit 28 0x7"

section \<open>Delay values\<close>

text \<open>Delays of flow control in bit times, and their conversion to kilobytes.\<close>

definition IXGBE_BT2KB :: "u32 \<Rightarrow> u32" where
  "IXGBE_BT2KB BT = (BT + ((8 * 1024) - 1)) div (8 * 1024)"

definition IXGBE_B2BT :: "u32 \<Rightarrow> u32" where
  "IXGBE_B2BT BT = BT * 8"

definition IXGBE_PFC_D :: u32 where
  "IXGBE_PFC_D = 672"

definition IXGBE_CABLE_DC :: u32 where
  "IXGBE_CABLE_DC = 5556"

definition IXGBE_MAC_DC :: u32 where
  "IXGBE_MAC_DC = 8192"

definition IXGBE_XAUI_DC :: u32 where
  "IXGBE_XAUI_DC = 2 * 2048"

definition IXGBE_PHY_DC :: u32 where
  "IXGBE_PHY_DC = 25600"

definition IXGBE_ID_X540 :: u32 where
  "IXGBE_ID_X540 = (IXGBE_MAC_DC + IXGBE_XAUI_DC) + IXGBE_PHY_DC"

definition IXGBE_HD :: u32 where
  "IXGBE_HD = 6144"

definition IXGBE_DV_X540 :: "u32 \<Rightarrow> u32 \<Rightarrow> u32" where
  "IXGBE_DV_X540 max_frame_link max_frame_tc =
     (((36 * (((((IXGBE_B2BT max_frame_link) + IXGBE_PFC_D) +
       (2 * IXGBE_CABLE_DC)) + (2 * IXGBE_ID_X540)) + IXGBE_HD)) div 25) + 1) + (2 * (IXGBE_B2BT max_frame_tc))"

definition IXGBE_MAC_D :: u32 where
  "IXGBE_MAC_D = 4096"

definition IXGBE_XAUI_D :: u32 where
  "IXGBE_XAUI_D = 2 * 1024"

definition IXGBE_PHY_D :: u32 where
  "IXGBE_PHY_D = 12800"

definition IXGBE_ID :: u32 where
  "IXGBE_ID = (IXGBE_MAC_D + IXGBE_XAUI_D) + IXGBE_PHY_D"

definition IXGBE_DV :: "u32 \<Rightarrow> u32 \<Rightarrow> u32" where
  "IXGBE_DV max_frame_link max_frame_tc =
     (((36 * (((((IXGBE_B2BT max_frame_link) + IXGBE_PFC_D) +
       (2 * IXGBE_CABLE_DC)) + (2 * IXGBE_ID)) + IXGBE_HD)) div 25) + 1) + (2 * (IXGBE_B2BT max_frame_tc))"

definition IXGBE_PCI_DELAY :: u32 where
  "IXGBE_PCI_DELAY = 10000"

definition IXGBE_LOW_DV_X540 :: "u32 \<Rightarrow> u32" where
  "IXGBE_LOW_DV_X540 max_frame_tc = ((2 * (IXGBE_B2BT max_frame_tc)) + ((36 * IXGBE_PCI_DELAY) div 25)) + 1"

definition IXGBE_LOW_DV :: "u32 \<Rightarrow> u32" where
  "IXGBE_LOW_DV max_frame_tc = 2 * (IXGBE_LOW_DV_X540 max_frame_tc)"

section \<open>Fields of registers\<close>

text \<open>Masks of fields and how far to the left they stand.\<close>

definition IXGBE_RXPBSIZE_MASK :: u32 where
  "IXGBE_RXPBSIZE_MASK = 0x000FFC00"

definition IXGBE_RXPBSIZE_SHIFT :: u32 where
  "IXGBE_RXPBSIZE_SHIFT = 10"

definition IXGBE_SPOOF_VLANAS_MASK :: u32 where
  "IXGBE_SPOOF_VLANAS_MASK = 0xFF00"

definition IXGBE_SPOOF_VLANAS_SHIFT :: u32 where
  "IXGBE_SPOOF_VLANAS_SHIFT = 8"

definition IXGBE_VXLANCTRL_GENEVE_UDPPORT_MASK :: u32 where
  "IXGBE_VXLANCTRL_GENEVE_UDPPORT_MASK = 0xffff0000"

definition IXGBE_VXLANCTRL_GENEVE_UDPPORT_SHIFT :: u32 where
  "IXGBE_VXLANCTRL_GENEVE_UDPPORT_SHIFT = 16"

definition IXGBE_DMCMNGTH_DMCMNGTH_MASK :: u32 where
  "IXGBE_DMCMNGTH_DMCMNGTH_MASK = 0x000FFFF0"

definition IXGBE_DMCMNGTH_DMCMNGTH_SHIFT :: u32 where
  "IXGBE_DMCMNGTH_DMCMNGTH_SHIFT = 4"

definition IXGBE_DMACR_HIGH_PRI_TC_MASK :: u32 where
  "IXGBE_DMACR_HIGH_PRI_TC_MASK = 0x00FF0000"

definition IXGBE_DMACR_HIGH_PRI_TC_SHIFT :: u32 where
  "IXGBE_DMACR_HIGH_PRI_TC_SHIFT = 16"

definition IXGBE_LSECTXCAP_SUM_MASK :: u32 where
  "IXGBE_LSECTXCAP_SUM_MASK = 0x00FF0000"

definition IXGBE_LSECTXCAP_SUM_SHIFT :: u32 where
  "IXGBE_LSECTXCAP_SUM_SHIFT = 16"

definition IXGBE_LSECRXCAP_SUM_MASK :: u32 where
  "IXGBE_LSECRXCAP_SUM_MASK = 0x00FF0000"

definition IXGBE_LSECRXCAP_SUM_SHIFT :: u32 where
  "IXGBE_LSECRXCAP_SUM_SHIFT = 16"

definition IXGBE_LSECRXCTRL_EN_MASK :: u32 where
  "IXGBE_LSECRXCTRL_EN_MASK = 0x0000000C"

definition IXGBE_LSECRXCTRL_EN_SHIFT :: u32 where
  "IXGBE_LSECRXCTRL_EN_SHIFT = 2"

definition IXGBE_RTTBCNRC_RF_DEC_MASK :: u32 where
  "IXGBE_RTTBCNRC_RF_DEC_MASK = 0x00003FFF"

definition IXGBE_RTTBCNRC_RF_INT_SHIFT :: u32 where
  "IXGBE_RTTBCNRC_RF_INT_SHIFT = 14"

definition IXGBE_RTTBCNRC_RF_INT_MASK :: u32 where
  "IXGBE_RTTBCNRC_RF_INT_MASK = push_bit (unat IXGBE_RTTBCNRC_RF_INT_SHIFT) IXGBE_RTTBCNRC_RF_DEC_MASK"

definition IXGBE_FCBUFF_BUFFSIZE :: u32 where
  "IXGBE_FCBUFF_BUFFSIZE = push_bit 3 3"

definition IXGBE_FCBUFF_BUFFSIZE_SHIFT :: u32 where
  "IXGBE_FCBUFF_BUFFSIZE_SHIFT = 3"

definition IXGBE_FCBUFF_BUFFCNT :: u32 where
  "IXGBE_FCBUFF_BUFFCNT = 0x0000ff00"

definition IXGBE_FCBUFF_BUFFCNT_SHIFT :: u32 where
  "IXGBE_FCBUFF_BUFFCNT_SHIFT = 8"

definition IXGBE_FCBUFF_OFFSET :: u32 where
  "IXGBE_FCBUFF_OFFSET = 0xffff0000"

definition IXGBE_FCBUFF_OFFSET_SHIFT :: u32 where
  "IXGBE_FCBUFF_OFFSET_SHIFT = 16"

definition IXGBE_FCDMARW_LASTSIZE :: u32 where
  "IXGBE_FCDMARW_LASTSIZE = 0xffff0000"

definition IXGBE_FCDMARW_LASTSIZE_SHIFT :: u32 where
  "IXGBE_FCDMARW_LASTSIZE_SHIFT = 16"

definition IXGBE_FCRXCTRL_FCOEVER :: u32 where
  "IXGBE_FCRXCTRL_FCOEVER = 0x00000f00"

definition IXGBE_FCRXCTRL_FCOEVER_SHIFT :: u32 where
  "IXGBE_FCRXCTRL_FCOEVER_SHIFT = 8"

definition IXGBE_FCRETA_ENTRY_HIGH_MASK :: u32 where
  "IXGBE_FCRETA_ENTRY_HIGH_MASK = 0x007F0000"

definition IXGBE_FCRETA_ENTRY_HIGH_SHIFT :: u32 where
  "IXGBE_FCRETA_ENTRY_HIGH_SHIFT = 16"

definition IXGBE_MANC_EN_BMC2OS :: u32 where
  "IXGBE_MANC_EN_BMC2OS = 0x10000000"

definition IXGBE_MANC_EN_BMC2OS_SHIFT :: u32 where
  "IXGBE_MANC_EN_BMC2OS_SHIFT = 28"

definition IXGBE_BARCTRL_FLSIZE :: u32 where
  "IXGBE_BARCTRL_FLSIZE = 0x0700"

definition IXGBE_BARCTRL_FLSIZE_SHIFT :: u32 where
  "IXGBE_BARCTRL_FLSIZE_SHIFT = 8"

definition IXGBE_MHADD_MFS_MASK :: u32 where
  "IXGBE_MHADD_MFS_MASK = 0xFFFF0000"

definition IXGBE_MHADD_MFS_SHIFT :: u32 where
  "IXGBE_MHADD_MFS_SHIFT = 16"

definition IXGBE_MSCA_NP_ADDR_MASK :: u32 where
  "IXGBE_MSCA_NP_ADDR_MASK = 0x0000FFFF"

definition IXGBE_MSCA_NP_ADDR_SHIFT :: u32 where
  "IXGBE_MSCA_NP_ADDR_SHIFT = 0"

definition IXGBE_MSCA_DEV_TYPE_MASK :: u32 where
  "IXGBE_MSCA_DEV_TYPE_MASK = 0x001F0000"

definition IXGBE_MSCA_DEV_TYPE_SHIFT :: u32 where
  "IXGBE_MSCA_DEV_TYPE_SHIFT = 16"

definition IXGBE_MSCA_PHY_ADDR_MASK :: u32 where
  "IXGBE_MSCA_PHY_ADDR_MASK = 0x03E00000"

definition IXGBE_MSCA_PHY_ADDR_SHIFT :: u32 where
  "IXGBE_MSCA_PHY_ADDR_SHIFT = 21"

definition IXGBE_MSCA_OP_CODE_MASK :: u32 where
  "IXGBE_MSCA_OP_CODE_MASK = 0x0C000000"

definition IXGBE_MSCA_OP_CODE_SHIFT :: u32 where
  "IXGBE_MSCA_OP_CODE_SHIFT = 26"

definition IXGBE_MSCA_ST_CODE_MASK :: u32 where
  "IXGBE_MSCA_ST_CODE_MASK = 0x30000000"

definition IXGBE_MSCA_ST_CODE_SHIFT :: u32 where
  "IXGBE_MSCA_ST_CODE_SHIFT = 28"

definition IXGBE_MSRWD_WRITE_DATA_MASK :: u32 where
  "IXGBE_MSRWD_WRITE_DATA_MASK = 0x0000FFFF"

definition IXGBE_MSRWD_WRITE_DATA_SHIFT :: u32 where
  "IXGBE_MSRWD_WRITE_DATA_SHIFT = 0"

definition IXGBE_MSRWD_READ_DATA_MASK :: u32 where
  "IXGBE_MSRWD_READ_DATA_MASK = 0xFFFF0000"

definition IXGBE_MSRWD_READ_DATA_SHIFT :: u32 where
  "IXGBE_MSRWD_READ_DATA_SHIFT = 16"

definition IXGBE_VT_CTL_POOL_SHIFT :: u32 where
  "IXGBE_VT_CTL_POOL_SHIFT = 7"

definition IXGBE_VT_CTL_POOL_MASK :: u32 where
  "IXGBE_VT_CTL_POOL_MASK = push_bit (unat IXGBE_VT_CTL_POOL_SHIFT) 0x3F"

definition IXGBE_RDHMPN_RDICADDR :: u32 where
  "IXGBE_RDHMPN_RDICADDR = 0x007FF800"

definition IXGBE_RDHMPN_RDICADDR_SHIFT :: u32 where
  "IXGBE_RDHMPN_RDICADDR_SHIFT = 11"

definition IXGBE_TDHMPN_TDICADDR :: u32 where
  "IXGBE_TDHMPN_TDICADDR = 0x003FF800"

definition IXGBE_TDHMPN_TDICADDR_SHIFT :: u32 where
  "IXGBE_TDHMPN_TDICADDR_SHIFT = 11"

definition IXGBE_ETQS_RX_QUEUE :: u32 where
  "IXGBE_ETQS_RX_QUEUE = 0x007F0000"

definition IXGBE_ETQS_RX_QUEUE_SHIFT :: u32 where
  "IXGBE_ETQS_RX_QUEUE_SHIFT = 16"

definition IXGBE_STATUS_LAN_ID :: u32 where
  "IXGBE_STATUS_LAN_ID = 0x0000000C"

definition IXGBE_STATUS_LAN_ID_SHIFT :: u32 where
  "IXGBE_STATUS_LAN_ID_SHIFT = 2"

definition IXGBE_AUTOC_1G_PMA_PMD_MASK :: u32 where
  "IXGBE_AUTOC_1G_PMA_PMD_MASK = 0x00000200"

definition IXGBE_AUTOC_1G_PMA_PMD_SHIFT :: u32 where
  "IXGBE_AUTOC_1G_PMA_PMD_SHIFT = 9"

definition IXGBE_AUTOC2_10G_SERIAL_PMA_PMD_MASK :: u32 where
  "IXGBE_AUTOC2_10G_SERIAL_PMA_PMD_MASK = 0x00030000"

definition IXGBE_AUTOC2_10G_SERIAL_PMA_PMD_SHIFT :: u32 where
  "IXGBE_AUTOC2_10G_SERIAL_PMA_PMD_SHIFT = 16"

definition IXGBE_EEC_FWE_MASK :: u32 where
  "IXGBE_EEC_FWE_MASK = 0x00000030"

definition IXGBE_EEC_FWE_SHIFT :: u32 where
  "IXGBE_EEC_FWE_SHIFT = 4"

definition IXGBE_EEC_SIZE :: u32 where
  "IXGBE_EEC_SIZE = 0x00007800"

definition IXGBE_EEC_SIZE_SHIFT :: u32 where
  "IXGBE_EEC_SIZE_SHIFT = 11"

definition IXGBE_EE_CTRL_4_INST_ID :: u32 where
  "IXGBE_EE_CTRL_4_INST_ID = 0x10"

definition IXGBE_EE_CTRL_4_INST_ID_SHIFT :: u32 where
  "IXGBE_EE_CTRL_4_INST_ID_SHIFT = 4"

definition IXGBE_ETS_LTHRES_DELTA_MASK :: u32 where
  "IXGBE_ETS_LTHRES_DELTA_MASK = 0x07C0"

definition IXGBE_ETS_LTHRES_DELTA_SHIFT :: u32 where
  "IXGBE_ETS_LTHRES_DELTA_SHIFT = 6"

definition IXGBE_ETS_TYPE_MASK :: u32 where
  "IXGBE_ETS_TYPE_MASK = 0x0038"

definition IXGBE_ETS_TYPE_SHIFT :: u32 where
  "IXGBE_ETS_TYPE_SHIFT = 3"

definition IXGBE_ETS_DATA_LOC_MASK :: u32 where
  "IXGBE_ETS_DATA_LOC_MASK = 0x3C00"

definition IXGBE_ETS_DATA_LOC_SHIFT :: u32 where
  "IXGBE_ETS_DATA_LOC_SHIFT = 10"

definition IXGBE_ETS_DATA_INDEX_MASK :: u32 where
  "IXGBE_ETS_DATA_INDEX_MASK = 0x0300"

definition IXGBE_ETS_DATA_INDEX_SHIFT :: u32 where
  "IXGBE_ETS_DATA_INDEX_SHIFT = 8"

definition IXGBE_RAH_VIND_MASK :: u32 where
  "IXGBE_RAH_VIND_MASK = 0x003C0000"

definition IXGBE_RAH_VIND_SHIFT :: u32 where
  "IXGBE_RAH_VIND_SHIFT = 18"

definition IXGBE_RFCTL_ISCSI_DWC_MASK :: u32 where
  "IXGBE_RFCTL_ISCSI_DWC_MASK = 0x0000003E"

definition IXGBE_RFCTL_ISCSI_DWC_SHIFT :: u32 where
  "IXGBE_RFCTL_ISCSI_DWC_SHIFT = 1"

definition IXGBE_RFCTL_NFS_VER_MASK :: u32 where
  "IXGBE_RFCTL_NFS_VER_MASK = 0x00000300"

definition IXGBE_RFCTL_NFS_VER_SHIFT :: u32 where
  "IXGBE_RFCTL_NFS_VER_SHIFT = 8"

definition IXGBE_QDE_IDX_MASK :: u32 where
  "IXGBE_QDE_IDX_MASK = 0x00007F00"

definition IXGBE_QDE_IDX_SHIFT :: u32 where
  "IXGBE_QDE_IDX_SHIFT = 8"

definition IXGBE_RXDADV_NEXTP_MASK :: u32 where
  "IXGBE_RXDADV_NEXTP_MASK = 0x000FFFF0"

definition IXGBE_RXDADV_NEXTP_SHIFT :: u32 where
  "IXGBE_RXDADV_NEXTP_SHIFT = 0x00000004"

definition IXGBE_RXDADV_ERR_MASK :: u32 where
  "IXGBE_RXDADV_ERR_MASK = 0xfff00000"

definition IXGBE_RXDADV_ERR_SHIFT :: u32 where
  "IXGBE_RXDADV_ERR_SHIFT = 20"

definition IXGBE_RXD_PRI_MASK :: u32 where
  "IXGBE_RXD_PRI_MASK = 0xE000"

definition IXGBE_RXD_PRI_SHIFT :: u32 where
  "IXGBE_RXD_PRI_SHIFT = 13"

definition IXGBE_RXD_CFI_MASK :: u32 where
  "IXGBE_RXD_CFI_MASK = 0x1000"

definition IXGBE_RXD_CFI_SHIFT :: u32 where
  "IXGBE_RXD_CFI_SHIFT = 12"

definition IXGBE_SRRCTL_RDMTS_MASK :: u32 where
  "IXGBE_SRRCTL_RDMTS_MASK = 0x01C00000"

definition IXGBE_SRRCTL_RDMTS_SHIFT :: u32 where
  "IXGBE_SRRCTL_RDMTS_SHIFT = 22"

definition IXGBE_RXDADV_RSCCNT_MASK :: u32 where
  "IXGBE_RXDADV_RSCCNT_MASK = 0x001E0000"

definition IXGBE_RXDADV_RSCCNT_SHIFT :: u32 where
  "IXGBE_RXDADV_RSCCNT_SHIFT = 17"

definition IXGBE_RXDADV_HDRBUFLEN_MASK :: u32 where
  "IXGBE_RXDADV_HDRBUFLEN_MASK = 0x00007FE0"

definition IXGBE_RXDADV_HDRBUFLEN_SHIFT :: u32 where
  "IXGBE_RXDADV_HDRBUFLEN_SHIFT = 5"

definition IXGBE_RXDADV_PKTTYPE_ETQF_MASK :: u32 where
  "IXGBE_RXDADV_PKTTYPE_ETQF_MASK = 0x00000070"

definition IXGBE_RXDADV_PKTTYPE_ETQF_SHIFT :: u32 where
  "IXGBE_RXDADV_PKTTYPE_ETQF_SHIFT = 4"

definition IXGBE_RX_DESC_SPECIAL_PRI_MASK :: u32 where
  "IXGBE_RX_DESC_SPECIAL_PRI_MASK = 0xE000"

definition IXGBE_RX_DESC_SPECIAL_PRI_SHIFT :: u32 where
  "IXGBE_RX_DESC_SPECIAL_PRI_SHIFT = 0x000D"

definition IXGBE_FDIRCTRL_DROP_Q_MASK :: u32 where
  "IXGBE_FDIRCTRL_DROP_Q_MASK = 0x00007F00"

definition IXGBE_FDIRCTRL_DROP_Q_SHIFT :: u32 where
  "IXGBE_FDIRCTRL_DROP_Q_SHIFT = 8"

definition IXGBE_FDIRCTRL_FILTERMODE_MASK :: u32 where
  "IXGBE_FDIRCTRL_FILTERMODE_MASK = 0x00E00000"

definition IXGBE_FDIRCTRL_FILTERMODE_SHIFT :: u32 where
  "IXGBE_FDIRCTRL_FILTERMODE_SHIFT = 21"

definition IXGBE_FDIRCTRL_FULL_THRESH_MASK :: u32 where
  "IXGBE_FDIRCTRL_FULL_THRESH_MASK = 0xF0000000"

definition IXGBE_FDIRCTRL_FULL_THRESH_SHIFT :: u32 where
  "IXGBE_FDIRCTRL_FULL_THRESH_SHIFT = 28"

definition IXGBE_FDIRFREE_FREE_MASK :: u32 where
  "IXGBE_FDIRFREE_FREE_MASK = 0xFFFF"

definition IXGBE_FDIRFREE_FREE_SHIFT :: u32 where
  "IXGBE_FDIRFREE_FREE_SHIFT = 0"

definition IXGBE_FDIRFREE_COLL_MASK :: u32 where
  "IXGBE_FDIRFREE_COLL_MASK = 0x7FFF0000"

definition IXGBE_FDIRFREE_COLL_SHIFT :: u32 where
  "IXGBE_FDIRFREE_COLL_SHIFT = 16"

definition IXGBE_FDIRLEN_MAXLEN_MASK :: u32 where
  "IXGBE_FDIRLEN_MAXLEN_MASK = 0x3F"

definition IXGBE_FDIRLEN_MAXLEN_SHIFT :: u32 where
  "IXGBE_FDIRLEN_MAXLEN_SHIFT = 0"

definition IXGBE_FDIRLEN_MAXHASH_MASK :: u32 where
  "IXGBE_FDIRLEN_MAXHASH_MASK = 0x7FFF0000"

definition IXGBE_FDIRLEN_MAXHASH_SHIFT :: u32 where
  "IXGBE_FDIRLEN_MAXHASH_SHIFT = 16"

definition IXGBE_FDIRUSTAT_ADD_MASK :: u32 where
  "IXGBE_FDIRUSTAT_ADD_MASK = 0xFFFF"

definition IXGBE_FDIRUSTAT_ADD_SHIFT :: u32 where
  "IXGBE_FDIRUSTAT_ADD_SHIFT = 0"

definition IXGBE_FDIRUSTAT_REMOVE_MASK :: u32 where
  "IXGBE_FDIRUSTAT_REMOVE_MASK = 0xFFFF0000"

definition IXGBE_FDIRUSTAT_REMOVE_SHIFT :: u32 where
  "IXGBE_FDIRUSTAT_REMOVE_SHIFT = 16"

definition IXGBE_FDIRFSTAT_FADD_MASK :: u32 where
  "IXGBE_FDIRFSTAT_FADD_MASK = 0x00FF"

definition IXGBE_FDIRFSTAT_FADD_SHIFT :: u32 where
  "IXGBE_FDIRFSTAT_FADD_SHIFT = 0"

definition IXGBE_FDIRFSTAT_FREMOVE_MASK :: u32 where
  "IXGBE_FDIRFSTAT_FREMOVE_MASK = 0xFF00"

definition IXGBE_FDIRFSTAT_FREMOVE_SHIFT :: u32 where
  "IXGBE_FDIRFSTAT_FREMOVE_SHIFT = 8"

definition IXGBE_FDIRCMD_TUNNEL_FILTER :: u32 where
  "IXGBE_FDIRCMD_TUNNEL_FILTER = 0x00800000"

definition IXGBE_FDIRCMD_TUNNEL_FILTER_SHIFT :: u32 where
  "IXGBE_FDIRCMD_TUNNEL_FILTER_SHIFT = 23"

definition IXGBE_SB_IOSF_CTRL_ADDR_MASK :: u32 where
  "IXGBE_SB_IOSF_CTRL_ADDR_MASK = 0xFF"

definition IXGBE_SB_IOSF_CTRL_ADDR_SHIFT :: u32 where
  "IXGBE_SB_IOSF_CTRL_ADDR_SHIFT = 0"

definition IXGBE_SB_IOSF_CTRL_RESP_STAT_SHIFT :: u32 where
  "IXGBE_SB_IOSF_CTRL_RESP_STAT_SHIFT = 18"

definition IXGBE_SB_IOSF_CTRL_RESP_STAT_MASK :: u32 where
  "IXGBE_SB_IOSF_CTRL_RESP_STAT_MASK = push_bit (unat IXGBE_SB_IOSF_CTRL_RESP_STAT_SHIFT) 0x3"

definition IXGBE_SB_IOSF_CTRL_CMPL_ERR_SHIFT :: u32 where
  "IXGBE_SB_IOSF_CTRL_CMPL_ERR_SHIFT = 20"

definition IXGBE_SB_IOSF_CTRL_CMPL_ERR_MASK :: u32 where
  "IXGBE_SB_IOSF_CTRL_CMPL_ERR_MASK = push_bit (unat IXGBE_SB_IOSF_CTRL_CMPL_ERR_SHIFT) 0xFF"

definition IXGBE_SB_IOSF_CTRL_BUSY_SHIFT :: u32 where
  "IXGBE_SB_IOSF_CTRL_BUSY_SHIFT = 31"

definition IXGBE_SB_IOSF_CTRL_BUSY :: u32 where
  "IXGBE_SB_IOSF_CTRL_BUSY = push_bit (unat IXGBE_SB_IOSF_CTRL_BUSY_SHIFT) 1"

definition IXGBE_NW_MNG_IF_SEL_MDIO_PHY_ADD_SHIFT :: u32 where
  "IXGBE_NW_MNG_IF_SEL_MDIO_PHY_ADD_SHIFT = 3"

definition IXGBE_NW_MNG_IF_SEL_MDIO_PHY_ADD :: u32 where
  "IXGBE_NW_MNG_IF_SEL_MDIO_PHY_ADD = push_bit (unat IXGBE_NW_MNG_IF_SEL_MDIO_PHY_ADD_SHIFT) 0x1F"

definition IXGBE_PSRTYPE_RQPL_MASK :: u32 where
  "IXGBE_PSRTYPE_RQPL_MASK = 0x7"

definition IXGBE_PSRTYPE_RQPL_SHIFT :: u32 where
  "IXGBE_PSRTYPE_RQPL_SHIFT = 29"

definition IXGBE_FTQF_PRIORITY_MASK :: u32 where
  "IXGBE_FTQF_PRIORITY_MASK = 0x00000007"

definition IXGBE_FTQF_PRIORITY_SHIFT :: u32 where
  "IXGBE_FTQF_PRIORITY_SHIFT = 2"

definition IXGBE_FTQF_POOL_MASK :: u32 where
  "IXGBE_FTQF_POOL_MASK = 0x0000003F"

definition IXGBE_FTQF_POOL_SHIFT :: u32 where
  "IXGBE_FTQF_POOL_SHIFT = 8"

definition IXGBE_FTQF_5TUPLE_MASK_MASK :: u32 where
  "IXGBE_FTQF_5TUPLE_MASK_MASK = 0x0000001F"

definition IXGBE_FTQF_5TUPLE_MASK_SHIFT :: u32 where
  "IXGBE_FTQF_5TUPLE_MASK_SHIFT = 25"

definition IXGBE_SB_IOSF_CTRL_TARGET_SELECT_MASK :: u32 where
  "IXGBE_SB_IOSF_CTRL_TARGET_SELECT_MASK = 0x7"

definition IXGBE_SB_IOSF_CTRL_TARGET_SELECT_SHIFT :: u32 where
  "IXGBE_SB_IOSF_CTRL_TARGET_SELECT_SHIFT = 28"

definition IXGBE_SPOOF_ETHERTYPEAS :: u32 where
  "IXGBE_SPOOF_ETHERTYPEAS = 0xFF000000"

definition IXGBE_SPOOF_ETHERTYPEAS_SHIFT :: u32 where
  "IXGBE_SPOOF_ETHERTYPEAS_SHIFT = 16"

definition IXGBE_MFLCN_RPFCE_MASK :: u32 where
  "IXGBE_MFLCN_RPFCE_MASK = 0x00000FF4"

definition IXGBE_MFLCN_RPFCE_SHIFT :: u32 where
  "IXGBE_MFLCN_RPFCE_SHIFT = 4"

definition IXGBE_MFLCN_RPFCE :: u32 where
  "IXGBE_MFLCN_RPFCE = 0x00000004"

definition IXGBE_SRRCTL_BSIZEPKT_MASK :: u32 where
  "IXGBE_SRRCTL_BSIZEPKT_MASK = 0x0000007F"

definition IXGBE_SRRCTL_BSIZEPKT_SHIFT :: u32 where
  "IXGBE_SRRCTL_BSIZEPKT_SHIFT = 10"

definition IXGBE_RXDADV_PKTTYPE_ETQF :: u32 where
  "IXGBE_RXDADV_PKTTYPE_ETQF = 0x00008000"

text \<open>Masks that stand at the place of the field.\<close>

definition placed_fields :: "(u32 \<times> u32) list" where
  "placed_fields = [
     (IXGBE_RXPBSIZE_MASK, IXGBE_RXPBSIZE_SHIFT), (IXGBE_SPOOF_VLANAS_MASK, IXGBE_SPOOF_VLANAS_SHIFT),
     (IXGBE_VXLANCTRL_GENEVE_UDPPORT_MASK, IXGBE_VXLANCTRL_GENEVE_UDPPORT_SHIFT),
     (IXGBE_DMCMNGTH_DMCMNGTH_MASK, IXGBE_DMCMNGTH_DMCMNGTH_SHIFT),
     (IXGBE_DMACR_HIGH_PRI_TC_MASK, IXGBE_DMACR_HIGH_PRI_TC_SHIFT),
     (IXGBE_LSECTXCAP_SUM_MASK, IXGBE_LSECTXCAP_SUM_SHIFT),
     (IXGBE_LSECRXCAP_SUM_MASK, IXGBE_LSECRXCAP_SUM_SHIFT),
     (IXGBE_LSECRXCTRL_EN_MASK, IXGBE_LSECRXCTRL_EN_SHIFT),
     (IXGBE_RTTBCNRC_RF_INT_MASK, IXGBE_RTTBCNRC_RF_INT_SHIFT),
     (IXGBE_FCBUFF_BUFFSIZE, IXGBE_FCBUFF_BUFFSIZE_SHIFT),
     (IXGBE_FCBUFF_BUFFCNT, IXGBE_FCBUFF_BUFFCNT_SHIFT), (IXGBE_FCBUFF_OFFSET, IXGBE_FCBUFF_OFFSET_SHIFT),
     (IXGBE_FCDMARW_LASTSIZE, IXGBE_FCDMARW_LASTSIZE_SHIFT),
     (IXGBE_FCRXCTRL_FCOEVER, IXGBE_FCRXCTRL_FCOEVER_SHIFT),
     (IXGBE_FCRETA_ENTRY_HIGH_MASK, IXGBE_FCRETA_ENTRY_HIGH_SHIFT),
     (IXGBE_MANC_EN_BMC2OS, IXGBE_MANC_EN_BMC2OS_SHIFT), (IXGBE_BARCTRL_FLSIZE, IXGBE_BARCTRL_FLSIZE_SHIFT),
     (IXGBE_MHADD_MFS_MASK, IXGBE_MHADD_MFS_SHIFT), (IXGBE_MSCA_NP_ADDR_MASK, IXGBE_MSCA_NP_ADDR_SHIFT),
     (IXGBE_MSCA_DEV_TYPE_MASK, IXGBE_MSCA_DEV_TYPE_SHIFT),
     (IXGBE_MSCA_PHY_ADDR_MASK, IXGBE_MSCA_PHY_ADDR_SHIFT),
     (IXGBE_MSCA_OP_CODE_MASK, IXGBE_MSCA_OP_CODE_SHIFT),
     (IXGBE_MSCA_ST_CODE_MASK, IXGBE_MSCA_ST_CODE_SHIFT),
     (IXGBE_MSRWD_WRITE_DATA_MASK, IXGBE_MSRWD_WRITE_DATA_SHIFT),
     (IXGBE_MSRWD_READ_DATA_MASK, IXGBE_MSRWD_READ_DATA_SHIFT),
     (IXGBE_VT_CTL_POOL_MASK, IXGBE_VT_CTL_POOL_SHIFT),
     (IXGBE_RDHMPN_RDICADDR, IXGBE_RDHMPN_RDICADDR_SHIFT),
     (IXGBE_TDHMPN_TDICADDR, IXGBE_TDHMPN_TDICADDR_SHIFT), (IXGBE_ETQS_RX_QUEUE, IXGBE_ETQS_RX_QUEUE_SHIFT),
     (IXGBE_STATUS_LAN_ID, IXGBE_STATUS_LAN_ID_SHIFT), (IXGBE_AUTOC_LMS_MASK, IXGBE_AUTOC_LMS_SHIFT),
     (IXGBE_AUTOC_1G_PMA_PMD_MASK, IXGBE_AUTOC_1G_PMA_PMD_SHIFT),
     (IXGBE_AUTOC_10G_PMA_PMD_MASK, IXGBE_AUTOC_10G_PMA_PMD_SHIFT),
     (IXGBE_AUTOC2_10G_SERIAL_PMA_PMD_MASK, IXGBE_AUTOC2_10G_SERIAL_PMA_PMD_SHIFT),
     (IXGBE_EEC_FWE_MASK, IXGBE_EEC_FWE_SHIFT), (IXGBE_EEC_SIZE, IXGBE_EEC_SIZE_SHIFT),
     (IXGBE_EE_CTRL_4_INST_ID, IXGBE_EE_CTRL_4_INST_ID_SHIFT),
     (IXGBE_ETS_LTHRES_DELTA_MASK, IXGBE_ETS_LTHRES_DELTA_SHIFT),
     (IXGBE_ETS_TYPE_MASK, IXGBE_ETS_TYPE_SHIFT), (IXGBE_ETS_DATA_LOC_MASK, IXGBE_ETS_DATA_LOC_SHIFT),
     (IXGBE_ETS_DATA_INDEX_MASK, IXGBE_ETS_DATA_INDEX_SHIFT), (IXGBE_RAH_VIND_MASK, IXGBE_RAH_VIND_SHIFT),
     (IXGBE_RFCTL_ISCSI_DWC_MASK, IXGBE_RFCTL_ISCSI_DWC_SHIFT),
     (IXGBE_RFCTL_NFS_VER_MASK, IXGBE_RFCTL_NFS_VER_SHIFT), (IXGBE_QDE_IDX_MASK, IXGBE_QDE_IDX_SHIFT),
     (IXGBE_RXDADV_NEXTP_MASK, IXGBE_RXDADV_NEXTP_SHIFT), (IXGBE_RXDADV_ERR_MASK, IXGBE_RXDADV_ERR_SHIFT),
     (IXGBE_RXD_PRI_MASK, IXGBE_RXD_PRI_SHIFT), (IXGBE_RXD_CFI_MASK, IXGBE_RXD_CFI_SHIFT),
     (IXGBE_SRRCTL_RDMTS_MASK, IXGBE_SRRCTL_RDMTS_SHIFT),
     (IXGBE_RXDADV_RSCCNT_MASK, IXGBE_RXDADV_RSCCNT_SHIFT),
     (IXGBE_RXDADV_HDRBUFLEN_MASK, IXGBE_RXDADV_HDRBUFLEN_SHIFT),
     (IXGBE_RXDADV_PKTTYPE_ETQF_MASK, IXGBE_RXDADV_PKTTYPE_ETQF_SHIFT),
     (IXGBE_RX_DESC_SPECIAL_PRI_MASK, IXGBE_RX_DESC_SPECIAL_PRI_SHIFT),
     (IXGBE_FDIRCTRL_DROP_Q_MASK, IXGBE_FDIRCTRL_DROP_Q_SHIFT),
     (IXGBE_FDIRCTRL_FILTERMODE_MASK, IXGBE_FDIRCTRL_FILTERMODE_SHIFT),
     (IXGBE_FDIRCTRL_FULL_THRESH_MASK, IXGBE_FDIRCTRL_FULL_THRESH_SHIFT),
     (IXGBE_FDIRFREE_FREE_MASK, IXGBE_FDIRFREE_FREE_SHIFT),
     (IXGBE_FDIRFREE_COLL_MASK, IXGBE_FDIRFREE_COLL_SHIFT),
     (IXGBE_FDIRLEN_MAXLEN_MASK, IXGBE_FDIRLEN_MAXLEN_SHIFT),
     (IXGBE_FDIRLEN_MAXHASH_MASK, IXGBE_FDIRLEN_MAXHASH_SHIFT),
     (IXGBE_FDIRUSTAT_ADD_MASK, IXGBE_FDIRUSTAT_ADD_SHIFT),
     (IXGBE_FDIRUSTAT_REMOVE_MASK, IXGBE_FDIRUSTAT_REMOVE_SHIFT),
     (IXGBE_FDIRFSTAT_FADD_MASK, IXGBE_FDIRFSTAT_FADD_SHIFT),
     (IXGBE_FDIRFSTAT_FREMOVE_MASK, IXGBE_FDIRFSTAT_FREMOVE_SHIFT),
     (IXGBE_FDIRCMD_TUNNEL_FILTER, IXGBE_FDIRCMD_TUNNEL_FILTER_SHIFT),
     (IXGBE_SB_IOSF_CTRL_ADDR_MASK, IXGBE_SB_IOSF_CTRL_ADDR_SHIFT),
     (IXGBE_SB_IOSF_CTRL_RESP_STAT_MASK, IXGBE_SB_IOSF_CTRL_RESP_STAT_SHIFT),
     (IXGBE_SB_IOSF_CTRL_CMPL_ERR_MASK, IXGBE_SB_IOSF_CTRL_CMPL_ERR_SHIFT),
     (IXGBE_SB_IOSF_CTRL_BUSY, IXGBE_SB_IOSF_CTRL_BUSY_SHIFT),
     (IXGBE_NW_MNG_IF_SEL_MDIO_PHY_ADD, IXGBE_NW_MNG_IF_SEL_MDIO_PHY_ADD_SHIFT)]"

text \<open>Masks of the field's value, before it is moved to its place.\<close>

definition value_fields :: "(u32 \<times> u32) list" where
  "value_fields = [
     (IXGBE_PSRTYPE_RQPL_MASK, IXGBE_PSRTYPE_RQPL_SHIFT),
     (IXGBE_FTQF_PRIORITY_MASK, IXGBE_FTQF_PRIORITY_SHIFT), (IXGBE_FTQF_POOL_MASK, IXGBE_FTQF_POOL_SHIFT),
     (IXGBE_FTQF_5TUPLE_MASK_MASK, IXGBE_FTQF_5TUPLE_MASK_SHIFT),
     (IXGBE_SB_IOSF_CTRL_TARGET_SELECT_MASK, IXGBE_SB_IOSF_CTRL_TARGET_SELECT_SHIFT)]"

lemmas vf_defs =
  IXGBE_MBVFICR_INDEX_def IXGBE_MBVFICR_def IXGBE_VFLRE_def IXGBE_VFLREC_def IXGBE_PVFCTRL_def
  IXGBE_PVFSTATUS_def IXGBE_PVFLINKS_def IXGBE_PVFRTIMER_def IXGBE_PVFMAILBOX_def IXGBE_PVFRXMEMWRAP_def
  IXGBE_PVTEICR_def IXGBE_PVTEICS_def IXGBE_PVTEIMS_def IXGBE_PVTEIMC_def IXGBE_PVTEIAC_def
  IXGBE_PVTEIAM_def IXGBE_PVTEITR_def IXGBE_PVTIVAR_def IXGBE_PVTIVAR_MISC_def IXGBE_PVTRSCINT_def
  IXGBE_VFPBACL_def IXGBE_PVFRDBAL_def IXGBE_PVFRDBAH_def IXGBE_PVFRDLEN_def IXGBE_PVFRDH_def
  IXGBE_PVFRDT_def IXGBE_PVFRXDCTL_def IXGBE_PVFSRRCTL_def IXGBE_PVFPSRTYPE_def IXGBE_PVFTDBAL_def
  IXGBE_PVFTDBAH_def IXGBE_PVFTDLEN_def IXGBE_PVFTDH_def IXGBE_PVFTDT_def IXGBE_PVFTXDCTL_def
  IXGBE_PVFTDWBAL_def IXGBE_PVFTDWBAH_def IXGBE_PVFDCA_RXCTRL_def IXGBE_PVFDCA_TXCTRL_def IXGBE_PVFGPRC_def
  IXGBE_PVFGPTC_def IXGBE_PVFGORC_LSB_def IXGBE_PVFGORC_MSB_def IXGBE_PVFGOTC_LSB_def IXGBE_PVFGOTC_MSB_def
  IXGBE_PVFMPRC_def IXGBE_PVFTDWBALn_def IXGBE_PVFTDWBAHn_def IXGBE_PVFTDHn_def IXGBE_PVFTDTn_def

lemmas krm_defs =
  IXGBE_KRM_PORT_CAR_GEN_CTRL_def IXGBE_KRM_LINK_S1_def IXGBE_KRM_LINK_CTRL_1_def IXGBE_KRM_AN_CNTL_1_def
  IXGBE_KRM_AN_CNTL_4_def IXGBE_KRM_AN_CNTL_8_def IXGBE_KRM_PCS_KX_AN_def IXGBE_KRM_PCS_KX_AN_LP_def
  IXGBE_KRM_SGMII_CTRL_def IXGBE_KRM_LP_BASE_PAGE_HIGH_def IXGBE_KRM_DSP_TXFFE_STATE_4_def
  IXGBE_KRM_DSP_TXFFE_STATE_5_def IXGBE_KRM_RX_TRN_LINKUP_CTRL_def IXGBE_KRM_PMD_DFX_BURNIN_def
  IXGBE_KRM_PMD_FLX_MASK_ST20_def IXGBE_KRM_TX_COEFF_CTRL_1_def IXGBE_KRM_RX_ANA_CTL_def

lemmas field_defs =
  IXGBE_RXPBSIZE_MASK_def IXGBE_RXPBSIZE_SHIFT_def IXGBE_SPOOF_VLANAS_MASK_def IXGBE_SPOOF_VLANAS_SHIFT_def
  IXGBE_VXLANCTRL_GENEVE_UDPPORT_MASK_def IXGBE_VXLANCTRL_GENEVE_UDPPORT_SHIFT_def
  IXGBE_DMCMNGTH_DMCMNGTH_MASK_def IXGBE_DMCMNGTH_DMCMNGTH_SHIFT_def IXGBE_DMACR_HIGH_PRI_TC_MASK_def
  IXGBE_DMACR_HIGH_PRI_TC_SHIFT_def IXGBE_LSECTXCAP_SUM_MASK_def IXGBE_LSECTXCAP_SUM_SHIFT_def
  IXGBE_LSECRXCAP_SUM_MASK_def IXGBE_LSECRXCAP_SUM_SHIFT_def IXGBE_LSECRXCTRL_EN_MASK_def
  IXGBE_LSECRXCTRL_EN_SHIFT_def IXGBE_RTTBCNRC_RF_INT_MASK_def IXGBE_RTTBCNRC_RF_INT_SHIFT_def
  IXGBE_FCBUFF_BUFFSIZE_def IXGBE_FCBUFF_BUFFSIZE_SHIFT_def IXGBE_FCBUFF_BUFFCNT_def
  IXGBE_FCBUFF_BUFFCNT_SHIFT_def IXGBE_FCBUFF_OFFSET_def IXGBE_FCBUFF_OFFSET_SHIFT_def
  IXGBE_FCDMARW_LASTSIZE_def IXGBE_FCDMARW_LASTSIZE_SHIFT_def IXGBE_FCRXCTRL_FCOEVER_def
  IXGBE_FCRXCTRL_FCOEVER_SHIFT_def IXGBE_FCRETA_ENTRY_HIGH_MASK_def IXGBE_FCRETA_ENTRY_HIGH_SHIFT_def
  IXGBE_MANC_EN_BMC2OS_def IXGBE_MANC_EN_BMC2OS_SHIFT_def IXGBE_BARCTRL_FLSIZE_def
  IXGBE_BARCTRL_FLSIZE_SHIFT_def IXGBE_MHADD_MFS_MASK_def IXGBE_MHADD_MFS_SHIFT_def
  IXGBE_MSCA_NP_ADDR_MASK_def IXGBE_MSCA_NP_ADDR_SHIFT_def IXGBE_MSCA_DEV_TYPE_MASK_def
  IXGBE_MSCA_DEV_TYPE_SHIFT_def IXGBE_MSCA_PHY_ADDR_MASK_def IXGBE_MSCA_PHY_ADDR_SHIFT_def
  IXGBE_MSCA_OP_CODE_MASK_def IXGBE_MSCA_OP_CODE_SHIFT_def IXGBE_MSCA_ST_CODE_MASK_def
  IXGBE_MSCA_ST_CODE_SHIFT_def IXGBE_MSRWD_WRITE_DATA_MASK_def IXGBE_MSRWD_WRITE_DATA_SHIFT_def
  IXGBE_MSRWD_READ_DATA_MASK_def IXGBE_MSRWD_READ_DATA_SHIFT_def IXGBE_VT_CTL_POOL_MASK_def
  IXGBE_VT_CTL_POOL_SHIFT_def IXGBE_RDHMPN_RDICADDR_def IXGBE_RDHMPN_RDICADDR_SHIFT_def
  IXGBE_TDHMPN_TDICADDR_def IXGBE_TDHMPN_TDICADDR_SHIFT_def IXGBE_ETQS_RX_QUEUE_def
  IXGBE_ETQS_RX_QUEUE_SHIFT_def IXGBE_STATUS_LAN_ID_def IXGBE_STATUS_LAN_ID_SHIFT_def
  IXGBE_AUTOC_LMS_MASK_def IXGBE_AUTOC_LMS_SHIFT_def IXGBE_AUTOC_1G_PMA_PMD_MASK_def
  IXGBE_AUTOC_1G_PMA_PMD_SHIFT_def IXGBE_AUTOC_10G_PMA_PMD_MASK_def IXGBE_AUTOC_10G_PMA_PMD_SHIFT_def
  IXGBE_AUTOC2_10G_SERIAL_PMA_PMD_MASK_def IXGBE_AUTOC2_10G_SERIAL_PMA_PMD_SHIFT_def IXGBE_EEC_FWE_MASK_def
  IXGBE_EEC_FWE_SHIFT_def IXGBE_EEC_SIZE_def IXGBE_EEC_SIZE_SHIFT_def IXGBE_EE_CTRL_4_INST_ID_def
  IXGBE_EE_CTRL_4_INST_ID_SHIFT_def IXGBE_ETS_LTHRES_DELTA_MASK_def IXGBE_ETS_LTHRES_DELTA_SHIFT_def
  IXGBE_ETS_TYPE_MASK_def IXGBE_ETS_TYPE_SHIFT_def IXGBE_ETS_DATA_LOC_MASK_def IXGBE_ETS_DATA_LOC_SHIFT_def
  IXGBE_ETS_DATA_INDEX_MASK_def IXGBE_ETS_DATA_INDEX_SHIFT_def IXGBE_RAH_VIND_MASK_def
  IXGBE_RAH_VIND_SHIFT_def IXGBE_RFCTL_ISCSI_DWC_MASK_def IXGBE_RFCTL_ISCSI_DWC_SHIFT_def
  IXGBE_RFCTL_NFS_VER_MASK_def IXGBE_RFCTL_NFS_VER_SHIFT_def IXGBE_QDE_IDX_MASK_def IXGBE_QDE_IDX_SHIFT_def
  IXGBE_RXDADV_NEXTP_MASK_def IXGBE_RXDADV_NEXTP_SHIFT_def IXGBE_RXDADV_ERR_MASK_def
  IXGBE_RXDADV_ERR_SHIFT_def IXGBE_RXD_PRI_MASK_def IXGBE_RXD_PRI_SHIFT_def IXGBE_RXD_CFI_MASK_def
  IXGBE_RXD_CFI_SHIFT_def IXGBE_SRRCTL_RDMTS_MASK_def IXGBE_SRRCTL_RDMTS_SHIFT_def
  IXGBE_RXDADV_RSCCNT_MASK_def IXGBE_RXDADV_RSCCNT_SHIFT_def IXGBE_RXDADV_HDRBUFLEN_MASK_def
  IXGBE_RXDADV_HDRBUFLEN_SHIFT_def IXGBE_RXDADV_PKTTYPE_ETQF_MASK_def IXGBE_RXDADV_PKTTYPE_ETQF_SHIFT_def
  IXGBE_RX_DESC_SPECIAL_PRI_MASK_def IXGBE_RX_DESC_SPECIAL_PRI_SHIFT_def IXGBE_FDIRCTRL_DROP_Q_MASK_def
  IXGBE_FDIRCTRL_DROP_Q_SHIFT_def IXGBE_FDIRCTRL_FILTERMODE_MASK_def IXGBE_FDIRCTRL_FILTERMODE_SHIFT_def
  IXGBE_FDIRCTRL_FULL_THRESH_MASK_def IXGBE_FDIRCTRL_FULL_THRESH_SHIFT_def IXGBE_FDIRFREE_FREE_MASK_def
  IXGBE_FDIRFREE_FREE_SHIFT_def IXGBE_FDIRFREE_COLL_MASK_def IXGBE_FDIRFREE_COLL_SHIFT_def
  IXGBE_FDIRLEN_MAXLEN_MASK_def IXGBE_FDIRLEN_MAXLEN_SHIFT_def IXGBE_FDIRLEN_MAXHASH_MASK_def
  IXGBE_FDIRLEN_MAXHASH_SHIFT_def IXGBE_FDIRUSTAT_ADD_MASK_def IXGBE_FDIRUSTAT_ADD_SHIFT_def
  IXGBE_FDIRUSTAT_REMOVE_MASK_def IXGBE_FDIRUSTAT_REMOVE_SHIFT_def IXGBE_FDIRFSTAT_FADD_MASK_def
  IXGBE_FDIRFSTAT_FADD_SHIFT_def IXGBE_FDIRFSTAT_FREMOVE_MASK_def IXGBE_FDIRFSTAT_FREMOVE_SHIFT_def
  IXGBE_FDIRCMD_TUNNEL_FILTER_def IXGBE_FDIRCMD_TUNNEL_FILTER_SHIFT_def IXGBE_SB_IOSF_CTRL_ADDR_MASK_def
  IXGBE_SB_IOSF_CTRL_ADDR_SHIFT_def IXGBE_SB_IOSF_CTRL_RESP_STAT_MASK_def
  IXGBE_SB_IOSF_CTRL_RESP_STAT_SHIFT_def IXGBE_SB_IOSF_CTRL_CMPL_ERR_MASK_def
  IXGBE_SB_IOSF_CTRL_CMPL_ERR_SHIFT_def IXGBE_SB_IOSF_CTRL_BUSY_def IXGBE_SB_IOSF_CTRL_BUSY_SHIFT_def
  IXGBE_NW_MNG_IF_SEL_MDIO_PHY_ADD_def IXGBE_NW_MNG_IF_SEL_MDIO_PHY_ADD_SHIFT_def
  IXGBE_PSRTYPE_RQPL_MASK_def IXGBE_PSRTYPE_RQPL_SHIFT_def IXGBE_FTQF_PRIORITY_MASK_def
  IXGBE_FTQF_PRIORITY_SHIFT_def IXGBE_FTQF_POOL_MASK_def IXGBE_FTQF_POOL_SHIFT_def
  IXGBE_FTQF_5TUPLE_MASK_MASK_def IXGBE_FTQF_5TUPLE_MASK_SHIFT_def
  IXGBE_SB_IOSF_CTRL_TARGET_SELECT_MASK_def IXGBE_SB_IOSF_CTRL_TARGET_SELECT_SHIFT_def

lemmas delay_defs =
  IXGBE_BT2KB_def IXGBE_B2BT_def IXGBE_PFC_D_def IXGBE_CABLE_DC_def IXGBE_MAC_DC_def IXGBE_XAUI_DC_def
  IXGBE_PHY_DC_def IXGBE_ID_X540_def IXGBE_HD_def IXGBE_DV_X540_def IXGBE_MAC_D_def IXGBE_XAUI_D_def
  IXGBE_PHY_D_def IXGBE_ID_def IXGBE_DV_def IXGBE_PCI_DELAY_def IXGBE_LOW_DV_X540_def IXGBE_LOW_DV_def

lemmas led_defs =
  IXGBE_LED_OFFSET_def IXGBE_LED_MODE_SHIFT_def IXGBE_LED_IVRT_def IXGBE_LED_BLINK_def
  IXGBE_LED_MODE_MASK_def IXGBE_LED_IVRT_BASE_def IXGBE_LED_BLINK_BASE_def IXGBE_LED_MODE_MASK_BASE_def

lemmas rqtc_defs =
  IXGBE_RQTC_TC0_MASK_def IXGBE_RQTC_TC1_MASK_def IXGBE_RQTC_TC2_MASK_def IXGBE_RQTC_TC3_MASK_def
  IXGBE_RQTC_TC4_MASK_def IXGBE_RQTC_TC5_MASK_def IXGBE_RQTC_TC6_MASK_def IXGBE_RQTC_TC7_MASK_def
  IXGBE_RQTC_SHIFT_TC_def

end
