(* ===== verification/Rush_Fields_Correct.thy ===== *)
theory Rush_Fields_Correct
  imports Rush_Fields
begin

text \<open>
  That the masks and shifts of \<open>constants.rs\<close> belong together, that the registers of virtual functions
  and of the ports of the KR PHY are where the others say, and that delay values are computed without
  wrapping around for the frame sizes there are.
\<close>

section \<open>Fields\<close>

text \<open>A field of \<open>w\<close> bits inside the register, at the place the shift says.\<close>

definition placed_at :: "u32 \<times> u32 \<Rightarrow> nat \<Rightarrow> bool" where
  "placed_at f w \<longleftrightarrow> 0 < w \<and> unat (snd f) + w \<le> 32 \<and> fst f = push_bit (unat (snd f)) (mask w)"

lemma field_roundtrip:
  assumes "placed_at (m, s) w" "v \<le> drop_bit (unat s) m"
  shows "drop_bit (unat s) ((r AND NOT m OR push_bit (unat s) v) AND m) = v"
    and "(r AND NOT m OR push_bit (unat s) v) AND NOT m = r AND NOT m"
proof -
  have m: "m = push_bit (unat s) (mask w)" "unat s + w \<le> 32" using assms(1) by (simp_all add: placed_at_def)
  have "drop_bit (unat s) m = mask w"
    using m(2) by (intro bit_word_eqI) (auto simp: m(1) bit_simps)
  then have "v \<le> mask w" using assms(2) by simp
  then have "uint v \<le> mask w" using m(2) by (simp add: word_le_def uint_mask_eq)
  then have "uint v < 2 ^ w" by (simp add: mask_eq_exp_minus_1)
  then have "v AND mask w = v" by (simp add: mask_eq_iff)
  then have v: "i < w" if "bit v i" for i
    using that by (metis bit_and_iff Word.bit_mask_iff min_less_iff_conj)
  show "drop_bit (unat s) ((r AND NOT m OR push_bit (unat s) v) AND m) = v"
    using m(2) by (intro bit_word_eqI) (auto simp: m(1) bit_simps dest: v)
  show "(r AND NOT m OR push_bit (unat s) v) AND NOT m = r AND NOT m"
    using m(2) by (intro bit_word_eqI) (auto simp: m(1) bit_simps dest: v)
qed


text \<open>The widths of the fields, found by counting.\<close>

definition field_width :: "u32 \<times> u32 \<Rightarrow> nat option" where
  "field_width f = find (placed_at f) [1..<33]"

lemma field_width_placed: "field_width f = Some w \<Longrightarrow> placed_at f w"
  by (auto simp: field_width_def find_Some_iff)

definition move :: "u32 \<times> u32 \<Rightarrow> u32 \<times> u32" where
  "move f = (push_bit (unat (snd f)) (fst f), snd f)"

lemma register_fields:
  "list_all (\<lambda>f. field_width f \<noteq> None) (placed_fields @ map move value_fields)"
  by code_simp



section \<open>Registers of virtual functions\<close>

text \<open>The queues of a virtual function are the queues of the device.\<close>

lemma vf_queue_registers:
  "IXGBE_PVFRDBAL = IXGBE_RDBAL" "IXGBE_PVFRDBAH = IXGBE_RDBAH" "IXGBE_PVFRDLEN = IXGBE_RDLEN"
  "IXGBE_PVFRDH = IXGBE_RDH" "IXGBE_PVFRDT = IXGBE_RDT" "IXGBE_PVFRXDCTL = IXGBE_RXDCTL"
  "IXGBE_PVFTDBAL = IXGBE_TDBAL" "IXGBE_PVFTDBAH = IXGBE_TDBAH" "IXGBE_PVFTDLEN = IXGBE_TDLEN"
  "IXGBE_PVFTDH = IXGBE_TDH" "IXGBE_PVFTDT = IXGBE_TDT" "IXGBE_PVFTXDCTL = IXGBE_TXDCTL"
  "IXGBE_PVFTDWBAL = IXGBE_TDWBAL" "IXGBE_PVFTDWBAH = IXGBE_TDWBAH"
  "IXGBE_PVFDCA_TXCTRL = IXGBE_DCA_TXCTRL_82599"
  by (rule ext, auto simp: vf_defs IXGBE_RDBAL_def IXGBE_RDBAH_def IXGBE_RDLEN_def IXGBE_RDH_def IXGBE_RDT_def
      IXGBE_RXDCTL_def IXGBE_TDBAL_def IXGBE_TDBAH_def IXGBE_TDLEN_def IXGBE_TDH_def IXGBE_TDT_def
      IXGBE_TXDCTL_def IXGBE_TDWBAL_def IXGBE_TDWBAH_def IXGBE_DCA_TXCTRL_82599_def)+

lemma vf_interrupt_throttle: "IXGBE_PVTEITR = IXGBE_EITR"
proof
  fix i :: u32
  have "i < 24 \<longleftrightarrow> i \<le> 23" by unat_arith
  then show "IXGBE_PVTEITR i = IXGBE_EITR i" by (simp add: IXGBE_PVTEITR_def IXGBE_EITR_def)
qed

text \<open>The two ports of the KR PHY have the same registers, 0x4000 apart.\<close>

lemma krm_ports:
  "P \<noteq> 0 \<Longrightarrow> list_all (\<lambda>r. r P = r 0 + 0x4000)
     [IXGBE_KRM_PORT_CAR_GEN_CTRL, IXGBE_KRM_LINK_S1, IXGBE_KRM_LINK_CTRL_1, IXGBE_KRM_AN_CNTL_1,
      IXGBE_KRM_AN_CNTL_4, IXGBE_KRM_AN_CNTL_8, IXGBE_KRM_PCS_KX_AN, IXGBE_KRM_PCS_KX_AN_LP,
      IXGBE_KRM_SGMII_CTRL, IXGBE_KRM_LP_BASE_PAGE_HIGH, IXGBE_KRM_DSP_TXFFE_STATE_4,
      IXGBE_KRM_DSP_TXFFE_STATE_5, IXGBE_KRM_RX_TRN_LINKUP_CTRL, IXGBE_KRM_PMD_DFX_BURNIN,
      IXGBE_KRM_PMD_FLX_MASK_ST20, IXGBE_KRM_TX_COEFF_CTRL_1, IXGBE_KRM_RX_ANA_CTL]"
  by (simp add: krm_defs)

section \<open>Fields by an index\<close>

text \<open>The traffic classes of a queue mapping and the LEDs of the LED register do not share bits.\<close>

lemma rqtc_masks:
  "[IXGBE_RQTC_TC0_MASK, IXGBE_RQTC_TC1_MASK, IXGBE_RQTC_TC2_MASK, IXGBE_RQTC_TC3_MASK, IXGBE_RQTC_TC4_MASK,
    IXGBE_RQTC_TC5_MASK, IXGBE_RQTC_TC6_MASK, IXGBE_RQTC_TC7_MASK] =
   map (\<lambda>i. push_bit (unat (IXGBE_RQTC_SHIFT_TC i)) 7) [0, 1, 2, 3, 4, 5, 6, 7]"
  by code_simp

definition led_bits :: "u32 \<Rightarrow> u32" where
  "led_bits i = IXGBE_LED_MODE_MASK i OR IXGBE_LED_IVRT i OR IXGBE_LED_BLINK i"

lemma led_fields:
  "list_all (\<lambda>i. led_bits i = push_bit (unat (IXGBE_LED_MODE_SHIFT i)) 0xCF) [0, 1, 2, 3]"
  "sorted_wrt (\<lambda>i j. led_bits i AND led_bits j = 0) [0, 1, 2, 3]"
  by code_simp+

section \<open>Delay values\<close>

text \<open>A megabyte, beyond any frame there is, does not bring the calculation near the end of a word.\<close>

lemma delay_sum:
  fixes l t c :: u32
  assumes "unat l \<le> 2 ^ 20" "unat t \<le> 2 ^ 20" "unat c \<le> 2 ^ 20"
  shows "unat (36 * (IXGBE_B2BT l + c) div 25 + 1 + 2 * IXGBE_B2BT t) =
         36 * (8 * unat l + unat c) div 25 + 1 + 16 * unat t"
  using assms by (simp add: IXGBE_B2BT_def unat_word_ariths unat_div)

definition delay :: "nat \<Rightarrow> nat \<Rightarrow> nat \<Rightarrow> nat" where
  "delay interface link tc = 36 * (8 * link + 672 + 2 * 5556 + 2 * interface + 6144) div 25 + 1 + 2 * (8 * tc)"

text \<open>
  The delay values of flow control are what the same calculation gives over the natural
  numbers, for every frame up to a megabyte: no intermediate result wraps around; and the conversion of bit
  times to kilobytes rounds up.
\<close>

theorem delay_values_exact:
  assumes "unat l \<le> 2 ^ 20" and "unat t \<le> 2 ^ 20"
  shows "unat (IXGBE_DV l t) = delay (4096 + 2 * 1024 + 12800) (unat l) (unat t)"
    and "unat (IXGBE_DV_X540 l t) = delay (8192 + 2 * 2048 + 25600) (unat l) (unat t)"
    and "unat (IXGBE_LOW_DV t) = 2 * (2 * (8 * unat t) + 36 * 10000 div 25 + 1)"
    and "unat (IXGBE_BT2KB (IXGBE_DV l t)) = (delay (4096 + 2 * 1024 + 12800) (unat l) (unat t) + 8191) div 8192"
proof -
  have dv: "IXGBE_DV l t = 36 * (IXGBE_B2BT l + 55816) div 25 + 1 + 2 * IXGBE_B2BT t"
    by (simp add: delay_defs add.commute)
  have dv540: "IXGBE_DV_X540 l t = 36 * (IXGBE_B2BT l + 93704) div 25 + 1 + 2 * IXGBE_B2BT t"
    by (simp add: delay_defs add.commute)
  show exact: "unat (IXGBE_DV l t) = delay (4096 + 2 * 1024 + 12800) (unat l) (unat t)"
    using delay_sum [OF assms, of 55816] by (simp add: dv delay_def)
  show "unat (IXGBE_DV_X540 l t) = delay (8192 + 2 * 2048 + 25600) (unat l) (unat t)"
    using delay_sum [OF assms, of 93704] by (simp add: dv540 delay_def)
  show "unat (IXGBE_LOW_DV t) = 2 * (2 * (8 * unat t) + 36 * 10000 div 25 + 1)"
    using assms by (simp add: delay_defs unat_word_ariths)
  show "unat (IXGBE_BT2KB (IXGBE_DV l t)) = (delay (4096 + 2 * 1024 + 12800) (unat l) (unat t) + 8191) div 8192"
    using exact assms by (simp add: IXGBE_BT2KB_def unat_word_ariths unat_div delay_def)
qed

end
