(* ===== verification/Rush_Flags.thy ===== *)
theory Rush_Flags
  imports Rush_Fields
begin

text \<open>
  \<open>src/ixy82599/constants.rs\<close>: the flags of registers and descriptors, that is the constants with one
  bit, by register; the causes of interrupts, which four registers share; and the ids of devices. Where a
  bit has two names, for different generations of the device, the group has one of them.
\<close>

section \<open>Flags\<close>

definition IXGBE_GRC_MNG :: u32 where
  "IXGBE_GRC_MNG = 0x00000001"

definition IXGBE_GRC_APME :: u32 where
  "IXGBE_GRC_APME = 0x00000002"

definition IXGBE_EITR_LLI_MOD :: u32 where
  "IXGBE_EITR_LLI_MOD = 0x00008000"

definition IXGBE_EITR_CNT_WDIS :: u32 where
  "IXGBE_EITR_CNT_WDIS = 0x80000000"

definition IXGBE_DMATXCTL_NS :: u32 where
  "IXGBE_DMATXCTL_NS = 0x2"

definition IXGBE_DMATXCTL_GDV :: u32 where
  "IXGBE_DMATXCTL_GDV = 0x8"

definition IXGBE_DMATXCTL_MDP_EN :: u32 where
  "IXGBE_DMATXCTL_MDP_EN = 0x20"

definition IXGBE_DMATXCTL_MBINTEN :: u32 where
  "IXGBE_DMATXCTL_MBINTEN = 0x40"

definition IXGBE_WUC_PME_EN :: u32 where
  "IXGBE_WUC_PME_EN = 0x00000002"

definition IXGBE_WUC_PME_STATUS :: u32 where
  "IXGBE_WUC_PME_STATUS = 0x00000004"

definition IXGBE_WUC_WKEN :: u32 where
  "IXGBE_WUC_WKEN = 0x00000010"

definition IXGBE_WUFC_LNKC :: u32 where
  "IXGBE_WUFC_LNKC = 0x00000001"

definition IXGBE_WUFC_MAG :: u32 where
  "IXGBE_WUFC_MAG = 0x00000002"

definition IXGBE_WUFC_EX :: u32 where
  "IXGBE_WUFC_EX = 0x00000004"

definition IXGBE_WUFC_MC :: u32 where
  "IXGBE_WUFC_MC = 0x00000008"

definition IXGBE_WUFC_BC :: u32 where
  "IXGBE_WUFC_BC = 0x00000010"

definition IXGBE_WUFC_ARP :: u32 where
  "IXGBE_WUFC_ARP = 0x00000020"

definition IXGBE_WUFC_IPV4 :: u32 where
  "IXGBE_WUFC_IPV4 = 0x00000040"

definition IXGBE_WUFC_IPV6 :: u32 where
  "IXGBE_WUFC_IPV6 = 0x00000080"

definition IXGBE_WUFC_MNG :: u32 where
  "IXGBE_WUFC_MNG = 0x00000100"

definition IXGBE_WUFC_IGNORE_TCO :: u32 where
  "IXGBE_WUFC_IGNORE_TCO = 0x00008000"

definition IXGBE_WUFC_FLX0 :: u32 where
  "IXGBE_WUFC_FLX0 = 0x00010000"

definition IXGBE_WUFC_FLX1 :: u32 where
  "IXGBE_WUFC_FLX1 = 0x00020000"

definition IXGBE_WUFC_FLX2 :: u32 where
  "IXGBE_WUFC_FLX2 = 0x00040000"

definition IXGBE_WUFC_FLX3 :: u32 where
  "IXGBE_WUFC_FLX3 = 0x00080000"

definition IXGBE_WUFC_FLX4 :: u32 where
  "IXGBE_WUFC_FLX4 = 0x00100000"

definition IXGBE_WUFC_FLX5 :: u32 where
  "IXGBE_WUFC_FLX5 = 0x00200000"

definition IXGBE_WUFC_FW_RST_WK :: u32 where
  "IXGBE_WUFC_FW_RST_WK = 0x80000000"

definition IXGBE_WUS_LNKC :: u32 where
  "IXGBE_WUS_LNKC = IXGBE_WUFC_LNKC"

definition IXGBE_WUS_MAG :: u32 where
  "IXGBE_WUS_MAG = IXGBE_WUFC_MAG"

definition IXGBE_WUS_EX :: u32 where
  "IXGBE_WUS_EX = IXGBE_WUFC_EX"

definition IXGBE_WUS_MC :: u32 where
  "IXGBE_WUS_MC = IXGBE_WUFC_MC"

definition IXGBE_WUS_BC :: u32 where
  "IXGBE_WUS_BC = IXGBE_WUFC_BC"

definition IXGBE_WUS_ARP :: u32 where
  "IXGBE_WUS_ARP = IXGBE_WUFC_ARP"

definition IXGBE_WUS_IPV4 :: u32 where
  "IXGBE_WUS_IPV4 = IXGBE_WUFC_IPV4"

definition IXGBE_WUS_IPV6 :: u32 where
  "IXGBE_WUS_IPV6 = IXGBE_WUFC_IPV6"

definition IXGBE_WUS_MNG :: u32 where
  "IXGBE_WUS_MNG = IXGBE_WUFC_MNG"

definition IXGBE_WUS_FLX0 :: u32 where
  "IXGBE_WUS_FLX0 = IXGBE_WUFC_FLX0"

definition IXGBE_WUS_FLX1 :: u32 where
  "IXGBE_WUS_FLX1 = IXGBE_WUFC_FLX1"

definition IXGBE_WUS_FLX2 :: u32 where
  "IXGBE_WUS_FLX2 = IXGBE_WUFC_FLX2"

definition IXGBE_WUS_FLX3 :: u32 where
  "IXGBE_WUS_FLX3 = IXGBE_WUFC_FLX3"

definition IXGBE_WUS_FLX4 :: u32 where
  "IXGBE_WUS_FLX4 = IXGBE_WUFC_FLX4"

definition IXGBE_WUS_FLX5 :: u32 where
  "IXGBE_WUS_FLX5 = IXGBE_WUFC_FLX5"

definition IXGBE_WUS_FW_RST_WK :: u32 where
  "IXGBE_WUS_FW_RST_WK = IXGBE_WUFC_FW_RST_WK"

definition IXGBE_PROXYS_EX :: u32 where
  "IXGBE_PROXYS_EX = 0x00000004"

definition IXGBE_PROXYS_ARP_DIR :: u32 where
  "IXGBE_PROXYS_ARP_DIR = 0x00000020"

definition IXGBE_PROXYS_NS :: u32 where
  "IXGBE_PROXYS_NS = 0x00000200"

definition IXGBE_PROXYS_NS_DIR :: u32 where
  "IXGBE_PROXYS_NS_DIR = 0x00000400"

definition IXGBE_PROXYS_ARP :: u32 where
  "IXGBE_PROXYS_ARP = 0x00000800"

definition IXGBE_PROXYS_MLD :: u32 where
  "IXGBE_PROXYS_MLD = 0x00001000"

definition IXGBE_PROXYFC_ENABLE :: u32 where
  "IXGBE_PROXYFC_ENABLE = 0x00000001"

definition IXGBE_PROXYFC_EX :: u32 where
  "IXGBE_PROXYFC_EX = 0x00000004"

definition IXGBE_PROXYFC_ARP_DIR :: u32 where
  "IXGBE_PROXYFC_ARP_DIR = 0x00000020"

definition IXGBE_PROXYFC_NS :: u32 where
  "IXGBE_PROXYFC_NS = 0x00000200"

definition IXGBE_PROXYFC_ARP :: u32 where
  "IXGBE_PROXYFC_ARP = 0x00000800"

definition IXGBE_PROXYFC_NO_TCO :: u32 where
  "IXGBE_PROXYFC_NO_TCO = 0x00008000"

definition IXGBE_DMACR_EN_MNG_IND :: u32 where
  "IXGBE_DMACR_EN_MNG_IND = 0x10000000"

definition IXGBE_DMACR_LX_COAL_IND :: u32 where
  "IXGBE_DMACR_LX_COAL_IND = 0x40000000"

definition IXGBE_DMACR_DMAC_EN :: u32 where
  "IXGBE_DMACR_DMAC_EN = 0x80000000"

definition IXGBE_EEER_TX_LPI_EN :: u32 where
  "IXGBE_EEER_TX_LPI_EN = 0x00010000"

definition IXGBE_EEER_RX_LPI_EN :: u32 where
  "IXGBE_EEER_RX_LPI_EN = 0x00020000"

definition IXGBE_SECTXCTRL_SECTX_DIS :: u32 where
  "IXGBE_SECTXCTRL_SECTX_DIS = 0x00000001"

definition IXGBE_SECTXCTRL_TX_DIS :: u32 where
  "IXGBE_SECTXCTRL_TX_DIS = 0x00000002"

definition IXGBE_SECTXCTRL_STORE_FORWARD :: u32 where
  "IXGBE_SECTXCTRL_STORE_FORWARD = 0x00000004"

definition IXGBE_SECTXSTAT_SECTX_RDY :: u32 where
  "IXGBE_SECTXSTAT_SECTX_RDY = 0x00000001"

definition IXGBE_SECTXSTAT_ECC_TXERR :: u32 where
  "IXGBE_SECTXSTAT_ECC_TXERR = 0x00000002"

definition IXGBE_SECRXCTRL_SECRX_DIS :: u32 where
  "IXGBE_SECRXCTRL_SECRX_DIS = 0x00000001"

definition IXGBE_SECRXCTRL_RX_DIS :: u32 where
  "IXGBE_SECRXCTRL_RX_DIS = 0x00000002"

definition IXGBE_SECRXSTAT_SECRX_RDY :: u32 where
  "IXGBE_SECRXSTAT_SECRX_RDY = 0x00000001"

definition IXGBE_SECRXSTAT_ECC_RXERR :: u32 where
  "IXGBE_SECRXSTAT_ECC_RXERR = 0x00000002"

definition IXGBE_LSECTXCTRL_AUTH :: u32 where
  "IXGBE_LSECTXCTRL_AUTH = 0x1"

definition IXGBE_LSECTXCTRL_AUTH_ENCRYPT :: u32 where
  "IXGBE_LSECTXCTRL_AUTH_ENCRYPT = 0x2"

definition IXGBE_LSECTXCTRL_AISCI :: u32 where
  "IXGBE_LSECTXCTRL_AISCI = 0x00000020"

definition IXGBE_LSECRXCTRL_CHECK :: u32 where
  "IXGBE_LSECRXCTRL_CHECK = 0x1"

definition IXGBE_LSECRXCTRL_STRICT :: u32 where
  "IXGBE_LSECRXCTRL_STRICT = 0x2"

definition IXGBE_LSECRXCTRL_PLSH :: u32 where
  "IXGBE_LSECRXCTRL_PLSH = 0x00000040"

definition IXGBE_LSECRXCTRL_RP :: u32 where
  "IXGBE_LSECRXCTRL_RP = 0x00000080"

definition IXGBE_FCBUFF_VALID :: u32 where
  "IXGBE_FCBUFF_VALID = push_bit 0 1"

definition IXGBE_FCBUFF_WRCONTX :: u32 where
  "IXGBE_FCBUFF_WRCONTX = push_bit 7 1"

definition IXGBE_FCDMARW_WE :: u32 where
  "IXGBE_FCDMARW_WE = push_bit 14 1"

definition IXGBE_FCDMARW_RE :: u32 where
  "IXGBE_FCDMARW_RE = push_bit 15 1"

definition IXGBE_FCFLT_VALID :: u32 where
  "IXGBE_FCFLT_VALID = push_bit 0 1"

definition IXGBE_FCFLT_FIRST :: u32 where
  "IXGBE_FCFLT_FIRST = push_bit 1 1"

definition IXGBE_FCFLTRW_RVALDT :: u32 where
  "IXGBE_FCFLTRW_RVALDT = push_bit 13 1"

definition IXGBE_FCFLTRW_WE :: u32 where
  "IXGBE_FCFLTRW_WE = push_bit 14 1"

definition IXGBE_FCFLTRW_RE :: u32 where
  "IXGBE_FCFLTRW_RE = push_bit 15 1"

definition IXGBE_FCRXCTRL_FCOELLI :: u32 where
  "IXGBE_FCRXCTRL_FCOELLI = push_bit 0 1"

definition IXGBE_FCRXCTRL_SAVBAD :: u32 where
  "IXGBE_FCRXCTRL_SAVBAD = push_bit 1 1"

definition IXGBE_FCRXCTRL_FRSTRDH :: u32 where
  "IXGBE_FCRXCTRL_FRSTRDH = push_bit 2 1"

definition IXGBE_FCRXCTRL_LASTSEQH :: u32 where
  "IXGBE_FCRXCTRL_LASTSEQH = push_bit 3 1"

definition IXGBE_FCRXCTRL_ALLH :: u32 where
  "IXGBE_FCRXCTRL_ALLH = push_bit 4 1"

definition IXGBE_FCRXCTRL_FRSTSEQH :: u32 where
  "IXGBE_FCRXCTRL_FRSTSEQH = push_bit 5 1"

definition IXGBE_FCRXCTRL_ICRC :: u32 where
  "IXGBE_FCRXCTRL_ICRC = push_bit 6 1"

definition IXGBE_FCRXCTRL_FCCRCBO :: u32 where
  "IXGBE_FCRXCTRL_FCCRCBO = push_bit 7 1"

definition IXGBE_BMCIP_IPADDR_TYPE :: u32 where
  "IXGBE_BMCIP_IPADDR_TYPE = 0x00000001"

definition IXGBE_BMCIP_IPADDR_VALID :: u32 where
  "IXGBE_BMCIP_IPADDR_VALID = 0x00000002"

definition IXGBE_MANC_MPROXYE :: u32 where
  "IXGBE_MANC_MPROXYE = 0x40000000"

definition IXGBE_MANC_RCV_TCO_EN :: u32 where
  "IXGBE_MANC_RCV_TCO_EN = 0x00020000"

definition IXGBE_FWSM_TS_ENABLED :: u32 where
  "IXGBE_FWSM_TS_ENABLED = 0x1"

definition IXGBE_FWSM_FW_MODE_PT :: u32 where
  "IXGBE_FWSM_FW_MODE_PT = 0x4"

definition IXGBE_HICR_EN :: u32 where
  "IXGBE_HICR_EN = 0x01"

definition IXGBE_HICR_C :: u32 where
  "IXGBE_HICR_C = 0x02"

definition IXGBE_HICR_SV :: u32 where
  "IXGBE_HICR_SV = 0x04"

definition IXGBE_HICR_FW_RESET_ENABLE :: u32 where
  "IXGBE_HICR_FW_RESET_ENABLE = 0x40"

definition IXGBE_HICR_FW_RESET :: u32 where
  "IXGBE_HICR_FW_RESET = 0x80"

definition IXGBE_GCR_CMPL_TMOUT_10ms :: u32 where
  "IXGBE_GCR_CMPL_TMOUT_10ms = 0x00001000"

definition IXGBE_GCR_CMPL_TMOUT_RESEND :: u32 where
  "IXGBE_GCR_CMPL_TMOUT_RESEND = 0x00010000"

definition IXGBE_GCR_CAP_VER2 :: u32 where
  "IXGBE_GCR_CAP_VER2 = 0x00040000"

definition IXGBE_GCR_EXT_MSIX_EN :: u32 where
  "IXGBE_GCR_EXT_MSIX_EN = 0x80000000"

definition IXGBE_GCR_EXT_BUFFERS_CLEAR :: u32 where
  "IXGBE_GCR_EXT_BUFFERS_CLEAR = 0x40000000"

definition IXGBE_GCR_EXT_VT_MODE_16 :: u32 where
  "IXGBE_GCR_EXT_VT_MODE_16 = 0x00000001"

definition IXGBE_GCR_EXT_VT_MODE_32 :: u32 where
  "IXGBE_GCR_EXT_VT_MODE_32 = 0x00000002"

definition IXGBE_RSCCTL_RSCEN :: u32 where
  "IXGBE_RSCCTL_RSCEN = 0x01"

definition IXGBE_RSCCTL_MAXDESC_4 :: u32 where
  "IXGBE_RSCCTL_MAXDESC_4 = 0x04"

definition IXGBE_RSCCTL_MAXDESC_8 :: u32 where
  "IXGBE_RSCCTL_MAXDESC_8 = 0x08"

definition IXGBE_RSCCTL_TS_DIS :: u32 where
  "IXGBE_RSCCTL_TS_DIS = 0x02"

definition IXGBE_RDRXCTL_PSP :: u32 where
  "IXGBE_RDRXCTL_PSP = 0x00000004"

definition IXGBE_RDRXCTL_MVMEN :: u32 where
  "IXGBE_RDRXCTL_MVMEN = 0x00000020"

definition IXGBE_RDRXCTL_RSC_PUSH :: u32 where
  "IXGBE_RDRXCTL_RSC_PUSH = 0x00000080"

definition IXGBE_RDRXCTL_AGGDIS :: u32 where
  "IXGBE_RDRXCTL_AGGDIS = 0x00010000"

definition IXGBE_RDRXCTL_RSCLLIDIS :: u32 where
  "IXGBE_RDRXCTL_RSCLLIDIS = 0x00800000"

definition IXGBE_RDRXCTL_RSCACKC :: u32 where
  "IXGBE_RDRXCTL_RSCACKC = 0x02000000"

definition IXGBE_RDRXCTL_FCOE_WRFIX :: u32 where
  "IXGBE_RDRXCTL_FCOE_WRFIX = 0x04000000"

definition IXGBE_RDRXCTL_MBINTEN :: u32 where
  "IXGBE_RDRXCTL_MBINTEN = 0x10000000"

definition IXGBE_RDRXCTL_MDP_EN :: u32 where
  "IXGBE_RDRXCTL_MDP_EN = 0x20000000"

definition IXGBE_CTRL_GIO_DIS :: u32 where
  "IXGBE_CTRL_GIO_DIS = 0x00000004"

definition IXGBE_FACTPS_MNGCG :: u32 where
  "IXGBE_FACTPS_MNGCG = 0x20000000"

definition IXGBE_FACTPS_LFS :: u32 where
  "IXGBE_FACTPS_LFS = 0x40000000"

definition IXGBE_CTRL_EXT_PFRSTD :: u32 where
  "IXGBE_CTRL_EXT_PFRSTD = 0x00004000"

definition IXGBE_CTRL_EXT_RO_DIS :: u32 where
  "IXGBE_CTRL_EXT_RO_DIS = 0x00020000"

definition IXGBE_CTRL_EXT_DRV_LOAD :: u32 where
  "IXGBE_CTRL_EXT_DRV_LOAD = 0x10000000"

definition IXGBE_MSCA_WRITE :: u32 where
  "IXGBE_MSCA_WRITE = 0x04000000"

definition IXGBE_MSCA_READ_AUTOINC :: u32 where
  "IXGBE_MSCA_READ_AUTOINC = 0x08000000"

definition IXGBE_MSCA_OLD_PROTOCOL :: u32 where
  "IXGBE_MSCA_OLD_PROTOCOL = 0x10000000"

definition IXGBE_MSCA_MDI_COMMAND :: u32 where
  "IXGBE_MSCA_MDI_COMMAND = 0x40000000"

definition IXGBE_MSCA_MDI_IN_PROG_EN :: u32 where
  "IXGBE_MSCA_MDI_IN_PROG_EN = 0x80000000"

definition IXGBE_GPIE_MSIX_MODE :: u32 where
  "IXGBE_GPIE_MSIX_MODE = 0x00000010"

definition IXGBE_GPIE_OCD :: u32 where
  "IXGBE_GPIE_OCD = 0x00000020"

definition IXGBE_GPIE_EIMEN :: u32 where
  "IXGBE_GPIE_EIMEN = 0x00000040"

definition IXGBE_GPIE_EIAME :: u32 where
  "IXGBE_GPIE_EIAME = 0x40000000"

definition IXGBE_GPIE_PBA_SUPPORT :: u32 where
  "IXGBE_GPIE_PBA_SUPPORT = 0x80000000"

definition IXGBE_GPIE_VTMODE_16 :: u32 where
  "IXGBE_GPIE_VTMODE_16 = 0x00004000"

definition IXGBE_GPIE_VTMODE_32 :: u32 where
  "IXGBE_GPIE_VTMODE_32 = 0x00008000"

definition IXGBE_TFCS_TXOFF :: u32 where
  "IXGBE_TFCS_TXOFF = 0x00000001"

definition IXGBE_TFCS_TXOFF0 :: u32 where
  "IXGBE_TFCS_TXOFF0 = 0x00000100"

definition IXGBE_TFCS_TXOFF1 :: u32 where
  "IXGBE_TFCS_TXOFF1 = 0x00000200"

definition IXGBE_TFCS_TXOFF2 :: u32 where
  "IXGBE_TFCS_TXOFF2 = 0x00000400"

definition IXGBE_TFCS_TXOFF3 :: u32 where
  "IXGBE_TFCS_TXOFF3 = 0x00000800"

definition IXGBE_TFCS_TXOFF4 :: u32 where
  "IXGBE_TFCS_TXOFF4 = 0x00001000"

definition IXGBE_TFCS_TXOFF5 :: u32 where
  "IXGBE_TFCS_TXOFF5 = 0x00002000"

definition IXGBE_TFCS_TXOFF6 :: u32 where
  "IXGBE_TFCS_TXOFF6 = 0x00004000"

definition IXGBE_TFCS_TXOFF7 :: u32 where
  "IXGBE_TFCS_TXOFF7 = 0x00008000"

definition IXGBE_TCPTIMER_KS :: u32 where
  "IXGBE_TCPTIMER_KS = 0x00000100"

definition IXGBE_TCPTIMER_COUNT_ENABLE :: u32 where
  "IXGBE_TCPTIMER_COUNT_ENABLE = 0x00000200"

definition IXGBE_TCPTIMER_COUNT_FINISH :: u32 where
  "IXGBE_TCPTIMER_COUNT_FINISH = 0x00000400"

definition IXGBE_TCPTIMER_LOOP :: u32 where
  "IXGBE_TCPTIMER_LOOP = 0x00000800"

definition IXGBE_HLREG0_JUMBOEN :: u32 where
  "IXGBE_HLREG0_JUMBOEN = 0x00000004"

definition IXGBE_HLREG0_TXPAUSEEN :: u32 where
  "IXGBE_HLREG0_TXPAUSEEN = 0x00001000"

definition IXGBE_HLREG0_RXPAUSEEN :: u32 where
  "IXGBE_HLREG0_RXPAUSEEN = 0x00004000"

definition IXGBE_HLREG0_LPBK :: u32 where
  "IXGBE_HLREG0_LPBK = 0x00008000"

definition IXGBE_HLREG0_MDCSPD :: u32 where
  "IXGBE_HLREG0_MDCSPD = 0x00010000"

definition IXGBE_HLREG0_CONTMDC :: u32 where
  "IXGBE_HLREG0_CONTMDC = 0x00020000"

definition IXGBE_HLREG0_CTRLFLTR :: u32 where
  "IXGBE_HLREG0_CTRLFLTR = 0x00040000"

definition IXGBE_HLREG0_PRIPAUSEEN :: u32 where
  "IXGBE_HLREG0_PRIPAUSEEN = 0x01000000"

definition IXGBE_HLREG0_RXLNGTHERREN :: u32 where
  "IXGBE_HLREG0_RXLNGTHERREN = 0x08000000"

definition IXGBE_HLREG0_RXPADSTRIPEN :: u32 where
  "IXGBE_HLREG0_RXPADSTRIPEN = 0x10000000"

definition IXGBE_VMOLR_UPE :: u32 where
  "IXGBE_VMOLR_UPE = 0x00400000"

definition IXGBE_VMOLR_VPE :: u32 where
  "IXGBE_VMOLR_VPE = 0x00800000"

definition IXGBE_VMOLR_AUPE :: u32 where
  "IXGBE_VMOLR_AUPE = 0x01000000"

definition IXGBE_VMOLR_ROMPE :: u32 where
  "IXGBE_VMOLR_ROMPE = 0x02000000"

definition IXGBE_VMOLR_ROPE :: u32 where
  "IXGBE_VMOLR_ROPE = 0x04000000"

definition IXGBE_VMOLR_BAM :: u32 where
  "IXGBE_VMOLR_BAM = 0x08000000"

definition IXGBE_VMOLR_MPE :: u32 where
  "IXGBE_VMOLR_MPE = 0x10000000"

definition IXGBE_RXCSUM_IPPCSE :: u32 where
  "IXGBE_RXCSUM_IPPCSE = 0x00001000"

definition IXGBE_RXCSUM_PCSD :: u32 where
  "IXGBE_RXCSUM_PCSD = 0x00002000"

definition IXGBE_RMCS_RRM :: u32 where
  "IXGBE_RMCS_RRM = 0x00000002"

definition IXGBE_RMCS_RAC :: u32 where
  "IXGBE_RMCS_RAC = 0x00000004"

definition IXGBE_RMCS_TFCE_802_3X :: u32 where
  "IXGBE_RMCS_TFCE_802_3X = 0x00000008"

definition IXGBE_RMCS_TFCE_PRIORITY :: u32 where
  "IXGBE_RMCS_TFCE_PRIORITY = 0x00000010"

definition IXGBE_RMCS_ARBDIS :: u32 where
  "IXGBE_RMCS_ARBDIS = 0x00000040"

definition IXGBE_FCCFG_TFCE_802_3X :: u32 where
  "IXGBE_FCCFG_TFCE_802_3X = 0x00000008"

definition IXGBE_FCCFG_TFCE_PRIORITY :: u32 where
  "IXGBE_FCCFG_TFCE_PRIORITY = 0x00000010"

definition IXGBE_EICR_RTX_QUEUE :: u32 where
  "IXGBE_EICR_RTX_QUEUE = 0x0000FFFF"

definition IXGBE_EICR_FLOW_DIR :: u32 where
  "IXGBE_EICR_FLOW_DIR = 0x00010000"

definition IXGBE_EICR_RX_MISS :: u32 where
  "IXGBE_EICR_RX_MISS = 0x00020000"

definition IXGBE_EICR_PCI :: u32 where
  "IXGBE_EICR_PCI = 0x00040000"

definition IXGBE_EICR_MAILBOX :: u32 where
  "IXGBE_EICR_MAILBOX = 0x00080000"

definition IXGBE_EICR_LSC :: u32 where
  "IXGBE_EICR_LSC = 0x00100000"

definition IXGBE_EICR_LINKSEC :: u32 where
  "IXGBE_EICR_LINKSEC = 0x00200000"

definition IXGBE_EICR_MNG :: u32 where
  "IXGBE_EICR_MNG = 0x00400000"

definition IXGBE_EICR_TS :: u32 where
  "IXGBE_EICR_TS = 0x00800000"

definition IXGBE_EICR_TIMESYNC :: u32 where
  "IXGBE_EICR_TIMESYNC = 0x01000000"

definition IXGBE_EICR_GPI_SDP0 :: u32 where
  "IXGBE_EICR_GPI_SDP0 = 0x01000000"

definition IXGBE_EICR_GPI_SDP1 :: u32 where
  "IXGBE_EICR_GPI_SDP1 = 0x02000000"

definition IXGBE_EICR_GPI_SDP2 :: u32 where
  "IXGBE_EICR_GPI_SDP2 = 0x04000000"

definition IXGBE_EICR_ECC :: u32 where
  "IXGBE_EICR_ECC = 0x10000000"

definition IXGBE_EICR_PBUR :: u32 where
  "IXGBE_EICR_PBUR = 0x10000000"

definition IXGBE_EICR_DHER :: u32 where
  "IXGBE_EICR_DHER = 0x20000000"

definition IXGBE_EICR_TCP_TIMER :: u32 where
  "IXGBE_EICR_TCP_TIMER = 0x40000000"

definition IXGBE_EICR_OTHER :: u32 where
  "IXGBE_EICR_OTHER = 0x80000000"

definition IXGBE_EICS_RTX_QUEUE :: u32 where
  "IXGBE_EICS_RTX_QUEUE = IXGBE_EICR_RTX_QUEUE"

definition IXGBE_EICS_FLOW_DIR :: u32 where
  "IXGBE_EICS_FLOW_DIR = IXGBE_EICR_FLOW_DIR"

definition IXGBE_EICS_RX_MISS :: u32 where
  "IXGBE_EICS_RX_MISS = IXGBE_EICR_RX_MISS"

definition IXGBE_EICS_PCI :: u32 where
  "IXGBE_EICS_PCI = IXGBE_EICR_PCI"

definition IXGBE_EICS_MAILBOX :: u32 where
  "IXGBE_EICS_MAILBOX = IXGBE_EICR_MAILBOX"

definition IXGBE_EICS_LSC :: u32 where
  "IXGBE_EICS_LSC = IXGBE_EICR_LSC"

definition IXGBE_EICS_MNG :: u32 where
  "IXGBE_EICS_MNG = IXGBE_EICR_MNG"

definition IXGBE_EICS_TIMESYNC :: u32 where
  "IXGBE_EICS_TIMESYNC = IXGBE_EICR_TIMESYNC"

definition IXGBE_EICS_GPI_SDP0 :: u32 where
  "IXGBE_EICS_GPI_SDP0 = IXGBE_EICR_GPI_SDP0"

definition IXGBE_EICS_GPI_SDP1 :: u32 where
  "IXGBE_EICS_GPI_SDP1 = IXGBE_EICR_GPI_SDP1"

definition IXGBE_EICS_GPI_SDP2 :: u32 where
  "IXGBE_EICS_GPI_SDP2 = IXGBE_EICR_GPI_SDP2"

definition IXGBE_EICS_ECC :: u32 where
  "IXGBE_EICS_ECC = IXGBE_EICR_ECC"

definition IXGBE_EICS_PBUR :: u32 where
  "IXGBE_EICS_PBUR = IXGBE_EICR_PBUR"

definition IXGBE_EICS_DHER :: u32 where
  "IXGBE_EICS_DHER = IXGBE_EICR_DHER"

definition IXGBE_EICS_TCP_TIMER :: u32 where
  "IXGBE_EICS_TCP_TIMER = IXGBE_EICR_TCP_TIMER"

definition IXGBE_EICS_OTHER :: u32 where
  "IXGBE_EICS_OTHER = IXGBE_EICR_OTHER"

definition IXGBE_EIMS_RTX_QUEUE :: u32 where
  "IXGBE_EIMS_RTX_QUEUE = IXGBE_EICR_RTX_QUEUE"

definition IXGBE_EIMS_FLOW_DIR :: u32 where
  "IXGBE_EIMS_FLOW_DIR = IXGBE_EICR_FLOW_DIR"

definition IXGBE_EIMS_RX_MISS :: u32 where
  "IXGBE_EIMS_RX_MISS = IXGBE_EICR_RX_MISS"

definition IXGBE_EIMS_PCI :: u32 where
  "IXGBE_EIMS_PCI = IXGBE_EICR_PCI"

definition IXGBE_EIMS_MAILBOX :: u32 where
  "IXGBE_EIMS_MAILBOX = IXGBE_EICR_MAILBOX"

definition IXGBE_EIMS_LSC :: u32 where
  "IXGBE_EIMS_LSC = IXGBE_EICR_LSC"

definition IXGBE_EIMS_MNG :: u32 where
  "IXGBE_EIMS_MNG = IXGBE_EICR_MNG"

definition IXGBE_EIMS_TS :: u32 where
  "IXGBE_EIMS_TS = IXGBE_EICR_TS"

definition IXGBE_EIMS_TIMESYNC :: u32 where
  "IXGBE_EIMS_TIMESYNC = IXGBE_EICR_TIMESYNC"

definition IXGBE_EIMS_GPI_SDP0 :: u32 where
  "IXGBE_EIMS_GPI_SDP0 = IXGBE_EICR_GPI_SDP0"

definition IXGBE_EIMS_GPI_SDP1 :: u32 where
  "IXGBE_EIMS_GPI_SDP1 = IXGBE_EICR_GPI_SDP1"

definition IXGBE_EIMS_GPI_SDP2 :: u32 where
  "IXGBE_EIMS_GPI_SDP2 = IXGBE_EICR_GPI_SDP2"

definition IXGBE_EIMS_ECC :: u32 where
  "IXGBE_EIMS_ECC = IXGBE_EICR_ECC"

definition IXGBE_EIMS_PBUR :: u32 where
  "IXGBE_EIMS_PBUR = IXGBE_EICR_PBUR"

definition IXGBE_EIMS_DHER :: u32 where
  "IXGBE_EIMS_DHER = IXGBE_EICR_DHER"

definition IXGBE_EIMS_TCP_TIMER :: u32 where
  "IXGBE_EIMS_TCP_TIMER = IXGBE_EICR_TCP_TIMER"

definition IXGBE_EIMS_OTHER :: u32 where
  "IXGBE_EIMS_OTHER = IXGBE_EICR_OTHER"

definition IXGBE_EIMC_RTX_QUEUE :: u32 where
  "IXGBE_EIMC_RTX_QUEUE = IXGBE_EICR_RTX_QUEUE"

definition IXGBE_EIMC_FLOW_DIR :: u32 where
  "IXGBE_EIMC_FLOW_DIR = IXGBE_EICR_FLOW_DIR"

definition IXGBE_EIMC_RX_MISS :: u32 where
  "IXGBE_EIMC_RX_MISS = IXGBE_EICR_RX_MISS"

definition IXGBE_EIMC_PCI :: u32 where
  "IXGBE_EIMC_PCI = IXGBE_EICR_PCI"

definition IXGBE_EIMC_MAILBOX :: u32 where
  "IXGBE_EIMC_MAILBOX = IXGBE_EICR_MAILBOX"

definition IXGBE_EIMC_LSC :: u32 where
  "IXGBE_EIMC_LSC = IXGBE_EICR_LSC"

definition IXGBE_EIMC_MNG :: u32 where
  "IXGBE_EIMC_MNG = IXGBE_EICR_MNG"

definition IXGBE_EIMC_TIMESYNC :: u32 where
  "IXGBE_EIMC_TIMESYNC = IXGBE_EICR_TIMESYNC"

definition IXGBE_EIMC_GPI_SDP0 :: u32 where
  "IXGBE_EIMC_GPI_SDP0 = IXGBE_EICR_GPI_SDP0"

definition IXGBE_EIMC_GPI_SDP1 :: u32 where
  "IXGBE_EIMC_GPI_SDP1 = IXGBE_EICR_GPI_SDP1"

definition IXGBE_EIMC_GPI_SDP2 :: u32 where
  "IXGBE_EIMC_GPI_SDP2 = IXGBE_EICR_GPI_SDP2"

definition IXGBE_EIMC_ECC :: u32 where
  "IXGBE_EIMC_ECC = IXGBE_EICR_ECC"

definition IXGBE_EIMC_PBUR :: u32 where
  "IXGBE_EIMC_PBUR = IXGBE_EICR_PBUR"

definition IXGBE_EIMC_DHER :: u32 where
  "IXGBE_EIMC_DHER = IXGBE_EICR_DHER"

definition IXGBE_EIMC_TCP_TIMER :: u32 where
  "IXGBE_EIMC_TCP_TIMER = IXGBE_EICR_TCP_TIMER"

definition IXGBE_EIMC_OTHER :: u32 where
  "IXGBE_EIMC_OTHER = IXGBE_EICR_OTHER"

definition IXGBE_IMIREXT_SIZE_BP :: u32 where
  "IXGBE_IMIREXT_SIZE_BP = 0x00001000"

definition IXGBE_IMIREXT_CTRL_URG :: u32 where
  "IXGBE_IMIREXT_CTRL_URG = 0x00002000"

definition IXGBE_IMIREXT_CTRL_ACK :: u32 where
  "IXGBE_IMIREXT_CTRL_ACK = 0x00004000"

definition IXGBE_IMIREXT_CTRL_PSH :: u32 where
  "IXGBE_IMIREXT_CTRL_PSH = 0x00008000"

definition IXGBE_IMIREXT_CTRL_RST :: u32 where
  "IXGBE_IMIREXT_CTRL_RST = 0x00010000"

definition IXGBE_IMIREXT_CTRL_SYN :: u32 where
  "IXGBE_IMIREXT_CTRL_SYN = 0x00020000"

definition IXGBE_IMIREXT_CTRL_FIN :: u32 where
  "IXGBE_IMIREXT_CTRL_FIN = 0x00040000"

definition IXGBE_IMIREXT_CTRL_BP :: u32 where
  "IXGBE_IMIREXT_CTRL_BP = 0x00080000"

definition IXGBE_ETQF_FCOE :: u32 where
  "IXGBE_ETQF_FCOE = 0x08000000"

definition IXGBE_ETQF_BCN :: u32 where
  "IXGBE_ETQF_BCN = 0x10000000"

definition IXGBE_ETQF_TX_ANTISPOOF :: u32 where
  "IXGBE_ETQF_TX_ANTISPOOF = 0x20000000"

definition IXGBE_ETQF_1588 :: u32 where
  "IXGBE_ETQF_1588 = 0x40000000"

definition IXGBE_ETQF_FILTER_EN :: u32 where
  "IXGBE_ETQF_FILTER_EN = 0x80000000"

definition IXGBE_ETQF_POOL_ENABLE :: u32 where
  "IXGBE_ETQF_POOL_ENABLE = push_bit 26 1"

definition IXGBE_ETQS_LLI :: u32 where
  "IXGBE_ETQS_LLI = 0x20000000"

definition IXGBE_ETQS_QUEUE_EN :: u32 where
  "IXGBE_ETQS_QUEUE_EN = 0x80000000"

definition IXGBE_ETQF_FILTER_FCOE :: u32 where
  "IXGBE_ETQF_FILTER_FCOE = 2"

definition IXGBE_ETQF_FILTER_FIP :: u32 where
  "IXGBE_ETQF_FILTER_FIP = 4"

definition IXGBE_VLNCTRL_CFI :: u32 where
  "IXGBE_VLNCTRL_CFI = 0x10000000"

definition IXGBE_VLNCTRL_CFIEN :: u32 where
  "IXGBE_VLNCTRL_CFIEN = 0x20000000"

definition IXGBE_VLNCTRL_VFE :: u32 where
  "IXGBE_VLNCTRL_VFE = 0x40000000"

definition IXGBE_VLNCTRL_VME :: u32 where
  "IXGBE_VLNCTRL_VME = 0x80000000"

definition IXGBE_VMVIR_VLANA_DEFAULT :: u32 where
  "IXGBE_VMVIR_VLANA_DEFAULT = 0x40000000"

definition IXGBE_VMVIR_VLANA_NEVER :: u32 where
  "IXGBE_VMVIR_VLANA_NEVER = 0x80000000"

definition IXGBE_ESDP_SDP0 :: u32 where
  "IXGBE_ESDP_SDP0 = 0x00000001"

definition IXGBE_ESDP_SDP1 :: u32 where
  "IXGBE_ESDP_SDP1 = 0x00000002"

definition IXGBE_ESDP_SDP2 :: u32 where
  "IXGBE_ESDP_SDP2 = 0x00000004"

definition IXGBE_ESDP_SDP3 :: u32 where
  "IXGBE_ESDP_SDP3 = 0x00000008"

definition IXGBE_ESDP_SDP4 :: u32 where
  "IXGBE_ESDP_SDP4 = 0x00000010"

definition IXGBE_ESDP_SDP5 :: u32 where
  "IXGBE_ESDP_SDP5 = 0x00000020"

definition IXGBE_ESDP_SDP6 :: u32 where
  "IXGBE_ESDP_SDP6 = 0x00000040"

definition IXGBE_ESDP_SDP7 :: u32 where
  "IXGBE_ESDP_SDP7 = 0x00000080"

definition IXGBE_ESDP_SDP0_DIR :: u32 where
  "IXGBE_ESDP_SDP0_DIR = 0x00000100"

definition IXGBE_ESDP_SDP1_DIR :: u32 where
  "IXGBE_ESDP_SDP1_DIR = 0x00000200"

definition IXGBE_ESDP_SDP2_DIR :: u32 where
  "IXGBE_ESDP_SDP2_DIR = 0x00000400"

definition IXGBE_ESDP_SDP3_DIR :: u32 where
  "IXGBE_ESDP_SDP3_DIR = 0x00000800"

definition IXGBE_ESDP_SDP4_DIR :: u32 where
  "IXGBE_ESDP_SDP4_DIR = 0x00001000"

definition IXGBE_ESDP_SDP5_DIR :: u32 where
  "IXGBE_ESDP_SDP5_DIR = 0x00002000"

definition IXGBE_ESDP_SDP6_DIR :: u32 where
  "IXGBE_ESDP_SDP6_DIR = 0x00004000"

definition IXGBE_ESDP_SDP7_DIR :: u32 where
  "IXGBE_ESDP_SDP7_DIR = 0x00008000"

definition IXGBE_ESDP_SDP0_NATIVE :: u32 where
  "IXGBE_ESDP_SDP0_NATIVE = 0x00010000"

definition IXGBE_ESDP_SDP1_NATIVE :: u32 where
  "IXGBE_ESDP_SDP1_NATIVE = 0x00020000"

definition IXGBE_LINKS_KX_AN_COMP :: u32 where
  "IXGBE_LINKS_KX_AN_COMP = 0x80000000"

definition IXGBE_LINKS_SPEED :: u32 where
  "IXGBE_LINKS_SPEED = 0x20000000"

definition IXGBE_LINKS_XGXS_EN :: u32 where
  "IXGBE_LINKS_XGXS_EN = 0x00400000"

definition IXGBE_LINKS_SGMII_EN :: u32 where
  "IXGBE_LINKS_SGMII_EN = 0x02000000"

definition IXGBE_LINKS_PCS_1G_EN :: u32 where
  "IXGBE_LINKS_PCS_1G_EN = 0x00200000"

definition IXGBE_LINKS_1G_AN_EN :: u32 where
  "IXGBE_LINKS_1G_AN_EN = 0x00100000"

definition IXGBE_LINKS_KX_AN_IDLE :: u32 where
  "IXGBE_LINKS_KX_AN_IDLE = 0x00080000"

definition IXGBE_LINKS_1G_SYNC :: u32 where
  "IXGBE_LINKS_1G_SYNC = 0x00040000"

definition IXGBE_LINKS_10G_ALIGN :: u32 where
  "IXGBE_LINKS_10G_ALIGN = 0x00020000"

definition IXGBE_LINKS_TL_FAULT :: u32 where
  "IXGBE_LINKS_TL_FAULT = 0x00001000"

definition IXGBE_LINKS_SPEED_NON_STD :: u32 where
  "IXGBE_LINKS_SPEED_NON_STD = 0x08000000"

definition IXGBE_PCS1GLSTA_LINK_OK :: u32 where
  "IXGBE_PCS1GLSTA_LINK_OK = 1"

definition IXGBE_PCS1GLSTA_SYNK_OK :: u32 where
  "IXGBE_PCS1GLSTA_SYNK_OK = 0x10"

definition IXGBE_PCS1GLSTA_AN_COMPLETE :: u32 where
  "IXGBE_PCS1GLSTA_AN_COMPLETE = 0x10000"

definition IXGBE_PCS1GLSTA_AN_PAGE_RX :: u32 where
  "IXGBE_PCS1GLSTA_AN_PAGE_RX = 0x20000"

definition IXGBE_PCS1GLSTA_AN_TIMED_OUT :: u32 where
  "IXGBE_PCS1GLSTA_AN_TIMED_OUT = 0x40000"

definition IXGBE_PCS1GLSTA_AN_REMOTE_FAULT :: u32 where
  "IXGBE_PCS1GLSTA_AN_REMOTE_FAULT = 0x80000"

definition IXGBE_PCS1GLSTA_AN_ERROR_RWS :: u32 where
  "IXGBE_PCS1GLSTA_AN_ERROR_RWS = 0x100000"

definition IXGBE_PCS1GANA_SYM_PAUSE :: u32 where
  "IXGBE_PCS1GANA_SYM_PAUSE = 0x80"

definition IXGBE_PCS1GANA_ASM_PAUSE :: u32 where
  "IXGBE_PCS1GANA_ASM_PAUSE = 0x100"

definition IXGBE_PCS1GLCTL_AN_1G_TIMEOUT_EN :: u32 where
  "IXGBE_PCS1GLCTL_AN_1G_TIMEOUT_EN = 0x00040000"

definition IXGBE_PCS1GLCTL_FLV_LINK_UP :: u32 where
  "IXGBE_PCS1GLCTL_FLV_LINK_UP = 1"

definition IXGBE_PCS1GLCTL_FORCE_LINK :: u32 where
  "IXGBE_PCS1GLCTL_FORCE_LINK = 0x20"

definition IXGBE_PCS1GLCTL_LOW_LINK_LATCH :: u32 where
  "IXGBE_PCS1GLCTL_LOW_LINK_LATCH = 0x40"

definition IXGBE_PCS1GLCTL_AN_ENABLE :: u32 where
  "IXGBE_PCS1GLCTL_AN_ENABLE = 0x10000"

definition IXGBE_PCS1GLCTL_AN_RESTART :: u32 where
  "IXGBE_PCS1GLCTL_AN_RESTART = 0x20000"

definition IXGBE_SWSM_SMBI :: u32 where
  "IXGBE_SWSM_SMBI = 0x00000001"

definition IXGBE_SWSM_SWESMBI :: u32 where
  "IXGBE_SWSM_SWESMBI = 0x00000002"

definition IXGBE_SWSM_WMNG :: u32 where
  "IXGBE_SWSM_WMNG = 0x00000004"

definition IXGBE_GSSR_EEP_SM :: u32 where
  "IXGBE_GSSR_EEP_SM = 0x0001"

definition IXGBE_GSSR_PHY0_SM :: u32 where
  "IXGBE_GSSR_PHY0_SM = 0x0002"

definition IXGBE_GSSR_PHY1_SM :: u32 where
  "IXGBE_GSSR_PHY1_SM = 0x0004"

definition IXGBE_GSSR_MAC_CSR_SM :: u32 where
  "IXGBE_GSSR_MAC_CSR_SM = 0x0008"

definition IXGBE_GSSR_FLASH_SM :: u32 where
  "IXGBE_GSSR_FLASH_SM = 0x0010"

definition IXGBE_GSSR_NVM_UPDATE_SM :: u32 where
  "IXGBE_GSSR_NVM_UPDATE_SM = 0x0200"

definition IXGBE_GSSR_SW_MNG_SM :: u32 where
  "IXGBE_GSSR_SW_MNG_SM = 0x0400"

definition IXGBE_GSSR_TOKEN_SM :: u32 where
  "IXGBE_GSSR_TOKEN_SM = 0x40000000"

definition IXGBE_EEC_SK :: u32 where
  "IXGBE_EEC_SK = 0x00000001"

definition IXGBE_EEC_CS :: u32 where
  "IXGBE_EEC_CS = 0x00000002"

definition IXGBE_EEC_DI :: u32 where
  "IXGBE_EEC_DI = 0x00000004"

definition IXGBE_EEC_DO :: u32 where
  "IXGBE_EEC_DO = 0x00000008"

definition IXGBE_EEC_FWE_DIS :: u32 where
  "IXGBE_EEC_FWE_DIS = 0x00000010"

definition IXGBE_EEC_FWE_EN :: u32 where
  "IXGBE_EEC_FWE_EN = 0x00000020"

definition IXGBE_EEC_REQ :: u32 where
  "IXGBE_EEC_REQ = 0x00000040"

definition IXGBE_EEC_GNT :: u32 where
  "IXGBE_EEC_GNT = 0x00000080"

definition IXGBE_EEC_PRES :: u32 where
  "IXGBE_EEC_PRES = 0x00000100"

definition IXGBE_EEC_FLUP :: u32 where
  "IXGBE_EEC_FLUP = 0x00800000"

definition IXGBE_EEC_SEC1VAL :: u32 where
  "IXGBE_EEC_SEC1VAL = 0x02000000"

definition IXGBE_EEC_FLUDONE :: u32 where
  "IXGBE_EEC_FLUDONE = 0x04000000"

definition IXGBE_EEC_ADDR_SIZE :: u32 where
  "IXGBE_EEC_ADDR_SIZE = 0x00000400"

definition IXGBE_RFCTL_ISCSI_DIS :: u32 where
  "IXGBE_RFCTL_ISCSI_DIS = 0x00000001"

definition IXGBE_RFCTL_RSC_DIS :: u32 where
  "IXGBE_RFCTL_RSC_DIS = 0x00000020"

definition IXGBE_RFCTL_NFSW_DIS :: u32 where
  "IXGBE_RFCTL_NFSW_DIS = 0x00000040"

definition IXGBE_RFCTL_NFSR_DIS :: u32 where
  "IXGBE_RFCTL_NFSR_DIS = 0x00000080"

definition IXGBE_RFCTL_NFS_VER_4 :: u32 where
  "IXGBE_RFCTL_NFS_VER_4 = 2"

definition IXGBE_RFCTL_IPV6_DIS :: u32 where
  "IXGBE_RFCTL_IPV6_DIS = 0x00000400"

definition IXGBE_RFCTL_IPV6_XSUM_DIS :: u32 where
  "IXGBE_RFCTL_IPV6_XSUM_DIS = 0x00000800"

definition IXGBE_RFCTL_IPFRSP_DIS :: u32 where
  "IXGBE_RFCTL_IPFRSP_DIS = 0x00004000"

definition IXGBE_RFCTL_IPV6_EX_DIS :: u32 where
  "IXGBE_RFCTL_IPV6_EX_DIS = 0x00010000"

definition IXGBE_RFCTL_NEW_IPV6_EXT_DIS :: u32 where
  "IXGBE_RFCTL_NEW_IPV6_EXT_DIS = 0x00020000"

definition IXGBE_TXDCTL_SWFLSH :: u32 where
  "IXGBE_TXDCTL_SWFLSH = 0x04000000"

definition IXGBE_TDWBAL_HEAD_WB_ENABLE :: u32 where
  "IXGBE_TDWBAL_HEAD_WB_ENABLE = 0x1"

definition IXGBE_TDWBAL_SEQNUM_WB_ENABLE :: u32 where
  "IXGBE_TDWBAL_SEQNUM_WB_ENABLE = 0x2"

definition IXGBE_RXCTRL_DMBYPS :: u32 where
  "IXGBE_RXCTRL_DMBYPS = 0x00000002"

definition IXGBE_RXDCTL_SWFLSH :: u32 where
  "IXGBE_RXDCTL_SWFLSH = 0x04000000"

definition IXGBE_RXDCTL_RLPML_EN :: u32 where
  "IXGBE_RXDCTL_RLPML_EN = 0x00008000"

definition IXGBE_RXDCTL_VME :: u32 where
  "IXGBE_RXDCTL_VME = 0x40000000"

definition IXGBE_TSAUXC_EN_CLK :: u32 where
  "IXGBE_TSAUXC_EN_CLK = 0x00000004"

definition IXGBE_TSAUXC_SYNCLK :: u32 where
  "IXGBE_TSAUXC_SYNCLK = 0x00000008"

definition IXGBE_TSAUXC_SDP0_INT :: u32 where
  "IXGBE_TSAUXC_SDP0_INT = 0x00000040"

definition IXGBE_TSAUXC_EN_TT0 :: u32 where
  "IXGBE_TSAUXC_EN_TT0 = 0x00000001"

definition IXGBE_TSAUXC_EN_TT1 :: u32 where
  "IXGBE_TSAUXC_EN_TT1 = 0x00000002"

definition IXGBE_TSAUXC_ST0 :: u32 where
  "IXGBE_TSAUXC_ST0 = 0x00000010"

definition IXGBE_TSAUXC_DISABLE_SYSTIME :: u32 where
  "IXGBE_TSAUXC_DISABLE_SYSTIME = 0x80000000"

definition IXGBE_TSIM_SYS_WRAP :: u32 where
  "IXGBE_TSIM_SYS_WRAP = 0x00000001"

definition IXGBE_TSIM_TXTS :: u32 where
  "IXGBE_TSIM_TXTS = 0x00000002"

definition IXGBE_TSIM_TADJ :: u32 where
  "IXGBE_TSIM_TADJ = 0x00000080"

definition IXGBE_TSICR_SYS_WRAP :: u32 where
  "IXGBE_TSICR_SYS_WRAP = IXGBE_TSIM_SYS_WRAP"

definition IXGBE_TSICR_TXTS :: u32 where
  "IXGBE_TSICR_TXTS = IXGBE_TSIM_TXTS"

definition IXGBE_TSICR_TADJ :: u32 where
  "IXGBE_TSICR_TADJ = IXGBE_TSIM_TADJ"

definition IXGBE_FCTRL_SBP :: u32 where
  "IXGBE_FCTRL_SBP = 0x00000002"

definition IXGBE_FCTRL_PMCF :: u32 where
  "IXGBE_FCTRL_PMCF = 0x00001000"

definition IXGBE_FCTRL_DPF :: u32 where
  "IXGBE_FCTRL_DPF = 0x00002000"

definition IXGBE_FCTRL_RPFCE :: u32 where
  "IXGBE_FCTRL_RPFCE = 0x00004000"

definition IXGBE_FCTRL_RFCE :: u32 where
  "IXGBE_FCTRL_RFCE = 0x00008000"

definition IXGBE_MFLCN_PMCF :: u32 where
  "IXGBE_MFLCN_PMCF = 0x00000001"

definition IXGBE_MFLCN_DPF :: u32 where
  "IXGBE_MFLCN_DPF = 0x00000002"

definition IXGBE_MFLCN_RFCE :: u32 where
  "IXGBE_MFLCN_RFCE = 0x00000008"

definition IXGBE_TXD_CMD_IC :: u32 where
  "IXGBE_TXD_CMD_IC = 0x04000000"

definition IXGBE_TXD_CMD_VLE :: u32 where
  "IXGBE_TXD_CMD_VLE = 0x40000000"

definition IXGBE_RXD_STAT_FLM :: u32 where
  "IXGBE_RXD_STAT_FLM = 0x04"

definition IXGBE_RXD_STAT_VP :: u32 where
  "IXGBE_RXD_STAT_VP = 0x08"

definition IXGBE_RXD_STAT_UDPCS :: u32 where
  "IXGBE_RXD_STAT_UDPCS = 0x10"

definition IXGBE_RXD_STAT_L4CS :: u32 where
  "IXGBE_RXD_STAT_L4CS = 0x20"

definition IXGBE_RXD_STAT_IPCS :: u32 where
  "IXGBE_RXD_STAT_IPCS = 0x40"

definition IXGBE_RXD_STAT_PIF :: u32 where
  "IXGBE_RXD_STAT_PIF = 0x80"

definition IXGBE_RXD_STAT_CRCV :: u32 where
  "IXGBE_RXD_STAT_CRCV = 0x100"

definition IXGBE_RXD_STAT_VEXT :: u32 where
  "IXGBE_RXD_STAT_VEXT = 0x200"

definition IXGBE_RXD_STAT_UDPV :: u32 where
  "IXGBE_RXD_STAT_UDPV = 0x400"

definition IXGBE_RXD_STAT_DYNINT :: u32 where
  "IXGBE_RXD_STAT_DYNINT = 0x800"

definition IXGBE_RXD_STAT_TSIP :: u32 where
  "IXGBE_RXD_STAT_TSIP = 0x08000"

definition IXGBE_RXD_STAT_TS :: u32 where
  "IXGBE_RXD_STAT_TS = 0x10000"

definition IXGBE_RXD_STAT_SECP :: u32 where
  "IXGBE_RXD_STAT_SECP = 0x20000"

definition IXGBE_RXD_STAT_LB :: u32 where
  "IXGBE_RXD_STAT_LB = 0x40000"

definition IXGBE_RXD_ERR_CE :: u32 where
  "IXGBE_RXD_ERR_CE = 0x01"

definition IXGBE_RXD_ERR_LE :: u32 where
  "IXGBE_RXD_ERR_LE = 0x02"

definition IXGBE_RXD_ERR_PE :: u32 where
  "IXGBE_RXD_ERR_PE = 0x08"

definition IXGBE_RXD_ERR_OSE :: u32 where
  "IXGBE_RXD_ERR_OSE = 0x10"

definition IXGBE_RXD_ERR_USE :: u32 where
  "IXGBE_RXD_ERR_USE = 0x20"

definition IXGBE_RXD_ERR_TCPE :: u32 where
  "IXGBE_RXD_ERR_TCPE = 0x40"

definition IXGBE_RXD_ERR_IPE :: u32 where
  "IXGBE_RXD_ERR_IPE = 0x80"

definition IXGBE_PSRTYPE_TCPHDR :: u32 where
  "IXGBE_PSRTYPE_TCPHDR = 0x00000010"

definition IXGBE_PSRTYPE_UDPHDR :: u32 where
  "IXGBE_PSRTYPE_UDPHDR = 0x00000020"

definition IXGBE_PSRTYPE_IPV4HDR :: u32 where
  "IXGBE_PSRTYPE_IPV4HDR = 0x00000100"

definition IXGBE_PSRTYPE_IPV6HDR :: u32 where
  "IXGBE_PSRTYPE_IPV6HDR = 0x00000200"

definition IXGBE_PSRTYPE_L2HDR :: u32 where
  "IXGBE_PSRTYPE_L2HDR = 0x00001000"

definition IXGBE_SRRCTL_DESCTYPE_HDR_SPLIT :: u32 where
  "IXGBE_SRRCTL_DESCTYPE_HDR_SPLIT = 0x04000000"

definition IXGBE_SRRCTL_DESCTYPE_HDR_REPLICATION_LARGE_PKT :: u32 where
  "IXGBE_SRRCTL_DESCTYPE_HDR_REPLICATION_LARGE_PKT = 0x08000000"

definition IXGBE_FDIRM_VLANID :: u32 where
  "IXGBE_FDIRM_VLANID = 0x00000001"

definition IXGBE_FDIRM_VLANP :: u32 where
  "IXGBE_FDIRM_VLANP = 0x00000002"

definition IXGBE_FDIRM_POOL :: u32 where
  "IXGBE_FDIRM_POOL = 0x00000004"

definition IXGBE_FDIRM_L4P :: u32 where
  "IXGBE_FDIRM_L4P = 0x00000008"

definition IXGBE_FDIRM_FLEX :: u32 where
  "IXGBE_FDIRM_FLEX = 0x00000010"

definition IXGBE_FDIRM_DIPv6 :: u32 where
  "IXGBE_FDIRM_DIPv6 = 0x00000020"

definition IXGBE_FDIRM_L3P :: u32 where
  "IXGBE_FDIRM_L3P = 0x00000040"

definition IXGBE_FDIRCMD_CMD_ADD_FLOW :: u32 where
  "IXGBE_FDIRCMD_CMD_ADD_FLOW = 0x00000001"

definition IXGBE_FDIRCMD_CMD_REMOVE_FLOW :: u32 where
  "IXGBE_FDIRCMD_CMD_REMOVE_FLOW = 0x00000002"

definition IXGBE_FDIRCMD_FILTER_VALID :: u32 where
  "IXGBE_FDIRCMD_FILTER_VALID = 0x00000004"

definition IXGBE_FDIRCMD_FILTER_UPDATE :: u32 where
  "IXGBE_FDIRCMD_FILTER_UPDATE = 0x00000008"

definition IXGBE_FDIRCMD_IPv6DMATCH :: u32 where
  "IXGBE_FDIRCMD_IPv6DMATCH = 0x00000010"

definition IXGBE_FDIRCMD_L4TYPE_UDP :: u32 where
  "IXGBE_FDIRCMD_L4TYPE_UDP = 0x00000020"

definition IXGBE_FDIRCMD_L4TYPE_TCP :: u32 where
  "IXGBE_FDIRCMD_L4TYPE_TCP = 0x00000040"

definition IXGBE_FDIRCMD_IPV6 :: u32 where
  "IXGBE_FDIRCMD_IPV6 = 0x00000080"

definition IXGBE_FDIRCMD_CLEARHT :: u32 where
  "IXGBE_FDIRCMD_CLEARHT = 0x00000100"

definition IXGBE_FDIRCMD_DROP :: u32 where
  "IXGBE_FDIRCMD_DROP = 0x00000200"

definition IXGBE_FDIRCMD_INT :: u32 where
  "IXGBE_FDIRCMD_INT = 0x00000400"

definition IXGBE_FDIRCMD_LAST :: u32 where
  "IXGBE_FDIRCMD_LAST = 0x00000800"

definition IXGBE_FDIRCMD_COLLISION :: u32 where
  "IXGBE_FDIRCMD_COLLISION = 0x00001000"

definition IXGBE_FDIRCMD_QUEUE_EN :: u32 where
  "IXGBE_FDIRCMD_QUEUE_EN = 0x00008000"

section \<open>Ids of devices\<close>

definition IXGBE_DEV_ID_82598 :: u32 where
  "IXGBE_DEV_ID_82598 = 0x10B6"

definition IXGBE_DEV_ID_82598_BX :: u32 where
  "IXGBE_DEV_ID_82598_BX = 0x1508"

definition IXGBE_DEV_ID_82598AF_DUAL_PORT :: u32 where
  "IXGBE_DEV_ID_82598AF_DUAL_PORT = 0x10C6"

definition IXGBE_DEV_ID_82598AF_SINGLE_PORT :: u32 where
  "IXGBE_DEV_ID_82598AF_SINGLE_PORT = 0x10C7"

definition IXGBE_DEV_ID_82598AT :: u32 where
  "IXGBE_DEV_ID_82598AT = 0x10C8"

definition IXGBE_DEV_ID_82598AT2 :: u32 where
  "IXGBE_DEV_ID_82598AT2 = 0x150B"

definition IXGBE_DEV_ID_82598EB_SFP_LOM :: u32 where
  "IXGBE_DEV_ID_82598EB_SFP_LOM = 0x10DB"

definition IXGBE_DEV_ID_82598EB_CX4 :: u32 where
  "IXGBE_DEV_ID_82598EB_CX4 = 0x10DD"

definition IXGBE_DEV_ID_82598_CX4_DUAL_PORT :: u32 where
  "IXGBE_DEV_ID_82598_CX4_DUAL_PORT = 0x10EC"

definition IXGBE_DEV_ID_82598_DA_DUAL_PORT :: u32 where
  "IXGBE_DEV_ID_82598_DA_DUAL_PORT = 0x10F1"

definition IXGBE_DEV_ID_82598_SR_DUAL_PORT_EM :: u32 where
  "IXGBE_DEV_ID_82598_SR_DUAL_PORT_EM = 0x10E1"

definition IXGBE_DEV_ID_82598EB_XF_LR :: u32 where
  "IXGBE_DEV_ID_82598EB_XF_LR = 0x10F4"

definition IXGBE_DEV_ID_82599_KX4 :: u32 where
  "IXGBE_DEV_ID_82599_KX4 = 0x10F7"

definition IXGBE_DEV_ID_82599_KX4_MEZZ :: u32 where
  "IXGBE_DEV_ID_82599_KX4_MEZZ = 0x1514"

definition IXGBE_DEV_ID_82599_KR :: u32 where
  "IXGBE_DEV_ID_82599_KR = 0x1517"

definition IXGBE_DEV_ID_82599_COMBO_BACKPLANE :: u32 where
  "IXGBE_DEV_ID_82599_COMBO_BACKPLANE = 0x10F8"

definition IXGBE_DEV_ID_82599_CX4 :: u32 where
  "IXGBE_DEV_ID_82599_CX4 = 0x10F9"

definition IXGBE_DEV_ID_82599_SFP :: u32 where
  "IXGBE_DEV_ID_82599_SFP = 0x10FB"

definition IXGBE_DEV_ID_82599_BACKPLANE_FCOE :: u32 where
  "IXGBE_DEV_ID_82599_BACKPLANE_FCOE = 0x152A"

definition IXGBE_DEV_ID_82599_SFP_FCOE :: u32 where
  "IXGBE_DEV_ID_82599_SFP_FCOE = 0x1529"

definition IXGBE_DEV_ID_82599_SFP_EM :: u32 where
  "IXGBE_DEV_ID_82599_SFP_EM = 0x1507"

definition IXGBE_DEV_ID_82599_SFP_SF2 :: u32 where
  "IXGBE_DEV_ID_82599_SFP_SF2 = 0x154D"

definition IXGBE_DEV_ID_82599_SFP_SF_QP :: u32 where
  "IXGBE_DEV_ID_82599_SFP_SF_QP = 0x154A"

definition IXGBE_DEV_ID_82599_QSFP_SF_QP :: u32 where
  "IXGBE_DEV_ID_82599_QSFP_SF_QP = 0x1558"

definition IXGBE_DEV_ID_82599EN_SFP :: u32 where
  "IXGBE_DEV_ID_82599EN_SFP = 0x1557"

definition IXGBE_DEV_ID_82599_XAUI_LOM :: u32 where
  "IXGBE_DEV_ID_82599_XAUI_LOM = 0x10FC"

definition IXGBE_DEV_ID_82599_T3_LOM :: u32 where
  "IXGBE_DEV_ID_82599_T3_LOM = 0x151C"

definition IXGBE_DEV_ID_82599_VF :: u32 where
  "IXGBE_DEV_ID_82599_VF = 0x10ED"

definition IXGBE_DEV_ID_82599_VF_HV :: u32 where
  "IXGBE_DEV_ID_82599_VF_HV = 0x152E"

definition IXGBE_DEV_ID_82599_LS :: u32 where
  "IXGBE_DEV_ID_82599_LS = 0x154F"

definition IXGBE_DEV_ID_X540T :: u32 where
  "IXGBE_DEV_ID_X540T = 0x1528"

definition IXGBE_DEV_ID_X540_VF :: u32 where
  "IXGBE_DEV_ID_X540_VF = 0x1515"

definition IXGBE_DEV_ID_X540_VF_HV :: u32 where
  "IXGBE_DEV_ID_X540_VF_HV = 0x1530"

definition IXGBE_DEV_ID_X540T1 :: u32 where
  "IXGBE_DEV_ID_X540T1 = 0x1560"

definition IXGBE_DEV_ID_X550T :: u32 where
  "IXGBE_DEV_ID_X550T = 0x1563"

definition IXGBE_DEV_ID_X550T1 :: u32 where
  "IXGBE_DEV_ID_X550T1 = 0x15D1"

definition IXGBE_DEV_ID_X550EM_A_KR :: u32 where
  "IXGBE_DEV_ID_X550EM_A_KR = 0x15C2"

definition IXGBE_DEV_ID_X550EM_A_KR_L :: u32 where
  "IXGBE_DEV_ID_X550EM_A_KR_L = 0x15C3"

definition IXGBE_DEV_ID_X550EM_A_SFP_N :: u32 where
  "IXGBE_DEV_ID_X550EM_A_SFP_N = 0x15C4"

definition IXGBE_DEV_ID_X550EM_A_SGMII :: u32 where
  "IXGBE_DEV_ID_X550EM_A_SGMII = 0x15C6"

definition IXGBE_DEV_ID_X550EM_A_SGMII_L :: u32 where
  "IXGBE_DEV_ID_X550EM_A_SGMII_L = 0x15C7"

definition IXGBE_DEV_ID_X550EM_A_10G_T :: u32 where
  "IXGBE_DEV_ID_X550EM_A_10G_T = 0x15C8"

definition IXGBE_DEV_ID_X550EM_A_QSFP :: u32 where
  "IXGBE_DEV_ID_X550EM_A_QSFP = 0x15CA"

definition IXGBE_DEV_ID_X550EM_A_QSFP_N :: u32 where
  "IXGBE_DEV_ID_X550EM_A_QSFP_N = 0x15CC"

definition IXGBE_DEV_ID_X550EM_A_SFP :: u32 where
  "IXGBE_DEV_ID_X550EM_A_SFP = 0x15CE"

definition IXGBE_DEV_ID_X550EM_A_1G_T :: u32 where
  "IXGBE_DEV_ID_X550EM_A_1G_T = 0x15E4"

definition IXGBE_DEV_ID_X550EM_A_1G_T_L :: u32 where
  "IXGBE_DEV_ID_X550EM_A_1G_T_L = 0x15E5"

definition IXGBE_DEV_ID_X550EM_X_KX4 :: u32 where
  "IXGBE_DEV_ID_X550EM_X_KX4 = 0x15AA"

definition IXGBE_DEV_ID_X550EM_X_KR :: u32 where
  "IXGBE_DEV_ID_X550EM_X_KR = 0x15AB"

definition IXGBE_DEV_ID_X550EM_X_SFP :: u32 where
  "IXGBE_DEV_ID_X550EM_X_SFP = 0x15AC"

definition IXGBE_DEV_ID_X550EM_X_10G_T :: u32 where
  "IXGBE_DEV_ID_X550EM_X_10G_T = 0x15AD"

definition IXGBE_DEV_ID_X550EM_X_1G_T :: u32 where
  "IXGBE_DEV_ID_X550EM_X_1G_T = 0x15AE"

definition IXGBE_DEV_ID_X550EM_X_XFI :: u32 where
  "IXGBE_DEV_ID_X550EM_X_XFI = 0x15B0"

definition IXGBE_DEV_ID_X550_VF_HV :: u32 where
  "IXGBE_DEV_ID_X550_VF_HV = 0x1564"

definition IXGBE_DEV_ID_X550_VF :: u32 where
  "IXGBE_DEV_ID_X550_VF = 0x1565"

definition IXGBE_DEV_ID_X550EM_A_VF :: u32 where
  "IXGBE_DEV_ID_X550EM_A_VF = 0x15C5"

definition IXGBE_DEV_ID_X550EM_A_VF_HV :: u32 where
  "IXGBE_DEV_ID_X550EM_A_VF_HV = 0x15B4"

definition IXGBE_DEV_ID_X550EM_X_VF :: u32 where
  "IXGBE_DEV_ID_X550EM_X_VF = 0x15A8"

definition IXGBE_DEV_ID_X550EM_X_VF_HV :: u32 where
  "IXGBE_DEV_ID_X550EM_X_VF_HV = 0x15A9"

section \<open>Groups\<close>

definition flags_EEC :: "u32 list" where
  "flags_EEC =
    [IXGBE_EEC_SK, IXGBE_EEC_CS, IXGBE_EEC_DI, IXGBE_EEC_DO, IXGBE_EEC_FWE_DIS, IXGBE_EEC_FWE_EN,
     IXGBE_EEC_REQ, IXGBE_EEC_GNT, IXGBE_EEC_PRES, IXGBE_EEC_ARD, IXGBE_EEC_FLUP, IXGBE_EEC_SEC1VAL,
     IXGBE_EEC_FLUDONE, IXGBE_EEC_ADDR_SIZE]"

definition flags_DMATXCTL :: "u32 list" where
  "flags_DMATXCTL =
    [IXGBE_DMATXCTL_TE, IXGBE_DMATXCTL_NS, IXGBE_DMATXCTL_GDV, IXGBE_DMATXCTL_MDP_EN, IXGBE_DMATXCTL_MBINTEN]"

definition flags_WUC :: "u32 list" where
  "flags_WUC =
    [IXGBE_WUC_PME_EN, IXGBE_WUC_PME_STATUS, IXGBE_WUC_WKEN]"

definition flags_WUFC :: "u32 list" where
  "flags_WUFC =
    [IXGBE_WUFC_LNKC, IXGBE_WUFC_MAG, IXGBE_WUFC_EX, IXGBE_WUFC_MC, IXGBE_WUFC_BC, IXGBE_WUFC_ARP,
     IXGBE_WUFC_IPV4, IXGBE_WUFC_IPV6, IXGBE_WUFC_MNG, IXGBE_WUFC_IGNORE_TCO, IXGBE_WUFC_FLX0, IXGBE_WUFC_FLX1,
     IXGBE_WUFC_FLX2, IXGBE_WUFC_FLX3, IXGBE_WUFC_FLX4, IXGBE_WUFC_FLX5, IXGBE_WUFC_FW_RST_WK]"

definition flags_WUS :: "u32 list" where
  "flags_WUS =
    [IXGBE_WUS_LNKC, IXGBE_WUS_MAG, IXGBE_WUS_EX, IXGBE_WUS_MC, IXGBE_WUS_BC, IXGBE_WUS_ARP, IXGBE_WUS_IPV4,
     IXGBE_WUS_IPV6, IXGBE_WUS_MNG, IXGBE_WUS_FLX0, IXGBE_WUS_FLX1, IXGBE_WUS_FLX2, IXGBE_WUS_FLX3,
     IXGBE_WUS_FLX4, IXGBE_WUS_FLX5, IXGBE_WUS_FW_RST_WK]"

definition flags_PROXYS :: "u32 list" where
  "flags_PROXYS =
    [IXGBE_PROXYS_EX, IXGBE_PROXYS_ARP_DIR, IXGBE_PROXYS_NS, IXGBE_PROXYS_NS_DIR, IXGBE_PROXYS_ARP,
     IXGBE_PROXYS_MLD]"

definition flags_PROXYFC :: "u32 list" where
  "flags_PROXYFC =
    [IXGBE_PROXYFC_ENABLE, IXGBE_PROXYFC_EX, IXGBE_PROXYFC_ARP_DIR, IXGBE_PROXYFC_NS, IXGBE_PROXYFC_ARP,
     IXGBE_PROXYFC_NO_TCO]"

definition flags_DMACR :: "u32 list" where
  "flags_DMACR =
    [IXGBE_DMACR_EN_MNG_IND, IXGBE_DMACR_LX_COAL_IND, IXGBE_DMACR_DMAC_EN]"

definition flags_SECTXCTRL :: "u32 list" where
  "flags_SECTXCTRL =
    [IXGBE_SECTXCTRL_SECTX_DIS, IXGBE_SECTXCTRL_TX_DIS, IXGBE_SECTXCTRL_STORE_FORWARD]"

definition flags_SECTXSTAT :: "u32 list" where
  "flags_SECTXSTAT =
    [IXGBE_SECTXSTAT_SECTX_RDY, IXGBE_SECTXSTAT_ECC_TXERR]"

definition flags_SECRXCTRL :: "u32 list" where
  "flags_SECRXCTRL =
    [IXGBE_SECRXCTRL_SECRX_DIS, IXGBE_SECRXCTRL_RX_DIS]"

definition flags_SECRXSTAT :: "u32 list" where
  "flags_SECRXSTAT =
    [IXGBE_SECRXSTAT_SECRX_RDY, IXGBE_SECRXSTAT_ECC_RXERR]"

definition flags_LSECTXCTRL :: "u32 list" where
  "flags_LSECTXCTRL =
    [IXGBE_LSECTXCTRL_AUTH, IXGBE_LSECTXCTRL_AUTH_ENCRYPT, IXGBE_LSECTXCTRL_AISCI]"

definition flags_LSECRXCTRL :: "u32 list" where
  "flags_LSECRXCTRL =
    [IXGBE_LSECRXCTRL_CHECK, IXGBE_LSECRXCTRL_STRICT, IXGBE_LSECRXCTRL_PLSH, IXGBE_LSECRXCTRL_RP]"

definition flags_FCFLTRW :: "u32 list" where
  "flags_FCFLTRW =
    [IXGBE_FCFLTRW_RVALDT, IXGBE_FCFLTRW_WE, IXGBE_FCFLTRW_RE]"

definition flags_FCFLT :: "u32 list" where
  "flags_FCFLT =
    [IXGBE_FCFLT_VALID, IXGBE_FCFLT_FIRST]"

definition flags_FCBUFF :: "u32 list" where
  "flags_FCBUFF =
    [IXGBE_FCBUFF_VALID, IXGBE_FCBUFF_WRCONTX]"

definition flags_FCDMARW :: "u32 list" where
  "flags_FCDMARW =
    [IXGBE_FCDMARW_WE, IXGBE_FCDMARW_RE]"

definition flags_FCRXCTRL :: "u32 list" where
  "flags_FCRXCTRL =
    [IXGBE_FCRXCTRL_FCOELLI, IXGBE_FCRXCTRL_SAVBAD, IXGBE_FCRXCTRL_FRSTRDH, IXGBE_FCRXCTRL_LASTSEQH,
     IXGBE_FCRXCTRL_ALLH, IXGBE_FCRXCTRL_FRSTSEQH, IXGBE_FCRXCTRL_ICRC, IXGBE_FCRXCTRL_FCCRCBO]"

definition flags_HICR :: "u32 list" where
  "flags_HICR =
    [IXGBE_HICR_EN, IXGBE_HICR_C, IXGBE_HICR_SV, IXGBE_HICR_FW_RESET_ENABLE, IXGBE_HICR_FW_RESET]"

definition flags_SWSM :: "u32 list" where
  "flags_SWSM =
    [IXGBE_SWSM_SMBI, IXGBE_SWSM_SWESMBI, IXGBE_SWSM_WMNG]"

definition flags_GCR :: "u32 list" where
  "flags_GCR =
    [IXGBE_GCR_CMPL_TMOUT_10ms, IXGBE_GCR_CMPL_TMOUT_RESEND, IXGBE_GCR_CAP_VER2, IXGBE_GCR_EXT_MSIX_EN,
     IXGBE_GCR_EXT_BUFFERS_CLEAR, IXGBE_GCR_EXT_VT_MODE_16, IXGBE_GCR_EXT_VT_MODE_32]"

definition flags_RSCCTL :: "u32 list" where
  "flags_RSCCTL =
    [IXGBE_RSCCTL_RSCEN, IXGBE_RSCCTL_MAXDESC_4, IXGBE_RSCCTL_MAXDESC_8, IXGBE_RSCCTL_TS_DIS]"

definition flags_RDRXCTL :: "u32 list" where
  "flags_RDRXCTL =
    [IXGBE_RDRXCTL_CRCSTRIP, IXGBE_RDRXCTL_PSP, IXGBE_RDRXCTL_MVMEN, IXGBE_RDRXCTL_DMAIDONE,
     IXGBE_RDRXCTL_RSC_PUSH, IXGBE_RDRXCTL_AGGDIS, IXGBE_RDRXCTL_RSCLLIDIS, IXGBE_RDRXCTL_RSCACKC,
     IXGBE_RDRXCTL_FCOE_WRFIX, IXGBE_RDRXCTL_MBINTEN, IXGBE_RDRXCTL_MDP_EN]"

definition flags_CTRL :: "u32 list" where
  "flags_CTRL =
    [IXGBE_CTRL_GIO_DIS, IXGBE_CTRL_LNK_RST, IXGBE_CTRL_RST, IXGBE_CTRL_EXT_PFRSTD, IXGBE_CTRL_EXT_NS_DIS,
     IXGBE_CTRL_EXT_RO_DIS, IXGBE_CTRL_EXT_DRV_LOAD]"

definition flags_MSCA :: "u32 list" where
  "flags_MSCA =
    [IXGBE_MSCA_WRITE, IXGBE_MSCA_READ_AUTOINC, IXGBE_MSCA_OLD_PROTOCOL, IXGBE_MSCA_MDI_COMMAND,
     IXGBE_MSCA_MDI_IN_PROG_EN]"

definition flags_GPIE :: "u32 list" where
  "flags_GPIE =
    [IXGBE_GPIE_MSIX_MODE, IXGBE_GPIE_OCD, IXGBE_GPIE_EIMEN, IXGBE_GPIE_EIAME, IXGBE_GPIE_PBA_SUPPORT,
     IXGBE_GPIE_VTMODE_16, IXGBE_GPIE_VTMODE_32]"

definition flags_TFCS :: "u32 list" where
  "flags_TFCS =
    [IXGBE_TFCS_TXOFF, IXGBE_TFCS_TXOFF0, IXGBE_TFCS_TXOFF1, IXGBE_TFCS_TXOFF2, IXGBE_TFCS_TXOFF3,
     IXGBE_TFCS_TXOFF4, IXGBE_TFCS_TXOFF5, IXGBE_TFCS_TXOFF6, IXGBE_TFCS_TXOFF7]"

definition flags_TCPTIMER :: "u32 list" where
  "flags_TCPTIMER =
    [IXGBE_TCPTIMER_KS, IXGBE_TCPTIMER_COUNT_ENABLE, IXGBE_TCPTIMER_COUNT_FINISH, IXGBE_TCPTIMER_LOOP]"

definition flags_HLREG0 :: "u32 list" where
  "flags_HLREG0 =
    [IXGBE_HLREG0_TXCRCEN, IXGBE_HLREG0_RXCRCSTRP, IXGBE_HLREG0_JUMBOEN, IXGBE_HLREG0_TXPADEN,
     IXGBE_HLREG0_TXPAUSEEN, IXGBE_HLREG0_RXPAUSEEN, IXGBE_HLREG0_LPBK, IXGBE_HLREG0_MDCSPD,
     IXGBE_HLREG0_CONTMDC, IXGBE_HLREG0_CTRLFLTR, IXGBE_HLREG0_PRIPAUSEEN, IXGBE_HLREG0_RXLNGTHERREN,
     IXGBE_HLREG0_RXPADSTRIPEN]"

definition flags_VMOLR :: "u32 list" where
  "flags_VMOLR =
    [IXGBE_VMOLR_UPE, IXGBE_VMOLR_VPE, IXGBE_VMOLR_AUPE, IXGBE_VMOLR_ROMPE, IXGBE_VMOLR_ROPE, IXGBE_VMOLR_BAM,
     IXGBE_VMOLR_MPE]"

definition flags_RMCS :: "u32 list" where
  "flags_RMCS =
    [IXGBE_RMCS_RRM, IXGBE_RMCS_RAC, IXGBE_RMCS_TFCE_802_3X, IXGBE_RMCS_TFCE_PRIORITY, IXGBE_RMCS_ARBDIS]"

definition flags_EICR :: "u32 list" where
  "flags_EICR =
    [IXGBE_EICR_FLOW_DIR, IXGBE_EICR_RX_MISS, IXGBE_EICR_PCI, IXGBE_EICR_MAILBOX, IXGBE_EICR_LSC,
     IXGBE_EICR_LINKSEC, IXGBE_EICR_MNG, IXGBE_EICR_TS, IXGBE_EICR_GPI_SDP0, IXGBE_EICR_GPI_SDP1,
     IXGBE_EICR_GPI_SDP2, IXGBE_EICR_PBUR, IXGBE_EICR_DHER, IXGBE_EICR_TCP_TIMER, IXGBE_EICR_OTHER]"

definition flags_EICS :: "u32 list" where
  "flags_EICS =
    [IXGBE_EICS_FLOW_DIR, IXGBE_EICS_RX_MISS, IXGBE_EICS_PCI, IXGBE_EICS_MAILBOX, IXGBE_EICS_LSC,
     IXGBE_EICS_MNG, IXGBE_EICS_GPI_SDP0, IXGBE_EICS_GPI_SDP1, IXGBE_EICS_GPI_SDP2, IXGBE_EICS_PBUR,
     IXGBE_EICS_DHER, IXGBE_EICS_TCP_TIMER, IXGBE_EICS_OTHER]"

definition flags_EIMS :: "u32 list" where
  "flags_EIMS =
    [IXGBE_EIMS_FLOW_DIR, IXGBE_EIMS_RX_MISS, IXGBE_EIMS_PCI, IXGBE_EIMS_MAILBOX, IXGBE_EIMS_LSC,
     IXGBE_EIMS_MNG, IXGBE_EIMS_TS, IXGBE_EIMS_GPI_SDP0, IXGBE_EIMS_GPI_SDP1, IXGBE_EIMS_GPI_SDP2,
     IXGBE_EIMS_PBUR, IXGBE_EIMS_DHER, IXGBE_EIMS_TCP_TIMER, IXGBE_EIMS_OTHER]"

definition flags_EIMC :: "u32 list" where
  "flags_EIMC =
    [IXGBE_EIMC_FLOW_DIR, IXGBE_EIMC_RX_MISS, IXGBE_EIMC_PCI, IXGBE_EIMC_MAILBOX, IXGBE_EIMC_LSC,
     IXGBE_EIMC_MNG, IXGBE_EIMC_GPI_SDP0, IXGBE_EIMC_GPI_SDP1, IXGBE_EIMC_GPI_SDP2, IXGBE_EIMC_PBUR,
     IXGBE_EIMC_DHER, IXGBE_EIMC_TCP_TIMER, IXGBE_EIMC_OTHER]"

definition flags_IMIREXT :: "u32 list" where
  "flags_IMIREXT =
    [IXGBE_IMIREXT_SIZE_BP, IXGBE_IMIREXT_CTRL_URG, IXGBE_IMIREXT_CTRL_ACK, IXGBE_IMIREXT_CTRL_PSH,
     IXGBE_IMIREXT_CTRL_RST, IXGBE_IMIREXT_CTRL_SYN, IXGBE_IMIREXT_CTRL_FIN, IXGBE_IMIREXT_CTRL_BP]"

definition flags_ETQF :: "u32 list" where
  "flags_ETQF =
    [IXGBE_ETQF_FCOE, IXGBE_ETQF_BCN, IXGBE_ETQF_TX_ANTISPOOF, IXGBE_ETQF_1588, IXGBE_ETQF_FILTER_EN,
     IXGBE_ETQF_POOL_ENABLE, IXGBE_ETQF_FILTER_FCOE, IXGBE_ETQF_FILTER_FIP]"

definition flags_ETQS :: "u32 list" where
  "flags_ETQS =
    [IXGBE_ETQS_LLI, IXGBE_ETQS_QUEUE_EN]"

definition flags_VLNCTRL :: "u32 list" where
  "flags_VLNCTRL =
    [IXGBE_VLNCTRL_CFI, IXGBE_VLNCTRL_CFIEN, IXGBE_VLNCTRL_VFE, IXGBE_VLNCTRL_VME]"

definition flags_ESDP :: "u32 list" where
  "flags_ESDP =
    [IXGBE_ESDP_SDP0, IXGBE_ESDP_SDP1, IXGBE_ESDP_SDP2, IXGBE_ESDP_SDP3, IXGBE_ESDP_SDP4, IXGBE_ESDP_SDP5,
     IXGBE_ESDP_SDP6, IXGBE_ESDP_SDP7, IXGBE_ESDP_SDP0_DIR, IXGBE_ESDP_SDP1_DIR, IXGBE_ESDP_SDP2_DIR,
     IXGBE_ESDP_SDP3_DIR, IXGBE_ESDP_SDP4_DIR, IXGBE_ESDP_SDP5_DIR, IXGBE_ESDP_SDP6_DIR, IXGBE_ESDP_SDP7_DIR,
     IXGBE_ESDP_SDP0_NATIVE, IXGBE_ESDP_SDP1_NATIVE]"

definition flags_LINKS :: "u32 list" where
  "flags_LINKS =
    [IXGBE_LINKS_KX_AN_COMP, IXGBE_LINKS_UP, IXGBE_LINKS_SPEED, IXGBE_LINKS_XGXS_EN, IXGBE_LINKS_SGMII_EN,
     IXGBE_LINKS_PCS_1G_EN, IXGBE_LINKS_1G_AN_EN, IXGBE_LINKS_KX_AN_IDLE, IXGBE_LINKS_1G_SYNC,
     IXGBE_LINKS_10G_ALIGN, IXGBE_LINKS_TL_FAULT, IXGBE_LINKS_SPEED_NON_STD]"

definition flags_PCS1GLSTA :: "u32 list" where
  "flags_PCS1GLSTA =
    [IXGBE_PCS1GLSTA_LINK_OK, IXGBE_PCS1GLSTA_SYNK_OK, IXGBE_PCS1GLSTA_AN_COMPLETE, IXGBE_PCS1GLSTA_AN_PAGE_RX,
     IXGBE_PCS1GLSTA_AN_TIMED_OUT, IXGBE_PCS1GLSTA_AN_REMOTE_FAULT, IXGBE_PCS1GLSTA_AN_ERROR_RWS]"

definition flags_PCS1GLCTL :: "u32 list" where
  "flags_PCS1GLCTL =
    [IXGBE_PCS1GLCTL_AN_1G_TIMEOUT_EN, IXGBE_PCS1GLCTL_FLV_LINK_UP, IXGBE_PCS1GLCTL_FORCE_LINK,
     IXGBE_PCS1GLCTL_LOW_LINK_LATCH, IXGBE_PCS1GLCTL_AN_ENABLE, IXGBE_PCS1GLCTL_AN_RESTART]"

definition flags_GSSR :: "u32 list" where
  "flags_GSSR =
    [IXGBE_GSSR_EEP_SM, IXGBE_GSSR_PHY0_SM, IXGBE_GSSR_PHY1_SM, IXGBE_GSSR_MAC_CSR_SM, IXGBE_GSSR_FLASH_SM,
     IXGBE_GSSR_NVM_UPDATE_SM, IXGBE_GSSR_SW_MNG_SM, IXGBE_GSSR_TOKEN_SM]"

definition flags_RFCTL :: "u32 list" where
  "flags_RFCTL =
    [IXGBE_RFCTL_ISCSI_DIS, IXGBE_RFCTL_RSC_DIS, IXGBE_RFCTL_NFSW_DIS, IXGBE_RFCTL_NFSR_DIS,
     IXGBE_RFCTL_NFS_VER_4, IXGBE_RFCTL_IPV6_DIS, IXGBE_RFCTL_IPV6_XSUM_DIS, IXGBE_RFCTL_IPFRSP_DIS,
     IXGBE_RFCTL_IPV6_EX_DIS, IXGBE_RFCTL_NEW_IPV6_EXT_DIS]"

definition flags_RXDCTL :: "u32 list" where
  "flags_RXDCTL =
    [IXGBE_RXDCTL_ENABLE, IXGBE_RXDCTL_SWFLSH, IXGBE_RXDCTL_RLPML_EN, IXGBE_RXDCTL_VME]"

definition flags_TXDCTL :: "u32 list" where
  "flags_TXDCTL =
    [IXGBE_TXDCTL_ENABLE, IXGBE_TXDCTL_SWFLSH]"

definition flags_TSAUXC :: "u32 list" where
  "flags_TSAUXC =
    [IXGBE_TSAUXC_EN_CLK, IXGBE_TSAUXC_SYNCLK, IXGBE_TSAUXC_SDP0_INT, IXGBE_TSAUXC_EN_TT0, IXGBE_TSAUXC_EN_TT1,
     IXGBE_TSAUXC_ST0, IXGBE_TSAUXC_DISABLE_SYSTIME]"

definition flags_TSIM :: "u32 list" where
  "flags_TSIM =
    [IXGBE_TSIM_SYS_WRAP, IXGBE_TSIM_TXTS, IXGBE_TSIM_TADJ]"

definition flags_TSICR :: "u32 list" where
  "flags_TSICR =
    [IXGBE_TSICR_SYS_WRAP, IXGBE_TSICR_TXTS, IXGBE_TSICR_TADJ]"

definition flags_FCTRL :: "u32 list" where
  "flags_FCTRL =
    [IXGBE_FCTRL_SBP, IXGBE_FCTRL_MPE, IXGBE_FCTRL_UPE, IXGBE_FCTRL_BAM, IXGBE_FCTRL_PMCF, IXGBE_FCTRL_DPF,
     IXGBE_FCTRL_RPFCE, IXGBE_FCTRL_RFCE]"

definition flags_MFLCN :: "u32 list" where
  "flags_MFLCN =
    [IXGBE_MFLCN_PMCF, IXGBE_MFLCN_DPF, IXGBE_MFLCN_RPFCE, IXGBE_MFLCN_RFCE]"

definition flags_TXD_CMD :: "u32 list" where
  "flags_TXD_CMD =
    [IXGBE_TXD_CMD_EOP, IXGBE_TXD_CMD_IFCS, IXGBE_TXD_CMD_IC, IXGBE_TXD_CMD_RS, IXGBE_TXD_CMD_DEXT,
     IXGBE_TXD_CMD_VLE]"

definition flags_RXD_STAT :: "u32 list" where
  "flags_RXD_STAT =
    [IXGBE_RXD_STAT_DD, IXGBE_RXD_STAT_EOP, IXGBE_RXD_STAT_FLM, IXGBE_RXD_STAT_VP, IXGBE_RXD_STAT_UDPCS,
     IXGBE_RXD_STAT_L4CS, IXGBE_RXD_STAT_IPCS, IXGBE_RXD_STAT_PIF, IXGBE_RXD_STAT_CRCV, IXGBE_RXD_STAT_VEXT,
     IXGBE_RXD_STAT_UDPV, IXGBE_RXD_STAT_DYNINT, IXGBE_RXD_STAT_TSIP, IXGBE_RXD_STAT_TS, IXGBE_RXD_STAT_SECP,
     IXGBE_RXD_STAT_LB]"

definition flags_RXD_ERR :: "u32 list" where
  "flags_RXD_ERR =
    [IXGBE_RXD_ERR_CE, IXGBE_RXD_ERR_LE, IXGBE_RXD_ERR_PE, IXGBE_RXD_ERR_OSE, IXGBE_RXD_ERR_USE,
     IXGBE_RXD_ERR_TCPE, IXGBE_RXD_ERR_IPE]"

definition flags_PSRTYPE :: "u32 list" where
  "flags_PSRTYPE =
    [IXGBE_PSRTYPE_TCPHDR, IXGBE_PSRTYPE_UDPHDR, IXGBE_PSRTYPE_IPV4HDR, IXGBE_PSRTYPE_IPV6HDR,
     IXGBE_PSRTYPE_L2HDR]"

definition flags_SRRCTL :: "u32 list" where
  "flags_SRRCTL =
    [IXGBE_SRRCTL_DROP_EN, IXGBE_SRRCTL_DESCTYPE_ADV_ONEBUF, IXGBE_SRRCTL_DESCTYPE_HDR_SPLIT,
     IXGBE_SRRCTL_DESCTYPE_HDR_REPLICATION_LARGE_PKT]"

definition flags_FDIRM :: "u32 list" where
  "flags_FDIRM =
    [IXGBE_FDIRM_VLANID, IXGBE_FDIRM_VLANP, IXGBE_FDIRM_POOL, IXGBE_FDIRM_L4P, IXGBE_FDIRM_FLEX,
     IXGBE_FDIRM_DIPv6, IXGBE_FDIRM_L3P]"

definition flags_FDIRCMD :: "u32 list" where
  "flags_FDIRCMD =
    [IXGBE_FDIRCMD_CMD_ADD_FLOW, IXGBE_FDIRCMD_CMD_REMOVE_FLOW, IXGBE_FDIRCMD_FILTER_VALID,
     IXGBE_FDIRCMD_FILTER_UPDATE, IXGBE_FDIRCMD_IPv6DMATCH, IXGBE_FDIRCMD_L4TYPE_UDP, IXGBE_FDIRCMD_L4TYPE_TCP,
     IXGBE_FDIRCMD_IPV6, IXGBE_FDIRCMD_CLEARHT, IXGBE_FDIRCMD_DROP, IXGBE_FDIRCMD_INT, IXGBE_FDIRCMD_LAST,
     IXGBE_FDIRCMD_COLLISION, IXGBE_FDIRCMD_QUEUE_EN, IXGBE_FDIRCMD_TUNNEL_FILTER]"

definition flags_EITR :: "u32 list" where
  "flags_EITR =
    [IXGBE_EITR_LLI_MOD, IXGBE_EITR_CNT_WDIS]"

definition flags_GRC :: "u32 list" where
  "flags_GRC =
    [IXGBE_GRC_MNG, IXGBE_GRC_APME]"

definition flags_MANC :: "u32 list" where
  "flags_MANC =
    [IXGBE_MANC_MPROXYE, IXGBE_MANC_RCV_TCO_EN, IXGBE_MANC_EN_BMC2OS]"

definition flags_BMCIP :: "u32 list" where
  "flags_BMCIP =
    [IXGBE_BMCIP_IPADDR_TYPE, IXGBE_BMCIP_IPADDR_VALID]"

definition flags_EEER :: "u32 list" where
  "flags_EEER =
    [IXGBE_EEER_TX_LPI_EN, IXGBE_EEER_RX_LPI_EN]"

definition flags_RXCSUM :: "u32 list" where
  "flags_RXCSUM =
    [IXGBE_RXCSUM_IPPCSE, IXGBE_RXCSUM_PCSD]"

definition flags_FCCFG :: "u32 list" where
  "flags_FCCFG =
    [IXGBE_FCCFG_TFCE_802_3X, IXGBE_FCCFG_TFCE_PRIORITY]"

definition flags_VMVIR :: "u32 list" where
  "flags_VMVIR =
    [IXGBE_VMVIR_VLANA_DEFAULT, IXGBE_VMVIR_VLANA_NEVER]"

definition flags_PCS1GANA :: "u32 list" where
  "flags_PCS1GANA =
    [IXGBE_PCS1GANA_SYM_PAUSE, IXGBE_PCS1GANA_ASM_PAUSE]"

definition flags_TDWBAL :: "u32 list" where
  "flags_TDWBAL =
    [IXGBE_TDWBAL_HEAD_WB_ENABLE, IXGBE_TDWBAL_SEQNUM_WB_ENABLE]"

definition flags_RXCTRL :: "u32 list" where
  "flags_RXCTRL =
    [IXGBE_RXCTRL_RXEN, IXGBE_RXCTRL_DMBYPS]"

definition flags_FWSM :: "u32 list" where
  "flags_FWSM =
    [IXGBE_FWSM_TS_ENABLED, IXGBE_FWSM_FW_MODE_PT]"

definition flags_FACTPS :: "u32 list" where
  "flags_FACTPS =
    [IXGBE_FACTPS_MNGCG, IXGBE_FACTPS_LFS]"

definition register_flags :: "u32 list list" where
  "register_flags =
    [flags_EEC, flags_DMATXCTL, flags_WUC, flags_WUFC, flags_WUS, flags_PROXYS, flags_PROXYFC, flags_DMACR,
     flags_SECTXCTRL, flags_SECTXSTAT, flags_SECRXCTRL, flags_SECRXSTAT, flags_LSECTXCTRL, flags_LSECRXCTRL,
     flags_FCFLTRW, flags_FCFLT, flags_FCBUFF, flags_FCDMARW, flags_FCRXCTRL, flags_HICR, flags_SWSM,
     flags_GCR, flags_RSCCTL, flags_RDRXCTL, flags_CTRL, flags_MSCA, flags_GPIE, flags_TFCS, flags_TCPTIMER,
     flags_HLREG0, flags_VMOLR, flags_RMCS, flags_EICR, flags_EICS, flags_EIMS, flags_EIMC, flags_IMIREXT,
     flags_ETQF, flags_ETQS, flags_VLNCTRL, flags_ESDP, flags_LINKS, flags_PCS1GLSTA, flags_PCS1GLCTL,
     flags_GSSR, flags_RFCTL, flags_RXDCTL, flags_TXDCTL, flags_TSAUXC, flags_TSIM, flags_TSICR, flags_FCTRL,
     flags_MFLCN, flags_TXD_CMD, flags_RXD_STAT, flags_RXD_ERR, flags_PSRTYPE, flags_SRRCTL, flags_FDIRM,
     flags_FDIRCMD, flags_EITR, flags_GRC, flags_MANC, flags_BMCIP, flags_EEER, flags_RXCSUM, flags_FCCFG,
     flags_VMVIR, flags_PCS1GANA, flags_TDWBAL, flags_RXCTRL, flags_FWSM, flags_FACTPS]"

text \<open>A cause of interrupts: its bit in EICR, EICS, EIMS and EIMC.\<close>

definition interrupt_causes :: "(u32 \<times> u32 \<times> u32 \<times> u32) list" where
  "interrupt_causes =
    [(IXGBE_EICR_RTX_QUEUE, IXGBE_EICS_RTX_QUEUE,
      IXGBE_EIMS_RTX_QUEUE, IXGBE_EIMC_RTX_QUEUE),
     (IXGBE_EICR_FLOW_DIR, IXGBE_EICS_FLOW_DIR,
      IXGBE_EIMS_FLOW_DIR, IXGBE_EIMC_FLOW_DIR),
     (IXGBE_EICR_RX_MISS, IXGBE_EICS_RX_MISS,
      IXGBE_EIMS_RX_MISS, IXGBE_EIMC_RX_MISS),
     (IXGBE_EICR_PCI, IXGBE_EICS_PCI,
      IXGBE_EIMS_PCI, IXGBE_EIMC_PCI),
     (IXGBE_EICR_MAILBOX, IXGBE_EICS_MAILBOX,
      IXGBE_EIMS_MAILBOX, IXGBE_EIMC_MAILBOX),
     (IXGBE_EICR_LSC, IXGBE_EICS_LSC,
      IXGBE_EIMS_LSC, IXGBE_EIMC_LSC),
     (IXGBE_EICR_MNG, IXGBE_EICS_MNG,
      IXGBE_EIMS_MNG, IXGBE_EIMC_MNG),
     (IXGBE_EICR_TIMESYNC, IXGBE_EICS_TIMESYNC,
      IXGBE_EIMS_TIMESYNC, IXGBE_EIMC_TIMESYNC),
     (IXGBE_EICR_GPI_SDP0, IXGBE_EICS_GPI_SDP0,
      IXGBE_EIMS_GPI_SDP0, IXGBE_EIMC_GPI_SDP0),
     (IXGBE_EICR_GPI_SDP1, IXGBE_EICS_GPI_SDP1,
      IXGBE_EIMS_GPI_SDP1, IXGBE_EIMC_GPI_SDP1),
     (IXGBE_EICR_GPI_SDP2, IXGBE_EICS_GPI_SDP2,
      IXGBE_EIMS_GPI_SDP2, IXGBE_EIMC_GPI_SDP2),
     (IXGBE_EICR_ECC, IXGBE_EICS_ECC,
      IXGBE_EIMS_ECC, IXGBE_EIMC_ECC),
     (IXGBE_EICR_PBUR, IXGBE_EICS_PBUR,
      IXGBE_EIMS_PBUR, IXGBE_EIMC_PBUR),
     (IXGBE_EICR_DHER, IXGBE_EICS_DHER,
      IXGBE_EIMS_DHER, IXGBE_EIMC_DHER),
     (IXGBE_EICR_TCP_TIMER, IXGBE_EICS_TCP_TIMER,
      IXGBE_EIMS_TCP_TIMER, IXGBE_EIMC_TCP_TIMER),
     (IXGBE_EICR_OTHER, IXGBE_EICS_OTHER,
      IXGBE_EIMS_OTHER, IXGBE_EIMC_OTHER)]"

definition device_ids :: "u32 list" where
  "device_ids =
    [IXGBE_DEV_ID_82598, IXGBE_DEV_ID_82598_BX, IXGBE_DEV_ID_82598AF_DUAL_PORT,
     IXGBE_DEV_ID_82598AF_SINGLE_PORT, IXGBE_DEV_ID_82598AT, IXGBE_DEV_ID_82598AT2,
     IXGBE_DEV_ID_82598EB_SFP_LOM, IXGBE_DEV_ID_82598EB_CX4, IXGBE_DEV_ID_82598_CX4_DUAL_PORT,
     IXGBE_DEV_ID_82598_DA_DUAL_PORT, IXGBE_DEV_ID_82598_SR_DUAL_PORT_EM, IXGBE_DEV_ID_82598EB_XF_LR,
     IXGBE_DEV_ID_82599_KX4, IXGBE_DEV_ID_82599_KX4_MEZZ, IXGBE_DEV_ID_82599_KR,
     IXGBE_DEV_ID_82599_COMBO_BACKPLANE, IXGBE_DEV_ID_82599_CX4, IXGBE_DEV_ID_82599_SFP,
     IXGBE_DEV_ID_82599_BACKPLANE_FCOE, IXGBE_DEV_ID_82599_SFP_FCOE, IXGBE_DEV_ID_82599_SFP_EM,
     IXGBE_DEV_ID_82599_SFP_SF2, IXGBE_DEV_ID_82599_SFP_SF_QP, IXGBE_DEV_ID_82599_QSFP_SF_QP,
     IXGBE_DEV_ID_82599EN_SFP, IXGBE_DEV_ID_82599_XAUI_LOM, IXGBE_DEV_ID_82599_T3_LOM, IXGBE_DEV_ID_82599_VF,
     IXGBE_DEV_ID_82599_VF_HV, IXGBE_DEV_ID_82599_LS, IXGBE_DEV_ID_X540T, IXGBE_DEV_ID_X540_VF,
     IXGBE_DEV_ID_X540_VF_HV, IXGBE_DEV_ID_X540T1, IXGBE_DEV_ID_X550T, IXGBE_DEV_ID_X550T1,
     IXGBE_DEV_ID_X550EM_A_KR, IXGBE_DEV_ID_X550EM_A_KR_L, IXGBE_DEV_ID_X550EM_A_SFP_N,
     IXGBE_DEV_ID_X550EM_A_SGMII, IXGBE_DEV_ID_X550EM_A_SGMII_L, IXGBE_DEV_ID_X550EM_A_10G_T,
     IXGBE_DEV_ID_X550EM_A_QSFP, IXGBE_DEV_ID_X550EM_A_QSFP_N, IXGBE_DEV_ID_X550EM_A_SFP,
     IXGBE_DEV_ID_X550EM_A_1G_T, IXGBE_DEV_ID_X550EM_A_1G_T_L, IXGBE_DEV_ID_X550EM_X_KX4,
     IXGBE_DEV_ID_X550EM_X_KR, IXGBE_DEV_ID_X550EM_X_SFP, IXGBE_DEV_ID_X550EM_X_10G_T,
     IXGBE_DEV_ID_X550EM_X_1G_T, IXGBE_DEV_ID_X550EM_X_XFI, IXGBE_DEV_ID_X550_VF_HV, IXGBE_DEV_ID_X550_VF,
     IXGBE_DEV_ID_X550EM_A_VF, IXGBE_DEV_ID_X550EM_A_VF_HV, IXGBE_DEV_ID_X550EM_X_VF,
     IXGBE_DEV_ID_X550EM_X_VF_HV]"

lemmas flag_defs =
  IXGBE_DEV_ID_82598_def IXGBE_DEV_ID_82598_BX_def IXGBE_DEV_ID_82598AF_DUAL_PORT_def
  IXGBE_DEV_ID_82598AF_SINGLE_PORT_def IXGBE_DEV_ID_82598AT_def IXGBE_DEV_ID_82598AT2_def
  IXGBE_DEV_ID_82598EB_SFP_LOM_def IXGBE_DEV_ID_82598EB_CX4_def IXGBE_DEV_ID_82598_CX4_DUAL_PORT_def
  IXGBE_DEV_ID_82598_DA_DUAL_PORT_def IXGBE_DEV_ID_82598_SR_DUAL_PORT_EM_def IXGBE_DEV_ID_82598EB_XF_LR_def
  IXGBE_DEV_ID_82599_KX4_def IXGBE_DEV_ID_82599_KX4_MEZZ_def IXGBE_DEV_ID_82599_KR_def
  IXGBE_DEV_ID_82599_COMBO_BACKPLANE_def IXGBE_DEV_ID_82599_CX4_def IXGBE_DEV_ID_82599_SFP_def
  IXGBE_DEV_ID_82599_BACKPLANE_FCOE_def IXGBE_DEV_ID_82599_SFP_FCOE_def IXGBE_DEV_ID_82599_SFP_EM_def
  IXGBE_DEV_ID_82599_SFP_SF2_def IXGBE_DEV_ID_82599_SFP_SF_QP_def IXGBE_DEV_ID_82599_QSFP_SF_QP_def
  IXGBE_DEV_ID_82599EN_SFP_def IXGBE_DEV_ID_82599_XAUI_LOM_def IXGBE_DEV_ID_82599_T3_LOM_def
  IXGBE_DEV_ID_82599_VF_def IXGBE_DEV_ID_82599_VF_HV_def IXGBE_DEV_ID_82599_LS_def IXGBE_DEV_ID_X540T_def
  IXGBE_DEV_ID_X540_VF_def IXGBE_DEV_ID_X540_VF_HV_def IXGBE_DEV_ID_X540T1_def IXGBE_DEV_ID_X550T_def
  IXGBE_DEV_ID_X550T1_def IXGBE_DEV_ID_X550EM_A_KR_def IXGBE_DEV_ID_X550EM_A_KR_L_def
  IXGBE_DEV_ID_X550EM_A_SFP_N_def IXGBE_DEV_ID_X550EM_A_SGMII_def IXGBE_DEV_ID_X550EM_A_SGMII_L_def
  IXGBE_DEV_ID_X550EM_A_10G_T_def IXGBE_DEV_ID_X550EM_A_QSFP_def IXGBE_DEV_ID_X550EM_A_QSFP_N_def
  IXGBE_DEV_ID_X550EM_A_SFP_def IXGBE_DEV_ID_X550EM_A_1G_T_def IXGBE_DEV_ID_X550EM_A_1G_T_L_def
  IXGBE_DEV_ID_X550EM_X_KX4_def IXGBE_DEV_ID_X550EM_X_KR_def IXGBE_DEV_ID_X550EM_X_SFP_def
  IXGBE_DEV_ID_X550EM_X_10G_T_def IXGBE_DEV_ID_X550EM_X_1G_T_def IXGBE_DEV_ID_X550EM_X_XFI_def
  IXGBE_DEV_ID_X550_VF_HV_def IXGBE_DEV_ID_X550_VF_def IXGBE_DEV_ID_X550EM_A_VF_def
  IXGBE_DEV_ID_X550EM_A_VF_HV_def IXGBE_DEV_ID_X550EM_X_VF_def IXGBE_DEV_ID_X550EM_X_VF_HV_def
  IXGBE_GRC_MNG_def IXGBE_GRC_APME_def IXGBE_EITR_LLI_MOD_def IXGBE_EITR_CNT_WDIS_def
  IXGBE_DMATXCTL_NS_def IXGBE_DMATXCTL_GDV_def IXGBE_DMATXCTL_MDP_EN_def IXGBE_DMATXCTL_MBINTEN_def
  IXGBE_WUC_PME_EN_def IXGBE_WUC_PME_STATUS_def IXGBE_WUC_WKEN_def IXGBE_WUFC_LNKC_def IXGBE_WUFC_MAG_def
  IXGBE_WUFC_EX_def IXGBE_WUFC_MC_def IXGBE_WUFC_BC_def IXGBE_WUFC_ARP_def IXGBE_WUFC_IPV4_def
  IXGBE_WUFC_IPV6_def IXGBE_WUFC_MNG_def IXGBE_WUFC_IGNORE_TCO_def IXGBE_WUFC_FLX0_def IXGBE_WUFC_FLX1_def
  IXGBE_WUFC_FLX2_def IXGBE_WUFC_FLX3_def IXGBE_WUFC_FLX4_def IXGBE_WUFC_FLX5_def IXGBE_WUFC_FW_RST_WK_def
  IXGBE_WUS_LNKC_def IXGBE_WUS_MAG_def IXGBE_WUS_EX_def IXGBE_WUS_MC_def IXGBE_WUS_BC_def
  IXGBE_WUS_ARP_def IXGBE_WUS_IPV4_def IXGBE_WUS_IPV6_def IXGBE_WUS_MNG_def IXGBE_WUS_FLX0_def
  IXGBE_WUS_FLX1_def IXGBE_WUS_FLX2_def IXGBE_WUS_FLX3_def IXGBE_WUS_FLX4_def IXGBE_WUS_FLX5_def
  IXGBE_WUS_FW_RST_WK_def IXGBE_PROXYS_EX_def IXGBE_PROXYS_ARP_DIR_def IXGBE_PROXYS_NS_def
  IXGBE_PROXYS_NS_DIR_def IXGBE_PROXYS_ARP_def IXGBE_PROXYS_MLD_def IXGBE_PROXYFC_ENABLE_def
  IXGBE_PROXYFC_EX_def IXGBE_PROXYFC_ARP_DIR_def IXGBE_PROXYFC_NS_def IXGBE_PROXYFC_ARP_def
  IXGBE_PROXYFC_NO_TCO_def IXGBE_DMACR_EN_MNG_IND_def IXGBE_DMACR_LX_COAL_IND_def IXGBE_DMACR_DMAC_EN_def
  IXGBE_EEER_TX_LPI_EN_def IXGBE_EEER_RX_LPI_EN_def IXGBE_SECTXCTRL_SECTX_DIS_def
  IXGBE_SECTXCTRL_TX_DIS_def IXGBE_SECTXCTRL_STORE_FORWARD_def IXGBE_SECTXSTAT_SECTX_RDY_def
  IXGBE_SECTXSTAT_ECC_TXERR_def IXGBE_SECRXCTRL_SECRX_DIS_def IXGBE_SECRXCTRL_RX_DIS_def
  IXGBE_SECRXSTAT_SECRX_RDY_def IXGBE_SECRXSTAT_ECC_RXERR_def IXGBE_LSECTXCTRL_AUTH_def
  IXGBE_LSECTXCTRL_AUTH_ENCRYPT_def IXGBE_LSECTXCTRL_AISCI_def IXGBE_LSECRXCTRL_CHECK_def
  IXGBE_LSECRXCTRL_STRICT_def IXGBE_LSECRXCTRL_PLSH_def IXGBE_LSECRXCTRL_RP_def IXGBE_FCBUFF_VALID_def
  IXGBE_FCBUFF_WRCONTX_def IXGBE_FCDMARW_WE_def IXGBE_FCDMARW_RE_def IXGBE_FCFLT_VALID_def
  IXGBE_FCFLT_FIRST_def IXGBE_FCFLTRW_RVALDT_def IXGBE_FCFLTRW_WE_def IXGBE_FCFLTRW_RE_def
  IXGBE_FCRXCTRL_FCOELLI_def IXGBE_FCRXCTRL_SAVBAD_def IXGBE_FCRXCTRL_FRSTRDH_def
  IXGBE_FCRXCTRL_LASTSEQH_def IXGBE_FCRXCTRL_ALLH_def IXGBE_FCRXCTRL_FRSTSEQH_def IXGBE_FCRXCTRL_ICRC_def
  IXGBE_FCRXCTRL_FCCRCBO_def IXGBE_BMCIP_IPADDR_TYPE_def IXGBE_BMCIP_IPADDR_VALID_def
  IXGBE_MANC_MPROXYE_def IXGBE_MANC_RCV_TCO_EN_def IXGBE_FWSM_TS_ENABLED_def IXGBE_FWSM_FW_MODE_PT_def
  IXGBE_HICR_EN_def IXGBE_HICR_C_def IXGBE_HICR_SV_def IXGBE_HICR_FW_RESET_ENABLE_def
  IXGBE_HICR_FW_RESET_def IXGBE_GCR_CMPL_TMOUT_10ms_def IXGBE_GCR_CMPL_TMOUT_RESEND_def
  IXGBE_GCR_CAP_VER2_def IXGBE_GCR_EXT_MSIX_EN_def IXGBE_GCR_EXT_BUFFERS_CLEAR_def
  IXGBE_GCR_EXT_VT_MODE_16_def IXGBE_GCR_EXT_VT_MODE_32_def IXGBE_RSCCTL_RSCEN_def
  IXGBE_RSCCTL_MAXDESC_4_def IXGBE_RSCCTL_MAXDESC_8_def IXGBE_RSCCTL_TS_DIS_def IXGBE_RDRXCTL_PSP_def
  IXGBE_RDRXCTL_MVMEN_def IXGBE_RDRXCTL_RSC_PUSH_def IXGBE_RDRXCTL_AGGDIS_def IXGBE_RDRXCTL_RSCLLIDIS_def
  IXGBE_RDRXCTL_RSCACKC_def IXGBE_RDRXCTL_FCOE_WRFIX_def IXGBE_RDRXCTL_MBINTEN_def IXGBE_RDRXCTL_MDP_EN_def
  IXGBE_CTRL_GIO_DIS_def IXGBE_FACTPS_MNGCG_def IXGBE_FACTPS_LFS_def IXGBE_CTRL_EXT_PFRSTD_def
  IXGBE_CTRL_EXT_RO_DIS_def IXGBE_CTRL_EXT_DRV_LOAD_def IXGBE_MSCA_WRITE_def IXGBE_MSCA_READ_AUTOINC_def
  IXGBE_MSCA_OLD_PROTOCOL_def IXGBE_MSCA_MDI_COMMAND_def IXGBE_MSCA_MDI_IN_PROG_EN_def
  IXGBE_GPIE_MSIX_MODE_def IXGBE_GPIE_OCD_def IXGBE_GPIE_EIMEN_def IXGBE_GPIE_EIAME_def
  IXGBE_GPIE_PBA_SUPPORT_def IXGBE_GPIE_VTMODE_16_def IXGBE_GPIE_VTMODE_32_def IXGBE_TFCS_TXOFF_def
  IXGBE_TFCS_TXOFF0_def IXGBE_TFCS_TXOFF1_def IXGBE_TFCS_TXOFF2_def IXGBE_TFCS_TXOFF3_def
  IXGBE_TFCS_TXOFF4_def IXGBE_TFCS_TXOFF5_def IXGBE_TFCS_TXOFF6_def IXGBE_TFCS_TXOFF7_def
  IXGBE_TCPTIMER_KS_def IXGBE_TCPTIMER_COUNT_ENABLE_def IXGBE_TCPTIMER_COUNT_FINISH_def
  IXGBE_TCPTIMER_LOOP_def IXGBE_HLREG0_JUMBOEN_def IXGBE_HLREG0_TXPAUSEEN_def IXGBE_HLREG0_RXPAUSEEN_def
  IXGBE_HLREG0_LPBK_def IXGBE_HLREG0_MDCSPD_def IXGBE_HLREG0_CONTMDC_def IXGBE_HLREG0_CTRLFLTR_def
  IXGBE_HLREG0_PRIPAUSEEN_def IXGBE_HLREG0_RXLNGTHERREN_def IXGBE_HLREG0_RXPADSTRIPEN_def
  IXGBE_VMOLR_UPE_def IXGBE_VMOLR_VPE_def IXGBE_VMOLR_AUPE_def IXGBE_VMOLR_ROMPE_def IXGBE_VMOLR_ROPE_def
  IXGBE_VMOLR_BAM_def IXGBE_VMOLR_MPE_def IXGBE_RXCSUM_IPPCSE_def IXGBE_RXCSUM_PCSD_def IXGBE_RMCS_RRM_def
  IXGBE_RMCS_RAC_def IXGBE_RMCS_TFCE_802_3X_def IXGBE_RMCS_TFCE_PRIORITY_def IXGBE_RMCS_ARBDIS_def
  IXGBE_FCCFG_TFCE_802_3X_def IXGBE_FCCFG_TFCE_PRIORITY_def IXGBE_EICR_RTX_QUEUE_def
  IXGBE_EICR_FLOW_DIR_def IXGBE_EICR_RX_MISS_def IXGBE_EICR_PCI_def IXGBE_EICR_MAILBOX_def
  IXGBE_EICR_LSC_def IXGBE_EICR_LINKSEC_def IXGBE_EICR_MNG_def IXGBE_EICR_TS_def IXGBE_EICR_TIMESYNC_def
  IXGBE_EICR_GPI_SDP0_def IXGBE_EICR_GPI_SDP1_def IXGBE_EICR_GPI_SDP2_def IXGBE_EICR_ECC_def
  IXGBE_EICR_PBUR_def IXGBE_EICR_DHER_def IXGBE_EICR_TCP_TIMER_def IXGBE_EICR_OTHER_def
  IXGBE_EICS_RTX_QUEUE_def IXGBE_EICS_FLOW_DIR_def IXGBE_EICS_RX_MISS_def IXGBE_EICS_PCI_def
  IXGBE_EICS_MAILBOX_def IXGBE_EICS_LSC_def IXGBE_EICS_MNG_def IXGBE_EICS_TIMESYNC_def
  IXGBE_EICS_GPI_SDP0_def IXGBE_EICS_GPI_SDP1_def IXGBE_EICS_GPI_SDP2_def IXGBE_EICS_ECC_def
  IXGBE_EICS_PBUR_def IXGBE_EICS_DHER_def IXGBE_EICS_TCP_TIMER_def IXGBE_EICS_OTHER_def
  IXGBE_EIMS_RTX_QUEUE_def IXGBE_EIMS_FLOW_DIR_def IXGBE_EIMS_RX_MISS_def IXGBE_EIMS_PCI_def
  IXGBE_EIMS_MAILBOX_def IXGBE_EIMS_LSC_def IXGBE_EIMS_MNG_def IXGBE_EIMS_TS_def IXGBE_EIMS_TIMESYNC_def
  IXGBE_EIMS_GPI_SDP0_def IXGBE_EIMS_GPI_SDP1_def IXGBE_EIMS_GPI_SDP2_def IXGBE_EIMS_ECC_def
  IXGBE_EIMS_PBUR_def IXGBE_EIMS_DHER_def IXGBE_EIMS_TCP_TIMER_def IXGBE_EIMS_OTHER_def
  IXGBE_EIMC_RTX_QUEUE_def IXGBE_EIMC_FLOW_DIR_def IXGBE_EIMC_RX_MISS_def IXGBE_EIMC_PCI_def
  IXGBE_EIMC_MAILBOX_def IXGBE_EIMC_LSC_def IXGBE_EIMC_MNG_def IXGBE_EIMC_TIMESYNC_def
  IXGBE_EIMC_GPI_SDP0_def IXGBE_EIMC_GPI_SDP1_def IXGBE_EIMC_GPI_SDP2_def IXGBE_EIMC_ECC_def
  IXGBE_EIMC_PBUR_def IXGBE_EIMC_DHER_def IXGBE_EIMC_TCP_TIMER_def IXGBE_EIMC_OTHER_def
  IXGBE_IMIREXT_SIZE_BP_def IXGBE_IMIREXT_CTRL_URG_def IXGBE_IMIREXT_CTRL_ACK_def
  IXGBE_IMIREXT_CTRL_PSH_def IXGBE_IMIREXT_CTRL_RST_def IXGBE_IMIREXT_CTRL_SYN_def
  IXGBE_IMIREXT_CTRL_FIN_def IXGBE_IMIREXT_CTRL_BP_def IXGBE_ETQF_FCOE_def IXGBE_ETQF_BCN_def
  IXGBE_ETQF_TX_ANTISPOOF_def IXGBE_ETQF_1588_def IXGBE_ETQF_FILTER_EN_def IXGBE_ETQF_POOL_ENABLE_def
  IXGBE_ETQS_LLI_def IXGBE_ETQS_QUEUE_EN_def IXGBE_ETQF_FILTER_FCOE_def IXGBE_ETQF_FILTER_FIP_def
  IXGBE_VLNCTRL_CFI_def IXGBE_VLNCTRL_CFIEN_def IXGBE_VLNCTRL_VFE_def IXGBE_VLNCTRL_VME_def
  IXGBE_VMVIR_VLANA_DEFAULT_def IXGBE_VMVIR_VLANA_NEVER_def IXGBE_ESDP_SDP0_def IXGBE_ESDP_SDP1_def
  IXGBE_ESDP_SDP2_def IXGBE_ESDP_SDP3_def IXGBE_ESDP_SDP4_def IXGBE_ESDP_SDP5_def IXGBE_ESDP_SDP6_def
  IXGBE_ESDP_SDP7_def IXGBE_ESDP_SDP0_DIR_def IXGBE_ESDP_SDP1_DIR_def IXGBE_ESDP_SDP2_DIR_def
  IXGBE_ESDP_SDP3_DIR_def IXGBE_ESDP_SDP4_DIR_def IXGBE_ESDP_SDP5_DIR_def IXGBE_ESDP_SDP6_DIR_def
  IXGBE_ESDP_SDP7_DIR_def IXGBE_ESDP_SDP0_NATIVE_def IXGBE_ESDP_SDP1_NATIVE_def IXGBE_LINKS_KX_AN_COMP_def
  IXGBE_LINKS_SPEED_def IXGBE_LINKS_XGXS_EN_def IXGBE_LINKS_SGMII_EN_def IXGBE_LINKS_PCS_1G_EN_def
  IXGBE_LINKS_1G_AN_EN_def IXGBE_LINKS_KX_AN_IDLE_def IXGBE_LINKS_1G_SYNC_def IXGBE_LINKS_10G_ALIGN_def
  IXGBE_LINKS_TL_FAULT_def IXGBE_LINKS_SPEED_NON_STD_def IXGBE_PCS1GLSTA_LINK_OK_def
  IXGBE_PCS1GLSTA_SYNK_OK_def IXGBE_PCS1GLSTA_AN_COMPLETE_def IXGBE_PCS1GLSTA_AN_PAGE_RX_def
  IXGBE_PCS1GLSTA_AN_TIMED_OUT_def IXGBE_PCS1GLSTA_AN_REMOTE_FAULT_def IXGBE_PCS1GLSTA_AN_ERROR_RWS_def
  IXGBE_PCS1GANA_SYM_PAUSE_def IXGBE_PCS1GANA_ASM_PAUSE_def IXGBE_PCS1GLCTL_AN_1G_TIMEOUT_EN_def
  IXGBE_PCS1GLCTL_FLV_LINK_UP_def IXGBE_PCS1GLCTL_FORCE_LINK_def IXGBE_PCS1GLCTL_LOW_LINK_LATCH_def
  IXGBE_PCS1GLCTL_AN_ENABLE_def IXGBE_PCS1GLCTL_AN_RESTART_def IXGBE_SWSM_SMBI_def IXGBE_SWSM_SWESMBI_def
  IXGBE_SWSM_WMNG_def IXGBE_GSSR_EEP_SM_def IXGBE_GSSR_PHY0_SM_def IXGBE_GSSR_PHY1_SM_def
  IXGBE_GSSR_MAC_CSR_SM_def IXGBE_GSSR_FLASH_SM_def IXGBE_GSSR_NVM_UPDATE_SM_def IXGBE_GSSR_SW_MNG_SM_def
  IXGBE_GSSR_TOKEN_SM_def IXGBE_EEC_SK_def IXGBE_EEC_CS_def IXGBE_EEC_DI_def IXGBE_EEC_DO_def
  IXGBE_EEC_FWE_DIS_def IXGBE_EEC_FWE_EN_def IXGBE_EEC_REQ_def IXGBE_EEC_GNT_def IXGBE_EEC_PRES_def
  IXGBE_EEC_FLUP_def IXGBE_EEC_SEC1VAL_def IXGBE_EEC_FLUDONE_def IXGBE_EEC_ADDR_SIZE_def
  IXGBE_RFCTL_ISCSI_DIS_def IXGBE_RFCTL_RSC_DIS_def IXGBE_RFCTL_NFSW_DIS_def IXGBE_RFCTL_NFSR_DIS_def
  IXGBE_RFCTL_NFS_VER_4_def IXGBE_RFCTL_IPV6_DIS_def IXGBE_RFCTL_IPV6_XSUM_DIS_def
  IXGBE_RFCTL_IPFRSP_DIS_def IXGBE_RFCTL_IPV6_EX_DIS_def IXGBE_RFCTL_NEW_IPV6_EXT_DIS_def
  IXGBE_TXDCTL_SWFLSH_def IXGBE_TDWBAL_HEAD_WB_ENABLE_def IXGBE_TDWBAL_SEQNUM_WB_ENABLE_def
  IXGBE_RXCTRL_DMBYPS_def IXGBE_RXDCTL_SWFLSH_def IXGBE_RXDCTL_RLPML_EN_def IXGBE_RXDCTL_VME_def
  IXGBE_TSAUXC_EN_CLK_def IXGBE_TSAUXC_SYNCLK_def IXGBE_TSAUXC_SDP0_INT_def IXGBE_TSAUXC_EN_TT0_def
  IXGBE_TSAUXC_EN_TT1_def IXGBE_TSAUXC_ST0_def IXGBE_TSAUXC_DISABLE_SYSTIME_def IXGBE_TSIM_SYS_WRAP_def
  IXGBE_TSIM_TXTS_def IXGBE_TSIM_TADJ_def IXGBE_TSICR_SYS_WRAP_def IXGBE_TSICR_TXTS_def
  IXGBE_TSICR_TADJ_def IXGBE_FCTRL_SBP_def IXGBE_FCTRL_PMCF_def IXGBE_FCTRL_DPF_def IXGBE_FCTRL_RPFCE_def
  IXGBE_FCTRL_RFCE_def IXGBE_MFLCN_PMCF_def IXGBE_MFLCN_DPF_def IXGBE_MFLCN_RFCE_def IXGBE_TXD_CMD_IC_def
  IXGBE_TXD_CMD_VLE_def IXGBE_RXD_STAT_FLM_def IXGBE_RXD_STAT_VP_def IXGBE_RXD_STAT_UDPCS_def
  IXGBE_RXD_STAT_L4CS_def IXGBE_RXD_STAT_IPCS_def IXGBE_RXD_STAT_PIF_def IXGBE_RXD_STAT_CRCV_def
  IXGBE_RXD_STAT_VEXT_def IXGBE_RXD_STAT_UDPV_def IXGBE_RXD_STAT_DYNINT_def IXGBE_RXD_STAT_TSIP_def
  IXGBE_RXD_STAT_TS_def IXGBE_RXD_STAT_SECP_def IXGBE_RXD_STAT_LB_def IXGBE_RXD_ERR_CE_def
  IXGBE_RXD_ERR_LE_def IXGBE_RXD_ERR_PE_def IXGBE_RXD_ERR_OSE_def IXGBE_RXD_ERR_USE_def
  IXGBE_RXD_ERR_TCPE_def IXGBE_RXD_ERR_IPE_def IXGBE_PSRTYPE_TCPHDR_def IXGBE_PSRTYPE_UDPHDR_def
  IXGBE_PSRTYPE_IPV4HDR_def IXGBE_PSRTYPE_IPV6HDR_def IXGBE_PSRTYPE_L2HDR_def
  IXGBE_SRRCTL_DESCTYPE_HDR_SPLIT_def IXGBE_SRRCTL_DESCTYPE_HDR_REPLICATION_LARGE_PKT_def
  IXGBE_FDIRM_VLANID_def IXGBE_FDIRM_VLANP_def IXGBE_FDIRM_POOL_def IXGBE_FDIRM_L4P_def
  IXGBE_FDIRM_FLEX_def IXGBE_FDIRM_DIPv6_def IXGBE_FDIRM_L3P_def IXGBE_FDIRCMD_CMD_ADD_FLOW_def
  IXGBE_FDIRCMD_CMD_REMOVE_FLOW_def IXGBE_FDIRCMD_FILTER_VALID_def IXGBE_FDIRCMD_FILTER_UPDATE_def
  IXGBE_FDIRCMD_IPv6DMATCH_def IXGBE_FDIRCMD_L4TYPE_UDP_def IXGBE_FDIRCMD_L4TYPE_TCP_def
  IXGBE_FDIRCMD_IPV6_def IXGBE_FDIRCMD_CLEARHT_def IXGBE_FDIRCMD_DROP_def IXGBE_FDIRCMD_INT_def
  IXGBE_FDIRCMD_LAST_def IXGBE_FDIRCMD_COLLISION_def IXGBE_FDIRCMD_QUEUE_EN_def

lemmas flag_groups = register_flags_def
  flags_EEC_def flags_DMATXCTL_def flags_WUC_def flags_WUFC_def flags_WUS_def flags_PROXYS_def
  flags_PROXYFC_def flags_DMACR_def flags_SECTXCTRL_def flags_SECTXSTAT_def flags_SECRXCTRL_def
  flags_SECRXSTAT_def flags_LSECTXCTRL_def flags_LSECRXCTRL_def flags_FCFLTRW_def flags_FCFLT_def
  flags_FCBUFF_def flags_FCDMARW_def flags_FCRXCTRL_def flags_HICR_def flags_SWSM_def flags_GCR_def
  flags_RSCCTL_def flags_RDRXCTL_def flags_CTRL_def flags_MSCA_def flags_GPIE_def flags_TFCS_def
  flags_TCPTIMER_def flags_HLREG0_def flags_VMOLR_def flags_RMCS_def flags_EICR_def flags_EICS_def
  flags_EIMS_def flags_EIMC_def flags_IMIREXT_def flags_ETQF_def flags_ETQS_def flags_VLNCTRL_def
  flags_ESDP_def flags_LINKS_def flags_PCS1GLSTA_def flags_PCS1GLCTL_def flags_GSSR_def flags_RFCTL_def
  flags_RXDCTL_def flags_TXDCTL_def flags_TSAUXC_def flags_TSIM_def flags_TSICR_def flags_FCTRL_def
  flags_MFLCN_def flags_TXD_CMD_def flags_RXD_STAT_def flags_RXD_ERR_def flags_PSRTYPE_def
  flags_SRRCTL_def flags_FDIRM_def flags_FDIRCMD_def flags_EITR_def flags_GRC_def flags_MANC_def
  flags_BMCIP_def flags_EEER_def flags_RXCSUM_def flags_FCCFG_def flags_VMVIR_def flags_PCS1GANA_def
  flags_TDWBAL_def flags_RXCTRL_def flags_FWSM_def flags_FACTPS_def

end
