(* ===== verification/Rush_Flags_Correct.thy ===== *)
theory Rush_Flags_Correct
  imports Rush_Flags
begin

unbundle bit_operations_syntax

text \<open>
  Flags of one register are independent: the read, change and write by which the driver sets or clears a
  flag leaves the other flags of the register alone. The interrupt registers agree on the causes.
\<close>

section \<open>Disjoint flags\<close>

text \<open>Every flag has a bit, and none that is in \<open>used\<close> or in another flag.\<close>

fun disjoint_flags :: "u32 \<Rightarrow> u32 list \<Rightarrow> bool" where
  "disjoint_flags used [] = True"
| "disjoint_flags used (f # fs) = (f \<noteq> 0 \<and> f AND used = 0 \<and> disjoint_flags (used OR f) fs)"

lemma disjoint_used:
  assumes "disjoint_flags used fs" "f \<in> set fs"
  shows "f AND used = 0"
  using assms
proof (induction fs arbitrary: used)
  case (Cons g fs)
  show ?case
  proof (cases "f = g")
    case False
    then have "f AND (used OR g) = 0" using Cons by auto
    then show ?thesis by (simp add: bit.conj_disj_distrib or_eq_0_iff)
  qed (use Cons.prems in simp)
qed simp

lemma disjoint_nonzero: "disjoint_flags used fs \<Longrightarrow> f \<in> set fs \<Longrightarrow> f \<noteq> 0"
  by (induction fs arbitrary: used) auto

lemma disjoint_flags_pair:
  assumes "disjoint_flags used fs" "f \<in> set fs" "g \<in> set fs" "f \<noteq> g"
  shows "f AND g = 0"
  using assms
proof (induction fs arbitrary: used)
  case (Cons h fs)
  have rest: "x AND h = 0" if "x \<in> set fs" for x
    using disjoint_used [of "used OR h" fs x] Cons.prems(1) that
    by (simp add: bit.conj_disj_distrib or_eq_0_iff)
  show ?case using Cons rest [of f] rest [of g] by (auto simp: and.commute)
qed simp

lemma register_flags_disjoint: "list_all (disjoint_flags 0) register_flags"
  by code_simp

lemma flag_set_clear:
  assumes "f AND g = (0 :: u32)"
  shows "(r OR f) AND g = r AND g" "(r AND NOT f) AND g = r AND g"
proof -
  have "\<not> (bit f n \<and> bit g n)" for n using assms by (metis bit_0_eq bit_and_iff bot_apply bot_bool_def)
  then show "(r OR f) AND g = r AND g" "(r AND NOT f) AND g = r AND g"
    by (auto intro!: bit_word_eqI simp: bit_simps)
qed



section \<open>Interrupts and ids\<close>

text \<open>A cause has the same bit in the register that reports it and in those that set, enable and disable it.\<close>

lemma interrupt_causes_agree: "list_all (\<lambda>(r, s, m, c). r \<noteq> 0 \<and> s = r \<and> m = r \<and> c = r) interrupt_causes"
  by code_simp

text \<open>No two devices have the same id, and an id has 16 bits.\<close>

lemma device_ids_distinct: "distinct device_ids" "list_all (\<lambda>i. i < 0x10000) device_ids"
  by code_simp+

end
