(* ===== verification/Rush_Ixgbe_Init.thy ===== *)
theory Rush_Ixgbe_Init
  imports Rush_Ixgbe
begin

text \<open>
  The initialisation of the driver: \<open>reset_and_init\<close> and what it calls in
  \<open>src/ixy82599/ixgbe.rs\<close>, and \<open>ixy_init\<close> in \<open>src/ixy82599/mod.rs\<close>. The
  state is the device structure, the device and the packets.
\<close>

section \<open>Statements\<close>

type_synonym 'a driver = "IxgbeDevice \<times> nic \<times> 'a pkt_state_scheme"

text \<open>A statement on registers, which reads nothing of the device structure but its bounds.\<close>

definition regs :: "(IxgbeDevice \<Rightarrow> nic \<Rightarrow> nic res) \<Rightarrow> 'a driver \<Rightarrow> 'a driver res" where
  "regs f = (\<lambda>(dev, ns, s). bind_res (f dev ns) (\<lambda>ns. Inr (dev, ns, s)))"

text \<open>A call with \<open>?\<close> of a function that returns a \<open>Result\<close>.\<close>

definition bind_try :: "'b result res \<Rightarrow> ('b \<Rightarrow> 'c result res) \<Rightarrow> 'c result res" where
  "bind_try m f = bind_res m (\<lambda>r. case r of Ok x \<Rightarrow> f x | Err e \<Rightarrow> Inr (Err e))"

fun fold_try :: "('b \<Rightarrow> 's \<Rightarrow> 's result res) \<Rightarrow> 'b list \<Rightarrow> 's \<Rightarrow> 's result res" where
  "fold_try f [] s = Inr (Ok s)"
| "fold_try f (x # xs) s = bind_try (f x s) (fold_try f xs)"

definition ok_res :: "'b res \<Rightarrow> 'b result res" where
  "ok_res m = bind_res m (\<lambda>x. Inr (Ok x))"

text \<open>\<open>0..n\<close> as \<open>u32\<close> indices.\<close>

definition indices :: "u16 \<Rightarrow> u32 list" where
  "indices n = map of_nat [0..<unat n]"

section \<open>Receive queues\<close>

definition size_of_desc :: usize where
  "size_of_desc = 16"

definition init_rx_queue :: "os \<Rightarrow> hardware \<Rightarrow> u32 \<Rightarrow> 'a driver \<Rightarrow> 'a driver res" where
  "init_rx_queue os H i = (\<lambda>(dev, ns, s).
     bind_res (steps
       [change_reg32 H dev (IXGBE_SRRCTL i) IXGBE_SRRCTL_DESCTYPE_MASK IXGBE_SRRCTL_DESCTYPE_ADV_ONEBUF,
        set_flags32 H dev (IXGBE_SRRCTL i) IXGBE_SRRCTL_DROP_EN] ns) (\<lambda>ns.
     let ring_size_bytes = NUM_RX_QUEUE_ENTRIES * size_of_desc in
     bind_res (dma_alloc os ring_size_bytes 128 s) (\<lambda>(dma_virt, s).
     bind_res (virtual_to_physical dma_virt) (\<lambda>dma_phys.
     let ns = memset_ff dma_virt ring_size_bytes ns in
     bind_res (steps
       [set_reg32 dev (IXGBE_RDBAL i) (ucast (dma_phys AND 0xffffffff)),
        set_reg32 dev (IXGBE_RDBAH i) (ucast (drop_bit 32 dma_phys)),
        set_reg32 dev (IXGBE_RDLEN i) (ucast ring_size_bytes),
        set_reg32 dev (IXGBE_RDH i) 0,
        set_reg32 dev (IXGBE_RDT i) 0] ns) (\<lambda>ns.
     let rx_queue = \<lparr>rx_descriptors = dma_virt, rx_num_descriptors = NUM_RX_QUEUE_ENTRIES,
                     rx_bufs_in_use = [], rx_index = 0\<rparr> in
     Inr (dev\<lparr>rx_queues := rx_queues dev @ [rx_queue]\<rparr>, ns, s))))))"

definition init_rx :: "os \<Rightarrow> hardware \<Rightarrow> 'a driver \<Rightarrow> 'a driver res" where
  "init_rx os H w =
     (let n = num_rx_queues (fst w) in
      steps
        [regs (\<lambda>dev. clear_flags32 H dev IXGBE_RXCTRL IXGBE_RXCTRL_RXEN),
         regs (\<lambda>dev. set_reg32 dev (IXGBE_RXPBSIZE 0) IXGBE_RXPBSIZE_128KB),
         regs (\<lambda>dev. fold_res (\<lambda>i. set_reg32 dev (IXGBE_RXPBSIZE i) 0) [1, 2, 3, 4, 5, 6, 7]),
         regs (\<lambda>dev. set_flags32 H dev IXGBE_HLREG0 IXGBE_HLREG0_RXCRCSTRP),
         regs (\<lambda>dev. set_flags32 H dev IXGBE_RDRXCTL IXGBE_RDRXCTL_CRCSTRIP),
         regs (\<lambda>dev. set_flags32 H dev IXGBE_FCTRL IXGBE_FCTRL_BAM),
         fold_res (init_rx_queue os H) (indices n),
         regs (\<lambda>dev. set_flags32 H dev IXGBE_CTRL_EXT IXGBE_CTRL_EXT_NS_DIS),
         regs (\<lambda>dev. fold_res (\<lambda>i. clear_flags32 H dev (IXGBE_DCA_RXCTRL i) (push_bit 12 1)) (indices n)),
         regs (\<lambda>dev. set_flags32 H dev IXGBE_RXCTRL IXGBE_RXCTRL_RXEN)] w)"

text \<open>One round of the loop of \<open>start_rx_queue\<close>.\<close>

definition fill_rx_desc ::
  "os \<Rightarrow> hardware \<Rightarrow> nat \<Rightarrow> IxgbeRxQueue \<times> nic \<times> 'a pkt_state_scheme \<Rightarrow>
   (IxgbeRxQueue \<times> nic \<times> 'a pkt_state_scheme) res" where
  "fill_rx_desc os H i = (\<lambda>(queue, ns, s).
     bind_res (allocate os s) (\<lambda>(np, s).
     bind_res (virtual_to_physical (data_ptr H np)) (\<lambda>phys.
     let desc = desc_at (rx_descriptors queue) (of_nat i);
         ns = write_desc desc (set_pkt_addr phys) ns;
         ns = write_desc desc (set_hdr_addr 0) ns in
     Inr (queue\<lparr>rx_bufs_in_use := rx_bufs_in_use queue @ [np]\<rparr>, ns, s))))"

definition start_rx_queue :: "nat \<Rightarrow> os \<Rightarrow> hardware \<Rightarrow> u32 \<Rightarrow> 'a driver \<Rightarrow> 'a driver result res" where
  "start_rx_queue fuel os H queue_id = (\<lambda>(dev, ns, s).
     bind_res (vec_get (rx_queues dev) (unat queue_id)) (\<lambda>queue.
     if rx_num_descriptors queue AND (rx_num_descriptors queue - 1) \<noteq> 0 then
       Inr (Err ''number of queue entries must be a power of 2'')
     else
       bind_res (fold_res (fill_rx_desc os H) [0..<unat (rx_num_descriptors queue)] (queue, ns, s))
         (\<lambda>(queue, ns, s).
       let dev = dev\<lparr>rx_queues := (rx_queues dev)[unat queue_id := queue]\<rparr> in
       bind_res (steps
         [set_flags32 H dev (IXGBE_RXDCTL queue_id) IXGBE_RXDCTL_ENABLE,
          wait_set_reg32 fuel H dev (IXGBE_RXDCTL queue_id) IXGBE_RXDCTL_ENABLE,
          set_reg32 dev (IXGBE_RDH queue_id) 0,
          set_reg32 dev (IXGBE_RDT queue_id) (ucast (rx_num_descriptors queue - 1))] ns) (\<lambda>ns.
       Inr (Ok (dev, ns, s))))))"

section \<open>Transmit queues\<close>

definition txdctl_thresholds :: "u32 \<Rightarrow> u32" where
  "txdctl_thresholds v =
     (v AND NOT (0x3F OR push_bit 8 0x3F OR push_bit 16 0x3F)) OR (36 OR push_bit 8 8 OR push_bit 16 4)"

definition init_tx_queue :: "os \<Rightarrow> hardware \<Rightarrow> u32 \<Rightarrow> 'a driver \<Rightarrow> 'a driver res" where
  "init_tx_queue os H i = (\<lambda>(dev, ns, s).
     let ring_size_bytes = NUM_TX_QUEUE_ENTRIES * size_of_desc in
     bind_res (dma_alloc os ring_size_bytes 128 s) (\<lambda>(dma_virt, s).
     bind_res (virtual_to_physical dma_virt) (\<lambda>dma_phys.
     let ns = memset_ff dma_virt ring_size_bytes ns in
     bind_res (steps
       [set_reg32 dev (IXGBE_TDBAL i) (ucast (dma_phys AND 0xffffffff)),
        set_reg32 dev (IXGBE_TDBAH i) (ucast (drop_bit 32 dma_phys)),
        set_reg32 dev (IXGBE_TDLEN i) (ucast ring_size_bytes)] ns) (\<lambda>ns.
     bind_res (get_reg32 H dev (IXGBE_TXDCTL i) ns) (\<lambda>(txdctl, ns).
     bind_res (set_reg32 dev (IXGBE_TXDCTL i) (txdctl_thresholds txdctl) ns) (\<lambda>ns.
     let tx_queue = \<lparr>tx_descriptors = dma_virt, tx_num_descriptors = NUM_TX_QUEUE_ENTRIES,
                     tx_bufs_in_use = [], clean_index = 0, tx_index = 0\<rparr> in
     Inr (dev\<lparr>tx_queues := tx_queues dev @ [tx_queue]\<rparr>, ns, s)))))))"

definition init_tx :: "os \<Rightarrow> hardware \<Rightarrow> 'a driver \<Rightarrow> 'a driver res" where
  "init_tx os H w =
     (let n = num_tx_queues (fst w) in
      steps
        [regs (\<lambda>dev. set_flags32 H dev IXGBE_HLREG0 (IXGBE_HLREG0_TXCRCEN OR IXGBE_HLREG0_TXPADEN)),
         regs (\<lambda>dev. set_reg32 dev (IXGBE_TXPBSIZE 0) IXGBE_TXPBSIZE_40KB),
         regs (\<lambda>dev. fold_res (\<lambda>i. set_reg32 dev (IXGBE_TXPBSIZE i) 0) [1, 2, 3, 4, 5, 6, 7]),
         regs (\<lambda>dev. set_reg32 dev IXGBE_DTXMXSZRQ 0xffff),
         regs (\<lambda>dev. clear_flags32 H dev IXGBE_RTTDCS IXGBE_RTTDCS_ARBDIS),
         fold_res (init_tx_queue os H) (indices n),
         regs (\<lambda>dev. set_reg32 dev IXGBE_DMATXCTL IXGBE_DMATXCTL_TE)] w)"

definition start_tx_queue :: "nat \<Rightarrow> hardware \<Rightarrow> u32 \<Rightarrow> 'a driver \<Rightarrow> 'a driver result res" where
  "start_tx_queue fuel H queue_id = (\<lambda>(dev, ns, s).
     bind_res (vec_get (tx_queues dev) (unat queue_id)) (\<lambda>queue.
     if tx_num_descriptors queue AND (tx_num_descriptors queue - 1) \<noteq> 0 then
       Inr (Err ''number of queue entries must be a power of 2'')
     else
       bind_res (steps
         [set_reg32 dev (IXGBE_TDH queue_id) 0,
          set_reg32 dev (IXGBE_TDT queue_id) 0,
          set_flags32 H dev (IXGBE_TXDCTL queue_id) IXGBE_TXDCTL_ENABLE,
          wait_set_reg32 fuel H dev (IXGBE_TXDCTL queue_id) IXGBE_TXDCTL_ENABLE] ns) (\<lambda>ns.
       Inr (Ok (dev, ns, s)))))"

section \<open>The device\<close>

definition reset_and_init :: "nat \<Rightarrow> os \<Rightarrow> hardware \<Rightarrow> 'a driver \<Rightarrow> 'a driver result res" where
  "reset_and_init fuel os H w =
     bind_try (ok_res (steps
       [regs (disable_interrupts H),
        regs (\<lambda>dev. set_reg32 dev IXGBE_CTRL IXGBE_CTRL_RST_MASK),
        regs (\<lambda>dev. wait_clear_reg32 fuel H dev IXGBE_CTRL IXGBE_CTRL_RST_MASK),
        regs (disable_interrupts H),
        regs (\<lambda>dev ns. bind_res (get_mac_addr H dev ns) (\<lambda>(_, ns). Inr ns)),
        regs (\<lambda>dev. wait_set_reg32 fuel H dev IXGBE_EEC IXGBE_EEC_ARD),
        regs (\<lambda>dev. wait_set_reg32 fuel H dev IXGBE_RDRXCTL IXGBE_RDRXCTL_DMAIDONE),
        regs (init_link H),
        regs (reset_stats H),
        init_rx os H,
        init_tx os H] w)) (\<lambda>w.
     bind_try (fold_try (start_rx_queue fuel os H) (indices (num_rx_queues (fst w))) w) (\<lambda>w.
     bind_try (fold_try (start_tx_queue fuel H) (indices (num_tx_queues (fst w))) w) (\<lambda>w.
     ok_res (steps
       [regs (\<lambda>dev. set_promisc H dev True),
        regs (wait_for_link fuel H)] w))))"

definition init ::
  "nat \<Rightarrow> os \<Rightarrow> hardware \<Rightarrow> sysfs \<Rightarrow> string \<Rightarrow> u16 \<Rightarrow> u16 \<Rightarrow> files \<Rightarrow> nic \<Rightarrow> 'a pkt_state_scheme \<Rightarrow>
   (files \<times> 'a driver) result res" where
  "init fuel os H F addr num_rx num_tx fs ns s =
     bind_res (assert_res (num_rx \<le> MAX_QUEUES) (AssertFailed ''cannot configure rx queues'')) (\<lambda>_.
     bind_res (assert_res (num_tx \<le> MAX_QUEUES) (AssertFailed ''cannot configure tx queues'')) (\<lambda>_.
     bind_try (Inr (pci_map_resource F addr fs)) (\<lambda>(base, len, fs).
     let dev = \<lparr>pci_addr = addr, dev_addr = base, dev_len = len, num_rx_queues = num_rx,
                num_tx_queues = num_tx, rx_queues = [], tx_queues = []\<rparr> in
     bind_try (reset_and_init fuel os H (dev, ns, s)) (\<lambda>w. Inr (Ok (fs, w))))))"

text \<open>\<open>mod.rs\<close>: look at the device's configuration space before driving it.\<close>

definition ixy_init ::
  "nat \<Rightarrow> os \<Rightarrow> hardware \<Rightarrow> sysfs \<Rightarrow> string \<Rightarrow> u16 \<Rightarrow> u16 \<Rightarrow> files \<Rightarrow> nic \<Rightarrow> 'a pkt_state_scheme \<Rightarrow>
   (files \<times> 'a driver) result res" where
  "ixy_init fuel os H F addr num_rx num_tx fs ns s =
     (case pci_open_resource F addr ''config'' of
        Err e \<Rightarrow> Inl (UnwrapErr ''wrong pci address'')
      | Ok file \<Rightarrow>
          bind_try (Inr (read_io16 F fs file 0)) (\<lambda>vendor_id.
          bind_try (Inr (read_io16 F fs file 2)) (\<lambda>device_id.
          bind_try (Inr (read_io32 F fs file 8)) (\<lambda>class_rev.
          let class_id = drop_bit 24 class_rev in
          if class_id \<noteq> 2 then Inr (Err (''device '' @ addr @ '' is not a network card''))
          else if vendor_id = 0x1af4 \<and> device_id = 0x1000 then Inr (Err ''Virtio not supported'')
          else init fuel os H F addr num_rx num_tx fs ns s))))"

end
