(* ===== verification/Rush_Ixy_App.thy ===== *)
theory Rush_Ixy_App
  imports Rush_Ixgbe_Init Rush_Basic_Apps
begin

text \<open>
  \<open>src/ixy82599_app.rs\<close>: the app that drives a network card, and the table of the methods of
  all the apps of the program.

  The environment of the cards holds, per PCI address, the device, what is in its memory when it is
  opened, the files of its configuration space, and the number of rounds after which waiting for a
  device counts as waiting forever.
\<close>

section \<open>Arguments and instances\<close>

record cards =
  card_hw :: "string \<Rightarrow> hardware"
  card_nic :: "string \<Rightarrow> nic"
  card_sysfs :: sysfs
  card_files :: files
  card_rounds :: nat

datatype rush_arg = BasicArg basic_arg | Ixy82599 string

datatype rush_app = BasicApp basic_app | Ixy82599App IxgbeDevice nic DeviceStats

type_synonym rush_eng = "(rush_app, rush_arg) eng"
type_synonym rush_state = "(rush_app, rush_arg) AppState"

definition ixy_new ::
  "env \<Rightarrow> cards \<Rightarrow> string \<Rightarrow> ('app, 'arg) eng \<Rightarrow> (rush_app \<times> ('app, 'arg) eng) res" where
  "ixy_new E C pci s =
     bind_res (assert_res (os_uid (env_os E) = 0) (AssertFailed ''Need to be root to drive PCI devices'')) (\<lambda>_.
     bind_res (ixy_init (card_rounds C) (env_os E) (card_hw C pci) (card_sysfs C) pci 1 1 (card_files C)
                 (card_nic C pci) s) (\<lambda>r.
     case r of
       Ok (fs, dev, ns, s) \<Rightarrow> Inr (Ixy82599App dev ns default_stats, s)
     | Err e \<Rightarrow> Inl (UnwrapErr e)))"

text \<open>\<open>{:?}\<close> of a string.\<close>

definition escape_debug :: "char \<Rightarrow> string" where
  "escape_debug c =
     (if c = CHR 0x22 then [CHR 0x5C, CHR 0x22]
      else if c = CHR 0x5C then [CHR 0x5C, CHR 0x5C]
      else if c = CHR 0x0A then CHR 0x5C # ''n''
      else if c = CHR 0x0D then CHR 0x5C # ''r''
      else if c = CHR 0x09 then CHR 0x5C # ''t''
      else if c = CHR 0x00 then CHR 0x5C # ''0''
      else if of_char c < (32 :: nat) \<or> c = CHR 0x7F then
        CHR 0x5C # ''u{'' @ hex_string (of_char c) @ ''}''
      else [c])"

definition debug_string :: "string \<Rightarrow> string" where
  "debug_string s = [CHR 0x22] @ concat (map escape_debug s) @ [CHR 0x22]"

fun rush_debug :: "rush_arg \<Rightarrow> string" where
  "rush_debug (BasicArg x) = basic_debug x"
| "rush_debug (Ixy82599 pci) = ''Ixy82599 { pci: '' @ debug_string pci @ '' }''"

definition rush_identity :: "rush_arg \<Rightarrow> string" where
  "rush_identity x = ''rush::engine::'' @ rush_debug x"

definition rush_new :: "env \<Rightarrow> cards \<Rightarrow> rush_arg \<Rightarrow> rush_eng \<Rightarrow> (rush_app \<times> rush_eng) res" where
  "rush_new E C x s =
     (case x of
        BasicArg b \<Rightarrow> Inr (BasicApp (basic_new b), s)
      | Ixy82599 pci \<Rightarrow> ixy_new E C pci s)"

section \<open>The callbacks of the card's app\<close>

definition ixy_pull ::
  "env \<Rightarrow> hardware \<Rightarrow> IxgbeDevice \<Rightarrow> nic \<Rightarrow> ('app, 'arg) AppState \<Rightarrow> ('app, 'arg) eng \<Rightarrow>
   (IxgbeDevice \<times> nic \<times> ('app, 'arg) eng) res" where
  "ixy_pull E H dev ns a s =
     (case map_of (app_output a) ''output'' of
        Some i \<Rightarrow>
          bind_res (link_at i s) (\<lambda>r.
          bind_res (rx_batch (env_os E) H 0 PULL_NPACKETS dev r ns s) (\<lambda>(n, dev, r, ns, s).
          Inr (dev, ns, put_link i r s)))
      | None \<Rightarrow> Inr (dev, ns, s))"

definition ixy_push ::
  "hardware \<Rightarrow> IxgbeDevice \<Rightarrow> nic \<Rightarrow> ('app, 'arg) AppState \<Rightarrow> ('app, 'arg) eng \<Rightarrow>
   (IxgbeDevice \<times> nic \<times> ('app, 'arg) eng) res" where
  "ixy_push H dev ns a s =
     (case map_of (app_input a) ''input'' of
        Some i \<Rightarrow>
          bind_res (link_at i s) (\<lambda>r.
          bind_res (tx_batch H 0 dev r ns s) (\<lambda>(n, dev, r, ns, s).
          Inr (dev, ns, put_link i r s)))
      | None \<Rightarrow> Inr (dev, ns, s))"

text \<open>\<open>{:10}\<close> of a string.\<close>

definition pad10 :: "string \<Rightarrow> string" where
  "pad10 s = s @ replicate (10 - length s) CHR '' ''"

definition stats_line :: "string \<Rightarrow> u64 \<Rightarrow> line" where
  "stats_line what n = Line (''     '' @ what @ '':'' @ [CHR 0x09] @ pad10 (comma_value n))"

definition ixy_report ::
  "hardware \<Rightarrow> IxgbeDevice \<Rightarrow> nic \<Rightarrow> DeviceStats \<Rightarrow> ('app, 'arg) eng \<Rightarrow> (nic \<times> DeviceStats \<times> ('app, 'arg) eng) res" where
  "ixy_report H dev ns old s =
     bind_res (read_stats H dev old ns) (\<lambda>(stats, ns).
     let s = println (Line (''  Device stats for '' @ get_pci_addr dev @ '' since last report:'')) s;
         s = println (stats_line ''rxpackets'' (rx_pkts stats - rx_pkts old)) s;
         s = println (stats_line ''rxbytes'' (rx_bytes stats - rx_bytes old)) s;
         s = println (stats_line ''txpackets'' (tx_pkts stats - tx_pkts old)) s;
         s = println (stats_line ''txbytes'' (tx_bytes stats - tx_bytes old)) s in
     Inr (ns, stats, s))"

definition ixy_stop :: "('app, 'arg) eng \<Rightarrow> ('app, 'arg) eng res" where
  "ixy_stop s = Inl (Panic ''NYI'')"

section \<open>The methods\<close>

fun rush_has_pull :: "rush_app \<Rightarrow> bool" where
  "rush_has_pull (BasicApp x) = basic_has_pull x"
| "rush_has_pull (Ixy82599App dev ns stats) = True"

fun rush_has_push :: "rush_app \<Rightarrow> bool" where
  "rush_has_push (BasicApp x) = basic_has_push x"
| "rush_has_push (Ixy82599App dev ns stats) = True"

fun is_card :: "rush_app \<Rightarrow> bool" where
  "is_card (BasicApp x) = False"
| "is_card (Ixy82599App dev ns stats) = True"

definition rush_pull :: "env \<Rightarrow> cards \<Rightarrow> rush_state \<Rightarrow> rush_eng \<Rightarrow> (rush_app \<times> rush_eng) res" where
  "rush_pull E C a s =
     (case app_obj a of
        BasicApp x \<Rightarrow> (case x of SourceApp sz \<Rightarrow> same_app a (source_pull E sz a s) | _ \<Rightarrow> default_pull a s)
      | Ixy82599App dev ns stats \<Rightarrow>
          bind_res (ixy_pull E (card_hw C (pci_addr dev)) dev ns a s) (\<lambda>(dev, ns, s).
          Inr (Ixy82599App dev ns stats, s)))"

definition rush_push :: "env \<Rightarrow> cards \<Rightarrow> rush_state \<Rightarrow> rush_eng \<Rightarrow> (rush_app \<times> rush_eng) res" where
  "rush_push E C a s =
     (case app_obj a of
        BasicApp x \<Rightarrow>
          (case x of
             SinkApp \<Rightarrow> same_app a (sink_push E a s)
           | TeeApp \<Rightarrow> same_app a (tee_push E a s)
           | _ \<Rightarrow> default_push a s)
      | Ixy82599App dev ns stats \<Rightarrow>
          bind_res (ixy_push (card_hw C (pci_addr dev)) dev ns a s) (\<lambda>(dev, ns, s).
          Inr (Ixy82599App dev ns stats, s)))"

definition rush_report :: "cards \<Rightarrow> rush_app \<Rightarrow> rush_eng \<Rightarrow> (rush_app \<times> rush_eng) res" where
  "rush_report C x s =
     (case x of
        BasicApp b \<Rightarrow> default_report x s
      | Ixy82599App dev ns stats \<Rightarrow>
          bind_res (ixy_report (card_hw C (pci_addr dev)) dev ns stats s) (\<lambda>(ns, stats, s).
          Inr (Ixy82599App dev ns stats, s)))"

definition rush_stop :: "rush_app \<Rightarrow> rush_eng \<Rightarrow> rush_eng res" where
  "rush_stop x s = (case x of BasicApp b \<Rightarrow> default_stop x s | Ixy82599App dev ns stats \<Rightarrow> ixy_stop s)"

definition rush_ops :: "env \<Rightarrow> cards \<Rightarrow> (rush_app, rush_arg) app_ops" where
  "rush_ops E C =
     \<lparr>op_new = rush_new E C,
      op_identity = rush_identity,
      op_has_pull = rush_has_pull,
      op_pull = rush_pull E C,
      op_has_push = rush_has_push,
      op_push = rush_push E C,
      op_has_report = is_card,
      op_report = rush_report C,
      op_has_stop = is_card,
      op_stop = rush_stop\<rparr>"

end
