(* ===== verification/Rush_Registers_Correct.thy ===== *)
theory Rush_Registers_Correct
  imports Rush_Registers
begin

text \<open>
  Properties of the register map: every register is a 32-bit word of the 128 KiB resource the device
  exposes, and the registers of different queues, and different registers of one queue, do not overlap.
\<close>

definition register_offsets :: "u32 list" where
  "register_offsets =
     [IXGBE_CTRL, IXGBE_STATUS, IXGBE_CTRL_EXT, IXGBE_ESDP, IXGBE_EODSDP, IXGBE_I2CCTL_82599,
      IXGBE_I2CCTL_X550, IXGBE_PHY_GPIO, IXGBE_MAC_GPIO, IXGBE_PHYINT_STATUS0,
      IXGBE_PHYINT_STATUS1, IXGBE_PHYINT_STATUS2, IXGBE_LEDCTL, IXGBE_FRTIMER, IXGBE_TCPTIMER,
      IXGBE_CORESPARE, IXGBE_EXVET, IXGBE_EEC, IXGBE_EEC_X550EM_a, IXGBE_EERD, IXGBE_EEWR,
      IXGBE_FLA, IXGBE_FLA_X550EM_a, IXGBE_EEMNGCTL, IXGBE_EEMNGDATA, IXGBE_FLMNGCTL,
      IXGBE_FLMNGDATA, IXGBE_FLMNGCNT, IXGBE_FLOP, IXGBE_GRC, IXGBE_GRC_X550EM_a, IXGBE_SRAMREL,
      IXGBE_SRAMREL_X550EM_a, IXGBE_PHYDBG, IXGBE_VPDDIAG0, IXGBE_VPDDIAG1, IXGBE_EICR,
      IXGBE_EICS, IXGBE_EIMS, IXGBE_EIMC, IXGBE_EIAC, IXGBE_EIAM, IXGBE_IVAR_MISC,
      IXGBE_EITRSEL, IXGBE_MSIXT, IXGBE_MSIXPBA, IXGBE_GPIE, IXGBE_FCADBUL, IXGBE_FCADBUH,
      IXGBE_FCAMACL, IXGBE_FCAMACH, IXGBE_PFCTOP, IXGBE_FCRTV, IXGBE_FCCFG, IXGBE_TFCS,
      IXGBE_RSCDBU, IXGBE_RDDCC, IXGBE_RXMEMWRAP, IXGBE_STARCTRL, IXGBE_RDRXCTL, IXGBE_RXCTRL,
      IXGBE_DROPEN, IXGBE_RXCSUM, IXGBE_RFCTL, IXGBE_DRECCCTL, IXGBE_DRECCCTL2, IXGBE_FCTRL,
      IXGBE_VLNCTRL, IXGBE_MCSTCTRL, IXGBE_MRQC, IXGBE_SYNQF, IXGBE_RQTC, IXGBE_MTQC,
      IXGBE_PFFLPL, IXGBE_PFFLPH, IXGBE_VT_CTL, IXGBE_RXFECCERR0, IXGBE_LLITHRESH, IXGBE_IMIRVP,
      IXGBE_VMD_CTL, IXGBE_FDIRCTRL, IXGBE_FDIRHKEY, IXGBE_FDIRSKEY, IXGBE_FDIRDIP4M,
      IXGBE_FDIRSIP4M, IXGBE_FDIRTCPM, IXGBE_FDIRUDPM, IXGBE_FDIRSCTPM, IXGBE_FDIRIP6M,
      IXGBE_FDIRM, IXGBE_FDIRFREE, IXGBE_FDIRLEN, IXGBE_FDIRUSTAT, IXGBE_FDIRFSTAT,
      IXGBE_FDIRMATCH, IXGBE_FDIRMISS, IXGBE_FDIRIPSA, IXGBE_FDIRIPDA, IXGBE_FDIRPORT,
      IXGBE_FDIRVLAN, IXGBE_FDIRHASH, IXGBE_FDIRCMD, IXGBE_DTXCTL, IXGBE_DMATXCTL,
      IXGBE_PFDTXGSWC, IXGBE_DTXMXSZRQ, IXGBE_DTXTCPFLGL, IXGBE_DTXTCPFLGH, IXGBE_LBDRPEN,
      IXGBE_TIPG, IXGBE_MNGTXMAP, IXGBE_WUC, IXGBE_WUFC, IXGBE_WUS, IXGBE_IPAV, IXGBE_IP4AT,
      IXGBE_IP6AT, IXGBE_WUPL, IXGBE_WUPM, IXGBE_PROXYS, IXGBE_PROXYFC, IXGBE_RMCS, IXGBE_DPMCS,
      IXGBE_PDPMCS, IXGBE_RUPPBMR, IXGBE_DMCMNGTH, IXGBE_DMACR, IXGBE_DMCTLX, IXGBE_EEER,
      IXGBE_EEE_STAT, IXGBE_EEE_SU, IXGBE_TLPIC, IXGBE_RLPIC, IXGBE_SECTXCTRL, IXGBE_SECTXSTAT,
      IXGBE_SECTXBUFFAF, IXGBE_SECTXMINIFG, IXGBE_SECRXCTRL, IXGBE_SECRXSTAT, IXGBE_LSECTXCAP,
      IXGBE_LSECRXCAP, IXGBE_LSECTXCTRL, IXGBE_LSECTXSCL, IXGBE_LSECTXSCH, IXGBE_LSECTXSA,
      IXGBE_LSECTXPN0, IXGBE_LSECTXPN1, IXGBE_LSECRXCTRL, IXGBE_LSECRXSCL, IXGBE_LSECRXSCH,
      IXGBE_LSECTXUT, IXGBE_LSECTXPKTE, IXGBE_LSECTXPKTP, IXGBE_LSECTXOCTE, IXGBE_LSECTXOCTP,
      IXGBE_LSECRXUT, IXGBE_LSECRXOCTD, IXGBE_LSECRXOCTV, IXGBE_LSECRXBAD, IXGBE_LSECRXNOSCI,
      IXGBE_LSECRXUNSCI, IXGBE_LSECRXUNCH, IXGBE_LSECRXDELAY, IXGBE_LSECRXLATE,
      IXGBE_LSECRXUNSA, IXGBE_LSECRXNUSA, IXGBE_IPSTXIDX, IXGBE_IPSTXSALT, IXGBE_IPSRXIDX,
      IXGBE_IPSRXSPI, IXGBE_IPSRXIPIDX, IXGBE_IPSRXSALT, IXGBE_IPSRXMOD, IXGBE_RTRPCS,
      IXGBE_RTTDCS, IXGBE_RTTPCS, IXGBE_RTRUP2TC, IXGBE_RTTUP2TC, IXGBE_RTTDQSEL, IXGBE_RTTDT1C,
      IXGBE_RTTDT1S, IXGBE_RTTDTECC, IXGBE_RTTBCNRC, IXGBE_RTTBCNRM, IXGBE_RTTBCNRS,
      IXGBE_RTTBCNCR, IXGBE_RTTBCNACH, IXGBE_RTTBCNACL, IXGBE_RTTBCNTG, IXGBE_RTTBCNIDX,
      IXGBE_RTTBCNCP, IXGBE_RTFRTIMER, IXGBE_RTTBCNRTT, IXGBE_RTTBCNRD, IXGBE_FCPTRL,
      IXGBE_FCPTRH, IXGBE_FCBUFF, IXGBE_FCDMARW, IXGBE_TEOFF, IXGBE_TSOFF, IXGBE_REOFF,
      IXGBE_RSOFF, IXGBE_FCD_ID, IXGBE_FCSMAC, IXGBE_FCFLT, IXGBE_FCFLTRW, IXGBE_FCPARAM,
      IXGBE_FCRXCTRL, IXGBE_FCRECTL, IXGBE_FCRETA0, IXGBE_CRCERRS, IXGBE_ILLERRC, IXGBE_ERRBC,
      IXGBE_MSPDC, IXGBE_MLFC, IXGBE_MRFC, IXGBE_RLEC, IXGBE_LXONTXC, IXGBE_LXONRXC,
      IXGBE_LXOFFTXC, IXGBE_LXOFFRXC, IXGBE_LXONRXCNT, IXGBE_LXOFFRXCNT, IXGBE_PRC64,
      IXGBE_PRC127, IXGBE_PRC255, IXGBE_PRC511, IXGBE_PRC1023, IXGBE_PRC1522, IXGBE_GPRC,
      IXGBE_BPRC, IXGBE_MPRC, IXGBE_GPTC, IXGBE_GORCL, IXGBE_GORCH, IXGBE_GOTCL, IXGBE_GOTCH,
      IXGBE_RUC, IXGBE_RFC, IXGBE_ROC, IXGBE_RJC, IXGBE_MNGPRC, IXGBE_MNGPDC, IXGBE_MNGPTC,
      IXGBE_TORL, IXGBE_TORH, IXGBE_TPR, IXGBE_TPT, IXGBE_PTC64, IXGBE_PTC127, IXGBE_PTC255,
      IXGBE_PTC511, IXGBE_PTC1023, IXGBE_PTC1522, IXGBE_MPTC, IXGBE_BPTC, IXGBE_XEC,
      IXGBE_SSVPC, IXGBE_FCCRC, IXGBE_FCOERPDC, IXGBE_FCLAST, IXGBE_FCOEPRC, IXGBE_FCOEDWRC,
      IXGBE_FCOEPTC, IXGBE_FCOEDWTC, IXGBE_O2BGPTC, IXGBE_O2BSPC, IXGBE_B2OSPC, IXGBE_B2OGPRC,
      IXGBE_BUPRC, IXGBE_BMPRC, IXGBE_BBPRC, IXGBE_BUPTC, IXGBE_BMPTC, IXGBE_BBPTC,
      IXGBE_BCRCERRS, IXGBE_BXONRXC, IXGBE_BXOFFRXC, IXGBE_BXONTXC, IXGBE_BXOFFTXC, IXGBE_MANC,
      IXGBE_MFVAL, IXGBE_MANC2H, IXGBE_MIPAF, IXGBE_FTFT, IXGBE_LSWFW, IXGBE_BMCIPVAL,
      IXGBE_HICR, IXGBE_FWSTS, IXGBE_HSMC0R, IXGBE_HSMC1R, IXGBE_SWSR, IXGBE_HFDR,
      IXGBE_FLEX_MNG, IXGBE_GCR, IXGBE_GTV, IXGBE_FUNCTAG, IXGBE_GLT, IXGBE_PCIEPIPEADR,
      IXGBE_PCIEPIPEDAT, IXGBE_GSCL_1, IXGBE_GSCL_2, IXGBE_GSCL_3, IXGBE_GSCL_4, IXGBE_GSCN_0,
      IXGBE_GSCN_1, IXGBE_GSCN_2, IXGBE_GSCN_3, IXGBE_FACTPS, IXGBE_GSCL_1_X550,
      IXGBE_GSCL_2_X550, IXGBE_GSCN_0_X550, IXGBE_GSCN_1_X550, IXGBE_GSCN_2_X550,
      IXGBE_GSCN_3_X550, IXGBE_FACTPS_X550EM_a, IXGBE_PCIEANACTL, IXGBE_SWSM,
      IXGBE_SWSM_X550EM_a, IXGBE_FWSM, IXGBE_FWSM_X550EM_a, IXGBE_SWFW_SYNC_X550EM_a,
      IXGBE_GSSR, IXGBE_MREVID, IXGBE_DCA_ID, IXGBE_DCA_CTRL, IXGBE_GCR_EXT, IXGBE_GSCL_5_82599,
      IXGBE_GSCL_6_82599, IXGBE_GSCL_7_82599, IXGBE_GSCL_8_82599, IXGBE_PHYADR_82599,
      IXGBE_PHYDAT_82599, IXGBE_PHYCTL_82599, IXGBE_PBACLR_82599, IXGBE_CIAA, IXGBE_CIAD,
      IXGBE_GSCL_5_X550, IXGBE_GSCL_6_X550, IXGBE_GSCL_7_X550, IXGBE_GSCL_8_X550,
      IXGBE_CIAA_X550, IXGBE_CIAD_X550, IXGBE_PICAUSE, IXGBE_PIENA, IXGBE_CDQ_MBR_82599,
      IXGBE_PCIESPARE, IXGBE_MISC_REG_82599, IXGBE_ECC_CTRL_0_82599, IXGBE_ECC_CTRL_1_82599,
      IXGBE_ECC_STATUS_82599, IXGBE_BAR_CTRL_82599, IXGBE_TSYNCRXCTL, IXGBE_TSYNCTXCTL,
      IXGBE_RXSTMPL, IXGBE_RXSTMPH, IXGBE_RXSATRL, IXGBE_RXSATRH, IXGBE_RXMTRL, IXGBE_TXSTMPL,
      IXGBE_TXSTMPH, IXGBE_SYSTIML, IXGBE_SYSTIMH, IXGBE_SYSTIMR, IXGBE_TIMINCA, IXGBE_TIMADJL,
      IXGBE_TIMADJH, IXGBE_TSAUXC, IXGBE_TRGTTIML0, IXGBE_TRGTTIMH0, IXGBE_TRGTTIML1,
      IXGBE_TRGTTIMH1, IXGBE_CLKTIML, IXGBE_CLKTIMH, IXGBE_FREQOUT0, IXGBE_FREQOUT1,
      IXGBE_AUXSTMPL0, IXGBE_AUXSTMPH0, IXGBE_AUXSTMPL1, IXGBE_AUXSTMPH1, IXGBE_TSIM,
      IXGBE_TSICR, IXGBE_TSSDP, IXGBE_RDSTATCTL, IXGBE_RDHMPN, IXGBE_RDPROBE, IXGBE_RDMAM,
      IXGBE_RDMAD, IXGBE_TDHMPN, IXGBE_TDHMPN2, IXGBE_TXDESCIC, IXGBE_TDPROBE, IXGBE_TXBUFCTRL,
      IXGBE_TXBUFDATA0, IXGBE_TXBUFDATA1, IXGBE_TXBUFDATA2, IXGBE_TXBUFDATA3, IXGBE_RXBUFCTRL,
      IXGBE_RXBUFDATA0, IXGBE_RXBUFDATA1, IXGBE_RXBUFDATA2, IXGBE_RXBUFDATA3, IXGBE_RFVAL,
      IXGBE_MDFTC1, IXGBE_MDFTC2, IXGBE_MDFTFIFO1, IXGBE_MDFTFIFO2, IXGBE_MDFTS,
      IXGBE_PCIEECCCTL, IXGBE_PCIEECCCTL0, IXGBE_PCIEECCCTL1, IXGBE_RXDBUECC, IXGBE_TXDBUECC,
      IXGBE_RXDBUEST, IXGBE_TXDBUEST, IXGBE_PBTXECC, IXGBE_PBRXECC, IXGBE_GHECCR,
      IXGBE_PCS1GCFIG, IXGBE_PCS1GLCTL, IXGBE_PCS1GLSTA, IXGBE_PCS1GDBG0, IXGBE_PCS1GDBG1,
      IXGBE_PCS1GANA, IXGBE_PCS1GANLP, IXGBE_PCS1GANNP, IXGBE_PCS1GANLPNP, IXGBE_HLREG0,
      IXGBE_HLREG1, IXGBE_PAP, IXGBE_MACA, IXGBE_APAE, IXGBE_ARD, IXGBE_AIS, IXGBE_MSCA,
      IXGBE_MSRWD, IXGBE_MLADD, IXGBE_MHADD, IXGBE_MAXFRS, IXGBE_TREG, IXGBE_PCSS1, IXGBE_PCSS2,
      IXGBE_XPCSS, IXGBE_MFLCN, IXGBE_SERDESC, IXGBE_MAC_SGMII_BUSY, IXGBE_MACS, IXGBE_AUTOC,
      IXGBE_LINKS, IXGBE_LINKS2, IXGBE_AUTOC2, IXGBE_AUTOC3, IXGBE_ANLP1, IXGBE_ANLP2,
      IXGBE_MACC, IXGBE_ATLASCTL, IXGBE_MMNGC, IXGBE_ANLPNP1, IXGBE_ANLPNP2, IXGBE_KRPCSFC,
      IXGBE_KRPCSS, IXGBE_FECS1, IXGBE_FECS2, IXGBE_SMADARCTL, IXGBE_MPVC, IXGBE_SGMIIC,
      IXGBE_RXNFGPC, IXGBE_RXNFGBCL, IXGBE_RXNFGBCH, IXGBE_RXDGPC, IXGBE_RXDGBCL, IXGBE_RXDGBCH,
      IXGBE_RXDDGPC, IXGBE_RXDDGBCL, IXGBE_RXDDGBCH, IXGBE_RXLPBKGPC, IXGBE_RXLPBKGBCL,
      IXGBE_RXLPBKGBCH, IXGBE_RXDLPBKGPC, IXGBE_RXDLPBKGBCL, IXGBE_RXDLPBKGBCH, IXGBE_TXDGPC,
      IXGBE_TXDGBCL, IXGBE_TXDGBCH, IXGBE_RXDSTATCTRL]"

text \<open>
  Every register of the map is a word of its own: its offset is a multiple of four and lies in the
  128 KiB of the device's resource, so the bounds check of \<open>get_reg32\<close> and
  \<open>set_reg32\<close> accepts it.
\<close>

theorem register_map_in_resource: "list_all (\<lambda>r. r AND 3 = 0 \<and> r \<le> 0x20000 - 4) register_offsets"
  by code_simp

section \<open>The registers of a queue\<close>

definition rx_queue_registers :: "u32 \<Rightarrow> u32 list" where
  "rx_queue_registers i =
     [IXGBE_RDBAL i, IXGBE_RDBAH i, IXGBE_RDLEN i, IXGBE_RDH i, IXGBE_RDT i, IXGBE_RXDCTL i,
      IXGBE_SRRCTL i, IXGBE_DCA_RXCTRL i]"

definition tx_queue_registers :: "u32 \<Rightarrow> u32 list" where
  "tx_queue_registers i =
     [IXGBE_TDBAL i, IXGBE_TDBAH i, IXGBE_TDLEN i, IXGBE_TDH i, IXGBE_TDT i, IXGBE_TXDCTL i]"

lemma unat_offset_nat:
  assumes "a < 65536" and "c \<le> 64" and "i < (64 :: u32)"
  shows "unat (word_of_nat a + i * word_of_nat c) = a + unat i * c"
proof -
  have i: "unat i < 64" using assms(3) by (simp add: word_less_nat_alt)
  have "unat i * c < 64 * 65" using i assms(2) by (intro mult_strict_mono) auto
  then have m: "unat (i * word_of_nat c) = unat i * c"
    using assms(2) by (subst unat_word_ariths) (simp add: unat_of_nat)
  have a: "unat (word_of_nat a :: u32) = a" using assms(1) by (simp add: unat_of_nat)
  have lt: "a + unat i * c < 2 ^ 32" using assms(1) \<open>unat i * c < 64 * 65\<close> by simp
  show ?thesis
    by (subst unat_add_no_wrap) (use a m lt in simp_all)
qed

lemma unat_offset:
  assumes "numeral a < (65536 :: nat)" and "numeral c \<le> (64 :: nat)" and "i < (64 :: u32)"
  shows "unat (numeral a + i * numeral c) = numeral a + unat i * numeral c"
  using unat_offset_nat [OF assms] by simp

lemma queue_offsets:
  assumes "i < (64 :: u32)"
  shows "unat (IXGBE_RDBAL i) = 0x1000 + unat i * 64" "unat (IXGBE_RDBAH i) = 0x1004 + unat i * 64"
    "unat (IXGBE_RDLEN i) = 0x1008 + unat i * 64" "unat (IXGBE_RDH i) = 0x1010 + unat i * 64"
    "unat (IXGBE_RDT i) = 0x1018 + unat i * 64" "unat (IXGBE_RXDCTL i) = 0x1028 + unat i * 64"
    "unat (IXGBE_SRRCTL i) = (if unat i \<le> 15 then 0x2100 + unat i * 4 else 0x1014 + unat i * 64)"
    "unat (IXGBE_DCA_RXCTRL i) = (if unat i \<le> 15 then 0x2200 + unat i * 4 else 0x100C + unat i * 64)"
    "unat (IXGBE_TDBAL i) = 0x6000 + unat i * 64" "unat (IXGBE_TDBAH i) = 0x6004 + unat i * 64"
    "unat (IXGBE_TDLEN i) = 0x6008 + unat i * 64" "unat (IXGBE_TDH i) = 0x6010 + unat i * 64"
    "unat (IXGBE_TDT i) = 0x6018 + unat i * 64" "unat (IXGBE_TXDCTL i) = 0x6028 + unat i * 64"
  using assms
  by (simp_all add: unat_offset IXGBE_RDBAL_def IXGBE_RDBAH_def IXGBE_RDLEN_def IXGBE_RDH_def IXGBE_RDT_def
      IXGBE_RXDCTL_def IXGBE_SRRCTL_def IXGBE_DCA_RXCTRL_def IXGBE_TDBAL_def IXGBE_TDBAH_def
      IXGBE_TDLEN_def IXGBE_TDH_def IXGBE_TDT_def IXGBE_TXDCTL_def word_le_nat_alt)

text \<open>
  C33: the driver's registers of different queues do not overlap, nor do the registers of one queue,
  and all of them lie in the device's resource, for every queue the driver can configure. What the
  driver writes to one queue's registers cannot reconfigure another queue.
\<close>

theorem queue_registers_disjoint:
  assumes "i < 64" and "j < 64"
  shows "distinct (rx_queue_registers i @ tx_queue_registers i) \<and>
    (\<forall>r \<in> set (rx_queue_registers i @ tx_queue_registers i). unat r mod 4 = 0 \<and> unat r + 4 \<le> 0x20000) \<and>
    (i \<noteq> j \<longrightarrow> set (rx_queue_registers i @ tx_queue_registers i) \<inter>
       set (rx_queue_registers j @ tx_queue_registers j) = {})"
proof -
  have b: "unat i < 64" "unat j < 64" using assms by (simp_all add: word_less_nat_alt)
  note off = queue_offsets [OF assms(1)] queue_offsets [OF assms(2)]
  have "distinct (rx_queue_registers i @ tx_queue_registers i)"
    using b by (simp add: rx_queue_registers_def tx_queue_registers_def word_eq_unat_iff off)
  moreover have "\<forall>r \<in> set (rx_queue_registers i @ tx_queue_registers i).
      unat r mod 4 = 0 \<and> unat r + 4 \<le> 0x20000"
    using b by (simp add: rx_queue_registers_def tx_queue_registers_def off)
  moreover have "set (rx_queue_registers i @ tx_queue_registers i) \<inter>
      set (rx_queue_registers j @ tx_queue_registers j) = {}" if "i \<noteq> j"
    using b that
    by (simp add: rx_queue_registers_def tx_queue_registers_def word_eq_unat_iff off)
  ultimately show ?thesis by blast
qed

theorem queue_registers_disjoint_witness:
  "distinct (rx_queue_registers 3 @ tx_queue_registers 3) \<and>
   set (rx_queue_registers 3 @ tx_queue_registers 3) \<inter> set (rx_queue_registers 20 @ tx_queue_registers 20) = {}"
  using queue_registers_disjoint [of 3 20] by simp

end
