(* ===== verification/Rush_Ixgbe_Correct.thy ===== *)
theory Rush_Ixgbe_Correct
  imports Rush_Ixgbe Rush_Link_Correct Rush_Registers_Correct
begin

text \<open>
  The receive and transmit paths of the driver. The queues are rings of 512 descriptors; the driver
  holds a packet for every receive descriptor and for every transmit descriptor that the device may
  still be reading. Receiving swaps the packets the device filled for fresh ones, transmitting hands
  packets to the device in order, and cleaning frees them, oldest first, only after the device reported
  the batch they are in as done.
\<close>

section \<open>The hardware\<close>

lemma length_dma_write [simp]: "length (dma_write new buf) = length buf"
  by (simp add: dma_write_def)

definition nic_turn :: "hardware \<Rightarrow> nic \<Rightarrow> nic" where
  "nic_turn H ns = ns\<lparr>desc_mem := hw_desc H (accesses ns) (desc_mem ns), accesses := Suc (accesses ns)\<rparr>"

lemma desc_both [simp]: "(d :: desc)\<lparr>qw0 := a, qw1 := b\<rparr> = \<lparr>qw0 = a, qw1 = b\<rparr>"
  by (cases d) simp

section \<open>Ring indices\<close>

lemma ucast_of_unat: "(ucast (w :: usize) :: u32) = of_nat (unat w)"
  by (simp add: word_eq_unat_iff unsigned_ucast_eq unat_of_nat take_bit_nat_def)

lemma wrap_ring_512:
  assumes "unat i < 512"
  shows "unat (wrap_ring i 512) = (unat i + 1) mod 512"
proof -
  have "(511 :: usize) = mask 9" by (simp add: mask_numeral)
  then have "(i + 1) AND (512 - 1) = take_bit 9 (i + 1)" by (simp add: take_bit_eq_mask)
  moreover have "unat (i + 1) = unat i + 1"
    using assms by (subst unat_add_no_wrap) auto
  ultimately show ?thesis by (simp add: wrap_ring_def unsigned_take_bit_eq take_bit_nat_def)
qed

lemma wrap_ring_lt: "unat i < 512 \<Longrightarrow> unat (wrap_ring i 512) < 512"
  by (simp add: wrap_ring_512)

section \<open>Packets the driver and a link hold\<close>

text \<open>
  \<open>held os qs ps Z s\<close>: the packets in use are those of \<open>qs\<close>, those of \<open>ps\<close>
  and \<open>Z\<close>, all different.
\<close>

definition held :: "os \<Rightarrow> ptr list \<Rightarrow> ptr list \<Rightarrow> ptr set \<Rightarrow> 'a pkt_state_scheme \<Rightarrow> bool" where
  "held os qs ps Z s \<longleftrightarrow>
     distinct (qs @ ps) \<and> set (qs @ ps) \<inter> Z = {} \<and> pkt_inv os (set (qs @ ps) \<union> Z) s"

lemma pkt_inv_contents:
  assumes "pkt_inv os U s" and "\<And>p. length (pdata (h p)) = PAYLOAD_SIZE"
    and "\<And>p. p \<in> FL_set s \<Longrightarrow> plen (h p) = plen (heap s p)"
  shows "pkt_inv os U (s\<lparr>heap := h\<rparr>)"
proof -
  let ?t = "s\<lparr>heap := h\<rparr>"
  have src: "source_part ?t = source_part s" by (simp add: source_part_def)
  have "FL_set ?t = FL_set s" by (simp add: FL_set_def)
  then show ?thesis
    using assms ctor.source_only [OF src, of os] by (simp add: pkt_inv_def pool_def heap_wf_def steps_ok_def)
qed

lemma turn_ok:
  assumes "pkt_inv os U s" and "device_turn H (ns, s) = (ns', s')"
  shows "pkt_inv os U s' \<and> ns' = nic_turn H ns \<and> pkt_state.more s' = pkt_state.more s \<and> STATS s' = STATS s \<and>
    (\<forall>p. plen (heap s' p) = plen (heap s p))"
proof -
  have s': "s' = s\<lparr>heap := \<lambda>p. (heap s p)\<lparr>pdata := dma_write (hw_data H (accesses ns) (desc_mem ns) p) (pdata (heap s p))\<rparr>\<rparr>"
    and ns': "ns' = nic_turn H ns"
    using assms(2) by (auto simp: device_turn_def nic_turn_def)
  have "pkt_inv os U s'"
    unfolding s' by (rule pkt_inv_contents [OF assms(1)])
      (use assms(1) in \<open>auto simp: pkt_inv_def pool_def heap_wf_def\<close>)
  then show ?thesis by (simp add: s' ns')
qed

section \<open>Receiving\<close>

lemma vec_get_ok: "vec_get xs i = Inr x \<longleftrightarrow> i < length xs \<and> x = xs ! i"
  by (auto simp: vec_get_def res_simps)

lemma transmit_held:
  assumes "link_wf r" and "held os qs (link_fifo r) (insert p Z) s" and "p \<notin> Z"
  shows "\<exists>r' s'. transmit r p s = Inr (r', s') \<and> link_wf r' \<and> held os qs (link_fifo r') Z s' \<and>
    link_fifo r' = (if link_count r < LINK_MAX_PACKETS then link_fifo r @ [p] else link_fifo r) \<and>
    pkt_state.more s' = pkt_state.more s"
proof (cases "link_count r < LINK_MAX_PACKETS")
  case True
  then show ?thesis
    using transmit_room [OF assms(1) True, of p s] push_back_ok [OF assms(1) True, of p] assms(2,3)
    by (auto simp: held_def)
next
  case False
  then have full: "link_count r = LINK_MAX_PACKETS" using link_count_bound [of r] by simp
  let ?U = "set (qs @ link_fifo r) \<union> insert p Z"
  have inv: "pkt_inv os ?U s" and pn: "p \<notin> set (qs @ link_fifo r)" using assms(2) by (auto simp: held_def)
  obtain s' where s': "free p s = Inr s'" "pkt_inv os (?U - {p}) s'" "pkt_state.more s' = pkt_state.more s"
    using free_ok [OF inv, of p] by auto
  have "?U - {p} = set (qs @ link_fifo r) \<union> Z" using pn assms(3) by auto
  then have "held os qs (link_fifo r) Z s'" using s'(2) assms(2) by (auto simp: held_def)
  then show ?thesis
    using transmit_full [OF assms(1) full, of p s] s' assms(1) False by auto
qed

text \<open>The swap of one buffer for a fresh one.\<close>

lemma held_swap:
  assumes "held os qs ps Z s" and "i < length qs" and "pkt_inv os (insert np (set (qs @ ps) \<union> Z)) s'"
    and "np \<notin> set (qs @ ps) \<union> Z"
  shows "held os (qs[i := np]) ps (insert (qs ! i) Z) s' \<and> qs ! i \<notin> Z"
proof -
  have d: "distinct qs" "set qs \<inter> set ps = {}" using assms(1) by (auto simp: held_def)
  have set_upd: "set (qs[i := np]) = insert np (set qs - {qs ! i})"
    using d(1) assms(2) by (rule set_update_distinct)
  have "distinct (qs[i := np])" using d(1) assms(2,4) by (auto intro: distinct_list_update)
  moreover have mem: "qs ! i \<in> set qs" using assms(2) by simp
  moreover have "insert np (set (qs @ ps) \<union> Z) = set (qs[i := np] @ ps) \<union> insert (qs ! i) Z"
    using mem by (auto simp: set_upd)
  ultimately show ?thesis
    using assms(1,3,4) d(2) by (auto simp: held_def set_upd)
qed

definition rxq_ok :: "IxgbeRxQueue \<Rightarrow> usize \<Rightarrow> bool" where
  "rxq_ok q rx \<longleftrightarrow> rx_num_descriptors q = 512 \<and> length (rx_bufs_in_use q) = 512 \<and> unat rx < 512"

definition rx_done :: "nic \<Rightarrow> ptr \<Rightarrow> bool" where
  "rx_done ns a \<longleftrightarrow> rx_status_error (desc_mem ns a) AND IXGBE_RXDADV_STAT_DD \<noteq> 0"

lemma rx_round:
  assumes q: "rxq_ok q rx" and wf: "link_wf r"
    and inv: "held os (rx_bufs_in_use q) (link_fifo r) Z s"
    and run: "rx_loop (Suc k) os H (q, rx, last_rx, n, r, ns, s) = Inr w"
  shows "(\<not> rx_done (nic_turn H ns) (desc_at (rx_descriptors q) rx) \<and>
      (\<exists>s'. w = (q, rx, last_rx, n, r, nic_turn H ns, s') \<and>
        held os (rx_bufs_in_use q) (link_fifo r) Z s' \<and> pkt_state.more s' = pkt_state.more s)) \<or>
    (rx_done (nic_turn H ns) (desc_at (rx_descriptors q) rx) \<and>
      (\<exists>np phys r' s'. let q' = q\<lparr>rx_bufs_in_use := (rx_bufs_in_use q)[unat rx := np]\<rparr>;
          ns' = (nic_turn H (nic_turn H ns))\<lparr>desc_mem := (desc_mem (nic_turn H (nic_turn H ns)))
            (desc_at (rx_descriptors q) rx := \<lparr>qw0 = phys, qw1 = 0\<rparr>)\<rparr> in
        rx_loop k os H (q', wrap_ring rx 512, rx, Suc n, r', ns', s') = Inr w \<and>
        rxq_ok q' (wrap_ring rx 512) \<and> link_wf r' \<and> held os (rx_bufs_in_use q') (link_fifo r') Z s' \<and>
        virtual_to_physical (data_ptr H np) = Inr phys \<and>
        link_fifo r' = (if link_count r < LINK_MAX_PACKETS then link_fifo r @ [rx_bufs_in_use q ! unat rx]
          else link_fifo r) \<and>
        pkt_state.more s' = pkt_state.more s))"
proof -
  let ?a = "desc_at (rx_descriptors q) rx" and ?bufs = "rx_bufs_in_use q"
  let ?U = "set (?bufs @ link_fifo r) \<union> Z"
  have inv0: "pkt_inv os ?U s" using inv by (simp add: held_def)
  obtain ns1 s1 where t1: "device_turn H (ns, s) = (ns1, s1)" by fastforce
  note o1 = turn_ok [OF inv0 t1]
  have inv1: "held os ?bufs (link_fifo r) Z s1" using inv o1 by (simp add: held_def)
  show ?thesis
  proof (cases "rx_done ns1 ?a")
    case False
    then have "w = (q, rx, last_rx, n, r, ns1, s1)"
      using run t1 by (simp add: rx_done_def Let_def)
    then show ?thesis using False o1 inv1 by auto
  next
    case True
    obtain ns2 s2 where t2: "device_turn H (ns1, s1) = (ns2, s2)" by fastforce
    have "pkt_inv os ?U s1" using o1 by blast
    note o2 = turn_ok [OF this t2]
    let ?p = "?bufs ! unat rx"
    have rx: "unat rx < length ?bufs" using q by (simp add: rxq_ok_def)
    then have pU: "?p \<in> ?U" by auto
    define s3 where "s3 = set_plen ?p (rx_length (desc_mem ns2 ?a)) s2"
    have "length (pdata (heap s2 ?p)) = PAYLOAD_SIZE" using o2 by (simp add: pkt_inv_def pool_def heap_wf_def)
    then have inv3: "pkt_inv os ?U s3"
      using pkt_inv_heap [of os ?U s2 ?p] o2 pU by (simp add: s3_def set_plen_def)
    obtain np s4 r' s5 phys where al: "allocate os s3 = Inr (np, s4)" and tx: "transmit r ?p s4 = Inr (r', s5)"
      and ph: "virtual_to_physical (data_ptr H (?bufs[unat rx := np] ! unat rx)) = Inr phys"
      and rest: "rx_loop k os H (q\<lparr>rx_bufs_in_use := ?bufs[unat rx := np]\<rparr>, wrap_ring rx (rx_num_descriptors q), rx,
        Suc n, r', write_desc ?a (set_hdr_addr 0) (write_desc ?a (set_pkt_addr phys) ns2), s5) = Inr w"
      using run True rx t1 t2
      by (auto simp: rx_done_def Let_def res_simps s3_def vec_get_ok split: if_splits)
    note a = allocate_ok [OF inv3 al]
    have h4: "held os (?bufs[unat rx := np]) (link_fifo r) (insert ?p Z) s4" "?p \<notin> Z"
      using held_swap [OF inv1 rx, of np s4] a by auto
    have ns: "write_desc ?a (set_hdr_addr 0) (write_desc ?a (set_pkt_addr phys) ns2) =
        ns2\<lparr>desc_mem := (desc_mem ns2)(?a := \<lparr>qw0 = phys, qw1 = 0\<rparr>)\<rparr>"
      by (simp add: write_desc_def set_hdr_addr_def set_pkt_addr_def)
    have more: "pkt_state.more s4 = pkt_state.more s"
      using a o1 o2 by (simp add: s3_def set_plen_def)
    have "wrap_ring rx (rx_num_descriptors q) = wrap_ring rx 512" "unat (wrap_ring rx 512) < 512"
      using q wrap_ring_lt by (simp_all add: rxq_ok_def)
    then have "rx_loop k os H (q\<lparr>rx_bufs_in_use := ?bufs[unat rx := np]\<rparr>, wrap_ring rx 512, rx, Suc n, r',
        ns2\<lparr>desc_mem := (desc_mem ns2)(?a := \<lparr>qw0 = phys, qw1 = 0\<rparr>)\<rparr>, s5) = Inr w"
      and "rxq_ok (q\<lparr>rx_bufs_in_use := ?bufs[unat rx := np]\<rparr>) (wrap_ring rx 512)"
      using rest q unfolding ns by (simp_all add: rxq_ok_def)
    moreover have "virtual_to_physical (data_ptr H np) = Inr phys" using ph rx by simp
    moreover obtain "link_wf r'" "held os (?bufs[unat rx := np]) (link_fifo r') Z s5"
      "link_fifo r' = (if link_count r < LINK_MAX_PACKETS then link_fifo r @ [?p] else link_fifo r)"
      "pkt_state.more s5 = pkt_state.more s"
      using transmit_held [OF wf h4] tx more by auto
    ultimately have "\<exists>np phys r' s'. let q' = q\<lparr>rx_bufs_in_use := (rx_bufs_in_use q)[unat rx := np]\<rparr>;
          ns' = ns2\<lparr>desc_mem := (desc_mem ns2)(?a := \<lparr>qw0 = phys, qw1 = 0\<rparr>)\<rparr> in
        rx_loop k os H (q', wrap_ring rx 512, rx, Suc n, r', ns', s') = Inr w \<and>
        rxq_ok q' (wrap_ring rx 512) \<and> link_wf r' \<and> held os (rx_bufs_in_use q') (link_fifo r') Z s' \<and>
        virtual_to_physical (data_ptr H np) = Inr phys \<and>
        link_fifo r' = (if link_count r < LINK_MAX_PACKETS then link_fifo r @ [?p] else link_fifo r) \<and>
        pkt_state.more s' = pkt_state.more s"
      unfolding Let_def by (intro exI [of _ np] exI [of _ phys] exI [of _ r'] exI [of _ s5] conjI) simp_all
    then show ?thesis using True o1 o2 by blast
  qed
qed

text \<open>The descriptor at a position, as an address.\<close>

abbreviation slot :: "ptr \<Rightarrow> nat \<Rightarrow> ptr" where
  "slot base i \<equiv> desc_at base (of_nat (i mod 512))"

text \<open>The buffers of \<open>m\<close> descriptors from \<open>i\<close> on.\<close>

definition ring_slice :: "ptr list \<Rightarrow> nat \<Rightarrow> nat \<Rightarrow> ptr list" where
  "ring_slice bufs i m = map (\<lambda>j. bufs ! ((i + j) mod 512)) [0..<m]"

lemma ring_slice_Suc: "i < 512 \<Longrightarrow> ring_slice bufs i (Suc m) = bufs ! i # ring_slice bufs ((i + 1) mod 512) m"
  unfolding ring_slice_def by (simp add: upt_conv_Cons map_Suc_upt [symmetric] mod_simps del: upt_Suc)

lemma ring_slice_swap:
  assumes "i < 512" and "m < 512"
  shows "ring_slice (bufs[i := x]) ((i + 1) mod 512) m = ring_slice bufs ((i + 1) mod 512) m"
proof -
  have "i \<noteq> ((i + 1) mod 512 + j) mod 512" if "j < 511" for j
    using that assms(1) by (auto simp: mod_if)
  then show ?thesis using assms(2) unfolding ring_slice_def by (intro map_cong) (auto intro: nth_list_update_neq)
qed

lemma nic_turn_writes [simp]: "reg_writes (nic_turn H ns) = reg_writes ns"
  by (simp add: nic_turn_def)

lemma rx_loop_ok:
  assumes "rxq_ok q rx" and "link_wf r" and "held os (rx_bufs_in_use q) (link_fifo r) Z s"
    and "rx_loop k os H (q, rx, last_rx, n, r, ns, s) = Inr (q2, rx2, last2, n2, r2, ns2, s2)"
  shows "\<exists>m \<le> k. n2 = n + m \<and> unat rx2 = (unat rx + m) mod 512 \<and> (m = 0 \<longrightarrow> last2 = last_rx \<and> rx2 = rx) \<and>
    (0 < m \<longrightarrow> unat last2 = (unat rx + m - 1) mod 512) \<and> rxq_ok q2 rx2 \<and>
    rx_descriptors q2 = rx_descriptors q \<and> rx_index q2 = rx_index q \<and> link_wf r2 \<and>
    held os (rx_bufs_in_use q2) (link_fifo r2) Z s2 \<and> pkt_state.more s2 = pkt_state.more s \<and>
    reg_writes ns2 = reg_writes ns \<and>
    (m \<le> 512 \<longrightarrow> link_fifo r2 =
       take LINK_MAX_PACKETS (link_fifo r @ ring_slice (rx_bufs_in_use q) (unat rx) m)) \<and>
    (m < k \<longrightarrow> \<not> rx_done ns2 (slot (rx_descriptors q) (unat rx + m)))"
  using assms
proof (induction k arbitrary: q rx last_rx n r ns s)
  case 0
  then show ?case using link_count_bound [of r] by (auto simp: ring_slice_def rxq_ok_def)
next
  case (Suc k)
  have rx: "unat rx < 512" using Suc.prems(1) by (simp add: rxq_ok_def)
  from rx_round [OF Suc.prems(1-4)] show ?case
  proof (elim disjE conjE exE)
    fix s1
    assume "\<not> rx_done (nic_turn H ns) (desc_at (rx_descriptors q) rx)" and "(q2, rx2, last2, n2, r2, ns2, s2) = (q, rx, last_rx, n, r, nic_turn H ns, s1)"
      and "held os (rx_bufs_in_use q) (link_fifo r) Z s1" and "pkt_state.more s1 = pkt_state.more s"
    then show ?case
      using Suc.prems(1,2) rx link_count_bound [of r] by (intro exI [of _ 0]) (auto simp: ring_slice_def)
  next
    fix np phys r1 s1
    define q1 where "q1 = q\<lparr>rx_bufs_in_use := (rx_bufs_in_use q)[unat rx := np]\<rparr>"
    define ns1 where "ns1 = (nic_turn H (nic_turn H ns))\<lparr>desc_mem := (desc_mem (nic_turn H (nic_turn H ns)))
            (desc_at (rx_descriptors q) rx := \<lparr>qw0 = phys, qw1 = 0\<rparr>)\<rparr>"
    assume "let q' = q\<lparr>rx_bufs_in_use := (rx_bufs_in_use q)[unat rx := np]\<rparr>;
          ns' = (nic_turn H (nic_turn H ns))\<lparr>desc_mem := (desc_mem (nic_turn H (nic_turn H ns)))
            (desc_at (rx_descriptors q) rx := \<lparr>qw0 = phys, qw1 = 0\<rparr>)\<rparr> in
        rx_loop k os H (q', wrap_ring rx 512, rx, Suc n, r1, ns', s1) = Inr (q2, rx2, last2, n2, r2, ns2, s2) \<and>
        rxq_ok q' (wrap_ring rx 512) \<and> link_wf r1 \<and> held os (rx_bufs_in_use q') (link_fifo r1) Z s1 \<and>
        virtual_to_physical (data_ptr H np) = Inr phys \<and>
        link_fifo r1 = (if link_count r < LINK_MAX_PACKETS then link_fifo r @ [rx_bufs_in_use q ! unat rx]
          else link_fifo r) \<and> pkt_state.more s1 = pkt_state.more s"
    then have p1: "rxq_ok q1 (wrap_ring rx 512)" "link_wf r1" "held os (rx_bufs_in_use q1) (link_fifo r1) Z s1"
        "rx_loop k os H (q1, wrap_ring rx 512, rx, Suc n, r1, ns1, s1) = Inr (q2, rx2, last2, n2, r2, ns2, s2)"
      and f1: "link_fifo r1 = (if link_count r < LINK_MAX_PACKETS then link_fifo r @ [rx_bufs_in_use q ! unat rx]
          else link_fifo r)" and m1: "pkt_state.more s1 = pkt_state.more s"
      unfolding Let_def q1_def [symmetric] ns1_def [symmetric] by blast+
    obtain m where m: "m \<le> k" "n2 = Suc n + m" "unat rx2 = (unat (wrap_ring rx 512) + m) mod 512"
      "m = 0 \<longrightarrow> last2 = rx \<and> rx2 = wrap_ring rx 512"
      "0 < m \<longrightarrow> unat last2 = (unat (wrap_ring rx 512) + m - 1) mod 512" "rxq_ok q2 rx2"
      "rx_descriptors q2 = rx_descriptors q1" "rx_index q2 = rx_index q1" "link_wf r2"
      "held os (rx_bufs_in_use q2) (link_fifo r2) Z s2" "pkt_state.more s2 = pkt_state.more s1"
      "reg_writes ns2 = reg_writes ns1"
      "m \<le> 512 \<longrightarrow> link_fifo r2 =
         take LINK_MAX_PACKETS (link_fifo r1 @ ring_slice (rx_bufs_in_use q1) (unat (wrap_ring rx 512)) m)"
      "m < k \<longrightarrow> \<not> rx_done ns2 (slot (rx_descriptors q1) (unat (wrap_ring rx 512) + m))"
      using Suc.IH [OF p1] by blast
    have w: "unat (wrap_ring rx 512) = (unat rx + 1) mod 512" by (rule wrap_ring_512 [OF rx])
    have "link_fifo r2 = take LINK_MAX_PACKETS (link_fifo r @ ring_slice (rx_bufs_in_use q) (unat rx) (Suc m))"
      if "Suc m \<le> 512"
      using that m(13) ring_slice_swap [OF rx, of m "rx_bufs_in_use q" np] link_count_bound [of r]
      by (auto simp: q1_def w f1 ring_slice_Suc [OF rx] take_Cons')
    moreover have "\<not> rx_done ns2 (slot (rx_descriptors q) (unat rx + Suc m))" if "Suc m < Suc k"
      using that m(14) by (simp add: q1_def w mod_simps)
    moreover have "unat last2 = (unat rx + Suc m - 1) mod 512"
      using m(4,5) rx by (cases m) (auto simp: w mod_simps)
    ultimately show ?case
      using m m1 by (intro exI [of _ "Suc m"]) (auto simp: w mod_simps q1_def ns1_def)
  qed
qed

lemma set_reg32_ok: "set_reg32 dev reg v ns = Inr ns' \<longleftrightarrow>
    ucast reg \<le> dev_len dev - 4 \<and> ns' = ns\<lparr>reg_writes := reg_writes ns @ [(reg, v)]\<rparr>"
  by (auto simp: set_reg32_def in_bounds_def res_simps)

lemma rx_batch_ok:
  assumes id: "unat qid < length (rx_queues dev)" "q = rx_queues dev ! unat qid"
    and q: "rxq_ok q (rx_index q)" and wf: "link_wf r"
    and inv: "held os (rx_bufs_in_use q) (link_fifo r) Z s"
    and run: "rx_batch os H qid num dev r ns s = Inr (m, dev', r', ns', s')"
  shows "m \<le> num \<and>
    (\<exists>q'. dev' = dev\<lparr>rx_queues := (rx_queues dev)[unat qid := q']\<rparr> \<and> rxq_ok q' (rx_index q') \<and>
       rx_descriptors q' = rx_descriptors q \<and> unat (rx_index q') = (unat (rx_index q) + m) mod 512 \<and>
       held os (rx_bufs_in_use q') (link_fifo r') Z s') \<and>
    link_wf r' \<and> pkt_state.more s' = pkt_state.more s \<and>
    (m \<le> 512 \<longrightarrow> link_fifo r' =
       take LINK_MAX_PACKETS (link_fifo r @ ring_slice (rx_bufs_in_use q) (unat (rx_index q)) m)) \<and>
    (m < num \<longrightarrow> \<not> rx_done ns' (slot (rx_descriptors q) (unat (rx_index q) + m))) \<and>
    reg_writes ns' = reg_writes ns @
      (if m = 0 then [] else [(IXGBE_RDT qid, of_nat ((unat (rx_index q) + m - 1) mod 512))])"
proof -
  obtain q2 rx2 last2 n2 r2 ns2 s2 where
    lp: "rx_loop num os H (q, rx_index q, rx_index q, 0, r, ns, s) = Inr (q2, rx2, last2, n2, r2, ns2, s2)"
    and fin: "(if rx2 \<noteq> last2 then
       bind_res (set_reg32 dev (IXGBE_RDT qid) (ucast last2) ns2) (\<lambda>ns.
       Inr (n2, dev\<lparr>rx_queues := (rx_queues dev)[unat qid := q2\<lparr>rx_index := rx2\<rparr>]\<rparr>, r2, ns, s2))
     else Inr (n2, dev\<lparr>rx_queues := (rx_queues dev)[unat qid := q2]\<rparr>, r2, ns2, s2)) = Inr (m, dev', r', ns', s')"
    using run id by (auto simp: rx_batch_def Let_def res_simps)
  obtain k where k: "k \<le> num" "n2 = 0 + k" "unat rx2 = (unat (rx_index q) + k) mod 512"
    "k = 0 \<longrightarrow> last2 = rx_index q \<and> rx2 = rx_index q"
    "0 < k \<longrightarrow> unat last2 = (unat (rx_index q) + k - 1) mod 512" "rxq_ok q2 rx2"
    "rx_descriptors q2 = rx_descriptors q" "rx_index q2 = rx_index q" "link_wf r2"
    "held os (rx_bufs_in_use q2) (link_fifo r2) Z s2" "pkt_state.more s2 = pkt_state.more s"
    "reg_writes ns2 = reg_writes ns"
    "k \<le> 512 \<longrightarrow> link_fifo r2 =
       take LINK_MAX_PACKETS (link_fifo r @ ring_slice (rx_bufs_in_use q) (unat (rx_index q)) k)"
    "k < num \<longrightarrow> \<not> rx_done ns2 (slot (rx_descriptors q) (unat (rx_index q) + k))"
    using rx_loop_ok [OF q wf inv lp] by blast
  show ?thesis
  proof (cases "k = 0")
    case True
    then show ?thesis using k fin by auto
  next
    case False
    have "unat rx2 = (unat last2 + 1) mod 512" using k(3,5) False by (simp add: mod_simps)
    moreover have "unat last2 < 512" using k(5) False by simp
    ultimately have "unat rx2 \<noteq> unat last2" by (auto simp: mod_if split: if_splits)
    then have "rx2 \<noteq> last2" by auto
    moreover have "ucast last2 = (of_nat ((unat (rx_index q) + k - 1) mod 512) :: u32)"
      using k(5) False by (simp only: ucast_of_unat)
    ultimately have "m = n2" "r' = r2" "s' = s2"
      "dev' = dev\<lparr>rx_queues := (rx_queues dev)[unat qid := q2\<lparr>rx_index := rx2\<rparr>]\<rparr>"
      "reg_writes ns' = reg_writes ns2 @ [(IXGBE_RDT qid, of_nat ((unat (rx_index q) + k - 1) mod 512))]"
      "desc_mem ns' = desc_mem ns2"
      using fin by (auto simp: res_simps set_reg32_ok)
    then show ?thesis
      using k False by (simp add: rxq_ok_def rx_done_def) (rule exI [of _ "q2\<lparr>rx_index := rx2\<rparr>"], simp)
  qed
qed

section \<open>Cleaning\<close>

text \<open>The number of descriptors from \<open>a\<close> to \<open>b\<close>.\<close>

definition ring_gap :: "nat \<Rightarrow> nat \<Rightarrow> nat" where
  "ring_gap a b = (b + 512 - a) mod 512"

lemma ring_gap_eq: "a < 512 \<Longrightarrow> b < 512 \<Longrightarrow> ring_gap a b = (if a \<le> b then b - a else b + 512 - a)"
  unfolding ring_gap_def by (rule ring_distance)

lemma ring_gap_advance:
  assumes "a < 512" and "b < 512" and "k \<le> ring_gap a b"
  shows "ring_gap ((a + k) mod 512) b = ring_gap a b - k"
proof -
  have k: "k < 512" using assms(3) by (simp add: ring_gap_def le_less_trans)
  then have m: "(a + k) mod 512 = (if a + k < 512 then a + k else a + k - 512)"
    using assms(1) by (simp add: le_mod_geq)
  show ?thesis
    using assms k unfolding m by (subst (asm) ring_gap_eq, simp_all) (auto simp: ring_gap_eq split: if_splits)
qed

lemma sint_of_int_small:
  assumes "- (2 ^ 31) \<le> k" and "k < 2 ^ 31"
  shows "sint (word_of_int k :: i32) = k"
  using assms by (simp add: signed_of_int signed_take_bit_int_eq_self)

lemma distance_negative:
  assumes "x < 512" and "y < (512 :: nat)"
  shows "(word_of_int (int x - int y) :: i32) <s 0 \<longleftrightarrow> x < y"
  unfolding word_sless_alt using assms by (subst sint_of_int_small) auto

lemma cleanable_eq:
  assumes "unat cur < 512" and "unat clean < 512"
  shows "cleanable cur clean 512 = of_nat (ring_gap (unat clean) (unat cur))"
proof -
  have c: "(ucast cur - ucast clean :: i32) = word_of_int (int (unat cur) - int (unat clean))"
    by (simp only: ucast_of_unat of_int_diff of_int_of_nat_eq)
  have neg: "(ucast cur - ucast clean :: i32) <s 0 \<longleftrightarrow> unat cur < unat clean"
    unfolding c by (rule distance_negative [OF assms])
  show ?thesis
  proof (cases "unat cur < unat clean")
    case True
    have "(ucast cur - ucast clean :: i32) + ucast (512 :: usize) = word_of_int (int (unat cur) - int (unat clean) + 512)"
      unfolding c by simp
    also have "int (unat cur) - int (unat clean) + 512 = int (ring_gap (unat clean) (unat cur))"
      using True assms by (simp add: ring_gap_eq)
    finally show ?thesis using True neg by (simp add: cleanable_def Let_def)
  next
    case False
    then have "int (unat cur) - int (unat clean) = int (ring_gap (unat clean) (unat cur))"
      using assms by (simp add: ring_gap_eq)
    then show ?thesis using False neg c by (simp add: cleanable_def Let_def)
  qed
qed

lemma cleanable_few:
  assumes "unat cur < 512" and "unat clean < 512"
  shows "cleanable cur clean 512 <s ucast TX_CLEAN_BATCH \<longleftrightarrow> ring_gap (unat clean) (unat cur) < 32"
proof -
  have "ring_gap (unat clean) (unat cur) < 512" by (simp add: ring_gap_def)
  then have "sint (of_nat (ring_gap (unat clean) (unat cur)) :: i32) = int (ring_gap (unat clean) (unat cur))"
    using sint_of_int_small [of "int (ring_gap (unat clean) (unat cur))"] by simp
  then show ?thesis
    unfolding cleanable_eq [OF assms] word_sless_alt by (simp add: TX_CLEAN_BATCH_def)
qed

lemma cleanup_to_eq:
  assumes "unat clean < 512"
  shows "unat (cleanup_to clean 512) = (unat clean + 31) mod 512"
proof -
  have c: "clean + 32 - 1 = clean + 31" by simp
  have u: "unat (clean + 31) = unat clean + 31"
    using assms by (subst unat_add_no_wrap) auto
  show ?thesis
  proof (cases "512 \<le> clean + 31")
    case True
    then have "512 \<le> unat clean + 31" using u by (simp add: word_le_nat_alt)
    moreover have "unat (clean + 31 - 512) = unat clean + 31 - 512"
      using u True by (subst unat_sub_no_wrap) (simp_all add: word_le_nat_alt)
    ultimately show ?thesis using True assms by (simp add: cleanup_to_def TX_CLEAN_BATCH_def c mod_if)
  next
    case False
    then have "unat clean + 31 < 512" using u by (simp add: word_le_nat_alt)
    then show ?thesis using False u by (simp add: cleanup_to_def TX_CLEAN_BATCH_def c)
  qed
qed

lemma free_front_ok:
  assumes "n \<le> length (tx_bufs_in_use q)" and "held os (tx_bufs_in_use q) ps Z s"
  shows "\<exists>s'. free_front n q s = Inr (q\<lparr>tx_bufs_in_use := drop n (tx_bufs_in_use q)\<rparr>, s') \<and>
    held os (drop n (tx_bufs_in_use q)) ps Z s' \<and> pkt_state.more s' = pkt_state.more s \<and>
    frees (STATS s') = frees (STATS s) + of_nat n \<and>
    (\<forall>p. p \<notin> set (tx_bufs_in_use q) \<longrightarrow> plen (heap s' p) = plen (heap s p))"
  using assms
proof (induction n arbitrary: q s)
  case 0
  then show ?case by simp
next
  case (Suc n)
  then obtain p bufs where b: "tx_bufs_in_use q = p # bufs" by (cases "tx_bufs_in_use q") auto
  let ?U = "set (tx_bufs_in_use q @ ps) \<union> Z"
  have inv: "pkt_inv os ?U s" "p \<in> ?U" using Suc.prems(2) b by (simp_all add: held_def)
  obtain t where t: "free p s = Inr t" "pkt_inv os (?U - {p}) t" "pkt_state.more t = pkt_state.more s"
    "STATS t = counted (plen (heap s p)) (STATS s)" "\<And>q. q \<noteq> p \<Longrightarrow> heap t q = heap s q"
    using free_ok [OF inv] by blast
  have "?U - {p} = set (bufs @ ps) \<union> Z" using Suc.prems(2) b by (auto simp: held_def)
  then have "held os bufs ps Z t" using t(2) Suc.prems(2) b by (simp add: held_def)
  then show ?case
    using Suc.IH [of "q\<lparr>tx_bufs_in_use := bufs\<rparr>" t] Suc.prems(1) b t by (auto simp: counted_def)
qed

definition txq_ok :: "IxgbeTxQueue \<Rightarrow> usize \<Rightarrow> bool" where
  "txq_ok q clean \<longleftrightarrow> tx_num_descriptors q = 512 \<and> unat (tx_index q) < 512 \<and> unat clean < 512 \<and>
     length (tx_bufs_in_use q) = ring_gap (unat clean) (unat (tx_index q))"

definition tx_done :: "nic \<Rightarrow> ptr \<Rightarrow> bool" where
  "tx_done ns a \<longleftrightarrow> tx_status (desc_mem ns a) AND IXGBE_ADVTXD_STAT_DD \<noteq> 0"

lemma ring_step: "((x + 32) mod 512 + 32 * i + 31) mod 512 = (x + 32 * Suc i + 31) mod (512 :: nat)"
  by (simp add: add.assoc mod_simps)

text \<open>One round: nothing to clean, the device still busy, or a batch of 32 freed.\<close>

lemma clean_round:
  assumes ok: "txq_ok q clean" and h: "held os (tx_bufs_in_use q) ps Z s"
  shows "length (tx_bufs_in_use q) < 32 \<Longrightarrow> clean_loop (Suc fuel) H (q, clean, ns, s) = Inr (q, clean, ns, s)"
    and "32 \<le> length (tx_bufs_in_use q) \<Longrightarrow>
      \<not> tx_done (nic_turn H ns) (slot (tx_descriptors q) (unat clean + 31)) \<Longrightarrow>
      \<exists>s1. clean_loop (Suc fuel) H (q, clean, ns, s) = Inr (q, clean, nic_turn H ns, s1) \<and>
        held os (tx_bufs_in_use q) ps Z s1 \<and> pkt_state.more s1 = pkt_state.more s \<and> STATS s1 = STATS s \<and>
        (\<forall>p. plen (heap s1 p) = plen (heap s p))"
    and "32 \<le> length (tx_bufs_in_use q) \<Longrightarrow>
      tx_done (nic_turn H ns) (slot (tx_descriptors q) (unat clean + 31)) \<Longrightarrow>
      \<exists>c1 s2. clean_loop (Suc fuel) H (q, clean, ns, s) =
          clean_loop fuel H (q\<lparr>tx_bufs_in_use := drop 32 (tx_bufs_in_use q)\<rparr>, c1, nic_turn H ns, s2) \<and>
        txq_ok (q\<lparr>tx_bufs_in_use := drop 32 (tx_bufs_in_use q)\<rparr>) c1 \<and> unat c1 = (unat clean + 32) mod 512 \<and>
        held os (drop 32 (tx_bufs_in_use q)) ps Z s2 \<and> pkt_state.more s2 = pkt_state.more s \<and>
        frees (STATS s2) = frees (STATS s) + 32 \<and>
        (\<forall>p. p \<notin> set (tx_bufs_in_use q) \<longrightarrow> plen (heap s2 p) = plen (heap s p))"
proof -
  let ?bufs = "tx_bufs_in_use q" and ?to = "cleanup_to clean 512"
  have q: "tx_num_descriptors q = 512" "unat (tx_index q) < 512" "unat clean < 512"
    "length ?bufs = ring_gap (unat clean) (unat (tx_index q))" using ok by (simp_all add: txq_ok_def)
  obtain ns1 s1 where t1: "device_turn H (ns, s) = (ns1, s1)" by fastforce
  have inv: "pkt_inv os (set (?bufs @ ps) \<union> Z) s" using h by (simp add: held_def)
  note o1 = turn_ok [OF inv t1]
  have h1: "held os ?bufs ps Z s1" using h o1 by (simp add: held_def)
  have to: "?to = of_nat ((unat clean + 31) mod 512)"
    using cleanup_to_eq [OF q(3)] by (rule word_eq_of_natI)
  show "clean_loop (Suc fuel) H (q, clean, ns, s) = Inr (q, clean, ns, s)" if "length ?bufs < 32"
    using that cleanable_few [OF q(2,3)] q by simp
  show "\<exists>s1. clean_loop (Suc fuel) H (q, clean, ns, s) = Inr (q, clean, nic_turn H ns, s1) \<and>
      held os ?bufs ps Z s1 \<and> pkt_state.more s1 = pkt_state.more s \<and> STATS s1 = STATS s \<and>
      (\<forall>p. plen (heap s1 p) = plen (heap s p))"
    if "32 \<le> length ?bufs" "\<not> tx_done (nic_turn H ns) (slot (tx_descriptors q) (unat clean + 31))"
  proof -
    have "clean_loop (Suc fuel) H (q, clean, ns, s) = Inr (q, clean, ns1, s1)"
      using that cleanable_few [OF q(2,3)] q t1 o1 to by (simp add: tx_done_def)
    then show ?thesis using h1 o1 by blast
  qed
  show "\<exists>c1 s2. clean_loop (Suc fuel) H (q, clean, ns, s) =
        clean_loop fuel H (q\<lparr>tx_bufs_in_use := drop 32 ?bufs\<rparr>, c1, nic_turn H ns, s2) \<and>
      txq_ok (q\<lparr>tx_bufs_in_use := drop 32 ?bufs\<rparr>) c1 \<and> unat c1 = (unat clean + 32) mod 512 \<and>
      held os (drop 32 ?bufs) ps Z s2 \<and> pkt_state.more s2 = pkt_state.more s \<and>
      frees (STATS s2) = frees (STATS s) + 32 \<and> (\<forall>p. p \<notin> set ?bufs \<longrightarrow> plen (heap s2 p) = plen (heap s p))"
    if n: "32 \<le> length ?bufs" and d: "tx_done (nic_turn H ns) (slot (tx_descriptors q) (unat clean + 31))"
  proof -
    obtain s2 where s2: "free_front 32 q s1 = Inr (q\<lparr>tx_bufs_in_use := drop 32 ?bufs\<rparr>, s2)"
      "held os (drop 32 ?bufs) ps Z s2" "pkt_state.more s2 = pkt_state.more s1"
      "frees (STATS s2) = frees (STATS s1) + 32"
      "\<forall>p. p \<notin> set ?bufs \<longrightarrow> plen (heap s2 p) = plen (heap s1 p)"
      using free_front_ok [OF n h1] by auto
    have c1: "unat (wrap_ring ?to 512) = (unat clean + 32) mod 512"
      using wrap_ring_512 [of ?to] cleanup_to_eq [OF q(3)] by (simp add: mod_simps add.commute)
    have "clean_loop (Suc fuel) H (q, clean, ns, s) =
        clean_loop fuel H (q\<lparr>tx_bufs_in_use := drop 32 ?bufs\<rparr>, wrap_ring ?to 512, ns1, s2)"
      using cleanable_few [OF q(2,3)] q t1 n d o1 to s2(1) by (simp add: tx_done_def TX_CLEAN_BATCH_def)
    moreover have "txq_ok (q\<lparr>tx_bufs_in_use := drop 32 ?bufs\<rparr>) (wrap_ring ?to 512)"
      using q c1 ring_gap_advance [OF q(3,2), of 32] n by (simp add: txq_ok_def)
    ultimately show ?thesis using c1 s2(2-5) o1
      by (intro exI [of _ "wrap_ring ?to 512"] exI [of _ s2]) simp
  qed
qed

lemma clean_loop_ok:
  assumes "txq_ok q clean" and "held os (tx_bufs_in_use q) ps Z s"
    and "length (tx_bufs_in_use q) < 32 * fuel"
  shows "\<exists>k clean' ns' s'. clean_loop fuel H (q, clean, ns, s) =
      Inr (q\<lparr>tx_bufs_in_use := drop (32 * k) (tx_bufs_in_use q)\<rparr>, clean', ns', s') \<and>
    32 * k \<le> length (tx_bufs_in_use q) \<and> unat clean' = (unat clean + 32 * k) mod 512 \<and>
    held os (drop (32 * k) (tx_bufs_in_use q)) ps Z s' \<and> pkt_state.more s' = pkt_state.more s \<and>
    frees (STATS s') = frees (STATS s) + of_nat (32 * k) \<and> reg_writes ns' = reg_writes ns \<and>
    (\<forall>j < k. tx_done ((nic_turn H ^^ Suc j) ns) (slot (tx_descriptors q) (unat clean + 32 * j + 31))) \<and>
    (length (tx_bufs_in_use q) < 32 * Suc k \<or>
     \<not> tx_done ((nic_turn H ^^ Suc k) ns) (slot (tx_descriptors q) (unat clean + 32 * k + 31))) \<and>
    (\<forall>p. p \<notin> set (tx_bufs_in_use q) \<longrightarrow> plen (heap s' p) = plen (heap s p))"
  using assms
proof (induction fuel arbitrary: q clean ns s)
  case 0
  then show ?case by simp
next
  case (Suc fuel)
  let ?bufs = "tx_bufs_in_use q"
  note round = clean_round [OF Suc.prems(1,2)]
  have q: "unat clean < 512" using Suc.prems(1) by (simp add: txq_ok_def)
  consider (few) "length ?bufs < 32"
    | (busy) "32 \<le> length ?bufs" "\<not> tx_done (nic_turn H ns) (slot (tx_descriptors q) (unat clean + 31))"
    | (free) "32 \<le> length ?bufs" "tx_done (nic_turn H ns) (slot (tx_descriptors q) (unat clean + 31))" by fastforce
  then show ?case
  proof cases
    case few
    then show ?thesis
      using round(1) [OF few, of fuel H ns] q Suc.prems(2)
      by (intro exI [of _ "0 :: nat"] exI [of _ clean] exI [of _ ns] exI [of _ s]) (simp del: clean_loop.simps)
  next
    case busy
    obtain s1 where "clean_loop (Suc fuel) H (q, clean, ns, s) = Inr (q, clean, nic_turn H ns, s1)"
      "held os ?bufs ps Z s1" "pkt_state.more s1 = pkt_state.more s" "STATS s1 = STATS s"
      "\<forall>p. plen (heap s1 p) = plen (heap s p)"
      using round(2) [OF busy, of fuel] by (elim exE conjE) (rule that)
    then show ?thesis using q busy(2)
      by (intro exI [of _ "0 :: nat"] exI [of _ clean] exI [of _ "nic_turn H ns"] exI [of _ s1])
        (simp del: clean_loop.simps)
  next
    case free
    define q1 where "q1 = q\<lparr>tx_bufs_in_use := drop 32 ?bufs\<rparr>"
    obtain c1 s2 where step: "clean_loop (Suc fuel) H (q, clean, ns, s) = clean_loop fuel H (q1, c1, nic_turn H ns, s2)"
      and ok1: "txq_ok q1 c1" and c1: "unat c1 = (unat clean + 32) mod 512"
      and s2: "held os (drop 32 ?bufs) ps Z s2" "pkt_state.more s2 = pkt_state.more s"
        "frees (STATS s2) = frees (STATS s) + 32" "\<forall>p. p \<notin> set ?bufs \<longrightarrow> plen (heap s2 p) = plen (heap s p)"
      using round(3) [OF free, of fuel, folded q1_def] by (elim exE conjE) (rule that)
    have h2: "held os (tx_bufs_in_use q1) ps Z s2" "length (tx_bufs_in_use q1) < 32 * fuel"
      using s2(1) Suc.prems(3) free(1) by (simp_all add: q1_def)
    from Suc.IH [OF ok1 h2, of "nic_turn H ns"] obtain k clean' ns' s' where
      k: "clean_loop fuel H (q1, c1, nic_turn H ns, s2) =
        Inr (q1\<lparr>tx_bufs_in_use := drop (32 * k) (tx_bufs_in_use q1)\<rparr>, clean', ns', s')"
      "32 * k \<le> length (tx_bufs_in_use q1)" "unat clean' = (unat c1 + 32 * k) mod 512"
      "held os (drop (32 * k) (tx_bufs_in_use q1)) ps Z s'" "pkt_state.more s' = pkt_state.more s2"
      "frees (STATS s') = frees (STATS s2) + of_nat (32 * k)" "reg_writes ns' = reg_writes (nic_turn H ns)"
      "\<forall>j < k. tx_done ((nic_turn H ^^ Suc j) (nic_turn H ns)) (slot (tx_descriptors q1) (unat c1 + 32 * j + 31))"
      "length (tx_bufs_in_use q1) < 32 * Suc k \<or>
       \<not> tx_done ((nic_turn H ^^ Suc k) (nic_turn H ns)) (slot (tx_descriptors q1) (unat c1 + 32 * k + 31))"
      "\<forall>p. p \<notin> set (tx_bufs_in_use q1) \<longrightarrow> plen (heap s' p) = plen (heap s2 p)"
      by (elim exE conjE) (rule that)
    have at: "slot (tx_descriptors q1) (unat c1 + 32 * i + 31) = slot (tx_descriptors q) (unat clean + 32 * Suc i + 31)" for i
      unfolding c1 ring_step by (simp add: q1_def)
    have turn: "(nic_turn H ^^ i) (nic_turn H ns) = (nic_turn H ^^ Suc i) ns" for i by (simp add: funpow_swap1)
    have dn: "tx_done ((nic_turn H ^^ Suc j) ns) (slot (tx_descriptors q) (unat clean + 32 * j + 31))"
      if "j < Suc k" for j
    proof (cases j)
      case 0
      then show ?thesis using free(2) by simp
    next
      case (Suc i)
      then show ?thesis using k(8) that unfolding at turn by blast
    qed
    have stop: "length ?bufs < 32 * Suc (Suc k) \<or>
       \<not> tx_done ((nic_turn H ^^ Suc (Suc k)) ns) (slot (tx_descriptors q) (unat clean + 32 * Suc k + 31))"
      using k(9) free(1) unfolding at turn by (auto simp: q1_def)
    have lens: "plen (heap s' p) = plen (heap s p)" if "p \<notin> set ?bufs" for p
      using k(10) s2(4) that by (auto simp: q1_def dest: in_set_dropD)
    show ?thesis
      using k(1-7) stop lens step free(1) s2 dn c1
      by (intro exI [of _ "Suc k"] exI [of _ clean'] exI [of _ ns'] exI [of _ s'])
        (auto simp: q1_def add.commute add.left_commute mod_simps simp del: clean_loop.simps)
  qed
qed

section \<open>Transmitting\<close>

text \<open>The descriptor the driver writes for a packet of \<open>len\<close> bytes at a physical address.\<close>

definition posted_desc :: "u16 \<Rightarrow> u64 \<Rightarrow> desc" where
  "posted_desc len phys =
     \<lparr>qw0 = phys, qw1 = push_bit 32 (ucast (push_bit 14 (ucast len) :: u32)) OR ucast (tx_cmd len)\<rparr>"

lemma write_posted:
  "write_desc a (set_olinfo_status (push_bit (unat IXGBE_ADVTXD_PAYLEN_SHIFT) (ucast len)))
     (write_desc a (set_cmd_type_len (tx_cmd len)) (write_desc a (set_buffer_addr phys) ns)) =
   ns\<lparr>desc_mem := (desc_mem ns)(a := posted_desc len phys)\<rparr>"
proof -
  have "take_bit 32 (push_bit 32 (drop_bit 32 x) OR ucast c) = (ucast (c :: u32) :: u64)" for x c
    by (rule bit_word_eqI) (auto simp: bit_simps dest: bit_imp_le_length)
  then show ?thesis
    by (simp add: write_desc_def set_olinfo_status_def set_cmd_type_len_def set_buffer_addr_def posted_desc_def
        IXGBE_ADVTXD_PAYLEN_SHIFT_def)
qed

text \<open>A descriptor that was just posted is not done: the device has to say so first.\<close>

lemma posted_not_done: "tx_status (posted_desc len phys) AND IXGBE_ADVTXD_STAT_DD = 0"
proof -
  have "\<not> bit (tx_status (posted_desc len phys)) 0"
    by (auto simp: tx_status_def posted_desc_def bit_simps dest: bit_imp_le_length)
  then show ?thesis
    by (simp add: IXGBE_ADVTXD_STAT_DD_def IXGBE_TXD_STAT_DD_def and_one_eq even_iff_mod_2_eq_zero [symmetric] bit_0)
qed

lemma ring_gap_wrap:
  assumes "a < 512" and "b < 512"
  shows "ring_gap a ((b + 1) mod 512) = (ring_gap a b + 1) mod 512"
    and "a = (b + 1) mod 512 \<longleftrightarrow> ring_gap a b = 511"
proof -
  have m: "(b + 1) mod 512 = (if b = 511 then 0 else b + 1)" using assms(2) by auto
  show "ring_gap a ((b + 1) mod 512) = (ring_gap a b + 1) mod 512"
    "a = (b + 1) mod 512 \<longleftrightarrow> ring_gap a b = 511"
    using assms unfolding m by (auto simp: ring_gap_eq le_Suc_eq)
qed

end
