(* ===== verification/Rush_Ixgbe_Batch.thy ===== *)
theory Rush_Ixgbe_Batch
  imports Rush_Ixgbe_Correct
begin

text \<open>
  What a call of \<open>rx_batch\<close> and of \<open>tx_batch\<close> does: which packets move, in which
  order, which descriptors the driver writes and what it tells the device.
\<close>

section \<open>The transmit loop\<close>

lemma slot_inj:
  assumes "slot b i = slot b j"
  shows "i mod 512 = j mod 512"
proof -
  have "unat (16 * word_of_nat (k mod 512) :: usize) = 16 * (k mod 512)" for k
    by (simp add: unat_word_ariths unat_of_nat take_bit_nat_def)
  then have "16 * (i mod 512) = 16 * (j mod 512)" using assms by (metis desc_at_def add_left_cancel)
  then show ?thesis by simp
qed

lemma slot_next:
  assumes "0 < j" and "j < 512"
  shows "slot b i \<noteq> slot b (i + j)"
proof
  assume "slot b i = slot b (i + j)"
  then have "i mod 512 = (i + j) mod 512" by (rule slot_inj)
  then have "512 dvd j" by (metis add_diff_cancel_left' le_add1 mod_eq_dvd_iff_nat)
  then show False using assms by (auto dest: dvd_imp_le)
qed

lemma slot_mod [simp]: "slot b (i mod 512 + j) = slot b (i + j)" "slot b (Suc i mod 512 + j) = slot b (Suc i + j)"
  by (simp_all add: mod_simps)

text \<open>The descriptors of the first packet and of the ones after it do not overlap.\<close>

lemma posted_Cons:
  assumes t: "unat t < 512" and m: "m < 511" and d1: "D1 = D(desc_at d t := x)"
    and posted: "\<forall>j < m. Q (Suc j) (D' (slot d (unat t + Suc j)))" and x: "Q 0 x"
    and others: "\<forall>a. (\<forall>j < m. a \<noteq> slot d (unat t + Suc j)) \<longrightarrow> D' a = D1 a"
  shows "\<forall>j < Suc m. Q j (D' (slot d (unat t + j)))"
    and "\<forall>a. (\<forall>j < Suc m. a \<noteq> slot d (unat t + j)) \<longrightarrow> D' a = D a"
proof -
  have s0: "slot d (unat t) = desc_at d t" using t by simp
  have "desc_at d t \<noteq> slot d (unat t + Suc j)" if "j < m" for j
    using slot_next [of "Suc j" d "unat t"] that m s0 by auto
  then have first: "D' (desc_at d t) = x" using others by (simp add: d1)
  show "\<forall>j < Suc m. Q j (D' (slot d (unat t + j)))"
  proof (intro allI impI)
    fix j
    assume "j < Suc m"
    then show "Q j (D' (slot d (unat t + j)))" using posted x first s0 by (cases j) simp_all
  qed
  show "\<forall>a. (\<forall>j < Suc m. a \<noteq> slot d (unat t + j)) \<longrightarrow> D' a = D a"
  proof (intro allI impI)
    fix a
    assume a: "\<forall>j < Suc m. a \<noteq> slot d (unat t + j)"
    then have "a \<noteq> desc_at d t" using s0 by (metis add_0_right zero_less_Suc)
    moreover have "D' a = D1 a" using a others by blast
    ultimately show "D' a = D a" by (simp add: d1)
  qed
qed

lemma tx_loop_ok:
  assumes "txq_ok q clean" and "link_wf r" and "link_count r \<le> fuel"
    and "\<forall>p \<in> set (link_fifo r). \<exists>phys. virtual_to_physical (data_ptr H p) = Inr phys"
  shows "\<exists>m t r' ns'. tx_loop fuel H clean (q, tx_index q, n, r, ns, s) =
      Inr (q\<lparr>tx_index := t, tx_bufs_in_use := tx_bufs_in_use q @ take m (link_fifo r)\<rparr>, t, n + m, r', ns', s) \<and>
    m = min (link_count r) (511 - length (tx_bufs_in_use q)) \<and> unat t = (unat (tx_index q) + m) mod 512 \<and>
    link_wf r' \<and> link_fifo r' = drop m (link_fifo r) \<and> reg_writes ns' = reg_writes ns \<and>
    txq_ok (q\<lparr>tx_index := t, tx_bufs_in_use := tx_bufs_in_use q @ take m (link_fifo r)\<rparr>) clean \<and>
    (\<forall>j < m. \<exists>phys. virtual_to_physical (data_ptr H (link_fifo r ! j)) = Inr phys \<and>
       desc_mem ns' (slot (tx_descriptors q) (unat (tx_index q) + j)) =
         posted_desc (plen (heap s (link_fifo r ! j))) phys) \<and>
    (\<forall>a. (\<forall>j < m. a \<noteq> slot (tx_descriptors q) (unat (tx_index q) + j)) \<longrightarrow> desc_mem ns' a = desc_mem ns a)"
  using assms
proof (induction fuel arbitrary: q n r ns)
  case 0
  then have "link_fifo r = []" by (metis le_zero_eq length_0_conv length_link_fifo)
  then show ?case using 0 empty_iff [OF 0(2)]
    by (intro exI [of _ "0 :: nat"] exI [of _ "tx_index q"] exI [of _ r] exI [of _ ns]) (simp add: txq_ok_def)
next
  case (Suc fuel)
  let ?t = "tx_index q" and ?bufs = "tx_bufs_in_use q" and ?d = "tx_descriptors q"
  have q: "tx_num_descriptors q = 512" "unat ?t < 512" "unat clean < 512"
    "length ?bufs = ring_gap (unat clean) (unat ?t)" using Suc.prems(1) by (simp_all add: txq_ok_def)
  define t1 where "t1 = wrap_ring ?t 512"
  have t1: "unat t1 = (unat ?t + 1) mod 512" unfolding t1_def by (rule wrap_ring_512 [OF q(2)])
  have gap: "length ?bufs < 512" using q(4) by (simp add: ring_gap_def)
  have stop: "clean = t1 \<longleftrightarrow> length ?bufs = 511"
    using ring_gap_wrap(2) [OF q(3,2)] t1 q(4) by (metis unsigned_word_eqI)
  show ?case
  proof (cases "link_fifo r = [] \<or> length ?bufs = 511")
    case True
    then have "tx_loop (Suc fuel) H clean (q, ?t, n, r, ns, s) = Inr (q, ?t, n, r, ns, s)"
      using stop empty_iff [OF Suc.prems(2)] q(1) by (auto simp: t1_def Let_def)
    moreover have "min (link_count r) (511 - length ?bufs) = 0"
      using True by (auto simp flip: length_link_fifo)
    ultimately show ?thesis using Suc.prems(1,2) q(2)
      by (intro exI [of _ "0 :: nat"] exI [of _ ?t] exI [of _ r] exI [of _ ns]) (simp del: tx_loop.simps)
  next
    case False
    then obtain p ps where f: "link_fifo r = p # ps" by (cases "link_fifo r") auto
    define r1 where "r1 = (pop_front r)\<lparr>rxpackets := rxpackets r + 1, rxbytes := rxbytes r + ucast (plen (heap s p))\<rparr>"
    have r1: "link_wf r1" "link_fifo r1 = ps" "link_count r1 \<le> fuel"
      using pop_front_ok [OF Suc.prems(2) f] Suc.prems(3) f length_link_fifo [of r] length_link_fifo [of r1]
      by (auto simp: r1_def)
    obtain phys where ph: "virtual_to_physical (data_ptr H p) = Inr phys" using Suc.prems(4) f by auto
    define q1 where "q1 = q\<lparr>tx_index := t1, tx_bufs_in_use := ?bufs @ [p]\<rparr>"
    define ns1 where "ns1 = ns\<lparr>desc_mem := (desc_mem ns)(desc_at ?d ?t := posted_desc (plen (heap s p)) phys)\<rparr>"
    have step: "tx_loop (Suc fuel) H clean (q, ?t, n, r, ns, s) = tx_loop fuel H clean (q1, tx_index q1, Suc n, r1, ns1, s)"
      using f False stop empty_iff [OF Suc.prems(2)] q(1) receive_ok [OF Suc.prems(2) f, of s] ph
      by (simp add: t1_def Let_def q1_def ns1_def r1_def write_posted)
    have ok1: "txq_ok q1 clean"
      using q t1 ring_gap_wrap(1) [OF q(3,2)] False gap by (simp add: txq_ok_def q1_def)
    have dma: "\<forall>p \<in> set (link_fifo r1). \<exists>phys. virtual_to_physical (data_ptr H p) = Inr phys"
      using Suc.prems(4) f r1(2) by simp
    from Suc.IH [OF ok1 r1(1,3) dma, of "Suc n" ns1] obtain m t r' ns' where m:
      "tx_loop fuel H clean (q1, tx_index q1, Suc n, r1, ns1, s) =
        Inr (q1\<lparr>tx_index := t, tx_bufs_in_use := tx_bufs_in_use q1 @ take m (link_fifo r1)\<rparr>, t, Suc n + m, r', ns', s)"
      "m = min (link_count r1) (511 - length (tx_bufs_in_use q1))" "unat t = (unat (tx_index q1) + m) mod 512"
      "link_wf r'" "link_fifo r' = drop m (link_fifo r1)" "reg_writes ns' = reg_writes ns1"
      "txq_ok (q1\<lparr>tx_index := t, tx_bufs_in_use := tx_bufs_in_use q1 @ take m (link_fifo r1)\<rparr>) clean"
      and posted: "\<forall>j < m. \<exists>phys. virtual_to_physical (data_ptr H (link_fifo r1 ! j)) = Inr phys \<and>
       desc_mem ns' (slot (tx_descriptors q1) (unat (tx_index q1) + j)) =
         posted_desc (plen (heap s (link_fifo r1 ! j))) phys"
      and others: "\<forall>a. (\<forall>j < m. a \<noteq> slot (tx_descriptors q1) (unat (tx_index q1) + j)) \<longrightarrow> desc_mem ns' a = desc_mem ns1 a"
      by blast
    have m511: "m < 511" using m(2) by (simp add: q1_def)
    have sl: "slot (tx_descriptors q1) (unat (tx_index q1) + j) = slot ?d (unat ?t + Suc j)" for j
      by (simp add: q1_def t1 mod_simps)
    let ?Q = "\<lambda>j e. \<exists>phys. virtual_to_physical (data_ptr H (link_fifo r ! j)) = Inr phys \<and>
       e = posted_desc (plen (heap s (link_fifo r ! j))) phys"
    have d1: "desc_mem ns1 = (desc_mem ns)(desc_at ?d ?t := posted_desc (plen (heap s p)) phys)" by (simp add: ns1_def)
    have rest: "\<forall>j < m. ?Q (Suc j) (desc_mem ns' (slot ?d (unat ?t + Suc j)))"
      using posted unfolding sl r1(2) f nth_Cons_Suc .
    have p0: "?Q 0 (posted_desc (plen (heap s p)) phys)" using ph f by simp
    note P = posted_Cons [where Q = ?Q, OF q(2) m511 d1 rest p0 others [unfolded sl]]
    have "min (link_count r) (511 - length ?bufs) = Suc m"
      using m(2) False gap f r1(2) length_link_fifo [of r] length_link_fifo [of r1] by (auto simp: q1_def)
    moreover have "unat t = (unat ?t + Suc m) mod 512" using m(3) t1 by (simp add: q1_def mod_simps)
    ultimately show ?thesis
      using m(1,4-7) step P f r1(2)
      by (intro exI [of _ "Suc m"] exI [of _ t] exI [of _ r'] exI [of _ ns'])
        (simp add: q1_def ns1_def del: tx_loop.simps)
  qed
qed

section \<open>A transmit batch\<close>

lemma clean_tx_queue_ok:
  assumes q: "txq_ok q (clean_index q)" and h: "held os (tx_bufs_in_use q) ps Z s"
  shows "\<exists>k clean' ns' s'. clean_tx_queue H q ns s =
      Inr (clean', q\<lparr>tx_bufs_in_use := drop (32 * k) (tx_bufs_in_use q), clean_index := clean'\<rparr>, ns', s') \<and>
    32 * k \<le> length (tx_bufs_in_use q) \<and> unat clean' = (unat (clean_index q) + 32 * k) mod 512 \<and>
    held os (drop (32 * k) (tx_bufs_in_use q)) ps Z s' \<and> pkt_state.more s' = pkt_state.more s \<and>
    frees (STATS s') = frees (STATS s) + of_nat (32 * k) \<and> reg_writes ns' = reg_writes ns \<and>
    (\<forall>j < k. tx_done ((nic_turn H ^^ Suc j) ns) (slot (tx_descriptors q) (unat (clean_index q) + 32 * j + 31))) \<and>
    (length (tx_bufs_in_use q) < 32 * Suc k \<or>
     \<not> tx_done ((nic_turn H ^^ Suc k) ns) (slot (tx_descriptors q) (unat (clean_index q) + 32 * k + 31))) \<and>
    (\<forall>p. p \<notin> set (tx_bufs_in_use q) \<longrightarrow> plen (heap s' p) = plen (heap s p))"
proof -
  have "length (tx_bufs_in_use q) < 32 * unat (tx_num_descriptors q)"
    using q by (auto simp: txq_ok_def ring_gap_def intro: less_le_trans [of _ 512])
  from clean_loop_ok [OF q h this, of H ns] show ?thesis
    by (elim exE conjE) (intro exI conjI, simp add: clean_tx_queue_def, assumption+)
qed

text \<open>Packets that go from the link to the driver are still all held.\<close>

lemma held_move: "held os qs ps Z s \<Longrightarrow> held os (qs @ take m ps) (drop m ps) Z s"
  by (metis append.assoc append_take_drop_id held_def)

definition dma_ready :: "hardware \<Rightarrow> ptr list \<Rightarrow> bool" where
  "dma_ready H ps \<longleftrightarrow> (\<forall>p \<in> set ps. \<exists>phys. virtual_to_physical (data_ptr H p) = Inr phys)"

text \<open>The descriptors of \<open>m\<close> packets from a ring position on.\<close>

definition posted :: "hardware \<Rightarrow> 'a pkt_state_scheme \<Rightarrow> ptr list \<Rightarrow> ptr \<Rightarrow> nat \<Rightarrow> nic \<Rightarrow> bool" where
  "posted H s ps base i ns \<longleftrightarrow>
     (\<forall>j < length ps. \<exists>phys. virtual_to_physical (data_ptr H (ps ! j)) = Inr phys \<and>
        desc_mem ns (slot base (i + j)) = posted_desc (plen (heap s (ps ! j))) phys)"

lemma tx_batch_ok:
  assumes id: "unat qid < length (tx_queues dev)" "q = tx_queues dev ! unat qid"
    and q: "txq_ok q (clean_index q)" and wf: "link_wf r" and h: "held os (tx_bufs_in_use q) (link_fifo r) Z s"
    and dma: "dma_ready H (link_fifo r)" and reg: "ucast (IXGBE_TDT qid) \<le> dev_len dev - 4"
  shows "\<exists>k m q' r' ns' s'.
    tx_batch H qid dev r ns s = Inr (m, dev\<lparr>tx_queues := (tx_queues dev)[unat qid := q']\<rparr>, r', ns', s') \<and>
    32 * k \<le> length (tx_bufs_in_use q) \<and> m = min (link_count r) (511 - (length (tx_bufs_in_use q) - 32 * k)) \<and>
    tx_bufs_in_use q' = drop (32 * k) (tx_bufs_in_use q) @ take m (link_fifo r) \<and>
    tx_descriptors q' = tx_descriptors q \<and> link_wf r' \<and> link_fifo r' = drop m (link_fifo r) \<and>
    txq_ok q' (clean_index q') \<and> unat (tx_index q') = (unat (tx_index q) + m) mod 512 \<and>
    held os (tx_bufs_in_use q') (link_fifo r') Z s' \<and> pkt_state.more s' = pkt_state.more s \<and>
    frees (STATS s') = frees (STATS s) + of_nat (32 * k) \<and>
    reg_writes ns' = reg_writes ns @ [(IXGBE_TDT qid, of_nat (unat (tx_index q')))] \<and>
    posted H s (take m (link_fifo r)) (tx_descriptors q) (unat (tx_index q)) ns' \<and>
    posted H s' (take m (link_fifo r)) (tx_descriptors q) (unat (tx_index q)) ns' \<and>
    (\<forall>j < k. tx_done ((nic_turn H ^^ Suc j) ns) (slot (tx_descriptors q) (unat (clean_index q) + 32 * j + 31))) \<and>
    (length (tx_bufs_in_use q) < 32 * Suc k \<or>
     \<not> tx_done ((nic_turn H ^^ Suc k) ns) (slot (tx_descriptors q) (unat (clean_index q) + 32 * k + 31)))"
proof -
  obtain k c1 ns1 s1 where c: "clean_tx_queue H q ns s =
      Inr (c1, q\<lparr>tx_bufs_in_use := drop (32 * k) (tx_bufs_in_use q), clean_index := c1\<rparr>, ns1, s1)"
    and k: "32 * k \<le> length (tx_bufs_in_use q)" "unat c1 = (unat (clean_index q) + 32 * k) mod 512"
    and h1: "held os (drop (32 * k) (tx_bufs_in_use q)) (link_fifo r) Z s1"
    and s1: "pkt_state.more s1 = pkt_state.more s" "frees (STATS s1) = frees (STATS s) + of_nat (32 * k)"
      "reg_writes ns1 = reg_writes ns"
    and dn: "\<forall>j < k. tx_done ((nic_turn H ^^ Suc j) ns) (slot (tx_descriptors q) (unat (clean_index q) + 32 * j + 31))"
      "length (tx_bufs_in_use q) < 32 * Suc k \<or>
       \<not> tx_done ((nic_turn H ^^ Suc k) ns) (slot (tx_descriptors q) (unat (clean_index q) + 32 * k + 31))"
    and len: "\<forall>p. p \<notin> set (tx_bufs_in_use q) \<longrightarrow> plen (heap s1 p) = plen (heap s p)"
    using clean_tx_queue_ok [OF q h, of H ns] by blast
  define q1 where "q1 = q\<lparr>tx_bufs_in_use := drop (32 * k) (tx_bufs_in_use q), clean_index := c1\<rparr>"
  have ok1: "txq_ok q1 c1"
    using q k ring_gap_advance [of "unat (clean_index q)" "unat (tx_index q)" "32 * k"] by (simp add: txq_ok_def q1_def)
  have cnt: "link_count r \<le> LINK_RING_SIZE"
    using link_count_bound [of r] by (simp add: LINK_RING_SIZE_def LINK_MAX_PACKETS_def)
  have "\<forall>p \<in> set (link_fifo r). \<exists>phys. virtual_to_physical (data_ptr H p) = Inr phys"
    using dma by (simp add: dma_ready_def)
  from tx_loop_ok [OF ok1 wf cnt this, of 0 ns1 s1] obtain m t r' ns2 where m:
    "tx_loop LINK_RING_SIZE H c1 (q1, tx_index q1, 0, r, ns1, s1) =
      Inr (q1\<lparr>tx_index := t, tx_bufs_in_use := tx_bufs_in_use q1 @ take m (link_fifo r)\<rparr>, t, 0 + m, r', ns2, s1)"
    "m = min (link_count r) (511 - length (tx_bufs_in_use q1))" "unat t = (unat (tx_index q1) + m) mod 512"
    "link_wf r'" "link_fifo r' = drop m (link_fifo r)" "reg_writes ns2 = reg_writes ns1"
    "txq_ok (q1\<lparr>tx_index := t, tx_bufs_in_use := tx_bufs_in_use q1 @ take m (link_fifo r)\<rparr>) c1"
    "\<forall>j < m. \<exists>phys. virtual_to_physical (data_ptr H (link_fifo r ! j)) = Inr phys \<and>
       desc_mem ns2 (slot (tx_descriptors q1) (unat (tx_index q1) + j)) =
         posted_desc (plen (heap s1 (link_fifo r ! j))) phys" by blast
  define q2 where "q2 = q1\<lparr>tx_index := t, tx_bufs_in_use := tx_bufs_in_use q1 @ take m (link_fifo r)\<rparr>"
  define ns3 where "ns3 = ns2\<lparr>reg_writes := reg_writes ns2 @ [(IXGBE_TDT qid, ucast t)]\<rparr>"
  have "set_reg32 (dev\<lparr>tx_queues := (tx_queues dev)[unat qid := q2]\<rparr>) (IXGBE_TDT qid) (ucast t) ns2 = Inr ns3"
    using reg by (simp add: set_reg32_ok ns3_def)
  then have run: "tx_batch H qid dev r ns s = Inr (m, dev\<lparr>tx_queues := (tx_queues dev)[unat qid := q2]\<rparr>, r', ns3, s1)"
    using id c m(1) by (simp add: tx_batch_def Let_def q2_def q1_def)
  have m_le: "m \<le> link_count r" using m(2) by simp
  have dis: "link_fifo r ! j \<notin> set (tx_bufs_in_use q)" if "j < m" for j
  proof -
    have "link_fifo r ! j \<in> set (link_fifo r)" using that m_le length_link_fifo [of r] by simp
    then show ?thesis using h by (auto simp: held_def)
  qed
  have "posted H s (take m (link_fifo r)) (tx_descriptors q) (unat (tx_index q)) ns3"
    using m(8) m_le len dis by (simp add: posted_def q1_def ns3_def)
  moreover have "posted H s1 (take m (link_fifo r)) (tx_descriptors q) (unat (tx_index q)) ns3"
    using m(8) m_le by (simp add: posted_def q1_def ns3_def)
  moreover have "held os (tx_bufs_in_use q2) (link_fifo r') Z s1"
    using held_move [OF h1, of m] m(5) by (simp add: q2_def q1_def)
  moreover have "reg_writes ns3 = reg_writes ns @ [(IXGBE_TDT qid, of_nat (unat (tx_index q2)))]"
    using m(6) s1(3) by (simp only: ns3_def q2_def ucast_of_unat) simp
  moreover have "m = min (link_count r) (511 - (length (tx_bufs_in_use q) - 32 * k))"
    using m(2) by (simp add: q1_def)
  moreover have "tx_bufs_in_use q2 = drop (32 * k) (tx_bufs_in_use q) @ take m (link_fifo r)"
    "tx_descriptors q2 = tx_descriptors q" "txq_ok q2 (clean_index q2)"
    "unat (tx_index q2) = (unat (tx_index q) + m) mod 512"
    using m(3,7) by (simp_all add: q2_def q1_def)
  ultimately show ?thesis
    using run k(1) m(4,5) s1(1,2) dn
    by (intro exI [of _ k] exI [of _ m] exI [of _ q2] exI [of _ r'] exI [of _ ns3] exI [of _ s1] conjI)
qed

section \<open>A receive batch\<close>

text \<open>A device that reports only whole packets.\<close>

definition eop_hw :: "hardware \<Rightarrow> bool" where
  "eop_hw H \<longleftrightarrow> (\<forall>n m a. rx_status_error (hw_desc H n m a) AND IXGBE_RXDADV_STAT_DD \<noteq> 0 \<longrightarrow>
     rx_status_error (hw_desc H n m a) AND IXGBE_RXDADV_STAT_EOP \<noteq> 0)"

lemma held_card:
  assumes "held os qs ps Z s"
  shows "card (set (qs @ ps) \<union> Z) = length qs + length ps + card Z"
proof -
  have "finite Z" using assms by (auto simp: held_def pkt_inv_def pool_def dest: finite_subset [rotated])
  then show ?thesis
    using assms distinct_card [of "qs @ ps"] by (simp add: held_def card_Un_disjoint)
qed

lemma rx_one:
  fixes s :: "'a pkt_state_scheme"
  assumes eop: "eop_hw H" and q: "rxq_ok q rx" and wf: "link_wf r"
    and inv: "held os (rx_bufs_in_use q) (link_fifo r) Z s"
    and alloc: "\<forall>U t. pkt_inv os U (t :: 'a pkt_state_scheme) \<longrightarrow> card U < PACKET_LIMIT \<longrightarrow> (\<exists>p t'. allocate os t = Inr (p, t'))"
    and dma: "\<forall>U t. pkt_inv os U (t :: 'a pkt_state_scheme) \<longrightarrow> (\<forall>p \<in> U. \<exists>phys. virtual_to_physical (data_ptr H p) = Inr phys)"
    and room: "512 + link_count r + card Z < PACKET_LIMIT"
  shows "\<exists>w. rx_loop (Suc 0) os H (q, rx, l, n, r, ns, s) = Inr w"
proof -
  let ?a = "desc_at (rx_descriptors q) rx" and ?bufs = "rx_bufs_in_use q"
  let ?U = "set (?bufs @ link_fifo r) \<union> Z"
  have rx: "unat rx < length ?bufs" "length ?bufs = 512" using q by (simp_all add: rxq_ok_def)
  have inv0: "pkt_inv os ?U s" using inv by (simp add: held_def)
  obtain ns1 s1 where t1: "device_turn H (ns, s) = (ns1, s1)" by fastforce
  have o1: "pkt_inv os ?U s1" using turn_ok [OF inv0 t1] by blast
  obtain ns2 s2 where t2: "device_turn H (ns1, s1) = (ns2, s2)" by fastforce
  have o2: "pkt_inv os ?U s2" using turn_ok [OF o1 t2] by blast
  let ?p = "?bufs ! unat rx"
  define s3 where "s3 = set_plen ?p (rx_length (desc_mem ns2 ?a)) s2"
  have "length (pdata (heap s2 ?p)) = PAYLOAD_SIZE" using o2 by (simp add: pkt_inv_def pool_def heap_wf_def)
  then have o3: "pkt_inv os ?U s3"
    using pkt_inv_heap [of os ?U s2 ?p] o2 rx(1) by (simp add: s3_def set_plen_def)
  have "card ?U < PACKET_LIMIT" using held_card [OF inv] rx(2) room by simp
  then obtain np s4 where al: "allocate os s3 = Inr (np, s4)" using alloc o3 by blast
  note a = allocate_ok [OF o3 al]
  have h1: "held os ?bufs (link_fifo r) Z s1" using inv o1 by (simp add: held_def)
  have h4: "held os (?bufs[unat rx := np]) (link_fifo r) (insert ?p Z) s4" "?p \<notin> Z"
    using held_swap [OF h1 rx(1), of np s4] a by auto
  obtain r' s5 where tx: "transmit r ?p s4 = Inr (r', s5)" using transmit_held [OF wf h4] by blast
  obtain phys where ph: "virtual_to_physical (data_ptr H np) = Inr phys" using dma a by blast
  have "desc_mem ns1 = hw_desc H (accesses ns) (desc_mem ns)" using t1 by (auto simp: device_turn_def)
  then have "rx_status_error (desc_mem ns1 ?a) AND IXGBE_RXDADV_STAT_DD = 0 \<or>
      rx_status_error (desc_mem ns1 ?a) AND IXGBE_RXDADV_STAT_EOP \<noteq> 0"
    using eop by (auto simp: eop_hw_def)
  then show ?thesis
    using t1 t2 al tx ph rx(1) by (auto simp: Let_def vec_get_def s3_def)
qed

lemma rx_loop_step:
  assumes "rx_loop (Suc 0) os H (q, rx, l, n, r, ns, s) = Inr (q1, rx1, l1, n1, r1, ns1, s1)"
  shows "rx_loop (Suc k) os H (q, rx, l, n, r, ns, s) =
    (if n1 = n then Inr (q1, rx1, l1, n1, r1, ns1, s1) else rx_loop k os H (q1, rx1, l1, n1, r1, ns1, s1))"
proof -
  obtain nsa sa nsb sb where "device_turn H (ns, s) = (nsa, sa)" "device_turn H (nsa, sa) = (nsb, sb)" by fastforce
  then show ?thesis using assms by (auto simp: Let_def res_simps split: if_splits)
qed

lemma rx_loop_total:
  fixes s :: "'a pkt_state_scheme"
  assumes eop: "eop_hw H"
    and alloc: "\<forall>U t. pkt_inv os U (t :: 'a pkt_state_scheme) \<longrightarrow> card U < PACKET_LIMIT \<longrightarrow> (\<exists>p t'. allocate os t = Inr (p, t'))"
    and dma: "\<forall>U t. pkt_inv os U (t :: 'a pkt_state_scheme) \<longrightarrow> (\<forall>p \<in> U. \<exists>phys. virtual_to_physical (data_ptr H p) = Inr phys)"
    and "rxq_ok q rx" and "link_wf r" and "held os (rx_bufs_in_use q) (link_fifo r) Z s"
    and "512 + link_count r + card Z + k \<le> PACKET_LIMIT"
  shows "\<exists>w. rx_loop k os H (q, rx, l, n, r, ns, s) = Inr w"
  using assms(4-)
proof (induction k arbitrary: q rx l n r ns s)
  case 0
  then show ?case by simp
next
  case (Suc k)
  have "\<exists>w. rx_loop (Suc 0) os H (q, rx, l, n, r, ns, s) = Inr w"
    by (rule rx_one [OF eop Suc.prems(1-3) alloc dma]) (use Suc.prems(4) in simp)
  then obtain q1 rx1 l1 n1 r1 ns1 s1
    where w: "rx_loop (Suc 0) os H (q, rx, l, n, r, ns, s) = Inr (q1, rx1, l1, n1, r1, ns1, s1)" by auto
  obtain m where m: "m \<le> Suc 0" "rxq_ok q1 rx1" "link_wf r1" "held os (rx_bufs_in_use q1) (link_fifo r1) Z s1"
    "m \<le> 512 \<longrightarrow> link_fifo r1 = take LINK_MAX_PACKETS (link_fifo r @ ring_slice (rx_bufs_in_use q) (unat rx) m)"
    using rx_loop_ok [OF Suc.prems(1-3) w] by blast
  have "link_count r1 \<le> link_count r + 1"
    using m(1,5) length_link_fifo [of r1] by (simp add: ring_slice_def)
  then have "\<exists>w. rx_loop k os H (q1, rx1, l1, n1, r1, ns1, s1) = Inr w"
    using Suc.IH [OF m(2-4)] Suc.prems(4) by simp
  then show ?case using rx_loop_step [OF w, of k] by simp
qed

lemma rx_batch_total:
  fixes s :: "'a pkt_state_scheme"
  assumes "eop_hw H"
    and "\<forall>U t. pkt_inv os U (t :: 'a pkt_state_scheme) \<longrightarrow> card U < PACKET_LIMIT \<longrightarrow> (\<exists>p t'. allocate os t = Inr (p, t'))"
    and "\<forall>U t. pkt_inv os U (t :: 'a pkt_state_scheme) \<longrightarrow> (\<forall>p \<in> U. \<exists>phys. virtual_to_physical (data_ptr H p) = Inr phys)"
    and "unat qid < length (rx_queues dev)" and "q = rx_queues dev ! unat qid" and "rxq_ok q (rx_index q)"
    and "link_wf r" and "held os (rx_bufs_in_use q) (link_fifo r) Z s"
    and "512 + link_count r + card Z + num \<le> PACKET_LIMIT" and "ucast (IXGBE_RDT qid) \<le> dev_len dev - 4"
  shows "\<exists>m q' r' ns' s'.
    rx_batch os H qid num dev r ns s = Inr (m, dev\<lparr>rx_queues := (rx_queues dev)[unat qid := q']\<rparr>, r', ns', s') \<and>
    m \<le> num \<and> (m < num \<longrightarrow> \<not> rx_done ns' (slot (rx_descriptors q) (unat (rx_index q) + m))) \<and>
    rxq_ok q' (rx_index q') \<and> pkt_state.more s' = pkt_state.more s \<and> unat (rx_index q') = (unat (rx_index q) + m) mod 512 \<and>
    link_wf r' \<and> held os (rx_bufs_in_use q') (link_fifo r') Z s' \<and>
    (m \<le> 512 \<longrightarrow> link_fifo r' =
       take LINK_MAX_PACKETS (link_fifo r @ ring_slice (rx_bufs_in_use q) (unat (rx_index q)) m)) \<and>
    reg_writes ns' = reg_writes ns @
      (if m = 0 then [] else [(IXGBE_RDT qid, of_nat ((unat (rx_index q) + m - 1) mod 512))])"
proof -
  obtain w where w: "rx_loop num os H (q, rx_index q, rx_index q, 0, r, ns, s) = Inr w"
    using rx_loop_total [OF assms(1-3,6-9)] by blast
  obtain q2 rx2 last2 n2 r2 ns2 s2 where w': "w = (q2, rx2, last2, n2, r2, ns2, s2)" by (cases w)
  have "\<exists>x. rx_batch os H qid num dev r ns s = Inr x"
    using w w' assms(4,5,10) by (simp add: rx_batch_def Let_def set_reg32_def in_bounds_def)
  then obtain m dev' r' ns' s' where run: "rx_batch os H qid num dev r ns s = Inr (m, dev', r', ns', s')" by auto
  from rx_batch_ok [OF assms(4-8) run] run show ?thesis by blast
qed

section \<open>Transmitting until the link is empty\<close>

text \<open>A device that has completed every descriptor by the time it is looked at.\<close>

definition prompt_hw :: "hardware \<Rightarrow> bool" where
  "prompt_hw H \<longleftrightarrow> (\<forall>n m a. tx_status (hw_desc H n m a) AND IXGBE_ADVTXD_STAT_DD \<noteq> 0)"

lemma prompt_done:
  assumes "prompt_hw H"
  shows "tx_done ((nic_turn H ^^ Suc k) ns) a"
  using assms by (simp add: prompt_hw_def tx_done_def nic_turn_def)

lemma busy_wait_ends:
  assumes "prompt_hw H" and "unat qid < length (tx_queues dev)"
    and "txq_ok (tx_queues dev ! unat qid) (clean_index (tx_queues dev ! unat qid))" and "link_wf r"
    and "held os (tx_bufs_in_use (tx_queues dev ! unat qid)) (link_fifo r) Z s"
    and "dma_ready H (link_fifo r)" and "ucast (IXGBE_TDT qid) \<le> dev_len dev - 4" and "link_count r < fuel"
  shows "\<exists>dev' r' ns' s'. tx_batch_busy_wait fuel H qid dev r ns s = Inr (dev', r', ns', s') \<and> link_fifo r' = [] \<and>
    txq_ok (tx_queues dev' ! unat qid) (clean_index (tx_queues dev' ! unat qid)) \<and>
    held os (tx_bufs_in_use (tx_queues dev' ! unat qid)) [] Z s'"
  using assms(2-)
proof (induction fuel arbitrary: dev r ns s)
  case 0
  then show ?case by simp
next
  case (Suc fuel)
  let ?q = "tx_queues dev ! unat qid"
  show ?case
  proof (cases "link_fifo r = []")
    case True
    then show ?thesis
      using Suc.prems empty_iff [OF Suc.prems(3)]
      by (intro exI [of _ dev] exI [of _ r] exI [of _ ns] exI [of _ s]) simp
  next
    case False
    obtain k m q' r' ns' s' where b:
      "tx_batch H qid dev r ns s = Inr (m, dev\<lparr>tx_queues := (tx_queues dev)[unat qid := q']\<rparr>, r', ns', s')"
      "m = min (link_count r) (511 - (length (tx_bufs_in_use ?q) - 32 * k))" "link_wf r'"
      "link_fifo r' = drop m (link_fifo r)" "txq_ok q' (clean_index q')" "held os (tx_bufs_in_use q') (link_fifo r') Z s'"
      "length (tx_bufs_in_use ?q) < 32 * Suc k \<or>
       \<not> tx_done ((nic_turn H ^^ Suc k) ns) (slot (tx_descriptors ?q) (unat (clean_index ?q) + 32 * k + 31))"
      using tx_batch_ok [OF Suc.prems(1) refl Suc.prems(2-6), of ns] by blast
    define dev1 where "dev1 = dev\<lparr>tx_queues := (tx_queues dev)[unat qid := q']\<rparr>"
    have d1: "tx_queues dev1 ! unat qid = q'" "unat qid < length (tx_queues dev1)"
      "ucast (IXGBE_TDT qid) \<le> dev_len dev1 - 4" using Suc.prems(1,6) by (simp_all add: dev1_def)
    have "length (tx_bufs_in_use ?q) - 32 * k < 32" using b(7) prompt_done [OF assms(1)] by auto
    moreover have "0 < link_count r" using False by (metis length_greater_0_conv length_link_fifo)
    ultimately have "0 < m" using b(2) by simp
    then have cnt: "link_count r' < fuel"
      using b(4) Suc.prems(7) \<open>0 < link_count r\<close> length_link_fifo [of r'] length_link_fifo [of r] by simp
    have dma: "dma_ready H (link_fifo r')" using Suc.prems(5) b(4) by (auto simp: dma_ready_def dest: in_set_dropD)
    have "\<not> empty r" using empty_iff [OF Suc.prems(3)] False by simp
    then have "tx_batch_busy_wait (Suc fuel) H qid dev r ns s = tx_batch_busy_wait fuel H qid dev1 r' ns' s'"
      using b(1) by (simp add: dev1_def)
    then show ?thesis
      using Suc.IH [of dev1 r' s' ns'] b(3,5,6) d1 cnt dma by simp
  qed
qed

section \<open>A device to run on\<close>

text \<open>
  For instances of the properties: a user whose packets lie in tagged memory, and a device that
  completes every descriptor at once, with a packet of 61 bytes.
\<close>

definition nic_os :: os where
  "nic_os = sample_os\<lparr>os_box :=
     (\<lambda>n. if n < PACKET_LIMIT then Some (TAG + of_nat ((n + 1) * 10242)) else None)\<rparr>"

definition sample_hw :: hardware where
  "sample_hw =
     \<lparr>hw_reg = (\<lambda>_ _ _. 0xffffffff), hw_desc = (\<lambda>_ _ _. \<lparr>qw0 = 0, qw1 = 0x3d00000003\<rparr>),
      hw_data = (\<lambda>_ _ _. []), hw_seconds = (\<lambda>n. n), data_offset = 16\<rparr>"

definition sample_nic :: nic where
  "sample_nic = \<lparr>desc_mem = (\<lambda>_. \<lparr>qw0 = 0, qw1 = 0\<rparr>), accesses = 0, reg_writes = []\<rparr>"

definition sample_dev :: "ptr list \<Rightarrow> IxgbeDevice" where
  "sample_dev bufs =
     \<lparr>pci_addr = ''0000:01:00.0'', dev_addr = 0x7f0000000000, dev_len = 0x20000, num_rx_queues = 1,
      num_tx_queues = 1,
      rx_queues = [\<lparr>rx_descriptors = 0x500000200000, rx_num_descriptors = 512, rx_bufs_in_use = bufs,
                    rx_index = 0\<rparr>],
      tx_queues = [\<lparr>tx_descriptors = 0x500000202000, tx_num_descriptors = 512, tx_bufs_in_use = [],
                    clean_index = 0, tx_index = 0\<rparr>]\<rparr>"

lemma sample_eop: "eop_hw sample_hw"
  by (simp add: eop_hw_def sample_hw_def rx_status_error_def IXGBE_RXDADV_STAT_EOP_def
      IXGBE_RXD_STAT_EOP_def)

lemma nic_box_addr:
  assumes "n < PACKET_LIMIT"
  shows "unat (TAG + of_nat ((n + 1) * 10242) :: ptr) = unat TAG + (n + 1) * 10242"
proof -
  have "unat (of_nat ((n + 1) * 10242) :: ptr) = (n + 1) * 10242"
    unfolding unat_of_nat using assms by (simp add: PACKET_LIMIT_def)
  then show ?thesis using assms by (subst unat_add_no_wrap) (simp_all add: PACKET_LIMIT_def TAG_def)
qed

lemma nic_env_ok: "env_ok nic_os"
proof -
  have "apart (TAG + of_nat ((i + 1) * 10242)) (TAG + of_nat ((j + 1) * 10242))"
    if "i < PACKET_LIMIT" "j < PACKET_LIMIT" "i \<noteq> j" for i j
    unfolding apart_def unat_SIZE_OF_PACKET nic_box_addr [OF that(1)] nic_box_addr [OF that(2)]
    using that(3) by (cases "i < j") auto
  then have "box_env nic_os" unfolding box_env_def nic_os_def by (simp split: if_splits)
  then show ?thesis by (simp add: env_ok_def nic_os_def sample_os_def)
qed

lemma below_tag:
  assumes "unat (w :: u64) < 2 ^ 44"
  shows "w AND TAG = 0"
proof -
  have "take_bit 44 w = w" using assms by (simp add: word_eq_unat_iff unsigned_take_bit_eq take_bit_nat_def)
  then have "w AND TAG = (w AND mask 44) AND TAG" by (simp add: take_bit_eq_mask)
  also have "\<dots> = w AND (mask 44 AND TAG)" by (rule and.assoc)
  also have "mask 44 AND TAG = 0" by (simp add: mask_numeral TAG_def)
  finally show ?thesis by simp
qed

lemma nic_dma:
  assumes "pkt_inv nic_os U t" and "p \<in> U"
  shows "\<exists>phys. virtual_to_physical (data_ptr sample_hw p) = Inr phys"
proof -
  have "p \<in> packet_region nic_os t" using assms by (auto simp: pkt_inv_def pool_def)
  then obtain n where n: "n < PACKET_LIMIT" "p = TAG + of_nat ((n + 1) * 10242)"
    by (auto simp: packet_region_def nic_os_def sample_os_def noroot_region_def split: if_splits)
  let ?off = "of_nat ((n + 1) * 10242) + 16 :: u64"
  have "unat (of_nat ((n + 1) * 10242) :: u64) = (n + 1) * 10242"
    unfolding unat_of_nat using n(1) by (simp add: PACKET_LIMIT_def)
  then have "unat ?off < 2 ^ 44" using n(1) by (subst unat_add_no_wrap) (simp_all add: PACKET_LIMIT_def)
  then have "?off AND TAG = 0" by (rule below_tag)
  moreover have "data_ptr sample_hw p = (0 OR TAG) + ?off" by (simp add: data_ptr_def sample_hw_def n(2))
  ultimately show ?thesis using virtual_to_physical_offset [of 0 ?off] by simp
qed

lemma nic_allocate:
  assumes "pkt_inv nic_os U t" and "card U < PACKET_LIMIT"
  shows "\<exists>p t'. allocate nic_os t = Inr (p, t')"
  using assms(1) _ _ assms(2) by (rule allocate_noroot) (simp_all add: nic_os_def sample_os_def)

lemma nic_buffers:
  assumes "n \<le> PACKET_LIMIT"
  shows "\<exists>ps (s :: pkt_state). length ps = n \<and> held nic_os ps [] {} s"
  using assms
proof (induction n)
  case 0
  have "pkt_inv nic_os {} (pkt_init zero_heap)" by (rule pkt_inv_init [OF nic_env_ok]) (simp add: zero_heap_def)
  then show ?case by (auto simp: held_def)
next
  case (Suc n)
  then obtain ps and s :: pkt_state where ps: "length ps = n" "held nic_os ps [] {} s" by auto
  have inv: "pkt_inv nic_os (set ps) s" using ps(2) by (simp add: held_def)
  have "card (set ps) < PACKET_LIMIT" using card_length [of ps] ps(1) Suc.prems by simp
  then obtain p t where al: "allocate nic_os s = Inr (p, t)" using nic_allocate [OF inv] by blast
  have "held nic_os (p # ps) [] {} t" using allocate_ok [OF inv al] ps(2) by (simp add: held_def)
  then show ?case using ps(1) by (intro exI [of _ "p # ps"] exI [of _ t]) simp
qed

section \<open>Properties\<close>



text \<open>
  C14: transmitting a batch always succeeds when the packets on the link have DMA addresses. It takes
  packets off the link, oldest first, until the link is empty or 511 descriptors are in flight, writes a
  descriptor with the packet's address and length for each and sets the tail register to the
  first free descriptor; packets the driver held longer come before those of this batch.
\<close>

theorem tx_batch_sends:
  assumes "unat qid < length (tx_queues dev)" and "q = tx_queues dev ! unat qid"
    and "txq_ok q (clean_index q)" and "link_wf r" and "held os (tx_bufs_in_use q) (link_fifo r) Z s"
    and "dma_ready H (link_fifo r)" and "ucast (IXGBE_TDT qid) \<le> dev_len dev - 4"
  shows "\<exists>k m q' r' ns' s'.
    tx_batch H qid dev r ns s = Inr (m, dev\<lparr>tx_queues := (tx_queues dev)[unat qid := q']\<rparr>, r', ns', s') \<and>
    32 * k \<le> length (tx_bufs_in_use q) \<and> m = min (link_count r) (511 - (length (tx_bufs_in_use q) - 32 * k)) \<and>
    tx_bufs_in_use q' = drop (32 * k) (tx_bufs_in_use q) @ take m (link_fifo r) \<and>
    link_fifo r' = drop m (link_fifo r) \<and> link_wf r' \<and> txq_ok q' (clean_index q') \<and>
    held os (tx_bufs_in_use q') (link_fifo r') Z s' \<and>
    posted H s (take m (link_fifo r)) (tx_descriptors q) (unat (tx_index q)) ns' \<and>
    unat (tx_index q') = (unat (tx_index q) + m) mod 512 \<and>
    reg_writes ns' = reg_writes ns @ [(IXGBE_TDT qid, of_nat (unat (tx_index q')))]"
  using tx_batch_ok [OF assms, of ns] by blast

lemma sample_link:
  "\<exists>p r (s :: pkt_state). link_wf r \<and> link_fifo r = [p] \<and> held nic_os [] (link_fifo r) {} s"
proof -
  obtain p and s :: pkt_state where p: "held nic_os [p] [] {} s"
    using nic_buffers [of 1] by (fastforce simp: PACKET_LIMIT_def length_Suc_conv)
  then have "held nic_os [] (link_fifo new_link) (insert p {}) s" using new_link_ok(2) by (simp add: held_def)
  from transmit_held [OF new_link_ok(1) this] show ?thesis
    using new_link_ok(2) length_link_fifo [of new_link] by (auto simp: LINK_MAX_PACKETS_def LINK_RING_SIZE_def)
qed

theorem tx_batch_sends_witness:
  "\<exists>p r (s :: pkt_state) dev' r' ns' s'. link_fifo r = [p] \<and>
     tx_batch sample_hw 0 (sample_dev []) r sample_nic s = Inr (1, dev', r', ns', s') \<and> link_fifo r' = [] \<and>
     reg_writes ns' = [(IXGBE_TDT 0, 1)]"
proof -
  obtain p r and s :: pkt_state where l: "link_wf r" "link_fifo r = [p]" "held nic_os [] (link_fifo r) {} s"
    using sample_link by blast
  let ?q = "tx_queues (sample_dev []) ! unat (0 :: u32)"
  have q: "txq_ok ?q (clean_index ?q)" "tx_bufs_in_use ?q = []" "tx_index ?q = 0"
    "unat (0 :: u32) < length (tx_queues (sample_dev []))"
    "ucast (IXGBE_TDT 0) \<le> dev_len (sample_dev []) - 4"
    by (simp_all add: sample_dev_def txq_ok_def ring_gap_def IXGBE_TDT_def)
  have c: "link_count r = 1" using l(2) length_link_fifo [of r] by simp
  have d: "dma_ready sample_hw (link_fifo r)"
    using l(3) nic_dma [of "set (link_fifo r)" s] by (simp add: dma_ready_def held_def)
  have h: "held nic_os (tx_bufs_in_use ?q) (link_fifo r) {} s" using l(3) q(2) by simp
  from tx_batch_sends [OF q(4) refl q(1) l(1) h d q(5), of sample_nic]
  obtain k m q' r' ns' s' where t:
    "tx_batch sample_hw 0 (sample_dev []) r sample_nic s =
      Inr (m, (sample_dev [])\<lparr>tx_queues := (tx_queues (sample_dev []))[unat (0 :: u32) := q']\<rparr>, r', ns', s')"
    "m = min (link_count r) (511 - (length (tx_bufs_in_use ?q) - 32 * k))" "link_fifo r' = drop m (link_fifo r)"
    "unat (tx_index q') = (unat (tx_index ?q) + m) mod 512"
    "reg_writes ns' = reg_writes sample_nic @ [(IXGBE_TDT 0, of_nat (unat (tx_index q')))]"
    by blast
  have "m = 1" using t(2) c q(2) by simp
  then have "tx_batch sample_hw 0 (sample_dev []) r sample_nic s = Inr (1,
        (sample_dev [])\<lparr>tx_queues := (tx_queues (sample_dev []))[unat (0 :: u32) := q']\<rparr>, r', ns', s')"
    "link_fifo r' = []" "reg_writes ns' = [(IXGBE_TDT 0, 1)]"
    using t(1,3-5) l(2) q(3) by (simp_all add: sample_nic_def)
  then show ?thesis using l(2) by blast
qed

text \<open>
  C15: a transmitted packet is freed only when the device is through with it. Cleaning frees whole
  batches of 32 packets, oldest first, each only after the last descriptor of its batch was read as done;
  it stops at the first batch that is not, or when fewer than 32 packets are left. A descriptor as
  the driver writes it is never done.
\<close>

theorem clean_frees_done_only:
  assumes "txq_ok q (clean_index q)" and "held os (tx_bufs_in_use q) ps Z s"
  shows "(\<exists>k clean' ns' s'. clean_tx_queue H q ns s =
      Inr (clean', q\<lparr>tx_bufs_in_use := drop (32 * k) (tx_bufs_in_use q), clean_index := clean'\<rparr>, ns', s') \<and>
    32 * k \<le> length (tx_bufs_in_use q) \<and> unat clean' = (unat (clean_index q) + 32 * k) mod 512 \<and>
    held os (drop (32 * k) (tx_bufs_in_use q)) ps Z s' \<and> frees (STATS s') = frees (STATS s) + of_nat (32 * k) \<and>
    (\<forall>j < k. tx_done ((nic_turn H ^^ Suc j) ns) (slot (tx_descriptors q) (unat (clean_index q) + 32 * j + 31))) \<and>
    (length (tx_bufs_in_use q) < 32 * Suc k \<or>
     \<not> tx_done ((nic_turn H ^^ Suc k) ns) (slot (tx_descriptors q) (unat (clean_index q) + 32 * k + 31)))) \<and>
   tx_status (posted_desc len phys) AND IXGBE_ADVTXD_STAT_DD = 0"
  using clean_tx_queue_ok [OF assms, of H ns] posted_not_done by blast

theorem clean_frees_done_only_witness:
  "\<exists>q (s :: pkt_state) clean' q' ns' s'. length (tx_bufs_in_use q) = 40 \<and>
     clean_tx_queue sample_hw q sample_nic s = Inr (clean', q', ns', s') \<and>
     length (tx_bufs_in_use q') = 8 \<and> unat clean' = 32"
proof -
  obtain bufs and s :: pkt_state where b: "length bufs = 40" "held nic_os bufs [] {} s"
    using nic_buffers [of 40] by (auto simp: PACKET_LIMIT_def)
  define q where "q = \<lparr>tx_descriptors = 0x500000202000, tx_num_descriptors = 512, tx_bufs_in_use = bufs,
    clean_index = 0, tx_index = 40\<rparr>"
  have "txq_ok q (clean_index q)" "held nic_os (tx_bufs_in_use q) [] {} s"
    using b by (simp_all add: q_def txq_ok_def ring_gap_def)
  with clean_frees_done_only [of q nic_os "[]" "{}" s sample_hw sample_nic 0 0]
  obtain k clean' ns' s' where k: "clean_tx_queue sample_hw q sample_nic s =
      Inr (clean', q\<lparr>tx_bufs_in_use := drop (32 * k) (tx_bufs_in_use q), clean_index := clean'\<rparr>, ns', s')"
    "32 * k \<le> length (tx_bufs_in_use q)" "unat clean' = (unat (clean_index q) + 32 * k) mod 512"
    "length (tx_bufs_in_use q) < 32 * Suc k \<or>
     \<not> tx_done ((nic_turn sample_hw ^^ Suc k) sample_nic) (slot (tx_descriptors q) (unat (clean_index q) + 32 * k + 31))"
    by blast
  have "tx_done ((nic_turn sample_hw ^^ Suc k) sample_nic) a" for a
    by (simp add: tx_done_def nic_turn_def sample_hw_def tx_status_def IXGBE_ADVTXD_STAT_DD_def IXGBE_TXD_STAT_DD_def)
  then have "k = 1" using k(2,4) b(1) by (auto simp: q_def)
  then show ?thesis using k(1,3) b(1) by (intro exI [of _ q] exI [of _ s]) (auto simp: q_def)
qed



end
