(* ===== verification/Rush_Ixy_Correct.thy ===== *)
theory Rush_Ixy_Correct
  imports Rush_Ixy_App Rush_Ixgbe_Batch Rush_Network Rush_Pci_Correct
begin

text \<open>
  The app that drives a network card keeps the contract of the engine: between two callbacks it holds
  the packets of the device's queues, and every one of them is accounted for. So a network of all the
  apps of the program conserves packets.
\<close>

section \<open>A transmit batch that returns\<close>

lemma tx_loop_run:
  assumes "txq_ok q clean" and "link_wf r"
    and "tx_loop fuel H clean (q, tx_index q, n, r, ns, s) = Inr (q2, t2, n2, r2, ns2, s2)"
  shows "\<exists>m. s2 = s \<and> txq_ok q2 clean \<and> clean_index q2 = clean_index q \<and>
    tx_bufs_in_use q2 = tx_bufs_in_use q @ take m (link_fifo r) \<and> link_wf r2 \<and> link_fifo r2 = drop m (link_fifo r)"
  using assms
proof (induction fuel arbitrary: q n r ns)
  case 0
  then show ?case by (auto split: if_splits intro!: exI [of _ "0 :: nat"])
next
  case (Suc fuel)
  let ?t = "tx_index q" and ?bufs = "tx_bufs_in_use q"
  have q: "tx_num_descriptors q = 512" "unat ?t < 512" "unat clean < 512"
    "length ?bufs = ring_gap (unat clean) (unat ?t)" using Suc.prems(1) by (simp_all add: txq_ok_def)
  define t1 where "t1 = wrap_ring ?t 512"
  have t1: "unat t1 = (unat ?t + 1) mod 512" unfolding t1_def by (rule wrap_ring_512 [OF q(2)])
  show ?case
  proof (cases "link_fifo r = [] \<or> clean = t1")
    case True
    then have "(q2, t2, n2, r2, ns2, s2) = (q, ?t, n, r, ns, s)"
      using Suc.prems(3) empty_iff [OF Suc.prems(2)] q(1) by (auto simp: t1_def Let_def)
    then show ?thesis using Suc.prems(1,2) by (intro exI [of _ "0 :: nat"]) simp
  next
    case False
    then obtain p ps where f: "link_fifo r = p # ps" by (cases "link_fifo r") auto
    have "unat clean \<noteq> unat t1" using False by (simp add: word_eq_unat_iff)
    then have gap: "length ?bufs \<noteq> 511" using ring_gap_wrap(2) [OF q(3,2)] t1 q(4) by simp
    define r1 where "r1 = (pop_front r)\<lparr>rxpackets := rxpackets r + 1, rxbytes := rxbytes r + ucast (plen (heap s p))\<rparr>"
    have r1: "link_wf r1" "link_fifo r1 = ps" using pop_front_ok [OF Suc.prems(2) f] by (simp_all add: r1_def)
    define q1 where "q1 = q\<lparr>tx_index := t1, tx_bufs_in_use := ?bufs @ [p]\<rparr>"
    obtain ns1 where rest: "tx_loop fuel H clean (q1, tx_index q1, Suc n, r1, ns1, s) = Inr (q2, t2, n2, r2, ns2, s2)"
      using Suc.prems(3) f False empty_iff [OF Suc.prems(2)] q(1) receive_ok [OF Suc.prems(2) f, of s]
      by (auto simp: t1_def Let_def q1_def r1_def res_simps)
    have "length ?bufs < 512" using q(4) by (simp add: ring_gap_def)
    then have ok1: "txq_ok q1 clean"
      using q t1 ring_gap_wrap(1) [OF q(3,2)] gap by (simp add: txq_ok_def q1_def)
    from Suc.IH [OF ok1 r1(1) rest] show ?thesis
      using f r1(2) by (elim exE) (rule exI [of _ "Suc _"], auto simp: q1_def)
  qed
qed

lemma tx_batch_run:
  assumes id: "unat qid < length (tx_queues dev)" "q = tx_queues dev ! unat qid"
    and q: "txq_ok q (clean_index q)" and wf: "link_wf r" and h: "held os (tx_bufs_in_use q) (link_fifo r) Z s"
    and run: "tx_batch H qid dev r ns s = Inr (m, dev', r', ns', s')"
  shows "\<exists>q'. dev' = dev\<lparr>tx_queues := (tx_queues dev)[unat qid := q']\<rparr> \<and> txq_ok q' (clean_index q') \<and> link_wf r' \<and>
    held os (tx_bufs_in_use q') (link_fifo r') Z s' \<and> pkt_state.more s' = pkt_state.more s"
proof -
  obtain k c1 ns1 s1 where c: "clean_tx_queue H q ns s =
      Inr (c1, q\<lparr>tx_bufs_in_use := drop (32 * k) (tx_bufs_in_use q), clean_index := c1\<rparr>, ns1, s1)"
    and k: "32 * k \<le> length (tx_bufs_in_use q)" "unat c1 = (unat (clean_index q) + 32 * k) mod 512"
    and h1: "held os (drop (32 * k) (tx_bufs_in_use q)) (link_fifo r) Z s1"
    and s1: "pkt_state.more s1 = pkt_state.more s"
    using clean_tx_queue_ok [OF q h, of H ns] by blast
  define q1 where "q1 = q\<lparr>tx_bufs_in_use := drop (32 * k) (tx_bufs_in_use q), clean_index := c1\<rparr>"
  have ok1: "txq_ok q1 c1"
    using q k ring_gap_advance [of "unat (clean_index q)" "unat (tx_index q)" "32 * k"] by (simp add: txq_ok_def q1_def)
  have ti: "tx_index q1 = tx_index q" by (simp add: q1_def)
  obtain q2 t2 n2 ns2 where lp: "tx_loop LINK_RING_SIZE H c1 (q1, tx_index q1, 0, r, ns1, s1) = Inr (q2, t2, n2, r', ns2, s')"
    and d: "dev' = dev\<lparr>tx_queues := (tx_queues dev)[unat qid := q2]\<rparr>"
    using run id c unfolding ti by (auto simp: tx_batch_def Let_def q1_def res_simps)
  from tx_loop_run [OF ok1 wf lp] obtain j where j: "s' = s1" "txq_ok q2 c1" "clean_index q2 = clean_index q1"
    "tx_bufs_in_use q2 = tx_bufs_in_use q1 @ take j (link_fifo r)" "link_wf r'" "link_fifo r' = drop j (link_fifo r)"
    by blast
  have "held os (tx_bufs_in_use q2) (link_fifo r') Z s'"
    using held_move [OF h1, of j] j(1,4,6) by (simp add: q1_def)
  moreover have "txq_ok q2 (clean_index q2)" using j(2,3) by (simp add: q1_def)
  ultimately show ?thesis using d j s1 by blast
qed

section \<open>The link of a batch\<close>

text \<open>
  A batch moves packets between a link and the driver, and the link goes back into the engine's table.
\<close>

definition other_links :: "('app, 'arg) eng \<Rightarrow> shared_link \<Rightarrow> ptr set" where
  "other_links s i = (\<Union>j \<in> - {i}. set (fifo_at s j))"

lemma eng_relink:
  assumes inv: "eng_inv os X s" and i: "i \<in> live s" and more: "pkt_state.more s' = pkt_state.more s"
    and r: "link_wf r" and h: "held os qs (link_fifo r) (W \<union> other_links s i) s'" and W: "W \<inter> other_links s i = {}"
  shows "eng_inv os (set qs \<union> W) (put_link i r s') \<and> eng_frame s (put_link i r s')"
proof -
  let ?t = "put_link i r s'" and ?O = "other_links s i"
  note same = pkt_more_links [OF more] and fields = pkt_more_fields [OF more]
  have on: "on_links ?t = set (link_fifo r) \<union> ?O"
    using on_links_split [of ?t i] same by (simp add: other_links_def)
  have d: "distinct (link_fifo r)" "set (link_fifo r) \<inter> (W \<union> ?O) = {}" "set qs \<inter> (W \<union> ?O) = {}"
    "set qs \<inter> set (link_fifo r) = {}" using h by (auto simp: held_def)
  have eq: "on_links ?t \<union> (set qs \<union> W) = set (qs @ link_fifo r) \<union> (W \<union> ?O)" unfolding on by auto
  have "pkt_inv os (on_links ?t \<union> (set qs \<union> W)) ?t" unfolding eq using h by (simp add: held_def)
  moreover have "on_links ?t \<inter> (set qs \<union> W) = {}" unfolding on using d W by blast
  moreover have "links_ok ?t"
  proof -
    have "set (fifo_at ?t j) \<inter> set (fifo_at ?t k) = {}" if "j \<noteq> k" for j k
      using that d(2) inv same(1) unfolding eng_inv_def links_ok_def other_links_def
      by (cases "j = i"; cases "k = i") auto
    moreover have "link_wf q" if "map_of (link_store ?t) j = Some q" for j q
      using that r inv fields(1) by (auto simp: put_link_def eng_inv_def links_ok_def split: if_splits)
    moreover have "distinct (keys_of (link_store ?t))"
      using inv fields(1) by (simp add: put_link_def eng_inv_def links_ok_def distinct_update)
    ultimately show ?thesis using d(1) inv same(1) by (auto simp: links_ok_def eng_inv_def)
  qed
  moreover have "link_refs ?t = link_refs s" "next_link ?t = next_link s"
    using fields by (simp_all add: put_link_def link_refs_def)
  moreover have "i \<in> live s'" using i same by simp
  ultimately show ?thesis
    using inv live_put [of i s' r] put_frame [of i s' r] eng_frame_trans [OF same(6)] same(3) by (simp add: eng_inv_def)
qed

lemma eng_split:
  assumes "eng_inv os (set qs \<union> W) s" and "set qs \<inter> W = {}" and "distinct qs" and "fifo_at s i = link_fifo r"
  shows "held os qs (link_fifo r) (W \<union> other_links s i) s \<and> W \<inter> other_links s i = {}"
proof -
  have on: "on_links s = set (link_fifo r) \<union> other_links s i"
    using on_links_split [of s i] assms(4) by (simp add: other_links_def)
  have ok: "links_ok s" "on_links s \<inter> (set qs \<union> W) = {}" "pkt_inv os (on_links s \<union> (set qs \<union> W)) s"
    using assms(1) by (simp_all add: eng_inv_def)
  have "distinct (link_fifo r)" using ok(1) assms(4) by (metis links_ok_def)
  moreover have "set (link_fifo r) \<inter> other_links s i = {}"
    using ok(1) unfolding links_ok_def other_links_def assms(4) [symmetric] by blast
  moreover have "on_links s \<union> (set qs \<union> W) = set (qs @ link_fifo r) \<union> (W \<union> other_links s i)" unfolding on by auto
  ultimately show ?thesis using ok(2,3) assms(2,3) unfolding held_def on by auto
qed

section \<open>The packets of a card\<close>

definition dev_bufs :: "IxgbeDevice \<Rightarrow> ptr list" where
  "dev_bufs dev = concat (map rx_bufs_in_use (rx_queues dev)) @ concat (map tx_bufs_in_use (tx_queues dev))"

text \<open>One receive queue and one transmit queue, as the app asks for.\<close>

definition dev_ok :: "IxgbeDevice \<Rightarrow> bool" where
  "dev_ok dev \<longleftrightarrow>
     length (rx_queues dev) = 1 \<and> length (tx_queues dev) = 1 \<and>
     rxq_ok (rx_queues dev ! 0) (rx_index (rx_queues dev ! 0)) \<and>
     txq_ok (tx_queues dev ! 0) (clean_index (tx_queues dev ! 0)) \<and> distinct (dev_bufs dev)"

text \<open>A device that is not well formed could hold any packet.\<close>

fun rush_owns :: "rush_app \<Rightarrow> ptr set" where
  "rush_owns (BasicApp x) = {}"
| "rush_owns (Ixy82599App dev ns stats) = (if dev_ok dev then set (dev_bufs dev) else UNIV)"

lemma not_all_in_use:
  assumes "eng_inv os X s"
  shows "X \<noteq> UNIV"
proof
  assume "X = UNIV"
  then have "pkt_inv os UNIV s" using assms by (simp add: eng_inv_def)
  then have "card (UNIV :: ptr set) \<le> PACKET_LIMIT" using pkt_inv_total by fastforce
  then show False by (simp add: card_word PACKET_LIMIT_def)
qed

lemma dev_ok_queues:
  assumes "dev_ok dev"
  obtains q t where "rx_queues dev = [q]" "tx_queues dev = [t]" "rxq_ok q (rx_index q)" "txq_ok t (clean_index t)"
    "dev_bufs dev = rx_bufs_in_use q @ tx_bufs_in_use t" "distinct (rx_bufs_in_use q @ tx_bufs_in_use t)"
  using assms by (auto simp: dev_ok_def dev_bufs_def length_Suc_conv)

lemma dev_okI:
  assumes "rx_queues dev = [q]" and "tx_queues dev = [t]" and "rxq_ok q (rx_index q)" and "txq_ok t (clean_index t)"
    and "distinct (rx_bufs_in_use q @ tx_bufs_in_use t)"
  shows "dev_ok dev" "dev_bufs dev = rx_bufs_in_use q @ tx_bufs_in_use t"
  using assms by (simp_all add: dev_ok_def dev_bufs_def)

lemma ixy_pull_ok:
  assumes inv: "eng_inv (env_os E) (set (dev_bufs dev) \<union> Y) s" and Y: "set (dev_bufs dev) \<inter> Y = {}"
    and ok: "dev_ok dev" and live: "set (app_refs a) \<subseteq> live s"
    and run: "ixy_pull E H dev ns a s = Inr (dev', ns', s')"
  shows "dev_ok dev' \<and> eng_inv (env_os E) (set (dev_bufs dev') \<union> Y) s' \<and> set (dev_bufs dev') \<inter> Y = {} \<and> eng_frame s s'"
proof (cases "map_of (app_output a) ''output''")
  case None
  then show ?thesis using run inv Y ok by (simp add: ixy_pull_def)
next
  case (Some i)
  then have "i \<in> live s" using live by (force simp: app_refs_def dest: map_of_SomeD)
  moreover obtain r where r: "link_at i s = Inr r" "link_wf r" "fifo_at s i = link_fifo r"
    using eng_link_at [OF inv calculation] by blast
  moreover obtain n r' t where b: "rx_batch (env_os E) H 0 PULL_NPACKETS dev r ns s = Inr (n, dev', r', ns', t)"
    and s': "s' = put_link i r' t"
    using run Some r(1) by (auto simp: ixy_pull_def res_simps)
  obtain q x where d: "rx_queues dev = [q]" "tx_queues dev = [x]" "rxq_ok q (rx_index q)" "txq_ok x (clean_index x)"
    "dev_bufs dev = rx_bufs_in_use q @ tx_bufs_in_use x" "distinct (rx_bufs_in_use q @ tx_bufs_in_use x)"
    using dev_ok_queues [OF ok] by blast
  define W where "W = set (tx_bufs_in_use x) \<union> Y"
  have "set (rx_bufs_in_use q) \<union> W = set (dev_bufs dev) \<union> Y" "set (rx_bufs_in_use q) \<inter> W = {}"
    using d(5,6) Y by (auto simp: W_def)
  then have h: "held (env_os E) (rx_bufs_in_use q) (link_fifo r) (W \<union> other_links s i) s" "W \<inter> other_links s i = {}"
    using eng_split [of "env_os E" "rx_bufs_in_use q" W s i r] inv d(6) r(3) by auto
  have "unat (0 :: u32) < length (rx_queues dev)" "q = rx_queues dev ! unat (0 :: u32)" using d(1) by simp_all
  from rx_batch_ok [OF this d(3) r(2) h(1) b] obtain q' where q': "rx_queues dev' = [q']" "tx_queues dev' = [x]"
    "rxq_ok q' (rx_index q')" "held (env_os E) (rx_bufs_in_use q') (link_fifo r') (W \<union> other_links s i) t"
    "link_wf r'" "pkt_state.more t = pkt_state.more s" using d(1,2) by auto
  have dis: "distinct (rx_bufs_in_use q')" "set (rx_bufs_in_use q') \<inter> W = {}" using q'(4) by (auto simp: held_def)
  then have dd: "distinct (rx_bufs_in_use q' @ tx_bufs_in_use x)" using d(6) by (auto simp: W_def)
  note ok' = dev_okI [OF q'(1,2,3) d(4) dd]
  have "set (rx_bufs_in_use q') \<union> W = set (dev_bufs dev') \<union> Y" by (auto simp: ok'(2) W_def)
  moreover have "set (dev_bufs dev') \<inter> Y = {}" using dis(2) Y d(5) by (auto simp: ok'(2) W_def)
  ultimately show ?thesis
    using eng_relink [OF inv \<open>i \<in> live s\<close> q'(6,5,4) h(2)] ok'(1) by (simp add: s')
qed

lemma ixy_push_ok:
  assumes inv: "eng_inv os (set (dev_bufs dev) \<union> Y) s" and Y: "set (dev_bufs dev) \<inter> Y = {}"
    and ok: "dev_ok dev" and live: "set (app_refs a) \<subseteq> live s"
    and run: "ixy_push H dev ns a s = Inr (dev', ns', s')"
  shows "dev_ok dev' \<and> eng_inv os (set (dev_bufs dev') \<union> Y) s' \<and> set (dev_bufs dev') \<inter> Y = {} \<and> eng_frame s s'"
proof (cases "map_of (app_input a) ''input''")
  case None
  then show ?thesis using run inv Y ok by (simp add: ixy_push_def)
next
  case (Some i)
  then have "i \<in> live s" using live by (force simp: app_refs_def dest: map_of_SomeD)
  moreover obtain r where r: "link_at i s = Inr r" "link_wf r" "fifo_at s i = link_fifo r"
    using eng_link_at [OF inv calculation] by blast
  moreover obtain n r' t where b: "tx_batch H 0 dev r ns s = Inr (n, dev', r', ns', t)" and s': "s' = put_link i r' t"
    using run Some r(1) by (auto simp: ixy_push_def res_simps)
  obtain q x where d: "rx_queues dev = [q]" "tx_queues dev = [x]" "rxq_ok q (rx_index q)" "txq_ok x (clean_index x)"
    "dev_bufs dev = rx_bufs_in_use q @ tx_bufs_in_use x" "distinct (rx_bufs_in_use q @ tx_bufs_in_use x)"
    using dev_ok_queues [OF ok] by blast
  define W where "W = set (rx_bufs_in_use q) \<union> Y"
  have "set (tx_bufs_in_use x) \<union> W = set (dev_bufs dev) \<union> Y" "set (tx_bufs_in_use x) \<inter> W = {}"
    using d(5,6) Y by (auto simp: W_def)
  then have h: "held os (tx_bufs_in_use x) (link_fifo r) (W \<union> other_links s i) s" "W \<inter> other_links s i = {}"
    using eng_split [of os "tx_bufs_in_use x" W s i r] inv d(6) r(3) by auto
  have "unat (0 :: u32) < length (tx_queues dev)" "x = tx_queues dev ! unat (0 :: u32)" using d(2) by simp_all
  from tx_batch_run [OF this d(4) r(2) h(1) b] obtain x' where x': "rx_queues dev' = [q]" "tx_queues dev' = [x']"
    "txq_ok x' (clean_index x')" "held os (tx_bufs_in_use x') (link_fifo r') (W \<union> other_links s i) t"
    "link_wf r'" "pkt_state.more t = pkt_state.more s" using d(1,2) by auto
  have dis: "distinct (tx_bufs_in_use x')" "set (tx_bufs_in_use x') \<inter> W = {}" using x'(4) by (auto simp: held_def)
  then have dd: "distinct (rx_bufs_in_use q @ tx_bufs_in_use x')" using d(6) by (auto simp: W_def)
  note ok' = dev_okI [OF x'(1,2) d(3) x'(3) dd]
  have "set (tx_bufs_in_use x') \<union> W = set (dev_bufs dev') \<union> Y" by (auto simp: ok'(2) W_def)
  moreover have "set (dev_bufs dev') \<inter> Y = {}" using dis(2) Y d(5) by (auto simp: ok'(2) W_def)
  ultimately show ?thesis
    using eng_relink [OF inv \<open>i \<in> live s\<close> x'(6,5,4) h(2)] ok'(1) by (simp add: s')
qed

lemma ixy_report_ok:
  assumes "eng_inv os X s" and "ixy_report H dev ns old s = Inr (ns', stats, s')"
  shows "eng_inv os X s' \<and> eng_frame s s'"
proof -
  have "core s' = core s" "eng_frame s s'"
    using assms(2) by (auto simp: ixy_report_def res_simps Let_def println_def core_def source_part_def eng_frame_def live_def)
  then show ?thesis using assms(1) core_eng_inv [of s' s] by simp
qed

section \<open>Initialisation\<close>

lemma regs_iff: "regs f (dev, ns, s) = Inr (dev', ns', s') \<longleftrightarrow> f dev ns = Inr ns' \<and> dev' = dev \<and> s' = s"
  by (auto simp: regs_def res_simps)

lemma bind_try_Ok: "bind_try m f = Inr (Ok y) \<longleftrightarrow> (\<exists>x. m = Inr (Ok x) \<and> f x = Inr (Ok y))"
  by (cases m) (auto simp: bind_try_def split: result.splits)

lemma ok_res_Ok: "ok_res m = Inr (Ok y) \<longleftrightarrow> m = Inr y"
  by (auto simp: ok_res_def res_simps)

lemma ring_bytes: "unat (128 :: usize) \<le> 128"
  by simp

lemma init_rx_queue_ok:
  assumes "pkt_inv os U s" and "os_uid os = 0" and "init_rx_queue os H i (dev, ns, s) = Inr (dev', ns', s')"
  shows "\<exists>a. dev' = dev\<lparr>rx_queues := rx_queues dev @ [\<lparr>rx_descriptors = a, rx_num_descriptors = 512,
      rx_bufs_in_use = [], rx_index = 0\<rparr>]\<rparr> \<and> pkt_inv os U s' \<and> pkt_state.more s' = pkt_state.more s"
proof -
  obtain a where a: "dma_alloc os (NUM_RX_QUEUE_ENTRIES * size_of_desc) 128 s = Inr (a, s')"
    and d: "dev' = dev\<lparr>rx_queues := rx_queues dev @ [\<lparr>rx_descriptors = a, rx_num_descriptors = NUM_RX_QUEUE_ENTRIES,
      rx_bufs_in_use = [], rx_index = 0\<rparr>]\<rparr>"
    using assms(3) by (auto simp: init_rx_queue_def Let_def bind_res_eq_Inr simp del: fold_res.simps)
  show ?thesis
    using dma_alloc_inv [OF assms(1,2) ring_bytes a] d by (auto simp: NUM_RX_QUEUE_ENTRIES_def)
qed

lemma init_tx_queue_ok:
  assumes "pkt_inv os U s" and "os_uid os = 0" and "init_tx_queue os H i (dev, ns, s) = Inr (dev', ns', s')"
  shows "\<exists>a. dev' = dev\<lparr>tx_queues := tx_queues dev @ [\<lparr>tx_descriptors = a, tx_num_descriptors = 512,
      tx_bufs_in_use = [], clean_index = 0, tx_index = 0\<rparr>]\<rparr> \<and> pkt_inv os U s' \<and> pkt_state.more s' = pkt_state.more s"
proof -
  obtain a where a: "dma_alloc os (NUM_TX_QUEUE_ENTRIES * size_of_desc) 128 s = Inr (a, s')"
    and d: "dev' = dev\<lparr>tx_queues := tx_queues dev @ [\<lparr>tx_descriptors = a, tx_num_descriptors = NUM_TX_QUEUE_ENTRIES,
      tx_bufs_in_use = [], clean_index = 0, tx_index = 0\<rparr>]\<rparr>"
    using assms(3) by (auto simp: init_tx_queue_def Let_def bind_res_eq_Inr simp del: fold_res.simps)
  show ?thesis
    using dma_alloc_inv [OF assms(1,2) ring_bytes a] d by (auto simp: NUM_TX_QUEUE_ENTRIES_def)
qed

lemma fill_rx_ok:
  assumes "fold_res (fill_rx_desc os H) is (q, ns, s) = Inr (q', ns', s')" and "held os (rx_bufs_in_use q) [] Z s"
  shows "\<exists>bufs. q' = q\<lparr>rx_bufs_in_use := bufs\<rparr> \<and> length bufs = length (rx_bufs_in_use q) + length is \<and>
    held os bufs [] Z s' \<and> pkt_state.more s' = pkt_state.more s"
  using assms
proof (induction "is" arbitrary: q ns s)
  case Nil
  then show ?case by (auto intro!: exI [of _ "rx_bufs_in_use q"])
next
  case (Cons i js)
  let ?U = "set (rx_bufs_in_use q) \<union> Z"
  obtain q1 ns1 t where st: "fill_rx_desc os H i (q, ns, s) = Inr (q1, ns1, t)"
    and rest: "fold_res (fill_rx_desc os H) js (q1, ns1, t) = Inr (q', ns', s')"
    using Cons.prems(1) by (auto simp: bind_res_eq_Inr)
  from st obtain np where al: "allocate os s = Inr (np, t)" and q1: "q1 = q\<lparr>rx_bufs_in_use := rx_bufs_in_use q @ [np]\<rparr>"
    by (auto simp: fill_rx_desc_def res_simps Let_def)
  have inv: "pkt_inv os ?U s" using Cons.prems(2) by (simp add: held_def)
  note a = allocate_ok [OF inv al]
  have "held os (rx_bufs_in_use q1) [] Z t" using a Cons.prems(2) by (auto simp: held_def q1)
  from Cons.IH [OF rest this] show ?case using a by (auto simp: q1)
qed

lemma indices_one: "indices 1 = [0]"
  by (simp add: indices_def)

lemma init_rx_ok:
  assumes "pkt_inv os U s" and "os_uid os = 0" and "num_rx_queues dev = 1"
    and "init_rx os H (dev, ns, s) = Inr (dev', ns', s')"
  shows "\<exists>a. dev' = dev\<lparr>rx_queues := rx_queues dev @ [\<lparr>rx_descriptors = a, rx_num_descriptors = 512,
      rx_bufs_in_use = [], rx_index = 0\<rparr>]\<rparr> \<and> pkt_inv os U s' \<and> pkt_state.more s' = pkt_state.more s"
proof -
  obtain ns1 ns2 where "init_rx_queue os H 0 (dev, ns1, s) = Inr (dev', ns2, s')"
    using assms(3,4) by (auto simp: init_rx_def Let_def indices_one bind_res_eq_Inr regs_iff)
  then show ?thesis by (rule init_rx_queue_ok [OF assms(1,2)])
qed

lemma init_tx_ok:
  assumes "pkt_inv os U s" and "os_uid os = 0" and "num_tx_queues dev = 1"
    and "init_tx os H (dev, ns, s) = Inr (dev', ns', s')"
  shows "\<exists>a. dev' = dev\<lparr>tx_queues := tx_queues dev @ [\<lparr>tx_descriptors = a, tx_num_descriptors = 512,
      tx_bufs_in_use = [], clean_index = 0, tx_index = 0\<rparr>]\<rparr> \<and> pkt_inv os U s' \<and> pkt_state.more s' = pkt_state.more s"
proof -
  obtain ns1 ns2 where "init_tx_queue os H 0 (dev, ns1, s) = Inr (dev', ns2, s')"
    using assms(3,4) by (auto simp: init_tx_def Let_def indices_one bind_res_eq_Inr regs_iff)
  then show ?thesis by (rule init_tx_queue_ok [OF assms(1,2)])
qed

lemma start_rx_queue_ok:
  assumes "pkt_inv os U s" and "rx_queues dev = [\<lparr>rx_descriptors = a, rx_num_descriptors = 512,
      rx_bufs_in_use = [], rx_index = 0\<rparr>]" and "start_rx_queue fuel os H 0 (dev, ns, s) = Inr (Ok (dev', ns', s'))"
  shows "\<exists>q. dev' = dev\<lparr>rx_queues := [q]\<rparr> \<and> rxq_ok q (rx_index q) \<and> held os (rx_bufs_in_use q) [] U s' \<and>
    pkt_state.more s' = pkt_state.more s"
proof -
  let ?q = "\<lparr>rx_descriptors = a, rx_num_descriptors = 512, rx_bufs_in_use = [], rx_index = 0\<rparr>"
  obtain q ns1 where f: "fold_res (fill_rx_desc os H) [0..<512] (?q, ns, s) = Inr (q, ns1, s')"
    and d: "dev' = dev\<lparr>rx_queues := [q]\<rparr>"
    using assms(2,3) by (auto simp: start_rx_queue_def vec_get_def Let_def bind_res_eq_Inr split: if_splits
        simp del: fold_res.simps upt.simps)
  have "held os (rx_bufs_in_use ?q) [] U s" using assms(1) by (simp add: held_def)
  from fill_rx_ok [OF f this] show ?thesis using d by (auto simp: rxq_ok_def)
qed

lemma start_tx_queue_ok:
  assumes "start_tx_queue fuel H i (dev, ns, s) = Inr (Ok (dev', ns', s'))"
  shows "dev' = dev \<and> s' = s"
  using assms by (auto simp: start_tx_queue_def bind_res_eq_Inr split: if_splits simp del: fold_res.simps)

lemma reset_and_init_ok:
  assumes inv: "pkt_inv os U s" and root: "os_uid os = 0"
    and dev: "num_rx_queues dev = 1" "num_tx_queues dev = 1" "rx_queues dev = []" "tx_queues dev = []"
    and run: "reset_and_init fuel os H (dev, ns, s) = Inr (Ok (dev', ns', s'))"
  shows "dev_ok dev' \<and> held os (dev_bufs dev') [] U s' \<and> pkt_state.more s' = pkt_state.more s"
proof -
  obtain ns0 dev1 ns1 s1 dev2 ns2 s2 dev3 ns3 s3 dev4 ns4 s4 where
    rx: "init_rx os H (dev, ns0, s) = Inr (dev1, ns1, s1)" and tx: "init_tx os H (dev1, ns1, s1) = Inr (dev2, ns2, s2)"
    and srx: "fold_try (start_rx_queue fuel os H) (indices (num_rx_queues dev2)) (dev2, ns2, s2) = Inr (Ok (dev3, ns3, s3))"
    and stx: "fold_try (start_tx_queue fuel H) (indices (num_tx_queues dev3)) (dev3, ns3, s3) = Inr (Ok (dev4, ns4, s4))"
    and fin: "dev' = dev4" "s' = s4"
    using run by (auto simp: reset_and_init_def bind_try_Ok ok_res_Ok bind_res_eq_Inr regs_iff simp del: fold_try.simps)
  obtain a where a: "dev1 = dev\<lparr>rx_queues := [\<lparr>rx_descriptors = a, rx_num_descriptors = 512,
      rx_bufs_in_use = [], rx_index = 0\<rparr>]\<rparr>" "pkt_inv os U s1" "pkt_state.more s1 = pkt_state.more s"
    using init_rx_ok [OF inv root dev(1) rx] dev(3) by auto
  obtain b where b: "dev2 = dev1\<lparr>tx_queues := [\<lparr>tx_descriptors = b, tx_num_descriptors = 512,
      tx_bufs_in_use = [], clean_index = 0, tx_index = 0\<rparr>]\<rparr>" "pkt_inv os U s2" "pkt_state.more s2 = pkt_state.more s1"
    using init_tx_ok [OF a(2) root _ tx] a(1) dev(2,4) by auto
  have "start_rx_queue fuel os H 0 (dev2, ns2, s2) = Inr (Ok (dev3, ns3, s3))"
    using srx a(1) b(1) dev(1) by (simp add: indices_one bind_try_Ok)
  from start_rx_queue_ok [OF b(2) _ this] obtain q where q: "dev3 = dev2\<lparr>rx_queues := [q]\<rparr>" "rxq_ok q (rx_index q)"
    "held os (rx_bufs_in_use q) [] U s3" "pkt_state.more s3 = pkt_state.more s2" using a(1) b(1) by auto
  have "dev4 = dev3 \<and> s4 = s3"
    using stx a(1) b(1) q(1) dev(2) start_tx_queue_ok [of fuel H 0 dev3 ns3 s3 dev4 ns4 s4]
    by (simp add: indices_one bind_try_Ok)
  then have d: "rx_queues dev' = [q]" "tx_queues dev' = [\<lparr>tx_descriptors = b, tx_num_descriptors = 512,
      tx_bufs_in_use = [], clean_index = 0, tx_index = 0\<rparr>]" and s: "s' = s3"
    using fin q(1) b(1) by simp_all
  have "distinct (rx_bufs_in_use q @ [])" using q(3) by (simp add: held_def)
  then have "dev_ok dev'" "dev_bufs dev' = rx_bufs_in_use q"
    using dev_okI [OF d q(2)] by (simp_all add: txq_ok_def ring_gap_def)
  then show ?thesis using q(3,4) a(3) b(3) s by simp
qed

lemma ixy_new_ok:
  assumes inv: "eng_inv (env_os E) Y s" and run: "ixy_new E C pci s = Inr (x, s')"
  shows "eng_inv (env_os E) (rush_owns x \<union> Y) s' \<and> rush_owns x \<inter> Y = {} \<and> eng_frame s s'"
proof -
  obtain res where root: "os_uid (env_os E) = 0"
    and res: "ixy_init (card_rounds C) (env_os E) (card_hw C pci) (card_sysfs C) pci 1 1 (card_files C)
                 (card_nic C pci) s = Inr res"
      "(case res of Ok (fs, dev, ns, s) \<Rightarrow> Inr (Ixy82599App dev ns default_stats, s) | Err e \<Rightarrow> Inl (UnwrapErr e)) = Inr (x, s')"
    using run by (auto simp: ixy_new_def bind_res_eq_Inr assert_res_eq_Inr)
  then obtain fs dev ns where x: "x = Ixy82599App dev ns default_stats"
    and i: "ixy_init (card_rounds C) (env_os E) (card_hw C pci) (card_sysfs C) pci 1 1 (card_files C)
                 (card_nic C pci) s = Inr (Ok (fs, dev, ns, s'))"
    by (cases res) auto
  obtain base len fs' where r: "reset_and_init (card_rounds C) (env_os E) (card_hw C pci)
      (\<lparr>pci_addr = pci, dev_addr = base, dev_len = len, num_rx_queues = 1, num_tx_queues = 1, rx_queues = [],
        tx_queues = []\<rparr>, card_nic C pci, s) = Inr (Ok (dev, ns, s'))"
    using i by (auto simp: ixy_init_def init_def Let_def bind_try_Ok bind_res_eq_Inr split: result.splits if_splits)
  have "pkt_inv (env_os E) (on_links s \<union> Y) s" using inv by (simp add: eng_inv_def)
  from reset_and_init_ok [OF this root _ _ _ _ r]
  have ok: "dev_ok dev" "held (env_os E) (dev_bufs dev) [] (on_links s \<union> Y) s'" "pkt_state.more s' = pkt_state.more s"
    by simp_all
  have d: "set (dev_bufs dev) \<inter> (on_links s \<union> Y) = {}" using ok(2) by (simp add: held_def)
  have "set (dev_bufs dev) \<union> (on_links s \<union> Y) = on_links s \<union> (set (dev_bufs dev) \<union> Y)" by auto
  then have "pkt_inv (env_os E) (on_links s \<union> (set (dev_bufs dev) \<union> Y)) s'" using ok(2) by (simp add: held_def)
  moreover have "on_links s \<inter> (set (dev_bufs dev) \<union> Y) = {}" using d inv by (auto simp: eng_inv_def)
  ultimately show ?thesis
    using eng_inv_pkt [OF inv ok(3)] ok(1) d x by auto
qed

section \<open>The contract\<close>

interpretation rush: app_contract "rush_ops E C" "env_os E" rush_owns for E C
proof unfold_locales
  fix a :: rush_state and Y x and s s' :: rush_eng
  assume inv: "eng_inv (env_os E) (rush_owns (app_obj a) \<union> Y) s" and Y: "rush_owns (app_obj a) \<inter> Y = {}"
    and live: "set (app_refs a) \<subseteq> live s"
  have out: "snd ` set (app_output a) \<subseteq> live s" and inp: "snd ` set (app_input a) \<subseteq> live s"
    using live by (auto simp: app_refs_def)
  have "rush_owns (app_obj a) \<noteq> UNIV" using not_all_in_use [OF inv] by auto
  then have card: "dev_ok dev \<and> rush_owns (app_obj a) = set (dev_bufs dev)" if "app_obj a = Ixy82599App dev ns st" for dev ns st
    using that by (auto split: if_splits)
  show "eng_inv (env_os E) (rush_owns x \<union> Y) s' \<and> rush_owns x \<inter> Y = {} \<and> eng_frame s s'"
    if run: "op_pull (rush_ops E C) a s = Inr (x, s')"
  proof (cases "app_obj a")
    case (BasicApp b)
    then have own: "rush_owns (app_obj a) = {}" by simp
    then have inv': "eng_inv (env_os E) Y s" using inv by simp
    obtain sz where "source_pull E sz a s = Inr s'" "x = app_obj a"
      using run BasicApp
      by (auto simp: rush_ops_def rush_pull_def default_pull_def same_app_def res_simps split: basic_app.splits)
    then show ?thesis using source_pull_ok [OF inv' out] own by simp
  next
    case (Ixy82599App dev ns st)
    then obtain dev' ns' where p: "ixy_pull E (card_hw C (pci_addr dev)) dev ns a s = Inr (dev', ns', s')"
      and x: "x = Ixy82599App dev' ns' st"
      using run by (auto simp: rush_ops_def rush_pull_def res_simps)
    have c: "dev_ok dev" "rush_owns (app_obj a) = set (dev_bufs dev)" using card [OF Ixy82599App] by simp_all
    show ?thesis using ixy_pull_ok [OF inv [unfolded c(2)] Y [unfolded c(2)] c(1) live p] by (simp add: x)
  qed
  show "eng_inv (env_os E) (rush_owns x \<union> Y) s' \<and> rush_owns x \<inter> Y = {} \<and> eng_frame s s'"
    if run: "op_push (rush_ops E C) a s = Inr (x, s')"
  proof (cases "app_obj a")
    case (BasicApp b)
    then have own: "rush_owns (app_obj a) = {}" by simp
    then have inv': "eng_inv (env_os E) Y s" using inv by simp
    have "(sink_push E a s = Inr s' \<or> tee_push E a s = Inr s') \<and> x = app_obj a"
      using run BasicApp
      by (auto simp: rush_ops_def rush_push_def default_push_def same_app_def res_simps split: basic_app.splits)
    then show ?thesis using sink_push_ok [OF inv' inp, of E] tee_push_ok [OF inv' live] own by auto
  next
    case (Ixy82599App dev ns st)
    then obtain dev' ns' where p: "ixy_push (card_hw C (pci_addr dev)) dev ns a s = Inr (dev', ns', s')"
      and x: "x = Ixy82599App dev' ns' st"
      using run by (auto simp: rush_ops_def rush_push_def res_simps)
    have c: "dev_ok dev" "rush_owns (app_obj a) = set (dev_bufs dev)" using card [OF Ixy82599App] by simp_all
    show ?thesis using ixy_push_ok [OF inv [unfolded c(2)] Y [unfolded c(2)] c(1) live p] by (simp add: x)
  qed
next
  fix y x :: rush_app and Y and s s' :: rush_eng
  assume inv: "eng_inv (env_os E) (rush_owns y \<union> Y) s" and Y: "rush_owns y \<inter> Y = {}"
    and run: "op_report (rush_ops E C) y s = Inr (x, s')"
  then show "eng_inv (env_os E) (rush_owns x \<union> Y) s' \<and> rush_owns x \<inter> Y = {} \<and> eng_frame s s'"
    using ixy_report_ok [OF inv]
    by (cases y) (auto simp: rush_ops_def rush_report_def default_report_def res_simps)
next
  fix Y c x and s s' :: rush_eng
  assume inv: "eng_inv (env_os E) Y s" and run: "op_new (rush_ops E C) c s = Inr (x, s')"
  then show "eng_inv (env_os E) (rush_owns x \<union> Y) s' \<and> rush_owns x \<inter> Y = {} \<and> eng_frame s s'"
    using ixy_new_ok [OF inv] by (cases c) (auto simp: rush_ops_def rush_new_def)
next
  fix x :: rush_app and Y and s s' :: rush_eng
  assume "op_has_stop (rush_ops E C) x" and "op_stop (rush_ops E C) x s = Inr s'"
  then show "eng_inv (env_os E) Y s' \<and> eng_frame s s'"
    by (cases x) (simp_all add: rush_ops_def rush_stop_def ixy_stop_def)
next
  fix x :: rush_app
  assume "\<not> op_has_stop (rush_ops E C) x"
  then show "rush_owns x = {}" by (cases x) (simp_all add: rush_ops_def)
qed

section \<open>A network with a card\<close>

text \<open>For instances of the properties: a card whose app has no links.\<close>

definition card_env :: env where
  "card_env = \<lparr>env_os = nic_os, env_clk = (\<lambda>n. n), env_order = insertion_order\<rparr>"

definition sample_cards :: cards where
  "sample_cards =
     \<lparr>card_hw = (\<lambda>_. sample_hw), card_nic = (\<lambda>_. sample_nic), card_sysfs = sample_sysfs,
      card_files = sample_files, card_rounds = 10\<rparr>"

definition card_state :: "ptr list \<Rightarrow> rush_state" where
  "card_state bufs =
     \<lparr>app_obj = Ixy82599App (sample_dev bufs) sample_nic default_stats, conf = Ixy82599 ''0000:01:00.0'',
      app_input = [], app_output = []\<rparr>"

definition card_net :: "ptr list \<Rightarrow> rush_eng \<Rightarrow> rush_eng" where
  "card_net bufs s = s\<lparr>app_table := [(''nic'', card_state bufs)], inhale := [''nic''], exhale := [''nic'']\<rparr>"

lemma buffers_from:
  assumes "n \<le> PACKET_LIMIT" and "eng_inv nic_os {} (s0 :: rush_eng)" and "on_links s0 = {}"
  shows "\<exists>ps s. length ps = n \<and> distinct ps \<and> eng_inv nic_os (set ps) (s :: rush_eng) \<and> eng_frame s0 s \<and>
    fifo_at s = fifo_at s0"
  using assms(1)
proof (induction n)
  case 0
  then show ?case using assms(2) by (intro exI [of _ "[]"] exI [of _ s0]) simp
next
  case (Suc n)
  then obtain ps and s :: rush_eng where ps: "length ps = n" "distinct ps" "eng_inv nic_os (set ps) s"
    "eng_frame s0 s" "fifo_at s = fifo_at s0" by auto
  have on: "on_links s = {}" using ps(5) assms(3) by (simp add: on_links_def)
  have inv: "pkt_inv nic_os (set ps) s" using ps(3) on by (simp add: eng_inv_def)
  have "card (set ps) < PACKET_LIMIT" using card_length [of ps] ps(1) Suc.prems by simp
  then obtain p t where al: "allocate nic_os s = Inr (p, t)" using nic_allocate [OF inv] by blast
  have "eng_inv nic_os (set (p # ps)) t" "distinct (p # ps)" "eng_frame s0 t" "fifo_at t = fifo_at s0"
    using eng_allocate [OF ps(3) al] ps(2,4,5) eng_frame_trans by auto
  then show ?case using ps(1) by (intro exI [of _ "p # ps"] exI [of _ t]) simp
qed

lemma card_start: "net_inv nic_os rush_owns (eng_init zero_heap :: rush_eng)"
  by (rule net_inv_init [OF nic_env_ok]) (simp add: zero_heap_def)

lemma card_buffers:
  assumes "n \<le> PACKET_LIMIT"
  shows "\<exists>ps s. length ps = n \<and> distinct ps \<and> eng_inv nic_os (set ps) (s :: rush_eng) \<and>
    eng_frame (eng_init zero_heap) s"
proof -
  have "owned rush_owns (eng_init zero_heap :: rush_eng) = {}" "on_links (eng_init zero_heap :: rush_eng) = {}"
    by (simp_all add: owned_def own_at_def on_links_def fifo_at_def eng_init_simps)
  then have "eng_inv nic_os {} (eng_init zero_heap :: rush_eng)" using card_start by (simp add: net_inv_def)
  then show ?thesis using buffers_from [OF assms] \<open>on_links _ = {}\<close> by blast
qed

lemma card_net_inv:
  assumes "length ps = 512" and "distinct ps" and "eng_inv nic_os (set ps) s" and "eng_frame (eng_init zero_heap) s"
  shows "net_inv nic_os rush_owns (card_net ps s)"
proof -
  let ?t = "card_net ps s"
  have "dev_ok (sample_dev ps)" "dev_bufs (sample_dev ps) = ps"
    using assms(1,2) by (simp_all add: dev_ok_def dev_bufs_def sample_dev_def rxq_ok_def txq_ok_def ring_gap_def)
  then have own: "own_at rush_owns ?t n = (if n = ''nic'' then set ps else {})" for n
    by (simp add: own_at_def card_net_def card_state_def)
  have owned: "owned rush_owns ?t = set ps" unfolding owned_def own by auto
  have tables: "link_table s = []" using assms(4) by (simp add: eng_frame_def eng_init_simps)
  have src: "source_part ?t = source_part s" by (simp add: source_part_def card_net_def)
  have pkt: "pkt_inv nic_os U ?t = pkt_inv nic_os U s" for U
    using ctor.source_only [OF src, of nic_os]
    by (simp add: pkt_inv_def pool_def heap_wf_def steps_ok_def FL_set_def) (simp add: card_net_def)
  have links: "fifo_at ?t = fifo_at s" "live ?t = live s" "links_ok ?t = links_ok s" "next_link ?t = next_link s"
    by (simp_all add: fifo_at_def live_def links_ok_def card_net_def fun_eq_iff)
  have refs: "link_refs ?t = []" by (simp add: link_refs_def card_net_def card_state_def app_refs_def tables)
  have "eng_inv nic_os (set ps) ?t"
    using assms(3) pkt by (simp add: eng_inv_def on_links_def links refs)
  then show ?thesis by (simp add: net_inv_def owned own)
qed

lemma card_net_breathes: "\<exists>t. breathe card_env (rush_ops card_env sample_cards) (card_net ps s) = Inr t"
  by (simp add: breathe_def instant_now_def Let_def card_net_def call_app_def rush_ops_def rush_pull_def rush_push_def
      ixy_pull_def ixy_push_def card_state_def)

section \<open>Properties\<close>

text \<open>
  C6: a breath of a network with network cards conserves packets: with every app of the program, cards
  included, every packet that was allocated is afterwards on the freelist, on exactly one link, or in the
  queues of exactly one card, and none of them is two of these. Apps, links and ports stay as they are.
\<close>

theorem cards_conserve_packets:
  assumes "net_inv (env_os E) rush_owns s" and "breathe E (rush_ops E C) s = Inr s'"
  shows "net_inv (env_os E) rush_owns s' \<and> net_frame s s' \<and>
    nfree s' + card (on_links s') + card (owned rush_owns s') = unat (PACKETS_ALLOCATED s') \<and>
    on_links s' \<inter> owned rush_owns s' = {} \<and> FL_set s' \<inter> (on_links s' \<union> owned rush_owns s') = {} \<and>
    (\<forall>m n. m \<noteq> n \<longrightarrow> own_at rush_owns s' m \<inter> own_at rush_owns s' n = {})"
proof -
  have b: "net_inv (env_os E) rush_owns s' \<and> net_frame s s'" using assms by (rule rush.breathe_inv)
  then have inv: "pkt_inv (env_os E) (on_links s' \<union> owned rush_owns s') s'" "on_links s' \<inter> owned rush_owns s' = {}"
    by (simp_all add: net_inv_def eng_inv_def)
  then have "nfree s' + card (on_links s' \<union> owned rush_owns s') = unat (PACKETS_ALLOCATED s')"
    "finite (on_links s' \<union> owned rush_owns s')" "FL_set s' \<inter> (on_links s' \<union> owned rush_owns s') = {}"
    by (simp_all add: pkt_inv_def pool_def)
  then show ?thesis using b inv(2) by (simp add: card_Un_disjoint net_inv_def)
qed

theorem cards_conserve_packets_witness:
  "\<exists>ps s s'. length ps = 512 \<and> breathe card_env (rush_ops card_env sample_cards) (card_net ps s) = Inr s' \<and>
     nfree s' + card (on_links s') + card (owned rush_owns s') = unat (PACKETS_ALLOCATED s')"
proof -
  obtain ps and s :: rush_eng where ps: "length ps = 512" "distinct ps" "eng_inv nic_os (set ps) s"
    "eng_frame (eng_init zero_heap) s"
    using card_buffers [of 512] by (auto simp: PACKET_LIMIT_def)
  obtain t where run: "breathe card_env (rush_ops card_env sample_cards) (card_net ps s) = Inr t"
    using card_net_breathes by blast
  have "net_inv (env_os card_env) rush_owns (card_net ps s)" using card_net_inv [OF ps] by (simp add: card_env_def)
  from cards_conserve_packets [OF this run] run ps(1) show ?thesis by blast
qed

end
