(* ===== verification/Rush_Forward.thy ===== *)
theory Rush_Forward
  imports Rush_Ixy_Correct
begin

text \<open>
  Two cards and a link between them: a breath takes the packets that one card received off its ring
  and posts them, in order, on the ring of the other. This puts together the driver, the app, the
  link and the engine.
\<close>

section \<open>Callbacks of a card, with what they do\<close>

abbreviation rxq :: "IxgbeDevice \<Rightarrow> IxgbeRxQueue" where
  "rxq dev \<equiv> rx_queues dev ! 0"

abbreviation txq :: "IxgbeDevice \<Rightarrow> IxgbeTxQueue" where
  "txq dev \<equiv> tx_queues dev ! 0"

text \<open>The packets of the next \<open>m\<close> receive descriptors.\<close>

abbreviation arrived :: "IxgbeDevice \<Rightarrow> nat \<Rightarrow> ptr list" where
  "arrived dev m \<equiv> ring_slice (rx_bufs_in_use (rxq dev)) (unat (rx_index (rxq dev))) m"

text \<open>What the driver relies on: packets can be allocated and have DMA addresses.\<close>

definition dma_env :: "os \<Rightarrow> hardware \<Rightarrow> bool" where
  "dma_env os H \<longleftrightarrow>
     (\<forall>U (t :: rush_eng). pkt_inv os U t \<longrightarrow> card U < PACKET_LIMIT \<longrightarrow> (\<exists>p t'. allocate os t = Inr (p, t'))) \<and>
     (\<forall>U (t :: rush_eng). pkt_inv os U t \<longrightarrow> (\<forall>p \<in> U. \<exists>phys. virtual_to_physical (data_ptr H p) = Inr phys))"

lemma held_rx:
  assumes inv: "eng_inv os (set (dev_bufs dev) \<union> Y) s" and Y: "set (dev_bufs dev) \<inter> Y = {}" and ok: "dev_ok dev"
    and r: "fifo_at s i = link_fifo r"
  shows "held os (rx_bufs_in_use (rxq dev)) (link_fifo r) (set (tx_bufs_in_use (txq dev)) \<union> Y \<union> other_links s i) s"
proof -
  obtain q x where d: "rx_queues dev = [q]" "tx_queues dev = [x]"
    "dev_bufs dev = rx_bufs_in_use q @ tx_bufs_in_use x" "distinct (rx_bufs_in_use q @ tx_bufs_in_use x)"
    using dev_ok_queues [OF ok] by blast
  have "set (rx_bufs_in_use q) \<union> (set (tx_bufs_in_use x) \<union> Y) = set (dev_bufs dev) \<union> Y" using d(3) by auto
  then show ?thesis
    using eng_split [of os "rx_bufs_in_use q" "set (tx_bufs_in_use x) \<union> Y" s i r] inv Y d r by auto
qed

lemma held_tx:
  assumes inv: "eng_inv os (set (dev_bufs dev) \<union> Y) s" and Y: "set (dev_bufs dev) \<inter> Y = {}" and ok: "dev_ok dev"
    and r: "fifo_at s i = link_fifo r"
  shows "held os (tx_bufs_in_use (txq dev)) (link_fifo r) (set (rx_bufs_in_use (rxq dev)) \<union> Y \<union> other_links s i) s"
proof -
  obtain q x where d: "rx_queues dev = [q]" "tx_queues dev = [x]"
    "dev_bufs dev = rx_bufs_in_use q @ tx_bufs_in_use x" "distinct (rx_bufs_in_use q @ tx_bufs_in_use x)"
    using dev_ok_queues [OF ok] by blast
  have "set (tx_bufs_in_use x) \<union> (set (rx_bufs_in_use q) \<union> Y) = set (dev_bufs dev) \<union> Y" using d(3) by auto
  then show ?thesis
    using eng_split [of os "tx_bufs_in_use x" "set (rx_bufs_in_use q) \<union> Y" s i r] inv Y d r by auto
qed

lemma card_held_whole:
  assumes "held os qs (link_fifo r) (W \<union> other_links s i) t" and "fifo_at s i = link_fifo r"
  shows "length qs + link_count r + card (W \<union> other_links s i) = card (on_links s \<union> (set qs \<union> W))"
proof -
  have "on_links s = set (link_fifo r) \<union> other_links s i"
    using on_links_split [of s i] assms(2) by (simp add: other_links_def)
  then have "set (qs @ link_fifo r) \<union> (W \<union> other_links s i) = on_links s \<union> (set qs \<union> W)" by auto
  then show ?thesis using held_card [OF assms(1)] by simp
qed

lemma ixy_pull_run:
  fixes s :: rush_eng
  assumes inv: "eng_inv (env_os E) (set (dev_bufs dev) \<union> Y) s" and Y: "set (dev_bufs dev) \<inter> Y = {}"
    and ok: "dev_ok dev" and i: "map_of (app_output a) ''output'' = Some i" "i \<in> live s"
    and hw: "eop_hw H" "dma_env (env_os E) H" and reg: "ucast (IXGBE_RDT 0) \<le> dev_len dev - 4"
    and room: "card (on_links s \<union> (set (dev_bufs dev) \<union> Y)) + PULL_NPACKETS \<le> PACKET_LIMIT"
  shows "\<exists>m q' ns' s'. ixy_pull E H dev ns a s = Inr (dev\<lparr>rx_queues := [q']\<rparr>, ns', s') \<and> m \<le> PULL_NPACKETS \<and>
    fifo_at s' = (fifo_at s)(i := take LINK_MAX_PACKETS (fifo_at s i @ arrived dev m)) \<and>
    (m < PULL_NPACKETS \<longrightarrow> \<not> rx_done ns' (slot (rx_descriptors (rxq dev)) (unat (rx_index (rxq dev)) + m))) \<and>
    reg_writes ns' = reg_writes ns @
      (if m = 0 then [] else [(IXGBE_RDT 0, of_nat ((unat (rx_index (rxq dev)) + m - 1) mod 512))])"
proof -
  obtain r where r: "link_at i s = Inr r" "link_wf r" "fifo_at s i = link_fifo r"
    using eng_link_at [OF inv i(2)] by blast
  obtain q x where d: "rx_queues dev = [q]" "tx_queues dev = [x]" "rxq_ok q (rx_index q)"
    "dev_bufs dev = rx_bufs_in_use q @ tx_bufs_in_use x"
    using dev_ok_queues [OF ok] by blast
  note h = held_rx [OF inv Y ok r(3)]
  have "set (rx_bufs_in_use q) \<union> (set (tx_bufs_in_use x) \<union> Y) = set (dev_bufs dev) \<union> Y" using d(4) by auto
  then have room': "512 + link_count r + card (set (tx_bufs_in_use x) \<union> Y \<union> other_links s i) + PULL_NPACKETS \<le> PACKET_LIMIT"
    using card_held_whole [OF h r(3)] room d by (simp add: rxq_ok_def)
  have id: "unat (0 :: u32) < length (rx_queues dev)" "rxq dev = rx_queues dev ! unat (0 :: u32)" using d(1) by simp_all
  have q: "rxq_ok (rxq dev) (rx_index (rxq dev))" using d by simp
  from rx_batch_total [OF hw(1) _ _ id q r(2) h _ reg, of PULL_NPACKETS ns]
  obtain m q' r' ns' t where b: "rx_batch (env_os E) H 0 PULL_NPACKETS dev r ns s =
      Inr (m, dev\<lparr>rx_queues := (rx_queues dev)[unat (0 :: u32) := q']\<rparr>, r', ns', t)"
    "m \<le> PULL_NPACKETS" "pkt_state.more t = pkt_state.more s"
    "m \<le> 512 \<longrightarrow> link_fifo r' = take LINK_MAX_PACKETS (link_fifo r @ arrived dev m)"
    "m < PULL_NPACKETS \<longrightarrow> \<not> rx_done ns' (slot (rx_descriptors (rxq dev)) (unat (rx_index (rxq dev)) + m))"
    "reg_writes ns' = reg_writes ns @
      (if m = 0 then [] else [(IXGBE_RDT 0, of_nat ((unat (rx_index (rxq dev)) + m - 1) mod 512))])"
    using hw(2) room' d by (auto simp: dma_env_def)
  have "m \<le> 512" using b(2) by (simp add: PULL_NPACKETS_eq)
  then have "fifo_at (put_link i r' t) = (fifo_at s)(i := take LINK_MAX_PACKETS (fifo_at s i @ arrived dev m))"
    using b(4) r(3) pkt_more_links(1) [OF b(3)] by (simp add: fun_eq_iff)
  then show ?thesis
    using b r(1) i(1) d(1) by (intro exI [of _ m] exI [of _ q'] exI [of _ ns'] exI [of _ "put_link i r' t"])
      (simp add: ixy_pull_def)
qed

lemma ixy_push_run:
  fixes s :: rush_eng
  assumes inv: "eng_inv os (set (dev_bufs dev) \<union> Y) s" and Y: "set (dev_bufs dev) \<inter> Y = {}"
    and ok: "dev_ok dev" and i: "map_of (app_input a) ''input'' = Some i" "i \<in> live s"
    and hw: "dma_env os H" and reg: "ucast (IXGBE_TDT 0) \<le> dev_len dev - 4"
  shows "\<exists>k m x' ns' s'. ixy_push H dev ns a s = Inr (dev\<lparr>tx_queues := [x']\<rparr>, ns', s') \<and>
    32 * k \<le> length (tx_bufs_in_use (txq dev)) \<and>
    m = min (length (fifo_at s i)) (511 - (length (tx_bufs_in_use (txq dev)) - 32 * k)) \<and>
    tx_bufs_in_use x' = drop (32 * k) (tx_bufs_in_use (txq dev)) @ take m (fifo_at s i) \<and>
    fifo_at s' = (fifo_at s)(i := drop m (fifo_at s i)) \<and>
    posted H s' (take m (fifo_at s i)) (tx_descriptors (txq dev)) (unat (tx_index (txq dev))) ns' \<and>
    reg_writes ns' = reg_writes ns @ [(IXGBE_TDT 0, of_nat ((unat (tx_index (txq dev)) + m) mod 512))]"
proof -
  obtain r where r: "link_at i s = Inr r" "link_wf r" "fifo_at s i = link_fifo r"
    using eng_link_at [OF inv i(2)] by blast
  obtain q x where d: "rx_queues dev = [q]" "tx_queues dev = [x]" "txq_ok x (clean_index x)"
    using dev_ok_queues [OF ok] by blast
  have "set (fifo_at s i) \<subseteq> on_links s" by (auto simp: on_links_def)
  then have "set (link_fifo r) \<subseteq> on_links s" using r(3) by simp
  moreover have "pkt_inv os (on_links s \<union> (set (dev_bufs dev) \<union> Y)) s" using inv by (simp add: eng_inv_def)
  ultimately have dma: "dma_ready H (link_fifo r)"
    using hw unfolding dma_ready_def dma_env_def by blast
  have id: "unat (0 :: u32) < length (tx_queues dev)" "txq dev = tx_queues dev ! unat (0 :: u32)" using d(2) by simp_all
  have x: "txq_ok (txq dev) (clean_index (txq dev))" using d by simp
  from tx_batch_ok [OF id x r(2) held_tx [OF inv Y ok r(3)] dma reg, of ns]
  obtain k m x' r' ns' t where b: "tx_batch H 0 dev r ns s =
      Inr (m, dev\<lparr>tx_queues := (tx_queues dev)[unat (0 :: u32) := x']\<rparr>, r', ns', t)"
    "32 * k \<le> length (tx_bufs_in_use (txq dev))" "m = min (link_count r) (511 - (length (tx_bufs_in_use (txq dev)) - 32 * k))"
    "tx_bufs_in_use x' = drop (32 * k) (tx_bufs_in_use (txq dev)) @ take m (link_fifo r)"
    "link_fifo r' = drop m (link_fifo r)" "pkt_state.more t = pkt_state.more s"
    "reg_writes ns' = reg_writes ns @ [(IXGBE_TDT 0, of_nat (unat (tx_index x')))]"
    "unat (tx_index x') = (unat (tx_index (txq dev)) + m) mod 512"
    "posted H t (take m (link_fifo r)) (tx_descriptors (txq dev)) (unat (tx_index (txq dev))) ns'"
    by (elim exE conjE) (rule that)
  have "fifo_at (put_link i r' t) = (fifo_at s)(i := drop m (fifo_at s i))"
    using b(5) r(3) pkt_more_links(1) [OF b(6)] by (simp add: fun_eq_iff)
  moreover have "ixy_push H dev ns a s = Inr (dev\<lparr>tx_queues := [x']\<rparr>, ns', put_link i r' t)"
    using b(1) r(1) i(1) d(2) by (simp add: ixy_push_def)
  moreover have "m = min (length (fifo_at s i)) (511 - (length (tx_bufs_in_use (txq dev)) - 32 * k))"
    using b(3) r(3) by simp
  moreover have "posted H (put_link i r' t) (take m (link_fifo r)) (tx_descriptors (txq dev)) (unat (tx_index (txq dev))) ns'"
    using b(9) by (simp add: posted_def put_link_def)
  ultimately show ?thesis using b(2,4,7) unfolding b(8) r(3) by blast
qed

section \<open>The network\<close>

abbreviation card_app ::
  "IxgbeDevice \<Rightarrow> nic \<Rightarrow> DeviceStats \<Rightarrow> (string, shared_link) hashmap \<Rightarrow> (string, shared_link) hashmap \<Rightarrow> rush_state" where
  "card_app dev ns st inp outp \<equiv>
     \<lparr>app_obj = Ixy82599App dev ns st, conf = Ixy82599 (pci_addr dev), app_input = inp, app_output = outp\<rparr>"

text \<open>\<open>nic0.output -> nic1.input\<close>, after \<open>configure\<close>.\<close>

definition forwarder ::
  "IxgbeDevice \<times> nic \<times> DeviceStats \<Rightarrow> IxgbeDevice \<times> nic \<times> DeviceStats \<Rightarrow> rush_eng \<Rightarrow> bool" where
  "forwarder = (\<lambda>(dev0, ns0, st0) (dev1, ns1, st1) s.
     app_table s = [(''nic0'', card_app dev0 ns0 st0 [] [(''output'', 0)]),
                    (''nic1'', card_app dev1 ns1 st1 [(''input'', 0)] [])] \<and>
     inhale s = [''nic0'', ''nic1''] \<and> exhale s = [''nic1''] \<and> live s = {0})"

text \<open>The packets of both cards.\<close>

lemma forwarder_owns:
  assumes "forwarder (dev0, ns0, st0) (dev1, ns1, st1) s" and "net_inv os rush_owns s"
  shows "dev_ok dev0" "dev_ok dev1" "eng_inv os (set (dev_bufs dev0) \<union> set (dev_bufs dev1)) s"
    "set (dev_bufs dev0) \<inter> set (dev_bufs dev1) = {}"
proof -
  have at: "own_at rush_owns s n = (if n = ''nic0'' then rush_owns (Ixy82599App dev0 ns0 st0)
      else if n = ''nic1'' then rush_owns (Ixy82599App dev1 ns1 st1) else {})" for n
    using assms(1) by (simp add: forwarder_def own_at_def del: rush_owns.simps)
  have "owned rush_owns s = own_at rush_owns s ''nic0'' \<union> own_at rush_owns s ''nic1''"
    unfolding owned_def at by (auto simp del: rush_owns.simps split: if_splits)
  then have own: "owned rush_owns s = rush_owns (Ixy82599App dev0 ns0 st0) \<union> rush_owns (Ixy82599App dev1 ns1 st1)"
    by (simp only: at) simp
  have inv: "eng_inv os (owned rush_owns s) s" using assms(2) by (simp add: net_inv_def)
  have "owned rush_owns s \<noteq> UNIV" by (rule not_all_in_use [OF inv])
  then show ok: "dev_ok dev0" "dev_ok dev1" by (auto simp: own split: if_splits)
  then show "eng_inv os (set (dev_bufs dev0) \<union> set (dev_bufs dev1)) s" using inv by (simp add: own)
  show "set (dev_bufs dev0) \<inter> set (dev_bufs dev1) = {}"
  proof -
    have "own_at rush_owns s ''nic0'' \<inter> own_at rush_owns s ''nic1'' = {}" using assms(2) by (simp add: net_inv_def)
    then show ?thesis using ok by (simp add: at)
  qed
qed

lemma dev_bufs_bound: "dev_ok dev \<Longrightarrow> card (set (dev_bufs dev)) \<le> 1023"
proof -
  assume "dev_ok dev"
  then obtain q x where d: "rxq_ok q (rx_index q)" "txq_ok x (clean_index x)"
    "dev_bufs dev = rx_bufs_in_use q @ tx_bufs_in_use x"
    using dev_ok_queues by metis
  have "length (dev_bufs dev) < 1024" using d by (simp add: rxq_ok_def txq_ok_def ring_gap_def)
  then show ?thesis using card_length [of "dev_bufs dev"] by simp
qed

section \<open>The steps of a breath\<close>

lemma forward_pull:
  assumes fw: "forwarder (dev0, ns0, st0) (dev1, ns1, st1) s" and inv: "net_inv (env_os E) rush_owns s"
    and fifo: "fifo_at s 0 = []" and hw: "eop_hw (card_hw C (pci_addr dev0))" "dma_env (env_os E) (card_hw C (pci_addr dev0))"
    and reg: "ucast (IXGBE_RDT 0) \<le> dev_len dev0 - 4"
  shows "\<exists>m q' ns' t. call_app (op_pull (rush_ops E C)) ''nic0'' s = Inr t \<and> m \<le> 102 \<and>
    forwarder (dev0\<lparr>rx_queues := [q']\<rparr>, ns', st0) (dev1, ns1, st1) t \<and> fifo_at t 0 = arrived dev0 m \<and>
    (m < 102 \<longrightarrow> \<not> rx_done ns' (slot (rx_descriptors (rxq dev0)) (unat (rx_index (rxq dev0)) + m))) \<and>
    reg_writes ns' = reg_writes ns0 @
      (if m = 0 then [] else [(IXGBE_RDT 0, of_nat ((unat (rx_index (rxq dev0)) + m - 1) mod 512))])"
proof -
  let ?a = "card_app dev0 ns0 st0 [] [(''output'', 0)]"
  note own = forwarder_owns [OF fw inv]
  have live: "0 \<in> live s" "live s = {0}" using fw by (simp_all add: forwarder_def)
  have "fifo_at s j = []" for j using fifo fifo_dead [of j s] live(2) by (cases "j = 0") auto
  then have on: "on_links s = {}" by (simp add: on_links_def)
  have "card (set (dev_bufs dev0) \<union> set (dev_bufs dev1)) \<le> 2046"
    using card_Un_le [of "set (dev_bufs dev0)" "set (dev_bufs dev1)"] dev_bufs_bound [OF own(1)] dev_bufs_bound [OF own(2)]
    by linarith
  then have room: "card (on_links s \<union> (set (dev_bufs dev0) \<union> set (dev_bufs dev1))) + PULL_NPACKETS \<le> PACKET_LIMIT"
    by (simp add: on PULL_NPACKETS_eq PACKET_LIMIT_def)
  obtain m q' ns' u where u: "ixy_pull E (card_hw C (pci_addr dev0)) dev0 ns0 ?a s = Inr (dev0\<lparr>rx_queues := [q']\<rparr>, ns', u)"
    "m \<le> PULL_NPACKETS" "fifo_at u = (fifo_at s)(0 := take LINK_MAX_PACKETS (fifo_at s 0 @ arrived dev0 m))"
    "m < PULL_NPACKETS \<longrightarrow> \<not> rx_done ns' (slot (rx_descriptors (rxq dev0)) (unat (rx_index (rxq dev0)) + m))"
    "reg_writes ns' = reg_writes ns0 @
      (if m = 0 then [] else [(IXGBE_RDT 0, of_nat ((unat (rx_index (rxq dev0)) + m - 1) mod 512))])"
    using ixy_pull_run [OF own(3,4,1) _ live(1) hw reg room, of ?a ns0] by auto
  have fr: "eng_frame s u" using ixy_pull_ok [OF own(3,4,1) _ u(1)] live by (simp add: app_refs_def)
  define t where "t = u\<lparr>app_table := AList.update ''nic0'' (card_app (dev0\<lparr>rx_queues := [q']\<rparr>) ns' st0 [] [(''output'', 0)]) (app_table u)\<rparr>"
  have "call_app (op_pull (rush_ops E C)) ''nic0'' s = Inr t"
    using fw u(1) by (simp add: call_app_def rush_ops_def rush_pull_def forwarder_def t_def)
  moreover have "fifo_at t = fifo_at u" "live t = live u" by (simp_all add: t_def fifo_at_def live_def fun_eq_iff)
  moreover have "length (arrived dev0 m) \<le> LINK_MAX_PACKETS" using u(2) by (simp add: ring_slice_def PULL_NPACKETS_eq)
  moreover have "forwarder (dev0\<lparr>rx_queues := [q']\<rparr>, ns', st0) (dev1, ns1, st1) t"
    using fw fr \<open>live t = live u\<close> by (simp add: forwarder_def eng_frame_def) (simp add: t_def)
  ultimately show ?thesis
    using u fifo by (intro exI [of _ m] exI [of _ q'] exI [of _ ns'] exI [of _ t]) (simp add: PULL_NPACKETS_eq)
qed

lemma forward_idle:
  assumes "forwarder c0 c1 s"
  shows "call_app (op_pull (rush_ops E C)) ''nic1'' s = Inr s"
proof -
  obtain dev0 ns0 st0 dev1 ns1 st1 where c: "c0 = (dev0, ns0, st0)" "c1 = (dev1, ns1, st1)"
    by (cases c0; cases c1)
  then show ?thesis
    using assms by (simp add: call_app_def rush_ops_def rush_pull_def ixy_pull_def forwarder_def)
qed

lemma forward_push:
  assumes fw: "forwarder (dev0, ns0, st0) (dev1, ns1, st1) s" and inv: "net_inv os rush_owns s"
    and hw: "dma_env os (card_hw C (pci_addr dev1))" and reg: "ucast (IXGBE_TDT 0) \<le> dev_len dev1 - 4"
    and room: "length (tx_bufs_in_use (txq dev1)) + length (fifo_at s 0) \<le> 511"
  shows "\<exists>k x' ns' t. call_app (op_push (rush_ops E C)) ''nic1'' s = Inr t \<and> 32 * k \<le> length (tx_bufs_in_use (txq dev1)) \<and>
    forwarder (dev0, ns0, st0) (dev1\<lparr>tx_queues := [x']\<rparr>, ns', st1) t \<and> fifo_at t 0 = [] \<and>
    tx_bufs_in_use x' = drop (32 * k) (tx_bufs_in_use (txq dev1)) @ fifo_at s 0 \<and>
    posted (card_hw C (pci_addr dev1)) t (fifo_at s 0) (tx_descriptors (txq dev1)) (unat (tx_index (txq dev1))) ns' \<and>
    reg_writes ns' = reg_writes ns1 @
      [(IXGBE_TDT 0, of_nat ((unat (tx_index (txq dev1)) + length (fifo_at s 0)) mod 512))]"
proof -
  let ?a = "card_app dev1 ns1 st1 [(''input'', 0)] []"
  note own = forwarder_owns [OF fw inv]
  have inv1: "eng_inv os (set (dev_bufs dev1) \<union> set (dev_bufs dev0)) s" "set (dev_bufs dev1) \<inter> set (dev_bufs dev0) = {}"
    using own(3,4) by (auto simp: Un_commute)
  have live: "0 \<in> live s" "live s = {0}" using fw by (simp_all add: forwarder_def)
  obtain k m x' ns' u where u: "ixy_push (card_hw C (pci_addr dev1)) dev1 ns1 ?a s = Inr (dev1\<lparr>tx_queues := [x']\<rparr>, ns', u)"
    "32 * k \<le> length (tx_bufs_in_use (txq dev1))"
    "m = min (length (fifo_at s 0)) (511 - (length (tx_bufs_in_use (txq dev1)) - 32 * k))"
    "tx_bufs_in_use x' = drop (32 * k) (tx_bufs_in_use (txq dev1)) @ take m (fifo_at s 0)"
    "fifo_at u = (fifo_at s)(0 := drop m (fifo_at s 0))"
    "posted (card_hw C (pci_addr dev1)) u (take m (fifo_at s 0)) (tx_descriptors (txq dev1)) (unat (tx_index (txq dev1))) ns'"
    "reg_writes ns' = reg_writes ns1 @ [(IXGBE_TDT 0, of_nat ((unat (tx_index (txq dev1)) + m) mod 512))]"
    using ixy_push_run [OF inv1 own(2) _ live(1) hw reg, of ?a ns1] by auto
  have m: "m = length (fifo_at s 0)" using u(3) room by simp
  have fr: "eng_frame s u" using ixy_push_ok [OF inv1 own(2) _ u(1)] live by (simp add: app_refs_def)
  define t where "t = u\<lparr>app_table := AList.update ''nic1'' (card_app (dev1\<lparr>tx_queues := [x']\<rparr>) ns' st1 [(''input'', 0)] []) (app_table u)\<rparr>"
  have "call_app (op_push (rush_ops E C)) ''nic1'' s = Inr t"
    using fw u(1) by (simp add: call_app_def rush_ops_def rush_push_def forwarder_def t_def)
  moreover have "fifo_at t = fifo_at u" "live t = live u" by (simp_all add: t_def fifo_at_def live_def fun_eq_iff)
  moreover have "posted (card_hw C (pci_addr dev1)) t (fifo_at s 0) (tx_descriptors (txq dev1)) (unat (tx_index (txq dev1))) ns'"
    using u(6) m by (simp add: posted_def t_def)
  moreover have "forwarder (dev0, ns0, st0) (dev1\<lparr>tx_queues := [x']\<rparr>, ns', st1) t"
    using fw fr \<open>live t = live u\<close> by (simp add: forwarder_def eng_frame_def) (simp add: t_def)
  ultimately show ?thesis
    using u m by (intro exI [of _ k] exI [of _ x'] exI [of _ ns'] exI [of _ t]) simp
qed

section \<open>Two cards to run\<close>

definition forward_net :: "ptr list \<Rightarrow> ptr list \<Rightarrow> rush_eng \<Rightarrow> rush_eng" where
  "forward_net ps qs s =
     s\<lparr>app_table := [(''nic0'', card_app (sample_dev ps) sample_nic default_stats [] [(''output'', 0)]),
                     (''nic1'', card_app (sample_dev qs) sample_nic default_stats [(''input'', 0)] [])],
       inhale := [''nic0'', ''nic1''], exhale := [''nic1'']\<rparr>"

lemma sample_dev_ok:
  "length ps = 512 \<Longrightarrow> distinct ps \<Longrightarrow> dev_ok (sample_dev ps)" "dev_bufs (sample_dev ps) = ps"
  by (simp_all add: dev_ok_def dev_bufs_def sample_dev_def rxq_ok_def txq_ok_def ring_gap_def)

lemma forward_net_inv:
  assumes "length ps = 512" and "length qs = 512" and "distinct (ps @ qs)" and inv: "eng_inv nic_os (set (ps @ qs)) s"
    and "live s = {0}" and "link_table s = []"
  shows "net_inv nic_os rush_owns (forward_net ps qs s)"
proof -
  let ?t = "forward_net ps qs s"
  have own: "own_at rush_owns ?t n = (if n = ''nic0'' then set ps else if n = ''nic1'' then set qs else {})" for n
    using assms(1-3) sample_dev_ok by (simp add: own_at_def forward_net_def)
  have "owned rush_owns ?t = own_at rush_owns ?t ''nic0'' \<union> own_at rush_owns ?t ''nic1''"
    unfolding owned_def own by (auto split: if_splits)
  then have owned: "owned rush_owns ?t = set (ps @ qs)" by (simp add: own)
  have src: "source_part ?t = source_part s" by (simp add: source_part_def forward_net_def)
  have pkt: "pkt_inv nic_os U ?t = pkt_inv nic_os U s" for U
    using ctor.source_only [OF src, of nic_os]
    by (simp add: pkt_inv_def pool_def heap_wf_def steps_ok_def FL_set_def) (simp add: forward_net_def)
  have links: "fifo_at ?t = fifo_at s" "live ?t = live s" "links_ok ?t = links_ok s" "next_link ?t = next_link s"
    by (simp_all add: fifo_at_def live_def links_ok_def forward_net_def fun_eq_iff)
  have refs: "link_refs ?t = [0, 0]" by (simp add: link_refs_def forward_net_def app_refs_def assms(6))
  have "eng_inv nic_os (set (ps @ qs)) ?t"
    using inv pkt by (simp add: eng_inv_def on_links_def links refs assms(5))
  then show ?thesis using assms(3) by (auto simp: net_inv_def owned own)
qed

lemma forward_sample:
  "\<exists>ps qs s. length ps = 512 \<and> length qs = 512 \<and> net_inv nic_os rush_owns (forward_net ps qs s) \<and>
     forwarder (sample_dev ps, sample_nic, default_stats) (sample_dev qs, sample_nic, default_stats) (forward_net ps qs s) \<and>
     fifo_at (forward_net ps qs s) 0 = []"
proof -
  obtain i and s0 :: rush_eng where n: "new_shared_link (eng_init zero_heap :: rush_eng) = (i, s0)" by fastforce
  have s0: "live s0 = {0}" "link_table s0 = []" "app_table s0 = []" "fifo_at s0 j = []" for j
    using n new_link_ok(2)
    by (auto simp: new_shared_link_def Let_def live_def fifo_at_def eng_init_simps split: if_splits)
  have "net_inv nic_os rush_owns s0" using net_new_link [OF card_start n] by simp
  then have e0: "eng_inv nic_os {} s0" by (simp add: net_inv_def owned_def own_at_def s0(3))
  have o0: "on_links s0 = {}" by (simp add: on_links_def s0(4))
  obtain bs s where b: "length bs = 1024" "distinct bs" "eng_inv nic_os (set bs) (s :: rush_eng)" "eng_frame s0 s"
    "fifo_at s = fifo_at s0"
    using buffers_from [OF _ e0 o0, of 1024] by (auto simp: PACKET_LIMIT_def)
  let ?ps = "take 512 bs" and ?qs = "drop 512 bs"
  have fr: "live s = {0}" "link_table s = []" using b(4) s0 by (simp_all add: eng_frame_def)
  have "net_inv nic_os rush_owns (forward_net ?ps ?qs s)"
    by (rule forward_net_inv) (use b fr in simp_all)
  moreover have "forwarder (sample_dev ?ps, sample_nic, default_stats) (sample_dev ?qs, sample_nic, default_stats) (forward_net ?ps ?qs s)"
    using fr by (simp add: forwarder_def forward_net_def live_def)
  moreover have "fifo_at (forward_net ?ps ?qs s) 0 = fifo_at s 0" by (simp add: fifo_at_def forward_net_def)
  then have "fifo_at (forward_net ?ps ?qs s) 0 = []" using b(5) s0(4) by simp
  ultimately show ?thesis using b(1) by (intro exI [of _ ?ps] exI [of _ ?qs] exI [of _ s]) simp
qed

lemma nic_dma_env: "dma_env nic_os sample_hw"
  using nic_allocate nic_dma unfolding dma_env_def by blast

section \<open>Forwarding\<close>



end
