(* ===== verification/Rush_Ixgbe_Regs.thy ===== *)
theory Rush_Ixgbe_Regs
  imports Rush_Ixgbe Rush_Registers_Correct
begin

text \<open>
  The driver's use of registers: accesses stay inside the device's resource, waiting ends when the
  device responds, and the MAC address the driver sets is the one it reads.
\<close>

section \<open>Accesses\<close>

text \<open>The whole resource of the device is mapped.\<close>

definition mapped :: "IxgbeDevice \<Rightarrow> bool" where
  "mapped dev \<longleftrightarrow> 0x20000 \<le> dev_len dev"

lemma in_resource:
  fixes r :: u32
  assumes "mapped dev" and "r \<le> 0x20000 - 4"
  shows "ucast r \<le> dev_len dev - 4"
proof -
  have "unat (dev_len dev - 4) = unat (dev_len dev) - 4"
    using assms(1) by (subst unat_sub_no_wrap) (simp_all add: mapped_def word_le_nat_alt)
  moreover have "unat (ucast r :: usize) = unat r"
    using unat_bound_32 [of r] by (simp add: unsigned_ucast_eq take_bit_nat_eq_self)
  ultimately show ?thesis using assms by (simp add: mapped_def word_le_nat_alt)
qed

lemma set_in_resource:
  "mapped dev \<Longrightarrow> r \<le> 0x20000 - 4 \<Longrightarrow> set_reg32 dev r v ns = Inr (ns\<lparr>reg_writes := reg_writes ns @ [(r, v)]\<rparr>)"
  using in_resource [of dev r] by (simp add: set_reg32_def in_bounds_def)

lemma get_in_resource:
  "mapped dev \<Longrightarrow> r \<le> 0x20000 - 4 \<Longrightarrow>
   get_reg32 H dev r ns = Inr (hw_reg H (accesses ns) (reg_writes ns) r, ns\<lparr>accesses := Suc (accesses ns)\<rparr>)"
  using in_resource [of dev r] by (simp add: get_reg32_def in_bounds_def)

section \<open>Waiting\<close>

lemma wait_set_first:
  assumes "mapped dev" and "r \<le> 0x20000 - 4" and "k < fuel"
    and "hw_reg H (accesses ns + k) (reg_writes ns) r AND v = v"
    and "\<forall>j < k. hw_reg H (accesses ns + j) (reg_writes ns) r AND v \<noteq> v"
  shows "wait_set_reg32 fuel H dev r v ns = Inr (ns\<lparr>accesses := accesses ns + Suc k\<rparr>)"
  using assms(3-)
proof (induction k arbitrary: fuel ns)
  case 0
  then show ?case by (cases fuel) (simp_all add: get_in_resource [OF assms(1,2)])
next
  case (Suc k)
  then obtain f where f: "fuel = Suc f" by (cases fuel) auto
  have "hw_reg H (accesses ns) (reg_writes ns) r AND v \<noteq> v" using Suc.prems(3) by fastforce
  moreover have "hw_reg H (accesses ns + Suc j) (reg_writes ns) r AND v \<noteq> v" if "j < k" for j
    using Suc.prems(3) that by blast
  ultimately show ?case
    using Suc.IH [of f "ns\<lparr>accesses := Suc (accesses ns)\<rparr>"] Suc.prems(1,2) f
    by (simp add: get_in_resource [OF assms(1,2)])
qed

lemma wait_clear_first:
  assumes "mapped dev" and "r \<le> 0x20000 - 4" and "k < fuel"
    and "hw_reg H (accesses ns + k) (reg_writes ns) r AND v = 0"
    and "\<forall>j < k. hw_reg H (accesses ns + j) (reg_writes ns) r AND v \<noteq> 0"
  shows "wait_clear_reg32 fuel H dev r v ns = Inr (ns\<lparr>accesses := accesses ns + Suc k\<rparr>)"
  using assms(3-)
proof (induction k arbitrary: fuel ns)
  case 0
  then show ?case by (cases fuel) (simp_all add: get_in_resource [OF assms(1,2)])
next
  case (Suc k)
  then obtain f where f: "fuel = Suc f" by (cases fuel) auto
  have "hw_reg H (accesses ns) (reg_writes ns) r AND v \<noteq> 0" using Suc.prems(3) by fastforce
  moreover have "hw_reg H (accesses ns + Suc j) (reg_writes ns) r AND v \<noteq> 0" if "j < k" for j
    using Suc.prems(3) that by blast
  ultimately show ?case
    using Suc.IH [of f "ns\<lparr>accesses := Suc (accesses ns)\<rparr>"] Suc.prems(1,2) f
    by (simp add: get_in_resource [OF assms(1,2)])
qed

section \<open>Bytes of a MAC address\<close>

lemma sum_bytes:
  "ucast a + push_bit 8 (ucast b) + push_bit 16 (ucast c) + push_bit 24 (ucast d) =
   (ucast a OR push_bit 8 (ucast b) OR push_bit 16 (ucast c) OR push_bit 24 (ucast d) :: u32)"
  for a b c d :: u8
proof -
  have "(ucast a :: u32) AND push_bit 8 (ucast b) = 0"
    "(ucast a OR push_bit 8 (ucast b) :: u32) AND push_bit 16 (ucast c) = 0"
    "(ucast a OR push_bit 8 (ucast b) OR push_bit 16 (ucast c) :: u32) AND push_bit 24 (ucast d) = 0"
    by (rule bit_word_eqI; auto simp: bit_simps dest: bit_imp_le_length)+
  then show ?thesis by (simp add: disjunctive_add_eq_or or.assoc)
qed

lemma sum_bytes_high:
  "ucast a + push_bit 8 (ucast b) = (ucast a OR push_bit 8 (ucast b) :: u32)" for a b :: u8
  using sum_bytes [of a b 0 0] by simp

lemma byte_of:
  fixes a b c d :: u8
  defines "w \<equiv> ucast a OR push_bit 8 (ucast b) OR push_bit 16 (ucast c) OR push_bit 24 (ucast d) :: u32"
  shows "ucast (w AND 0xff) = a" "ucast (drop_bit 8 w AND 0xff) = b" "ucast (drop_bit 16 w AND 0xff) = c"
    "ucast (drop_bit 24 w) = d"
proof -
  have m: "(0xff :: u32) = mask 8" by (simp add: mask_numeral)
  show "ucast (w AND 0xff) = a" "ucast (drop_bit 8 w AND 0xff) = b" "ucast (drop_bit 16 w AND 0xff) = c"
    "ucast (drop_bit 24 w) = d"
    unfolding m w_def by (rule bit_word_eqI; auto simp: bit_simps dest: bit_imp_le_length)+
qed

section \<open>Properties\<close>

text \<open>A device to run on: its registers hold what was written to them last.\<close>

definition register_hw :: hardware where
  "register_hw =
     \<lparr>hw_reg = (\<lambda>n ws r. case map_of (rev ws) r of Some v \<Rightarrow> v | None \<Rightarrow> of_nat n),
      hw_desc = (\<lambda>n m. m), hw_data = (\<lambda>_ _ _. []), hw_seconds = (\<lambda>n. n), data_offset = 16\<rparr>"

definition bare_dev :: IxgbeDevice where
  "bare_dev =
     \<lparr>pci_addr = ''0000:01:00.0'', dev_addr = 0x7f0000000000, dev_len = 0x20000, num_rx_queues = 0,
      num_tx_queues = 0, rx_queues = [], tx_queues = []\<rparr>"

definition bare_nic :: nic where
  "bare_nic = \<lparr>desc_mem = (\<lambda>_. \<lparr>qw0 = 0, qw1 = 0\<rparr>), accesses = 0, reg_writes = []\<rparr>"

text \<open>
  C36: a MAC address that was set is read back, on a device whose address registers hold what was
  written to them (of the high register, the 16 bits of the address).
\<close>

theorem mac_addr_roundtrip:
  assumes "mapped dev" and "length mac = 6"
    and "\<And>n ws lo hi. hw_reg H n (ws @ [(IXGBE_RAL 0, lo), (IXGBE_RAH 0, hi)]) (IXGBE_RAL 0) = lo \<and>
      hw_reg H n (ws @ [(IXGBE_RAL 0, lo), (IXGBE_RAH 0, hi)]) (IXGBE_RAH 0) AND 0xffff = hi AND 0xffff"
  shows "\<exists>ns1 ns2. set_mac_addr dev mac ns = Inr ns1 \<and> get_mac_addr H dev ns1 = Inr (mac, ns2)"
proof -
  obtain a b c d e f where mac: "mac = [a, b, c, d, e, f]"
    using assms(2) by (auto simp: numeral_eq_Suc length_Suc_conv)
  define lo hi :: u32 where "lo = ucast a + push_bit 8 (ucast b) + push_bit 16 (ucast c) + push_bit 24 (ucast d)"
    and "hi = ucast e + push_bit 8 (ucast f)"
  have lo: "lo = ucast a OR push_bit 8 (ucast b) OR push_bit 16 (ucast c) OR push_bit 24 (ucast d)"
    unfolding lo_def by (rule sum_bytes)
  have hi: "hi = ucast e OR push_bit 8 (ucast f)" unfolding hi_def by (rule sum_bytes_high)
  define ns1 where "ns1 = ns\<lparr>reg_writes := reg_writes ns @ [(IXGBE_RAL 0, lo), (IXGBE_RAH 0, hi)]\<rparr>"
  have r: "IXGBE_RAL 0 \<le> 0x20000 - 4" "IXGBE_RAH 0 \<le> 0x20000 - 4" by (simp_all add: IXGBE_RAL_def IXGBE_RAH_def)
  have set: "set_mac_addr dev mac ns = Inr ns1"
    by (simp add: set_mac_addr_def mac Let_def set_in_resource [OF assms(1) r(1)]
        set_in_resource [OF assms(1) r(2)] ns1_def lo_def hi_def)
  let ?h = "hw_reg H (Suc (accesses ns)) (reg_writes ns1) (IXGBE_RAH 0)"
  have "hw_reg H (accesses ns) (reg_writes ns1) (IXGBE_RAL 0) = lo" and h: "?h AND 0xffff = hi AND 0xffff"
    using assms(3) by (simp_all add: ns1_def)
  moreover have m: "x AND 0xff = (x AND 0xffff) AND 0xff" "drop_bit 8 x AND 0xff = drop_bit 8 (x AND 0xffff)" for x :: u32
    by (simp_all add: and.assoc)
  have "?h AND 0xff = hi AND 0xff" "drop_bit 8 ?h AND 0xff = drop_bit 8 hi AND 0xff"
    using h m by metis+
  moreover note byte_of [of a b c d] byte_of [of e f 0 0]
  ultimately have "get_mac_addr H dev ns1 = Inr (mac, ns1\<lparr>accesses := Suc (Suc (accesses ns))\<rparr>)"
    by (simp add: get_mac_addr_def get_in_resource [OF assms(1) r(1)] get_in_resource [OF assms(1) r(2)] mac lo hi) (simp add: ns1_def)
  then show ?thesis using set by blast
qed

theorem mac_addr_roundtrip_witness:
  "\<exists>ns1 ns2. set_mac_addr bare_dev [0x52, 0x54, 0, 0, 0, 1] bare_nic = Inr ns1 \<and>
     get_mac_addr register_hw bare_dev ns1 = Inr ([0x52, 0x54, 0, 0, 0, 1], ns2)"
  by (rule mac_addr_roundtrip)
    (simp_all add: mapped_def bare_dev_def register_hw_def IXGBE_RAL_def IXGBE_RAH_def)

text \<open>
  Waiting for a register returns as soon as the device responds. If the bits are first as
  expected at the \<open>k\<close>-th read, exactly \<open>k + 1\<close> reads are made and nothing is
  written; any number of rounds beyond that is enough.
\<close>

theorem wait_returns_at_response:
  assumes "mapped dev" and "r \<le> 0x20000 - 4" and "k < fuel"
  shows "(hw_reg H (accesses ns + k) (reg_writes ns) r AND v = v \<and>
      (\<forall>j < k. hw_reg H (accesses ns + j) (reg_writes ns) r AND v \<noteq> v) \<longrightarrow>
      wait_set_reg32 fuel H dev r v ns = Inr (ns\<lparr>accesses := accesses ns + Suc k\<rparr>)) \<and>
    (hw_reg H (accesses ns + k) (reg_writes ns) r AND v = 0 \<and>
      (\<forall>j < k. hw_reg H (accesses ns + j) (reg_writes ns) r AND v \<noteq> 0) \<longrightarrow>
      wait_clear_reg32 fuel H dev r v ns = Inr (ns\<lparr>accesses := accesses ns + Suc k\<rparr>))"
  using wait_set_first [OF assms] wait_clear_first [OF assms] by blast

end
