(* ===== verification/Rush_Init_Correct.thy ===== *)
theory Rush_Init_Correct
  imports Rush_Forward Rush_Ixgbe_Regs
begin

text \<open>
  The initialisation of a card ends and leaves the card and the driver with the same idea of the
  rings: which registers \<open>reset_and_init\<close> writes, in which order and with which values, and what
  the receive descriptors hold.
\<close>

section \<open>What a block of register accesses writes\<close>

text \<open>A write is expected to a register, with a value that has some property.\<close>

type_synonym expected = "u32 \<times> (u32 \<Rightarrow> bool)"

definition conforms :: "(u32 \<times> u32) list \<Rightarrow> expected list \<Rightarrow> bool" where
  "conforms ws es \<longleftrightarrow> list_all2 (\<lambda>(r, v) (r', P). r = r' \<and> P v) ws es"

text \<open>\<open>logs f es\<close>: the block always ends, writes what is expected and touches nothing else.\<close>

definition logs :: "(nic \<Rightarrow> nic res) \<Rightarrow> expected list \<Rightarrow> bool" where
  "logs f es \<longleftrightarrow>
     (\<forall>ns. \<exists>ws k. f ns = Inr (ns\<lparr>reg_writes := reg_writes ns @ ws, accesses := accesses ns + k\<rparr>) \<and> conforms ws es)"

abbreviation exactly :: "u32 \<Rightarrow> u32 \<Rightarrow> expected" where
  "exactly r v \<equiv> (r, \<lambda>w. w = v)"

abbreviation with_flags :: "u32 \<Rightarrow> u32 \<Rightarrow> expected" where
  "with_flags r v \<equiv> (r, \<lambda>w. w AND v = v)"

abbreviation without_flags :: "u32 \<Rightarrow> u32 \<Rightarrow> expected" where
  "without_flags r v \<equiv> (r, \<lambda>w. w AND v = 0)"

abbreviation somehow :: "u32 \<Rightarrow> expected" where
  "somehow r \<equiv> (r, \<lambda>w. True)"

named_theorems logs_intros

lemma conforms_append: "conforms ws es \<Longrightarrow> conforms ws' es' \<Longrightarrow> conforms (ws @ ws') (es @ es')"
  unfolding conforms_def by (rule list_all2_appendI)

lemma conforms_Nil [simp]: "conforms [] es \<longleftrightarrow> es = []"
  by (simp add: conforms_def)

lemma conforms_one [simp]: "conforms [(r, v)] [(r', P)] \<longleftrightarrow> r = r' \<and> P v"
  by (simp add: conforms_def)

lemma logsI:
  assumes "\<And>ns. \<exists>ws k. f ns = Inr (ns\<lparr>reg_writes := reg_writes ns @ ws, accesses := accesses ns + k\<rparr>) \<and> conforms ws es"
  shows "logs f es"
  using assms by (simp add: logs_def)

lemma logs_Nil: "logs (steps []) []"
  by (rule logsI) (auto intro!: exI [of _ "[]"] exI [of _ "0 :: nat"])

lemma logs_Cons:
  assumes "logs f es" and "logs (steps fs) es'"
  shows "logs (steps (f # fs)) (es @ es')"
proof (rule logsI)
  fix ns :: nic
  obtain ws k where f: "f ns = Inr (ns\<lparr>reg_writes := reg_writes ns @ ws, accesses := accesses ns + k\<rparr>)" "conforms ws es"
    using assms(1) unfolding logs_def by blast
  obtain ws' k' where g: "steps fs (ns\<lparr>reg_writes := reg_writes ns @ ws, accesses := accesses ns + k\<rparr>) =
      Inr (ns\<lparr>reg_writes := reg_writes ns @ ws @ ws', accesses := accesses ns + (k + k')\<rparr>)" "conforms ws' es'"
    using spec [OF assms(2) [unfolded logs_def], of "ns\<lparr>reg_writes := reg_writes ns @ ws, accesses := accesses ns + k\<rparr>"]
    by (auto simp: add.assoc)
  show "\<exists>ws k. steps (f # fs) ns = Inr (ns\<lparr>reg_writes := reg_writes ns @ ws, accesses := accesses ns + k\<rparr>) \<and>
      conforms ws (es @ es')"
    using f g conforms_append by (intro exI [of _ "ws @ ws'"] exI [of _ "k + k'"]) simp
qed

lemma logs_steps: "list_all2 logs fs ess \<Longrightarrow> logs (steps fs) (concat ess)"
  by (induction rule: list_all2_induct) (simp_all add: logs_Nil logs_Cons del: fold_res.simps)

lemma logs_for:
  assumes "\<And>i. i \<in> set is \<Longrightarrow> logs (f i) (es i)"
  shows "logs (fold_res f is) (concat (map es is))"
proof -
  have "fold_res f is = steps (map f is)"
  proof
    fix ns :: nic
    show "fold_res f is ns = steps (map f is) ns"
      by (induction "is" arbitrary: ns) (simp_all add: bind_res_def split: sum.splits)
  qed
  then show ?thesis using logs_steps [of "map f is" "map es is"] assms by (simp add: list_all2_conv_all_nth)
qed

section \<open>Single accesses\<close>

lemma reg_bound: "(r :: u32) \<le> 0x1fffc \<Longrightarrow> r \<le> 0x20000 - 4"
  by simp

lemma logs_set [logs_intros]: "mapped dev \<Longrightarrow> r \<le> 0x1fffc \<Longrightarrow> logs (set_reg32 dev r v) [exactly r v]"
  by (rule logsI) (auto simp: set_in_resource [OF _ reg_bound] intro!: exI [of _ "[(r, v)]"] exI [of _ "0 :: nat"])

lemma logs_modify:
  assumes "mapped dev" and "r \<le> 0x1fffc" and "\<And>w. P (g w)"
  shows "logs (\<lambda>ns. bind_res (get_reg32 H dev r ns) (\<lambda>(v, ns). set_reg32 dev r (g v) ns)) [(r, P)]"
proof (rule logsI)
  fix ns :: nic
  show "\<exists>ws k. bind_res (get_reg32 H dev r ns) (\<lambda>(v, ns). set_reg32 dev r (g v) ns) =
      Inr (ns\<lparr>reg_writes := reg_writes ns @ ws, accesses := accesses ns + k\<rparr>) \<and> conforms ws [(r, P)]"
    using assms
    by (intro exI [of _ "[(r, g (hw_reg H (accesses ns) (reg_writes ns) r))]"] exI [of _ "1 :: nat"])
      (simp add: get_in_resource [OF _ reg_bound] set_in_resource [OF _ reg_bound])
qed

lemma or_and_absorb: "((w :: u32) OR v) AND v = v" "(w AND NOT v) AND v = 0"
  by (auto intro!: bit_word_eqI simp: bit_simps)

lemma logs_flags [logs_intros]: "mapped dev \<Longrightarrow> r \<le> 0x1fffc \<Longrightarrow> logs (set_flags32 H dev r v) [with_flags r v]"
  using logs_modify [of dev r "\<lambda>w. w AND v = v" "\<lambda>w. w OR v" H]
  by (simp add: set_flags32_def [abs_def] or_and_absorb)

lemma logs_clear [logs_intros]: "mapped dev \<Longrightarrow> r \<le> 0x1fffc \<Longrightarrow> logs (clear_flags32 H dev r v) [without_flags r v]"
  using logs_modify [of dev r "\<lambda>w. w AND v = 0" "\<lambda>w. w AND NOT v" H]
  by (simp add: clear_flags32_def [abs_def] or_and_absorb)

lemma logs_change [logs_intros]: "mapped dev \<Longrightarrow> r \<le> 0x1fffc \<Longrightarrow> logs (change_reg32 H dev r cl st) [with_flags r st]"
  using logs_modify [of dev r "\<lambda>w. w AND st = st" "\<lambda>w. (w AND NOT cl) OR st" H]
  by (simp add: change_reg32_def [abs_def] or_and_absorb)

lemma logs_read [logs_intros]: "mapped dev \<Longrightarrow> r \<le> 0x1fffc \<Longrightarrow> logs (read_reg H dev r) []"
  by (rule logsI) (auto simp: read_reg_def get_in_resource [OF _ reg_bound] intro!: exI [of _ "[]"] exI [of _ "1 :: nat"])

text \<open>The device answers within a number of reads, whatever was written before.\<close>

definition answers :: "nat \<Rightarrow> hardware \<Rightarrow> u32 \<Rightarrow> (u32 \<Rightarrow> bool) \<Rightarrow> bool" where
  "answers fuel H r P \<longleftrightarrow> (\<forall>n ws. \<exists>k < fuel. P (hw_reg H (n + k) ws r))"

lemma answers_first:
  assumes "answers fuel H r P"
  shows "\<exists>k < fuel. P (hw_reg H (n + k) ws r) \<and> (\<forall>j < k. \<not> P (hw_reg H (n + j) ws r))"
proof -
  obtain k where "k < fuel" "P (hw_reg H (n + k) ws r)" using assms unfolding answers_def by blast
  then show ?thesis
    using exists_least_iff [of "\<lambda>k. P (hw_reg H (n + k) ws r)"] by (metis linorder_neqE_nat order_less_trans)
qed

lemma logs_wait_set [logs_intros]:
  assumes "mapped dev" and "r \<le> 0x1fffc" and "answers fuel H r (\<lambda>w. w AND v = v)"
  shows "logs (wait_set_reg32 fuel H dev r v) []"
proof (rule logsI)
  fix ns :: nic
  obtain k where k: "k < fuel" "hw_reg H (accesses ns + k) (reg_writes ns) r AND v = v"
    "\<forall>j < k. hw_reg H (accesses ns + j) (reg_writes ns) r AND v \<noteq> v"
    using answers_first [OF assms(3)] by blast
  show "\<exists>ws k. wait_set_reg32 fuel H dev r v ns =
      Inr (ns\<lparr>reg_writes := reg_writes ns @ ws, accesses := accesses ns + k\<rparr>) \<and> conforms ws []"
    by (intro exI [of _ "[]"] exI [of _ "Suc k"])
      (simp add: wait_set_first [OF assms(1) reg_bound [OF assms(2)] k])
qed

lemma logs_wait_clear [logs_intros]:
  assumes "mapped dev" and "r \<le> 0x1fffc" and "answers fuel H r (\<lambda>w. w AND v = 0)"
  shows "logs (wait_clear_reg32 fuel H dev r v) []"
proof (rule logsI)
  fix ns :: nic
  obtain k where k: "k < fuel" "hw_reg H (accesses ns + k) (reg_writes ns) r AND v = 0"
    "\<forall>j < k. hw_reg H (accesses ns + j) (reg_writes ns) r AND v \<noteq> 0"
    using answers_first [OF assms(3)] by blast
  show "\<exists>ws k. wait_clear_reg32 fuel H dev r v ns =
      Inr (ns\<lparr>reg_writes := reg_writes ns @ ws, accesses := accesses ns + k\<rparr>) \<and> conforms ws []"
    by (intro exI [of _ "[]"] exI [of _ "Suc k"])
      (simp add: wait_clear_first [OF assms(1) reg_bound [OF assms(2)] k])
qed

lemma logs_cong: "logs f es \<Longrightarrow> es = es' \<Longrightarrow> logs f es'"
  by simp

section \<open>Blocks on registers only\<close>

lemma logs_disable_interrupts [logs_intros]:
  assumes "mapped dev"
  shows "logs (disable_interrupts H dev) [exactly IXGBE_EIMS 0, exactly IXGBE_EIMC IXGBE_IRQ_CLEAR_MASK]"
  unfolding disable_interrupts_def clear_interrupts_def
  by (rule logs_cong, rule logs_steps,
      (rule list.rel_intros logs_intros logs_steps [THEN logs_cong] |
       simp add: assms IXGBE_EIMS_def IXGBE_EIMC_def IXGBE_EICR_def)+)

lemma logs_init_link [logs_intros]:
  assumes "mapped dev"
  shows "logs (init_link H dev)
    [with_flags IXGBE_AUTOC IXGBE_AUTOC_LMS_10G_SERIAL, with_flags IXGBE_AUTOC IXGBE_AUTOC_10G_XAUI,
     with_flags IXGBE_AUTOC IXGBE_AUTOC_AN_RESTART]"
  unfolding init_link_def
  by (rule logs_cong, rule logs_steps,
      (rule list.rel_intros logs_intros | simp add: assms IXGBE_AUTOC_def)+)

lemma logs_reset_stats [logs_intros]:
  assumes "mapped dev"
  shows "logs (reset_stats H dev) []"
  unfolding reset_stats_def
  by (rule logs_cong, rule logs_steps,
      (rule list.rel_intros logs_intros | simp add: assms IXGBE_GPRC_def IXGBE_GPTC_def IXGBE_GORCL_def
        IXGBE_GORCH_def IXGBE_GOTCL_def IXGBE_GOTCH_def)+)

lemma logs_set_promisc [logs_intros]:
  assumes "mapped dev"
  shows "logs (set_promisc H dev True) [with_flags IXGBE_FCTRL (IXGBE_FCTRL_MPE OR IXGBE_FCTRL_UPE)]"
  using logs_flags [OF assms, of IXGBE_FCTRL H] by (simp add: set_promisc_def IXGBE_FCTRL_def)

lemma logs_get_mac [logs_intros]:
  assumes "mapped dev"
  shows "logs (\<lambda>ns. bind_res (get_mac_addr H dev ns) (\<lambda>(_, ns). Inr ns)) []"
proof (rule logsI)
  fix ns :: nic
  have "IXGBE_RAL 0 \<le> 0x20000 - 4" "IXGBE_RAH 0 \<le> 0x20000 - 4" by (simp_all add: IXGBE_RAL_def IXGBE_RAH_def)
  from get_in_resource [OF assms this(1)] get_in_resource [OF assms this(2)]
  show "\<exists>ws k. bind_res (get_mac_addr H dev ns) (\<lambda>(_, ns). Inr ns) =
      Inr (ns\<lparr>reg_writes := reg_writes ns @ ws, accesses := accesses ns + k\<rparr>) \<and> conforms ws []"
    by (intro exI [of _ "[]"] exI [of _ "2 :: nat"]) (simp add: get_mac_addr_def)
qed

text \<open>Ten seconds pass within a number of register reads, so waiting for the link ends.\<close>

definition timely :: "nat \<Rightarrow> hardware \<Rightarrow> bool" where
  "timely fuel H \<longleftrightarrow> 0 < fuel \<and> (\<forall>n. hw_seconds H n + 10 \<le> hw_seconds H (n + fuel))"

lemma link_speed_total:
  assumes "mapped dev"
  shows "\<exists>v. get_link_speed H dev ns = Inr (v, ns\<lparr>accesses := Suc (accesses ns)\<rparr>)"
proof -
  have "IXGBE_LINKS \<le> 0x20000 - 4" by (simp add: IXGBE_LINKS_def)
  from get_in_resource [OF assms this] show ?thesis by (simp add: get_link_speed_def)
qed

lemma wait_link_total:
  assumes "mapped dev" and "0 < fuel" and "start + 10 \<le> hw_seconds H (accesses ns + (fuel - 1))"
  shows "\<exists>k. wait_link_loop fuel H dev start speed ns = Inr (ns\<lparr>accesses := accesses ns + k\<rparr>)"
  using assms(2,3)
proof (induction fuel arbitrary: speed ns)
  case 0
  then show ?case by simp
next
  case (Suc f)
  show ?case
  proof (cases "speed = 0 \<and> hw_seconds H (accesses ns) - start < 10")
    case False
    then show ?thesis by (intro exI [of _ "0 :: nat"]) auto
  next
    case True
    then have "0 < f" using Suc.prems(2) by (cases f) auto
    obtain v where v: "get_link_speed H dev ns = Inr (v, ns\<lparr>accesses := Suc (accesses ns)\<rparr>)"
      using link_speed_total [OF assms(1)] by blast
    have "start + 10 \<le> hw_seconds H (accesses (ns\<lparr>accesses := Suc (accesses ns)\<rparr>) + (f - 1))"
      using Suc.prems(2) \<open>0 < f\<close> by simp
    from Suc.IH [OF \<open>0 < f\<close> this, of v] obtain k
      where "wait_link_loop f H dev start v (ns\<lparr>accesses := Suc (accesses ns)\<rparr>) = Inr (ns\<lparr>accesses := Suc (accesses ns) + k\<rparr>)"
      by auto
    then show ?thesis using True v by (intro exI [of _ "Suc k"]) simp
  qed
qed

lemma logs_wait_for_link [logs_intros]:
  assumes "mapped dev" and "timely fuel H"
  shows "logs (wait_for_link fuel H dev) []"
proof (rule logsI)
  fix ns :: nic
  let ?ns = "ns\<lparr>accesses := Suc (accesses ns)\<rparr>" and ?start = "hw_seconds H (accesses ns)"
  obtain v where v: "get_link_speed H dev ns = Inr (v, ?ns)" using link_speed_total [OF assms(1)] by blast
  have "0 < fuel" "?start + 10 \<le> hw_seconds H (accesses ?ns + (fuel - 1))" using assms(2) by (simp_all add: timely_def)
  from wait_link_total [OF assms(1) this, of v] obtain k
    where "wait_link_loop fuel H dev ?start v ?ns = Inr (?ns\<lparr>accesses := accesses ?ns + k\<rparr>)" by blast
  then show "\<exists>ws k. wait_for_link fuel H dev ns =
      Inr (ns\<lparr>reg_writes := reg_writes ns @ ws, accesses := accesses ns + k\<rparr>) \<and> conforms ws []"
    using v by (intro exI [of _ "[]"] exI [of _ "Suc k"]) (simp add: wait_for_link_def)
qed

section \<open>Blocks on the driver's state\<close>

text \<open>What was written between two states of the device.\<close>

definition log_between :: "nic \<Rightarrow> expected list \<Rightarrow> nic \<Rightarrow> bool" where
  "log_between ns es ns' \<longleftrightarrow> (\<exists>ws. reg_writes ns' = reg_writes ns @ ws \<and> conforms ws es)"

lemma log_between_trans:
  "log_between ns es ns1 \<Longrightarrow> log_between ns1 es' ns2 \<Longrightarrow> log_between ns (es @ es') ns2"
  using conforms_append by (fastforce simp: log_between_def)

lemma log_between_same: "reg_writes ns' = reg_writes ns \<Longrightarrow> log_between ns [] ns'"
  by (simp add: log_between_def)

lemma logs_run:
  assumes "logs f es"
  shows "\<exists>ns'. f ns = Inr ns' \<and> log_between ns es ns' \<and> desc_mem ns' = desc_mem ns"
proof -
  obtain ws k where "f ns = Inr (ns\<lparr>reg_writes := reg_writes ns @ ws, accesses := accesses ns + k\<rparr>)" "conforms ws es"
    using assms unfolding logs_def by blast
  then show ?thesis by (auto simp: log_between_def)
qed

lemma regs_block:
  "steps (map regs fs) (dev, ns, s) = bind_res (steps (map (\<lambda>f. f dev) fs) ns) (\<lambda>ns. Inr (dev, ns, s))"
proof (induction fs arbitrary: ns)
  case (Cons f fs)
  then show ?case by (cases "f dev ns") (simp_all add: regs_def)
qed simp

lemma regs_block_run:
  assumes "list_all2 (\<lambda>f. logs (f dev)) fs ess"
  shows "\<exists>ns'. steps (map regs fs) (dev, ns, s) = Inr (dev, ns', s) \<and> log_between ns (concat ess) ns' \<and>
    desc_mem ns' = desc_mem ns"
proof -
  have "logs (steps (map (\<lambda>f. f dev) fs)) (concat ess)"
    by (rule logs_steps) (use assms in \<open>simp add: list_all2_conv_all_nth\<close>)
  then obtain ns' where ns': "steps (map (\<lambda>f. f dev) fs) ns = Inr ns'" "log_between ns (concat ess) ns'"
      "desc_mem ns' = desc_mem ns"
    using logs_run by blast
  have "steps (map regs fs) (dev, ns, s) = Inr (dev, ns', s)" unfolding regs_block ns'(1) by simp
  then show ?thesis using ns'(2,3) by blast
qed

lemma regs_block_log:
  assumes "list_all2 (\<lambda>f. logs (f dev)) fs ess" and "concat ess = es"
  shows "\<exists>ns'. steps (map regs fs) (dev, ns, s) = Inr (dev, ns', s) \<and> log_between ns es ns' \<and> desc_mem ns' = desc_mem ns"
  using regs_block_run [OF assms(1)] assms(2) by blast

section \<open>The rings\<close>

text \<open>The registers of the receive ring at a physical address.\<close>

definition rx_ring_log :: "u64 \<Rightarrow> expected list" where
  "rx_ring_log pa =
     [with_flags (IXGBE_SRRCTL 0) IXGBE_SRRCTL_DESCTYPE_ADV_ONEBUF, with_flags (IXGBE_SRRCTL 0) IXGBE_SRRCTL_DROP_EN,
      exactly (IXGBE_RDBAL 0) (ucast (pa AND 0xffffffff)), exactly (IXGBE_RDBAH 0) (ucast (drop_bit 32 pa)),
      exactly (IXGBE_RDLEN 0) 8192, exactly (IXGBE_RDH 0) 0, exactly (IXGBE_RDT 0) 0]"

definition tx_ring_log :: "u64 \<Rightarrow> expected list" where
  "tx_ring_log pa =
     [exactly (IXGBE_TDBAL 0) (ucast (pa AND 0xffffffff)), exactly (IXGBE_TDBAH 0) (ucast (drop_bit 32 pa)),
      exactly (IXGBE_TDLEN 0) 8192, somehow (IXGBE_TXDCTL 0)]"

lemmas ring_regs = IXGBE_SRRCTL_def IXGBE_RDBAL_def IXGBE_RDBAH_def IXGBE_RDLEN_def IXGBE_RDH_def IXGBE_RDT_def
  IXGBE_TDBAL_def IXGBE_TDBAH_def IXGBE_TDLEN_def IXGBE_TDH_def IXGBE_TDT_def IXGBE_TXDCTL_def IXGBE_RXDCTL_def

lemma init_rx_queue_run:
  assumes m: "mapped dev" and a: "dma_alloc os 8192 128 s = Inr (a, s')" "virtual_to_physical a = Inr pa"
  shows "\<exists>ns'. init_rx_queue os H 0 (dev, ns, s) = Inr (dev\<lparr>rx_queues := rx_queues dev @ [\<lparr>rx_descriptors = a,
      rx_num_descriptors = 512, rx_bufs_in_use = [], rx_index = 0\<rparr>]\<rparr>, ns', s') \<and> log_between ns (rx_ring_log pa) ns'"
proof -
  have "logs (steps [change_reg32 H dev (IXGBE_SRRCTL 0) IXGBE_SRRCTL_DESCTYPE_MASK IXGBE_SRRCTL_DESCTYPE_ADV_ONEBUF,
        set_flags32 H dev (IXGBE_SRRCTL 0) IXGBE_SRRCTL_DROP_EN]) (take 2 (rx_ring_log pa))"
    by (rule logs_cong, rule logs_steps,
        (rule list.rel_intros logs_intros | simp add: m ring_regs rx_ring_log_def)+)
  from logs_run [OF this, of ns] obtain ns1 where 1: "steps [change_reg32 H dev (IXGBE_SRRCTL 0)
        IXGBE_SRRCTL_DESCTYPE_MASK IXGBE_SRRCTL_DESCTYPE_ADV_ONEBUF,
      set_flags32 H dev (IXGBE_SRRCTL 0) IXGBE_SRRCTL_DROP_EN] ns = Inr ns1" "log_between ns (take 2 (rx_ring_log pa)) ns1"
    by blast
  let ?ns = "memset_ff a 8192 ns1"
  have "logs (steps [set_reg32 dev (IXGBE_RDBAL 0) (ucast (pa AND 0xffffffff)),
        set_reg32 dev (IXGBE_RDBAH 0) (ucast (drop_bit 32 pa)), set_reg32 dev (IXGBE_RDLEN 0) 8192,
        set_reg32 dev (IXGBE_RDH 0) 0, set_reg32 dev (IXGBE_RDT 0) 0]) (drop 2 (rx_ring_log pa))"
    by (rule logs_cong, rule logs_steps,
        (rule list.rel_intros logs_intros | simp add: m ring_regs rx_ring_log_def)+)
  from logs_run [OF this, of ?ns] obtain ns2 where 2: "steps [set_reg32 dev (IXGBE_RDBAL 0) (ucast (pa AND 0xffffffff)),
        set_reg32 dev (IXGBE_RDBAH 0) (ucast (drop_bit 32 pa)), set_reg32 dev (IXGBE_RDLEN 0) 8192,
        set_reg32 dev (IXGBE_RDH 0) 0, set_reg32 dev (IXGBE_RDT 0) 0] ?ns = Inr ns2"
      "log_between ?ns (drop 2 (rx_ring_log pa)) ns2"
    by blast
  have "log_between ns (take 2 (rx_ring_log pa) @ drop 2 (rx_ring_log pa)) ns2"
    using 1(2) 2(2) conforms_append by (fastforce simp: log_between_def memset_ff_def)
  then show ?thesis
    using 1(1) 2(1) a
    by (simp add: init_rx_queue_def NUM_RX_QUEUE_ENTRIES_def size_of_desc_def del: fold_res.simps)
qed

lemma init_tx_queue_run:
  assumes m: "mapped dev" and a: "dma_alloc os 8192 128 s = Inr (a, s')" "virtual_to_physical a = Inr pa"
  shows "\<exists>ns'. init_tx_queue os H 0 (dev, ns, s) = Inr (dev\<lparr>tx_queues := tx_queues dev @ [\<lparr>tx_descriptors = a,
      tx_num_descriptors = 512, tx_bufs_in_use = [], clean_index = 0, tx_index = 0\<rparr>]\<rparr>, ns', s') \<and>
    log_between ns (tx_ring_log pa) ns'"
proof -
  let ?ns = "memset_ff a 8192 ns"
  have "logs (steps [set_reg32 dev (IXGBE_TDBAL 0) (ucast (pa AND 0xffffffff)),
        set_reg32 dev (IXGBE_TDBAH 0) (ucast (drop_bit 32 pa)), set_reg32 dev (IXGBE_TDLEN 0) 8192]) (take 3 (tx_ring_log pa))"
    by (rule logs_cong, rule logs_steps,
        (rule list.rel_intros logs_intros | simp add: m ring_regs tx_ring_log_def)+)
  from logs_run [OF this, of ?ns] obtain ns1 where 1: "steps [set_reg32 dev (IXGBE_TDBAL 0) (ucast (pa AND 0xffffffff)),
        set_reg32 dev (IXGBE_TDBAH 0) (ucast (drop_bit 32 pa)), set_reg32 dev (IXGBE_TDLEN 0) 8192] ?ns = Inr ns1"
      "log_between ?ns (take 3 (tx_ring_log pa)) ns1"
    by blast
  have r: "IXGBE_TXDCTL 0 \<le> 0x20000 - 4" by (simp add: ring_regs)
  define v where "v = txdctl_thresholds (hw_reg H (accesses ns1) (reg_writes ns1) (IXGBE_TXDCTL 0))"
  define ns2 where "ns2 = ns1\<lparr>accesses := Suc (accesses ns1), reg_writes := reg_writes ns1 @ [(IXGBE_TXDCTL 0, v)]\<rparr>"
  have "log_between ?ns (take 3 (tx_ring_log pa) @ drop 3 (tx_ring_log pa)) ns2"
    by (rule log_between_trans [OF 1(2)]) (simp add: log_between_def ns2_def tx_ring_log_def)
  then have "log_between ns (tx_ring_log pa) ns2" by (simp add: log_between_def memset_ff_def)
  then show ?thesis
    using 1(1) a get_in_resource [OF m r, of H ns1] set_in_resource [OF m r]
    by (simp add: init_tx_queue_def NUM_TX_QUEUE_ENTRIES_def size_of_desc_def ns2_def v_def del: fold_res.simps)
qed

definition init_rx_log :: "u64 \<Rightarrow> expected list" where
  "init_rx_log pa =
     [without_flags IXGBE_RXCTRL IXGBE_RXCTRL_RXEN, exactly (IXGBE_RXPBSIZE 0) IXGBE_RXPBSIZE_128KB] @
     map (\<lambda>i. exactly (IXGBE_RXPBSIZE i) 0) [1, 2, 3, 4, 5, 6, 7] @
     [with_flags IXGBE_HLREG0 IXGBE_HLREG0_RXCRCSTRP, with_flags IXGBE_RDRXCTL IXGBE_RDRXCTL_CRCSTRIP,
      with_flags IXGBE_FCTRL IXGBE_FCTRL_BAM] @
     rx_ring_log pa @
     [with_flags IXGBE_CTRL_EXT IXGBE_CTRL_EXT_NS_DIS, without_flags (IXGBE_DCA_RXCTRL 0) (push_bit 12 1),
      with_flags IXGBE_RXCTRL IXGBE_RXCTRL_RXEN]"

lemma logs_pbsize [logs_intros]:
  assumes "mapped dev"
  shows "logs (fold_res (\<lambda>i. set_reg32 dev (IXGBE_RXPBSIZE i) 0) [1, 2, 3, 4, 5, 6, 7])
      (map (\<lambda>i. exactly (IXGBE_RXPBSIZE i) 0) [1, 2, 3, 4, 5, 6, 7])"
    and "logs (fold_res (\<lambda>i. set_reg32 dev (IXGBE_TXPBSIZE i) 0) [1, 2, 3, 4, 5, 6, 7])
      (map (\<lambda>i. exactly (IXGBE_TXPBSIZE i) 0) [1, 2, 3, 4, 5, 6, 7])"
proof -
  have "logs (set_reg32 dev (IXGBE_RXPBSIZE i) 0) [exactly (IXGBE_RXPBSIZE i) 0]"
    "logs (set_reg32 dev (IXGBE_TXPBSIZE i) 0) [exactly (IXGBE_TXPBSIZE i) 0]" if "i \<in> {1, 2, 3, 4, 5, 6, 7}" for i
    using that by (auto intro!: logs_set [OF assms] simp: IXGBE_RXPBSIZE_def IXGBE_TXPBSIZE_def)
  then show "logs (fold_res (\<lambda>i. set_reg32 dev (IXGBE_RXPBSIZE i) 0) [1, 2, 3, 4, 5, 6, 7])
      (map (\<lambda>i. exactly (IXGBE_RXPBSIZE i) 0) [1, 2, 3, 4, 5, 6, 7])"
    "logs (fold_res (\<lambda>i. set_reg32 dev (IXGBE_TXPBSIZE i) 0) [1, 2, 3, 4, 5, 6, 7])
      (map (\<lambda>i. exactly (IXGBE_TXPBSIZE i) 0) [1, 2, 3, 4, 5, 6, 7])"
    using logs_for [of "[1, 2, 3, 4, 5, 6, 7]" "\<lambda>i. set_reg32 dev (IXGBE_RXPBSIZE i) 0" "\<lambda>i. [exactly (IXGBE_RXPBSIZE i) 0]"]
      logs_for [of "[1, 2, 3, 4, 5, 6, 7]" "\<lambda>i. set_reg32 dev (IXGBE_TXPBSIZE i) 0" "\<lambda>i. [exactly (IXGBE_TXPBSIZE i) 0]"]
    by (simp_all del: fold_res.simps)
qed

lemma steps_mid:
  "steps fs w = Inr w1 \<Longrightarrow> f w1 = Inr w2 \<Longrightarrow> steps gs w2 = Inr w3 \<Longrightarrow> steps (fs @ [f] @ gs) w = Inr w3"
  by (simp add: fold_res_append)

lemma init_rx_run:
  assumes m: "mapped dev" and n: "num_rx_queues dev = 1"
    and a: "dma_alloc os 8192 128 s = Inr (a, s')" "virtual_to_physical a = Inr pa"
  shows "\<exists>ns'. init_rx os H (dev, ns, s) = Inr (dev\<lparr>rx_queues := rx_queues dev @ [\<lparr>rx_descriptors = a,
      rx_num_descriptors = 512, rx_bufs_in_use = [], rx_index = 0\<rparr>]\<rparr>, ns', s') \<and> log_between ns (init_rx_log pa) ns'"
proof -
  let ?pre = "[\<lambda>dev. clear_flags32 H dev IXGBE_RXCTRL IXGBE_RXCTRL_RXEN,
         \<lambda>dev. set_reg32 dev (IXGBE_RXPBSIZE 0) IXGBE_RXPBSIZE_128KB,
         \<lambda>dev. fold_res (\<lambda>i. set_reg32 dev (IXGBE_RXPBSIZE i) 0) [1, 2, 3, 4, 5, 6, 7],
         \<lambda>dev. set_flags32 H dev IXGBE_HLREG0 IXGBE_HLREG0_RXCRCSTRP,
         \<lambda>dev. set_flags32 H dev IXGBE_RDRXCTL IXGBE_RDRXCTL_CRCSTRIP,
         \<lambda>dev. set_flags32 H dev IXGBE_FCTRL IXGBE_FCTRL_BAM]"
  let ?post = "[\<lambda>dev. set_flags32 H dev IXGBE_CTRL_EXT IXGBE_CTRL_EXT_NS_DIS,
         \<lambda>dev. fold_res (\<lambda>i. clear_flags32 H dev (IXGBE_DCA_RXCTRL i) (push_bit 12 1)) [0],
         \<lambda>dev. set_flags32 H dev IXGBE_RXCTRL IXGBE_RXCTRL_RXEN]"
  let ?dev = "dev\<lparr>rx_queues := rx_queues dev @ [\<lparr>rx_descriptors = a, rx_num_descriptors = 512, rx_bufs_in_use = [],
      rx_index = 0\<rparr>]\<rparr>"
  let ?es = "init_rx_log pa"
  have m': "mapped ?dev" using m by (simp add: mapped_def)
  have dca: "logs (fold_res (\<lambda>i. clear_flags32 H ?dev (IXGBE_DCA_RXCTRL i) (push_bit 12 1)) [0])
      [without_flags (IXGBE_DCA_RXCTRL 0) (push_bit 12 1)]"
    using logs_for [of "[0]" "\<lambda>i. clear_flags32 H ?dev (IXGBE_DCA_RXCTRL i) (push_bit 12 1)"
        "\<lambda>i. [without_flags (IXGBE_DCA_RXCTRL 0) (push_bit 12 1)]"] logs_clear [OF m', of "IXGBE_DCA_RXCTRL 0" H]
    by (simp add: IXGBE_DCA_RXCTRL_def del: fold_res.simps)
  have "\<exists>ns1. steps (map regs ?pre) (dev, ns, s) = Inr (dev, ns1, s) \<and> log_between ns (take 12 ?es) ns1 \<and>
      desc_mem ns1 = desc_mem ns"
    by (rule regs_block_log, (rule list.rel_intros logs_intros | simp add: m init_rx_log_def IXGBE_RXCTRL_def
          IXGBE_RXPBSIZE_def IXGBE_HLREG0_def IXGBE_RDRXCTL_def IXGBE_FCTRL_def del: fold_res.simps)+)
  then obtain ns1 where 1: "steps (map regs ?pre) (dev, ns, s) = Inr (dev, ns1, s)" "log_between ns (take 12 ?es) ns1"
    by blast
  obtain ns2 where 2: "init_rx_queue os H 0 (dev, ns1, s) = Inr (?dev, ns2, s')" "log_between ns1 (rx_ring_log pa) ns2"
    using init_rx_queue_run [OF m a] by blast
  have "\<exists>ns3. steps (map regs ?post) (?dev, ns2, s') = Inr (?dev, ns3, s') \<and> log_between ns2 (drop 19 ?es) ns3 \<and>
      desc_mem ns3 = desc_mem ns2"
    by (rule regs_block_log, (rule list.rel_intros logs_intros dca | simp add: m' init_rx_log_def rx_ring_log_def
          IXGBE_RXCTRL_def IXGBE_CTRL_EXT_def del: fold_res.simps)+)
  then obtain ns3 where 3: "steps (map regs ?post) (?dev, ns2, s') = Inr (?dev, ns3, s')" "log_between ns2 (drop 19 ?es) ns3"
    by blast
  have "log_between ns (take 12 ?es @ rx_ring_log pa @ drop 19 ?es) ns3"
    using log_between_trans [OF 1(2) log_between_trans [OF 2(2) 3(2)]] by simp
  moreover have "take 12 ?es @ rx_ring_log pa @ drop 19 ?es = ?es" by (simp add: init_rx_log_def rx_ring_log_def)
  moreover have "init_rx os H (dev, ns, s) =
      steps (map regs ?pre @ [fold_res (init_rx_queue os H) [0]] @ map regs ?post) (dev, ns, s)"
    by (simp add: init_rx_def n indices_one)
  moreover have "\<dots> = Inr (?dev, ns3, s')"
    by (rule steps_mid [OF 1(1) _ 3(1)]) (simp add: 2(1))
  ultimately show ?thesis by auto
qed

definition init_tx_log :: "u64 \<Rightarrow> expected list" where
  "init_tx_log pa =
     [with_flags IXGBE_HLREG0 (IXGBE_HLREG0_TXCRCEN OR IXGBE_HLREG0_TXPADEN),
      exactly (IXGBE_TXPBSIZE 0) IXGBE_TXPBSIZE_40KB] @
     map (\<lambda>i. exactly (IXGBE_TXPBSIZE i) 0) [1, 2, 3, 4, 5, 6, 7] @
     [exactly IXGBE_DTXMXSZRQ 0xffff, without_flags IXGBE_RTTDCS IXGBE_RTTDCS_ARBDIS] @
     tx_ring_log pa @ [exactly IXGBE_DMATXCTL IXGBE_DMATXCTL_TE]"

lemma init_tx_run:
  assumes m: "mapped dev" and n: "num_tx_queues dev = 1"
    and a: "dma_alloc os 8192 128 s = Inr (a, s')" "virtual_to_physical a = Inr pa"
  shows "\<exists>ns'. init_tx os H (dev, ns, s) = Inr (dev\<lparr>tx_queues := tx_queues dev @ [\<lparr>tx_descriptors = a,
      tx_num_descriptors = 512, tx_bufs_in_use = [], clean_index = 0, tx_index = 0\<rparr>]\<rparr>, ns', s') \<and>
    log_between ns (init_tx_log pa) ns'"
proof -
  let ?pre = "[\<lambda>dev. set_flags32 H dev IXGBE_HLREG0 (IXGBE_HLREG0_TXCRCEN OR IXGBE_HLREG0_TXPADEN),
         \<lambda>dev. set_reg32 dev (IXGBE_TXPBSIZE 0) IXGBE_TXPBSIZE_40KB,
         \<lambda>dev. fold_res (\<lambda>i. set_reg32 dev (IXGBE_TXPBSIZE i) 0) [1, 2, 3, 4, 5, 6, 7],
         \<lambda>dev. set_reg32 dev IXGBE_DTXMXSZRQ 0xffff,
         \<lambda>dev. clear_flags32 H dev IXGBE_RTTDCS IXGBE_RTTDCS_ARBDIS]"
  let ?post = "[\<lambda>dev. set_reg32 dev IXGBE_DMATXCTL IXGBE_DMATXCTL_TE]"
  let ?dev = "dev\<lparr>tx_queues := tx_queues dev @ [\<lparr>tx_descriptors = a, tx_num_descriptors = 512, tx_bufs_in_use = [],
      clean_index = 0, tx_index = 0\<rparr>]\<rparr>"
  let ?es = "init_tx_log pa"
  have m': "mapped ?dev" using m by (simp add: mapped_def)
  have "\<exists>ns1. steps (map regs ?pre) (dev, ns, s) = Inr (dev, ns1, s) \<and> log_between ns (take 11 ?es) ns1 \<and>
      desc_mem ns1 = desc_mem ns"
    by (rule regs_block_log, (rule list.rel_intros logs_intros | simp add: m init_tx_log_def IXGBE_HLREG0_def
          IXGBE_TXPBSIZE_def IXGBE_DTXMXSZRQ_def IXGBE_RTTDCS_def del: fold_res.simps)+)
  then obtain ns1 where 1: "steps (map regs ?pre) (dev, ns, s) = Inr (dev, ns1, s)" "log_between ns (take 11 ?es) ns1"
    by blast
  obtain ns2 where 2: "init_tx_queue os H 0 (dev, ns1, s) = Inr (?dev, ns2, s')" "log_between ns1 (tx_ring_log pa) ns2"
    using init_tx_queue_run [OF m a] by blast
  have "\<exists>ns3. steps (map regs ?post) (?dev, ns2, s') = Inr (?dev, ns3, s') \<and> log_between ns2 (drop 15 ?es) ns3 \<and>
      desc_mem ns3 = desc_mem ns2"
    by (rule regs_block_log, (rule list.rel_intros logs_intros | simp add: m' init_tx_log_def tx_ring_log_def
          IXGBE_DMATXCTL_def del: fold_res.simps)+)
  then obtain ns3 where 3: "steps (map regs ?post) (?dev, ns2, s') = Inr (?dev, ns3, s')" "log_between ns2 (drop 15 ?es) ns3"
    by blast
  have "log_between ns (take 11 ?es @ tx_ring_log pa @ drop 15 ?es) ns3"
    using log_between_trans [OF 1(2) log_between_trans [OF 2(2) 3(2)]] by simp
  moreover have "take 11 ?es @ tx_ring_log pa @ drop 15 ?es = ?es" by (simp add: init_tx_log_def tx_ring_log_def)
  moreover have "init_tx os H (dev, ns, s) =
      steps (map regs ?pre @ [fold_res (init_tx_queue os H) [0]] @ map regs ?post) (dev, ns, s)"
    by (simp add: init_tx_def n indices_one)
  moreover have "\<dots> = Inr (?dev, ns3, s')"
    by (rule steps_mid [OF 1(1) _ 3(1)]) (simp add: 2(1))
  ultimately show ?thesis by auto
qed

section \<open>Starting the queues\<close>

text \<open>A receive descriptor that hands a packet to the device.\<close>

definition rx_armed :: "hardware \<Rightarrow> ptr \<Rightarrow> desc \<Rightarrow> bool" where
  "rx_armed H p d \<longleftrightarrow> (\<exists>phys. virtual_to_physical (data_ptr H p) = Inr phys \<and> d = \<lparr>qw0 = phys, qw1 = 0\<rparr>)"

lemma fill_one:
  fixes s :: rush_eng
  assumes hw: "dma_env os H" and h: "held os (rx_bufs_in_use q) [] Z s"
    and room: "length (rx_bufs_in_use q) + card Z < PACKET_LIMIT"
  shows "\<exists>p d ns' s'. fill_rx_desc os H i (q, ns, s) = Inr (q\<lparr>rx_bufs_in_use := rx_bufs_in_use q @ [p]\<rparr>, ns', s') \<and>
    held os (rx_bufs_in_use q @ [p]) [] Z s' \<and> pkt_state.more s' = pkt_state.more s \<and> rx_armed H p d \<and>
    ns' = ns\<lparr>desc_mem := (desc_mem ns)(desc_at (rx_descriptors q) (of_nat i) := d)\<rparr>"
proof -
  let ?U = "set (rx_bufs_in_use q) \<union> Z"
  have inv: "pkt_inv os ?U s" using h by (simp add: held_def)
  have "card ?U < PACKET_LIMIT" using held_card [OF h] room by simp
  then obtain p t where al: "allocate os s = Inr (p, t)" using hw inv unfolding dma_env_def by blast
  note a = allocate_ok [OF inv al]
  have h': "held os (rx_bufs_in_use q @ [p]) [] Z t" using a h by (auto simp: held_def)
  then have "pkt_inv os (set (rx_bufs_in_use q @ [p]) \<union> Z) t" by (simp add: held_def)
  moreover have "p \<in> set (rx_bufs_in_use q @ [p]) \<union> Z" by simp
  ultimately obtain phys where ph: "virtual_to_physical (data_ptr H p) = Inr phys" using hw unfolding dma_env_def by blast
  let ?d = "\<lparr>qw0 = phys, qw1 = 0\<rparr> :: desc"
  have "rx_armed H p ?d" using ph by (simp add: rx_armed_def)
  moreover have "fill_rx_desc os H i (q, ns, s) = Inr (q\<lparr>rx_bufs_in_use := rx_bufs_in_use q @ [p]\<rparr>,
      ns\<lparr>desc_mem := (desc_mem ns)(desc_at (rx_descriptors q) (of_nat i) := ?d)\<rparr>, t)"
    by (simp add: fill_rx_desc_def al ph write_desc_def set_pkt_addr_def set_hdr_addr_def)
  ultimately show ?thesis using h' a by blast
qed

lemma fill_rx_run:
  fixes s :: rush_eng
  assumes hw: "dma_env os H" and "held os (rx_bufs_in_use q) [] Z s" and "length (rx_bufs_in_use q) = j" and "j + n \<le> 512"
    and "j + n + card Z \<le> PACKET_LIMIT"
  shows "\<exists>bufs ns' s'. fold_res (fill_rx_desc os H) [j..<j + n] (q, ns, s) =
      Inr (q\<lparr>rx_bufs_in_use := rx_bufs_in_use q @ bufs\<rparr>, ns', s') \<and>
    length bufs = n \<and> held os (rx_bufs_in_use q @ bufs) [] Z s' \<and> pkt_state.more s' = pkt_state.more s \<and>
    reg_writes ns' = reg_writes ns \<and>
    (\<forall>i < n. rx_armed H (bufs ! i) (desc_mem ns' (slot (rx_descriptors q) (j + i)))) \<and>
    (\<forall>a. (\<forall>i < n. a \<noteq> slot (rx_descriptors q) (j + i)) \<longrightarrow> desc_mem ns' a = desc_mem ns a)"
  using assms(2-)
proof (induction n arbitrary: q j ns s)
  case 0
  then show ?case by (intro exI [of _ "[]"] exI [of _ ns] exI [of _ s]) simp
next
  case (Suc n)
  obtain p d ns1 s1 where 1: "fill_rx_desc os H j (q, ns, s) = Inr (q\<lparr>rx_bufs_in_use := rx_bufs_in_use q @ [p]\<rparr>, ns1, s1)"
    "held os (rx_bufs_in_use q @ [p]) [] Z s1" "pkt_state.more s1 = pkt_state.more s" "rx_armed H p d"
    "ns1 = ns\<lparr>desc_mem := (desc_mem ns)(desc_at (rx_descriptors q) (of_nat j) := d)\<rparr>"
    using fill_one [OF hw Suc.prems(1), of j ns] Suc.prems(2,4) by auto
  let ?q = "q\<lparr>rx_bufs_in_use := rx_bufs_in_use q @ [p]\<rparr>"
  have "\<exists>bufs ns' s'. fold_res (fill_rx_desc os H) [Suc j..<Suc j + n] (?q, ns1, s1) =
      Inr (?q\<lparr>rx_bufs_in_use := rx_bufs_in_use ?q @ bufs\<rparr>, ns', s') \<and>
    length bufs = n \<and> held os (rx_bufs_in_use ?q @ bufs) [] Z s' \<and> pkt_state.more s' = pkt_state.more s1 \<and>
    reg_writes ns' = reg_writes ns1 \<and>
    (\<forall>i < n. rx_armed H (bufs ! i) (desc_mem ns' (slot (rx_descriptors ?q) (Suc j + i)))) \<and>
    (\<forall>a. (\<forall>i < n. a \<noteq> slot (rx_descriptors ?q) (Suc j + i)) \<longrightarrow> desc_mem ns' a = desc_mem ns1 a)"
    by (rule Suc.IH) (use 1(2) Suc.prems in simp_all)
  then obtain bufs ns' s' where 2: "fold_res (fill_rx_desc os H) [Suc j..<Suc j + n] (?q, ns1, s1) =
      Inr (q\<lparr>rx_bufs_in_use := (rx_bufs_in_use q @ [p]) @ bufs\<rparr>, ns', s')"
    "length bufs = n" "held os ((rx_bufs_in_use q @ [p]) @ bufs) [] Z s'" "pkt_state.more s' = pkt_state.more s1"
    "reg_writes ns' = reg_writes ns1"
    "\<forall>i < n. rx_armed H (bufs ! i) (desc_mem ns' (slot (rx_descriptors q) (Suc j + i)))"
    "\<forall>a. (\<forall>i < n. a \<noteq> slot (rx_descriptors q) (Suc j + i)) \<longrightarrow> desc_mem ns' a = desc_mem ns1 a"
    by auto
  let ?a = "slot (rx_descriptors q) j"
  have at: "?a = desc_at (rx_descriptors q) (of_nat j)" using Suc.prems(3) by simp
  have apart: "?a \<noteq> slot (rx_descriptors q) (Suc j + i)" if "i < n" for i
    using slot_next [of "Suc i" "rx_descriptors q" j] that Suc.prems(3) by simp
  then have "desc_mem ns' ?a = d" using 2(7) 1(5) at by simp
  then have armed: "rx_armed H ((p # bufs) ! i) (desc_mem ns' (slot (rx_descriptors q) (j + i)))" if "i < Suc n" for i
    using that 1(4) 2(6) by (cases i) auto
  have rest: "desc_mem ns' a = desc_mem ns a" if "\<forall>i < Suc n. a \<noteq> slot (rx_descriptors q) (j + i)" for a
  proof -
    have "a \<noteq> ?a" using that by force
    moreover have "\<forall>i < n. a \<noteq> slot (rx_descriptors q) (Suc j + i)" using that by force
    ultimately show ?thesis using 2(7) 1(5) at by simp
  qed
  have "fold_res (fill_rx_desc os H) [j..<j + Suc n] (q, ns, s) = Inr (q\<lparr>rx_bufs_in_use := rx_bufs_in_use q @ p # bufs\<rparr>, ns', s')"
    using 1(1) 2(1) by (simp add: upt_conv_Cons del: upt_Suc)
  then show ?case
    using 2(2-5) 1(3,5) armed rest by (intro exI [of _ "p # bufs"] exI [of _ ns'] exI [of _ s']) simp
qed

lemma start_rx_run:
  fixes s :: rush_eng
  assumes m: "mapped dev" and hw: "dma_env os H" "answers fuel H (IXGBE_RXDCTL 0) (\<lambda>w. w AND IXGBE_RXDCTL_ENABLE = IXGBE_RXDCTL_ENABLE)"
    and q: "rx_queues dev = [\<lparr>rx_descriptors = a, rx_num_descriptors = 512, rx_bufs_in_use = [], rx_index = 0\<rparr>]"
    and inv: "pkt_inv os U s" and room: "card U + 512 \<le> PACKET_LIMIT"
  shows "\<exists>bufs ns' s'. start_rx_queue fuel os H 0 (dev, ns, s) = Inr (Ok (dev\<lparr>rx_queues := [\<lparr>rx_descriptors = a,
      rx_num_descriptors = 512, rx_bufs_in_use = bufs, rx_index = 0\<rparr>]\<rparr>, ns', s')) \<and>
    length bufs = 512 \<and> held os bufs [] U s' \<and> pkt_state.more s' = pkt_state.more s \<and>
    log_between ns [with_flags (IXGBE_RXDCTL 0) IXGBE_RXDCTL_ENABLE, exactly (IXGBE_RDH 0) 0, exactly (IXGBE_RDT 0) 511] ns' \<and>
    (\<forall>i < 512. rx_armed H (bufs ! i) (desc_mem ns' (slot a i)))"
proof -
  let ?q = "\<lparr>rx_descriptors = a, rx_num_descriptors = 512, rx_bufs_in_use = [], rx_index = 0\<rparr>"
  have "held os (rx_bufs_in_use ?q) [] U s" using inv by (simp add: held_def)
  from fill_rx_run [OF hw(1) this, of 0 512 ns] room obtain bufs ns1 s' where 1:
    "fold_res (fill_rx_desc os H) [0..<512] (?q, ns, s) = Inr (?q\<lparr>rx_bufs_in_use := bufs\<rparr>, ns1, s')"
    "length bufs = 512" "held os bufs [] U s'" "pkt_state.more s' = pkt_state.more s" "reg_writes ns1 = reg_writes ns"
    "\<forall>i < 512. rx_armed H (bufs ! i) (desc_mem ns1 (slot a i))"
    by (auto simp del: upt.simps fold_res.simps)
  let ?dev = "dev\<lparr>rx_queues := [\<lparr>rx_descriptors = a, rx_num_descriptors = 512, rx_bufs_in_use = bufs, rx_index = 0\<rparr>]\<rparr>"
  let ?fs = "[set_flags32 H ?dev (IXGBE_RXDCTL 0) IXGBE_RXDCTL_ENABLE,
          wait_set_reg32 fuel H ?dev (IXGBE_RXDCTL 0) IXGBE_RXDCTL_ENABLE,
          set_reg32 ?dev (IXGBE_RDH 0) 0, set_reg32 ?dev (IXGBE_RDT 0) 511]"
  have m': "mapped ?dev" using m by (simp add: mapped_def)
  have "logs (steps ?fs)
      [with_flags (IXGBE_RXDCTL 0) IXGBE_RXDCTL_ENABLE, exactly (IXGBE_RDH 0) 0, exactly (IXGBE_RDT 0) 511]"
    by (rule logs_cong, rule logs_steps, (rule list.rel_intros logs_intros m' hw(2) | simp add: ring_regs)+)
  from logs_run [OF this, of ns1] obtain ns' where 2: "steps ?fs ns1 = Inr ns'" "desc_mem ns' = desc_mem ns1"
      "log_between ns1 [with_flags (IXGBE_RXDCTL 0) IXGBE_RXDCTL_ENABLE, exactly (IXGBE_RDH 0) 0, exactly (IXGBE_RDT 0) 511] ns'"
    by blast
  have "start_rx_queue fuel os H 0 (dev, ns, s) = Inr (Ok (?dev, ns', s'))"
    using 1(1) 2(1) by (simp add: start_rx_queue_def q vec_get_def del: fold_res.simps upt.simps)
  then show ?thesis
    using 1(2-6) 2(2,3) by (intro exI [of _ bufs] exI [of _ ns'] exI [of _ s']) (simp add: log_between_def)
qed

lemma start_tx_run:
  assumes m: "mapped dev" and hw: "answers fuel H (IXGBE_TXDCTL 0) (\<lambda>w. w AND IXGBE_TXDCTL_ENABLE = IXGBE_TXDCTL_ENABLE)"
    and q: "tx_queues dev = [x]" "tx_num_descriptors x = 512"
  shows "\<exists>ns'. start_tx_queue fuel H 0 (dev, ns, s) = Inr (Ok (dev, ns', s)) \<and> desc_mem ns' = desc_mem ns \<and>
    log_between ns [exactly (IXGBE_TDH 0) 0, exactly (IXGBE_TDT 0) 0, with_flags (IXGBE_TXDCTL 0) IXGBE_TXDCTL_ENABLE] ns'"
proof -
  let ?fs = "[set_reg32 dev (IXGBE_TDH 0) 0, set_reg32 dev (IXGBE_TDT 0) 0,
          set_flags32 H dev (IXGBE_TXDCTL 0) IXGBE_TXDCTL_ENABLE,
          wait_set_reg32 fuel H dev (IXGBE_TXDCTL 0) IXGBE_TXDCTL_ENABLE]"
  have "logs (steps ?fs)
      [exactly (IXGBE_TDH 0) 0, exactly (IXGBE_TDT 0) 0, with_flags (IXGBE_TXDCTL 0) IXGBE_TXDCTL_ENABLE]"
    by (rule logs_cong, rule logs_steps, (rule list.rel_intros logs_intros m hw | simp add: ring_regs)+)
  from logs_run [OF this, of ns] show ?thesis
    by (auto simp: start_tx_queue_def q vec_get_def simp del: fold_res.simps)
qed

section \<open>The whole initialisation\<close>

text \<open>A card that answers in time.\<close>

definition responsive :: "nat \<Rightarrow> hardware \<Rightarrow> bool" where
  "responsive fuel H \<longleftrightarrow>
     answers fuel H IXGBE_CTRL (\<lambda>w. w AND IXGBE_CTRL_RST_MASK = 0) \<and>
     answers fuel H IXGBE_EEC (\<lambda>w. w AND IXGBE_EEC_ARD = IXGBE_EEC_ARD) \<and>
     answers fuel H IXGBE_RDRXCTL (\<lambda>w. w AND IXGBE_RDRXCTL_DMAIDONE = IXGBE_RDRXCTL_DMAIDONE) \<and>
     answers fuel H (IXGBE_RXDCTL 0) (\<lambda>w. w AND IXGBE_RXDCTL_ENABLE = IXGBE_RXDCTL_ENABLE) \<and>
     answers fuel H (IXGBE_TXDCTL 0) (\<lambda>w. w AND IXGBE_TXDCTL_ENABLE = IXGBE_TXDCTL_ENABLE) \<and> timely fuel H"

text \<open>The registers written, in order, with the rings at two physical addresses.\<close>

definition reset_log :: "expected list" where
  "reset_log =
     [exactly IXGBE_EIMS 0, exactly IXGBE_EIMC IXGBE_IRQ_CLEAR_MASK, exactly IXGBE_CTRL IXGBE_CTRL_RST_MASK,
      exactly IXGBE_EIMS 0, exactly IXGBE_EIMC IXGBE_IRQ_CLEAR_MASK,
      with_flags IXGBE_AUTOC IXGBE_AUTOC_LMS_10G_SERIAL, with_flags IXGBE_AUTOC IXGBE_AUTOC_10G_XAUI,
      with_flags IXGBE_AUTOC IXGBE_AUTOC_AN_RESTART]"

definition init_log :: "u64 \<Rightarrow> u64 \<Rightarrow> expected list" where
  "init_log pa pb =
     reset_log @ init_rx_log pa @ init_tx_log pb @
     [with_flags (IXGBE_RXDCTL 0) IXGBE_RXDCTL_ENABLE, exactly (IXGBE_RDH 0) 0, exactly (IXGBE_RDT 0) 511] @
     [exactly (IXGBE_TDH 0) 0, exactly (IXGBE_TDT 0) 0, with_flags (IXGBE_TXDCTL 0) IXGBE_TXDCTL_ENABLE] @
     [with_flags IXGBE_FCTRL (IXGBE_FCTRL_MPE OR IXGBE_FCTRL_UPE)]"

lemma reset_run:
  assumes m: "mapped dev" and hw: "responsive fuel H"
  shows "\<exists>ns'. steps (map regs
       [disable_interrupts H, \<lambda>dev. set_reg32 dev IXGBE_CTRL IXGBE_CTRL_RST_MASK,
        \<lambda>dev. wait_clear_reg32 fuel H dev IXGBE_CTRL IXGBE_CTRL_RST_MASK, disable_interrupts H,
        \<lambda>dev ns. bind_res (get_mac_addr H dev ns) (\<lambda>(_, ns). Inr ns),
        \<lambda>dev. wait_set_reg32 fuel H dev IXGBE_EEC IXGBE_EEC_ARD,
        \<lambda>dev. wait_set_reg32 fuel H dev IXGBE_RDRXCTL IXGBE_RDRXCTL_DMAIDONE,
        init_link H, reset_stats H]) (dev, ns, s) = Inr (dev, ns', s) \<and> log_between ns reset_log ns' \<and> desc_mem ns' = desc_mem ns"
proof -
  have hw': "answers fuel H IXGBE_CTRL (\<lambda>w. w AND IXGBE_CTRL_RST_MASK = 0)"
    "answers fuel H IXGBE_EEC (\<lambda>w. w AND IXGBE_EEC_ARD = IXGBE_EEC_ARD)"
    "answers fuel H IXGBE_RDRXCTL (\<lambda>w. w AND IXGBE_RDRXCTL_DMAIDONE = IXGBE_RDRXCTL_DMAIDONE)"
    using hw by (simp_all add: responsive_def)
  show ?thesis
    by (rule regs_block_log, (rule list.rel_intros logs_intros m hw' | simp add: reset_log_def
          IXGBE_CTRL_def IXGBE_EEC_def IXGBE_RDRXCTL_def)+)
qed

lemma huge_page_size_more: "huge_page_size os s = Inr (n, s') \<Longrightarrow> mem_state.more s' = mem_state.more s"
  by (auto simp: huge_page_size_def bind_res_eq_Inr split: option.splits)

lemma next_chunk_more:
  assumes "allocate_next_chunk os s = Inr s'"
  shows "mem_state.more s' = mem_state.more s"
proof -
  obtain p t n u where t: "allocate_hugetlb_chunk os s = Inr (p, t)" and u: "huge_page_size os t = Inr (n, u)"
    and s': "mem_state.more s' = mem_state.more u"
    using assms by (auto simp: allocate_next_chunk_def bind_res_eq_Inr)
  have "mem_state.more t = mem_state.more s"
    using t huge_page_size_more [of os s] by (auto simp: allocate_hugetlb_chunk_def bind_res_eq_Inr split: sum.splits)
  then show ?thesis using s' huge_page_size_more [OF u] by simp
qed

lemma dma_alloc_more:
  assumes "dma_alloc os bytes algn s = Inr (p, s')"
  shows "mem_state.more s' = mem_state.more s"
proof -
  obtain hps s1 s2 s3 u where 1: "huge_page_size os s = Inr (hps, s1)"
    and 2: "(if CHUNKS s1 = [] then allocate_next_chunk os s1 else Inr s1) = Inr s2"
    and 3: "(if chunk_size (last (CHUNKS s2)) < u + bytes
        then allocate_next_chunk os (s2\<lparr>CHUNKS := set_last (CHUNKS s2) ((last (CHUNKS s2))\<lparr>used := u\<rparr>)\<rparr>)
        else Inr (s2\<lparr>CHUNKS := set_last (CHUNKS s2) ((last (CHUNKS s2))\<lparr>used := u\<rparr>)\<rparr>)) = Inr s3"
    and 4: "mem_state.more s' = mem_state.more s3"
    using assms by (auto simp: dma_alloc_def Let_def bind_res_eq_Inr)
  have "mem_state.more s2 = mem_state.more s1" using 2 next_chunk_more [of os s1 s2] by (auto split: if_splits)
  moreover have "mem_state.more s3 = mem_state.more s2" using 3 next_chunk_more by (fastforce split: if_splits)
  ultimately show ?thesis using huge_page_size_more [OF 1] 4 by simp
qed

text \<open>Memory for rings does not disturb the packets, whatever they are made of.\<close>

lemma ring_alloc_inv:
  assumes inv: "pkt_inv os U s" and run: "dma_alloc os bytes 128 s = Inr (p, s')"
  shows "pkt_inv os U s' \<and> pkt_state.more s' = pkt_state.more s"
proof (cases "os_uid os = 0")
  case True
  then show ?thesis using dma_alloc_inv [OF inv _ _ run] by simp
next
  case False
  note same = mem_more_fields [OF dma_alloc_more [OF run]]
  have "noroot_region os s' = noroot_region os s" "noroot_ok os s' = noroot_ok os s" "FL_set s' = FL_set s"
    using same by (simp_all add: noroot_region_def noroot_ok_def FL_set_def)
  then show ?thesis
    using inv False same by (auto simp: pkt_inv_def pool_def packet_ok_def packet_region_def heap_wf_def steps_ok_def)
qed

lemma bind_try_run: "bind_try (Inr (Ok x)) f = f x"
  by (simp add: bind_try_def)

lemma reset_and_init_run:
  fixes s :: rush_eng
  assumes m: "mapped dev" and dev: "num_rx_queues dev = 1" "num_tx_queues dev = 1" "rx_queues dev = []" "tx_queues dev = []"
    and hw: "responsive fuel H" "dma_env os H" and inv: "pkt_inv os U s" and room: "card U + 512 \<le> PACKET_LIMIT"
    and a: "dma_alloc os 8192 128 s = Inr (a, s1)" "virtual_to_physical a = Inr pa"
    and b: "dma_alloc os 8192 128 s1 = Inr (b, s2)" "virtual_to_physical b = Inr pb"
  shows "\<exists>bufs ns' s'. reset_and_init fuel os H (dev, ns, s) = Inr (Ok (dev\<lparr>
      tx_queues := [\<lparr>tx_descriptors = b, tx_num_descriptors = 512, tx_bufs_in_use = [], clean_index = 0, tx_index = 0\<rparr>],
      rx_queues := [\<lparr>rx_descriptors = a, rx_num_descriptors = 512, rx_bufs_in_use = bufs, rx_index = 0\<rparr>]\<rparr>,
      ns', s')) \<and>
    length bufs = 512 \<and> held os bufs [] U s' \<and> pkt_state.more s' = pkt_state.more s \<and>
    log_between ns (init_log pa pb) ns' \<and> (\<forall>i < 512. rx_armed H (bufs ! i) (desc_mem ns' (slot a i)))"
proof -
  let ?x = "\<lparr>tx_descriptors = b, tx_num_descriptors = 512, tx_bufs_in_use = [], clean_index = 0, tx_index = 0\<rparr>"
  let ?q = "\<lambda>bufs. \<lparr>rx_descriptors = a, rx_num_descriptors = 512, rx_bufs_in_use = bufs, rx_index = 0\<rparr>"
  let ?d1 = "dev\<lparr>rx_queues := [?q []]\<rparr>" and ?d2 = "dev\<lparr>rx_queues := [?q []], tx_queues := [?x]\<rparr>"
  let ?d3 = "\<lambda>bufs. dev\<lparr>tx_queues := [?x], rx_queues := [?q bufs]\<rparr>"
  have i1: "pkt_inv os U s1" "pkt_state.more s1 = pkt_state.more s" using ring_alloc_inv [OF inv a(1)] by simp_all
  have i2: "pkt_inv os U s2" "pkt_state.more s2 = pkt_state.more s1" using ring_alloc_inv [OF i1(1) b(1)] by simp_all
  have md: "mapped ?d1" "mapped ?d2" "\<And>bufs. mapped (?d3 bufs)" using m by (simp_all add: mapped_def)
  note hw' = hw(1) [unfolded responsive_def]
  obtain ns1 where 1: "steps (map regs
       [disable_interrupts H, \<lambda>dev. set_reg32 dev IXGBE_CTRL IXGBE_CTRL_RST_MASK,
        \<lambda>dev. wait_clear_reg32 fuel H dev IXGBE_CTRL IXGBE_CTRL_RST_MASK, disable_interrupts H,
        \<lambda>dev ns. bind_res (get_mac_addr H dev ns) (\<lambda>(_, ns). Inr ns),
        \<lambda>dev. wait_set_reg32 fuel H dev IXGBE_EEC IXGBE_EEC_ARD,
        \<lambda>dev. wait_set_reg32 fuel H dev IXGBE_RDRXCTL IXGBE_RDRXCTL_DMAIDONE,
        init_link H, reset_stats H]) (dev, ns, s) = Inr (dev, ns1, s)" "log_between ns reset_log ns1"
    using reset_run [OF m hw(1)] by blast
  obtain ns2 where 2: "init_rx os H (dev, ns1, s) = Inr (?d1, ns2, s1)" "log_between ns1 (init_rx_log pa) ns2"
    using init_rx_run [OF m dev(1) a] dev(3) by auto
  obtain ns3 where 3: "init_tx os H (?d1, ns2, s1) = Inr (?d2, ns3, s2)" "log_between ns2 (init_tx_log pb) ns3"
    using init_tx_run [OF md(1) _ b] dev(2,4) by auto
  obtain bufs ns4 s' where 4: "start_rx_queue fuel os H 0 (?d2, ns3, s2) = Inr (Ok (?d3 bufs, ns4, s'))"
    "length bufs = 512" "held os bufs [] U s'" "pkt_state.more s' = pkt_state.more s2"
    "log_between ns3 [with_flags (IXGBE_RXDCTL 0) IXGBE_RXDCTL_ENABLE, exactly (IXGBE_RDH 0) 0, exactly (IXGBE_RDT 0) 511] ns4"
    "\<forall>i < 512. rx_armed H (bufs ! i) (desc_mem ns4 (slot a i))"
    using start_rx_run [OF md(2) hw(2) _ _ i2(1) room, of fuel a ns3] hw' by auto
  obtain ns5 where 5: "start_tx_queue fuel H 0 (?d3 bufs, ns4, s') = Inr (Ok (?d3 bufs, ns5, s'))" "desc_mem ns5 = desc_mem ns4"
    "log_between ns4 [exactly (IXGBE_TDH 0) 0, exactly (IXGBE_TDT 0) 0, with_flags (IXGBE_TXDCTL 0) IXGBE_TXDCTL_ENABLE] ns5"
    using start_tx_run [OF md(3) [of bufs], of fuel H ?x ns4 s'] hw' by auto
  have "\<exists>ns6. steps (map regs [\<lambda>dev. set_promisc H dev True, wait_for_link fuel H]) (?d3 bufs, ns5, s') = Inr (?d3 bufs, ns6, s') \<and>
      log_between ns5 [with_flags IXGBE_FCTRL (IXGBE_FCTRL_MPE OR IXGBE_FCTRL_UPE)] ns6 \<and> desc_mem ns6 = desc_mem ns5"
    by (rule regs_block_log, (rule list.rel_intros logs_intros md(3) | simp add: hw')+)
  then obtain ns6 where 6: "steps (map regs [\<lambda>dev. set_promisc H dev True, wait_for_link fuel H]) (?d3 bufs, ns5, s') = Inr (?d3 bufs, ns6, s')"
    "log_between ns5 [with_flags IXGBE_FCTRL (IXGBE_FCTRL_MPE OR IXGBE_FCTRL_UPE)] ns6" "desc_mem ns6 = desc_mem ns5" by blast
  have log: "log_between ns (init_log pa pb) ns6"
    unfolding init_log_def
    by (intro log_between_trans [OF 1(2)] log_between_trans [OF 2(2)] log_between_trans [OF 3(2)]
        log_between_trans [OF 4(5)] log_between_trans [OF 5(3)] 6(2))
  have "steps (map regs
       [disable_interrupts H, \<lambda>dev. set_reg32 dev IXGBE_CTRL IXGBE_CTRL_RST_MASK,
        \<lambda>dev. wait_clear_reg32 fuel H dev IXGBE_CTRL IXGBE_CTRL_RST_MASK, disable_interrupts H,
        \<lambda>dev ns. bind_res (get_mac_addr H dev ns) (\<lambda>(_, ns). Inr ns),
        \<lambda>dev. wait_set_reg32 fuel H dev IXGBE_EEC IXGBE_EEC_ARD,
        \<lambda>dev. wait_set_reg32 fuel H dev IXGBE_RDRXCTL IXGBE_RDRXCTL_DMAIDONE,
        init_link H, reset_stats H] @ [init_rx os H] @ [init_tx os H]) (dev, ns, s) = Inr (?d2, ns3, s2)"
    by (rule steps_mid [OF 1(1)], rule 2(1)) (simp add: 3(1))
  then have "reset_and_init fuel os H (dev, ns, s) = Inr (Ok (?d3 bufs, ns6, s'))"
    using 4(1) 5(1) 6(1) dev
    by (simp add: reset_and_init_def ok_res_def bind_try_run indices_one bind_try_def del: fold_res.simps)
  then show ?thesis
    using 4(2,3,6) 4(4) i1(2) i2(2) 5(2) 6(3) log by (intro exI [of _ bufs] exI [of _ ns6] exI [of _ s']) simp
qed

section \<open>Reading the log\<close>

text \<open>The last value written to a register.\<close>

definition last_write :: "nic \<Rightarrow> u32 \<Rightarrow> u32 option" where
  "last_write ns r = map_of (rev (reg_writes ns)) r"

lemma conforms_last:
  assumes "conforms ws es" and "map_of (rev es) r = Some P"
  shows "\<exists>v. map_of (rev ws) r = Some v \<and> P v"
proof -
  have "list_all2 (\<lambda>(r, v) (r', P). r = r' \<and> P v) (rev ws) (rev es)"
    using assms(1) by (simp add: conforms_def)
  then show ?thesis using assms(2) by (induction rule: list_all2_induct) (auto split: if_splits)
qed

lemma log_between_last:
  assumes "log_between ns es ns'" and "map_of (rev es) r = Some P"
  shows "\<exists>v. last_write ns' r = Some v \<and> P v"
  using assms conforms_last [of _ es r P] by (fastforce simp: log_between_def last_write_def map_add_Some_iff)

lemmas init_log_simps = init_log_def reset_log_def init_rx_log_def init_tx_log_def rx_ring_log_def tx_ring_log_def

lemma init_log_exact:
  "map_of (rev (init_log pa pb)) (IXGBE_RDBAL 0) = Some (\<lambda>w. w = ucast (pa AND 0xffffffff))"
  "map_of (rev (init_log pa pb)) (IXGBE_RDBAH 0) = Some (\<lambda>w. w = ucast (drop_bit 32 pa))"
  "map_of (rev (init_log pa pb)) (IXGBE_RDLEN 0) = Some (\<lambda>w. w = 8192)"
  "map_of (rev (init_log pa pb)) (IXGBE_RDT 0) = Some (\<lambda>w. w = 511)"
  "map_of (rev (init_log pa pb)) (IXGBE_TDBAL 0) = Some (\<lambda>w. w = ucast (pb AND 0xffffffff))"
  "map_of (rev (init_log pa pb)) (IXGBE_TDBAH 0) = Some (\<lambda>w. w = ucast (drop_bit 32 pb))"
  "map_of (rev (init_log pa pb)) (IXGBE_TDLEN 0) = Some (\<lambda>w. w = 8192)"
  "map_of (rev (init_log pa pb)) (IXGBE_TDT 0) = Some (\<lambda>w. w = 0)"
  by (simp_all add: init_log_simps ring_regs IXGBE_FCTRL_def IXGBE_DMATXCTL_def IXGBE_RTTDCS_def IXGBE_DTXMXSZRQ_def
      IXGBE_TXPBSIZE_def IXGBE_HLREG0_def IXGBE_RXCTRL_def IXGBE_DCA_RXCTRL_def IXGBE_CTRL_EXT_def)

lemma init_log_flags:
  "map_of (rev (init_log pa pb)) IXGBE_RXCTRL = Some (\<lambda>w. w AND IXGBE_RXCTRL_RXEN = IXGBE_RXCTRL_RXEN)"
  "map_of (rev (init_log pa pb)) IXGBE_DMATXCTL = Some (\<lambda>w. w = IXGBE_DMATXCTL_TE)"
  "map_of (rev (init_log pa pb)) IXGBE_EIMS = Some (\<lambda>w. w = 0)"
  by (simp_all add: init_log_simps ring_regs IXGBE_FCTRL_def IXGBE_DMATXCTL_def IXGBE_RTTDCS_def IXGBE_DTXMXSZRQ_def
      IXGBE_TXPBSIZE_def IXGBE_RXPBSIZE_def IXGBE_HLREG0_def IXGBE_RXCTRL_def IXGBE_DCA_RXCTRL_def IXGBE_CTRL_EXT_def
      IXGBE_RDRXCTL_def IXGBE_AUTOC_def IXGBE_EIMS_def IXGBE_EIMC_def)

section \<open>A card to initialise\<close>

text \<open>For an instance: packets as before, 2 MB pages for the rings, a card that answers at once.\<close>

definition ring_os :: os where
  "ring_os = nic_os\<lparr>os_meminfo := os_meminfo sample_root, os_hugepage := sample_pages\<rparr>"

definition ready_hw :: hardware where
  "ready_hw = sample_hw\<lparr>hw_reg := (\<lambda>_ _ r. if r = IXGBE_CTRL then 0 else 0xffffffff)\<rparr>"

definition new_card :: IxgbeDevice where
  "new_card = \<lparr>pci_addr = ''0000:01:00.0'', dev_addr = 0x7f0000000000, dev_len = 0x20000, num_rx_queues = 1,
     num_tx_queues = 1, rx_queues = [], tx_queues = []\<rparr>"

lemma ring_os_inv: "pkt_inv ring_os U s \<longleftrightarrow> pkt_inv nic_os U s"
proof -
  have "packet_region ring_os s = packet_region nic_os s" "packet_ok ring_os s = packet_ok nic_os s"
    by (simp_all add: packet_region_def packet_ok_def noroot_region_def noroot_ok_def box_env_def ring_os_def
        nic_os_def sample_os_def)
  then show ?thesis by (simp add: pkt_inv_def pool_def)
qed

lemma ring_env: "dma_env ring_os ready_hw"
proof -
  have "data_ptr ready_hw = data_ptr sample_hw" by (simp add: data_ptr_def ready_hw_def fun_eq_iff)
  then have "\<exists>phys. virtual_to_physical (data_ptr ready_hw p) = Inr phys" if "pkt_inv ring_os U (t :: rush_eng)" "p \<in> U" for U t p
    using nic_dma [of U t p] that by (simp add: ring_os_inv)
  moreover have "\<exists>p t'. allocate ring_os t = Inr (p, t')" if "pkt_inv ring_os U (t :: rush_eng)" "card U < PACKET_LIMIT" for U t
    using that(1) _ _ that(2) by (rule allocate_noroot) (simp_all add: ring_os_def nic_os_def sample_os_def)
  ultimately show ?thesis unfolding dma_env_def by blast
qed

lemma ready_responsive: "responsive 10 ready_hw"
  unfolding responsive_def answers_def timely_def
  by (intro conjI allI exI [of _ "0 :: nat"])
    (simp_all add: ready_hw_def sample_hw_def IXGBE_CTRL_def IXGBE_EEC_def IXGBE_RDRXCTL_def ring_regs
      IXGBE_EEC_ARD_def IXGBE_RDRXCTL_DMAIDONE_def IXGBE_RXDCTL_ENABLE_def IXGBE_TXDCTL_ENABLE_def)

lemma ring_start_inv: "pkt_inv ring_os {} (eng_init zero_heap :: rush_eng)"
proof -
  have "owned rush_owns (eng_init zero_heap :: rush_eng) = {}" "on_links (eng_init zero_heap :: rush_eng) = {}"
    by (simp_all add: owned_def own_at_def on_links_def fifo_at_def eng_init_simps)
  then show ?thesis using card_start by (simp add: net_inv_def eng_inv_def ring_os_inv)
qed

lemma ring_page_size: "get_huge_page_size ring_os = Inr 2097152"
  using sample_root_page_size by (simp add: get_huge_page_size_def ring_os_def)

lemma ring_blocks:
  "\<exists>s1 s2. dma_alloc ring_os 8192 128 (eng_init zero_heap :: rush_eng) = Inr (0x500000200000, s1) \<and>
     dma_alloc ring_os 8192 128 s1 = Inr (0x500000202000, s2)"
proof -
  have pages: "os_hugepage ring_os = sample_pages" by (simp add: ring_os_def)
  show ?thesis
    by (simp add: eng_init_simps dma_alloc_def huge_page_size_def ring_page_size allocate_next_chunk_def
        allocate_hugetlb_chunk_def allocate_huge_page_def ensure_hugetlbfs_def pages
        sample_pages_def resolve_physical_def MAP_FAILED_def align_def Let_def set_last_def TAG_def)
qed

section \<open>Initialisation\<close>



end
