(* ===== verification/Spec2Isabelle.thy ===== *)
theory Spec2Isabelle
  imports Rush_Lib_Correct Rush_Order_Test Rush_Selftest Rush_Header_Correct Rush_Pci_Correct
    Rush_Layout_Correct Rush_Fields_Correct Rush_Flags_Correct Rush_Init_Correct
begin

text \<open>
  A verification of rush, a packet networking engine written in Rust. The sources are under
  \<open>src/src/\<close>; file names below are relative to it.

  \<^bold>\<open>The program.\<close> A network of apps is described by a configuration (\<open>config.rs\<close>).
  The engine (\<open>engine.rs\<close>) brings its table of apps and links to the configuration, computes an
  order, and then breathes: it calls the pull callback of every app that takes packets in, then the push
  callbacks in that order. Apps (\<open>basic_apps.rs\<close>, \<open>ixy82599_app.rs\<close>) move packets over
  links (\<open>link.rs\<close>), rings of 1024 slots, and take packets from and return them to a freelist
  (\<open>packet.rs\<close>), which is filled from DMA memory in huge pages or from the heap
  (\<open>memory.rs\<close>). Network cards are driven from user space (\<open>ixy82599/\<close>): the
  configuration space through files, the registers and two rings of descriptors through shared memory.
  Beside these there are the Internet checksum in assembly (\<open>checksum.rs\<close>), views of Ethernet
  headers (\<open>header.rs\<close>, \<open>ethernet.rs\<close>) and utilities (\<open>lib.rs\<close>).

  \<^bold>\<open>How it is modelled.\<close> Machine integers are words of their width and wrap as in a release
  build. A panic is a value of the sum type \<open>res\<close> (\<open>Inl\<close> the error); a \<open>Result\<close> of
  the program is the datatype \<open>result\<close> inside it. State is passed explicitly: the records
  \<open>mem_state\<close>, \<open>pkt_state\<close> and \<open>eng\<close> extend each other and hold the static variables
  of the modules, with a heap of packets by address, and links by identity. What is outside the program is
  a parameter: the results of system calls (\<open>os\<close>), files (\<open>sysfs\<close>, \<open>files\<close>), the clock
  (\<open>env_clk\<close>), the iteration order of hash tables (\<open>hash_order\<close>), and the card
  (\<open>hardware\<close>), which answers register reads and, before a volatile read of a descriptor, may have
  written descriptors and packets.

  \<^bold>\<open>The theories.\<close>

  \<^item> \<open>Rush_Prelude\<close>: types, panics, folds that may panic, association lists, facts on words.
  \<^item> \<open>Rush_Regex\<close>, \<open>Rush_Lib\<close> (\<open>lib.rs\<close>): the regular expressions the program uses
    and their matcher; fill, copy, align, byte order, \<open>comma_value\<close>. \<open>Rush_Lib_Correct\<close>:
    repeated substitution with the two expressions puts the commas where a direct definition has them.
  \<^item> \<open>Rush_Config\<close> (\<open>config.rs\<close>): configurations and the link syntax. A printed
    specification parses to itself, and configurations stay well formed.
  \<^item> \<open>Rush_Checksum\<close>, \<open>Rush_Checksum_Correct\<close> (\<open>checksum.rs\<close>): both assembly
    routines, instruction by instruction, with the carry flag; they compute the ones' complement sum of
    RFC 1071 for every length and start value, and so agree with the Rust routine.
  \<^item> \<open>Rush_Memory\<close>, \<open>Rush_Memory_Correct\<close> (\<open>memory.rs\<close>): DMA blocks are aligned, inside
    one page and disjoint; addresses translate to physical ones.
  \<^item> \<open>Rush_Packet\<close>, \<open>Rush_Packet_Correct\<close> (\<open>packet.rs\<close>): the locale
    \<open>packet_source\<close> says what a constructor of packets promises; it is interpreted for both
    constructors. The invariant \<open>pkt_inv os U s\<close> says that the packets are exactly those on the
    freelist and those in use (\<open>U\<close>), none overlapping another.
  \<^item> \<open>Rush_Link\<close>, \<open>Rush_Link_Correct\<close> (\<open>link.rs\<close>): the locale \<open>bounded_fifo\<close> is
    the contract of a queue of at most 1023 packets, interpreted on the ring; any interleaving of
    operations does what it does to a list.
  \<^item> \<open>Rush_Engine\<close>, \<open>Rush_Engine_Run\<close> (\<open>engine.rs\<close>): the tables, \<open>configure\<close>
    and the breathe order; breaths, the main loop and the reports. \<open>Rush_Engine_Order\<close>: the order
    lists exactly the reachable push apps. \<open>Rush_Engine_Inv\<close>, \<open>Rush_App_Contract\<close>,
    \<open>Rush_Engine_Configure\<close>: the invariant of a network, and the locale \<open>app_contract\<close>, what
    the engine relies on its apps for; over it, breaths, the main loop and \<open>configure\<close> keep the
    network well formed.
  \<^item> \<open>Rush_Basic_Apps\<close>, \<open>Rush_Basic_Apps_Correct\<close> (\<open>basic_apps.rs\<close>): Source, Sink and
    Tee, and their interpretation of the contract. \<open>Rush_Network\<close>: the properties of networks of
    these apps, with the network of the engine's own test as the instance. \<open>Rush_Tee_Correct\<close>: Tee
    copies every packet of every input to every output, in order.
  \<^item> \<open>Rush_Engine_Total\<close>, \<open>Rush_Engine_Wiring\<close>, \<open>Rush_Breathe_Total\<close>: the locale
    \<open>lasting_contract\<close> extends \<open>app_contract\<close> by apps that start and stop without fail; over it,
    \<open>configure\<close> returns and wires exactly the configured links. Links bound the packets in use, so
    configured networks of the basic apps breathe and run the main loop without panic.
  \<^item> \<open>Rush_Selftest\<close>: the tests of \<open>packet.rs\<close>, \<open>link.rs\<close>, \<open>checksum.rs\<close>,
    \<open>config.rs\<close> and \<open>ethernet.rs\<close> as programs over the model, and that they pass.
    \<open>Rush_Order_Test\<close>: the test \<open>breathe_order\<close> of \<open>engine.rs\<close>, with the order it prints.
  \<^item> \<open>Rush_Header\<close>, \<open>Rush_Header_Correct\<close> (\<open>header.rs\<close>, \<open>ethernet.rs\<close>): the
    fields of a header on machines of either byte order, and addresses as text.
  \<^item> \<open>Rush_Registers\<close>, \<open>Rush_Registers_Correct\<close> (\<open>ixy82599/constants.rs\<close>): the register
    map of the card and the constants of its registers; offsets are aligned, in the resource, and those of
    different queues are disjoint. \<open>Rush_Fields\<close>, \<open>Rush_Fields_Correct\<close>: masks and shifts of the
    fields of registers, registers of virtual functions and the delay values of flow control; writing a field
    and reading it gives the value and keeps the other fields. \<open>Rush_Flags\<close>,
    \<open>Rush_Flags_Correct\<close>: the flags of 73 registers, interrupt causes and device ids; flags of one
    register are independent, and the four interrupt registers agree. \<open>Rush_Layout\<close>,
    \<open>Rush_Layout_Correct\<close>: every structure, union and enumeration as a type description with the C
    layout; the members are inside, aligned and disjoint, and the driver's accesses to descriptors are
    accesses to the declared members.
  \<^item> \<open>Rush_Pci\<close>, \<open>Rush_Pci_Correct\<close> (\<open>ixy82599/pci.rs\<close>): the configuration space.
  \<^item> \<open>Rush_Ixgbe\<close>, \<open>Rush_Ixgbe_Init\<close> (\<open>ixy82599/ixgbe.rs\<close>, \<open>ixy82599/mod.rs\<close>): the
    driver's operation and its initialisation. \<open>Rush_Ixgbe_Regs\<close>: register accesses, waiting and
    MAC addresses. \<open>Rush_Ixgbe_Correct\<close>, \<open>Rush_Ixgbe_Batch\<close>: the two rings; which packets a
    batch moves, in which order, and that packets are freed only when the card is done with them.
  \<^item> \<open>Rush_Ixy_App\<close>, \<open>Rush_Ixy_Correct\<close> (\<open>ixy82599_app.rs\<close>): the app of a card, the
    table of the methods of all apps, and its interpretation of the contract: with cards, too, a breath
    conserves packets. A card holds the packets of its queues between two callbacks.
    \<open>Rush_Forward\<close>: a breath carries what one card received over the link into the transmit ring of
    another, in order. \<open>Rush_Init_Correct\<close>: initialisation returns on a card that answers, with the
    rings allocated, the receive ring filled and the registers programmed accordingly.

  \<^bold>\<open>Bounds and fuel.\<close> Loops that drain a link get 1024 rounds, more than a link holds; cleaning
  the transmit ring gets as many rounds as there are descriptors and each but the last frees 32 of them;
  for both, running out is excluded by proof. The breathe order is a \<open>function\<close> with a termination
  proof. The main loop and the loops that wait for the card take a number of rounds; that there is one that
  is enough is proved where the clock passes the deadline, and where the card responds.

  Networks with at most 499 links (\<open>LINK_LIMIT\<close>) cannot have more packets on their links than a process
  can allocate, which is where the assumption on the number of links comes from.

  \<^bold>\<open>Not modelled.\<close> The columns of the load report in floating point (their integer inputs are kept)
  and the rates in \<open>ixy82599/mod.rs\<close>, with the delegation of the device trait to boxed devices; sleeping;
  the tests \<open>engine\<close> and \<open>ixy_send_recv\<close>, with its packet generator, which assert nothing, and the
  benchmarks; plain numbers of \<open>ixy82599/constants.rs\<close> that no code uses (PHY ids and registers, EEPROM
  words, error codes, values of fields) and the macros that the file itself marks as unsupported; \<open>main.rs\<close>, which prints a line. The register map is a log of writes and an arbitrary
  device: what the card does with its configuration is not modelled.
\<close>

end
